(* ===== verification/Prelude.thy ===== *)
theory Prelude imports Complex_Main begin

text \<open>
  Shared vocabulary of the development: the exceptions the program raises, the shape of a
  stateful Python routine that may raise, the few facts about Python numbers the components
  use, and generic lemmas on lists and maps.

  A routine is a function from the state to a result and the state it leaves behind: an
  exception is a value of the result, and the state reached when it was raised is kept, since
  Python does not roll anything back. Floats are modelled as exact rationals; the one infinity
  the code uses is a constructor of its own.
\<close>

named_theorems prog_simps \<open>evaluation of the routine combinators\<close>
named_theorems stable_rules \<open>predicates that routines keep, by the shape of the routine\<close>
named_theorems law_simps \<open>laws of the external services, oriented for rewriting\<close>

section \<open>Exceptions\<close>

text \<open>
  The exceptions of \<^verbatim>\<open>app/utils/exc.py\<close>, the builtin ones the code raises or catches, and
  those of rq, pydantic and FastAPI that the code names. Messages carry no behaviour and are
  dropped, except for the job id that a post-processing error carries and the status code of an
  HTTP error.
\<close>

datatype exn =
    JobAlreadyCompleteError
  | ItemNotFoundError
  | ConflictError
  | MaxBookingsError
  | BookingAlreadyCompleteError
  | BookingAlreadyActiveError
  | NotAuthenticatedError
  | UnauthorizedError
  | NotAllowedError
  | NotInstalledError
  | PostProcessingError string
  | JobAlreadyCancelled
  | InvalidJobIdInUploadedFileError
  | InvalidRequestError
  | ValueError
  | ValidationError
  | KeyError
  | IndexError
  | TypeError
  | AttributeError
  | RuntimeError
  | NotImplementedError
  | UnboundLocalError
  | TimeoutError
  | NoSuchJobError
  | InvalidJobOperation
  | IntegrityError
  | InvalidSignature
  | InvalidTokenError
  | HTTPException nat
  | OtherError

type_synonym 'a result = "exn + 'a"

section \<open>Routines\<close>

type_synonym ('a, 's) prog = "'s \<Rightarrow> 'a result \<times> 's"

definition retE :: "'a \<Rightarrow> ('a, 's) prog" where
  "retE x s = (Inr x, s)"

definition raiseE :: "exn \<Rightarrow> ('a, 's) prog" where
  "raiseE e s = (Inl e, s)"

definition bindE :: "('a, 's) prog \<Rightarrow> ('a \<Rightarrow> ('b, 's) prog) \<Rightarrow> ('b, 's) prog" where
  "bindE m f s = (case m s of (Inl e, s') \<Rightarrow> (Inl e, s') | (Inr x, s') \<Rightarrow> f x s')"

definition thenE :: "('a, 's) prog \<Rightarrow> ('b, 's) prog \<Rightarrow> ('b, 's) prog" where
  "thenE m n = bindE m (\<lambda>_. n)"

definition catchE :: "('a, 's) prog \<Rightarrow> (exn \<Rightarrow> ('a, 's) prog) \<Rightarrow> ('a, 's) prog" where
  "catchE m h s = (case m s of (Inl e, s') \<Rightarrow> h e s' | (Inr x, s') \<Rightarrow> (Inr x, s'))"

definition getE :: "('s \<Rightarrow> 'a) \<Rightarrow> ('a, 's) prog" where
  "getE f s = (Inr (f s), s)"

definition modE :: "('s \<Rightarrow> 's) \<Rightarrow> (unit, 's) prog" where
  "modE f s = (Inr (), f s)"

definition liftE :: "'a result \<Rightarrow> ('a, 's) prog" where
  "liftE r s = (r, s)"

definition whenE :: "bool \<Rightarrow> (unit, 's) prog \<Rightarrow> (unit, 's) prog" where
  "whenE b m = (if b then m else retE ())"

text \<open>\<open>with suppress(...)\<close>: the exceptions of the set are swallowed, any result is dropped.\<close>

definition suppressE :: "(exn \<Rightarrow> bool) \<Rightarrow> ('a, 's) prog \<Rightarrow> (unit, 's) prog" where
  "suppressE p m =
     catchE (thenE m (retE ())) (\<lambda>e. if p e then retE () else raiseE e)"

text \<open>A \<open>for\<close> loop over a list computed before the loop starts.\<close>

primrec forE :: "'a list \<Rightarrow> ('a \<Rightarrow> (unit, 's) prog) \<Rightarrow> (unit, 's) prog" where
  "forE [] f = retE ()"
| "forE (x # xs) f = thenE (f x) (forE xs f)"

text \<open>A routine run \<open>n\<close> times, its results in order.\<close>

primrec timesE :: "nat \<Rightarrow> ('a, 's) prog \<Rightarrow> ('a list, 's) prog" where
  "timesE 0 m = retE []"
| "timesE (Suc n) m = bindE m (\<lambda>x. bindE (timesE n m) (\<lambda>xs. retE (x # xs)))"

text \<open>A routine on one component of the state, run on the whole.\<close>

definition zoomE :: "('s \<Rightarrow> 't) \<Rightarrow> ('t \<Rightarrow> 's \<Rightarrow> 's) \<Rightarrow> ('a, 't) prog \<Rightarrow> ('a, 's) prog" where
  "zoomE get put m s = (let (r, t) = m (get s) in (r, put t s))"

section \<open>Python numbers\<close>

text \<open>\<open>round(x)\<close> and the rounding inside \<open>timedelta\<close>: to the nearest integer, ties to even.\<close>

definition py_round :: "rat \<Rightarrow> int" where
  "py_round x =
     (let f = \<lfloor>x\<rfloor>; d = x - of_int f in
      if d < 1 / 2 then f
      else if 1 / 2 < d then f + 1
      else if even f then f else f + 1)"

text \<open>\<open>int(x)\<close> truncates towards zero.\<close>

definition py_int :: "rat \<Rightarrow> int" where
  "py_int x = (if 0 \<le> x then \<lfloor>x\<rfloor> else \<lceil>x\<rceil>)"

text \<open>A float that is finite or positive infinity, ordered as Python orders it.\<close>

datatype secs = Secs rat | Infty

instantiation secs :: linorder
begin

fun less_eq_secs :: "secs \<Rightarrow> secs \<Rightarrow> bool" where
  "less_eq_secs _ Infty = True"
| "less_eq_secs Infty (Secs _) = False"
| "less_eq_secs (Secs a) (Secs b) = (a \<le> b)"

definition less_secs :: "secs \<Rightarrow> secs \<Rightarrow> bool" where
  "less_secs a b = (a \<le> b \<and> \<not> b \<le> a)"

instance
proof
  fix x y z :: secs
  show "(x < y) = (x \<le> y \<and> \<not> y \<le> x)" by (simp add: less_secs_def)
  show "x \<le> x" by (cases x) auto
  show "x \<le> y \<Longrightarrow> y \<le> z \<Longrightarrow> x \<le> z" by (cases x; cases y; cases z) auto
  show "x \<le> y \<Longrightarrow> y \<le> x \<Longrightarrow> x = y" by (cases x; cases y) auto
  show "x \<le> y \<or> y \<le> x" by (cases x; cases y) auto
qed

end

fun secs_minus :: "secs \<Rightarrow> rat \<Rightarrow> secs" where
  "secs_minus Infty _ = Infty"
| "secs_minus (Secs a) b = Secs (a - b)"

text \<open>\<open>x or 0.0\<close> for an optional float.\<close>

definition or_zero :: "rat option \<Rightarrow> rat" where
  "or_zero x = (case x of None \<Rightarrow> 0 | Some d \<Rightarrow> d)"

section \<open>Facts\<close>

lemma retE_eval [prog_simps]: "retE x s = (Inr x, s)"
  by (simp add: retE_def)

lemma raiseE_eval [prog_simps]: "raiseE e s = (Inl e, s)"
  by (simp add: raiseE_def)

lemma getE_eval [prog_simps]: "getE f s = (Inr (f s), s)"
  by (simp add: getE_def)

lemma modE_eval [prog_simps]: "modE f s = (Inr (), f s)"
  by (simp add: modE_def)

lemma liftE_eval [prog_simps]: "liftE r s = (r, s)"
  by (simp add: liftE_def)

lemma bindE_Inr [prog_simps]: "m s = (Inr x, s') \<Longrightarrow> bindE m f s = f x s'"
  by (simp add: bindE_def)

lemma bindE_Inl [prog_simps]: "m s = (Inl e, s') \<Longrightarrow> bindE m f s = (Inl e, s')"
  by (simp add: bindE_def)

lemma thenE_Inr [prog_simps]: "m s = (Inr x, s') \<Longrightarrow> thenE m n s = n s'"
  by (simp add: thenE_def bindE_def)

lemma thenE_Inl [prog_simps]: "m s = (Inl e, s') \<Longrightarrow> thenE m n s = (Inl e, s')"
  by (simp add: thenE_def bindE_def)

lemma catchE_Inr [prog_simps]: "m s = (Inr x, s') \<Longrightarrow> catchE m h s = (Inr x, s')"
  by (simp add: catchE_def)

lemma catchE_Inl [prog_simps]: "m s = (Inl e, s') \<Longrightarrow> catchE m h s = h e s'"
  by (simp add: catchE_def)

lemma suppressE_Inr [prog_simps]: "m s = (Inr x, s') \<Longrightarrow> suppressE p m s = (Inr (), s')"
  by (simp add: suppressE_def catchE_def thenE_def bindE_def retE_def)

lemma suppressE_Inl [prog_simps]:
  "m s = (Inl e, s') \<Longrightarrow> suppressE p m s = (if p e then (Inr (), s') else (Inl e, s'))"
  by (simp add: suppressE_def catchE_def thenE_def bindE_def retE_def raiseE_def)

lemma whenE_eval [prog_simps]: "whenE b m s = (if b then m s else (Inr (), s))"
  by (simp add: whenE_def retE_def)

lemma zoomE_eval [prog_simps]: "m (get s) = (r, t) \<Longrightarrow> zoomE get put m s = (r, put t s)"
  by (simp add: zoomE_def)

lemma bindE_result:
  "bindE m f s = (Inr y, t) \<longleftrightarrow> (\<exists>x s'. m s = (Inr x, s') \<and> f x s' = (Inr y, t))"
  by (auto simp: bindE_def split: prod.splits sum.splits)

text \<open>A loop whose body never raises is a fold over the state.\<close>

lemma forE_total:
  assumes "\<And>x s. x \<in> set xs \<Longrightarrow> f x s = (Inr (), g x s)"
  shows "forE xs f s = (Inr (), fold g xs s)"
  using assms by (induction xs arbitrary: s) (simp_all add: prog_simps)

text \<open>An invariant of every body is an invariant of the loop, raised exceptions included.\<close>

lemma forE_inv:
  assumes "P s" and "\<And>x s. x \<in> set xs \<Longrightarrow> P s \<Longrightarrow> P (snd (f x s))"
  shows "P (snd (forE xs f s))"
  using assms
proof (induction xs arbitrary: s)
  case Nil
  then show ?case by (simp add: prog_simps)
next
  case (Cons x xs)
  obtain r s' where fx: "f x s = (r, s')" by (cases "f x s")
  then have "P s'" using Cons.prems by (metis list.set_intros(1) snd_conv)
  with Cons fx show ?case by (cases r) (simp_all add: prog_simps)
qed

text \<open>
  A predicate that a routine keeps, whatever its outcome. The rules follow the combinators, so that
  keeping a predicate reduces to keeping it at the calls that write.
\<close>

definition stable :: "('s \<Rightarrow> bool) \<Rightarrow> ('a, 's) prog \<Rightarrow> bool" where
  "stable P m \<longleftrightarrow> (\<forall>s. P s \<longrightarrow> P (snd (m s)))"

lemma stableD: "stable P m \<Longrightarrow> P s \<Longrightarrow> P (snd (m s))"
  by (simp add: stable_def)

lemma stable_basic [stable_rules]:
  "stable P (retE x)" "stable P (raiseE e)" "stable P (liftE r)" "stable P (getE f)"
  by (simp_all add: stable_def prog_simps)

lemma stable_bindE [stable_rules]:
  assumes "stable P m" and "\<And>x. stable P (f x)"
  shows "stable P (bindE m f)"
  unfolding stable_def
proof (intro allI impI)
  fix s
  assume "P s"
  obtain r s' where m: "m s = (r, s')" by (cases "m s")
  then have "P s'" using stableD [OF assms(1) \<open>P s\<close>] by simp
  then show "P (snd (bindE m f s))"
    using m stableD [OF assms(2)] by (cases r) (simp_all add: prog_simps)
qed

lemma stable_thenE [stable_rules]: "stable P m \<Longrightarrow> stable P n \<Longrightarrow> stable P (thenE m n)"
  unfolding thenE_def by (rule stable_bindE)

lemma stable_catchE [stable_rules]:
  assumes "stable P m" and "\<And>e. stable P (h e)"
  shows "stable P (catchE m h)"
  unfolding stable_def
proof (intro allI impI)
  fix s
  assume "P s"
  obtain r s' where m: "m s = (r, s')" by (cases "m s")
  then have "P s'" using stableD [OF assms(1) \<open>P s\<close>] by simp
  then show "P (snd (catchE m h s))"
    using m stableD [OF assms(2)] by (cases r) (simp_all add: prog_simps)
qed

lemma stable_if [stable_rules]: "stable P m \<Longrightarrow> stable P n \<Longrightarrow> stable P (if b then m else n)"
  by simp

lemma stable_suppressE [stable_rules]: "stable P m \<Longrightarrow> stable P (suppressE p m)"
  unfolding suppressE_def by (intro stable_rules)

lemma stable_forE [stable_rules]: "(\<And>x. x \<in> set xs \<Longrightarrow> stable P (f x)) \<Longrightarrow> stable P (forE xs f)"
  by (induction xs) (simp_all add: stable_rules)

lemma stable_option [stable_rules]:
  "stable P m \<Longrightarrow> (\<And>x. stable P (f x)) \<Longrightarrow> stable P (case y of None \<Rightarrow> m | Some x \<Rightarrow> f x)"
  by (cases y) simp_all

text \<open>A predicate on the whole that a routine on a part keeps.\<close>

lemma stable_zoomE:
  assumes "\<And>s. P s \<Longrightarrow> P (put (snd (m (get s))) s)"
  shows "stable P (zoomE get put m)"
  using assms by (simp add: stable_def zoomE_def split_beta Let_def)

lemma py_round_of_int [simp]: "py_round (of_int n) = n"
  by (simp add: py_round_def)

lemma py_round_lower: "x - 1 / 2 \<le> of_int (py_round x)"
proof -
  have "of_int \<lfloor>x\<rfloor> \<le> x" "x < of_int \<lfloor>x\<rfloor> + 1" by linarith+
  then show ?thesis by (simp add: py_round_def Let_def)
qed

lemma py_round_upper: "of_int (py_round x) \<le> x + 1 / 2"
proof -
  have "of_int \<lfloor>x\<rfloor> \<le> x" by linarith
  then show ?thesis unfolding py_round_def Let_def by (simp only: of_int_add of_int_1 split: if_split) linarith
qed

lemma py_round_error: "\<bar>of_int (py_round x) - x\<bar> \<le> 1 / 2"
  using py_round_lower [of x] py_round_upper [of x] by linarith

lemma py_round_mono: "x \<le> y \<Longrightarrow> py_round x \<le> py_round y"
proof (rule ccontr)
  assume xy: "x \<le> y" and "\<not> py_round x \<le> py_round y"
  then have lt: "py_round y + 1 \<le> py_round x" by simp
  then have lt': "(of_int (py_round y) :: rat) + 1 \<le> of_int (py_round x)"
    by (metis of_int_1 of_int_add of_int_le_iff)
  have "x = y"
    using lt' xy py_round_upper [of x] py_round_lower [of y] by linarith
  with lt show False by simp
qed

lemma py_round_nonneg: "0 \<le> x \<Longrightarrow> 0 \<le> py_round x"
  using py_round_mono [of 0 x] py_round_of_int [of 0] by simp

lemma py_int_nonneg: "0 \<le> x \<Longrightarrow> py_int x = \<lfloor>x\<rfloor>"
  by (simp add: py_int_def)

lemma secs_less_simps [simp]:
  "Secs a < Secs b \<longleftrightarrow> a < b" "Secs a < Infty" "\<not> Infty < x"
  by (auto simp: less_secs_def)

lemma secs_le_simps [simp]:
  "Secs a \<le> Secs b \<longleftrightarrow> a \<le> b" "x \<le> Infty" "\<not> Infty \<le> Secs a"
  by auto

lemma or_zero_simps [simp]: "or_zero None = 0" "or_zero (Some d) = d"
  by (simp_all add: or_zero_def)

lemma find_split:
  assumes "List.find p xs = Some x"
  shows "\<exists>ys zs. xs = ys @ x # zs \<and> p x \<and> (\<forall>y\<in>set ys. \<not> p y)"
  using assms
proof (induction xs)
  case (Cons a xs)
  show ?case
  proof (cases "p a")
    case True
    with Cons.prems have "a # xs = [] @ x # xs \<and> p x \<and> (\<forall>y\<in>set []. \<not> p y)" by simp
    then show ?thesis by blast
  next
    case False
    with Cons obtain ys zs where "xs = ys @ x # zs" "p x" "\<forall>y\<in>set ys. \<not> p y" by auto
    with False have "a # xs = (a # ys) @ x # zs \<and> p x \<and> (\<forall>y\<in>set (a # ys). \<not> p y)" by simp
    then show ?thesis by blast
  qed
qed simp

lemma find_append:
  "List.find p (xs @ ys) = (case List.find p xs of None \<Rightarrow> List.find p ys | Some x \<Rightarrow> Some x)"
  by (induction xs) auto

lemma remove1_split: "x \<notin> set ys \<Longrightarrow> remove1 x (ys @ x # zs) = ys @ zs"
  by (induction ys) auto

lemma sum_list_remove1:
  fixes f :: "'a \<Rightarrow> rat"
  shows "x \<in> set xs \<Longrightarrow> sum_list (map f (remove1 x xs)) = sum_list (map f xs) - f x"
  by (induction xs) auto

end
