(* ===== verification/Clock.thy ===== *)
theory Clock imports Prelude begin

text \<open>
  \<^verbatim>\<open>app/utils/datetime.py\<close>: Python datetimes and the helpers on them. A datetime is its wall
  clock reading in microseconds together with its time zone; the instant it denotes is its
  reading in UTC. \<open>timedelta\<close> rounds to microseconds, ties to even.
\<close>

section \<open>Datetimes\<close>

datatype tzinfo = Naive | UTC | Offset int

record datetime =
  wall :: int
  tz :: tzinfo

definition day_us :: int where
  "day_us = 24 * 60 * 60 * 1000000"

text \<open>\<open>timedelta(...)\<close> in microseconds.\<close>

definition timedelta_us :: "rat \<Rightarrow> rat \<Rightarrow> rat \<Rightarrow> rat \<Rightarrow> rat \<Rightarrow> rat \<Rightarrow> rat \<Rightarrow> int" where
  "timedelta_us days seconds microseconds milliseconds minutes hours weeks =
     py_round (microseconds + 1000 * milliseconds
       + 1000000 * (seconds + 60 * minutes + 3600 * hours + 86400 * (days + 7 * weeks)))"

text \<open>\<open>(a - b).total_seconds()\<close> of a difference in microseconds.\<close>

definition total_seconds :: "int \<Rightarrow> rat" where
  "total_seconds us = of_int us / 1000000"

definition seconds_us :: "rat \<Rightarrow> int" where
  "seconds_us d = timedelta_us 0 d 0 0 0 0 0"

definition to_utc :: "datetime \<Rightarrow> datetime" where
  "to_utc v =
     (case tz v of
        UTC \<Rightarrow> v
      | Naive \<Rightarrow> v\<lparr>tz := UTC\<rparr>
      | Offset off \<Rightarrow> v\<lparr>wall := wall v - off, tz := UTC\<rparr>)"

definition instant :: "datetime \<Rightarrow> int" where
  "instant v = wall (to_utc v)"

definition get_relative_time ::
    "rat \<Rightarrow> rat \<Rightarrow> rat \<Rightarrow> rat \<Rightarrow> rat \<Rightarrow> rat \<Rightarrow> rat \<Rightarrow> datetime option \<Rightarrow> datetime \<Rightarrow> datetime" where
  "get_relative_time days seconds microseconds milliseconds minutes hours weeks baseline now =
     (let base = (case baseline of None \<Rightarrow> now | Some b \<Rightarrow> b) in
      base\<lparr>wall := wall base
        + timedelta_us days seconds microseconds milliseconds minutes hours weeks\<rparr>)"

text \<open>
  \<open>timestamp.replace(hour=0, minute=0, second=0, microsecond=0)\<close> drops the part of the reading
  below a day.
\<close>

definition get_day_range :: "datetime \<Rightarrow> datetime \<times> datetime" where
  "get_day_range timestamp =
     (let t = to_utc timestamp;
          start = t\<lparr>wall := wall t - wall t mod day_us\<rparr>
      in (start, start\<lparr>wall := wall start + timedelta_us 1 0 0 0 0 0 0\<rparr>))"

section \<open>Facts\<close>

lemma timedelta_us_one_day [simp]: "timedelta_us 1 0 0 0 0 0 0 = day_us"
proof -
  have "timedelta_us 1 0 0 0 0 0 0 = py_round (of_int 86400000000)"
    by (simp add: timedelta_us_def)
  then show ?thesis by (simp only: py_round_of_int) (simp add: day_us_def)
qed

lemma to_utc_tz [simp]: "tz (to_utc v) = UTC"
  by (auto simp: to_utc_def split: tzinfo.splits)

lemma to_utc_idem [simp]: "to_utc (to_utc v) = to_utc v"
  by (simp add: to_utc_def [of "to_utc v"])

lemma instant_to_utc [simp]: "instant (to_utc v) = instant v"
  by (simp add: instant_def)

lemma instant_utc: "tz v = UTC \<Longrightarrow> instant v = wall v"
  by (simp add: instant_def to_utc_def)

lemma total_seconds_less_iff [simp]: "total_seconds a < total_seconds b \<longleftrightarrow> a < b"
  by (simp add: total_seconds_def divide_less_cancel)

lemma total_seconds_le_iff [simp]: "total_seconds a \<le> total_seconds b \<longleftrightarrow> a \<le> b"
  by (simp add: total_seconds_def divide_le_cancel)

lemma total_seconds_nonneg [simp]: "0 \<le> total_seconds a \<longleftrightarrow> 0 \<le> a"
  by (simp add: total_seconds_def zero_le_divide_iff)

lemma seconds_us_total_seconds [simp]: "seconds_us (total_seconds us) = us"
  by (simp add: seconds_us_def timedelta_us_def total_seconds_def)

lemma get_day_range_instants:
  "instant (fst (get_day_range t)) = instant t - instant t mod day_us"
  "instant (snd (get_day_range t)) = instant t - instant t mod day_us + day_us"
  by (simp_all add: get_day_range_def Let_def instant_def to_utc_def split: tzinfo.splits)

lemma get_day_range_contains:
  "instant (fst (get_day_range t)) \<le> instant t \<and> instant t < instant (snd (get_day_range t))"
  unfolding get_day_range_instants
  using pos_mod_bound [of day_us "instant t"] pos_mod_sign [of day_us "instant t"]
  by (simp add: day_us_def)

lemma get_day_range_same_day:
  assumes "instant (fst (get_day_range t)) \<le> instant u"
    and "instant u < instant (snd (get_day_range t))"
  shows "get_day_range u = get_day_range t"
proof -
  let ?D = day_us
  have pos: "0 < ?D" by (simp add: day_us_def)
  obtain k where k: "instant t - instant t mod ?D = k * ?D"
    by (metis minus_mod_eq_div_mult)
  have "instant u div ?D = k"
  proof (rule int_div_pos_eq [where r = "instant u - k * ?D"])
    show "instant u = ?D * k + (instant u - k * ?D)" by simp
    show "0 \<le> instant u - k * ?D" using assms(1) k by (simp add: get_day_range_instants)
    show "instant u - k * ?D < ?D" using assms(2) k by (simp add: get_day_range_instants)
  qed
  then have "instant u - instant u mod ?D = instant t - instant t mod ?D"
    using k by (metis minus_mod_eq_div_mult)
  then show ?thesis
    by (simp add: get_day_range_def Let_def instant_def)
qed

end
