(* ===== verification/Py_String.thy ===== *)
theory Py_String imports Prelude begin

text \<open>
  The string methods of Python the program parses with: \<open>split\<close>, \<open>rsplit\<close> with one cut,
  \<open>join\<close>, \<open>startswith\<close>, \<open>endswith\<close> and \<open>strip\<close>, on character lists.
\<close>

section \<open>Methods\<close>

text \<open>The leftmost occurrence of a separator: what is before it and what is after it.\<close>

fun cut :: "string \<Rightarrow> string \<Rightarrow> (string \<times> string) option" where
  "cut sep [] = (if sep = [] then Some ([], []) else None)"
| "cut sep (c # cs) =
     (if take (length sep) (c # cs) = sep then Some ([], drop (length sep) (c # cs))
      else map_option (\<lambda>(a, b). (c # a, b)) (cut sep cs))"

lemma cut_Some: "cut sep s = Some (a, b) \<Longrightarrow> s = a @ sep @ b"
proof (induction s arbitrary: a)
  case (Cons c cs)
  then show ?case
    by (auto split: if_splits) (metis append_take_drop_id length_Cons take_Suc_Cons drop_Suc_Cons)
qed (auto split: if_splits)

text \<open>\<open>s.split(sep)\<close> for a non-empty separator.\<close>

function py_split :: "string \<Rightarrow> string \<Rightarrow> string list" where
  "py_split sep s =
     (case cut sep s of
        None \<Rightarrow> [s]
      | Some (a, b) \<Rightarrow> if sep = [] then [s] else a # py_split sep b)"
  by pat_completeness auto
termination
  by (relation "measure (\<lambda>(sep, s). length s)") (auto dest: cut_Some)

declare py_split.simps [simp del]

text \<open>\<open>s.rsplit(sep, 1)\<close>: \<open>None\<close> when the separator does not occur.\<close>

definition rcut :: "string \<Rightarrow> string \<Rightarrow> (string \<times> string) option" where
  "rcut sep s = map_option (\<lambda>(a, b). (rev b, rev a)) (cut (rev sep) (rev s))"

definition rsplit1 :: "string \<Rightarrow> string \<Rightarrow> string list" where
  "rsplit1 sep s = (case rcut sep s of None \<Rightarrow> [s] | Some (a, b) \<Rightarrow> [a, b])"

fun join :: "string \<Rightarrow> string list \<Rightarrow> string" where
  "join sep [] = []"
| "join sep [x] = x"
| "join sep (x # y # ys) = x @ sep @ join sep (y # ys)"

definition startswith :: "string \<Rightarrow> string \<Rightarrow> bool" where
  "startswith s p = (take (length p) s = p)"

definition endswith :: "string \<Rightarrow> string \<Rightarrow> bool" where
  "endswith s p = startswith (rev s) (rev p)"

text \<open>The white space of Latin-1, and \<open>lower\<close> on it.\<close>

definition py_space :: "char \<Rightarrow> bool" where
  "py_space c \<longleftrightarrow> c \<in> {CHR '' '', CHR 0x09, CHR 0x0A, CHR 0x0B, CHR 0x0C, CHR 0x0D,
     CHR 0x1C, CHR 0x1D, CHR 0x1E, CHR 0x1F, CHR 0x85, CHR 0xA0}"

definition strip :: "string \<Rightarrow> string" where
  "strip s = rev (dropWhile py_space (rev (dropWhile py_space s)))"

definition lower_char :: "char \<Rightarrow> char" where
  "lower_char c =
     (let n = of_char c :: nat in
      if 65 \<le> n \<and> n \<le> 90 \<or> 192 \<le> n \<and> n \<le> 222 \<and> n \<noteq> 215 then char_of (n + 32) else c)"

definition lower :: "string \<Rightarrow> string" where
  "lower s = map lower_char s"

section \<open>Facts\<close>

lemma cut_first:
  assumes "sep \<noteq> []" and "hd sep \<notin> set u"
  shows "cut sep (u @ sep @ v) = Some (u, v)"
  using assms
proof (induction u)
  case Nil
  then show ?case by (cases sep) simp_all
next
  case (Cons c u)
  then have "take (length sep) (c # u @ sep @ v) \<noteq> sep"
    by (cases sep) auto
  with Cons show ?case by simp
qed

lemma cut_none: "sep \<noteq> [] \<Longrightarrow> hd sep \<notin> set s \<Longrightarrow> cut sep s = None"
proof (induction s)
  case (Cons c s)
  then have "take (length sep) (c # s) \<noteq> sep" by (cases sep) auto
  with Cons show ?case by simp
qed simp

lemma py_split_two:
  assumes "sep \<noteq> []" and "hd sep \<notin> set u" and "hd sep \<notin> set v"
  shows "py_split sep (u @ sep @ v) = [u, v]"
  using assms by (simp add: py_split.simps [of sep "u @ sep @ v"] py_split.simps [of sep v]
      cut_first cut_none)

lemma py_split_one: "sep \<noteq> [] \<Longrightarrow> hd sep \<notin> set s \<Longrightarrow> py_split sep s = [s]"
  by (simp add: py_split.simps [of sep s] cut_none)

lemma py_split_not_empty: "py_split sep s \<noteq> []"
  by (subst py_split.simps) (simp split: option.splits prod.splits)

lemma rcut_last:
  assumes "sep \<noteq> []" and "last sep \<notin> set v"
  shows "rcut sep (u @ sep @ v) = Some (u, v)"
  using cut_first [of "rev sep" "rev v" "rev u"] assms by (simp add: rcut_def hd_rev)

lemma rcut_none: "sep \<noteq> [] \<Longrightarrow> last sep \<notin> set s \<Longrightarrow> rcut sep s = None"
  by (simp add: rcut_def cut_none hd_rev)

lemma rcut_Some: "rcut sep s = Some (a, b) \<Longrightarrow> s = a @ sep @ b"
proof -
  assume "rcut sep s = Some (a, b)"
  then have "cut (rev sep) (rev s) = Some (rev b, rev a)"
    by (auto simp: rcut_def)
  then have "rev s = rev b @ rev sep @ rev a" by (rule cut_Some)
  then have "rev (rev s) = rev (rev b @ rev sep @ rev a)" by (rule arg_cong)
  then show ?thesis by simp
qed

lemma startswith_append [simp]: "startswith (p @ s) p"
  by (simp add: startswith_def)

lemma endswith_append [simp]: "endswith (s @ p) p"
  by (simp add: endswith_def)

end
