(* ===== verification/Storage_Id.thy ===== *)
theory Storage_Id imports Py_String begin

text \<open>
  The storage ids of \<^verbatim>\<open>app/libs/queues/dtos.py\<close>: a job id and a duration in one string,
  \<open>{uuid}:::{duration}\<close>. How a float is written and read back is Python's, a parameter of the
  string form (\<open>float_codec\<close>) with its documented laws. The string form and the pair it stands
  for determine each other (\<open>sid_parts_render\<close>, \<open>sid_render_inject\<close>), so the queues below key
  their entries by the pair.
\<close>

section \<open>The string form\<close>

record float_codec =
  fshow :: "rat \<Rightarrow> string"
  fread :: "string \<Rightarrow> rat option"

definition storage_id_separator :: string where
  "storage_id_separator = '':::''"

definition sid_string :: "float_codec \<Rightarrow> string \<Rightarrow> rat option \<Rightarrow> string" where
  "sid_string C uuid duration = uuid @ storage_id_separator @ fshow C (or_zero duration)"

definition sid_parts :: "float_codec \<Rightarrow> string \<Rightarrow> (string \<times> rat) result" where
  "sid_parts C sid =
     (let str_parts = py_split storage_id_separator sid in
      if length str_parts < 2 then Inl ValueError
      else case fread C (str_parts ! 1) of
             None \<Rightarrow> Inl ValueError
           | Some duration \<Rightarrow> Inr (str_parts ! 0, duration))"

definition sid_clone_string ::
    "float_codec \<Rightarrow> string \<Rightarrow> string option \<Rightarrow> rat option \<Rightarrow> string result" where
  "sid_clone_string C sid uuid duration =
     (case (uuid, duration) of
        (Some u, Some d) \<Rightarrow> Inr (sid_string C u (Some d))
      | _ \<Rightarrow> (case sid_parts C sid of
                Inl e \<Rightarrow> Inl e
              | Inr (u, d) \<Rightarrow>
                  Inr (sid_string C (case uuid of None \<Rightarrow> u | Some u' \<Rightarrow> u')
                        (Some (case duration of None \<Rightarrow> d | Some d' \<Rightarrow> d')))))"

section \<open>The pair it denotes\<close>

record storage_id =
  uuid :: string
  duration :: rat

definition from_details :: "string \<Rightarrow> rat option \<Rightarrow> storage_id" where
  "from_details u d = \<lparr>uuid = u, duration = or_zero d\<rparr>"

definition clone_with :: "storage_id \<Rightarrow> string option \<Rightarrow> rat option \<Rightarrow> storage_id" where
  "clone_with sid u d =
     from_details (case u of None \<Rightarrow> uuid sid | Some u' \<Rightarrow> u')
       (Some (case d of None \<Rightarrow> duration sid | Some d' \<Rightarrow> d'))"

definition sid_render :: "float_codec \<Rightarrow> storage_id \<Rightarrow> string" where
  "sid_render C sid = sid_string C (uuid sid) (Some (duration sid))"

section \<open>Laws of the float codec, and what follows\<close>

locale float_text =
  fixes C :: float_codec
  assumes fread_fshow: "fread C (fshow C d) = Some d"
    and fshow_plain: "CHR '':'' \<notin> set (fshow C d)"

context float_text
begin

lemma sid_parts_string:
  "CHR '':'' \<notin> set u \<Longrightarrow> sid_parts C (sid_string C u d) = Inr (u, or_zero d)"
  by (simp add: sid_parts_def sid_string_def storage_id_separator_def Let_def fread_fshow
      fshow_plain py_split_two [of "'':::''" u, simplified])

lemma sid_parts_rendered:
  "CHR '':'' \<notin> set (uuid sid) \<Longrightarrow> sid_parts C (sid_render C sid) = Inr (uuid sid, duration sid)"
  by (simp add: sid_render_def sid_parts_string)

lemma sid_render_injective:
  assumes "CHR '':'' \<notin> set (uuid a)" "CHR '':'' \<notin> set (uuid b)"
    and "sid_render C a = sid_render C b"
  shows "a = b"
  using assms sid_parts_rendered [of a] sid_parts_rendered [of b] by simp

lemma sid_clone_rendered:
  "CHR '':'' \<notin> set (uuid sid) \<Longrightarrow>
    sid_clone_string C (sid_render C sid) u d = Inr (sid_render C (clone_with sid u d))"
  by (cases u; cases d)
    (simp_all add: sid_clone_string_def sid_parts_string clone_with_def from_details_def
      sid_render_def)

end

text \<open>
  A codec that satisfies the laws: the numerator and the denominator in unary. It shows that
  the laws can hold; the program uses Python's own.
\<close>

definition unary_codec :: float_codec where
  "unary_codec = \<lparr>
     fshow = (\<lambda>q. let (n, d) = quotient_of q in
        (if n < 0 then ''-'' else ''+'') @ replicate (nat \<bar>n\<bar>) (CHR ''1'') @ ''/''
          @ replicate (nat d) (CHR ''1'')),
     fread = (\<lambda>s. case s of
        [] \<Rightarrow> None
      | c # cs \<Rightarrow>
          (let n = int (length (takeWhile ((=) (CHR ''1'')) cs));
               d = int (length (drop 1 (dropWhile ((=) (CHR ''1'')) cs)))
           in if d = 0 then None
              else Some (Fract (if c = CHR ''-'' then - n else n) d)))\<rparr>"

lemma takeWhile_replicate_sep:
  "x \<noteq> y \<Longrightarrow> takeWhile ((=) x) (replicate n x @ y # zs) = replicate n x"
  "x \<noteq> y \<Longrightarrow> dropWhile ((=) x) (replicate n x @ y # zs) = y # zs"
  by (induction n) auto

lemma unary_reads: "quotient_of q = (n, d) \<Longrightarrow> fread unary_codec (fshow unary_codec q) = Some (Fract n d)"
  using quotient_of_denom_pos [of q n d]
  by (simp add: unary_codec_def takeWhile_replicate_sep Let_def)

interpretation unary: float_text unary_codec
proof
  fix q :: rat
  obtain n d where q: "quotient_of q = (n, d)" by (cases "quotient_of q")
  then have "q = Fract n d" by (metis Fract_of_int_quotient quotient_of_div)
  with unary_reads [OF q] show "fread unary_codec (fshow unary_codec q) = Some q" by simp
  show "CHR '':'' \<notin> set (fshow unary_codec q)"
    by (auto simp: unary_codec_def q)
qed

end
