(* ===== verification/Job_Model.thy ===== *)
theory Job_Model imports Clock Storage_Id begin

text \<open>
  The data of \<^verbatim>\<open>app/libs/queues/dtos.py\<close>: stages, statuses, timestamps, the job record with its
  validators and computed properties, and the partial jobs that updates are made of. An ISO
  timestamp is represented by the instant it denotes, in microseconds of UTC; the parsed copies
  that \<open>TimestampPair\<close> caches are functions of the strings and are not kept apart.
\<close>

section \<open>Stages and statuses\<close>

datatype stage =
    REG_Q | REG_W | PRE_PROC_Q | PRE_PROC_W | EXEC_Q | EXEC_W
  | PST_PROC_Q | PST_PROC_W | FINAL_Q | FINAL_W

fun stage_value :: "stage \<Rightarrow> nat" where
  "stage_value REG_Q = 0"
| "stage_value REG_W = 1"
| "stage_value PRE_PROC_Q = 2"
| "stage_value PRE_PROC_W = 3"
| "stage_value EXEC_Q = 4"
| "stage_value EXEC_W = 5"
| "stage_value PST_PROC_Q = 6"
| "stage_value PST_PROC_W = 7"
| "stage_value FINAL_Q = 8"
| "stage_value FINAL_W = 9"

fun stage_name :: "stage \<Rightarrow> string" where
  "stage_name REG_Q = ''REG_Q''"
| "stage_name REG_W = ''REG_W''"
| "stage_name PRE_PROC_Q = ''PRE_PROC_Q''"
| "stage_name PRE_PROC_W = ''PRE_PROC_W''"
| "stage_name EXEC_Q = ''EXEC_Q''"
| "stage_name EXEC_W = ''EXEC_W''"
| "stage_name PST_PROC_Q = ''PST_PROC_Q''"
| "stage_name PST_PROC_W = ''PST_PROC_W''"
| "stage_name FINAL_Q = ''FINAL_Q''"
| "stage_name FINAL_W = ''FINAL_W''"

fun verbose_name :: "stage \<Rightarrow> string" where
  "verbose_name REG_Q = ''registration queue''"
| "verbose_name REG_W = ''registration worker''"
| "verbose_name PRE_PROC_Q = ''pre-processing queue''"
| "verbose_name PRE_PROC_W = ''pre-processing worker''"
| "verbose_name EXEC_Q = ''execution queue''"
| "verbose_name EXEC_W = ''execution worker''"
| "verbose_name PST_PROC_Q = ''post-processing queue''"
| "verbose_name PST_PROC_W = ''post-processing worker''"
| "verbose_name FINAL_Q = ''finalization queue''"
| "verbose_name FINAL_W = ''finalization worker''"

lemma stage_value_inject: "stage_value a = stage_value b \<longleftrightarrow> a = b"
  by (cases a; cases b) simp_all

instantiation stage :: linorder
begin

definition less_eq_stage :: "stage \<Rightarrow> stage \<Rightarrow> bool" where
  "less_eq_stage a b = (stage_value a \<le> stage_value b)"

definition less_stage :: "stage \<Rightarrow> stage \<Rightarrow> bool" where
  "less_stage a b = (stage_value a < stage_value b)"

instance
  by standard (auto simp: less_eq_stage_def less_stage_def stage_value_inject)

end

datatype job_status = PENDING | EXECUTING | FAILED | SUCCESSFUL | CANCELLED

definition is_terminal :: "job_status \<Rightarrow> bool" where
  "is_terminal s = (s \<in> {CANCELLED, FAILED, SUCCESSFUL})"

fun status_text :: "job_status \<Rightarrow> string" where
  "status_text PENDING = ''pending''"
| "status_text EXECUTING = ''executing''"
| "status_text FAILED = ''failed''"
| "status_text SUCCESSFUL = ''successful''"
| "status_text CANCELLED = ''cancelled''"

section \<open>Timestamps\<close>

datatype job_stage = registration | pre_processing | execution | post_processing | final
datatype job_event = started | finished

record timestamp_pair =
  start_timestamp :: "int option"
  finish_timestamp :: "int option"

type_synonym timestamps = "job_stage \<Rightarrow> timestamp_pair option"

definition no_timestamps :: timestamps where
  "no_timestamps = (\<lambda>_. None)"

definition empty_pair :: timestamp_pair where
  "empty_pair = \<lparr>start_timestamp = None, finish_timestamp = None\<rparr>"

fun set_label :: "job_event \<Rightarrow> int \<Rightarrow> timestamp_pair \<Rightarrow> timestamp_pair" where
  "set_label started t p = p\<lparr>start_timestamp := Some t\<rparr>"
| "set_label finished t p = p\<lparr>finish_timestamp := Some t\<rparr>"

fun get_label :: "job_event \<Rightarrow> timestamp_pair \<Rightarrow> int option" where
  "get_label started p = start_timestamp p"
| "get_label finished p = finish_timestamp p"

text \<open>One assignment of \<open>with_updates\<close>: the pair is created when it is missing.\<close>

definition set_timestamp :: "job_stage \<Rightarrow> job_event \<Rightarrow> int \<Rightarrow> timestamps \<Rightarrow> timestamps" where
  "set_timestamp name label t ts =
     ts(name := Some (set_label label t
          (case ts name of None \<Rightarrow> empty_pair | Some p \<Rightarrow> p)))"

definition with_updates ::
    "timestamps \<Rightarrow> (job_stage \<times> (job_event \<times> int) list) list \<Rightarrow> timestamps" where
  "with_updates ts updates =
     fold (\<lambda>(name, new_pair). fold (\<lambda>(label, t). set_timestamp name label t) new_pair) updates ts"

text \<open>The label of a stage, \<open>None\<close> when the stage has no pair.\<close>

definition stamp :: "timestamps \<Rightarrow> job_stage \<Rightarrow> job_event \<Rightarrow> int option" where
  "stamp ts name label = (case ts name of None \<Rightarrow> None | Some p \<Rightarrow> get_label label p)"

text \<open>\<open>(execution.finish_timestamp - execution.start_timestamp).total_seconds()\<close>, or \<open>None\<close>.\<close>

definition resource_usage :: "timestamps \<Rightarrow> rat option" where
  "resource_usage ts =
     (case (stamp ts execution finished, stamp ts execution started) of
        (Some f, Some s) \<Rightarrow> Some (total_seconds (f - s))
      | _ \<Rightarrow> None)"

text \<open>The first attribute access is outside the \<open>try\<close>: without an execution pair it raises.\<close>

definition current_time_used :: "int \<Rightarrow> timestamps \<Rightarrow> rat option result" where
  "current_time_used now ts =
     (case ts execution of
        None \<Rightarrow> Inl AttributeError
      | Some p \<Rightarrow>
          (if finish_timestamp p \<noteq> None then Inr (resource_usage ts)
           else Inr (map_option (\<lambda>s. total_seconds (now - s)) (start_timestamp p))))"

section \<open>The job\<close>

datatype memory = HexMemory "string list list" | IQMemory "(rat \<times> rat) list list list"

record job =
  job_id :: string
  device :: string
  calibration_date :: string
  user_id :: "string option"
  estimated_duration :: "rat option"
  timestamps_of :: "timestamps option"
  stage_of :: stage
  status :: job_status
  failure_reason :: "string option"
  cancellation_reason :: "string option"
  storage_id_of :: "storage_id option"
  actual_duration :: "rat option"
  download_url :: "string option"
  job_memory :: "memory option"
  created_at :: "int option"
  updated_at :: "int option"

definition from_job :: "job \<Rightarrow> storage_id" where
  "from_job j = from_details (job_id j) (estimated_duration j)"

text \<open>The model validator of a full job.\<close>

definition set_actual_duration :: "job \<Rightarrow> job" where
  "set_actual_duration j =
     (case (actual_duration j, timestamps_of j) of
        (None, Some ts) \<Rightarrow>
          (case resource_usage ts of
             Some d \<Rightarrow> if d = 0 then j else j\<lparr>actual_duration := Some d\<rparr>
           | None \<Rightarrow> j)
      | _ \<Rightarrow> j)"

definition set_storage_id :: "job \<Rightarrow> job" where
  "set_storage_id j =
     (let sid = (case storage_id_of j of None \<Rightarrow> from_job j | Some s \<Rightarrow> s)
      in j\<lparr>storage_id_of := Some (clone_with sid (Some (job_id j)) (estimated_duration j))\<rparr>)"

definition validate_model :: "job \<Rightarrow> job" where
  "validate_model j = set_storage_id (set_actual_duration j)"

definition new_job :: "string \<Rightarrow> string \<Rightarrow> string \<Rightarrow> string option \<Rightarrow> stage \<Rightarrow> int \<Rightarrow> job" where
  "new_job jid dev cal user st now =
     validate_model \<lparr>job_id = jid, device = dev, calibration_date = cal, user_id = user,
       estimated_duration = None, timestamps_of = None, stage_of = st, status = PENDING,
       failure_reason = None, cancellation_reason = None, storage_id_of = None,
       actual_duration = None, download_url = None, job_memory = None,
       created_at = Some now, updated_at = Some now\<rparr>"

text \<open>\<open>to_utc\<close> of a missing timestamp raises \<open>AttributeError\<close> too, so these never raise.\<close>

definition start_utc :: "job \<Rightarrow> int option" where
  "start_utc j = (case timestamps_of j of None \<Rightarrow> None | Some ts \<Rightarrow> stamp ts execution started)"

definition end_utc :: "job \<Rightarrow> int option" where
  "end_utc j = (case timestamps_of j of None \<Rightarrow> None | Some ts \<Rightarrow> stamp ts execution finished)"

definition current_eta :: "int \<Rightarrow> job \<Rightarrow> rat option result" where
  "current_eta now j =
     (if actual_duration j \<noteq> None then Inl JobAlreadyCompleteError
      else case timestamps_of j of
        None \<Rightarrow> Inr None
      | Some ts \<Rightarrow>
          (case (estimated_duration j, current_time_used now ts) of
             (Some d, Inr (Some used)) \<Rightarrow> Inr (Some (d - used))
           | _ \<Rightarrow> Inr None))"

section \<open>Partial jobs\<close>

text \<open>
  The partial schema that \<open>create_partial_schema\<close> derives from the job: every field optional,
  \<open>None\<close> meaning that the update leaves it alone. Its validator is the job's own, on optional
  fields: \<open>f"{uuid}"\<close> of a missing job id is the text \<open>None\<close>.
\<close>

record job_update =
  upd_job_id :: "string option"
  upd_device :: "string option"
  upd_calibration_date :: "string option"
  upd_user_id :: "string option"
  upd_estimated_duration :: "rat option"
  upd_timestamps :: "timestamps option"
  upd_stage :: "stage option"
  upd_status :: "job_status option"
  upd_failure_reason :: "string option"
  upd_cancellation_reason :: "string option"
  upd_storage_id :: "storage_id option"
  upd_actual_duration :: "rat option"
  upd_download_url :: "string option"
  upd_memory :: "memory option"
  upd_created_at :: "int option"
  upd_updated_at :: "int option"

definition no_update :: job_update where
  "no_update = \<lparr>upd_job_id = None, upd_device = None, upd_calibration_date = None,
     upd_user_id = None, upd_estimated_duration = None, upd_timestamps = None, upd_stage = None,
     upd_status = None, upd_failure_reason = None, upd_cancellation_reason = None,
     upd_storage_id = None, upd_actual_duration = None, upd_download_url = None,
     upd_memory = None, upd_created_at = None, upd_updated_at = None\<rparr>"

definition partial_storage_id :: "job_update \<Rightarrow> storage_id option" where
  "partial_storage_id u =
     (let start = (case upd_storage_id u of
                     Some s \<Rightarrow> Some s
                   | None \<Rightarrow>
                       (if upd_job_id u \<in> {None, Some []} \<and> or_zero (upd_estimated_duration u) = 0
                        then None
                        else Some (from_details
                          (case upd_job_id u of None \<Rightarrow> ''None'' | Some i \<Rightarrow> i)
                          (upd_estimated_duration u))))
      in map_option (\<lambda>s. clone_with s (upd_job_id u) (upd_estimated_duration u)) start)"

definition partial_actual_duration :: "job_update \<Rightarrow> rat option" where
  "partial_actual_duration u =
     (case (upd_actual_duration u, upd_timestamps u) of
        (None, Some ts) \<Rightarrow>
          (case resource_usage ts of
             Some d \<Rightarrow> if d = 0 then None else Some d
           | None \<Rightarrow> None)
      | (a, _) \<Rightarrow> a)"

definition validate_partial :: "job_update \<Rightarrow> job_update" where
  "validate_partial u =
     u\<lparr>upd_actual_duration := partial_actual_duration u, upd_storage_id := partial_storage_id u\<rparr>"

text \<open>\<open>{**old.model_dump(), **updates}\<close>: a field set in the update wins.\<close>

fun override :: "'a option \<Rightarrow> 'a \<Rightarrow> 'a" where
  "override None old = old"
| "override (Some v) _ = v"

fun override_opt :: "'a option \<Rightarrow> 'a option \<Rightarrow> 'a option" where
  "override_opt None old = old"
| "override_opt (Some v) _ = Some v"

definition merge_update :: "int \<Rightarrow> job \<Rightarrow> job_update \<Rightarrow> job" where
  "merge_update now j u = \<lparr>
     job_id = override (upd_job_id u) (job_id j),
     device = override (upd_device u) (device j),
     calibration_date = override (upd_calibration_date u) (calibration_date j),
     user_id = override_opt (upd_user_id u) (user_id j),
     estimated_duration = override_opt (upd_estimated_duration u) (estimated_duration j),
     timestamps_of = override_opt (upd_timestamps u) (timestamps_of j),
     stage_of = override (upd_stage u) (stage_of j),
     status = override (upd_status u) (status j),
     failure_reason = override_opt (upd_failure_reason u) (failure_reason j),
     cancellation_reason = override_opt (upd_cancellation_reason u) (cancellation_reason j),
     storage_id_of = override_opt (upd_storage_id u) (storage_id_of j),
     actual_duration = override_opt (upd_actual_duration u) (actual_duration j),
     download_url = override_opt (upd_download_url u) (download_url j),
     job_memory = override_opt (upd_memory u) (job_memory j),
     created_at = override_opt (upd_created_at u) (override_opt (created_at j) (Some now)),
     updated_at = override_opt (upd_updated_at u) (override_opt (updated_at j) (Some now))\<rparr>"

definition apply_update :: "int \<Rightarrow> job \<Rightarrow> job_update \<Rightarrow> job" where
  "apply_update now j u = validate_model (merge_update now j (validate_partial u))"

section \<open>Facts\<close>

text \<open>A job as the program keeps it: its validator has nothing left to do.\<close>

definition job_ok :: "job \<Rightarrow> bool" where
  "job_ok j \<longleftrightarrow> validate_model j = j"

lemma clone_with_idem [simp]: "clone_with (clone_with s (Some i) d) (Some i) d = clone_with s (Some i) d"
  by (cases d) (simp_all add: clone_with_def from_details_def)

lemma set_actual_duration_idem [simp]:
  "set_actual_duration (set_actual_duration j) = set_actual_duration j"
  by (auto simp: set_actual_duration_def split: option.splits)

lemma set_actual_duration_sel [simp]:
  "job_id (set_actual_duration j) = job_id j"
  "device (set_actual_duration j) = device j"
  "calibration_date (set_actual_duration j) = calibration_date j"
  "user_id (set_actual_duration j) = user_id j"
  "estimated_duration (set_actual_duration j) = estimated_duration j"
  "timestamps_of (set_actual_duration j) = timestamps_of j"
  "stage_of (set_actual_duration j) = stage_of j"
  "status (set_actual_duration j) = status j"
  "failure_reason (set_actual_duration j) = failure_reason j"
  "cancellation_reason (set_actual_duration j) = cancellation_reason j"
  "storage_id_of (set_actual_duration j) = storage_id_of j"
  "download_url (set_actual_duration j) = download_url j"
  "job_memory (set_actual_duration j) = job_memory j"
  "created_at (set_actual_duration j) = created_at j"
  "updated_at (set_actual_duration j) = updated_at j"
  by (auto simp: set_actual_duration_def split: option.splits)

lemma validate_model_sel [simp]:
  "job_id (validate_model j) = job_id j"
  "device (validate_model j) = device j"
  "calibration_date (validate_model j) = calibration_date j"
  "user_id (validate_model j) = user_id j"
  "estimated_duration (validate_model j) = estimated_duration j"
  "timestamps_of (validate_model j) = timestamps_of j"
  "stage_of (validate_model j) = stage_of j"
  "status (validate_model j) = status j"
  "failure_reason (validate_model j) = failure_reason j"
  "cancellation_reason (validate_model j) = cancellation_reason j"
  "download_url (validate_model j) = download_url j"
  "job_memory (validate_model j) = job_memory j"
  "created_at (validate_model j) = created_at j"
  "updated_at (validate_model j) = updated_at j"
  "actual_duration (validate_model j) = actual_duration (set_actual_duration j)"
  by (simp_all add: validate_model_def set_storage_id_def Let_def)

lemma validate_model_storage_id:
  "\<exists>d. storage_id_of (validate_model j) = Some (from_details (job_id j) (Some d)) \<and>
    (\<forall>e. estimated_duration j = Some e \<longrightarrow> d = e)"
  by (auto simp: validate_model_def set_storage_id_def Let_def clone_with_def split: option.splits)

lemma set_actual_after_storage:
  "set_actual_duration (j\<lparr>storage_id_of := s\<rparr>) = (set_actual_duration j)\<lparr>storage_id_of := s\<rparr>"
  by (auto simp: set_actual_duration_def split: option.splits)

lemma validate_model_idem: "validate_model (validate_model j) = validate_model j"
  by (auto simp: validate_model_def set_storage_id_def Let_def set_actual_after_storage)

lemma job_ok_validate [simp]: "job_ok (validate_model j)"
  by (simp add: job_ok_def validate_model_idem)

lemma job_ok_new_job [simp]: "job_ok (new_job jid dev cal user st now)"
  by (simp add: new_job_def)

lemma job_ok_apply_update [simp]: "job_ok (apply_update now j u)"
  by (simp add: apply_update_def)

lemma validate_ok [simp]: "job_ok j \<Longrightarrow> validate_model j = j"
  by (simp add: job_ok_def)

lemma job_ok_storage_id:
  assumes "job_ok j"
  shows "\<exists>d. storage_id_of j = Some \<lparr>uuid = job_id j, duration = d\<rparr> \<and>
    (\<forall>e. estimated_duration j = Some e \<longrightarrow> d = e)"
  using validate_model_storage_id [of j] assms by (simp add: from_details_def)

lemma job_ok_actual:
  assumes "job_ok j" "timestamps_of j = Some ts" "resource_usage ts = Some d" "d \<noteq> 0"
  shows "actual_duration j \<noteq> None"
proof -
  have "actual_duration j = actual_duration (set_actual_duration j)"
    using validate_model_sel(15) [of j] assms(1) by simp
  then show ?thesis using assms(2-) by (auto simp: set_actual_duration_def split: option.splits)
qed

lemma apply_update_sel [simp]:
  "job_id (apply_update now j u) = override (upd_job_id u) (job_id j)"
  "user_id (apply_update now j u) = override_opt (upd_user_id u) (user_id j)"
  "estimated_duration (apply_update now j u) =
     override_opt (upd_estimated_duration u) (estimated_duration j)"
  "timestamps_of (apply_update now j u) = override_opt (upd_timestamps u) (timestamps_of j)"
  "stage_of (apply_update now j u) = override (upd_stage u) (stage_of j)"
  "status (apply_update now j u) = override (upd_status u) (status j)"
  "failure_reason (apply_update now j u) = override_opt (upd_failure_reason u) (failure_reason j)"
  "cancellation_reason (apply_update now j u) =
     override_opt (upd_cancellation_reason u) (cancellation_reason j)"
  "job_memory (apply_update now j u) = override_opt (upd_memory u) (job_memory j)"
  by (simp_all add: apply_update_def merge_update_def validate_partial_def)

lemma current_eta_cases:
  assumes "job_ok j"
  shows "current_eta now j =
    (case (actual_duration j, timestamps_of j, estimated_duration j) of
       (Some _, _, _) \<Rightarrow> Inl JobAlreadyCompleteError
     | (None, Some ts, Some d) \<Rightarrow>
         (case (stamp ts execution finished, stamp ts execution started) of
            (None, Some s) \<Rightarrow> Inr (Some (d - total_seconds (now - s)))
          | (Some f, Some s) \<Rightarrow> Inr (Some d)
          | _ \<Rightarrow> Inr None)
     | _ \<Rightarrow> Inr None)"
proof (cases "actual_duration j")
  case None
  have "resource_usage ts = Some d \<Longrightarrow> d = 0" if "timestamps_of j = Some ts" for ts d
    using job_ok_actual [OF assms that] None by auto
  then show ?thesis using None
    by (auto simp: current_eta_def current_time_used_def resource_usage_def stamp_def
        split: option.splits)
qed (simp add: current_eta_def)

lemma with_updates_single:
  "with_updates ts [(n, [(l, t)])] = set_timestamp n l t ts"
  by (simp add: with_updates_def)

lemma stamp_set_timestamp:
  "stamp (set_timestamp n l t ts) n' l' = (if n' = n \<and> l' = l then Some t else stamp ts n' l')"
  by (cases l; cases l') (auto simp: stamp_def set_timestamp_def empty_pair_def split: option.splits)

end
