(* ===== verification/Redis.thy ===== *)
theory Redis imports Prelude "HOL-Library.AList" begin

text \<open>
  The Redis server as the program uses it. Redis is not part of the program, so its commands are
  a parameter of the model: a record of operations on an opaque server state \<open>'r\<close>. What the
  program relies on is the documented behaviour of those commands, the laws of the locale
  \<open>redis_laws\<close>. Fields, list elements and set members have the type \<open>'k\<close>; a hash value is a
  number (the text of a float) or the encoding of some value \<open>'p\<close>. A pipeline applies its
  commands in order and atomically, so it is their composition. A name is used for one kind of
  collection only, as the program does: the laws do not cover a list command on a hash.
\<close>

section \<open>The commands\<close>

datatype 'p rval = RNum rat | RVal 'p

record ('k, 'p, 'r) redis =
  hget :: "'r \<Rightarrow> string \<Rightarrow> 'k \<Rightarrow> 'p rval option"
  hgetall :: "'r \<Rightarrow> string \<Rightarrow> ('k \<times> 'p rval) list"
  hset :: "string \<Rightarrow> 'k \<Rightarrow> 'p rval \<Rightarrow> 'r \<Rightarrow> 'r"
  hdel :: "string \<Rightarrow> 'k list \<Rightarrow> 'r \<Rightarrow> 'r"
  hincrbyfloat :: "string \<Rightarrow> 'k \<Rightarrow> rat \<Rightarrow> 'r \<Rightarrow> 'r"
  hexpire :: "string \<Rightarrow> rat \<Rightarrow> 'k \<Rightarrow> 'r \<Rightarrow> 'r"
  hpersist :: "string \<Rightarrow> 'k \<Rightarrow> 'r \<Rightarrow> 'r"
  httl :: "'r \<Rightarrow> string \<Rightarrow> 'k \<Rightarrow> rat option"
  rpush :: "string \<Rightarrow> 'k \<Rightarrow> 'r \<Rightarrow> 'r"
  lpop :: "string \<Rightarrow> 'r \<Rightarrow> 'k option \<times> 'r"
  lrange :: "'r \<Rightarrow> string \<Rightarrow> int \<Rightarrow> int \<Rightarrow> 'k list"
  llen :: "'r \<Rightarrow> string \<Rightarrow> nat"
  lrem :: "string \<Rightarrow> nat \<Rightarrow> 'k \<Rightarrow> 'r \<Rightarrow> 'r"
  zscore :: "'r \<Rightarrow> string \<Rightarrow> 'k \<Rightarrow> secs option"
  zadd :: "string \<Rightarrow> 'k \<Rightarrow> secs \<Rightarrow> 'r \<Rightarrow> 'r"
  zrem :: "string \<Rightarrow> 'k \<Rightarrow> 'r \<Rightarrow> 'r"
  zremrangebyscore :: "string \<Rightarrow> secs \<Rightarrow> secs \<Rightarrow> 'r \<Rightarrow> 'r"
  zinter_max :: "'r \<Rightarrow> string list \<Rightarrow> ('k \<times> secs) list option"
  scan_zset :: "'r \<Rightarrow> nat \<Rightarrow> string \<Rightarrow> nat \<times> string list"
  scan_pages :: "'r \<Rightarrow> string \<Rightarrow> nat"
  delete :: "string list \<Rightarrow> 'r \<Rightarrow> 'r"

text \<open>\<open>LRANGE name 0 -1\<close>: the whole list.\<close>

abbreviation items :: "('k, 'p, 'r) redis \<Rightarrow> 'r \<Rightarrow> string \<Rightarrow> 'k list" where
  "items R s n \<equiv> lrange R s n 0 (- 1)"

text \<open>The pages of a full \<open>SCAN\<close>, following the cursor from 0 for \<open>k\<close> pages.\<close>

primrec scan_cursor :: "('k, 'p, 'r) redis \<Rightarrow> 'r \<Rightarrow> string \<Rightarrow> nat \<Rightarrow> nat" where
  "scan_cursor R s prefix 0 = 0"
| "scan_cursor R s prefix (Suc k) = fst (scan_zset R s (scan_cursor R s prefix k) prefix)"

section \<open>Their laws\<close>

locale redis_laws =
  fixes R :: "('k, 'p, 'r) redis"
  assumes hget_hset [law_simps]:
      "hget R (hset R n k v s) n' k' = (if n' = n \<and> k' = k then Some v else hget R s n' k')"
    and hget_hdel [law_simps]:
      "hget R (hdel R n ks s) n' k' = (if n' = n \<and> k' \<in> set ks then None else hget R s n' k')"
    and hget_hincrbyfloat_other [law_simps]:
      "\<not> (n' = n \<and> k' = k) \<Longrightarrow> hget R (hincrbyfloat R n k d s) n' k' = hget R s n' k'"
    and hget_hincrbyfloat_None [law_simps]:
      "hget R s n k = None \<Longrightarrow> hget R (hincrbyfloat R n k d s) n k = Some (RNum d)"
    and hget_hincrbyfloat_RNum [law_simps]:
      "hget R s n k = Some (RNum x) \<Longrightarrow>
        hget R (hincrbyfloat R n k d s) n k = Some (RNum (x + d))"
    and hget_hexpire [law_simps]:
      "0 < t \<Longrightarrow> hget R (hexpire R n t k s) n' k' = hget R s n' k'"
    and hget_hpersist [law_simps]: "hget R (hpersist R n k s) n' k' = hget R s n' k'"
    and hget_rpush [law_simps]: "hget R (rpush R l k s) n' k' = hget R s n' k'"
    and hget_lpop [law_simps]: "hget R (snd (lpop R l s)) n' k' = hget R s n' k'"
    and hget_lrem [law_simps]: "hget R (lrem R l c k s) n' k' = hget R s n' k'"
    and hget_zadd [law_simps]: "hget R (zadd R z k sc s) n' k' = hget R s n' k'"
    and hget_zrem [law_simps]: "hget R (zrem R z k s) n' k' = hget R s n' k'"
    and hget_zremrange [law_simps]:
      "hget R (zremrangebyscore R z lo hi s) n' k' = hget R s n' k'"
    and hget_delete [law_simps]:
      "hget R (delete R ns s) n' k' = (if n' \<in> set ns then None else hget R s n' k')"
    and hgetall_map: "map_of (hgetall R s n) = hget R s n"
    and hgetall_distinct: "distinct (map fst (hgetall R s n))"
    and httl_hset [law_simps]:
      "httl R (hset R n k v s) n' k' = (if n' = n \<and> k' = k then None else httl R s n' k')"
    and httl_hexpire [law_simps]:
      "0 < t \<Longrightarrow> hget R s n k \<noteq> None \<Longrightarrow> httl R (hexpire R n t k s) n' k' =
        (if n' = n \<and> k' = k then Some t else httl R s n' k')"
    and httl_hpersist [law_simps]:
      "httl R (hpersist R n k s) n' k' = (if n' = n \<and> k' = k then None else httl R s n' k')"
    and httl_zadd [law_simps]: "httl R (zadd R z k sc s) n' k' = httl R s n' k'"
    and httl_zrem [law_simps]: "httl R (zrem R z k s) n' k' = httl R s n' k'"
    and httl_zremrange [law_simps]:
      "httl R (zremrangebyscore R z lo hi s) n' k' = httl R s n' k'"
    and items_hset [law_simps]: "items R (hset R n k v s) l' = items R s l'"
    and items_hdel [law_simps]: "items R (hdel R n ks s) l' = items R s l'"
    and items_hincrbyfloat [law_simps]: "items R (hincrbyfloat R n k d s) l' = items R s l'"
    and items_hexpire [law_simps]: "items R (hexpire R n t k s) l' = items R s l'"
    and items_hpersist [law_simps]: "items R (hpersist R n k s) l' = items R s l'"
    and items_rpush [law_simps]:
      "items R (rpush R l k s) l' = (if l' = l then items R s l @ [k] else items R s l')"
    and lpop_value [law_simps]:
      "fst (lpop R l s) = (case items R s l of [] \<Rightarrow> None | x # _ \<Rightarrow> Some x)"
    and items_lpop [law_simps]:
      "items R (snd (lpop R l s)) l' = (if l' = l then tl (items R s l) else items R s l')"
    and items_lrem [law_simps]:
      "items R (lrem R l (Suc 0) k s) l' =
        (if l' = l then remove1 k (items R s l) else items R s l')"
    and items_zadd [law_simps]: "items R (zadd R z k sc s) l' = items R s l'"
    and items_zrem [law_simps]: "items R (zrem R z k s) l' = items R s l'"
    and items_zremrange [law_simps]:
      "items R (zremrangebyscore R z lo hi s) l' = items R s l'"
    and items_delete [law_simps]:
      "items R (delete R ns s) l' = (if l' \<in> set ns then [] else items R s l')"
    and lrange_slice:
      "a \<le> b \<Longrightarrow> lrange R s l (int a) (int b) = take (Suc b - a) (drop a (items R s l))"
    and llen_items [law_simps]: "llen R s l = length (items R s l)"
    and zscore_hset [law_simps]: "zscore R (hset R n k v s) z' m = zscore R s z' m"
    and zscore_hdel [law_simps]: "zscore R (hdel R n ks s) z' m = zscore R s z' m"
    and zscore_hexpire [law_simps]: "zscore R (hexpire R n t k s) z' m = zscore R s z' m"
    and zscore_hpersist [law_simps]: "zscore R (hpersist R n k s) z' m = zscore R s z' m"
    and zscore_zadd [law_simps]:
      "zscore R (zadd R z k sc s) z' m = (if z' = z \<and> m = k then Some sc else zscore R s z' m)"
    and zscore_zrem [law_simps]:
      "zscore R (zrem R z k s) z' m = (if z' = z \<and> m = k then None else zscore R s z' m)"
    and zscore_zremrange [law_simps]:
      "zscore R (zremrangebyscore R z lo hi s) z' m =
        (if z' = z \<and> (\<exists>sc. zscore R s z m = Some sc \<and> lo \<le> sc \<and> sc \<le> hi) then None
         else zscore R s z' m)"
    and zscore_delete [law_simps]:
      "zscore R (delete R ns s) z' m = (if z' \<in> set ns then None else zscore R s z' m)"
    and zinter_None: "zinter_max R s [] = None"
    and zinter_Some: "zs \<noteq> [] \<Longrightarrow> \<exists>ps. zinter_max R s zs = Some ps \<and> distinct (map fst ps) \<and>
        sorted (map snd ps) \<and>
        (\<forall>m sc. (m, sc) \<in> set ps \<longleftrightarrow>
          (\<forall>z\<in>set zs. zscore R s z m \<noteq> None) \<and>
          sc = Max ((\<lambda>z. the (zscore R s z m)) ` set zs))"
    and scan_ends: "0 < scan_pages R s prefix \<and> scan_cursor R s prefix (scan_pages R s prefix) = 0"
    and scan_first_end:
      "0 < i \<Longrightarrow> i < scan_pages R s prefix \<Longrightarrow> scan_cursor R s prefix i \<noteq> 0"
    and scan_complete:
      "(\<Union>i<scan_pages R s prefix. set (snd (scan_zset R s (scan_cursor R s prefix i) prefix))) =
        {z. take (length prefix) z = prefix \<and> (\<exists>m. zscore R s z m \<noteq> None)}"
    and zscore_hincrbyfloat [law_simps]: "zscore R (hincrbyfloat R n k d s) z' m = zscore R s z' m"
    and zscore_rpush [law_simps]: "zscore R (rpush R l k s) z' m = zscore R s z' m"
    and zscore_lpop [law_simps]: "zscore R (snd (lpop R l s)) z' m = zscore R s z' m"
    and zscore_lrem [law_simps]: "zscore R (lrem R l c k s) z' m = zscore R s z' m"

section \<open>Time\<close>

text \<open>
  A command happens in an instant; between commands time passes. \<open>pass d\<close> is the server \<open>d\<close> seconds
  later: the fields whose time to live is over are gone, the others have that much less to live, and
  nothing else has changed.
\<close>

locale redis_time = redis_laws R for R :: "('k, 'p, 'r) redis" +
  fixes pass :: "rat \<Rightarrow> 'r \<Rightarrow> 'r"
  assumes hget_pass: "0 \<le> d \<Longrightarrow> hget R (pass d s) n k =
      (case httl R s n k of None \<Rightarrow> hget R s n k | Some t \<Rightarrow> if t \<le> d then None else hget R s n k)"
    and httl_pass: "0 \<le> d \<Longrightarrow> httl R (pass d s) n k =
      (case httl R s n k of None \<Rightarrow> None | Some t \<Rightarrow> if t \<le> d then None else Some (t - d))"
    and items_pass: "0 \<le> d \<Longrightarrow> items R (pass d s) l = items R s l"
    and zscore_pass: "0 \<le> d \<Longrightarrow> zscore R (pass d s) z m = zscore R s z m"
    and httl_hdel: "httl R (hdel R n ks s) n' k' = (if n' = n \<and> k' \<in> set ks then None else httl R s n' k')"

section \<open>An in-memory server\<close>

text \<open>
  A concrete server: it shows that the laws can hold together, and the witnesses run the model on
  it. Hashes and sorted sets are association lists per name.
\<close>

record ('k, 'p) mem =
  m_hash :: "string \<Rightarrow> ('k \<times> 'p rval) list"
  m_ttl :: "string \<Rightarrow> 'k \<Rightarrow> rat option"
  m_list :: "string \<Rightarrow> 'k list"
  m_zset :: "((string \<times> 'k) \<times> secs) list"

definition mem_empty :: "('k, 'p) mem" where
  "mem_empty = \<lparr>m_hash = (\<lambda>_. []), m_ttl = (\<lambda>_ _. None), m_list = (\<lambda>_. []), m_zset = []\<rparr>"

definition upd_alist :: "'a \<Rightarrow> 'b \<Rightarrow> ('a \<times> 'b) list \<Rightarrow> ('a \<times> 'b) list" where
  "upd_alist k v xs = (k, v) # filter (\<lambda>(a, _). a \<noteq> k) xs"

definition mem_lrange :: "'k list \<Rightarrow> int \<Rightarrow> int \<Rightarrow> 'k list" where
  "mem_lrange xs i j =
     (let n = int (length xs);
          a = max 0 (if i < 0 then n + i else i);
          b = (if j < 0 then n + j else j)
      in take (nat (b + 1 - a)) (drop (nat a) xs))"

definition mem_score :: "('k, 'p) mem \<Rightarrow> string \<Rightarrow> 'k \<Rightarrow> secs option" where
  "mem_score s z m = map_of (m_zset s) (z, m)"

definition mem_zinter :: "('k, 'p) mem \<Rightarrow> string list \<Rightarrow> ('k \<times> secs) list option" where
  "mem_zinter s zs =
     (if zs = [] then None
      else Some (sort_key snd
        (map (\<lambda>m. (m, Max ((\<lambda>z. the (mem_score s z m)) ` set zs)))
          (filter (\<lambda>m. \<forall>z\<in>set zs. mem_score s z m \<noteq> None)
            (remdups (map (snd \<circ> fst) (m_zset s)))))))"

definition mem_redis :: "('k, 'p, ('k, 'p) mem) redis" where
  "mem_redis = \<lparr>
     hget = (\<lambda>s n k. map_of (m_hash s n) k),
     hgetall = (\<lambda>s n. AList.clearjunk (m_hash s n)),
     hset = (\<lambda>n k v s. s\<lparr>m_hash := (m_hash s)(n := upd_alist k v (m_hash s n)),
                        m_ttl := (m_ttl s)(n := (m_ttl s n)(k := None))\<rparr>),
     hdel = (\<lambda>n ks s. s\<lparr>m_hash := (m_hash s)(n := filter (\<lambda>(a, _). a \<notin> set ks) (m_hash s n)),
                        m_ttl := (m_ttl s)(n := (\<lambda>k. if k \<in> set ks then None else m_ttl s n k))\<rparr>),
     hincrbyfloat = (\<lambda>n k d s. s\<lparr>m_hash := (m_hash s)(n := upd_alist k
        (case map_of (m_hash s n) k of Some (RNum x) \<Rightarrow> RNum (x + d) | _ \<Rightarrow> RNum d) (m_hash s n))\<rparr>),
     hexpire = (\<lambda>n t k s. if map_of (m_hash s n) k = None then s
        else s\<lparr>m_ttl := (m_ttl s)(n := (m_ttl s n)(k := Some t))\<rparr>),
     hpersist = (\<lambda>n k s. s\<lparr>m_ttl := (m_ttl s)(n := (m_ttl s n)(k := None))\<rparr>),
     httl = (\<lambda>s n k. m_ttl s n k),
     rpush = (\<lambda>l k s. s\<lparr>m_list := (m_list s)(l := m_list s l @ [k])\<rparr>),
     lpop = (\<lambda>l s. case m_list s l of [] \<Rightarrow> (None, s)
        | x # xs \<Rightarrow> (Some x, s\<lparr>m_list := (m_list s)(l := xs)\<rparr>)),
     lrange = (\<lambda>s l i j. mem_lrange (m_list s l) i j),
     llen = (\<lambda>s l. length (m_list s l)),
     lrem = (\<lambda>l c k s. s\<lparr>m_list := (m_list s)(l := ((remove1 k) ^^ c) (m_list s l))\<rparr>),
     zscore = mem_score,
     zadd = (\<lambda>z k sc s. s\<lparr>m_zset := upd_alist (z, k) sc (m_zset s)\<rparr>),
     zrem = (\<lambda>z k s. s\<lparr>m_zset := filter (\<lambda>(a, _). a \<notin> {(z, k)}) (m_zset s)\<rparr>),
     zremrangebyscore = (\<lambda>z lo hi s. s\<lparr>m_zset := filter (\<lambda>(a, _). a \<notin> {a. fst a = z
        \<and> (case map_of (m_zset s) a of None \<Rightarrow> False | Some sc \<Rightarrow> lo \<le> sc \<and> sc \<le> hi)})
        (m_zset s)\<rparr>),
     zinter_max = mem_zinter,
     scan_zset = (\<lambda>s c prefix. (0, remdups (filter (\<lambda>z. take (length prefix) z = prefix)
        (map (fst \<circ> fst) (m_zset s))))),
     scan_pages = (\<lambda>s prefix. 1),
     delete = (\<lambda>ns s. s\<lparr>m_hash := (\<lambda>n. if n \<in> set ns then [] else m_hash s n),
                       m_ttl := (\<lambda>n. if n \<in> set ns then (\<lambda>_. None) else m_ttl s n),
                       m_list := (\<lambda>n. if n \<in> set ns then [] else m_list s n),
                       m_zset := filter (\<lambda>(a, _). a \<notin> {a. fst a \<in> set ns}) (m_zset s)\<rparr>)\<rparr>"

section \<open>It satisfies the laws\<close>

lemma map_of_filter_key:
  "map_of (filter (\<lambda>(a, _). P a) xs) x = (if P x then map_of xs x else None)"
  by (induction xs) auto

lemma map_of_upd_alist: "map_of (upd_alist k v xs) = (map_of xs)(k \<mapsto> v)"
proof -
  have "map_of (filter (\<lambda>(a, _). a \<noteq> k) xs) x = (if x = k then None else map_of xs x)" for x
    by (simp add: map_of_filter_key)
  then show ?thesis by (auto simp: upd_alist_def fun_eq_iff)
qed

lemma mem_lrange_all: "mem_lrange xs 0 (- 1) = xs"
  by (simp add: mem_lrange_def)

lemma mem_lrange_slice: "mem_lrange xs (int a) (int b) = take (Suc b - a) (drop a xs)"
proof -
  have "nat (int b + 1 - int a) = Suc b - a" by linarith
  then show ?thesis by (simp add: mem_lrange_def)
qed

lemma mem_score_member: "mem_score s z m \<noteq> None \<longleftrightarrow> (z, m) \<in> fst ` set (m_zset s)"
  by (simp add: mem_score_def map_of_eq_None_iff)

lemma distinct_keyed_sort:
  assumes "distinct ms"
  shows "distinct (map fst (sort_key snd (map (\<lambda>m. (m, g m)) ms)))"
proof -
  let ?ps = "sort_key snd (map (\<lambda>m. (m, g m)) ms)"
  have "distinct (map (\<lambda>m. (m, g m)) ms)" using assms by (simp add: distinct_map inj_on_def)
  then have "distinct ?ps" by (simp only: distinct_sort)
  moreover have "inj_on fst (set ?ps)" by (simp only: set_sort set_map) (auto simp: inj_on_def)
  ultimately show ?thesis by (simp only: distinct_map)
qed

lemma mem_zinter_correct:
  assumes "zs \<noteq> []"
  shows "\<exists>ps. mem_zinter s zs = Some ps \<and> distinct (map fst ps) \<and> sorted (map snd ps) \<and>
    (\<forall>m sc. (m, sc) \<in> set ps \<longleftrightarrow> (\<forall>z\<in>set zs. mem_score s z m \<noteq> None) \<and>
       sc = Max ((\<lambda>z. the (mem_score s z m)) ` set zs))"
proof -
  let ?f = "\<lambda>m. (m, Max ((\<lambda>z. the (mem_score s z m)) ` set zs))"
  let ?ms = "filter (\<lambda>m. \<forall>z\<in>set zs. mem_score s z m \<noteq> None) (remdups (map (snd \<circ> fst) (m_zset s)))"
  let ?ps = "sort_key snd (map ?f ?ms)"
  have eq: "mem_zinter s zs = Some ?ps" using assms by (simp add: mem_zinter_def)
  have d: "distinct (map fst ?ps)" by (rule distinct_keyed_sort) (rule distinct_filter, rule distinct_remdups)
  have sub: "m \<in> set (map (snd \<circ> fst) (m_zset s))" if m: "\<forall>z\<in>set zs. mem_score s z m \<noteq> None" for m
  proof -
    have "hd zs \<in> set zs" using assms by simp
    with m have "mem_score s (hd zs) m \<noteq> None" by (rule bspec)
    then have "(hd zs, m) \<in> fst ` set (m_zset s)" by (simp only: mem_score_member)
    then have "snd (hd zs, m) \<in> snd ` fst ` set (m_zset s)" by (rule imageI)
    then show ?thesis by (simp add: image_comp)
  qed
  have "(m, sc) \<in> set ?ps \<longleftrightarrow> m \<in> set ?ms \<and> sc = Max ((\<lambda>z. the (mem_score s z m)) ` set zs)" for m sc
    by (simp only: set_sort set_map) blast
  moreover have "m \<in> set ?ms \<longleftrightarrow> (\<forall>z\<in>set zs. mem_score s z m \<noteq> None)" for m
    using sub [of m] by (simp only: set_filter set_remdups) blast
  ultimately have "\<forall>m sc. (m, sc) \<in> set ?ps \<longleftrightarrow> (\<forall>z\<in>set zs. mem_score s z m \<noteq> None) \<and>
      sc = Max ((\<lambda>z. the (mem_score s z m)) ` set zs)" by blast
  moreover have "sorted (map snd ?ps)" by (rule sorted_sort_key)
  ultimately show ?thesis using eq d by blast
qed

interpretation mem: redis_laws "mem_redis :: ('k, 'p, ('k, 'p) mem) redis"
proof (unfold_locales, goal_cases)
  case (47 zs s)
  show ?case using mem_zinter_correct [OF 47, of s] by (simp add: mem_redis_def)
next
  case (50 s prefix)
  have names: "(\<exists>m. mem_score s z m \<noteq> None) \<longleftrightarrow> z \<in> fst ` fst ` set (m_zset s)" for z
    unfolding mem_score_member by force
  have "set (snd (scan_zset mem_redis s c prefix)) =
      {z. take (length prefix) z = prefix \<and> z \<in> fst ` fst ` set (m_zset s)}" for c
    by (auto simp: mem_redis_def image_comp)
  moreover have "scan_pages mem_redis s prefix = 1" by (simp add: mem_redis_def)
  moreover have "zscore mem_redis s z m = mem_score s z m" for z m by (simp add: mem_redis_def)
  ultimately show ?case using names by (simp add: lessThan_Suc)
qed (auto simp: mem_redis_def map_of_upd_alist map_of_filter_key mem_lrange_all mem_lrange_slice
  mem_score_def mem_zinter_def AList.distinct_clearjunk AList.map_of_clearjunk
  split: list.split rval.split option.splits)

definition mem_pass :: "rat \<Rightarrow> ('k, 'p) mem \<Rightarrow> ('k, 'p) mem" where
  "mem_pass d s = s\<lparr>
     m_hash := (\<lambda>n. filter (\<lambda>(k, _). case m_ttl s n k of None \<Rightarrow> True | Some t \<Rightarrow> d < t) (m_hash s n)),
     m_ttl := (\<lambda>n k. case m_ttl s n k of None \<Rightarrow> None | Some t \<Rightarrow> if t \<le> d then None else Some (t - d))\<rparr>"

interpretation mem_time: redis_time "mem_redis :: ('k, 'p, ('k, 'p) mem) redis" mem_pass
  by unfold_locales
    (auto simp: mem_redis_def mem_pass_def map_of_filter_key mem_score_def split: option.splits)

end
