(* ===== verification/Payload.thy ===== *)
theory Payload imports Job_Model Redis begin

text \<open>
  What the program keeps in Redis: the call arguments of queued jobs (\<open>QueueContext\<close> of
  \<^verbatim>\<open>app/libs/queues/dtos.py\<close> and the keyword arguments of the tasks), jobs, and the logs
  of the requests. The JSON and the compressed pickle that the server holds are represented by the
  values they encode.
\<close>

section \<open>Call arguments\<close>

record queue_context =
  queue_prefix :: string
  force_normal_queue :: "bool option"
  max_idle_time :: int
  default_recalibration_interval :: rat
  backend_name :: string

record call_kwargs =
  kw_job_id :: "string option"
  kw_booking_id :: "string option"
  kw_job_file :: "string option"
  kw_results_file :: "string option"

type_synonym call_args = "queue_context \<times> call_kwargs"

definition no_kwargs :: call_kwargs where
  "no_kwargs = \<lparr>kw_job_id = None, kw_booking_id = None, kw_job_file = None, kw_results_file = None\<rparr>"

section \<open>Request logs\<close>

text \<open>\<open>RequestLog\<close> of \<^verbatim>\<open>app/utils/api.py\<close>; the timestamps are instants.\<close>

record request_log =
  rl_request_id :: string
  rl_user_id :: "string option"
  rl_ip_address :: "string option"
  rl_created_at :: "int option"
  rl_updated_at :: "int option"

section \<open>The server's keys and values\<close>

datatype rkey = StrKey string | SidKey storage_id
datatype payload = PJob job | PArgs call_args | PLog request_log

type_synonym 'r store = "(rkey, payload, 'r) redis"

end
