(* ===== verification/Static_Queue.thy ===== *)
theory Static_Queue imports Payload "HOL-Library.Sublist" begin

text \<open>
  \<open>StaticQueue\<close> of \<^verbatim>\<open>app/libs/queues/types.py\<close>: a FIFO of jobs kept in Redis without a
  runner. A list holds the storage ids, two hashes the jobs and their call arguments, and a third
  the running total of the durations and the last job taken. The JSON and the compressed pickle
  that the hashes hold are represented by the values they encode.
\<close>

section \<open>Names and keys\<close>

type_synonym entry = "job \<times> call_args"

definition db_of :: "string \<Rightarrow> string" where
  "db_of n = ''backing_map_'' @ n"

definition metadata_of :: "string \<Rightarrow> string" where
  "metadata_of n = ''metadata_'' @ n"

definition args_db_of :: "string \<Rightarrow> string" where
  "args_db_of n = ''__args_kwargs_'' @ n"

definition duration_key :: rkey where
  "duration_key = StrKey ''total_duration''"

definition current_job_key :: rkey where
  "current_job_key = StrKey ''current_job''"

text \<open>\<open>StorageID(key).duration\<close>: a text that is no storage id is malformed.\<close>

fun key_duration :: "rkey \<Rightarrow> rat result" where
  "key_duration (SidKey sid) = Inr (duration sid)"
| "key_duration (StrKey _) = Inl ValueError"

text \<open>\<open>Job.model_validate_json\<close> on what a hash holds; nothing there is invalid JSON.\<close>

definition parse_job :: "payload rval option \<Rightarrow> job result" where
  "parse_job v = (case v of Some (RVal (PJob j)) \<Rightarrow> Inr (validate_model j) | _ \<Rightarrow> Inl ValidationError)"

definition parse_args :: "payload rval option \<Rightarrow> call_args result" where
  "parse_args v = (case v of Some (RVal (PArgs a)) \<Rightarrow> Inr a | None \<Rightarrow> Inl TypeError | _ \<Rightarrow> Inl OtherError)"

section \<open>Operations\<close>

definition sq_total_duration :: "'r store \<Rightarrow> string \<Rightarrow> 'r \<Rightarrow> rat result" where
  "sq_total_duration R n s =
     (case hget R s (metadata_of n) duration_key of
        None \<Rightarrow> Inr 0
      | Some (RNum x) \<Rightarrow> Inr x
      | Some (RVal _) \<Rightarrow> Inl ValueError)"

definition sq_current_job :: "'r store \<Rightarrow> string \<Rightarrow> 'r \<Rightarrow> job option" where
  "sq_current_job R n s =
     (case parse_job (hget R s (metadata_of n) current_job_key) of Inr j \<Rightarrow> Some j | Inl _ \<Rightarrow> None)"

definition sq_add :: "'r store \<Rightarrow> string \<Rightarrow> job \<Rightarrow> call_args \<Rightarrow> (unit, 'r) prog" where
  "sq_add R n j args =
     (case storage_id_of j of
        None \<Rightarrow> raiseE OtherError
      | Some sid \<Rightarrow> modE (\<lambda>s.
          hincrbyfloat R (metadata_of n) duration_key (or_zero (estimated_duration j))
            (rpush R n (SidKey sid)
              (hset R (args_db_of n) (SidKey sid) (RVal (PArgs args))
                (hset R (db_of n) (SidKey sid) (RVal (PJob j)) s)))))"

text \<open>
  \<open>next\<close>: \<open>LPOP\<close> on an empty list gives \<open>None\<close>, whose text \<open>None\<close> is a malformed storage id. The
  \<open>ValueError\<close> it raises is not the \<open>ValidationError\<close> that the method catches.
\<close>

definition sq_next :: "'r store \<Rightarrow> string \<Rightarrow> (entry option, 'r) prog" where
  "sq_next R n s =
     (let (popped, s1) = lpop R n s;
          key = (case popped of None \<Rightarrow> StrKey ''None'' | Some k \<Rightarrow> k)
      in case key_duration key of
           Inl e \<Rightarrow> (Inl e, s1)
         | Inr d \<Rightarrow>
             (let s2 = hincrbyfloat R (metadata_of n) duration_key (- d) s1;
                  job_json = hget R s2 (db_of n) key;
                  args_bytes = hget R s2 (args_db_of n) key;
                  s3 = hdel R (args_db_of n) [key] (hdel R (db_of n) [key] s2)
              in case parse_job job_json of
                   Inl e \<Rightarrow> (Inr None, s3)
                 | Inr j \<Rightarrow>
                     (let s4 = hset R (metadata_of n) current_job_key (the job_json) s3
                      in case parse_args args_bytes of
                           Inl e \<Rightarrow> (Inl e, s4)
                         | Inr a \<Rightarrow> (Inr (Some (j, a)), s4))))"

definition sq_clear :: "'r store \<Rightarrow> string \<Rightarrow> (unit, 'r) prog" where
  "sq_clear R n = modE (delete R [db_of n, n, metadata_of n])"

definition sq_pop_job :: "'r store \<Rightarrow> string \<Rightarrow> rkey \<Rightarrow> (entry, 'r) prog" where
  "sq_pop_job R n key s =
     (case key_duration key of
        Inl e \<Rightarrow> (Inl e, s)
      | Inr d \<Rightarrow>
          (let s1 = lrem R n 1 key s;
               job_json = hget R s1 (db_of n) key;
               args_data = hget R s1 (args_db_of n) key;
               s2 = hdel R (args_db_of n) [key] (hdel R (db_of n) [key] s1);
               s3 = hincrbyfloat R (metadata_of n) duration_key (- d) s2
           in case parse_job job_json of
                Inl e \<Rightarrow> (Inl e, s3)
              | Inr j \<Rightarrow>
                  (case parse_args args_data of
                     Inl e \<Rightarrow> (Inl e, s3)
                   | Inr a \<Rightarrow> (Inr (j, a), s3))))"

text \<open>Batches of 100: \<open>math.ceil(num_of_entries / batch_size)\<close> of them, by fixed offsets.\<close>

definition batch_size :: nat where
  "batch_size = 100"

definition num_of_batches :: "nat \<Rightarrow> nat" where
  "num_of_batches entries = (entries + (batch_size - 1)) div batch_size"

definition sq_batch :: "'r store \<Rightarrow> string \<Rightarrow> nat \<Rightarrow> 'r \<Rightarrow> rkey list" where
  "sq_batch R n b s =
     (let start = b * batch_size in lrange R s n (int start) (int (start + batch_size - 1)))"

primrec pop_first_in ::
    "'r store \<Rightarrow> string \<Rightarrow> (rkey \<Rightarrow> bool result) \<Rightarrow> rkey list \<Rightarrow> (entry option, 'r) prog" where
  "pop_first_in R n filter_func [] = retE None"
| "pop_first_in R n filter_func (k # ks) =
     bindE (liftE (filter_func k)) (\<lambda>hit.
       if hit then bindE (sq_pop_job R n k) (\<lambda>e. retE (Some e))
       else pop_first_in R n filter_func ks)"

primrec pop_first_from ::
    "'r store \<Rightarrow> string \<Rightarrow> (rkey \<Rightarrow> bool result) \<Rightarrow> nat \<Rightarrow> nat \<Rightarrow> (entry option, 'r) prog" where
  "pop_first_from R n filter_func batch 0 = retE None"
| "pop_first_from R n filter_func batch (Suc left) =
     bindE (getE (sq_batch R n batch)) (\<lambda>entries.
       bindE (pop_first_in R n filter_func entries) (\<lambda>found.
         case found of
           Some e \<Rightarrow> retE (Some e)
         | None \<Rightarrow> pop_first_from R n filter_func (Suc batch) left))"

definition sq_pop_first ::
    "'r store \<Rightarrow> string \<Rightarrow> (rkey \<Rightarrow> bool result) \<Rightarrow> (entry option, 'r) prog" where
  "sq_pop_first R n filter_func =
     bindE (getE (\<lambda>s. num_of_batches (llen R s n))) (\<lambda>batches.
       pop_first_from R n filter_func 0 batches)"

text \<open>
  \<open>pop_many\<close> is a generator: \<open>body\<close> is what the consumer does with each item before it asks for
  the next one, on a state that the queue's Redis is a component of. The whole is the consumer's
  \<open>for\<close> loop.
\<close>

primrec pop_many_in ::
    "'r store \<Rightarrow> string \<Rightarrow> ('s \<Rightarrow> 'r) \<Rightarrow> ('r \<Rightarrow> 's \<Rightarrow> 's) \<Rightarrow> (entry \<Rightarrow> (unit, 's) prog)
      \<Rightarrow> rkey list \<Rightarrow> secs \<Rightarrow> (secs, 's) prog" where
  "pop_many_in R n get put body [] available = retE available"
| "pop_many_in R n get put body (k # ks) available =
     bindE (liftE (key_duration k)) (\<lambda>d.
       if available < Secs d then pop_many_in R n get put body ks available
       else bindE (zoomE get put (sq_pop_job R n k)) (\<lambda>e.
              thenE (body e) (pop_many_in R n get put body ks (secs_minus available d))))"

primrec pop_many_from ::
    "'r store \<Rightarrow> string \<Rightarrow> ('s \<Rightarrow> 'r) \<Rightarrow> ('r \<Rightarrow> 's \<Rightarrow> 's) \<Rightarrow> (entry \<Rightarrow> (unit, 's) prog)
      \<Rightarrow> nat \<Rightarrow> nat \<Rightarrow> secs \<Rightarrow> (unit, 's) prog" where
  "pop_many_from R n get put body batch 0 available = retE ()"
| "pop_many_from R n get put body batch (Suc left) available =
     (if \<not> Secs 0 < available then retE ()
      else bindE (getE (\<lambda>s. sq_batch R n batch (get s))) (\<lambda>entries.
        bindE (pop_many_in R n get put body entries available) (\<lambda>available'.
          pop_many_from R n get put body (Suc batch) left available')))"

definition sq_pop_many ::
    "'r store \<Rightarrow> string \<Rightarrow> ('s \<Rightarrow> 'r) \<Rightarrow> ('r \<Rightarrow> 's \<Rightarrow> 's) \<Rightarrow> (entry \<Rightarrow> (unit, 's) prog)
      \<Rightarrow> rat option \<Rightarrow> (unit, 's) prog" where
  "sq_pop_many R n get put body max_total_duration =
     bindE (getE (\<lambda>s. num_of_batches (llen R (get s) n))) (\<lambda>batches.
       pop_many_from R n get put body 0 batches
         (case max_total_duration of None \<Rightarrow> Infty | Some d \<Rightarrow> Secs d))"

section \<open>Well-formed queues and their contents\<close>

text \<open>The abstract state: the entries in order.\<close>

definition entry_at :: "'r store \<Rightarrow> string \<Rightarrow> 'r \<Rightarrow> rkey \<Rightarrow> entry option" where
  "entry_at R n s k =
     (case (hget R s (db_of n) k, hget R s (args_db_of n) k) of
        (Some (RVal (PJob j)), Some (RVal (PArgs a))) \<Rightarrow> Some (j, a)
      | _ \<Rightarrow> None)"

definition sq_contents :: "'r store \<Rightarrow> string \<Rightarrow> 'r \<Rightarrow> entry list" where
  "sq_contents R n s = map (\<lambda>k. the (entry_at R n s k)) (items R s n)"

text \<open>A job that can be queued: validated, its storage id that of its own id and duration.\<close>

definition queueable :: "job \<Rightarrow> bool" where
  "queueable j \<longleftrightarrow> job_ok j \<and> storage_id_of j = Some (from_job j)"

definition key_of :: "entry \<Rightarrow> rkey" where
  "key_of e = SidKey (from_job (fst e))"

definition entry_duration :: "entry \<Rightarrow> rat" where
  "entry_duration e = or_zero (estimated_duration (fst e))"

definition sq_wf :: "'r store \<Rightarrow> string \<Rightarrow> 'r \<Rightarrow> bool" where
  "sq_wf R n s \<longleftrightarrow>
     distinct (items R s n) \<and>
     (\<forall>k\<in>set (items R s n). \<exists>e. entry_at R n s k = Some e \<and> queueable (fst e) \<and> k = key_of e) \<and>
     sq_total_duration R n s = Inr (sum_list (map entry_duration (sq_contents R n s)))"

lemma names_distinct [simp]:
  "db_of n = db_of n' \<longleftrightarrow> n = n'" "args_db_of n = args_db_of n' \<longleftrightarrow> n = n'"
  "metadata_of n = metadata_of n' \<longleftrightarrow> n = n'"
  "db_of n \<noteq> args_db_of n'" "db_of n \<noteq> metadata_of n'" "args_db_of n \<noteq> metadata_of n'"
  "args_db_of n \<noteq> db_of n'" "metadata_of n \<noteq> db_of n'" "metadata_of n \<noteq> args_db_of n'"
  by (simp_all add: db_of_def args_db_of_def metadata_of_def)

lemma queueable_new_job [simp]: "queueable (new_job jid dev cal user st now)"
proof -
  have "storage_id_of (new_job jid dev cal user st now) =
      Some (from_job (new_job jid dev cal user st now))"
    by (simp add: new_job_def validate_model_def set_storage_id_def from_job_def
        set_actual_duration_def clone_with_def from_details_def)
  then show ?thesis by (simp add: queueable_def)
qed

lemma queueable_estimated:
  assumes "job_ok j" and "estimated_duration j \<noteq> None"
  shows "queueable j"
  using job_ok_storage_id [OF assms(1)] assms
  by (auto simp: queueable_def from_job_def from_details_def)

lemma key_duration_key_of [simp]: "key_duration (key_of e) = Inr (entry_duration e)"
  by (simp add: key_of_def entry_duration_def from_job_def from_details_def)

locale job_redis = redis_laws R for R :: "'r store"

context job_redis
begin

lemma key_entry: "sq_wf R n s \<Longrightarrow> k \<in> set (items R s n) \<Longrightarrow> key_of (the (entry_at R n s k)) = k"
  by (force simp: sq_wf_def)

lemma items_keys:
  assumes "sq_wf R n s"
  shows "items R s n = map key_of (sq_contents R n s)"
proof -
  have "k = key_of (the (entry_at R n s k))" if "k \<in> set (items R s n)" for k
    using assms that by (force simp: sq_wf_def)
  then have "map id (items R s n) = map (\<lambda>k. key_of (the (entry_at R n s k))) (items R s n)"
    by (intro map_cong) auto
  then show ?thesis by (simp add: sq_contents_def comp_def)
qed

lemma entry_at_eq:
  "entry_at R n s k = Some (j, a) \<longleftrightarrow>
    hget R s (db_of n) k = Some (RVal (PJob j)) \<and> hget R s (args_db_of n) k = Some (RVal (PArgs a))"
  by (auto simp: entry_at_def split: option.splits rval.splits payload.splits)

lemma wf_entry:
  assumes "sq_wf R n s" and "e \<in> set (sq_contents R n s)"
  shows "entry_at R n s (key_of e) = Some e" "queueable (fst e)" "key_of e \<in> set (items R s n)"
proof -
  obtain k where k: "k \<in> set (items R s n)" and e: "e = the (entry_at R n s k)"
    using assms(2) by (auto simp: sq_contents_def)
  obtain e' where e': "entry_at R n s k = Some e'" "queueable (fst e')" "k = key_of e'"
    using assms(1) k unfolding sq_wf_def by blast
  with e have "e = e'" by simp
  with e' k show "entry_at R n s (key_of e) = Some e" "queueable (fst e)" "key_of e \<in> set (items R s n)"
    by simp_all
qed

text \<open>Any two states that agree on the three collections of a queue agree on the queue.\<close>

lemma contents_cong:
  assumes "items R s' n = items R s n"
    and "\<And>k. hget R s' (db_of n) k = hget R s (db_of n) k"
    and "\<And>k. hget R s' (args_db_of n) k = hget R s (args_db_of n) k"
  shows "sq_contents R n s' = sq_contents R n s"
  using assms by (simp add: sq_contents_def entry_at_def)

lemma total_after_incr:
  assumes "sq_total_duration R n s = Inr t"
    and "hget R s' (metadata_of n) duration_key = hget R s (metadata_of n) duration_key"
  shows "sq_total_duration R n (hincrbyfloat R (metadata_of n) duration_key d s') = Inr (t + d)"
  using assms
  by (auto simp: sq_total_duration_def law_simps split: option.splits rval.splits)

text \<open>The three states the operations build, named.\<close>

definition added :: "string \<Rightarrow> job \<Rightarrow> call_args \<Rightarrow> 'r \<Rightarrow> 'r" where
  "added n j a s =
     hincrbyfloat R (metadata_of n) duration_key (or_zero (estimated_duration j))
       (rpush R n (SidKey (from_job j))
         (hset R (args_db_of n) (SidKey (from_job j)) (RVal (PArgs a))
           (hset R (db_of n) (SidKey (from_job j)) (RVal (PJob j)) s)))"

definition removed :: "string \<Rightarrow> rkey \<Rightarrow> rat \<Rightarrow> 'r \<Rightarrow> 'r" where
  "removed n k d s =
     hincrbyfloat R (metadata_of n) duration_key (- d)
       (hdel R (args_db_of n) [k] (hdel R (db_of n) [k] (lrem R n (Suc 0) k s)))"

lemma sq_add_eval: "queueable j \<Longrightarrow> sq_add R n j a s = (Inr (), added n j a s)"
  by (simp add: sq_add_def queueable_def added_def modE_def)

lemma added_collections:
  "items R (added n j a s) n' = (if n' = n then items R s n @ [SidKey (from_job j)] else items R s n')"
  "hget R (added n j a s) (db_of n') k =
    (if n' = n \<and> k = SidKey (from_job j) then Some (RVal (PJob j)) else hget R s (db_of n') k)"
  "hget R (added n j a s) (args_db_of n') k =
    (if n' = n \<and> k = SidKey (from_job j) then Some (RVal (PArgs a)) else hget R s (args_db_of n') k)"
  by (simp_all add: added_def law_simps)

lemma removed_collections:
  "items R (removed n k d s) n' = (if n' = n then remove1 k (items R s n) else items R s n')"
  "hget R (removed n k d s) (db_of n') k' =
    (if n' = n \<and> k' = k then None else hget R s (db_of n') k')"
  "hget R (removed n k d s) (args_db_of n') k' =
    (if n' = n \<and> k' = k then None else hget R s (args_db_of n') k')"
  by (simp_all add: removed_def law_simps)

lemma added_total:
  "sq_total_duration R n s = Inr t \<Longrightarrow>
    sq_total_duration R n (added n j a s) = Inr (t + or_zero (estimated_duration j))"
  unfolding added_def by (rule total_after_incr) (simp_all add: law_simps)

lemma removed_total:
  "sq_total_duration R n s = Inr t \<Longrightarrow> sq_total_duration R n (removed n k d s) = Inr (t - d)"
  unfolding removed_def
  by (rule total_after_incr [THEN trans]) (simp_all add: law_simps)

lemma added_contents:
  assumes "SidKey (from_job j) \<notin> set (items R s n)"
  shows "sq_contents R n (added n j a s) = sq_contents R n s @ [(j, a)]"
proof -
  have "entry_at R n (added n j a s) k = entry_at R n s k" if "k \<in> set (items R s n)" for k
    using that assms by (auto simp: entry_at_def added_collections)
  moreover have "entry_at R n (added n j a s) (SidKey (from_job j)) = Some (j, a)"
    by (simp add: entry_at_eq added_collections)
  ultimately show ?thesis by (simp add: sq_contents_def added_collections)
qed

lemma added_wf:
  assumes wf: "sq_wf R n s" and q: "queueable j"
    and new: "SidKey (from_job j) \<notin> set (items R s n)"
  shows "sq_wf R n (added n j a s)"
  unfolding sq_wf_def
proof (intro conjI ballI)
  show "distinct (items R (added n j a s) n)"
    using wf new by (simp add: sq_wf_def added_collections)
  have "sq_total_duration R n s = Inr (sum_list (map entry_duration (sq_contents R n s)))"
    using wf by (simp add: sq_wf_def)
  from added_total [OF this]
  show "sq_total_duration R n (added n j a s) =
      Inr (sum_list (map entry_duration (sq_contents R n (added n j a s))))"
    using new by (simp add: added_contents entry_duration_def)
  fix k
  assume "k \<in> set (items R (added n j a s) n)"
  then consider "k = SidKey (from_job j)" | "k \<in> set (items R s n)" "k \<noteq> SidKey (from_job j)"
    by (auto simp: added_collections split: if_splits)
  then show "\<exists>e. entry_at R n (added n j a s) k = Some e \<and> queueable (fst e) \<and> k = key_of e"
  proof cases
    case 1
    then have "entry_at R n (added n j a s) k = Some (j, a)"
      by (simp add: entry_at_eq added_collections)
    with 1 q show ?thesis by (intro exI [of _ "(j, a)"]) (simp add: key_of_def)
  next
    case 2
    then have "entry_at R n (added n j a s) k = entry_at R n s k"
      by (simp add: entry_at_def added_collections)
    with wf 2 show ?thesis by (auto simp: sq_wf_def)
  qed
qed

lemma removed_contents:
  assumes wf: "sq_wf R n s" and e: "e \<in> set (sq_contents R n s)"
  shows "sq_contents R n (removed n (key_of e) d s) = remove1 e (sq_contents R n s)"
proof -
  let ?k = "key_of e" and ?c = "\<lambda>k. the (entry_at R n s k)"
  have d: "distinct (items R s n)" using wf by (simp add: sq_wf_def)
  have inj: "inj_on ?c (set (items R s n))"
  proof (rule inj_onI)
    fix k k'
    assume "k \<in> set (items R s n)" "k' \<in> set (items R s n)" "?c k = ?c k'"
    then show "k = k'" using key_entry [OF wf] by metis
  qed
  have k: "?k \<in> set (items R s n)" and ek: "?c ?k = e"
    using wf_entry [OF wf e] by simp_all
  have "entry_at R n (removed n ?k d s) k' = entry_at R n s k'" if "k' \<noteq> ?k" for k'
    using that by (simp add: entry_at_def removed_collections)
  then have "sq_contents R n (removed n ?k d s) = map ?c (remove1 ?k (items R s n))"
    using d by (auto simp: sq_contents_def removed_collections)
  also have "\<dots> = remove1 (?c ?k) (map ?c (items R s n))"
    using d k inj by (simp add: distinct_remove1_removeAll map_removeAll_inj_on
        inj_on_def distinct_map)
  finally show ?thesis by (simp add: ek sq_contents_def)
qed

lemma removed_wf:
  assumes wf: "sq_wf R n s" and e: "e \<in> set (sq_contents R n s)"
  shows "sq_wf R n (removed n (key_of e) (entry_duration e) s)"
  unfolding sq_wf_def
proof (intro conjI ballI)
  let ?s = "removed n (key_of e) (entry_duration e) s"
  show "distinct (items R ?s n)"
    using wf by (simp add: sq_wf_def removed_collections)
  have "sq_total_duration R n s = Inr (sum_list (map entry_duration (sq_contents R n s)))"
    using wf by (simp add: sq_wf_def)
  from removed_total [OF this]
  show "sq_total_duration R n ?s = Inr (sum_list (map entry_duration (sq_contents R n ?s)))"
    using wf e by (simp add: removed_contents sum_list_remove1)
  fix k
  assume k: "k \<in> set (items R ?s n)"
  have "distinct (items R s n)" using wf by (simp add: sq_wf_def)
  with k have k': "k \<in> set (items R s n)" "k \<noteq> key_of e"
    by (auto simp: removed_collections)
  then have "entry_at R n ?s k = entry_at R n s k"
    by (simp add: entry_at_def removed_collections)
  with wf k' show "\<exists>e'. entry_at R n ?s k = Some e' \<and> queueable (fst e') \<and> k = key_of e'"
    by (auto simp: sq_wf_def)
qed

lemma parse_entry:
  assumes "entry_at R n s k = Some (j, a)" "queueable j"
  shows "parse_job (hget R s (db_of n) k) = Inr j" "parse_args (hget R s (args_db_of n) k) = Inr a"
  using assms by (auto simp: entry_at_eq parse_job_def parse_args_def queueable_def)

lemma sq_pop_job_eval:
  assumes wf: "sq_wf R n s" and e: "e \<in> set (sq_contents R n s)"
  shows "sq_pop_job R n (key_of e) s = (Inr e, removed n (key_of e) (entry_duration e) s)"
proof -
  obtain j a where ja: "e = (j, a)" by (cases e)
  note parse = parse_entry [of n s "key_of e" j a]
  show ?thesis
    using wf_entry [OF wf e] parse
    by (simp add: sq_pop_job_def ja removed_def Let_def law_simps)
qed

text \<open>The head of the queue, and a queue that is empty.\<close>

lemma sq_next_eval:
  assumes wf: "sq_wf R n s" and c: "sq_contents R n s = e # es"
  shows "\<exists>s'. sq_next R n s = (Inr (Some e), s') \<and> sq_wf R n s' \<and> sq_contents R n s' = es \<and>
    sq_current_job R n s' = Some (fst e)"
proof -
  obtain j a where ja: "e = (j, a)" by (cases e)
  have e: "e \<in> set (sq_contents R n s)" by (simp add: c)
  let ?k = "key_of e" and ?d = "entry_duration e"
  have it: "items R s n = ?k # map key_of es" using items_keys [OF wf] c by simp
  let ?s2 = "hincrbyfloat R (metadata_of n) duration_key (- ?d) (snd (lpop R n s))"
  let ?s3 = "hdel R (args_db_of n) [?k] (hdel R (db_of n) [?k] ?s2)"
  let ?s4 = "hset R (metadata_of n) current_job_key (RVal (PJob j)) ?s3"
  note ent = wf_entry [OF wf e]
  have job: "hget R s (db_of n) ?k = Some (RVal (PJob j))"
    and args: "hget R s (args_db_of n) ?k = Some (RVal (PArgs a))"
    using ent(1) by (simp_all add: ja entry_at_eq)
  have ok: "job_ok j" using ent(2) by (simp add: ja queueable_def)
  have "sq_next R n s = (Inr (Some e), ?s4)"
    using it job args ok
    by (simp add: sq_next_def split_beta law_simps parse_job_def parse_args_def Let_def ja)
  moreover have keys: "duration_key \<noteq> current_job_key"
    by (simp add: duration_key_def current_job_key_def)
  have "sq_contents R n ?s4 = sq_contents R n (removed n ?k ?d s)"
    using it by (intro contents_cong) (simp_all add: law_simps removed_collections)
  then have cont: "sq_contents R n ?s4 = es"
    using removed_contents [OF wf e] c by simp
  have tot: "sq_total_duration R n ?s4 = Inr (sum_list (map entry_duration es))"
  proof -
    have "sq_total_duration R n s = Inr (sum_list (map entry_duration (e # es)))"
      using wf c by (simp add: sq_wf_def)
    from total_after_incr [OF this, of "snd (lpop R n s)" "- ?d"]
    have "sq_total_duration R n ?s2 = Inr (sum_list (map entry_duration es))"
      by (simp add: law_simps)
    then show ?thesis using keys by (simp add: sq_total_duration_def law_simps)
  qed
  have ent4: "\<exists>e'. entry_at R n ?s4 k = Some e' \<and> queueable (fst e') \<and> k = key_of e'"
    if "k \<in> set (map key_of es)" for k
  proof -
    have "distinct (items R s n)" using wf by (simp add: sq_wf_def)
    then have "?k \<notin> set (map key_of es)" by (simp only: it distinct.simps not_False_eq_True)
    with that have "k \<noteq> ?k" by metis
    moreover have "k \<in> set (items R s n)" using that unfolding it by simp
    ultimately have k: "k \<in> set (items R s n)" "k \<noteq> ?k" by simp_all
    then have "entry_at R n ?s4 k = entry_at R n s k" by (simp add: entry_at_def law_simps)
    with wf k show ?thesis by (auto simp: sq_wf_def)
  qed
  have i4: "items R ?s4 n = map key_of es" using it by (simp add: law_simps)
  have d4: "distinct (map key_of es)" using wf it by (simp add: sq_wf_def)
  have "sq_wf R n ?s4"
    unfolding sq_wf_def cont i4 using ent4 d4 tot by blast
  moreover have "sq_current_job R n ?s4 = Some j"
    using ok by (simp add: sq_current_job_def law_simps parse_job_def)
  ultimately show ?thesis
    using cont \<open>sq_next R n s = (Inr (Some e), ?s4)\<close> by (simp add: ja)
qed

lemma sq_next_empty:
  "items R s n = [] \<Longrightarrow> \<exists>s'. sq_next R n s = (Inl ValueError, s') \<and> items R s' n = []"
  by (simp add: sq_next_def split_beta law_simps Let_def)

text \<open>Popping a job that is not in the queue raises, and still takes its duration off the total.\<close>

lemma sq_pop_job_absent:
  assumes wf: "sq_wf R n s" and no: "hget R s (db_of n) (SidKey sid) = None"
  shows "\<exists>s'. sq_pop_job R n (SidKey sid) s = (Inl ValidationError, s') \<and>
    sq_contents R n s' = sq_contents R n s \<and>
    sq_total_duration R n s' = Inr (sum_list (map entry_duration (sq_contents R n s)) - duration sid)"
proof -
  have out: "SidKey sid \<notin> set (items R s n)"
    using wf no by (auto simp: sq_wf_def entry_at_def)
  then have "entry_at R n (removed n (SidKey sid) d s) k = entry_at R n s k"
    if "k \<in> set (items R s n)" for d k
    using that by (auto simp: entry_at_def removed_collections)
  then have c: "sq_contents R n (removed n (SidKey sid) d s) = sq_contents R n s" for d
    using out by (simp add: sq_contents_def removed_collections remove1_idem)
  have "sq_pop_job R n (SidKey sid) s = (Inl ValidationError, removed n (SidKey sid) (duration sid) s)"
    using no by (simp add: sq_pop_job_def removed_def Let_def law_simps parse_job_def)
  moreover have "sq_total_duration R n s = Inr (sum_list (map entry_duration (sq_contents R n s)))"
    using wf by (simp add: sq_wf_def)
  from removed_total [OF this, of "SidKey sid" "duration sid"]
  have "sq_total_duration R n (removed n (SidKey sid) (duration sid) s) =
      Inr (sum_list (map entry_duration (sq_contents R n s)) - duration sid)" .
  ultimately show ?thesis using c by blast
qed

text \<open>What an operation on another queue, or on anything else in Redis, leaves alone.\<close>

definition same_queue :: "string \<Rightarrow> 'r \<Rightarrow> 'r \<Rightarrow> bool" where
  "same_queue n s s' \<longleftrightarrow>
     items R s' n = items R s n \<and>
     (\<forall>k. hget R s' (db_of n) k = hget R s (db_of n) k) \<and>
     (\<forall>k. hget R s' (args_db_of n) k = hget R s (args_db_of n) k) \<and>
     (\<forall>k. hget R s' (metadata_of n) k = hget R s (metadata_of n) k)"

lemma same_queue_refl [simp]: "same_queue n s s"
  by (simp add: same_queue_def)

lemma same_queue_trans: "same_queue n s t \<Longrightarrow> same_queue n t u \<Longrightarrow> same_queue n s u"
  by (simp add: same_queue_def)

lemma same_queue_contents: "same_queue n s s' \<Longrightarrow> sq_contents R n s' = sq_contents R n s"
  by (rule contents_cong) (simp_all add: same_queue_def)

lemma same_queue_total: "same_queue n s s' \<Longrightarrow> sq_total_duration R n s' = sq_total_duration R n s"
  by (simp add: same_queue_def sq_total_duration_def)

lemma same_queue_wf:
  assumes "same_queue n s s'" and "sq_wf R n s"
  shows "sq_wf R n s'"
proof -
  have "entry_at R n s' k = entry_at R n s k" for k
    using assms(1) by (simp add: same_queue_def entry_at_def)
  moreover have "items R s' n = items R s n" using assms(1) by (simp add: same_queue_def)
  ultimately show ?thesis
    using assms(2) same_queue_contents [OF assms(1)] same_queue_total [OF assms(1)]
    unfolding sq_wf_def by metis
qed

lemma same_queue_added: "n' \<noteq> n \<Longrightarrow> same_queue n' s (added n j a s)"
  by (simp add: same_queue_def added_collections) (simp add: added_def law_simps)

lemma same_queue_removed: "n' \<noteq> n \<Longrightarrow> same_queue n' s (removed n k d s)"
  by (simp add: same_queue_def removed_collections) (simp add: removed_def law_simps)

lemma same_queue_pop_job: "n' \<noteq> n \<Longrightarrow> same_queue n' s (snd (sq_pop_job R n k s))"
proof (cases "key_duration k")
  case (Inr d)
  assume "n' \<noteq> n"
  moreover have "snd (sq_pop_job R n k s) = removed n k d s"
    using Inr by (simp add: sq_pop_job_def removed_def Let_def split: sum.split)
  ultimately show ?thesis by (simp add: same_queue_removed)
qed (simp add: sq_pop_job_def)

text \<open>Popping in order a list of entries of the queue, with a consumer that lets the queue be.\<close>

lemma pop_each:
  assumes "\<And>t s. get (put t s) = t" and "sq_wf R n (get s)" and "distinct es"
    and "set es \<subseteq> set (sq_contents R n (get s))"
    and "\<And>e s. e \<in> set es \<Longrightarrow> \<exists>s'. body e s = (Inr (), s') \<and> same_queue n (get s) (get s')"
  shows "\<exists>s'. forE (map key_of es) (\<lambda>k. bindE (zoomE get put (sq_pop_job R n k)) body) s = (Inr (), s') \<and>
    sq_wf R n (get s') \<and> sq_contents R n (get s') = fold remove1 es (sq_contents R n (get s))"
  using assms(2-)
proof (induction es arbitrary: s)
  case (Cons e es)
  let ?t = "removed n (key_of e) (entry_duration e) (get s)"
  have e: "e \<in> set (sq_contents R n (get s))" using Cons.prems by simp
  obtain s' where b: "body e (put ?t s) = (Inr (), s')" "same_queue n ?t (get s')"
    using Cons.prems(4) [of e "put ?t s"] assms(1) by auto
  have step: "bindE (zoomE get put (sq_pop_job R n (key_of e))) body s = (Inr (), s')"
    using b(1) sq_pop_job_eval [OF Cons.prems(1) e] by (simp add: prog_simps)
  have wf: "sq_wf R n (get s')"
    by (rule same_queue_wf [OF b(2)]) (rule removed_wf [OF Cons.prems(1) e])
  have c: "sq_contents R n (get s') = remove1 e (sq_contents R n (get s))"
    using same_queue_contents [OF b(2)] removed_contents [OF Cons.prems(1) e] by simp
  have sub: "set es \<subseteq> set (sq_contents R n (get s'))"
  proof
    fix x
    assume "x \<in> set es"
    with Cons.prems(2,3) have "x \<noteq> e" "x \<in> set (sq_contents R n (get s))" by auto
    then show "x \<in> set (sq_contents R n (get s'))" unfolding c using in_set_remove1 [of x e] by blast
  qed
  obtain s'' where "forE (map key_of es) (\<lambda>k. bindE (zoomE get put (sq_pop_job R n k)) body) s' = (Inr (), s'')"
    "sq_wf R n (get s'')" "sq_contents R n (get s'') = fold remove1 es (sq_contents R n (get s'))"
    using Cons.IH [OF wf _ sub] Cons.prems(2,4) by auto
  with step c show ?case by (simp add: prog_simps)
qed (simp add: prog_simps)

end

section \<open>Searching in batches\<close>

lemma num_of_batches_enough: "n \<le> num_of_batches n * batch_size"
proof -
  have "batch_size * ((n + 99) div batch_size) + (n + 99) mod batch_size = n + 99"
    by (rule mult_div_mod_eq)
  moreover have "(n + 99) mod batch_size < 100" by (simp add: batch_size_def)
  ultimately show ?thesis by (simp add: num_of_batches_def batch_size_def)
qed

lemma num_of_batches_bound: "n \<le> m * batch_size \<Longrightarrow> num_of_batches n \<le> m"
  by (simp add: num_of_batches_def batch_size_def less_Suc_eq_le [symmetric] div_less_iff_less_mult)

context job_redis
begin

lemma sq_batch_slice: "sq_batch R n b s = take batch_size (drop (b * batch_size) (items R s n))"
proof -
  have pos: "0 < batch_size" by (simp add: batch_size_def)
  then have "Suc (b * batch_size + batch_size - 1) - b * batch_size = batch_size" by simp
  with pos show ?thesis unfolding sq_batch_def Let_def by (subst lrange_slice) simp_all
qed

lemma pop_first_in_eval:
  assumes "\<And>k. k \<in> set ks \<Longrightarrow> filter_func k = Inr (p k)"
  shows "pop_first_in R n filter_func ks s =
    (case List.find p ks of None \<Rightarrow> (Inr None, s)
     | Some k \<Rightarrow> bindE (sq_pop_job R n k) (\<lambda>e. retE (Some e)) s)"
  using assms by (induction ks) (simp_all add: prog_simps)

lemma pop_first_from_eval:
  assumes "\<And>k. k \<in> set (items R s n) \<Longrightarrow> filter_func k = Inr (p k)"
    and "length (items R s n) \<le> (b + m) * batch_size"
  shows "pop_first_from R n filter_func b m s =
    (case List.find p (drop (b * batch_size) (items R s n)) of None \<Rightarrow> (Inr None, s)
     | Some k \<Rightarrow> bindE (sq_pop_job R n k) (\<lambda>e. retE (Some e)) s)"
  using assms(2)
proof (induction m arbitrary: b)
  case 0
  then show ?case by (simp add: prog_simps)
next
  case (Suc m)
  let ?xs = "drop (b * batch_size) (items R s n)"
  have split: "?xs = take batch_size ?xs @ drop (Suc b * batch_size) (items R s n)"
    by (simp add: add.commute) (metis append_take_drop_id drop_drop)
  have batch: "pop_first_in R n filter_func (take batch_size ?xs) s =
      (case List.find p (take batch_size ?xs) of None \<Rightarrow> (Inr None, s)
       | Some k \<Rightarrow> bindE (sq_pop_job R n k) (\<lambda>e. retE (Some e)) s)"
    by (rule pop_first_in_eval) (rule assms(1), meson in_set_dropD in_set_takeD)
  show ?case
  proof (cases "List.find p (take batch_size ?xs)")
    case None
    then have "List.find p ?xs = List.find p (drop (Suc b * batch_size) (items R s n))"
      using split by (metis find_append option.case(1))
    with None batch Suc.IH [of "Suc b"] Suc.prems show ?thesis
      by (simp add: prog_simps sq_batch_slice)
  next
    case (Some k)
    then have "List.find p ?xs = Some k"
      using split by (metis find_append option.case(2))
    with Some batch show ?thesis
      by (cases "sq_pop_job R n k s"; cases "fst (sq_pop_job R n k s)")
        (auto simp: prog_simps sq_batch_slice bindE_def)
  qed
qed

lemma find_map_key: "List.find p (map f xs) = map_option f (List.find (p \<circ> f) xs)"
  by (induction xs) auto

lemma sq_pop_first_eval:
  assumes wf: "sq_wf R n s"
    and filt: "\<And>e. e \<in> set (sq_contents R n s) \<Longrightarrow> filter_func (key_of e) = Inr (p (key_of e))"
  shows "sq_pop_first R n filter_func s =
    (case List.find (p \<circ> key_of) (sq_contents R n s) of None \<Rightarrow> (Inr None, s)
     | Some e \<Rightarrow> (Inr (Some e), removed n (key_of e) (entry_duration e) s))"
proof -
  have it: "items R s n = map key_of (sq_contents R n s)" by (rule items_keys [OF wf])
  have "sq_pop_first R n filter_func s =
    (case List.find p (drop (0 * batch_size) (items R s n)) of None \<Rightarrow> (Inr None, s)
     | Some k \<Rightarrow> bindE (sq_pop_job R n k) (\<lambda>e. retE (Some e)) s)"
    unfolding sq_pop_first_def
    by (simp add: prog_simps) (rule pop_first_from_eval [where b = 0, simplified];
      use filt num_of_batches_enough in \<open>auto simp: it law_simps\<close>)
  also have "\<dots> = (case List.find (p \<circ> key_of) (sq_contents R n s) of None \<Rightarrow> (Inr None, s)
     | Some e \<Rightarrow> (Inr (Some e), removed n (key_of e) (entry_duration e) s))"
  proof (cases "List.find (p \<circ> key_of) (sq_contents R n s)")
    case (Some e)
    then have "e \<in> set (sq_contents R n s)" by (metis find_split in_set_conv_decomp)
    with Some show ?thesis
      using sq_pop_job_eval [OF wf] by (simp add: it find_map_key prog_simps)
  qed (simp add: it find_map_key)
  finally show ?thesis .
qed

end

section \<open>Taking what fits\<close>

text \<open>The reference for \<open>pop_many\<close>: first come first served among those that still fit.\<close>

fun fitting :: "secs \<Rightarrow> entry list \<Rightarrow> entry list" where
  "fitting available [] = []"
| "fitting available (e # es) =
     (if available < Secs (entry_duration e) then fitting available es
      else e # fitting (secs_minus available (entry_duration e)) es)"

fun left_over :: "secs \<Rightarrow> entry list \<Rightarrow> secs" where
  "left_over available [] = available"
| "left_over available (e # es) =
     (if available < Secs (entry_duration e) then left_over available es
      else left_over (secs_minus available (entry_duration e)) es)"

lemma fitting_subseq: "subseq (fitting a es) es"
  by (induction a es rule: fitting.induct) auto

lemma fitting_Infty [simp]: "fitting Infty es = es"
  by (induction es) auto

lemma left_over_Infty [simp]: "left_over Infty es = Infty"
  by (induction es) auto

lemma fitting_within:
  "0 \<le> a \<Longrightarrow> sum_list (map entry_duration (fitting (Secs a) es)) \<le> a"
proof (induction es arbitrary: a)
  case (Cons e es)
  show ?case
  proof (cases "a < entry_duration e")
    case False
    then have "0 \<le> a - entry_duration e" by simp
    from Cons.IH [OF this] False show ?thesis by simp
  qed (use Cons in simp)
qed simp

lemma not_secs_less: "\<not> Secs 0 < a \<Longrightarrow> \<exists>x. a = Secs x \<and> x \<le> 0"
  by (cases a) auto

context job_redis
begin

text \<open>What the consumer's loop does with the entries it gets.\<close>

definition consume ::
    "string \<Rightarrow> ('s \<Rightarrow> 'r) \<Rightarrow> ('r \<Rightarrow> 's \<Rightarrow> 's) \<Rightarrow> (entry \<Rightarrow> (unit, 's) prog) \<Rightarrow> entry list \<Rightarrow> (unit, 's) prog" where
  "consume n get put body es =
     forE (map key_of es) (\<lambda>k. bindE (zoomE get put (sq_pop_job R n k)) body)"

lemma pop_many_in_eval:
  "pop_many_in R n get put body (map key_of es) a s =
    bindE (consume n get put body (fitting a es)) (\<lambda>_. retE (left_over a es)) s"
proof (induction es arbitrary: a s)
  case Nil
  then show ?case by (simp add: consume_def prog_simps)
next
  case (Cons e es)
  show ?case
  proof (cases "a < Secs (entry_duration e)")
    case True
    with Cons show ?thesis by (simp add: prog_simps)
  next
    case False
    obtain r s1 where p: "zoomE get put (sq_pop_job R n (key_of e)) s = (r, s1)"
      by (cases "zoomE get put (sq_pop_job R n (key_of e)) s")
    show ?thesis
    proof (cases r)
      case (Inl x)
      with p False show ?thesis by (simp add: prog_simps consume_def)
    next
      case (Inr x)
      obtain q s2 where b: "body x s1 = (q, s2)" by (cases "body x s1")
      with p Inr False show ?thesis
        by (cases q) (simp_all add: prog_simps consume_def Cons.IH [unfolded consume_def] bindE_def)
    qed
  qed
qed

lemma pop_many_short:
  assumes wf: "sq_wf R n (get s)" and "length (sq_contents R n (get s)) \<le> batch_size"
    and lim: "case limit of None \<Rightarrow> True | Some d \<Rightarrow> 0 < d"
  shows "sq_pop_many R n get put body limit s =
    consume n get put body
      (fitting (case limit of None \<Rightarrow> Infty | Some d \<Rightarrow> Secs d) (sq_contents R n (get s))) s"
proof -
  let ?es = "sq_contents R n (get s)" and ?a = "case limit of None \<Rightarrow> Infty | Some d \<Rightarrow> Secs d"
  have it: "items R (get s) n = map key_of ?es" by (rule items_keys [OF wf])
  have a: "Secs 0 < ?a" using lim by (cases limit) auto
  have "num_of_batches (length ?es) \<le> 1" using assms(2) by (intro num_of_batches_bound) simp
  moreover have "num_of_batches (length ?es) \<noteq> 0 \<or> ?es = []"
    using num_of_batches_enough [of "length ?es"] by (cases "num_of_batches (length ?es)") auto
  ultimately consider "?es = []" "num_of_batches (length ?es) = 0" | "num_of_batches (length ?es) = 1"
    by linarith
  then show ?thesis
  proof cases
    case 1
    then show ?thesis
      by (simp add: sq_pop_many_def prog_simps law_simps it consume_def)
  next
    case 2
    obtain q s' where c: "consume n get put body (fitting ?a ?es) s = (q, s')"
      by (cases "consume n get put body (fitting ?a ?es) s")
    have "sq_batch R n 0 (get s) = map key_of ?es"
      using assms(2) by (simp add: sq_batch_slice it)
    with 2 a c show ?thesis
      by (cases q) (simp_all add: sq_pop_many_def prog_simps law_simps it pop_many_in_eval bindE_def)
  qed
qed

lemma consume_total:
  assumes "\<And>t s. get (put t s) = t" and "sq_wf R n (get s)" and "distinct es"
    and "set es \<subseteq> set (sq_contents R n (get s))"
    and "\<And>e s. e \<in> set es \<Longrightarrow> \<exists>s'. body e s = (Inr (), s') \<and> same_queue n (get s) (get s')"
  shows "\<exists>s'. consume n get put body es s = (Inr (), s') \<and>
    sq_wf R n (get s') \<and> sq_contents R n (get s') = fold remove1 es (sq_contents R n (get s))"
  unfolding consume_def by (rule pop_each [OF assms])

lemma contents_distinct:
  assumes "sq_wf R n s"
  shows "distinct (sq_contents R n s)"
proof -
  have "distinct (map key_of (sq_contents R n s))"
    using assms items_keys [OF assms] by (simp add: sq_wf_def)
  then show ?thesis by (simp add: distinct_map)
qed

lemma fold_remove1_prefix: "fold remove1 xs (xs @ ys) = ys"
  by (induction xs) simp_all

text \<open>
  Between 100 and 200 entries and no limit: the first batch is popped, and the second, read at
  offset 100 of what is then left, is empty.
\<close>

lemma pop_many_second_batch:
  assumes gp: "\<And>t s. get (put t s) = t" and wf: "sq_wf R n (get s)"
    and len: "batch_size < length (sq_contents R n (get s))"
      "length (sq_contents R n (get s)) \<le> 2 * batch_size"
    and body: "\<And>e s. \<exists>s'. body e s = (Inr (), s') \<and> same_queue n (get s) (get s')"
  shows "\<exists>s'. sq_pop_many R n get put body None s = (Inr (), s') \<and>
    sq_contents R n (get s') = drop batch_size (sq_contents R n (get s))"
proof -
  let ?es = "sq_contents R n (get s)"
  let ?take = "take batch_size ?es"
  have it: "items R (get s) n = map key_of ?es" by (rule items_keys [OF wf])
  have two: "num_of_batches (length ?es) = 2"
  proof -
    have "num_of_batches (length ?es) \<le> 2" by (rule num_of_batches_bound) (rule len)
    moreover have "\<not> num_of_batches (length ?es) \<le> 1"
      using num_of_batches_enough [of "length ?es"] len(1)
        mult_le_mono1 [of "num_of_batches (length ?es)" 1 batch_size] by linarith
    ultimately show ?thesis by linarith
  qed
  obtain s1 where s1: "consume n get put body ?take s = (Inr (), s1)" "sq_wf R n (get s1)"
    "sq_contents R n (get s1) = fold remove1 ?take ?es"
    using consume_total [where get = get and put = put and n = n and s = s and es = ?take
        and body = body] gp wf contents_distinct [OF wf] body
    by (auto dest: in_set_takeD)
  have c1: "sq_contents R n (get s1) = drop batch_size ?es"
    using s1(3) fold_remove1_prefix [of ?take "drop batch_size ?es"] by simp
  have "sq_batch R n 0 (get s) = map key_of ?take"
    by (simp add: sq_batch_slice it take_map)
  then have b0: "pop_many_in R n get put body (sq_batch R n 0 (get s)) Infty s = (Inr Infty, s1)"
    using s1(1) by (simp add: pop_many_in_eval prog_simps)
  have "length (items R (get s1) n) \<le> batch_size"
    using items_keys [OF s1(2)] c1 len(2) by simp
  then have b1: "sq_batch R n 1 (get s1) = []" by (simp add: sq_batch_slice)
  have "sq_pop_many R n get put body None s = (Inr (), s1)"
    using b0 b1 two by (simp add: sq_pop_many_def prog_simps law_simps it eval_nat_numeral)
  with c1 show ?thesis by blast
qed

end

section \<open>The contract of a queue\<close>

text \<open>
  What the users of a queue rely on: a state that is in order shows its entries as a list, \<open>add\<close>
  appends, \<open>next\<close> takes the head, \<open>pop\<close> takes a given entry out.
\<close>

locale job_fifo =
  fixes ok :: "'s \<Rightarrow> bool"
    and contents :: "'s \<Rightarrow> entry list"
    and total :: "'s \<Rightarrow> rat result"
    and add :: "job \<Rightarrow> call_args \<Rightarrow> (unit, 's) prog"
    and next_entry :: "(entry option, 's) prog"
    and pop :: "rkey \<Rightarrow> (entry, 's) prog"
  assumes add_law: "ok s \<Longrightarrow> queueable j \<Longrightarrow> key_of (j, a) \<notin> set (map key_of (contents s)) \<Longrightarrow>
      \<exists>s'. add j a s = (Inr (), s') \<and> ok s' \<and> contents s' = contents s @ [(j, a)]"
    and next_law: "ok s \<Longrightarrow> contents s = e # es \<Longrightarrow>
      \<exists>s'. next_entry s = (Inr (Some e), s') \<and> ok s' \<and> contents s' = es"
    and pop_law: "ok s \<Longrightarrow> e \<in> set (contents s) \<Longrightarrow>
      \<exists>s'. pop (key_of e) s = (Inr e, s') \<and> ok s' \<and> contents s' = remove1 e (contents s)"
    and keys_law: "ok s \<Longrightarrow> distinct (map key_of (contents s))"
    and total_law: "ok s \<Longrightarrow> total s = Inr (sum_list (map entry_duration (contents s)))"

context job_fifo
begin

lemma add_all:
  assumes "ok s" and "\<forall>e\<in>set es. queueable (fst e)"
    and "distinct (map key_of (contents s @ es))"
  shows "\<exists>s'. forE es (\<lambda>(j, a). add j a) s = (Inr (), s') \<and> ok s' \<and> contents s' = contents s @ es"
  using assms
proof (induction es arbitrary: s)
  case (Cons e es)
  obtain j a where e: "e = (j, a)" by (cases e)
  have q: "queueable j" using Cons.prems(2) e by simp
  have new: "key_of (j, a) \<notin> set (map key_of (contents s))"
    using Cons.prems(3) unfolding e by (simp only: map_append list.map distinct_append) auto
  obtain s1 where s1: "add j a s = (Inr (), s1)" "ok s1" "contents s1 = contents s @ [e]"
    using add_law [OF Cons.prems(1) q new] e by blast
  have "distinct (map key_of (contents s1 @ es))" using Cons.prems(3) s1(3) by simp
  with Cons.IH [OF s1(2)] Cons.prems(2) obtain s2 where
    "forE es (\<lambda>(j, a). add j a) s1 = (Inr (), s2)" "ok s2" "contents s2 = contents s1 @ es"
    by (metis list.set_intros(2))
  with s1 e show ?case by (simp add: prog_simps)
qed (simp add: prog_simps)

lemma next_all:
  assumes "ok s" and "contents s = es @ rest"
  shows "\<exists>s'. timesE (length es) next_entry s = (Inr (map Some es), s') \<and> ok s' \<and> contents s' = rest"
  using assms
proof (induction es arbitrary: s)
  case (Cons e es)
  from Cons.prems(2) have "contents s = e # (es @ rest)" by simp
  from next_law [OF Cons.prems(1) this] obtain s1 where
    s1: "next_entry s = (Inr (Some e), s1)" "ok s1" "contents s1 = es @ rest" by blast
  from Cons.IH [OF s1(2,3)] obtain s2 where
    "timesE (length es) next_entry s1 = (Inr (map Some es), s2)" "ok s2" "contents s2 = rest" by blast
  with s1(1) show ?case by (simp add: prog_simps)
qed (simp add: prog_simps)

lemma first_in_first_out:
  assumes "ok s" and "contents s = []" and "\<forall>e\<in>set es. queueable (fst e)"
    and "distinct (map key_of es)"
  shows "\<exists>s1 s2. forE es (\<lambda>(j, a). add j a) s = (Inr (), s1) \<and>
    total s1 = Inr (sum_list (map entry_duration es)) \<and>
    timesE (length es) next_entry s1 = (Inr (map Some es), s2) \<and>
    contents s2 = [] \<and> total s2 = Inr 0"
proof -
  have "distinct (map key_of (contents s @ es))" using assms by simp
  from add_all [OF assms(1,3) this] assms(2) obtain s1 where
    s1: "forE es (\<lambda>(j, a). add j a) s = (Inr (), s1)" "ok s1" "contents s1 = es" by auto
  then obtain s2 where "timesE (length es) next_entry s1 = (Inr (map Some es), s2)" "ok s2"
    "contents s2 = []"
    using next_all [of s1 es "[]"] by auto
  moreover have "total s1 = Inr (sum_list (map entry_duration es))" using total_law s1 by simp
  moreover have "total s2 = Inr 0" using total_law calculation by simp
  ultimately show ?thesis using s1(1) by blast
qed

end

sublocale job_redis \<subseteq> queue: job_fifo "sq_wf R n" "sq_contents R n" "sq_total_duration R n"
    "sq_add R n" "sq_next R n" "sq_pop_job R n" for n
proof
  fix s j a
  assume wf: "sq_wf R n s" and q: "queueable j"
    and new: "key_of (j, a) \<notin> set (map key_of (sq_contents R n s))"
  then have "SidKey (from_job j) \<notin> set (items R s n)"
    by (simp add: items_keys [OF wf] key_of_def)
  then show "\<exists>s'. sq_add R n j a s = (Inr (), s') \<and> sq_wf R n s' \<and>
      sq_contents R n s' = sq_contents R n s @ [(j, a)]"
    using added_wf [OF wf q] added_contents sq_add_eval [OF q] by blast
next
  fix s e es
  assume "sq_wf R n s" "sq_contents R n s = e # es"
  then show "\<exists>s'. sq_next R n s = (Inr (Some e), s') \<and> sq_wf R n s' \<and> sq_contents R n s' = es"
    using sq_next_eval by blast
next
  fix s e
  assume "sq_wf R n s" "e \<in> set (sq_contents R n s)"
  then show "\<exists>s'. sq_pop_job R n (key_of e) s = (Inr e, s') \<and> sq_wf R n s' \<and>
      sq_contents R n s' = remove1 e (sq_contents R n s)"
    using sq_pop_job_eval removed_wf removed_contents by blast
next
  fix s
  assume "sq_wf R n s"
  then show "distinct (map key_of (sq_contents R n s))"
    using items_keys by (metis sq_wf_def)
qed (simp add: sq_wf_def)

text \<open>The in-memory server, with jobs.\<close>

interpretation mem_jobs: job_redis "mem_redis :: (rkey, payload, (rkey, payload) mem) redis"
  by (unfold_locales)

lemma sq_wf_empty: "job_redis R \<Longrightarrow> items R s n = [] \<Longrightarrow>
    hget R s (metadata_of n) duration_key = None \<Longrightarrow> sq_wf R n s \<and> sq_contents R n s = []"
  by (simp add: sq_wf_def sq_contents_def sq_total_duration_def)

lemma mem_empty_wf [simp]:
  "sq_wf mem_redis n mem_empty" "sq_contents mem_redis n mem_empty = []"
  using sq_wf_empty [OF mem_jobs.job_redis_axioms, of mem_empty n]
  by (simp_all add: mem_redis_def mem_empty_def mem_lrange_def)

end
