(* ===== verification/Collection.thy ===== *)
theory Collection imports Clock Py_String Redis "HOL-Library.List_Lexorder" "HOL-Library.Char_ord" begin

text \<open>
  \<open>Collection\<close> of \<^verbatim>\<open>app/utils/redis_store.py\<close>: items of one schema in a Redis hash, with a
  sorted set per value of every indexed field that maps the keys of the items to their expiry.
  The schema is a parameter (a record of what the code asks of it), so the same definitions serve
  the jobs and the request logs. An operation works on the server and on the time of the last
  cleanup, which the collection object keeps. A pipeline buffers its commands: when something
  raises before \<open>execute\<close>, nothing has been sent. An operation happens at one moment; what the time to live
  that it sets does afterwards is in \<open>Job_Expiry\<close>.
\<close>

section \<open>Schemas\<close>

datatype ttl = Undefined | Forever | Ttl rat

datatype key_arg = KStr string | KTuple "string list" | KDict "(string \<times> string) list"

record ('k, 'p, 't, 'u) schema =
  sc_name :: string
  sc_primary_fields :: "string list"
  sc_index_fields :: "string list"
  sc_text :: "'t \<Rightarrow> string \<Rightarrow> string"
  sc_upd_text :: "'u \<Rightarrow> string \<Rightarrow> string option"
  sc_upd_fields :: "'u \<Rightarrow> string list"
  sc_validate_partial :: "'u \<Rightarrow> 'u result"
  sc_merge :: "int \<Rightarrow> 't \<Rightarrow> 'u \<Rightarrow> 't result"
  sc_enc :: "'t \<Rightarrow> 'p"
  sc_dec :: "'p \<Rightarrow> 't result"
  sc_field :: "string \<Rightarrow> 'k"
  sc_default_ttl :: ttl
  sc_cleanup_interval :: rat

type_synonym 'r coll = "'r \<times> rat"

definition key_separator :: string where
  "key_separator = ''@@@''"

definition idx_separator :: string where
  "idx_separator = ''::''"

fun dict_get :: "(string \<times> string) list \<Rightarrow> string \<Rightarrow> string result" where
  "dict_get d k = (case map_of d k of None \<Rightarrow> Inl KeyError | Some v \<Rightarrow> Inr v)"

fun mapM :: "('a \<Rightarrow> 'b result) \<Rightarrow> 'a list \<Rightarrow> 'b list result" where
  "mapM f [] = Inr []"
| "mapM f (x # xs) =
     (case f x of Inl e \<Rightarrow> Inl e
      | Inr y \<Rightarrow> (case mapM f xs of Inl e \<Rightarrow> Inl e | Inr ys \<Rightarrow> Inr (y # ys)))"

definition construct_redis_key :: "('k, 'p, 't, 'u) schema \<Rightarrow> key_arg \<Rightarrow> string result" where
  "construct_redis_key C key =
     (case key of
        KStr k \<Rightarrow> Inr (join key_separator [k])
      | KTuple ks \<Rightarrow> Inr (join key_separator ks)
      | KDict d \<Rightarrow> (case mapM (dict_get d) (sc_primary_fields C) of
                      Inl e \<Rightarrow> Inl e | Inr ks \<Rightarrow> Inr (join key_separator ks)))"

definition get_redis_key :: "('k, 'p, 't, 'u) schema \<Rightarrow> 't \<Rightarrow> string" where
  "get_redis_key C item = join key_separator (map (sc_text C item) (sc_primary_fields C))"

definition index_fields :: "('k, 'p, 't, 'u) schema \<Rightarrow> string list" where
  "index_fields C = sc_primary_fields C
     @ filter (\<lambda>f. f \<notin> set (sc_primary_fields C)) (sc_index_fields C)"

definition index_prefix :: "('k, 'p, 't, 'u) schema \<Rightarrow> string" where
  "index_prefix C = ''__index__'' @ sc_name C @ ''_''"

definition index_key :: "('k, 'p, 't, 'u) schema \<Rightarrow> string \<Rightarrow> string \<Rightarrow> string" where
  "index_key C field v = index_prefix C @ idx_separator @ field @ idx_separator @ v"

definition get_index_prop :: "string \<Rightarrow> string" where
  "get_index_prop k = hd (rsplit1 idx_separator k)"

definition get_index_keys :: "('k, 'p, 't, 'u) schema \<Rightarrow> 't \<Rightarrow> string list" where
  "get_index_keys C item = map (\<lambda>f. index_key C f (sc_text C item f)) (index_fields C)"

definition get_index_keys_from_dict :: "('k, 'p, 't, 'u) schema \<Rightarrow> 'u \<Rightarrow> string list" where
  "get_index_keys_from_dict C u =
     List.map_filter (\<lambda>f. map_option (index_key C f) (sc_upd_text C u f)) (index_fields C)"

definition model_validate_json :: "('k, 'p, 't, 'u) schema \<Rightarrow> 'p rval option \<Rightarrow> 't result" where
  "model_validate_json C v =
     (case v of Some (RVal p) \<Rightarrow> sc_dec C p | _ \<Rightarrow> Inl ValidationError)"

definition paginate :: "'a list \<Rightarrow> nat \<Rightarrow> nat option \<Rightarrow> 'a list" where
  "paginate data skip limit =
     (case limit of
        None \<Rightarrow> drop skip data
      | Some l \<Rightarrow> drop skip (take (l + skip) data))"

section \<open>Reading\<close>

definition exists_item ::
    "('k, 'p, 'r) redis \<Rightarrow> ('k, 'p, 't, 'u) schema \<Rightarrow> key_arg \<Rightarrow> (bool, 'r coll) prog" where
  "exists_item R C key =
     bindE (liftE (construct_redis_key C key)) (\<lambda>k.
       getE (\<lambda>(s, _). hget R s (sc_name C) (sc_field C k) \<noteq> None))"

definition get_one ::
    "('k, 'p, 'r) redis \<Rightarrow> ('k, 'p, 't, 'u) schema \<Rightarrow> key_arg \<Rightarrow> ('t, 'r coll) prog" where
  "get_one R C key =
     bindE (liftE (construct_redis_key C key)) (\<lambda>k.
       bindE (getE (\<lambda>(s, _). hget R s (sc_name C) (sc_field C k))) (\<lambda>data.
         case data of
           None \<Rightarrow> raiseE ItemNotFoundError
         | Some _ \<Rightarrow> liftE (model_validate_json C data)))"

text \<open>\<open>sorted(..., reverse=True)\<close> keeps the order of equal keys, hence the two reversals.\<close>

definition get_all ::
    "('k, 'p, 'r) redis \<Rightarrow> ('k, 'p, 't, 'u) schema \<Rightarrow> bool \<Rightarrow> ('t list, 'r coll) prog" where
  "get_all R C desc =
     bindE (getE (\<lambda>(s, _). map snd (hgetall R s (sc_name C)))) (\<lambda>raw.
       bindE (liftE (mapM (\<lambda>v. model_validate_json C (Some v)) raw)) (\<lambda>data.
         retE (if desc then rev (sort_key (get_redis_key C) (rev data))
               else sort_key (get_redis_key C) data)))"

definition find_by_keys ::
    "('k, 'p, 'r) redis \<Rightarrow> ('k, 'p, 't, 'u) schema \<Rightarrow> key_arg list \<Rightarrow> ('t list, 'r coll) prog" where
  "find_by_keys R C keys =
     (if keys = [] then retE []
      else bindE (liftE (mapM (construct_redis_key C) keys)) (\<lambda>ks.
        bindE (getE (\<lambda>(s, _). map (\<lambda>k. hget R s (sc_name C) (sc_field C k)) ks)) (\<lambda>raw.
          liftE (mapM (model_validate_json C) (filter (\<lambda>v. v \<noteq> None) raw)))))"

definition find_by_index ::
    "('k, 'p, 'r) redis \<Rightarrow> ('k, 'p, 't, 'u) schema \<Rightarrow> int \<Rightarrow> 'u \<Rightarrow> nat \<Rightarrow> nat option
      \<Rightarrow> ('t list, 'r coll) prog" where
  "find_by_index R C now filters skip limit =
     bindE (liftE (sc_validate_partial C filters)) (\<lambda>parsed.
       if \<not> set (sc_upd_fields C parsed) \<subseteq> set (index_fields C) then raiseE ValueError
       else bindE (getE (\<lambda>(s, _). zinter_max R s (get_index_keys_from_dict C parsed))) (\<lambda>pairs.
         case pairs of
           None \<Rightarrow> raiseE OtherError
         | Some ps \<Rightarrow>
             (let live = map fst (filter (\<lambda>(k, v). Secs (total_seconds now) \<le> v) ps);
                  matched = paginate live skip limit
              in if matched = [] then retE []
                 else bindE (getE (\<lambda>(s, _). map (hget R s (sc_name C)) matched)) (\<lambda>raw.
                   liftE (mapM (model_validate_json C) raw)))))"

section \<open>Indexes\<close>

text \<open>
  The \<open>SCAN\<close> loop. The fuel is the number of pages of the server's iteration, which is when the
  cursor comes back to 0 (\<open>scan_loop_total\<close> below).
\<close>

fun scan_loop ::
    "('k, 'p, 'r) redis \<Rightarrow> 'r \<Rightarrow> string \<Rightarrow> nat \<Rightarrow> nat \<Rightarrow> string list \<Rightarrow> string list option" where
  "scan_loop R s prefix 0 cursor acc = None"
| "scan_loop R s prefix (Suc fuel) cursor acc =
     (let (cursor', ks) = scan_zset R s cursor prefix in
      if cursor' = 0 then Some (acc @ ks) else scan_loop R s prefix fuel cursor' (acc @ ks))"

definition get_all_index_keys ::
    "('k, 'p, 'r) redis \<Rightarrow> ('k, 'p, 't, 'u) schema \<Rightarrow> (string list, 'r coll) prog" where
  "get_all_index_keys R C =
     bindE (getE (\<lambda>(s, _).
         let prefix = index_prefix C @ idx_separator
         in scan_loop R s prefix (scan_pages R s prefix) 0 []))
       (\<lambda>ks. case ks of None \<Rightarrow> raiseE TimeoutError | Some ks \<Rightarrow> retE ks)"

text \<open>The commands that \<open>_cleanup_expired_indexes\<close> puts on the pipeline.\<close>

definition cleanup_expired_indexes ::
    "('k, 'p, 'r) redis \<Rightarrow> ('k, 'p, 't, 'u) schema \<Rightarrow> int \<Rightarrow> ('r \<Rightarrow> 'r, 'r coll) prog" where
  "cleanup_expired_indexes R C now =
     bindE (getE snd) (\<lambda>last_cleanup.
       if sc_cleanup_interval C < total_seconds now - last_cleanup then
         bindE (get_all_index_keys R C) (\<lambda>idx_keys.
           thenE (modE (\<lambda>(s, _). (s, total_seconds now)))
             (retE (fold (\<lambda>k. zremrangebyscore R k (Secs 0) (Secs (total_seconds now))) idx_keys)))
       else retE id)"

definition expiry_of :: "int \<Rightarrow> ttl \<Rightarrow> secs" where
  "expiry_of now ttl =
     (case ttl of Ttl t \<Rightarrow> Secs (total_seconds (now + seconds_us t)) | _ \<Rightarrow> Infty)"

definition insert_indexes ::
    "('k, 'p, 'r) redis \<Rightarrow> ('k, 'p, 't, 'u) schema \<Rightarrow> int \<Rightarrow> 't \<Rightarrow> ttl \<Rightarrow> 'r \<Rightarrow> 'r" where
  "insert_indexes R C now rec ttl =
     (let effective = (if ttl = Undefined then sc_default_ttl C else ttl)
      in fold (\<lambda>idx. zadd R idx (sc_field C (get_redis_key C rec)) (expiry_of now effective))
           (get_index_keys C rec))"

definition delete_indexes ::
    "('k, 'p, 'r) redis \<Rightarrow> ('k, 'p, 't, 'u) schema \<Rightarrow> 't list \<Rightarrow> 'r \<Rightarrow> 'r" where
  "delete_indexes R C records =
     fold (\<lambda>item. fold (\<lambda>idx. zrem R idx (sc_field C (get_redis_key C item)))
             (get_index_keys C item)) records"

text \<open>The Lua script that moves a member between sorted sets.\<close>

definition zset_move ::
    "('k, 'p, 'r) redis \<Rightarrow> string \<Rightarrow> string \<Rightarrow> 'k \<Rightarrow> secs \<Rightarrow> 'r \<Rightarrow> 'r" where
  "zset_move R old_set new_set member default_score s =
     (case zscore R s old_set member of
        None \<Rightarrow> zadd R new_set member default_score s
      | Some score \<Rightarrow> zadd R new_set member score (zrem R old_set member s))"

definition update_indexes ::
    "('k, 'p, 'r) redis \<Rightarrow> ('k, 'p, 't, 'u) schema \<Rightarrow> int \<Rightarrow> 't \<Rightarrow> 'u \<Rightarrow> ttl \<Rightarrow> ('r \<Rightarrow> 'r) result" where
  "update_indexes R C now original updates ttl =
     (let record_key = sc_field C (get_redis_key C original);
          mapper = map_of (rev (map (\<lambda>k. (get_index_prop k, k)) (get_index_keys C original)));
          command = (\<lambda>new_idx.
            case mapper (get_index_prop new_idx) of
              None \<Rightarrow> Inl KeyError
            | Some old_idx \<Rightarrow>
                (if ttl = Undefined
                 then Inr (zset_move R old_idx new_idx record_key Infty)
                 else Inr (\<lambda>s. zadd R new_idx record_key (expiry_of now ttl)
                                  (zrem R old_idx record_key s))))
      in case mapM command (get_index_keys_from_dict C updates) of
           Inl e \<Rightarrow> Inl e
         | Inr cmds \<Rightarrow> Inr (fold id cmds))"

section \<open>Writing\<close>

definition effective_ttl :: "('k, 'p, 't, 'u) schema \<Rightarrow> ttl \<Rightarrow> ttl" where
  "effective_ttl C ttl = (if ttl = Undefined then sc_default_ttl C else ttl)"

definition insert_item ::
    "('k, 'p, 'r) redis \<Rightarrow> ('k, 'p, 't, 'u) schema \<Rightarrow> int \<Rightarrow> 't \<Rightarrow> ttl \<Rightarrow> ('t, 'r coll) prog" where
  "insert_item R C now payload ttl0 =
     (let ttl = effective_ttl C ttl0; k = sc_field C (get_redis_key C payload) in
      bindE (cleanup_expired_indexes R C now) (\<lambda>cleanup.
        thenE (modE (\<lambda>(s, l).
          (insert_indexes R C now payload ttl
             ((case ttl of Ttl t \<Rightarrow> hexpire R (sc_name C) t k | _ \<Rightarrow> id)
               (hset R (sc_name C) k (RVal (sc_enc C payload)) (cleanup s))), l)))
          (retE payload)))"

definition update_item ::
    "('k, 'p, 'r) redis \<Rightarrow> ('k, 'p, 't, 'u) schema \<Rightarrow> int \<Rightarrow> key_arg \<Rightarrow> 'u \<Rightarrow> ttl
      \<Rightarrow> ('t, 'r coll) prog" where
  "update_item R C now key updates ttl0 =
     (let ttl = effective_ttl C ttl0 in
      bindE (liftE (sc_validate_partial C updates)) (\<lambda>parsed.
        bindE (get_one R C key) (\<lambda>old_item.
          bindE (liftE (sc_merge C now old_item parsed)) (\<lambda>updated_item.
            bindE (liftE (construct_redis_key C key)) (\<lambda>redis_key.
              bindE (cleanup_expired_indexes R C now) (\<lambda>cleanup.
                bindE (liftE (update_indexes R C now old_item parsed ttl)) (\<lambda>reindex.
                  let k = sc_field C redis_key in
                  thenE (modE (\<lambda>(s, l).
                    (reindex
                      ((case ttl of Forever \<Rightarrow> hpersist R (sc_name C) k
                         | Ttl t \<Rightarrow> hexpire R (sc_name C) t k | Undefined \<Rightarrow> id)
                        (hset R (sc_name C) k (RVal (sc_enc C updated_item)) (cleanup s))), l)))
                    (retE updated_item))))))))"

definition delete_many ::
    "('k, 'p, 'r) redis \<Rightarrow> ('k, 'p, 't, 'u) schema \<Rightarrow> int \<Rightarrow> key_arg list \<Rightarrow> (unit, 'r coll) prog" where
  "delete_many R C now keys =
     bindE (find_by_keys R C keys) (\<lambda>old_items.
       bindE (liftE (mapM (construct_redis_key C) keys)) (\<lambda>ks.
         bindE (cleanup_expired_indexes R C now) (\<lambda>cleanup.
           modE (\<lambda>(s, l).
             (delete_indexes R C old_items
               (cleanup (if ks = [] then s else hdel R (sc_name C) (map (sc_field C) ks) s)), l)))))"

definition clear_all ::
    "('k, 'p, 'r) redis \<Rightarrow> ('k, 'p, 't, 'u) schema \<Rightarrow> (unit, 'r coll) prog" where
  "clear_all R C =
     bindE (get_all_index_keys R C) (\<lambda>idx_keys.
       modE (\<lambda>(s, l). (delete R (sc_name C # idx_keys) s, l)))"

text \<open>
  A handler builds a collection for one use: its last cleanup is the moment of its creation.
\<close>

definition with_fresh :: "int \<Rightarrow> ('a, 'r coll) prog \<Rightarrow> ('a, 'r) prog" where
  "with_fresh now m s = (let (x, s', _) = m (s, total_seconds now) in (x, s'))"

section \<open>Facts\<close>

lemma mapM_Inr: "\<forall>x\<in>set xs. f x = Inr (g x) \<Longrightarrow> mapM f xs = Inr (map g xs)"
  by (induction xs) auto

lemma mapM_cong: "(\<And>x. x \<in> set xs \<Longrightarrow> f x = g x) \<Longrightarrow> mapM f xs = mapM g xs"
  by (induction xs) (auto split: sum.split)

lemma paginate_all [simp]: "paginate xs 0 None = xs"
  by (simp add: paginate_def)

lemma paginate_length:
  "length (paginate xs skip (Some l)) = min l (length xs - skip)"
  by (simp add: paginate_def)

lemma paginate_nth:
  "i < length (paginate xs skip limit) \<Longrightarrow> paginate xs skip limit ! i = xs ! (skip + i)"
  by (auto simp: paginate_def split: option.splits)

text \<open>Consecutive pages of one size make up the whole.\<close>

lemma paginate_pages:
  "0 < l \<Longrightarrow> concat (map (\<lambda>i. paginate xs (i * l) (Some l)) [0..<n]) = take (n * l) xs"
proof (induction n)
  case (Suc n)
  have "paginate xs (n * l) (Some l) = take l (drop (n * l) xs)"
    by (simp add: paginate_def drop_take)
  moreover have "take (Suc n * l) xs = take (n * l) xs @ take l (drop (n * l) xs)"
    by (metis add.commute mult_Suc take_add)
  ultimately show ?case using Suc by simp
qed simp

lemma paginate_set: "set (paginate xs skip limit) \<subseteq> set xs"
  by (auto simp: paginate_def dest: in_set_dropD in_set_takeD split: option.splits)

lemma index_key_parts:
  assumes "CHR '':'' \<notin> set f" "CHR '':'' \<notin> set g" "index_key C f v = index_key C g w"
  shows "f = g \<and> v = w"
proof -
  have "f @ idx_separator @ v = g @ idx_separator @ w"
    using assms(3) by (simp add: index_key_def)
  then have "cut idx_separator (f @ idx_separator @ v) = cut idx_separator (g @ idx_separator @ w)"
    by simp
  then show ?thesis
    using cut_first [of idx_separator f v] cut_first [of idx_separator g w] assms(1,2)
    by (simp add: idx_separator_def)
qed

lemma get_index_prop_plain:
  "CHR '':'' \<notin> set v \<Longrightarrow> get_index_prop (index_key C f v) = index_prefix C @ idx_separator @ f"
  using rcut_last [of idx_separator v "index_prefix C @ idx_separator @ f"]
  by (simp add: get_index_prop_def rsplit1_def index_key_def idx_separator_def)

text \<open>With a cleanup interval that is not negative a fresh collection never cleans up.\<close>

lemma fresh_cleanup:
  "0 \<le> sc_cleanup_interval C \<Longrightarrow>
    cleanup_expired_indexes R C now (s, total_seconds now) = (Inr id, (s, total_seconds now))"
  by (simp add: cleanup_expired_indexes_def prog_simps)

context redis_laws
begin

lemma scan_loop_from:
  assumes "i + fuel = scan_pages R s prefix" and "0 < fuel"
  shows "\<exists>zs. scan_loop R s prefix fuel (scan_cursor R s prefix i) acc = Some zs \<and>
    set zs = set acc \<union> (\<Union>j\<in>{i..<scan_pages R s prefix}. set (snd (scan_zset R s (scan_cursor R s prefix j) prefix)))"
  using assms
proof (induction fuel arbitrary: i acc)
  case (Suc fuel)
  obtain c ks where ck: "scan_zset R s (scan_cursor R s prefix i) prefix = (c, ks)"
    by (cases "scan_zset R s (scan_cursor R s prefix i) prefix")
  then have c: "c = scan_cursor R s prefix (Suc i)" by simp
  have i: "{i..<scan_pages R s prefix} = insert i {Suc i..<scan_pages R s prefix}"
    using Suc.prems by auto
  show ?case
  proof (cases "fuel = 0")
    case True
    then have "scan_pages R s prefix = Suc i" using Suc.prems by simp
    then have "c = 0" using scan_ends c by metis
    then show ?thesis using ck i \<open>scan_pages R s prefix = Suc i\<close> by simp
  next
    case False
    then have "c \<noteq> 0" using scan_first_end [of "Suc i" s prefix] Suc.prems c by simp
    moreover obtain zs where "scan_loop R s prefix fuel (scan_cursor R s prefix (Suc i)) (acc @ ks) = Some zs"
      "set zs = set (acc @ ks) \<union> (\<Union>j\<in>{Suc i..<scan_pages R s prefix}. set (snd (scan_zset R s (scan_cursor R s prefix j) prefix)))"
      using Suc.IH [of "Suc i" "acc @ ks"] Suc.prems False by (metis Suc_leI add_Suc add_Suc_right neq0_conv)
    moreover have "snd (scan_zset R s (scan_cursor R s prefix i) prefix) = ks" using ck by simp
    ultimately show ?thesis using ck c by (simp add: i Un_assoc del: scan_cursor.simps)
  qed
qed simp

lemma scan_loop_total:
  "\<exists>zs. scan_loop R s prefix (scan_pages R s prefix) 0 [] = Some zs \<and>
    set zs = {z. take (length prefix) z = prefix \<and> (\<exists>m. zscore R s z m \<noteq> None)}"
  using scan_loop_from [of 0 "scan_pages R s prefix" s prefix "[]"] scan_ends [of s prefix]
    scan_complete [of s prefix]
  by (simp add: atLeast0LessThan)

lemma get_all_index_keys_eval:
  "\<exists>zs. get_all_index_keys R C (s, l) = (Inr zs, (s, l)) \<and>
    set zs = {z. startswith z (index_prefix C @ idx_separator) \<and> (\<exists>m. zscore R s z m \<noteq> None)}"
  using scan_loop_total [of s "index_prefix C @ idx_separator"]
  by (auto simp: get_all_index_keys_def prog_simps Let_def startswith_def)

text \<open>What one pass over a list of sets does to the members.\<close>

lemma hget_fold_zadd: "hget R (fold (\<lambda>z. zadd R z m sc) zs s) n k = hget R s n k"
  by (induction zs arbitrary: s) (simp_all add: law_simps)

lemma zscore_fold_zadd:
  "zscore R (fold (\<lambda>z. zadd R z m sc) zs s) z' m' =
    (if z' \<in> set zs \<and> m' = m then Some sc else zscore R s z' m')"
  by (induction zs arbitrary: s) (auto simp: law_simps)

lemma hget_fold_zrem: "hget R (fold (\<lambda>z. zrem R z m) zs s) n k = hget R s n k"
  by (induction zs arbitrary: s) (simp_all add: law_simps)

lemma zscore_fold_zrem:
  "zscore R (fold (\<lambda>z. zrem R z m) zs s) z' m' =
    (if z' \<in> set zs \<and> m' = m then None else zscore R s z' m')"
  by (induction zs arbitrary: s) (auto simp: law_simps)

lemma items_fold_zadd: "items R (fold (\<lambda>z. zadd R z m sc) zs s) l = items R s l"
  by (induction zs arbitrary: s) (simp_all add: law_simps)

lemma items_fold_zrem: "items R (fold (\<lambda>z. zrem R z m) zs s) l = items R s l"
  by (induction zs arbitrary: s) (simp_all add: law_simps)

lemma items_zset_move: "items R (zset_move R a b m d s) l = items R s l"
  by (auto simp: zset_move_def law_simps split: option.splits)

lemma zscore_zset_move:
  "zscore R (zset_move R a b m d s) z' m' =
    (if z' = b \<and> m' = m then Some (case zscore R s a m of None \<Rightarrow> d | Some sc \<Rightarrow> sc)
     else if z' = a \<and> m' = m then None else zscore R s z' m')"
  by (auto simp: zset_move_def law_simps split: option.splits)

lemma hget_zset_move: "hget R (zset_move R a b m d s) n k = hget R s n k"
  by (auto simp: zset_move_def law_simps split: option.splits)

end

section \<open>Collections in order\<close>

text \<open>
  \<open>coll_wf\<close>: every entry of the hash is an item under its own key, and every stored item has an index
  entry under each of its present values. When the time to live of an item is over, its index entries
  stay behind; \<open>index_exact\<close> says that there are none of these.
\<close>

definition plain_item :: "('k, 'p, 't, 'u) schema \<Rightarrow> 't \<Rightarrow> bool" where
  "plain_item C t \<longleftrightarrow> (\<forall>f\<in>set (index_fields C). CHR '':'' \<notin> set (sc_text C t f))"

definition item_key :: "('k, 'p, 't, 'u) schema \<Rightarrow> 't \<Rightarrow> 'k" where
  "item_key C t = sc_field C (get_redis_key C t)"

definition is_stored :: "('k, 'p, 'r) redis \<Rightarrow> ('k, 'p, 't, 'u) schema \<Rightarrow> 'r \<Rightarrow> 't \<Rightarrow> bool" where
  "is_stored R C s t \<longleftrightarrow> hget R s (sc_name C) (item_key C t) = Some (RVal (sc_enc C t))"

definition coll_wf ::
    "('k, 'p, 'r) redis \<Rightarrow> ('k, 'p, 't, 'u) schema \<Rightarrow> ('t \<Rightarrow> bool) \<Rightarrow> 'r \<Rightarrow> bool" where
  "coll_wf R C valid s \<longleftrightarrow>
     (\<forall>k v. hget R s (sc_name C) k = Some v \<longrightarrow>
        (\<exists>t. valid t \<and> plain_item C t \<and> k = item_key C t \<and> v = RVal (sc_enc C t))) \<and>
     (\<forall>f\<in>set (index_fields C). \<forall>t. valid t \<longrightarrow> is_stored R C s t \<longrightarrow>
        zscore R s (index_key C f (sc_text C t f)) (item_key C t) \<noteq> None)"

definition index_exact ::
    "('k, 'p, 'r) redis \<Rightarrow> ('k, 'p, 't, 'u) schema \<Rightarrow> ('t \<Rightarrow> bool) \<Rightarrow> 'r \<Rightarrow> bool" where
  "index_exact R C valid s \<longleftrightarrow>
     (\<forall>f\<in>set (index_fields C). \<forall>v k. zscore R s (index_key C f v) k \<noteq> None \<longleftrightarrow>
        (\<exists>t. valid t \<and> is_stored R C s t \<and> k = item_key C t \<and> v = sc_text C t f))"

text \<open>The items that a filter selects: those that agree with every field it sets.\<close>

definition matches :: "('k, 'p, 't, 'u) schema \<Rightarrow> 'u \<Rightarrow> 't \<Rightarrow> bool" where
  "matches C u t \<longleftrightarrow>
     (\<forall>f\<in>set (index_fields C). \<forall>v. sc_upd_text C u f = Some v \<longrightarrow> sc_text C t f = v)"

locale schema_laws =
  fixes C :: "('k, 'p, 't, 'u) schema" and valid :: "'t \<Rightarrow> bool"
  assumes dec_enc: "valid t \<Longrightarrow> sc_dec C (sc_enc C t) = Inr t"
    and field_inject: "sc_field C a = sc_field C b \<longleftrightarrow> a = b"
    and fields_plain: "f \<in> set (index_fields C) \<Longrightarrow> CHR '':'' \<notin> set f"
    and fields_distinct: "distinct (index_fields C)"
    and merge_total: "valid t \<Longrightarrow> \<exists>t'. sc_merge C now t u = Inr t' \<and> valid t'"
    and merge_text: "valid t \<Longrightarrow> sc_merge C now t u = Inr t' \<Longrightarrow> f \<in> set (index_fields C) \<Longrightarrow>
      sc_text C t' f = (case sc_upd_text C u f of None \<Rightarrow> sc_text C t f | Some v \<Rightarrow> v)"
    and interval_nonneg: "0 \<le> sc_cleanup_interval C"
    and default_not_expired: "sc_default_ttl C = Ttl d \<Longrightarrow> 0 < d"

locale collection = redis_laws R + schema_laws C valid
  for R :: "('k, 'p, 'r) redis" and C :: "('k, 'p, 't, 'u) schema" and valid :: "'t \<Rightarrow> bool"

context collection
begin

lemma enc_inject: "valid t \<Longrightarrow> valid u \<Longrightarrow> sc_enc C t = sc_enc C u \<Longrightarrow> t = u"
  by (metis dec_enc sum.inject(2))

lemma stored_unique:
  "valid t \<Longrightarrow> valid u \<Longrightarrow> is_stored R C s t \<Longrightarrow> is_stored R C s u \<Longrightarrow> item_key C t = item_key C u \<Longrightarrow> t = u"
  using enc_inject by (fastforce simp: is_stored_def)

lemma index_key_inject:
  "f \<in> set (index_fields C) \<Longrightarrow> g \<in> set (index_fields C) \<Longrightarrow>
    index_key C f v = index_key C g w \<longleftrightarrow> f = g \<and> v = w"
  using index_key_parts [of f g C v w] fields_plain by auto

lemma in_get_index_keys:
  "f \<in> set (index_fields C) \<Longrightarrow> index_key C f v \<in> set (get_index_keys C t) \<longleftrightarrow> v = sc_text C t f"
  using index_key_inject by (auto simp: get_index_keys_def)

text \<open>Every operation below runs on a collection made for it.\<close>

lemma get_one_eval:
  assumes key: "construct_redis_key C key = Inr k"
    and t: "valid t" "hget R s (sc_name C) (sc_field C k) = Some (RVal (sc_enc C t))"
  shows "get_one R C key (s, l) = (Inr t, (s, l))"
  using assms dec_enc [OF t(1)] by (simp add: get_one_def prog_simps model_validate_json_def)

lemma get_one_missing:
  assumes "construct_redis_key C key = Inr k" and "hget R s (sc_name C) (sc_field C k) = None"
  shows "get_one R C key (s, l) = (Inl ItemNotFoundError, (s, l))"
  using assms by (simp add: get_one_def prog_simps)

text \<open>A command on the field of one item, with its time to live, and the index commands.\<close>

definition ttl_command :: "ttl \<Rightarrow> 'k \<Rightarrow> 'r \<Rightarrow> 'r" where
  "ttl_command ttl k =
     (case ttl of Forever \<Rightarrow> hpersist R (sc_name C) k | Ttl t \<Rightarrow> hexpire R (sc_name C) t k
      | Undefined \<Rightarrow> id)"

lemma ttl_command_laws:
  "(\<And>d. ttl = Ttl d \<Longrightarrow> 0 < d) \<Longrightarrow> hget R (ttl_command ttl k s) n k' = hget R s n k'"
  "zscore R (ttl_command ttl k s) z m = zscore R s z m"
  "items R (ttl_command ttl k s) l = items R s l"
  by (cases ttl; simp add: ttl_command_def law_simps)+

lemma default_ttl_positive: "effective_ttl C Undefined = Ttl d \<Longrightarrow> 0 < d"
  using default_not_expired by (simp add: effective_ttl_def)

lemma insert_item_eval:
  "\<exists>s'. with_fresh now (insert_item R C now t Undefined) s = (Inr t, s') \<and>
    (\<forall>n k. hget R s' n k = (if n = sc_name C \<and> k = item_key C t then Some (RVal (sc_enc C t))
                           else hget R s n k)) \<and>
    (\<forall>z m. zscore R s' z m = (if z \<in> set (get_index_keys C t) \<and> m = item_key C t
                             then Some (expiry_of now (sc_default_ttl C)) else zscore R s z m)) \<and>
    (\<forall>l. items R s' l = items R s l)"
proof -
  let ?k = "item_key C t"
  let ?s1 = "hset R (sc_name C) ?k (RVal (sc_enc C t)) s"
  let ?s2 = "(case sc_default_ttl C of Ttl d \<Rightarrow> hexpire R (sc_name C) d ?k | _ \<Rightarrow> id) ?s1"
  have "with_fresh now (insert_item R C now t Undefined) s =
      (Inr t, insert_indexes R C now t (sc_default_ttl C) ?s2)"
    unfolding item_key_def
    by (simp add: with_fresh_def insert_item_def effective_ttl_def Let_def prog_simps
        fresh_cleanup [OF interval_nonneg])
  moreover have "hget R ?s2 n k = hget R ?s1 n k" "zscore R ?s2 z m = zscore R ?s1 z m"
    "items R ?s2 l = items R ?s1 l" for n k z m l
    using default_not_expired by (cases "sc_default_ttl C"; simp add: law_simps)+
  ultimately show ?thesis
    by (auto simp: insert_indexes_def Let_def zscore_fold_zadd hget_fold_zadd
        items_fold_zadd law_simps item_key_def)
qed

lemma insert_item_wf:
  assumes wf: "coll_wf R C valid s" and t: "valid t" "plain_item C t"
    and new: "hget R s (sc_name C) (item_key C t) = None"
  shows "\<exists>s'. with_fresh now (insert_item R C now t Undefined) s = (Inr t, s') \<and>
    coll_wf R C valid s' \<and> is_stored R C s' t \<and>
    (\<forall>n k. hget R s' n k = (if n = sc_name C \<and> k = item_key C t then Some (RVal (sc_enc C t))
                           else hget R s n k)) \<and>
    (\<forall>l. items R s' l = items R s l)"
proof -
  obtain s' where run: "with_fresh now (insert_item R C now t Undefined) s = (Inr t, s')"
    and h: "\<And>n k. hget R s' n k = (if n = sc_name C \<and> k = item_key C t then Some (RVal (sc_enc C t))
                           else hget R s n k)"
    and z: "\<And>z m. zscore R s' z m = (if z \<in> set (get_index_keys C t) \<and> m = item_key C t
                             then Some (expiry_of now (sc_default_ttl C)) else zscore R s z m)"
    and it: "\<And>l. items R s' l = items R s l"
    using insert_item_eval [of now t s] by auto
  have st: "is_stored R C s' u \<longleftrightarrow> u = t \<or> is_stored R C s u" if "valid u" for u
    using that t new enc_inject by (auto simp: is_stored_def h)
  have "coll_wf R C valid s'"
    unfolding coll_wf_def
  proof (intro conjI allI impI ballI)
    fix k v
    assume "hget R s' (sc_name C) k = Some v"
    then show "\<exists>t. valid t \<and> plain_item C t \<and> k = item_key C t \<and> v = RVal (sc_enc C t)"
      using wf t by (auto simp: h coll_wf_def split: if_splits)
  next
    fix f u
    assume f: "f \<in> set (index_fields C)" and u: "valid u" "is_stored R C s' u"
    show "zscore R s' (index_key C f (sc_text C u f)) (item_key C u) \<noteq> None"
    proof (cases "u = t")
      case True
      then show ?thesis using in_get_index_keys [OF f, of "sc_text C t f" t] by (simp add: z)
    next
      case False
      then have "zscore R s (index_key C f (sc_text C u f)) (item_key C u) \<noteq> None"
        using u st wf f unfolding coll_wf_def by blast
      then show ?thesis by (simp add: z)
    qed
  qed
  moreover have "is_stored R C s' t" using st t(1) by simp
  ultimately show ?thesis using run h it by blast
qed

text \<open>The fields that an update sets, with their new texts.\<close>

definition set_fields :: "'u \<Rightarrow> (string \<times> string) list" where
  "set_fields u = List.map_filter (\<lambda>f. map_option (Pair f) (sc_upd_text C u f)) (index_fields C)"

lemma in_set_fields: "(f, v) \<in> set (set_fields u) \<longleftrightarrow> f \<in> set (index_fields C) \<and> sc_upd_text C u f = Some v"
  by (force simp: set_fields_def List.map_filter_def)

lemma set_fields_distinct: "distinct (map fst (set_fields u))"
proof -
  have "map fst (set_fields u) = filter (\<lambda>f. sc_upd_text C u f \<noteq> None) (index_fields C)"
    by (auto simp: set_fields_def List.map_filter_def comp_def intro!: map_idI)
  then show ?thesis using fields_distinct by simp
qed

lemma index_keys_from_set_fields:
  "get_index_keys_from_dict C u = map (\<lambda>(f, v). index_key C f v) (set_fields u)"
  by (auto simp: get_index_keys_from_dict_def set_fields_def List.map_filter_def comp_def)

text \<open>The commands that move one index entry.\<close>

definition move_command :: "int \<Rightarrow> 't \<Rightarrow> ttl \<Rightarrow> string \<times> string \<Rightarrow> 'r \<Rightarrow> 'r" where
  "move_command now t ttl fv =
     (let old_idx = index_key C (fst fv) (sc_text C t (fst fv));
          new_idx = index_key C (fst fv) (snd fv) in
      if ttl = Undefined then zset_move R old_idx new_idx (item_key C t) Infty
      else (\<lambda>s. zadd R new_idx (item_key C t) (expiry_of now ttl) (zrem R old_idx (item_key C t) s)))"

lemma mapper_eval:
  assumes "plain_item C t" and "f \<in> set (index_fields C)" and "CHR '':'' \<notin> set v"
  shows "map_of (rev (map (\<lambda>k. (get_index_prop k, k)) (get_index_keys C t))) (get_index_prop (index_key C f v))
    = Some (index_key C f (sc_text C t f))"
proof -
  let ?xs = "map (\<lambda>k. (get_index_prop k, k)) (get_index_keys C t)"
  have xs: "?xs = map (\<lambda>f. (index_prefix C @ idx_separator @ f, index_key C f (sc_text C t f))) (index_fields C)"
    using assms(1) by (simp add: get_index_keys_def plain_item_def get_index_prop_plain)
  have "distinct (map fst ?xs)"
    using fields_distinct unfolding xs by (simp add: comp_def distinct_map inj_on_def)
  moreover have "(index_prefix C @ idx_separator @ f, index_key C f (sc_text C t f)) \<in> set ?xs"
    using assms(2) unfolding xs by auto
  ultimately have "map_of (rev ?xs) (index_prefix C @ idx_separator @ f)
      = Some (index_key C f (sc_text C t f))"
    by (intro map_of_is_SomeI) (simp_all add: rev_map [symmetric])
  then show ?thesis unfolding get_index_prop_plain [OF assms(3)] .
qed

lemma update_indexes_eval:
  assumes "plain_item C t" and "\<And>f v. sc_upd_text C u f = Some v \<Longrightarrow> CHR '':'' \<notin> set v"
  shows "update_indexes R C now t u ttl = Inr (fold (move_command now t ttl) (set_fields u))"
proof -
  let ?mapper = "map_of (rev (map (\<lambda>k. (get_index_prop k, k)) (get_index_keys C t)))"
  let ?cmd = "\<lambda>new_idx. case ?mapper (get_index_prop new_idx) of None \<Rightarrow> Inl KeyError
    | Some old_idx \<Rightarrow> if ttl = Undefined then Inr (zset_move R old_idx new_idx (item_key C t) Infty)
        else Inr (\<lambda>s. zadd R new_idx (item_key C t) (expiry_of now ttl) (zrem R old_idx (item_key C t) s))"
  have "mapM ?cmd (map (\<lambda>(f, v). index_key C f v) fvs) = Inr (map (move_command now t ttl) fvs)"
    if "set fvs \<subseteq> set (set_fields u)" for fvs
    using that
  proof (induction fvs)
    case (Cons fv fvs)
    obtain f v where fv: "fv = (f, v)" by (cases fv)
    then have "f \<in> set (index_fields C)" "CHR '':'' \<notin> set v"
      using Cons.prems assms(2) by (auto simp: in_set_fields)
    with Cons fv show ?case
      by (simp add: mapper_eval [OF assms(1)] move_command_def)
  qed simp
  from this [of "set_fields u"]
  have "mapM ?cmd (get_index_keys_from_dict C u) = Inr (map (move_command now t ttl) (set_fields u))"
    by (simp only: index_keys_from_set_fields subset_refl simp_thms)
  moreover have "update_indexes R C now t u ttl =
      (case mapM ?cmd (get_index_keys_from_dict C u) of Inl e \<Rightarrow> Inl e | Inr cmds \<Rightarrow> Inr (fold id cmds))"
    by (simp only: update_indexes_def Let_def item_key_def)
  ultimately show ?thesis by (simp add: fold_map comp_def id_def)
qed

lemma move_command_effect:
  "hget R (move_command now t ttl fv s) n k = hget R s n k"
  "zscore R (move_command now t ttl fv s) z m \<noteq> None \<longleftrightarrow>
    (if z = index_key C (fst fv) (snd fv) \<and> m = item_key C t then True
     else if z = index_key C (fst fv) (sc_text C t (fst fv)) \<and> m = item_key C t then False
     else zscore R s z m \<noteq> None)"
  by (simp_all add: move_command_def Let_def hget_zset_move zscore_zset_move law_simps)

lemma items_move_commands: "items R (fold (move_command now t ttl) fvs s) l = items R s l"
  by (induction fvs arbitrary: s)
    (simp_all add: move_command_def Let_def items_zset_move law_simps)

lemma hget_move_commands: "hget R (fold (move_command now t ttl) fvs s) n k = hget R s n k"
  by (induction fvs arbitrary: s) (simp_all add: move_command_effect)

lemma move_commands_effect:
  assumes "set fvs \<subseteq> set (set_fields u)" and "distinct (map fst fvs)" and "g \<in> set (index_fields C)"
    and "if m = item_key C t \<and> g \<in> fst ` set fvs then (g, w) \<in> set fvs
       else zscore R s (index_key C g w) m \<noteq> None"
  shows "zscore R (fold (move_command now t ttl) fvs s) (index_key C g w) m \<noteq> None"
  using assms
proof (induction fvs rule: rev_induct)
  case (snoc fv fvs)
  obtain f v where fv: "fv = (f, v)" by (cases fv)
  have f: "f \<in> set (index_fields C)" "f \<notin> fst ` set fvs"
    using snoc.prems(1,2) fv by (auto simp: in_set_fields)
  let ?s = "fold (move_command now t ttl) fvs s"
  have step: "zscore R (fold (move_command now t ttl) (fvs @ [fv]) s) (index_key C g w) m \<noteq> None \<longleftrightarrow>
    (if g = f \<and> w = v \<and> m = item_key C t then True
     else if g = f \<and> w = sc_text C t f \<and> m = item_key C t then False
     else zscore R ?s (index_key C g w) m \<noteq> None)"
    using move_command_effect(2) [of now t ttl fv ?s "index_key C g w" m]
      index_key_inject [OF snoc.prems(3) f(1)]
    by (simp only: fold_append fold_simps comp_apply id_apply fv fst_conv snd_conv conj_assoc)
  show ?case
  proof (cases "g = f \<and> m = item_key C t")
    case True
    then have "(g, w) \<in> set (fvs @ [fv])" using snoc.prems(4) fv by simp
    then have "w = v" using True f fv by force
    then show ?thesis using True unfolding step by simp
  next
    case False
    have "(g, w) \<in> set (fvs @ [fv]) \<longleftrightarrow> (g, w) \<in> set fvs"
      "g \<in> fst ` set (fvs @ [fv]) \<longleftrightarrow> g \<in> fst ` set fvs" if "g \<noteq> f"
      using that fv by simp_all
    then have "if m = item_key C t \<and> g \<in> fst ` set fvs then (g, w) \<in> set fvs
        else zscore R s (index_key C g w) m \<noteq> None"
      using snoc.prems(4) False by (cases "m = item_key C t") (simp_all only: simp_thms if_False)
    then have "zscore R ?s (index_key C g w) m \<noteq> None" using snoc.IH snoc.prems(1-3) by simp
    with False show ?thesis unfolding step by auto
  qed
qed simp

lemma wf_index:
  "coll_wf R C valid s \<Longrightarrow> valid t \<Longrightarrow> is_stored R C s t \<Longrightarrow> f \<in> set (index_fields C) \<Longrightarrow>
    zscore R s (index_key C f (sc_text C t f)) (item_key C t) \<noteq> None"
  unfolding coll_wf_def by blast

text \<open>An update that keeps the primary key: what it runs, and what it leaves behind.\<close>

definition keeps_key :: "'u \<Rightarrow> 't \<Rightarrow> bool" where
  "keeps_key u t \<longleftrightarrow> (\<forall>f\<in>set (sc_primary_fields C). sc_upd_text C u f \<in> {None, Some (sc_text C t f)})"

lemma merge_key:
  assumes "valid t" "sc_merge C now t u = Inr t'" "keeps_key u t"
  shows "get_redis_key C t' = get_redis_key C t"
proof -
  have "sc_text C t' f = sc_text C t f" if "f \<in> set (sc_primary_fields C)" for f
    using merge_text [OF assms(1,2), of f] assms(3) that
    by (auto simp: keeps_key_def index_fields_def split: option.splits)
  then show ?thesis by (simp add: get_redis_key_def cong: map_cong)
qed

lemma update_item_eval:
  assumes "sc_validate_partial C u0 = Inr u" and "plain_item C t" and "valid t" "is_stored R C s t"
    and "\<And>f v. sc_upd_text C u f = Some v \<Longrightarrow> CHR '':'' \<notin> set v"
    and "sc_merge C now t u = Inr t'"
    and key: "construct_redis_key C key = Inr (get_redis_key C t)"
  shows "with_fresh now (update_item R C now key u0 Undefined) s =
    (Inr t', fold (move_command now t (sc_default_ttl C)) (set_fields u)
       (ttl_command (sc_default_ttl C) (item_key C t)
         (hset R (sc_name C) (item_key C t) (RVal (sc_enc C t')) s)))"
proof -
  have "get_one R C key (s, l) = (Inr t, (s, l))" for l
    using assms(3,4) by (intro get_one_eval [OF key]) (simp_all add: is_stored_def item_key_def)
  then show ?thesis
    using assms(1,6) key
    unfolding item_key_def ttl_command_def
    by (simp add: with_fresh_def update_item_def effective_ttl_def Let_def prog_simps
        fresh_cleanup [OF interval_nonneg] update_indexes_eval [OF assms(2,5)])
qed

lemma update_item_wf:
  assumes wf: "coll_wf R C valid s" and u: "sc_validate_partial C u0 = Inr u"
    and t: "valid t" "plain_item C t" "is_stored R C s t"
    and plain: "\<And>f v. sc_upd_text C u f = Some v \<Longrightarrow> CHR '':'' \<notin> set v"
    and m: "sc_merge C now t u = Inr t'" and keep: "keeps_key u t"
    and key: "construct_redis_key C key = Inr (get_redis_key C t)"
  shows "\<exists>s'. with_fresh now (update_item R C now key u0 Undefined) s = (Inr t', s') \<and>
    coll_wf R C valid s' \<and> is_stored R C s' t' \<and>
    (\<forall>n k. hget R s' n k = (if n = sc_name C \<and> k = item_key C t then Some (RVal (sc_enc C t'))
                           else hget R s n k)) \<and>
    (\<forall>l. items R s' l = items R s l)"
proof -
  let ?k = "item_key C t"
  let ?s1 = "ttl_command (sc_default_ttl C) ?k (hset R (sc_name C) ?k (RVal (sc_enc C t')) s)"
  let ?s' = "fold (move_command now t (sc_default_ttl C)) (set_fields u) ?s1"
  have run: "with_fresh now (update_item R C now key u0 Undefined) s = (Inr t', ?s')"
    by (rule update_item_eval [OF u t(2,1,3) plain m key])
  have t': "valid t'" using merge_total [OF t(1), of now u] m by auto
  have k': "item_key C t' = ?k" by (simp add: item_key_def merge_key [OF t(1) m keep])
  have texts: "sc_text C t' f = (case sc_upd_text C u f of None \<Rightarrow> sc_text C t f | Some v \<Rightarrow> v)"
    if "f \<in> set (index_fields C)" for f
    using merge_text [OF t(1) m that] .
  have z1: "zscore R ?s1 z k = zscore R s z k" for z k
    by (simp add: ttl_command_laws law_simps)
  have h: "hget R ?s' n k = (if n = sc_name C \<and> k = ?k then Some (RVal (sc_enc C t')) else hget R s n k)"
    for n k
    using default_not_expired by (simp add: hget_move_commands ttl_command_laws law_simps)
  have st: "is_stored R C ?s' w \<longleftrightarrow> w = t' \<or> (item_key C w \<noteq> ?k \<and> is_stored R C s w)" if "valid w" for w
    using that t' k' enc_inject by (auto simp: is_stored_def h)
  have "coll_wf R C valid ?s'"
    unfolding coll_wf_def
  proof (intro conjI allI impI ballI)
    fix k v
    assume hk: "hget R ?s' (sc_name C) k = Some v"
    have "plain_item C t'"
      using t(2) plain texts by (auto simp: plain_item_def split: option.splits)
    then show "\<exists>w. valid w \<and> plain_item C w \<and> k = item_key C w \<and> v = RVal (sc_enc C w)"
      using hk wf t' k' by (auto simp: h coll_wf_def split: if_splits)
  next
    fix f w
    assume f: "f \<in> set (index_fields C)" and w: "valid w" "is_stored R C ?s' w"
    show "zscore R ?s' (index_key C f (sc_text C w f)) (item_key C w) \<noteq> None"
    proof (rule move_commands_effect [OF subset_refl set_fields_distinct f])
      have "f \<in> fst ` set (set_fields u) \<longleftrightarrow> (\<exists>v. (f, v) \<in> set (set_fields u))" by force
      then have fst: "f \<in> fst ` set (set_fields u) \<longleftrightarrow> sc_upd_text C u f \<noteq> None"
        using f by (simp add: in_set_fields)
      show "if item_key C w = ?k \<and> f \<in> fst ` set (set_fields u) then (f, sc_text C w f) \<in> set (set_fields u)
          else zscore R ?s1 (index_key C f (sc_text C w f)) (item_key C w) \<noteq> None"
      proof (cases "w = t'")
        case True
        then show ?thesis
          using texts [OF f] wf_index [OF wf t(1,3) f] k' f
          unfolding fst z1 in_set_fields by (cases "sc_upd_text C u f") simp_all
      next
        case False
        then have "item_key C w \<noteq> ?k" "is_stored R C s w" using st [OF w(1)] w(2) by simp_all
        then show ?thesis using wf_index [OF wf w(1) _ f] unfolding z1 by simp
      qed
    qed
  qed
  moreover have "is_stored R C ?s' t'" using st t' by simp
  ultimately show ?thesis
    using run h by (intro exI [of _ ?s']) (simp add: items_move_commands ttl_command_laws law_simps)
qed

lemma update_item_missing:
  assumes "sc_validate_partial C u0 = Inr u" and "construct_redis_key C key = Inr k"
    and "hget R s (sc_name C) (sc_field C k) = None"
  shows "with_fresh now (update_item R C now key u0 Undefined) s = (Inl ItemNotFoundError, s)"
  using assms by (simp add: with_fresh_def update_item_def Let_def prog_simps
      get_one_missing [OF assms(2,3)])

lemma find_one_by_key:
  assumes wf: "coll_wf R C valid s" and key: "construct_redis_key C key = Inr k"
  shows "find_by_keys R C [key] (s, l) =
    (Inr (case hget R s (sc_name C) (sc_field C k) of None \<Rightarrow> []
          | Some v \<Rightarrow> [projr (model_validate_json C (Some v))]), (s, l))"
proof (cases "hget R s (sc_name C) (sc_field C k)")
  case (Some v)
  then obtain t where "valid t" "v = RVal (sc_enc C t)" using wf unfolding coll_wf_def by metis
  with Some key show ?thesis
    by (simp add: find_by_keys_def prog_simps model_validate_json_def dec_enc)
qed (use key in \<open>simp add: find_by_keys_def prog_simps\<close>)

lemma delete_one_wf:
  assumes wf: "coll_wf R C valid s" and t: "valid t" "is_stored R C s t"
    and key: "construct_redis_key C key = Inr (get_redis_key C t)"
  shows "\<exists>s'. with_fresh now (delete_many R C now [key]) s = (Inr (), s') \<and> coll_wf R C valid s' \<and>
    (\<forall>n k. hget R s' n k = (if n = sc_name C \<and> k = item_key C t then None else hget R s n k)) \<and>
    (\<forall>l. items R s' l = items R s l)"
proof -
  let ?k = "item_key C t"
  let ?s1 = "hdel R (sc_name C) [?k] s"
  let ?s' = "fold (\<lambda>idx. zrem R idx ?k) (get_index_keys C t) ?s1"
  have "find_by_keys R C [key] (s, l) = (Inr [t], (s, l))" for l
    using find_one_by_key [OF wf key] t
    by (simp add: is_stored_def item_key_def model_validate_json_def dec_enc)
  then have run: "with_fresh now (delete_many R C now [key]) s = (Inr (), ?s')"
    using key
    by (simp add: with_fresh_def delete_many_def prog_simps fresh_cleanup [OF interval_nonneg]
        delete_indexes_def item_key_def)
  have h: "hget R ?s' n k = (if n = sc_name C \<and> k = ?k then None else hget R s n k)" for n k
    by (simp add: hget_fold_zrem law_simps)
  have st: "is_stored R C ?s' w \<longleftrightarrow> w \<noteq> t \<and> is_stored R C s w" if "valid w" for w
    using stored_unique [OF that t(1) _ t(2)] t(2) by (auto simp: is_stored_def h)
  have "coll_wf R C valid ?s'"
    unfolding coll_wf_def
  proof (intro conjI allI impI ballI)
    fix k v
    assume "hget R ?s' (sc_name C) k = Some v"
    then show "\<exists>w. valid w \<and> plain_item C w \<and> k = item_key C w \<and> v = RVal (sc_enc C w)"
      using wf by (auto simp: h coll_wf_def split: if_splits)
  next
    fix f w
    assume f: "f \<in> set (index_fields C)" and w: "valid w" "is_stored R C ?s' w"
    then have "w \<noteq> t" "is_stored R C s w" using st by blast+
    then have "item_key C w \<noteq> ?k" using stored_unique [OF w(1) t(1) _ t(2)] by blast
    then show "zscore R ?s' (index_key C f (sc_text C w f)) (item_key C w) \<noteq> None"
      using wf_index [OF wf w(1) \<open>is_stored R C s w\<close> f] by (simp add: zscore_fold_zrem law_simps)
  qed
  with run h show ?thesis
    by (intro exI [of _ ?s']) (simp add: items_fold_zrem law_simps)
qed

lemma paginate_map: "paginate (map f xs) skip limit = map f (paginate xs skip limit)"
  by (simp add: paginate_def drop_map take_map split: option.split)

lemma exact_index:
  assumes "index_exact R C valid s" and "valid t" "is_stored R C s t" and "f \<in> set (index_fields C)"
  shows "zscore R s (index_key C f v) (item_key C t) \<noteq> None \<longleftrightarrow> v = sc_text C t f"
proof -
  have "zscore R s (index_key C f v) (item_key C t) \<noteq> None \<longleftrightarrow>
      (\<exists>u. valid u \<and> is_stored R C s u \<and> item_key C t = item_key C u \<and> v = sc_text C u f)"
    using assms(1,4) unfolding index_exact_def by simp
  also have "\<dots> \<longleftrightarrow> v = sc_text C t f"
    using stored_unique [OF assms(2) _ assms(3)] assms(2,3) by metis
  finally show ?thesis .
qed

lemma index_keys_member:
  assumes wf: "index_exact R C valid s" and ne: "get_index_keys_from_dict C u \<noteq> []"
  shows "(\<forall>z\<in>set (get_index_keys_from_dict C u). zscore R s z m \<noteq> None) \<longleftrightarrow>
    (\<exists>t. valid t \<and> is_stored R C s t \<and> matches C u t \<and> m = item_key C t)"
proof
  assume "\<exists>t. valid t \<and> is_stored R C s t \<and> matches C u t \<and> m = item_key C t"
  then show "\<forall>z\<in>set (get_index_keys_from_dict C u). zscore R s z m \<noteq> None"
    using exact_index [OF wf]
    by (auto simp: index_keys_from_set_fields in_set_fields matches_def)
next
  assume all: "\<forall>z\<in>set (get_index_keys_from_dict C u). zscore R s z m \<noteq> None"
  have has: "\<exists>t. valid t \<and> is_stored R C s t \<and> m = item_key C t \<and> v = sc_text C t f"
    if "f \<in> set (index_fields C)" "sc_upd_text C u f = Some v" for f v
  proof -
    have "index_key C f v \<in> set (get_index_keys_from_dict C u)"
      using that by (force simp: index_keys_from_set_fields in_set_fields)
    with all wf that(1) show ?thesis unfolding index_exact_def by metis
  qed
  from ne obtain f v where fv: "f \<in> set (index_fields C)" "sc_upd_text C u f = Some v"
  proof -
    from ne have "set_fields u \<noteq> []" by (auto simp: index_keys_from_set_fields)
    then obtain f v where "(f, v) \<in> set (set_fields u)" by (metis list.set_intros(1) neq_Nil_conv surj_pair)
    then show ?thesis using that in_set_fields by blast
  qed
  from has [OF fv] obtain t where t: "valid t" "is_stored R C s t" "m = item_key C t" by blast
  have "matches C u t"
    unfolding matches_def
  proof (intro ballI allI impI)
    fix g w
    assume "g \<in> set (index_fields C)" "sc_upd_text C u g = Some w"
    from has [OF this] t show "sc_text C t g = w" using stored_unique by metis
  qed
  with t show "\<exists>t. valid t \<and> is_stored R C s t \<and> matches C u t \<and> m = item_key C t" by blast
qed

lemma find_by_index_correct:
  assumes wf: "index_exact R C valid s" and u: "sc_validate_partial C u0 = Inr u"
    and idx: "set (sc_upd_fields C u) \<subseteq> set (index_fields C)"
    and ne: "get_index_keys_from_dict C u \<noteq> []"
    and live: "\<And>z k sc. zscore R s z k = Some sc \<Longrightarrow> Secs (total_seconds now) \<le> sc"
  shows "\<exists>ts. with_fresh now (find_by_index R C now u0 skip limit) s = (Inr (paginate ts skip limit), s) \<and>
    distinct ts \<and> set ts = {t. valid t \<and> is_stored R C s t \<and> matches C u t}"
proof -
  let ?zs = "get_index_keys_from_dict C u"
  obtain ps where ps: "zinter_max R s ?zs = Some ps" "distinct (map fst ps)"
    and mem: "\<And>m sc. (m, sc) \<in> set ps \<longleftrightarrow> (\<forall>z\<in>set ?zs. zscore R s z m \<noteq> None) \<and>
      sc = Max ((\<lambda>z. the (zscore R s z m)) ` set ?zs)"
    using zinter_Some [OF ne, of s] by blast
  let ?ms = "map fst ps" and ?item = "\<lambda>m. projr (model_validate_json C (hget R s (sc_name C) m))"
  have ms: "m \<in> set ?ms \<longleftrightarrow> (\<exists>t. valid t \<and> is_stored R C s t \<and> matches C u t \<and> m = item_key C t)" for m
  proof -
    have "m \<in> set ?ms \<longleftrightarrow> (\<exists>sc. (m, sc) \<in> set ps)" by force
    also have "\<dots> \<longleftrightarrow> (\<forall>z\<in>set ?zs. zscore R s z m \<noteq> None)" by (simp only: mem simp_thms ex_simps)
    finally show ?thesis by (simp only: index_keys_member [OF wf ne])
  qed
  have dec: "model_validate_json C (hget R s (sc_name C) (item_key C t)) = Inr t"
    if "valid t" "is_stored R C s t" for t
    using that by (simp add: is_stored_def model_validate_json_def dec_enc)
  have "Secs (total_seconds now) \<le> sc" if "(m, sc) \<in> set ps" for m sc
  proof -
    have "sc \<in> (\<lambda>z. the (zscore R s z m)) ` set ?zs"
      using that mem ne Max_in [of "(\<lambda>z. the (zscore R s z m)) ` set ?zs"] by auto
    then obtain z where "z \<in> set ?zs" "sc = the (zscore R s z m)" by auto
    with that mem have "zscore R s z m = Some sc" by auto
    then show ?thesis by (rule live)
  qed
  then have all: "filter (\<lambda>(k, v). Secs (total_seconds now) \<le> v) ps = ps"
    by (auto simp: filter_id_conv)
  have "mapM (model_validate_json C) (map (hget R s (sc_name C)) (paginate ?ms skip limit)) =
      Inr (map ?item (paginate ?ms skip limit))"
  proof -
    have "\<forall>v\<in>set (map (hget R s (sc_name C)) (paginate ?ms skip limit)).
        model_validate_json C v = Inr (projr (model_validate_json C v))"
      using ms paginate_set [of ?ms skip limit] dec by fastforce
    from mapM_Inr [OF this] show ?thesis by (simp add: comp_def)
  qed
  then have "with_fresh now (find_by_index R C now u0 skip limit) s =
      (Inr (paginate (map ?item ?ms) skip limit), s)"
    using u idx ps(1) all
    by (simp add: with_fresh_def find_by_index_def prog_simps Let_def paginate_map)
  moreover have "set (map ?item ?ms) = {t. valid t \<and> is_stored R C s t \<and> matches C u t}"
  proof (intro set_eqI iffI)
    fix t
    assume "t \<in> set (map ?item ?ms)"
    then obtain m where "m \<in> set ?ms" "t = ?item m" by auto
    with ms dec show "t \<in> {t. valid t \<and> is_stored R C s t \<and> matches C u t}" by fastforce
  next
    fix t
    assume "t \<in> {t. valid t \<and> is_stored R C s t \<and> matches C u t}"
    then have "item_key C t \<in> set ?ms" "t = ?item (item_key C t)" using ms dec by auto
    then show "t \<in> set (map ?item ?ms)" unfolding set_map [of ?item] by (rule rev_image_eqI)
  qed
  moreover have "distinct (map ?item ?ms)"
  proof -
    have "item_key C (?item m) = m" if "m \<in> set ?ms" for m
      using that ms dec by fastforce
    then have "inj_on ?item (set ?ms)" by (rule inj_on_inverseI [of _ "item_key C"])
    with ps(2) show ?thesis by (simp only: distinct_map [of ?item] simp_thms)
  qed
  ultimately show ?thesis by blast
qed

end

end
