(* ===== verification/Job_Store.thy ===== *)
theory Job_Store imports Static_Queue Collection begin

text \<open>
  The jobs collection (\<^verbatim>\<open>app/services/scheduler/store.py\<close>): the schema of \<open>Collection\<close> for the
  job record of \<^verbatim>\<open>app/libs/queues/dtos.py\<close>, with the times of \<^verbatim>\<open>settings.py\<close>, and what
  its operations do to the table of jobs that the collection stands for.
\<close>

section \<open>The jobs collection\<close>

definition JOBS_STORE_TTL :: rat where
  "JOBS_STORE_TTL = 3600 * 24 * 14"

definition JOBS_STORE_CLEAN_INTERVAL :: rat where
  "JOBS_STORE_CLEAN_INTERVAL = 3600 * 5"

text \<open>How an f-string writes an optional string and a status.\<close>

definition opt_text :: "string option \<Rightarrow> string" where
  "opt_text v = (case v of None \<Rightarrow> ''None'' | Some s \<Rightarrow> s)"

fun status_fstring :: "job_status \<Rightarrow> string" where
  "status_fstring PENDING = ''JobStatus.PENDING''"
| "status_fstring EXECUTING = ''JobStatus.EXECUTING''"
| "status_fstring FAILED = ''JobStatus.FAILED''"
| "status_fstring SUCCESSFUL = ''JobStatus.SUCCESSFUL''"
| "status_fstring CANCELLED = ''JobStatus.CANCELLED''"

definition job_text :: "job \<Rightarrow> string \<Rightarrow> string" where
  "job_text j f =
     (if f = ''job_id'' then job_id j
      else if f = ''user_id'' then opt_text (user_id j)
      else if f = ''status'' then status_fstring (status j)
      else [])"

definition job_upd_text :: "job_update \<Rightarrow> string \<Rightarrow> string option" where
  "job_upd_text u f =
     (if f = ''job_id'' then upd_job_id u
      else if f = ''user_id'' then upd_user_id u
      else if f = ''status'' then map_option status_fstring (upd_status u)
      else None)"

definition job_upd_fields :: "job_update \<Rightarrow> string list" where
  "job_upd_fields u = concat
     [if upd_job_id u = None then [] else [''job_id''],
      if upd_device u = None then [] else [''device''],
      if upd_calibration_date u = None then [] else [''calibration_date''],
      if upd_user_id u = None then [] else [''user_id''],
      if upd_estimated_duration u = None then [] else [''estimated_duration''],
      if upd_timestamps u = None then [] else [''timestamps''],
      if upd_stage u = None then [] else [''stage''],
      if upd_status u = None then [] else [''status''],
      if upd_failure_reason u = None then [] else [''failure_reason''],
      if upd_cancellation_reason u = None then [] else [''cancellation_reason''],
      if upd_storage_id u = None then [] else [''storage_id''],
      if upd_actual_duration u = None then [] else [''actual_duration''],
      if upd_download_url u = None then [] else [''download_url''],
      if upd_memory u = None then [] else [''result''],
      if upd_created_at u = None then [] else [''created_at''],
      if upd_updated_at u = None then [] else [''updated_at'']]"

fun job_dec :: "payload \<Rightarrow> job result" where
  "job_dec (PJob j) = Inr (validate_model j)"
| "job_dec (PArgs _) = Inl ValidationError"
| "job_dec (PLog _) = Inl ValidationError"

definition job_schema :: "(rkey, payload, job, job_update) schema" where
  "job_schema = \<lparr>
     sc_name = ''app.libs.queues.dtos.job'',
     sc_primary_fields = [''job_id''],
     sc_index_fields = [''user_id'', ''status''],
     sc_text = job_text,
     sc_upd_text = job_upd_text,
     sc_upd_fields = job_upd_fields,
     sc_validate_partial = (\<lambda>u. Inr (validate_partial u)),
     sc_merge = (\<lambda>now j u. Inr (validate_model (merge_update now j u))),
     sc_enc = PJob,
     sc_dec = job_dec,
     sc_field = StrKey,
     sc_default_ttl = Ttl JOBS_STORE_TTL,
     sc_cleanup_interval = JOBS_STORE_CLEAN_INTERVAL\<rparr>"

text \<open>\<open>get_jobs_store(url)\<close> and one operation on the collection it returns.\<close>

definition on_jobs :: "int \<Rightarrow> ('a, 'r coll) prog \<Rightarrow> ('a, 'r) prog" where
  "on_jobs now m = with_fresh now m"

definition job_get :: "'r store \<Rightarrow> int \<Rightarrow> string \<Rightarrow> (job, 'r) prog" where
  "job_get R now jid = on_jobs now (get_one R job_schema (KStr jid))"

definition job_exists :: "'r store \<Rightarrow> int \<Rightarrow> string \<Rightarrow> (bool, 'r) prog" where
  "job_exists R now jid = on_jobs now (exists_item R job_schema (KStr jid))"

definition job_insert :: "'r store \<Rightarrow> int \<Rightarrow> job \<Rightarrow> (job, 'r) prog" where
  "job_insert R now j = on_jobs now (insert_item R job_schema now j Undefined)"

definition job_update_one :: "'r store \<Rightarrow> int \<Rightarrow> string \<Rightarrow> job_update \<Rightarrow> (job, 'r) prog" where
  "job_update_one R now jid u = on_jobs now (update_item R job_schema now (KStr jid) u Undefined)"

lemma job_schema_fields [simp]:
  "index_fields job_schema = [''job_id'', ''user_id'', ''status'']"
  by (simp add: index_fields_def job_schema_def)

lemma job_schema_sel [simp]:
  "sc_name job_schema = ''app.libs.queues.dtos.job''" "sc_text job_schema = job_text"
  "sc_upd_text job_schema = job_upd_text" "sc_upd_fields job_schema = job_upd_fields"
  "sc_validate_partial job_schema u = Inr (validate_partial u)" "sc_enc job_schema = PJob"
  "sc_merge job_schema now j u = Inr (validate_model (merge_update now j u))"
  "sc_field job_schema = StrKey" "sc_primary_fields job_schema = [''job_id'']"
  "sc_default_ttl job_schema = Ttl JOBS_STORE_TTL"
  by (simp_all add: job_schema_def)

lemma job_key [simp]: "get_redis_key job_schema j = job_id j" "item_key job_schema j = StrKey (job_id j)"
  "construct_redis_key job_schema (KStr k) = Inr k" "construct_redis_key job_schema (KTuple [k]) = Inr k"
  by (simp_all add: get_redis_key_def item_key_def job_text_def construct_redis_key_def)

lemma job_merge_text:
  assumes "f \<in> {''job_id'', ''user_id'', ''status''}"
  shows "job_text (validate_model (merge_update now t u)) f =
    (case job_upd_text u f of None \<Rightarrow> job_text t f | Some v \<Rightarrow> v)"
proof -
  consider "f = ''job_id''" | "f = ''user_id''" | "f = ''status''" using assms by blast
  then show ?thesis
  proof cases
    case 1
    then show ?thesis
      by (cases "upd_job_id u") (simp_all add: job_text_def job_upd_text_def merge_update_def)
  next
    case 2
    then show ?thesis
      by (cases "upd_user_id u") (simp_all add: job_text_def job_upd_text_def merge_update_def opt_text_def)
  next
    case 3
    then show ?thesis
      by (cases "upd_status u") (simp_all add: job_text_def job_upd_text_def merge_update_def)
  qed
qed

interpretation job_schema: schema_laws job_schema job_ok
proof
  fix t :: job and t' :: job and u :: job_update and f :: string and now :: int
  show "job_ok t \<Longrightarrow> sc_dec job_schema (sc_enc job_schema t) = Inr t"
    by (simp add: job_schema_def)
  show "f \<in> set (index_fields job_schema) \<Longrightarrow> CHR '':'' \<notin> set f" by auto
  show "\<exists>t'. sc_merge job_schema now t u = Inr t' \<and> job_ok t'" by simp
  show "sc_merge job_schema now t u = Inr t' \<Longrightarrow> f \<in> set (index_fields job_schema) \<Longrightarrow>
      sc_text job_schema t' f =
        (case sc_upd_text job_schema u f of None \<Rightarrow> sc_text job_schema t f | Some v \<Rightarrow> v)"
    using job_merge_text [of f now t u] by (simp only: job_schema_sel job_schema_fields sum.inject list.set)
  show "distinct (index_fields job_schema)" by simp
qed (auto simp: job_schema_def JOBS_STORE_TTL_def JOBS_STORE_CLEAN_INTERVAL_def)

sublocale job_redis \<subseteq> jobs: collection R job_schema job_ok
  by unfold_locales

section \<open>The jobs as a table\<close>

text \<open>The abstract state of the collection: a partial map from job ids to jobs.\<close>

definition jobs_of :: "'r store \<Rightarrow> 'r \<Rightarrow> string \<Rightarrow> job option" where
  "jobs_of R s jid =
     (case hget R s (sc_name job_schema) (StrKey jid) of Some (RVal (PJob j)) \<Rightarrow> Some j | _ \<Rightarrow> None)"

definition jobs_wf :: "'r store \<Rightarrow> 'r \<Rightarrow> bool" where
  "jobs_wf R s \<longleftrightarrow> coll_wf R job_schema job_ok s"

definition plain_job :: "job \<Rightarrow> bool" where
  "plain_job j \<longleftrightarrow> CHR '':'' \<notin> set (job_id j) \<and> CHR '':'' \<notin> set (opt_text (user_id j))"

text \<open>An update that touches neither the id nor the owner.\<close>

definition keeps_ids :: "job_update \<Rightarrow> bool" where
  "keeps_ids u \<longleftrightarrow> upd_job_id u = None \<and> upd_user_id u = None"

lemma status_plain [simp]: "CHR '':'' \<notin> set (status_fstring st)"
  by (cases st) simp_all

lemma status_fstring_inject [simp]: "status_fstring a = status_fstring b \<longleftrightarrow> a = b"
  by (cases a; cases b) simp_all

lemma plain_item_job [simp]: "plain_item job_schema j \<longleftrightarrow> plain_job j"
  by (simp add: plain_item_def plain_job_def job_text_def)

lemma validate_partial_ids [simp]:
  "upd_job_id (validate_partial u) = upd_job_id u" "upd_user_id (validate_partial u) = upd_user_id u"
  "upd_status (validate_partial u) = upd_status u"
  by (simp_all add: validate_partial_def)

lemma job_upd_text_plain:
  "keeps_ids u \<Longrightarrow> job_upd_text (validate_partial u) f = Some v \<Longrightarrow> CHR '':'' \<notin> set v"
  by (auto simp: job_upd_text_def keeps_ids_def split: if_splits)

context job_redis
begin

text \<open>What the collection operations leave alone.\<close>

definition untouched :: "'r \<Rightarrow> 'r \<Rightarrow> bool" where
  "untouched s s' \<longleftrightarrow> (\<forall>l. items R s' l = items R s l) \<and>
     (\<forall>n k. n \<noteq> sc_name job_schema \<longrightarrow> hget R s' n k = hget R s n k)"

lemma untouched_refl [simp]: "untouched s s"
  by (simp add: untouched_def)

lemma untouched_trans: "untouched s t \<Longrightarrow> untouched t u \<Longrightarrow> untouched s u"
  by (simp add: untouched_def)

lemma untouched_queue: "untouched s s' \<Longrightarrow> same_queue n s s'"
  by (simp add: untouched_def same_queue_def db_of_def args_db_of_def metadata_of_def)

lemma jobs_of_Some:
  assumes "jobs_wf R s" and "jobs_of R s jid = Some j"
  shows "job_ok j" "plain_job j" "job_id j = jid" "is_stored R job_schema s j"
proof -
  have h: "hget R s (sc_name job_schema) (StrKey jid) = Some (RVal (PJob j))"
    using assms(2) by (auto simp: jobs_of_def split: option.splits rval.splits payload.splits)
  then obtain t where "job_ok t" "plain_item job_schema t" "StrKey jid = item_key job_schema t"
    "RVal (PJob j) = RVal (sc_enc job_schema t)"
    using assms(1) unfolding jobs_wf_def coll_wf_def by metis
  then have t: "job_ok j" "plain_item job_schema j" "StrKey jid = item_key job_schema j" by simp_all
  then show "job_ok j" "plain_job j" "job_id j = jid" by simp_all
  then show "is_stored R job_schema s j" using h by (simp add: is_stored_def)
qed

lemma jobs_of_hget: "jobs_of R s jid = Some j \<Longrightarrow>
    hget R s (sc_name job_schema) (StrKey jid) = Some (RVal (PJob j))"
  by (auto simp: jobs_of_def split: option.splits rval.splits payload.splits)

lemma stored_jobs_of: "is_stored R job_schema s j \<Longrightarrow> jobs_of R s (job_id j) = Some j"
  by (simp add: is_stored_def jobs_of_def)

lemma jobs_of_None:
  assumes "jobs_wf R s" and "jobs_of R s jid = None"
  shows "hget R s (sc_name job_schema) (StrKey jid) = None"
proof (rule ccontr)
  assume "hget R s (sc_name job_schema) (StrKey jid) \<noteq> None"
  then obtain v where v: "hget R s (sc_name job_schema) (StrKey jid) = Some v" by blast
  then obtain t where "v = RVal (sc_enc job_schema t)"
    using assms(1) unfolding jobs_wf_def coll_wf_def by metis
  with v assms(2) show False by (simp add: jobs_of_def)
qed

lemma jobs_of_update:
  assumes "\<And>n k. hget R s' n k =
    (if n = sc_name job_schema \<and> k = StrKey jid then Some (RVal (PJob j)) else hget R s n k)"
  shows "jobs_of R s' = (jobs_of R s)(jid \<mapsto> j)"
  by (rule ext) (simp add: jobs_of_def assms)

lemma get_one_job:
  assumes wf: "jobs_wf R s" and key: "construct_redis_key job_schema key = Inr jid"
  shows "on_jobs now (get_one R job_schema key) s =
    ((case jobs_of R s jid of None \<Rightarrow> Inl ItemNotFoundError | Some j \<Rightarrow> Inr j), s)"
proof (cases "jobs_of R s jid")
  case None
  then show ?thesis
    using jobs_of_None [OF wf None] key
    by (simp add: on_jobs_def with_fresh_def jobs.get_one_missing)
next
  case (Some j)
  note j = jobs_of_Some [OF wf Some]
  have "get_one R job_schema key (s, l) = (Inr j, (s, l))" for l
    using j by (intro jobs.get_one_eval [OF key]) (simp_all add: is_stored_def)
  with Some show ?thesis by (simp add: on_jobs_def with_fresh_def)
qed

lemma job_get_eval: "jobs_wf R s \<Longrightarrow> job_get R now jid s =
    ((case jobs_of R s jid of None \<Rightarrow> Inl ItemNotFoundError | Some j \<Rightarrow> Inr j), s)"
  unfolding job_get_def by (rule get_one_job) simp_all

lemma job_exists_eval:
  assumes "jobs_wf R s"
  shows "job_exists R now jid s = (Inr (jobs_of R s jid \<noteq> None), s)"
proof -
  have "hget R s (sc_name job_schema) (StrKey jid) \<noteq> None \<longleftrightarrow> jobs_of R s jid \<noteq> None"
    using jobs_of_None [OF assms] jobs_of_hget by (metis option.distinct(1) option.exhaust)
  then show ?thesis
    by (simp add: job_exists_def on_jobs_def with_fresh_def exists_item_def prog_simps)
qed

lemma update_job_eval:
  assumes wf: "jobs_wf R s" and j: "jobs_of R s jid = Some j" and u: "keeps_ids u"
    and key: "construct_redis_key job_schema key = Inr jid"
  shows "\<exists>s'. on_jobs now (update_item R job_schema now key u Undefined) s =
      (Inr (apply_update now j u), s') \<and> jobs_wf R s' \<and>
      jobs_of R s' = (jobs_of R s)(jid \<mapsto> apply_update now j u) \<and> untouched s s'"
proof -
  note ok = jobs_of_Some [OF wf j]
  have keep: "jobs.keeps_key (validate_partial u) j"
    using u by (simp add: jobs.keeps_key_def job_upd_text_def keeps_ids_def)
  have m: "sc_merge job_schema now j (validate_partial u) = Inr (apply_update now j u)"
    by (simp add: apply_update_def)
  have key': "construct_redis_key job_schema key = Inr (get_redis_key job_schema j)"
    using key ok(3) by simp
  have pl: "CHR '':'' \<notin> set v" if "sc_upd_text job_schema (validate_partial u) f = Some v" for f v
    using that u job_upd_text_plain by simp
  have st: "plain_item job_schema j" using ok(2) by simp
  have "\<exists>s'. with_fresh now (update_item R job_schema now key u Undefined) s =
      (Inr (apply_update now j u), s') \<and> coll_wf R job_schema job_ok s' \<and>
    is_stored R job_schema s' (apply_update now j u) \<and>
    (\<forall>n k. hget R s' n k = (if n = sc_name job_schema \<and> k = item_key job_schema j
        then Some (RVal (sc_enc job_schema (apply_update now j u))) else hget R s n k)) \<and>
    (\<forall>l. items R s' l = items R s l)"
  proof (rule jobs.update_item_wf)
    show "sc_validate_partial job_schema u = Inr (validate_partial u)" by simp
    show "\<And>f v. sc_upd_text job_schema (validate_partial u) f = Some v \<Longrightarrow> CHR '':'' \<notin> set v"
      by (rule pl)
  qed (fact wf [unfolded jobs_wf_def] ok(1) st ok(4) m keep key')+
  then obtain s' where s': "with_fresh now (update_item R job_schema now key u Undefined) s =
      (Inr (apply_update now j u), s')" "coll_wf R job_schema job_ok s'"
    "\<forall>n k. hget R s' n k = (if n = sc_name job_schema \<and> k = item_key job_schema j
        then Some (RVal (sc_enc job_schema (apply_update now j u))) else hget R s n k)"
    "\<forall>l. items R s' l = items R s l"
    by blast
  have "jobs_of R s' = (jobs_of R s)(jid \<mapsto> apply_update now j u)"
    using s'(3) ok(3) by (intro jobs_of_update) simp
  with s' show ?thesis by (auto simp: on_jobs_def jobs_wf_def untouched_def)
qed

lemma update_job_missing:
  assumes "jobs_wf R s" "jobs_of R s jid = None" "construct_redis_key job_schema key = Inr jid"
  shows "on_jobs now (update_item R job_schema now key u Undefined) s = (Inl ItemNotFoundError, s)"
  unfolding on_jobs_def using jobs_of_None [OF assms(1,2)]
  by (intro jobs.update_item_missing [OF _ assms(3)]) simp_all

lemma job_insert_eval:
  assumes wf: "jobs_wf R s" and "jobs_of R s (job_id j) = None" and "job_ok j" "plain_job j"
  shows "\<exists>s'. job_insert R now j s = (Inr j, s') \<and> jobs_wf R s' \<and>
    jobs_of R s' = (jobs_of R s)(job_id j \<mapsto> j) \<and> untouched s s'"
proof -
  obtain s' where s': "with_fresh now (insert_item R job_schema now j Undefined) s = (Inr j, s')"
    "coll_wf R job_schema job_ok s'"
    "\<forall>n k. hget R s' n k = (if n = sc_name job_schema \<and> k = item_key job_schema j
        then Some (RVal (sc_enc job_schema j)) else hget R s n k)"
    "\<forall>l. items R s' l = items R s l"
    using jobs.insert_item_wf [of s j now] assms jobs_of_None [OF wf assms(2)]
    by (auto simp: jobs_wf_def)
  have "jobs_of R s' = (jobs_of R s)(job_id j \<mapsto> j)"
    using s'(3) by (intro jobs_of_update) simp
  with s' show ?thesis by (auto simp: job_insert_def on_jobs_def jobs_wf_def untouched_def)
qed

lemma delete_job_eval:
  assumes wf: "jobs_wf R s" and j: "jobs_of R s jid = Some j"
    and key: "construct_redis_key job_schema key = Inr jid"
  shows "\<exists>s'. on_jobs now (delete_many R job_schema now [key]) s = (Inr (), s') \<and> jobs_wf R s' \<and>
    jobs_of R s' = (jobs_of R s)(jid := None) \<and> untouched s s'"
proof -
  note ok = jobs_of_Some [OF wf j]
  have key': "construct_redis_key job_schema key = Inr (get_redis_key job_schema j)"
    using key ok(3) by simp
  obtain s' where s': "with_fresh now (delete_many R job_schema now [key]) s = (Inr (), s')"
    "coll_wf R job_schema job_ok s'"
    "\<forall>n k. hget R s' n k = (if n = sc_name job_schema \<and> k = item_key job_schema j then None
        else hget R s n k)"
    "\<forall>l. items R s' l = items R s l"
    using jobs.delete_one_wf [OF wf [unfolded jobs_wf_def] ok(1,4) key', of now] by blast
  have "jobs_of R s' = (jobs_of R s)(jid := None)"
    using s'(3) ok(3) by (intro ext) (simp add: jobs_of_def)
  with s' show ?thesis by (auto simp: on_jobs_def jobs_wf_def untouched_def)
qed

text \<open>What any change of the server keeps, when the table and its indexes are as before.\<close>

definition same_jobs :: "'r \<Rightarrow> 'r \<Rightarrow> bool" where
  "same_jobs s s' \<longleftrightarrow> (\<forall>k. hget R s' (sc_name job_schema) k = hget R s (sc_name job_schema) k) \<and>
     (\<forall>f v m. zscore R s' (index_key job_schema f v) m = zscore R s (index_key job_schema f v) m)"

lemma same_jobs_refl [simp]: "same_jobs s s"
  by (simp add: same_jobs_def)

lemma same_jobs_wf: "same_jobs s s' \<Longrightarrow> jobs_wf R s' = jobs_wf R s"
  by (simp add: same_jobs_def jobs_wf_def coll_wf_def is_stored_def)

lemma same_jobs_of: "same_jobs s s' \<Longrightarrow> jobs_of R s' = jobs_of R s"
  by (rule ext) (simp add: same_jobs_def jobs_of_def)

end

end
