(* ===== verification/Job_Lifecycle.thy ===== *)
theory Job_Lifecycle imports Job_Store begin

text \<open>
  The functions of \<^verbatim>\<open>app/services/scheduler/utils.py\<close> that move a job through its stages, what
  they do to a job, and the job's life as a step relation.
\<close>

section \<open>The stages of a job\<close>

fun stage_timestamps :: "stage \<Rightarrow> (job_stage \<times> job_event) list" where
  "stage_timestamps REG_Q = []"
| "stage_timestamps REG_W = [(registration, started)]"
| "stage_timestamps PRE_PROC_Q = [(registration, finished)]"
| "stage_timestamps PRE_PROC_W = [(pre_processing, started)]"
| "stage_timestamps EXEC_Q = [(pre_processing, finished)]"
| "stage_timestamps EXEC_W = [(execution, started)]"
| "stage_timestamps PST_PROC_Q = [(execution, finished)]"
| "stage_timestamps PST_PROC_W = [(post_processing, started)]"
| "stage_timestamps FINAL_Q = [(post_processing, finished), (final, started)]"
| "stage_timestamps FINAL_W = [(final, finished)]"

fun stage_status :: "stage \<Rightarrow> job_status" where
  "stage_status REG_Q = PENDING"
| "stage_status REG_W = PENDING"
| "stage_status PRE_PROC_Q = PENDING"
| "stage_status PRE_PROC_W = EXECUTING"
| "stage_status EXEC_Q = PENDING"
| "stage_status EXEC_W = EXECUTING"
| "stage_status PST_PROC_Q = EXECUTING"
| "stage_status PST_PROC_W = EXECUTING"
| "stage_status FINAL_Q = EXECUTING"
| "stage_status FINAL_W = SUCCESSFUL"

definition get_next_status :: "job \<Rightarrow> stage \<Rightarrow> job_status" where
  "get_next_status j next_stage =
     (let st = status j in if \<not> is_terminal st then stage_status next_stage else st)"

text \<open>The comprehension builds a dict: the two entries of \<open>FINAL_Q\<close> have different names.\<close>

definition get_next_timestamps :: "job \<Rightarrow> stage \<Rightarrow> int \<Rightarrow> timestamps" where
  "get_next_timestamps j next_stage current_time =
     (let ts = (case timestamps_of j of None \<Rightarrow> no_timestamps | Some ts \<Rightarrow> ts)
      in with_updates ts
           (map (\<lambda>(stage_name, label). (stage_name, [(label, current_time)]))
             (stage_timestamps next_stage)))"

definition get_rq_job_id :: "string \<Rightarrow> stage \<Rightarrow> string" where
  "get_rq_job_id quantum_job_id st = quantum_job_id @ ''_'' @ stage_name st"

definition stage_update :: "job \<Rightarrow> stage \<Rightarrow> int \<Rightarrow> job_update" where
  "stage_update j st now = no_update\<lparr>upd_status := Some (get_next_status j st), upd_stage := Some st,
     upd_timestamps := Some (get_next_timestamps j st now), upd_updated_at := Some now\<rparr>"

definition update_job_stage :: "'r store \<Rightarrow> int \<Rightarrow> string \<Rightarrow> stage \<Rightarrow> (job, 'r) prog" where
  "update_job_stage R now jid st =
     bindE (on_jobs now (get_one R job_schema (KTuple [jid]))) (\<lambda>j.
       on_jobs now (update_item R job_schema now (KTuple [jid]) (stage_update j st now) Undefined))"

definition failure_update :: "string \<Rightarrow> int \<Rightarrow> job_update" where
  "failure_update reason now = no_update\<lparr>upd_status := Some FAILED,
     upd_failure_reason := Some reason, upd_updated_at := Some now\<rparr>"

definition log_job_failure :: "'r store \<Rightarrow> int \<Rightarrow> string \<Rightarrow> string \<Rightarrow> (job, 'r) prog" where
  "log_job_failure R now jid reason =
     on_jobs now (update_item R job_schema now (KTuple [jid]) (failure_update reason now) Undefined)"

definition results_update :: "string \<Rightarrow> string \<Rightarrow> memory \<Rightarrow> int \<Rightarrow> job_update" where
  "results_update root_url jid data now = no_update\<lparr>upd_status := Some SUCCESSFUL,
     upd_memory := Some data, upd_download_url := Some (root_url @ ''/logfiles/'' @ jid),
     upd_updated_at := Some now\<rparr>"

definition update_job_results ::
    "'r store \<Rightarrow> string \<Rightarrow> int \<Rightarrow> string \<Rightarrow> memory \<Rightarrow> (job, 'r) prog" where
  "update_job_results R root_url now jid data =
     on_jobs now (update_item R job_schema now (KTuple [jid])
       (results_update root_url jid data now) Undefined)"

definition cancel_update :: "string \<Rightarrow> int \<Rightarrow> job_update" where
  "cancel_update reason now = no_update\<lparr>upd_status := Some CANCELLED,
     upd_cancellation_reason := Some reason, upd_updated_at := Some now\<rparr>"

definition estimate_update :: "rat \<Rightarrow> job_update" where
  "estimate_update d = no_update\<lparr>upd_estimated_duration := Some d\<rparr>"

section \<open>The contract of the table of jobs\<close>

locale job_table =
  fixes inv :: "'s \<Rightarrow> bool"
    and table :: "'s \<Rightarrow> string \<Rightarrow> job option"
    and frame :: "'s \<Rightarrow> 's \<Rightarrow> bool"
    and now :: int
    and read :: "string \<Rightarrow> (job, 's) prog"
    and "write" :: "string \<Rightarrow> job_update \<Rightarrow> (job, 's) prog"
  assumes read_law: "inv s \<Longrightarrow>
      read jid s = ((case table s jid of None \<Rightarrow> Inl ItemNotFoundError | Some j \<Rightarrow> Inr j), s)"
    and write_law: "inv s \<Longrightarrow> table s jid = Some j \<Longrightarrow> keeps_ids u \<Longrightarrow>
      \<exists>s'. write jid u s = (Inr (apply_update now j u), s') \<and> inv s' \<and>
        table s' = (table s)(jid \<mapsto> apply_update now j u) \<and> frame s s'"
    and write_missing: "inv s \<Longrightarrow> table s jid = None \<Longrightarrow> write jid u s = (Inl ItemNotFoundError, s)"

context job_table
begin

text \<open>Reading a job, computing an update from it, writing the update back.\<close>

definition change :: "string \<Rightarrow> (job \<Rightarrow> job_update) \<Rightarrow> (job, 's) prog" where
  "change jid f = bindE (read jid) (\<lambda>j. write jid (f j))"

lemma change_present:
  assumes "inv s" and "table s jid = Some j" and "keeps_ids (f j)"
  shows "\<exists>s'. change jid f s = (Inr (apply_update now j (f j)), s') \<and> inv s' \<and>
    table s' = (table s)(jid \<mapsto> apply_update now j (f j)) \<and> frame s s'"
  using write_law [OF assms] by (auto simp: change_def prog_simps read_law [OF assms(1)] assms(2))

lemma change_missing:
  "inv s \<Longrightarrow> table s jid = None \<Longrightarrow> change jid f s = (Inl ItemNotFoundError, s)"
  by (simp add: change_def prog_simps read_law)

end

sublocale job_redis \<subseteq> by_tuple: job_table "jobs_wf R" "jobs_of R" untouched now
    "\<lambda>jid. on_jobs now (get_one R job_schema (KTuple [jid]))"
    "\<lambda>jid u. on_jobs now (update_item R job_schema now (KTuple [jid]) u Undefined)" for now
proof
  fix s jid
  assume "jobs_wf R s"
  then show "on_jobs now (get_one R job_schema (KTuple [jid])) s =
      ((case jobs_of R s jid of None \<Rightarrow> Inl ItemNotFoundError | Some j \<Rightarrow> Inr j), s)"
    by (rule get_one_job) simp
next
  fix s jid j u
  assume "jobs_wf R s" "jobs_of R s jid = Some j" "keeps_ids u"
  then show "\<exists>s'. on_jobs now (update_item R job_schema now (KTuple [jid]) u Undefined) s =
        (Inr (apply_update now j u), s') \<and> jobs_wf R s' \<and>
        jobs_of R s' = (jobs_of R s)(jid \<mapsto> apply_update now j u) \<and> untouched s s'"
    by (rule update_job_eval) simp
next
  fix s jid u
  assume "jobs_wf R s" "jobs_of R s jid = None"
  then show "on_jobs now (update_item R job_schema now (KTuple [jid]) u Undefined) s =
      (Inl ItemNotFoundError, s)"
    by (rule update_job_missing) simp
qed

lemma keeps_ids_updates [simp]:
  "keeps_ids (stage_update j st now)" "keeps_ids (failure_update reason now)"
  "keeps_ids (results_update url jid data now)" "keeps_ids (cancel_update reason now)"
  "keeps_ids (estimate_update d)"
  by (simp_all add: keeps_ids_def stage_update_def failure_update_def results_update_def
      cancel_update_def estimate_update_def no_update_def)

text \<open>What the operations do to one job.\<close>

definition staged :: "int \<Rightarrow> stage \<Rightarrow> job \<Rightarrow> job" where
  "staged now st j = apply_update now j (stage_update j st now)"

context job_redis
begin

lemma update_job_stage_change:
  "update_job_stage R now jid st = by_tuple.change now jid (\<lambda>j. stage_update j st now)"
  by (simp add: update_job_stage_def by_tuple.change_def)

lemma update_job_stage_eval:
  assumes "jobs_wf R s" and "jobs_of R s jid = Some j"
  shows "\<exists>s'. update_job_stage R now jid st s = (Inr (staged now st j), s') \<and> jobs_wf R s' \<and>
    jobs_of R s' = (jobs_of R s)(jid \<mapsto> staged now st j) \<and> untouched s s'"
  unfolding update_job_stage_change staged_def
  using by_tuple.change_present [OF assms, where f = "\<lambda>j. stage_update j st now"] by simp

lemma update_job_stage_missing:
  "jobs_wf R s \<Longrightarrow> jobs_of R s jid = None \<Longrightarrow>
    update_job_stage R now jid st s = (Inl ItemNotFoundError, s)"
  unfolding update_job_stage_change by (rule by_tuple.change_missing)

lemma log_job_failure_eval:
  assumes "jobs_wf R s" and "jobs_of R s jid = Some j"
  shows "\<exists>s'. log_job_failure R now jid reason s = (Inr (apply_update now j (failure_update reason now)), s') \<and>
    jobs_wf R s' \<and> jobs_of R s' = (jobs_of R s)(jid \<mapsto> apply_update now j (failure_update reason now)) \<and>
    untouched s s'"
  unfolding log_job_failure_def by (rule by_tuple.write_law [OF assms]) simp

lemma update_job_results_eval:
  assumes "jobs_wf R s" and "jobs_of R s jid = Some j"
  shows "\<exists>s'. update_job_results R url now jid data s =
      (Inr (apply_update now j (results_update url jid data now)), s') \<and> jobs_wf R s' \<and>
    jobs_of R s' = (jobs_of R s)(jid \<mapsto> apply_update now j (results_update url jid data now)) \<and>
    untouched s s'"
  unfolding update_job_results_def by (rule by_tuple.write_law [OF assms]) simp

end

section \<open>The life of a job\<close>

datatype job_change =
    ToStage stage
  | Fail string
  | Results string memory
  | Cancel string
  | Estimate rat

fun changed :: "int \<Rightarrow> job_change \<Rightarrow> job \<Rightarrow> job" where
  "changed now (ToStage st) j = staged now st j"
| "changed now (Fail reason) j = apply_update now j (failure_update reason now)"
| "changed now (Results url data) j = apply_update now j (results_update url (job_id j) data now)"
| "changed now (Cancel reason) j = apply_update now j (cancel_update reason now)"
| "changed now (Estimate d) j = apply_update now j (estimate_update d)"

inductive job_step :: "job \<Rightarrow> job \<Rightarrow> bool" where
  step: "job_step j (changed now c j)"

inductive_cases job_stepE: "job_step j j'"

lemma staged_sel [simp]:
  "status (staged now st j) = get_next_status j st" "stage_of (staged now st j) = st"
  "timestamps_of (staged now st j) = Some (get_next_timestamps j st now)"
  "job_id (staged now st j) = job_id j" "user_id (staged now st j) = user_id j"
  "estimated_duration (staged now st j) = estimated_duration j"
  by (simp_all add: staged_def stage_update_def no_update_def)

lemma changed_ids [simp]:
  "job_id (changed now c j) = job_id j" "user_id (changed now c j) = user_id j" "job_ok (changed now c j)"
  by (cases c; simp add: staged_def stage_update_def failure_update_def results_update_def
      cancel_update_def estimate_update_def no_update_def)+

lemma changed_status:
  "status (changed now c j) = (case c of ToStage st \<Rightarrow> get_next_status j st | Fail _ \<Rightarrow> FAILED
     | Results _ _ \<Rightarrow> SUCCESSFUL | Cancel _ \<Rightarrow> CANCELLED | Estimate _ \<Rightarrow> status j)"
  by (cases c) (simp_all add: failure_update_def results_update_def cancel_update_def
      estimate_update_def no_update_def)

lemma get_next_status_terminal [simp]: "is_terminal (status j) \<Longrightarrow> get_next_status j st = status j"
  by (simp add: get_next_status_def)

lemma get_next_status_open: "\<not> is_terminal (status j) \<Longrightarrow> get_next_status j st = stage_status st"
  by (simp add: get_next_status_def)

lemma stage_status_terminal: "is_terminal (stage_status st) \<longleftrightarrow> st = FINAL_W"
  by (cases st) (simp_all add: is_terminal_def)

text \<open>The stamps of a stage, and those that a stage leaves alone.\<close>

lemma stamp_next_timestamps:
  "stamp (get_next_timestamps j st now) name label =
    (if (name, label) \<in> set (stage_timestamps st) then Some now
     else case timestamps_of j of None \<Rightarrow> None | Some ts \<Rightarrow> stamp ts name label)"
proof -
  have empty: "stamp no_timestamps n l = None" for n l by (simp add: stamp_def no_timestamps_def)
  show ?thesis
    by (cases st; cases "timestamps_of j")
      (auto simp: get_next_timestamps_def with_updates_def stamp_set_timestamp empty)
qed

lemma staged_execution:
  assumes "timestamps_of j = None \<or> (\<exists>ts. timestamps_of j = Some ts \<and> stamp ts execution finished = None)"
  shows "start_utc (staged t EXEC_W j) = Some t" "end_utc (staged t EXEC_W j) = None"
  using assms by (auto simp: start_utc_def end_utc_def stamp_next_timestamps split: option.splits)

lemma usage_next_timestamps:
  "resource_usage (get_next_timestamps j EXEC_W t) =
    (case end_utc j of None \<Rightarrow> None | Some f \<Rightarrow> Some (total_seconds (f - t)))"
  "resource_usage (get_next_timestamps j PST_PROC_Q t) =
    (case start_utc j of None \<Rightarrow> None | Some a \<Rightarrow> Some (total_seconds (t - a)))"
  by (auto simp: resource_usage_def stamp_next_timestamps start_utc_def end_utc_def
      split: option.splits)

lemma staged_actual_duration:
  assumes "start_utc j = Some a" and "b \<noteq> a"
  shows "actual_duration (staged b PST_PROC_Q j) = Some (total_seconds (b - a))"
proof -
  have "total_seconds (b - a) \<noteq> 0" using assms(2) by (simp add: total_seconds_def)
  then have "partial_actual_duration (stage_update j PST_PROC_Q b) = Some (total_seconds (b - a))"
    using assms(1)
    by (simp add: partial_actual_duration_def stage_update_def no_update_def usage_next_timestamps)
  then show ?thesis
    by (simp add: staged_def apply_update_def merge_update_def validate_partial_def
        set_actual_duration_def)
qed

lemma staged_no_actual_duration:
  assumes "actual_duration j = None" and "end_utc j = None"
  shows "actual_duration (staged t EXEC_W j) = None"
proof -
  have none: "resource_usage (get_next_timestamps j EXEC_W t) = None"
    using assms(2) by (simp add: usage_next_timestamps)
  then have "partial_actual_duration (stage_update j EXEC_W t) = None"
    by (simp add: partial_actual_duration_def stage_update_def no_update_def)
  then show ?thesis
    using assms(1) none
    by (simp add: staged_def apply_update_def merge_update_def validate_partial_def
        set_actual_duration_def stage_update_def no_update_def)
qed

text \<open>
  The estimate counts down while the job runs and is refused once it has run.
\<close>

lemma staged_eta:
  assumes "actual_duration j = None" and "end_utc j = None" and "estimated_duration j = Some d"
  shows "current_eta now (staged t EXEC_W j) = Inr (Some (d - total_seconds (now - t)))"
proof -
  have ok: "job_ok (staged t EXEC_W j)" by (simp add: staged_def)
  have "timestamps_of j = None \<or> (\<exists>ts. timestamps_of j = Some ts \<and> stamp ts execution finished = None)"
    using assms(2) by (auto simp: end_utc_def split: option.splits)
  from staged_execution [OF this, of t] show ?thesis
    unfolding current_eta_cases [OF ok]
    by (simp add: staged_no_actual_duration [OF assms(1,2)] assms(3) start_utc_def end_utc_def)
qed

lemma job_steps_ids:
  "job_step\<^sup>*\<^sup>* j j' \<Longrightarrow> job_id j' = job_id j \<and> user_id j' = user_id j \<and> (job_ok j \<longrightarrow> job_ok j')"
  by (induction rule: rtranclp_induct) (auto elim!: job_stepE)

text \<open>A job that is not finished only finishes by one of the four ways the code has.\<close>

lemma changed_terminal:
  assumes "\<not> is_terminal (status j)" and "is_terminal (status (changed now c j))"
  shows "c = ToStage FINAL_W \<or> (\<exists>r. c = Fail r) \<or> (\<exists>u d. c = Results u d) \<or> (\<exists>r. c = Cancel r)"
  using assms unfolding changed_status
  by (cases c) (auto simp: get_next_status_open stage_status_terminal)

end
