(* ===== verification/Rq.thy ===== *)
theory Rq imports Static_Queue begin

text \<open>
  The rq library as the program uses it, and the code on top of it: \<^verbatim>\<open>app/utils/rq.py\<close> and
  \<open>RunnerQueue\<close> of \<^verbatim>\<open>app/libs/queues/types.py\<close>. rq is not part of the program, so its calls are
  a parameter: a record of operations on an opaque state \<open>'q\<close>, with their documented behaviour as
  the laws of the locale \<open>rq_laws\<close>. What a queued call runs is a value of type \<open>task\<close>.
\<close>

section \<open>The library\<close>

datatype exec_func = Preprocess | Execute | Postprocess

datatype task =
    RunNext string exec_func
  | ResetIdleness string int queue_context
  | PostBookingCleanup string queue_context
  | PopWaitlistToBooking queue_context
  | Recalibrate queue_context "rat option"

datatype rq_status = Queued | Scheduled | Started | Finished | Failed | Canceled

record rq_job =
  rj_id :: string
  rj_status :: rq_status
  rj_task :: task
  rj_started_at :: "int option"
  rj_ended_at :: "int option"
  rj_enqueued_at :: "int option"
  rj_interval :: "rat option"
  rj_result :: "string option option"

record 'q rq =
  rq_fetch :: "'q \<Rightarrow> string \<Rightarrow> rq_job option"
  rq_cancel :: "string \<Rightarrow> 'q \<Rightarrow> 'q"
  rq_enqueue :: "string \<Rightarrow> string option \<Rightarrow> task \<Rightarrow> 'q \<Rightarrow> string \<times> 'q"
  rq_enqueue_at :: "string \<Rightarrow> int \<Rightarrow> string option \<Rightarrow> task \<Rightarrow> 'q \<Rightarrow> string \<times> 'q"
  rq_enqueue_in :: "string \<Rightarrow> rat \<Rightarrow> (int \<times> int) option \<Rightarrow> string option \<Rightarrow> task \<Rightarrow> 'q \<Rightarrow> string \<times> 'q"
  rq_set_interval :: "string \<Rightarrow> rat option \<Rightarrow> 'q \<Rightarrow> 'q"
  rq_queued_ids :: "'q \<Rightarrow> string \<Rightarrow> string list"
  rq_scheduled_ids :: "'q \<Rightarrow> string \<Rightarrow> string list"
  rq_finished_ids :: "'q \<Rightarrow> string \<Rightarrow> string list"
  rq_failed_ids :: "'q \<Rightarrow> string \<Rightarrow> string list"
  rq_workers :: "'q \<Rightarrow> (string list \<times> rq_job option) list"

definition status_of :: "'q rq \<Rightarrow> 'q \<Rightarrow> string \<Rightarrow> rq_status option" where
  "status_of Q s i = map_option rj_status (rq_fetch Q s i)"

definition task_of :: "'q rq \<Rightarrow> 'q \<Rightarrow> string \<Rightarrow> task option" where
  "task_of Q s i = map_option rj_task (rq_fetch Q s i)"

text \<open>
  A job enqueued under an id can be fetched under it; cancelling marks it; neither touches the
  others. An id that rq makes up is new.
\<close>

locale rq_laws =
  fixes Q :: "'q rq"
  assumes fetch_id: "rq_fetch Q s i = Some job \<Longrightarrow> rj_id job = i"
    and enqueue_id: "fst (rq_enqueue Q qn (Some i) t s) = i"
    and enqueue_status: "status_of Q (snd (rq_enqueue Q qn (Some i) t s)) i' =
      (if i' = i then Some Queued else status_of Q s i')"
    and enqueue_at_status: "status_of Q (snd (rq_enqueue_at Q qn due (Some i) t s)) i' =
      (if i' = i then Some Scheduled else status_of Q s i')"
    and enqueue_in_status: "status_of Q (snd (rq_enqueue_in Q qn after rep (Some i) t s)) i' =
      (if i' = i then Some Scheduled else status_of Q s i')"
    and enqueue_task: "task_of Q (snd (rq_enqueue Q qn (Some i) t s)) i' =
      (if i' = i then Some t else task_of Q s i')"
    and enqueue_at_task: "task_of Q (snd (rq_enqueue_at Q qn due (Some i) t s)) i' =
      (if i' = i then Some t else task_of Q s i')"
    and enqueue_in_task: "task_of Q (snd (rq_enqueue_in Q qn after rep (Some i) t s)) i' =
      (if i' = i then Some t else task_of Q s i')"
    and cancel_task: "task_of Q (rq_cancel Q i s) i' = task_of Q s i'"
    and cancel_status: "status_of Q (rq_cancel Q i s) i' =
      (if i' = i \<and> status_of Q s i \<noteq> None then Some Canceled else status_of Q s i')"

section \<open>Cancelling\<close>

text \<open>\<open>RqJob.fetch\<close>, and \<open>job.cancel()\<close>, which refuses a job that is cancelled already.\<close>

definition fetch_rq :: "'q rq \<Rightarrow> string \<Rightarrow> (rq_job, 'q) prog" where
  "fetch_rq Q i s = (case rq_fetch Q s i of None \<Rightarrow> (Inl NoSuchJobError, s) | Some job \<Rightarrow> (Inr job, s))"

definition cancel_fetched :: "'q rq \<Rightarrow> rq_job \<Rightarrow> (unit, 'q) prog" where
  "cancel_fetched Q job =
     (if rj_status job = Canceled then raiseE InvalidJobOperation else modE (rq_cancel Q (rj_id job)))"

definition cancel_rq_job :: "'q rq \<Rightarrow> string \<Rightarrow> bool \<Rightarrow> (unit, 'q) prog" where
  "cancel_rq_job Q i ignore_errors =
     catchE (bindE (fetch_rq Q i) (cancel_fetched Q))
       (\<lambda>e. if e \<in> {NoSuchJobError, InvalidJobOperation} \<and> ignore_errors then retE () else raiseE e)"

section \<open>What a queue is doing\<close>

definition get_current_jobs_on_queue :: "'q rq \<Rightarrow> 'q \<Rightarrow> string \<Rightarrow> rq_job list" where
  "get_current_jobs_on_queue Q s qn =
     List.map_filter snd (filter (\<lambda>(names, _). qn \<in> set names) (rq_workers Q s))"

definition get_current_job_on_queue :: "'q rq \<Rightarrow> 'q \<Rightarrow> string \<Rightarrow> rq_job option result" where
  "get_current_job_on_queue Q s qn =
     (let current_jobs = get_current_jobs_on_queue Q s qn in
      if 1 < length current_jobs then Inl RuntimeError
      else Inr (case current_jobs of [] \<Rightarrow> None | j # _ \<Rightarrow> Some j))"

text \<open>The last id of a registry, fetched; a job that has expired in the meantime raises.\<close>

definition last_fetched :: "'q rq \<Rightarrow> 'q \<Rightarrow> string list \<Rightarrow> rq_job option result" where
  "last_fetched Q s ids =
     (if ids = [] then Inr None
      else case rq_fetch Q s (last ids) of None \<Rightarrow> Inl NoSuchJobError | Some j \<Rightarrow> Inr (Some j))"

text \<open>\<open>queue.get_jobs\<close> leaves out the jobs that are gone.\<close>

definition get_latest_queued_job :: "'q rq \<Rightarrow> 'q \<Rightarrow> string \<Rightarrow> rq_job option" where
  "get_latest_queued_job Q s qn =
     (let ids = rq_queued_ids Q s qn in if ids = [] then None else rq_fetch Q s (last ids))"

text \<open>\<open>sort(key=lambda x: x.started_at)\<close> of at most two jobs: comparing \<open>None\<close> raises.\<close>

fun latest_started :: "rq_job option \<Rightarrow> rq_job option \<Rightarrow> rq_job option result" where
  "latest_started None None = Inr None"
| "latest_started (Some a) None = Inr (Some a)"
| "latest_started None (Some b) = Inr (Some b)"
| "latest_started (Some a) (Some b) =
     (case (rj_started_at a, rj_started_at b) of
        (Some x, Some y) \<Rightarrow> Inr (Some (if y < x then a else b))
      | _ \<Rightarrow> Inl TypeError)"

definition get_previous_job_on_queue :: "'q rq \<Rightarrow> 'q \<Rightarrow> string \<Rightarrow> rq_job option result" where
  "get_previous_job_on_queue Q s qn =
     (case last_fetched Q s (rq_finished_ids Q s qn) of
        Inl e \<Rightarrow> Inl e
      | Inr finished_job \<Rightarrow>
          (case last_fetched Q s (rq_failed_ids Q s qn) of
             Inl e \<Rightarrow> Inl e
           | Inr failed_job \<Rightarrow> latest_started finished_job failed_job))"

definition get_next_job_on_queue :: "'q rq \<Rightarrow> 'q \<Rightarrow> string \<Rightarrow> rq_job option result" where
  "get_next_job_on_queue Q s qn =
     (case last_fetched Q s (rq_scheduled_ids Q s qn) of
        Inl e \<Rightarrow> Inl e
      | Inr scheduled_job \<Rightarrow> latest_started scheduled_job (get_latest_queued_job Q s qn))"

section \<open>Recalibration info\<close>

record recalibration_info =
  current_job_id :: "string option"
  current_job_status :: "rq_status option"
  current_job_started_at :: "int option"
  previous_job_id :: "string option"
  previous_job_status :: "rq_status option"
  previous_job_started_at :: "int option"
  previous_job_ended_at :: "int option"
  previous_job_error :: "string option"
  next_job_id :: "string option"
  next_job_status :: "rq_status option"
  next_job_enqueued_at :: "int option"
  info_interval :: "rat option"

definition no_info :: recalibration_info where
  "no_info = \<lparr>current_job_id = None, current_job_status = None, current_job_started_at = None,
     previous_job_id = None, previous_job_status = None, previous_job_started_at = None,
     previous_job_ended_at = None, previous_job_error = None, next_job_id = None,
     next_job_status = None, next_job_enqueued_at = None, info_interval = None\<rparr>"

definition with_previous :: "rq_job option \<Rightarrow> recalibration_info \<Rightarrow> recalibration_info" where
  "with_previous j info =
     (case j of None \<Rightarrow> info
      | Some p \<Rightarrow> info\<lparr>previous_job_id := Some (rj_id p), previous_job_status := Some (rj_status p),
          previous_job_started_at := rj_started_at p, previous_job_ended_at := rj_ended_at p,
          info_interval := rj_interval p,
          previous_job_error := (case rj_result p of None \<Rightarrow> None | Some exc \<Rightarrow> exc)\<rparr>)"

definition with_current :: "rq_job option \<Rightarrow> recalibration_info \<Rightarrow> recalibration_info" where
  "with_current j info =
     (case j of None \<Rightarrow> info
      | Some c \<Rightarrow> info\<lparr>current_job_id := Some (rj_id c), current_job_status := Some (rj_status c),
          current_job_started_at := rj_started_at c, info_interval := rj_interval c\<rparr>)"

definition with_next :: "rq_job option \<Rightarrow> recalibration_info \<Rightarrow> recalibration_info" where
  "with_next j info =
     (case j of None \<Rightarrow> info
      | Some n \<Rightarrow> info\<lparr>next_job_id := Some (rj_id n), next_job_enqueued_at := rj_enqueued_at n,
          next_job_status := Some (rj_status n), info_interval := rj_interval n\<rparr>)"

definition info_from_queue :: "'q rq \<Rightarrow> 'q \<Rightarrow> string \<Rightarrow> recalibration_info result" where
  "info_from_queue Q s qn =
     (case get_current_job_on_queue Q s qn of
        Inl e \<Rightarrow> Inl e
      | Inr current \<Rightarrow>
          (case get_previous_job_on_queue Q s qn of
             Inl e \<Rightarrow> Inl e
           | Inr previous \<Rightarrow>
               (case get_next_job_on_queue Q s qn of
                  Inl e \<Rightarrow> Inl e
                | Inr next_job \<Rightarrow>
                    Inr (with_next next_job (with_current current (with_previous previous no_info))))))"

section \<open>Runner queues\<close>

text \<open>The state a runner queue works on: its Redis, with the static queue, and rq.\<close>

record runner_queue =
  q_name :: string
  q_executor :: exec_func

type_synonym ('r, 'q) queues = "'r \<times> 'q"

definition on_redis :: "('a, 'r) prog \<Rightarrow> ('a, ('r, 'q) queues) prog" where
  "on_redis = zoomE fst (\<lambda>r (_, q). (r, q))"

definition on_rq :: "('a, 'q) prog \<Rightarrow> ('a, ('r, 'q) queues) prog" where
  "on_rq = zoomE snd (\<lambda>q (r, _). (r, q))"

definition static_name :: "runner_queue \<Rightarrow> string" where
  "static_name rq = ''__static_'' @ q_name rq"

definition runner_rq_job_id :: "runner_queue \<Rightarrow> string \<Rightarrow> string" where
  "runner_rq_job_id rq jid = q_name rq @ ''_'' @ jid"

text \<open>
  \<open>total_duration\<close>: the estimate of the current job is added when there is one. A job that is
  already complete raises \<open>JobAlreadyCompleteError\<close>, which is not caught.
\<close>

definition runner_total_duration :: "'r store \<Rightarrow> runner_queue \<Rightarrow> int \<Rightarrow> 'r \<Rightarrow> rat result" where
  "runner_total_duration R rq now s =
     (case sq_total_duration R (static_name rq) s of
        Inl e \<Rightarrow> Inl e
      | Inr pending \<Rightarrow>
          (case sq_current_job R (static_name rq) s of
             None \<Rightarrow> Inr pending
           | Some j \<Rightarrow>
               (case current_eta now j of
                  Inl e \<Rightarrow> Inl e
                | Inr None \<Rightarrow> Inr pending
                | Inr (Some eta) \<Rightarrow> Inr (pending + eta))))"

definition runner_enqueue ::
    "'r store \<Rightarrow> 'q rq \<Rightarrow> runner_queue \<Rightarrow> job \<Rightarrow> queue_context \<Rightarrow> call_kwargs
      \<Rightarrow> (string, ('r, 'q) queues) prog" where
  "runner_enqueue R Q rq j ctx kwargs =
     (let rq_id = (case kw_job_id kwargs of None \<Rightarrow> runner_rq_job_id rq (job_id j) | Some i \<Rightarrow> i)
      in thenE (on_redis (sq_add R (static_name rq) j (ctx, kwargs\<lparr>kw_job_id := None\<rparr>)))
           (on_rq (\<lambda>s. let (i, s') = rq_enqueue Q (q_name rq) (Some rq_id)
                                   (RunNext (static_name rq) (q_executor rq)) s
                     in (Inr i, s'))))"

definition runner_cancel_job ::
    "'r store \<Rightarrow> 'q rq \<Rightarrow> runner_queue \<Rightarrow> string \<Rightarrow> storage_id option \<Rightarrow> bool
      \<Rightarrow> (unit, ('r, 'q) queues) prog" where
  "runner_cancel_job R Q rq jid sid ignore_errors =
     thenE
       (case sid of
          None \<Rightarrow> retE ()
        | Some s \<Rightarrow> suppressE (\<lambda>e. e = ValidationError)
            (thenE (on_redis (sq_pop_job R (static_name rq) (SidKey s))) (retE ())))
       (on_rq (cancel_rq_job Q (runner_rq_job_id rq jid) ignore_errors))"

text \<open>
  \<open>_run_next_job\<close>, for the function that the queue's executor path names. Unpacking the \<open>None\<close>
  that an unreadable entry gives raises \<open>TypeError\<close>.
\<close>

definition run_next_job ::
    "'r store \<Rightarrow> ('s \<Rightarrow> 'r) \<Rightarrow> ('r \<Rightarrow> 's \<Rightarrow> 's) \<Rightarrow> string
      \<Rightarrow> (job \<Rightarrow> call_args \<Rightarrow> ('a, 's) prog) \<Rightarrow> ('a, 's) prog" where
  "run_next_job R get put static_queue_name exec_func =
     bindE (zoomE get put (sq_next R static_queue_name)) (\<lambda>popped.
       case popped of
         None \<Rightarrow> raiseE TypeError
       | Some (j, args) \<Rightarrow> exec_func j args)"

section \<open>Facts\<close>

lemma on_redis_eval [prog_simps]: "m r = (x, r') \<Longrightarrow> on_redis m (r, q) = (x, (r', q))"
  by (simp add: on_redis_def zoomE_def)

lemma on_rq_eval [prog_simps]: "m q = (x, q') \<Longrightarrow> on_rq m (r, q) = (x, (r, q'))"
  by (simp add: on_rq_def zoomE_def)

lemma latest_started_fresh:
  "rj_started_at a = None \<Longrightarrow> latest_started (Some a) (Some b) = Inl TypeError"
  by simp

context rq_laws
begin

text \<open>Cancelling by status: what the three outcomes are.\<close>

lemma cancel_rq_job_eval:
  "cancel_rq_job Q i ignore_errors s =
    (case status_of Q s i of
       None \<Rightarrow> (if ignore_errors then Inr () else Inl NoSuchJobError, s)
     | Some Canceled \<Rightarrow> (if ignore_errors then Inr () else Inl InvalidJobOperation, s)
     | Some _ \<Rightarrow> (Inr (), rq_cancel Q i s))"
proof (cases "rq_fetch Q s i")
  case None
  then show ?thesis by (simp add: cancel_rq_job_def fetch_rq_def status_of_def prog_simps)
next
  case (Some job)
  then show ?thesis
    using fetch_id [OF Some]
    by (cases "rj_status job")
      (simp_all add: cancel_rq_job_def fetch_rq_def cancel_fetched_def status_of_def prog_simps)
qed

lemma cancel_rq_job_ignore:
  "\<exists>s'. cancel_rq_job Q i True s = (Inr (), s') \<and>
    (\<forall>i'. status_of Q s' i' = (if i' = i \<and> status_of Q s i \<noteq> None then Some Canceled
      else status_of Q s i'))"
proof (cases "status_of Q s i")
  case (Some st)
  then show ?thesis by (cases st) (auto simp: cancel_rq_job_eval cancel_status)
qed (simp add: cancel_rq_job_eval)

end

text \<open>
  The id under which a task enqueues a job and the id under which the queue cancels it: they are
  never the same, as soon as the queue's name has more than 10 characters.
\<close>

lemma rq_ids_differ:
  assumes "10 < length (q_name rq)"
  shows "runner_rq_job_id rq jid \<noteq> jid @ ''_'' @ stage_name st"
proof -
  have "length (stage_name st) \<le> 10" by (cases st) simp_all
  then have "length (jid @ ''_'' @ stage_name st) < length (runner_rq_job_id rq jid)"
    using assms by (simp add: runner_rq_job_id_def)
  then show ?thesis by auto
qed

section \<open>An in-memory rq\<close>

record mem_rq_state =
  mq_jobs :: "(string \<times> rq_job) list"
  mq_queued :: "string \<Rightarrow> string list"
  mq_scheduled :: "string \<Rightarrow> string list"
  mq_count :: nat

definition mq_empty :: mem_rq_state where
  "mq_empty = \<lparr>mq_jobs = [], mq_queued = (\<lambda>_. []), mq_scheduled = (\<lambda>_. []), mq_count = 0\<rparr>"

definition mq_id :: "string option \<Rightarrow> mem_rq_state \<Rightarrow> string" where
  "mq_id i s = (case i of Some x \<Rightarrow> x | None \<Rightarrow> ''rq_'' @ replicate (mq_count s) (CHR ''i''))"

definition mq_put :: "string \<Rightarrow> rq_status \<Rightarrow> task \<Rightarrow> mem_rq_state \<Rightarrow> mem_rq_state" where
  "mq_put i st t s = s\<lparr>mq_count := Suc (mq_count s),
     mq_jobs := (i, \<lparr>rj_id = i, rj_status = st, rj_task = t, rj_started_at = None,
       rj_ended_at = None, rj_enqueued_at = None, rj_interval = None, rj_result = None\<rparr>) # mq_jobs s\<rparr>"

definition mem_rq :: "mem_rq_state rq" where
  "mem_rq = \<lparr>
     rq_fetch = (\<lambda>s i. map_option (\<lambda>j. j\<lparr>rj_id := i\<rparr>) (map_of (mq_jobs s) i)),
     rq_cancel = (\<lambda>i s. s\<lparr>
       mq_jobs := (case map_of (mq_jobs s) i of None \<Rightarrow> mq_jobs s
                   | Some j \<Rightarrow> (i, j\<lparr>rj_status := Canceled\<rparr>) # mq_jobs s),
       mq_queued := (\<lambda>q. removeAll i (mq_queued s q)),
       mq_scheduled := (\<lambda>q. removeAll i (mq_scheduled s q))\<rparr>),
     rq_enqueue = (\<lambda>q i t s. (mq_id i s, mq_put (mq_id i s) Queued t
       (s\<lparr>mq_queued := (mq_queued s)(q := mq_queued s q @ [mq_id i s])\<rparr>))),
     rq_enqueue_at = (\<lambda>q due i t s. (mq_id i s, mq_put (mq_id i s) Scheduled t
       (s\<lparr>mq_scheduled := (mq_scheduled s)(q := mq_scheduled s q @ [mq_id i s])\<rparr>))),
     rq_enqueue_in = (\<lambda>q after rep i t s. (mq_id i s, mq_put (mq_id i s) Scheduled t
       (s\<lparr>mq_scheduled := (mq_scheduled s)(q := mq_scheduled s q @ [mq_id i s])\<rparr>))),
     rq_set_interval = (\<lambda>i v s. s\<lparr>mq_jobs := (case map_of (mq_jobs s) i of None \<Rightarrow> mq_jobs s
       | Some j \<Rightarrow> (i, j\<lparr>rj_interval := v\<rparr>) # mq_jobs s)\<rparr>),
     rq_queued_ids = mq_queued,
     rq_scheduled_ids = mq_scheduled,
     rq_finished_ids = (\<lambda>_ _. []),
     rq_failed_ids = (\<lambda>_ _. []),
     rq_workers = (\<lambda>_. [])\<rparr>"

interpretation mem_rq: rq_laws mem_rq
  by unfold_locales
    (auto simp: mem_rq_def status_of_def task_of_def mq_put_def mq_id_def split: option.splits)

end
