(* ===== verification/Bookings.thy ===== *)
theory Bookings imports Clock Collection "HOL-Library.Multiset" begin

text \<open>
  The booking service: \<^verbatim>\<open>app/services/booking/models.py\<close> and \<^verbatim>\<open>app/services/booking/service.py\<close>.
  The SQL database is a parameter: a record of the statements the code runs on an opaque state
  \<open>'d\<close>, with what SQL promises of them as the laws of the locale \<open>sql_laws\<close>. A datetime in a row
  is the instant it denotes, since every validator converts it to UTC.
\<close>

section \<open>Models\<close>

record settings =
  MAX_TIME_SLOT_LENGTH :: rat
  MIN_TIME_SLOT_LENGTH :: rat
  MAX_SLOTS_PER_DAY :: nat
  CURRENT_DATE :: "datetime option"

record user =
  u_id :: string
  u_name :: string
  u_email :: string
  u_password :: string
  u_is_admin :: bool

record user_profile =
  p_id :: string
  p_name :: string
  p_email :: string
  p_is_admin :: bool

definition from_user :: "user \<Rightarrow> user_profile" where
  "from_user u = \<lparr>p_id = u_id u, p_name = u_name u, p_email = u_email u, p_is_admin = u_is_admin u\<rparr>"

record new_booking_info =
  i_start_utc :: int
  i_end_utc :: int
  i_total_duration :: rat

record booking =
  b_id :: string
  b_user_id :: "string option"
  b_start_utc :: int
  b_end_utc :: int
  b_start_event_id :: string
  b_end_event_id :: string
  b_idle_timer_id :: string
  b_total_duration :: rat

record bookings_config =
  max_time_slot_length :: rat
  min_time_slot_length :: rat
  max_slots_per_day :: nat
  config_max_idle_time :: int

definition config_from_settings :: "settings \<Rightarrow> int \<Rightarrow> bookings_config" where
  "config_from_settings S idle = \<lparr>max_time_slot_length = MAX_TIME_SLOT_LENGTH S,
     min_time_slot_length = MIN_TIME_SLOT_LENGTH S, max_slots_per_day = MAX_SLOTS_PER_DAY S,
     config_max_idle_time = idle\<rparr>"

text \<open>The validators of \<open>NewBookingInfo\<close>. A second of the past is tolerated.\<close>

definition oldest_allowed :: "settings \<Rightarrow> int \<Rightarrow> int" where
  "oldest_allowed S now =
     instant (get_relative_time 0 (- 1) 0 0 0 0 0 (CURRENT_DATE S) \<lparr>wall = now, tz = UTC\<rparr>)"

definition validate_start_utc :: "settings \<Rightarrow> int \<Rightarrow> datetime \<Rightarrow> int result" where
  "validate_start_utc S now v =
     (let t = instant (to_utc v) in if t < oldest_allowed S now then Inl ValueError else Inr t)"

definition validate_end_utc :: "settings \<Rightarrow> int \<Rightarrow> int option \<Rightarrow> datetime \<Rightarrow> int result" where
  "validate_end_utc S now start v =
     (let t = instant (to_utc v) in
      if (case start of None \<Rightarrow> False | Some s \<Rightarrow> t < s) then Inl ValueError
      else if t < oldest_allowed S now then Inl ValueError
      else Inr t)"

definition validate_total_duration :: "settings \<Rightarrow> int \<Rightarrow> int \<Rightarrow> new_booking_info result" where
  "validate_total_duration S start fin =
     (let d = total_seconds (fin - start) in
      if MAX_TIME_SLOT_LENGTH S < d then Inl ValueError
      else if d < MIN_TIME_SLOT_LENGTH S then Inl ValueError
      else Inr \<lparr>i_start_utc = start, i_end_utc = fin, i_total_duration = d\<rparr>)"

text \<open>Pydantic collects the errors of the validators into one \<open>ValidationError\<close>.\<close>

definition new_booking_info_of :: "settings \<Rightarrow> int \<Rightarrow> datetime \<Rightarrow> datetime \<Rightarrow> new_booking_info result" where
  "new_booking_info_of S now start fin =
     (case validate_start_utc S now start of
        Inl _ \<Rightarrow> Inl ValidationError
      | Inr s \<Rightarrow>
          (case validate_end_utc S now (Some s) fin of
             Inl _ \<Rightarrow> Inl ValidationError
           | Inr e \<Rightarrow>
               (case validate_total_duration S s e of
                  Inl _ \<Rightarrow> Inl ValidationError
                | Inr info \<Rightarrow> Inr info)))"

text \<open>
  The row that \<open>create_booking\<close> adds, and \<open>Booking.model_validate\<close>, which every read goes through:
  the event ids and the duration are computed from the rest.
\<close>

definition booking_row :: "string \<Rightarrow> string \<Rightarrow> new_booking_info \<Rightarrow> booking" where
  "booking_row bid uid info = \<lparr>b_id = bid, b_user_id = Some uid, b_start_utc = i_start_utc info,
     b_end_utc = i_end_utc info, b_start_event_id = [], b_end_event_id = [], b_idle_timer_id = [],
     b_total_duration = i_total_duration info\<rparr>"

definition validate_booking :: "booking \<Rightarrow> booking result" where
  "validate_booking b =
     (if b_end_utc b < b_start_utc b then Inl ValidationError
      else Inr (b\<lparr>b_start_event_id := b_id b @ ''_start_event'',
                  b_end_event_id := b_id b @ ''_end_event'',
                  b_idle_timer_id := b_id b @ ''_idle_timer'',
                  b_total_duration := total_seconds (b_end_utc b - b_start_utc b)\<rparr>))"

definition settings_now :: "settings \<Rightarrow> int \<Rightarrow> int" where
  "settings_now S now = (case CURRENT_DATE S of None \<Rightarrow> now | Some d \<Rightarrow> instant d)"

definition is_active :: "settings \<Rightarrow> int \<Rightarrow> booking \<Rightarrow> bool" where
  "is_active S now b \<longleftrightarrow> b_start_utc b \<le> settings_now S now \<and> settings_now S now \<le> b_end_utc b"

definition is_complete :: "settings \<Rightarrow> int \<Rightarrow> booking \<Rightarrow> bool" where
  "is_complete S now b \<longleftrightarrow> b_end_utc b < settings_now S now"

section \<open>The database\<close>

record 'd db =
  db_bookings :: "'d \<Rightarrow> (booking \<Rightarrow> bool) \<Rightarrow> booking list"
  db_bookings_by_start :: "'d \<Rightarrow> (booking \<Rightarrow> bool) \<Rightarrow> booking list"
  db_add_booking :: "booking \<Rightarrow> 'd \<Rightarrow> unit result \<times> 'd"
  db_delete_bookings :: "(booking \<Rightarrow> bool) \<Rightarrow> 'd \<Rightarrow> 'd"
  db_users :: "'d \<Rightarrow> (user \<Rightarrow> bool) \<Rightarrow> user list"
  db_add_user :: "user \<Rightarrow> 'd \<Rightarrow> unit result \<times> 'd"
  db_delete_users :: "(user \<Rightarrow> bool) \<Rightarrow> 'd \<Rightarrow> 'd"

abbreviation all_bookings :: "'d db \<Rightarrow> 'd \<Rightarrow> booking list" where
  "all_bookings D d \<equiv> db_bookings D d (\<lambda>_. True)"

abbreviation all_users :: "'d db \<Rightarrow> 'd \<Rightarrow> user list" where
  "all_users D d \<equiv> db_users D d (\<lambda>_. True)"

locale sql_laws =
  fixes D :: "'d db"
  assumes select_bookings: "mset (db_bookings D d P) = filter_mset P (mset (all_bookings D d))"
    and select_by_start: "mset (db_bookings_by_start D d P) = filter_mset P (mset (all_bookings D d))"
    and by_start_sorted: "sorted (map b_start_utc (db_bookings_by_start D d P))"
    and add_booking: "b_id b \<notin> b_id ` set (all_bookings D d) \<Longrightarrow> b_user_id b \<in> Some ` u_id ` set (all_users D d) \<Longrightarrow>
      fst (db_add_booking D b d) = Inr () \<and>
      mset (all_bookings D (snd (db_add_booking D b d))) = add_mset b (mset (all_bookings D d))"
    and add_booking_failed: "fst (db_add_booking D b d) = Inl e \<Longrightarrow> snd (db_add_booking D b d) = d"
    and add_booking_done: "fst (db_add_booking D b d) = Inr () \<Longrightarrow>
      mset (all_bookings D (snd (db_add_booking D b d))) = add_mset b (mset (all_bookings D d))"
    and add_booking_users: "all_users D (snd (db_add_booking D b d)) = all_users D d"
    and delete_bookings: "mset (all_bookings D (db_delete_bookings D P d)) =
      filter_mset (\<lambda>b. \<not> P b) (mset (all_bookings D d))"
    and delete_bookings_users: "all_users D (db_delete_bookings D P d) = all_users D d"
    and select_users: "mset (db_users D d Q) = filter_mset Q (mset (all_users D d))"
    and user_ids: "distinct (map u_id (all_users D d))"
    and add_user: "u_id u \<notin> u_id ` set (all_users D d) \<Longrightarrow> u_email u \<notin> u_email ` set (all_users D d) \<Longrightarrow>
      fst (db_add_user D u d) = Inr () \<and>
      mset (all_users D (snd (db_add_user D u d))) = add_mset u (mset (all_users D d))"
    and add_user_duplicate: "u_id u \<in> u_id ` set (all_users D d) \<or> u_email u \<in> u_email ` set (all_users D d) \<Longrightarrow>
      db_add_user D u d = (Inl IntegrityError, d)"
    and delete_users: "mset (all_users D (db_delete_users D Q d)) =
      filter_mset (\<lambda>u. \<not> Q u) (mset (all_users D d))"
    and add_user_bookings: "mset (all_bookings D (snd (db_add_user D u d))) = mset (all_bookings D d)"
    and delete_users_bookings: "\<exists>f. mset (all_bookings D (db_delete_users D Q d)) = image_mset f (mset (all_bookings D d)) \<and>
      (\<forall>b. f b = b \<or> b_user_id b \<in> Some ` u_id ` set (db_users D d Q) \<and> f b = b\<lparr>b_user_id := None\<rparr>)"

text \<open>
  The last law covers both what the column asks for, \<open>ON DELETE SET NULL\<close>, and a database that does
  not enforce foreign keys, as SQLite does not unless it is told to.
\<close>

section \<open>The service\<close>

definition get_overlapping_bookings ::
    "'d db \<Rightarrow> 'd \<Rightarrow> int \<Rightarrow> int \<Rightarrow> (booking \<Rightarrow> bool) \<Rightarrow> nat \<Rightarrow> nat option \<Rightarrow> booking list" where
  "get_overlapping_bookings D d start fin filters skip limit =
     paginate (db_bookings D d (\<lambda>b. b_start_utc b < fin \<and> start < b_end_utc b \<and> filters b)) skip limit"

definition validate_no_overlap :: "'d db \<Rightarrow> new_booking_info \<Rightarrow> (unit, 'd) prog" where
  "validate_no_overlap D info =
     bindE (getE (\<lambda>d. get_overlapping_bookings D d (i_start_utc info) (i_end_utc info) (\<lambda>_. True) 0 (Some 1)))
       (\<lambda>found. if found = [] then retE () else raiseE ConflictError)"

definition validate_max_slots :: "'d db \<Rightarrow> settings \<Rightarrow> string \<Rightarrow> new_booking_info \<Rightarrow> (unit, 'd) prog" where
  "validate_max_slots D S uid info =
     (let (day_start, day_end) = get_day_range \<lparr>wall = i_start_utc info, tz = UTC\<rparr> in
      bindE (getE (\<lambda>d. get_overlapping_bookings D d (instant day_start) (instant day_end)
               (\<lambda>b. b_user_id b = Some uid) 0 None))
        (\<lambda>user_bookings. if MAX_SLOTS_PER_DAY S \<le> length user_bookings then raiseE MaxBookingsError
                         else retE ()))"

definition create_booking ::
    "'d db \<Rightarrow> settings \<Rightarrow> string \<Rightarrow> string \<Rightarrow> new_booking_info \<Rightarrow> (booking, 'd) prog" where
  "create_booking D S fresh_id uid data =
     thenE (validate_no_overlap D data)
       (thenE (validate_max_slots D S uid data)
         (thenE (db_add_booking D (booking_row fresh_id uid data))
           (liftE (validate_booking (booking_row fresh_id uid data)))))"

definition delete_bookings_where :: "'d db \<Rightarrow> (booking \<Rightarrow> bool) \<Rightarrow> (unit, 'd) prog" where
  "delete_bookings_where D filters = modE (db_delete_bookings D filters)"

text \<open>\<open>results.first()\<close>, validated when there is a row.\<close>

definition first_validated :: "booking list \<Rightarrow> booking option result" where
  "first_validated rows =
     (case rows of [] \<Rightarrow> Inr None
      | b # _ \<Rightarrow> (case validate_booking b of Inl e \<Rightarrow> Inl e | Inr v \<Rightarrow> Inr (Some v)))"

definition get_booking :: "'d db \<Rightarrow> (booking \<Rightarrow> bool) \<Rightarrow> (booking option, 'd) prog" where
  "get_booking D filters = bindE (getE (\<lambda>d. db_bookings D d filters)) (\<lambda>rows. liftE (first_validated rows))"

definition get_many_bookings ::
    "'d db \<Rightarrow> (booking \<Rightarrow> bool) \<Rightarrow> nat \<Rightarrow> nat option \<Rightarrow> (booking list, 'd) prog" where
  "get_many_bookings D filters skip limit =
     bindE (getE (\<lambda>d. paginate (db_bookings D d filters) skip limit))
       (\<lambda>rows. liftE (mapM validate_booking rows))"

definition get_active_booking :: "'d db \<Rightarrow> int \<Rightarrow> (booking option, 'd) prog" where
  "get_active_booking D now =
     bindE (getE (\<lambda>d. db_bookings D d (\<lambda>b. b_start_utc b \<le> now \<and> now \<le> b_end_utc b)))
       (\<lambda>rows. liftE (first_validated rows))"

definition get_next_booking :: "'d db \<Rightarrow> int \<Rightarrow> (booking option, 'd) prog" where
  "get_next_booking D now =
     bindE (getE (\<lambda>d. take 1 (db_bookings_by_start D d (\<lambda>b. now \<le> b_start_utc b))))
       (\<lambda>rows. liftE (first_validated rows))"

text \<open>\<open>hash_password\<close> is bcrypt with a fresh salt: a parameter.\<close>

definition create_user :: "'d db \<Rightarrow> (string \<Rightarrow> string) \<Rightarrow> user \<Rightarrow> (user, 'd) prog" where
  "create_user D hash_password data =
     (let u = data\<lparr>u_password := hash_password (u_password data)\<rparr>
      in thenE (db_add_user D u) (retE u))"

definition create_random_user ::
    "'d db \<Rightarrow> (string \<Rightarrow> string) \<Rightarrow> string \<Rightarrow> string \<Rightarrow> string \<Rightarrow> (user, 'd) prog" where
  "create_random_user D hash_password random_name random_password uid =
     create_user D hash_password
       \<lparr>u_id = uid, u_name = ''User-'' @ uid, u_email = uid @ ''@'' @ random_name @ ''.com'',
        u_password = random_password, u_is_admin = False\<rparr>"

definition delete_users_where :: "'d db \<Rightarrow> (user \<Rightarrow> bool) \<Rightarrow> (unit, 'd) prog" where
  "delete_users_where D filters = modE (db_delete_users D filters)"

definition get_user :: "'d db \<Rightarrow> (user \<Rightarrow> bool) \<Rightarrow> (user option, 'd) prog" where
  "get_user D filters =
     getE (\<lambda>d. case db_users D d filters of [] \<Rightarrow> None | u # _ \<Rightarrow> Some u)"

definition get_user_profile :: "'d db \<Rightarrow> string \<Rightarrow> (user_profile, 'd) prog" where
  "get_user_profile D uid =
     bindE (get_user D (\<lambda>u. u_id u = uid)) (\<lambda>found.
       case found of None \<Rightarrow> raiseE ItemNotFoundError | Some u \<Rightarrow> retE (from_user u))"

definition get_many_user_profiles ::
    "'d db \<Rightarrow> (user \<Rightarrow> bool) \<Rightarrow> nat \<Rightarrow> nat option \<Rightarrow> (user_profile list, 'd) prog" where
  "get_many_user_profiles D filters skip limit =
     getE (\<lambda>d. map from_user (paginate (db_users D d filters) skip limit))"

section \<open>What the service keeps true\<close>

text \<open>Two bookings overlap when they share more than an end point.\<close>

definition overlaps :: "booking \<Rightarrow> booking \<Rightarrow> bool" where
  "overlaps a b \<longleftrightarrow> b_start_utc a < b_end_utc b \<and> b_start_utc b < b_end_utc a"

definition disjoint_bookings :: "booking multiset \<Rightarrow> bool" where
  "disjoint_bookings M \<longleftrightarrow> (\<forall>a\<in>#M. \<forall>b\<in>#M - {#a#}. \<not> overlaps a b)"

text \<open>The bookings of a user that start on the day that begins at \<open>day\<close>.\<close>

definition starting_on :: "string \<Rightarrow> int \<Rightarrow> booking \<Rightarrow> bool" where
  "starting_on uid day b \<longleftrightarrow> b_user_id b = Some uid \<and> day \<le> b_start_utc b \<and> b_start_utc b < day + day_us"

definition within_slots :: "settings \<Rightarrow> booking multiset \<Rightarrow> bool" where
  "within_slots S M \<longleftrightarrow> (\<forall>uid day. day mod day_us = 0 \<longrightarrow>
     size (filter_mset (starting_on uid day) M) \<le> MAX_SLOTS_PER_DAY S)"

definition row_ok :: "settings \<Rightarrow> booking \<Rightarrow> bool" where
  "row_ok S b \<longleftrightarrow> b_start_utc b \<le> b_end_utc b \<and>
     MIN_TIME_SLOT_LENGTH S \<le> total_seconds (b_end_utc b - b_start_utc b) \<and>
     total_seconds (b_end_utc b - b_start_utc b) \<le> MAX_TIME_SLOT_LENGTH S"

definition bookings_ok :: "'d db \<Rightarrow> settings \<Rightarrow> 'd \<Rightarrow> bool" where
  "bookings_ok D S d \<longleftrightarrow> disjoint_bookings (mset (all_bookings D d)) \<and>
     within_slots S (mset (all_bookings D d)) \<and> (\<forall>b\<in>set (all_bookings D d). row_ok S b)"

text \<open>What a booking request goes through before it reaches the service.\<close>

definition info_ok :: "settings \<Rightarrow> new_booking_info \<Rightarrow> bool" where
  "info_ok S info \<longleftrightarrow> i_start_utc info \<le> i_end_utc info \<and>
     MIN_TIME_SLOT_LENGTH S \<le> total_seconds (i_end_utc info - i_start_utc info) \<and>
     total_seconds (i_end_utc info - i_start_utc info) \<le> MAX_TIME_SLOT_LENGTH S"

lemma new_booking_info_ok:
  assumes "new_booking_info_of S now start fin = Inr info"
  shows "info_ok S info" "i_start_utc info = instant start" "i_end_utc info = instant fin"
    "i_total_duration info = total_seconds (i_end_utc info - i_start_utc info)"
    "oldest_allowed S now \<le> i_start_utc info"
  using assms
  by (auto simp: new_booking_info_of_def validate_start_utc_def validate_end_utc_def
      validate_total_duration_def info_ok_def Let_def split: sum.splits if_splits)

lemma oldest_allowed_now: "CURRENT_DATE S = None \<Longrightarrow> oldest_allowed S now = now - 1000000"
proof -
  have "timedelta_us 0 (- 1) 0 0 0 0 0 = py_round (of_int (- 1000000))" by (simp add: timedelta_us_def)
  then show "CURRENT_DATE S = None \<Longrightarrow> ?thesis"
    by (simp only: oldest_allowed_def get_relative_time_def Let_def py_round_of_int)
      (simp add: instant_utc)
qed

lemma disjoint_add:
  assumes "disjoint_bookings M" and "\<And>b. b \<in># M \<Longrightarrow> \<not> overlaps r b"
  shows "disjoint_bookings (add_mset r M)"
proof -
  have sym: "overlaps a b \<longleftrightarrow> overlaps b a" for a b by (auto simp: overlaps_def)
  show ?thesis
    unfolding disjoint_bookings_def
  proof (intro ballI)
    fix a b
    assume a: "a \<in># add_mset r M" and b: "b \<in># add_mset r M - {#a#}"
    show "\<not> overlaps a b"
    proof (cases "a = r")
      case True
      with b assms(2) show ?thesis by simp
    next
      case False
      with a have aM: "a \<in># M" by simp
      with False have "add_mset r M - {#a#} = add_mset r (M - {#a#})" by simp
      with b consider "b = r" | "b \<in># M - {#a#}" by auto
      then show ?thesis
        using assms aM sym unfolding disjoint_bookings_def by cases auto
    qed
  qed
qed

lemma disjoint_filter: "disjoint_bookings M \<Longrightarrow> disjoint_bookings (filter_mset P M)"
proof -
  assume d: "disjoint_bookings M"
  have "filter_mset P M - {#a#} \<subseteq># M - {#a#}" for a
    by (intro subset_eq_diff_conv [THEN iffD2]) (meson mset_subset_eq_add_left multiset_filter_subset
        subset_eq_diff_conv subset_mset.order_trans subset_mset.order_refl)
  then show ?thesis
    using d unfolding disjoint_bookings_def by (meson mset_subset_eqD multiset_filter_subset)
qed

lemma within_filter:
  assumes "within_slots S M"
  shows "within_slots S (filter_mset P M)"
  unfolding within_slots_def
proof (intro allI impI)
  fix uid day :: _
  assume "day mod day_us = 0"
  have "filter_mset (starting_on uid day) (filter_mset P M) \<subseteq># filter_mset (starting_on uid day) M"
    by (intro multiset_filter_mono multiset_filter_subset)
  then have "size (filter_mset (starting_on uid day) (filter_mset P M)) \<le> size (filter_mset (starting_on uid day) M)"
    by (rule size_mset_mono)
  with assms \<open>day mod day_us = 0\<close> show "size (filter_mset (starting_on uid day) (filter_mset P M)) \<le> MAX_SLOTS_PER_DAY S"
    unfolding within_slots_def by (meson le_trans)
qed

text \<open>The day of a booking, and the count that the service looks at.\<close>

lemma day_of_start:
  assumes "day mod day_us = 0" and "day \<le> t" "t < day + day_us"
  shows "instant (fst (get_day_range \<lparr>wall = t, tz = UTC\<rparr>)) = day"
    "instant (snd (get_day_range \<lparr>wall = t, tz = UTC\<rparr>)) = day + day_us"
proof -
  have "t mod day_us = t - day"
  proof -
    have "(t - day) mod day_us = t mod day_us" using assms(1) by (simp add: mod_diff_eq [symmetric, of t day])
    moreover have "(t - day) mod day_us = t - day" using assms(2,3) by simp
    ultimately show ?thesis by simp
  qed
  then show "instant (fst (get_day_range \<lparr>wall = t, tz = UTC\<rparr>)) = day"
    "instant (snd (get_day_range \<lparr>wall = t, tz = UTC\<rparr>)) = day + day_us"
    unfolding get_day_range_instants by (simp_all add: instant_utc)
qed

context sql_laws
begin

lemma select_set: "set (db_bookings D d P) = {b \<in> set (all_bookings D d). P b}"
proof -
  have "set_mset (mset (db_bookings D d P)) = {b \<in> set (all_bookings D d). P b}"
    by (simp add: select_bookings [of d P])
  then show ?thesis by simp
qed

lemma select_length: "length (db_bookings D d P) = size (filter_mset P (mset (all_bookings D d)))"
  using arg_cong [OF select_bookings [of d P], of size] by simp

lemma by_start_set: "set (db_bookings_by_start D d P) = {b \<in> set (all_bookings D d). P b}"
proof -
  have "set_mset (mset (db_bookings_by_start D d P)) = {b \<in> set (all_bookings D d). P b}"
    by (simp add: select_by_start [of d P])
  then show ?thesis by simp
qed

lemma select_users_set: "set (db_users D d Q) = {u \<in> set (all_users D d). Q u}"
proof -
  have "set_mset (mset (db_users D d Q)) = {u \<in> set (all_users D d). Q u}"
    by (simp add: select_users [of d Q])
  then show ?thesis by simp
qed

lemma no_overlap_eval:
  "validate_no_overlap D info d =
    (if \<exists>b\<in>set (all_bookings D d). b_start_utc b < i_end_utc info \<and> i_start_utc info < b_end_utc b
     then Inl ConflictError else Inr (), d)"
proof -
  have "take 1 xs = [] \<longleftrightarrow> xs = []" for xs :: "booking list" by (cases xs) auto
  then have "get_overlapping_bookings D d (i_start_utc info) (i_end_utc info) (\<lambda>_. True) 0 (Some 1) = [] \<longleftrightarrow>
      set (db_bookings D d (\<lambda>b. b_start_utc b < i_end_utc info \<and> i_start_utc info < b_end_utc b)) = {}"
    by (simp add: get_overlapping_bookings_def paginate_def)
  then show ?thesis
    by (auto simp: validate_no_overlap_def prog_simps select_set [of d "\<lambda>b. b_start_utc b < i_end_utc info \<and> i_start_utc info < b_end_utc b"])
qed

lemma max_slots_eval:
  "validate_max_slots D S uid info d =
    (let (day_start, day_end) = get_day_range \<lparr>wall = i_start_utc info, tz = UTC\<rparr> in
     if MAX_SLOTS_PER_DAY S \<le> size (filter_mset
         (\<lambda>b. b_start_utc b < instant day_end \<and> instant day_start < b_end_utc b \<and> b_user_id b = Some uid)
         (mset (all_bookings D d)))
     then Inl MaxBookingsError else Inr (), d)"
  by (simp add: validate_max_slots_def Let_def split_beta prog_simps get_overlapping_bookings_def
      select_length)

text \<open>A created booking: what was checked, and what is in the database afterwards.\<close>

lemma create_booking_done:
  assumes "create_booking D S i uid info d = (Inr b, d')"
  shows "\<forall>c\<in>set (all_bookings D d). \<not> (b_start_utc c < i_end_utc info \<and> i_start_utc info < b_end_utc c)"
    and "mset (all_bookings D d') = add_mset (booking_row i uid info) (mset (all_bookings D d))"
    and "validate_booking (booking_row i uid info) = Inr b"
    and "fst (validate_max_slots D S uid info d) = Inr ()"
proof -
  have no: "validate_no_overlap D info d = (Inr (), d)"
    using assms by (auto simp: create_booking_def thenE_def bindE_result no_overlap_eval split: if_splits)
  then show "\<forall>c\<in>set (all_bookings D d). \<not> (b_start_utc c < i_end_utc info \<and> i_start_utc info < b_end_utc c)"
    by (auto simp: no_overlap_eval split: if_splits)
  obtain r where r: "validate_max_slots D S uid info d = (r, d)" by (simp add: max_slots_eval split_beta Let_def)
  with no assms have ok: "r = Inr ()"
    by (cases r) (auto simp: create_booking_def prog_simps)
  with r show "fst (validate_max_slots D S uid info d) = Inr ()" by simp
  obtain q d1 where q: "db_add_booking D (booking_row i uid info) d = (q, d1)"
    by (cases "db_add_booking D (booking_row i uid info) d")
  with no r ok assms have "q = Inr ()" "d' = d1" "validate_booking (booking_row i uid info) = Inr b"
    by (cases q; auto simp: create_booking_def prog_simps)+
  with q add_booking_done [of "booking_row i uid info" d]
  show "mset (all_bookings D d') = add_mset (booking_row i uid info) (mset (all_bookings D d))"
    "validate_booking (booking_row i uid info) = Inr b" by simp_all
qed

lemma create_booking_raised:
  assumes "create_booking D S i uid info d = (Inl e, d')" and "i_start_utc info \<le> i_end_utc info"
  shows "d' = d"
proof -
  obtain r where no: "validate_no_overlap D info d = (r, d)" by (simp add: no_overlap_eval)
  obtain q where sl: "validate_max_slots D S uid info d = (q, d)"
    by (simp add: max_slots_eval split_beta Let_def)
  obtain p d1 where ad: "db_add_booking D (booking_row i uid info) d = (p, d1)"
    by (cases "db_add_booking D (booking_row i uid info) d")
  have "d1 = d" if "p = Inl x" for x using add_booking_failed [of "booking_row i uid info" d x] ad that by simp
  moreover have "\<exists>v. validate_booking (booking_row i uid info) = Inr v"
    using assms(2) by (simp add: validate_booking_def booking_row_def)
  ultimately show ?thesis
    using assms no sl ad by (cases r; cases q; cases p) (auto simp: create_booking_def prog_simps)
qed

lemma create_booking_keeps:
  assumes ok: "bookings_ok D S d" and info: "info_ok S info" and pos: "0 < MIN_TIME_SLOT_LENGTH S"
    and run: "create_booking D S i uid info d = (r, d')"
  shows "bookings_ok D S d'"
proof (cases r)
  case (Inl e)
  then show ?thesis
    using create_booking_raised run info ok by (metis info_ok_def)
next
  case (Inr b)
  note made = create_booking_done [OF run [unfolded Inr]]
  let ?row = "booking_row i uid info" and ?M = "mset (all_bookings D d)"
  have "disjoint_bookings (add_mset ?row ?M)"
    using ok made(1) by (intro disjoint_add) (auto simp: bookings_ok_def overlaps_def booking_row_def)
  moreover have "within_slots S (add_mset ?row ?M)"
    unfolding within_slots_def
  proof (intro allI impI)
    fix u day
    assume day: "day mod day_us = 0"
    let ?K = "filter_mset (starting_on u day)"
    have old: "size (?K ?M) \<le> MAX_SLOTS_PER_DAY S"
      using ok day by (simp add: bookings_ok_def within_slots_def)
    show "size (?K (add_mset ?row ?M)) \<le> MAX_SLOTS_PER_DAY S"
    proof (cases "starting_on u day ?row")
      case True
      then have u: "u = uid" and t: "day \<le> i_start_utc info" "i_start_utc info < day + day_us"
        by (simp_all add: starting_on_def booking_row_def)
      let ?Q = "\<lambda>b. b_start_utc b < day + day_us \<and> day < b_end_utc b \<and> b_user_id b = Some uid"
      have lt: "size (filter_mset ?Q ?M) < MAX_SLOTS_PER_DAY S"
        using made(4) day_of_start [OF day t] by (simp add: max_slots_eval split_beta Let_def split: if_splits)
      have "?Q b" if "b \<in># ?M" "starting_on u day b" for b
      proof -
        have "0 < total_seconds (b_end_utc b - b_start_utc b)"
          using that(1) ok pos by (fastforce simp: bookings_ok_def row_ok_def)
        then have "b_start_utc b < b_end_utc b" by (simp add: total_seconds_def)
        with that(2) u show ?thesis by (simp add: starting_on_def)
      qed
      then have "?K ?M \<subseteq># filter_mset ?Q ?M"
        by (intro filter_mset_mono_strong) auto
      then have "size (?K ?M) \<le> size (filter_mset ?Q ?M)" by (rule size_mset_mono)
      with lt True show ?thesis by simp
    next
      case False
      with old show ?thesis by simp
    qed
  qed
  moreover have "set (all_bookings D d') = insert ?row (set (all_bookings D d))"
    using arg_cong [OF made(2), of set_mset] by simp
  moreover have "row_ok S ?row" using info by (simp add: row_ok_def info_ok_def booking_row_def)
  ultimately show ?thesis
    using ok made(2) by (simp add: bookings_ok_def)
qed

lemma delete_bookings_keeps:
  assumes "bookings_ok D S d"
  shows "bookings_ok D S (snd (delete_bookings_where D P d))"
proof -
  have "set (all_bookings D (db_delete_bookings D P d)) \<subseteq> set (all_bookings D d)"
    using arg_cong [OF delete_bookings [of P d], of set_mset] by auto
  then show ?thesis
    using assms by (auto simp: bookings_ok_def delete_bookings_where_def prog_simps delete_bookings
        disjoint_filter within_filter)
qed

lemma disjoint_image:
  assumes "disjoint_bookings M" and "\<And>b. b_start_utc (f b) = b_start_utc b" "\<And>b. b_end_utc (f b) = b_end_utc b"
  shows "disjoint_bookings (image_mset f M)"
  unfolding disjoint_bookings_def
proof (intro ballI)
  fix a b
  assume a: "a \<in># image_mset f M" and b: "b \<in># image_mset f M - {#a#}"
  then obtain x where x: "x \<in># M" "a = f x" by auto
  then have "image_mset f M - {#a#} = image_mset f (M - {#x#})" by (simp add: image_mset_Diff)
  with b obtain y where "y \<in># M - {#x#}" "b = f y" by auto
  with assms(1) x have "\<not> overlaps x y" by (auto simp: disjoint_bookings_def)
  with \<open>b = f y\<close> x(2) assms(2,3) show "\<not> overlaps a b" by (simp add: overlaps_def)
qed

lemma within_image:
  assumes "within_slots S M" and "\<And>b uid day. starting_on uid day (f b) \<Longrightarrow> starting_on uid day b"
  shows "within_slots S (image_mset f M)"
  unfolding within_slots_def
proof (intro allI impI)
  fix uid and day :: int
  assume day: "day mod day_us = 0"
  have "size (filter_mset (starting_on uid day) (image_mset f M)) = size (filter_mset (\<lambda>b. starting_on uid day (f b)) M)"
    by (simp add: filter_mset_image_mset)
  also have "\<dots> \<le> size (filter_mset (starting_on uid day) M)"
  proof -
    have "filter_mset (\<lambda>b. starting_on uid day (f b)) M =
        filter_mset (\<lambda>b. starting_on uid day (f b)) (filter_mset (starting_on uid day) M)"
      using assms(2) by (auto simp: filter_filter_mset intro!: filter_mset_cong)
    then show ?thesis by (metis size_filter_mset_lesseq)
  qed
  also have "\<dots> \<le> MAX_SLOTS_PER_DAY S" using assms(1) day by (simp add: within_slots_def)
  finally show "size (filter_mset (starting_on uid day) (image_mset f M)) \<le> MAX_SLOTS_PER_DAY S" .
qed

text \<open>A booking may lose its user, which leaves its time and takes it off the user's slots.\<close>

lemma delete_users_keeps:
  assumes "bookings_ok D S d"
  shows "bookings_ok D S (snd (delete_users_where D Q d))"
proof -
  obtain f where f: "mset (all_bookings D (db_delete_users D Q d)) = image_mset f (mset (all_bookings D d))"
    "\<And>b. f b = b \<or> f b = b\<lparr>b_user_id := None\<rparr>"
    using delete_users_bookings [of Q d] by blast
  have same: "b_start_utc (f b) = b_start_utc b" "b_end_utc (f b) = b_end_utc b" for b
    using f(2) [of b] by auto
  have starts: "starting_on uid day (f b) \<Longrightarrow> starting_on uid day b" for uid day b
    using f(2) [of b] by (auto simp: starting_on_def)
  have "set (all_bookings D (db_delete_users D Q d)) = f ` set (all_bookings D d)"
    using arg_cong [OF f(1), of set_mset] by simp
  then show ?thesis
    using assms disjoint_image [OF _ same] within_image [OF _ starts]
    by (auto simp: bookings_ok_def delete_users_where_def prog_simps f(1) row_ok_def same)
qed

lemma create_user_keeps:
  assumes "bookings_ok D S d"
  shows "bookings_ok D S (snd (create_user D hash_password u d))"
proof -
  have "set (all_bookings D (snd (db_add_user D v d))) = set (all_bookings D d)" for v
    using arg_cong [OF add_user_bookings [of v d], of set_mset] by simp
  then have "bookings_ok D S (snd (db_add_user D v d))" for v
    using assms by (simp add: bookings_ok_def add_user_bookings)
  moreover have "snd (create_user D hash_password u d) =
      snd (db_add_user D (u\<lparr>u_password := hash_password (u_password u)\<rparr>) d)"
    by (auto simp: create_user_def Let_def thenE_def bindE_def retE_def split: sum.splits prod.splits)
  ultimately show ?thesis by metis
qed

lemma validate_row: "row_ok S b \<Longrightarrow> \<exists>v. validate_booking b = Inr v \<and> b_id v = b_id b \<and>
    b_start_utc v = b_start_utc b \<and> b_end_utc v = b_end_utc b \<and> b_user_id v = b_user_id b \<and>
    b_total_duration v = total_seconds (b_end_utc b - b_start_utc b)"
  by (simp add: validate_booking_def row_ok_def)

lemma first_validated_row:
  assumes "\<forall>b\<in>set rows. row_ok S b"
  shows "case first_validated rows of
      Inl e \<Rightarrow> False
    | Inr None \<Rightarrow> rows = []
    | Inr (Some v) \<Rightarrow> \<exists>b\<in>set rows. validate_booking b = Inr v \<and> b = hd rows"
proof (cases rows)
  case (Cons b bs)
  then obtain v where "validate_booking b = Inr v" using assms validate_row by force
  with Cons show ?thesis by (simp add: first_validated_def)
qed (simp add: first_validated_def)

lemma get_next_booking_eval:
  assumes ok: "bookings_ok D S d"
  shows "\<exists>r. get_next_booking D now d = (Inr r, d) \<and>
    (case r of
       None \<Rightarrow> \<forall>b\<in>set (all_bookings D d). b_start_utc b < now
     | Some v \<Rightarrow> (\<exists>b\<in>set (all_bookings D d). validate_booking b = Inr v) \<and> now \<le> b_start_utc v \<and>
         (\<forall>b\<in>set (all_bookings D d). now \<le> b_start_utc b \<longrightarrow> b_start_utc v \<le> b_start_utc b))"
proof -
  let ?P = "\<lambda>b. now \<le> b_start_utc b"
  let ?rows = "db_bookings_by_start D d ?P"
  have set: "set ?rows = {b \<in> set (all_bookings D d). ?P b}" by (rule by_start_set)
  show ?thesis
  proof (cases ?rows)
    case Nil
    with set have "\<forall>b\<in>set (all_bookings D d). b_start_utc b < now" by force
    with Nil show ?thesis by (simp add: get_next_booking_def prog_simps first_validated_def)
  next
    case (Cons b bs)
    then have b: "b \<in> set (all_bookings D d)" "now \<le> b_start_utc b" using set by auto
    with ok obtain v where v: "validate_booking b = Inr v" "b_start_utc v = b_start_utc b"
      using validate_row [of S b] by (auto simp: bookings_ok_def)
    have "\<forall>c\<in>set ?rows. b_start_utc b \<le> b_start_utc c"
      using by_start_sorted [of d ?P] Cons by auto
    with set b v have "\<forall>c\<in>set (all_bookings D d). now \<le> b_start_utc c \<longrightarrow> b_start_utc v \<le> b_start_utc c"
      by auto
    with b v Cons show ?thesis
      by (intro exI [of _ "Some v"]) (auto simp: get_next_booking_def prog_simps first_validated_def)
  qed
qed

lemma get_active_booking_eval:
  assumes ok: "bookings_ok D S d"
  shows "\<exists>r. get_active_booking D now d = (Inr r, d) \<and>
    (case r of
       None \<Rightarrow> \<forall>b\<in>set (all_bookings D d). \<not> (b_start_utc b \<le> now \<and> now \<le> b_end_utc b)
     | Some v \<Rightarrow> (\<exists>b\<in>set (all_bookings D d). validate_booking b = Inr v) \<and>
         b_start_utc v \<le> now \<and> now \<le> b_end_utc v)"
proof -
  let ?P = "\<lambda>b. b_start_utc b \<le> now \<and> now \<le> b_end_utc b"
  have set: "set (db_bookings D d ?P) = {b \<in> set (all_bookings D d). ?P b}" by (rule select_set)
  show ?thesis
  proof (cases "db_bookings D d ?P")
    case Nil
    with set have "\<forall>b\<in>set (all_bookings D d). \<not> ?P b" by force
    with Nil show ?thesis by (simp add: get_active_booking_def prog_simps first_validated_def)
  next
    case (Cons b bs)
    then have b: "b \<in> set (all_bookings D d)" "?P b" using set by auto
    with ok obtain v where "validate_booking b = Inr v" "b_start_utc v = b_start_utc b"
      "b_end_utc v = b_end_utc b"
      using validate_row [of S b] by (auto simp: bookings_ok_def)
    with b Cons show ?thesis
      by (intro exI [of _ "Some v"]) (auto simp: get_active_booking_def prog_simps first_validated_def)
  qed
qed

text \<open>A booking looked up by its id.\<close>

lemma get_booking_eval:
  assumes ok: "bookings_ok D S d"
  shows "\<exists>r. get_booking D P d = (Inr r, d) \<and>
    (case r of
       None \<Rightarrow> \<forall>b\<in>set (all_bookings D d). \<not> P b
     | Some v \<Rightarrow> \<exists>b\<in>set (all_bookings D d). P b \<and> validate_booking b = Inr v)"
proof (cases "db_bookings D d P")
  case Nil
  with select_set [of d P] have "\<forall>b\<in>set (all_bookings D d). \<not> P b" by force
  with Nil show ?thesis by (simp add: get_booking_def prog_simps first_validated_def)
next
  case (Cons b bs)
  then have b: "b \<in> set (all_bookings D d)" "P b" using select_set [of d P] by auto
  with ok obtain v where "validate_booking b = Inr v"
    using validate_row [of S b] by (auto simp: bookings_ok_def)
  with b Cons show ?thesis
    by (intro exI [of _ "Some v"]) (auto simp: get_booking_def prog_simps first_validated_def)
qed

lemma get_user_eval:
  "\<exists>r. get_user D (\<lambda>u. u_id u = uid) d = (Inr r, d) \<and>
    (case r of None \<Rightarrow> uid \<notin> u_id ` set (all_users D d)
     | Some u \<Rightarrow> u \<in> set (all_users D d) \<and> u_id u = uid)"
proof (cases "db_users D d (\<lambda>u. u_id u = uid)")
  case Nil
  with select_users_set [of d "\<lambda>u. u_id u = uid"] have "uid \<notin> u_id ` set (all_users D d)" by force
  with Nil show ?thesis by (simp add: get_user_def prog_simps)
next
  case (Cons u us)
  with select_users_set [of d "\<lambda>u. u_id u = uid"] have "u \<in> set (all_users D d)" "u_id u = uid" by auto
  with Cons show ?thesis by (simp add: get_user_def prog_simps)
qed

end

section \<open>Every state the service reaches\<close>

text \<open>
  The service's own changes to the database: a validated request is created or refused, bookings
  are deleted, users are created or deleted. The bookings of a fresh database stay disjoint and within the daily limit.
\<close>

inductive booking_step :: "'d db \<Rightarrow> settings \<Rightarrow> 'd \<Rightarrow> 'd \<Rightarrow> bool" for D :: "'d db" and S :: settings where
  create: "new_booking_info_of S now start fin = Inr info \<Longrightarrow>
    booking_step D S d (snd (create_booking D S i uid info d))"
| delete: "booking_step D S d (snd (delete_bookings_where D P d))"
| new_user: "booking_step D S d (snd (create_user D hash_password u d))"
| delete_user: "booking_step D S d (snd (delete_users_where D Q d))"

inductive_cases booking_stepE: "booking_step D S d d'"

lemma empty_bookings_ok: "all_bookings D d = [] \<Longrightarrow> bookings_ok D S d"
  by (simp add: bookings_ok_def disjoint_bookings_def within_slots_def)

context sql_laws
begin

lemma booking_step_keeps:
  assumes "booking_step D S d d'" and "bookings_ok D S d" and "0 < MIN_TIME_SLOT_LENGTH S"
  shows "bookings_ok D S d'"
  using assms
proof (cases rule: booking_step.cases)
  case (create now start fin info i uid)
  then show ?thesis
    using create_booking_keeps [OF assms(2) new_booking_info_ok(1) assms(3)] by (metis prod.collapse)
next
  case (delete P)
  then show ?thesis using delete_bookings_keeps [OF assms(2)] by simp
next
  case (new_user hash_password u)
  then show ?thesis using create_user_keeps [OF assms(2)] by simp
next
  case (delete_user Q)
  then show ?thesis using delete_users_keeps [OF assms(2)] by simp
qed

lemma booking_steps_keep:
  assumes "(booking_step D S)\<^sup>*\<^sup>* d d'" and "bookings_ok D S d" and "0 < MIN_TIME_SLOT_LENGTH S"
  shows "bookings_ok D S d'"
  using assms by (induction rule: rtranclp_induct) (auto intro: booking_step_keeps)

end

section \<open>An in-memory database\<close>

fun uniq_users :: "user list \<Rightarrow> user list" where
  "uniq_users [] = []"
| "uniq_users (u # us) = u # filter (\<lambda>v. u_id v \<noteq> u_id u) (uniq_users us)"

type_synonym mem_db_state = "booking list \<times> user list"

definition mem_db :: "mem_db_state db" where
  "mem_db = \<lparr>
     db_bookings = (\<lambda>(bs, us) P. filter P bs),
     db_bookings_by_start = (\<lambda>(bs, us) P. sort_key b_start_utc (filter P bs)),
     db_add_booking = (\<lambda>b (bs, us). if b_id b \<in> b_id ` set bs then (Inl IntegrityError, (bs, us))
        else (Inr (), (bs @ [b], us))),
     db_delete_bookings = (\<lambda>P (bs, us). (filter (\<lambda>b. \<not> P b) bs, us)),
     db_users = (\<lambda>(bs, us) Q. filter Q (uniq_users us)),
     db_add_user = (\<lambda>u (bs, us).
        if u_id u \<in> u_id ` set (uniq_users us) \<or> u_email u \<in> u_email ` set (uniq_users us)
        then (Inl IntegrityError, (bs, us)) else (Inr (), (bs, u # us))),
     db_delete_users = (\<lambda>Q (bs, us).
       (map (\<lambda>b. if b_user_id b \<in> Some ` u_id ` set (filter Q (uniq_users us)) then b\<lparr>b_user_id := None\<rparr> else b) bs,
        filter (\<lambda>u. \<not> Q u) (uniq_users us)))\<rparr>"

lemma uniq_users_distinct: "distinct (map u_id (uniq_users us))"
  by (induction us) (auto simp: distinct_map_filter)

lemma uniq_users_id: "distinct (map u_id us) \<Longrightarrow> uniq_users us = us"
proof (induction us)
  case (Cons u us)
  then have "filter (\<lambda>v. u_id v \<noteq> u_id u) us = us" by (auto simp: filter_id_conv) (metis image_eqI)
  with Cons show ?case by simp
qed simp

lemma uniq_users_filter: "uniq_users (filter P (uniq_users us)) = filter P (uniq_users us)"
  by (intro uniq_users_id distinct_map_filter uniq_users_distinct)

interpretation mem_db: sql_laws mem_db
proof (unfold_locales, goal_cases)
  case (12 u d)
  obtain bs us where d: "d = (bs, us)" by (cases d)
  have "filter (\<lambda>v. u_id v \<noteq> u_id u) (uniq_users us) = uniq_users us"
    using 12(1) d by (auto simp: mem_db_def filter_id_conv) (metis image_eqI)
  with 12 d show ?case by (auto simp: mem_db_def)
qed (auto simp: mem_db_def uniq_users_filter uniq_users_distinct split: prod.splits if_splits)

end
