(* ===== verification/Py_Values.thy ===== *)
theory Py_Values imports Prelude Py_String "HOL-Library.AList" begin

text \<open>
  The pieces of Python that the executors use: lists read with an index that may be negative,
  dictionaries in the order of their keys, loops that collect, and decimal integers as text.
\<close>

section \<open>Lists, dictionaries and loops\<close>

text \<open>\<open>xs[i]\<close>: a negative index counts from the end.\<close>

definition py_at :: "'a list \<Rightarrow> int \<Rightarrow> 'a result" where
  "py_at xs i =
     (let n = int (length xs); k = (if i < 0 then n + i else i) in
      if 0 \<le> k \<and> k < n then Inr (xs ! nat k) else Inl IndexError)"

text \<open>\<open>d[k]\<close>.\<close>

definition dict_get :: "('k \<times> 'v) list \<Rightarrow> 'k \<Rightarrow> 'v result" where
  "dict_get d k = (case map_of d k of None \<Rightarrow> Inl KeyError | Some v \<Rightarrow> Inr v)"

text \<open>A comprehension \<open>{k: v for ...}\<close>: a later value replaces an earlier one, in its place.\<close>

definition dict_of :: "('k \<times> 'v) list \<Rightarrow> ('k \<times> 'v) list" where
  "dict_of kvs = foldl (\<lambda>d (k, v). AList.update k v d) [] kvs"

text \<open>An attribute that the object may not have.\<close>

definition attr :: "'a option \<Rightarrow> 'a result" where
  "attr x = (case x of None \<Rightarrow> Inl AttributeError | Some v \<Rightarrow> Inr v)"

primrec mapE :: "('a \<Rightarrow> ('b, 's) prog) \<Rightarrow> 'a list \<Rightarrow> ('b list, 's) prog" where
  "mapE f [] = retE []"
| "mapE f (x # xs) = bindE (f x) (\<lambda>y. bindE (mapE f xs) (\<lambda>ys. retE (y # ys)))"

text \<open>The same without a state: the first exception ends it.\<close>

primrec map_result :: "('a \<Rightarrow> 'b result) \<Rightarrow> 'a list \<Rightarrow> 'b list result" where
  "map_result f [] = Inr []"
| "map_result f (x # xs) =
     (case f x of Inl e \<Rightarrow> Inl e
      | Inr y \<Rightarrow> (case map_result f xs of Inl e \<Rightarrow> Inl e | Inr ys \<Rightarrow> Inr (y # ys)))"

definition bind_result :: "'a result \<Rightarrow> ('a \<Rightarrow> 'b result) \<Rightarrow> 'b result" where
  "bind_result r f = (case r of Inl e \<Rightarrow> Inl e | Inr x \<Rightarrow> f x)"

section \<open>Decimal integers\<close>

definition dec_value :: "char \<Rightarrow> nat option" where
  "dec_value c = (let n = of_char c :: nat in if 48 \<le> n \<and> n \<le> 57 then Some (n - 48) else None)"

text \<open>\<open>int(text)\<close>: white space around, a sign, digits with single underscores between them.\<close>

fun dec_digits :: "string \<Rightarrow> int \<Rightarrow> int option" where
  "dec_digits [] acc = Some acc"
| "dec_digits (c # cs) acc =
     (case dec_value c of
        Some d \<Rightarrow> dec_digits cs (10 * acc + int d)
      | None \<Rightarrow>
          (case cs of
             d # _ \<Rightarrow> if c = CHR ''_'' \<and> dec_value d \<noteq> None then dec_digits cs acc else None
           | [] \<Rightarrow> None))"

fun dec_number :: "string \<Rightarrow> int option" where
  "dec_number [] = None"
| "dec_number (c # cs) = (if dec_value c = None then None else dec_digits (c # cs) 0)"

definition int_of_text :: "string \<Rightarrow> int result" where
  "int_of_text s =
     (case (case strip s of
              [] \<Rightarrow> None
            | c # cs \<Rightarrow> if c = CHR ''-'' then map_option uminus (dec_number cs)
                        else if c = CHR ''+'' then dec_number cs else dec_number (c # cs))
      of None \<Rightarrow> Inl ValueError | Some n \<Rightarrow> Inr n)"

text \<open>\<open>str(n)\<close> of a natural number.\<close>

fun nat_text :: "nat \<Rightarrow> string" where
  "nat_text n = (if n < 10 then [char_of (48 + n)] else nat_text (n div 10) @ [char_of (48 + n mod 10)])"

declare nat_text.simps [simp del]

definition lstrip_char :: "char \<Rightarrow> string \<Rightarrow> string" where
  "lstrip_char c s = dropWhile (\<lambda>x. x = c) s"

section \<open>Facts\<close>

lemma py_at_nat: "py_at xs (int i) = (if i < length xs then Inr (xs ! i) else Inl IndexError)"
  by (simp add: py_at_def)

lemma py_at_last [simp]: "py_at [] (- 1) = Inl IndexError"
  by (simp add: py_at_def)

lemma attr_simps [simp]: "attr None = Inl AttributeError" "attr (Some v) = Inr v"
  by (simp_all add: attr_def)

lemma bind_result_simps [simp]: "bind_result (Inl e) f = Inl e" "bind_result (Inr x) f = f x"
  by (simp_all add: bind_result_def)

lemma map_result_Inr: "map_result f xs = Inr ys \<longleftrightarrow> list_all2 (\<lambda>x y. f x = Inr y) xs ys"
proof (induction xs arbitrary: ys)
  case (Cons x xs)
  then show ?case
    by (cases ys; cases "f x"; cases "map_result f xs") (auto split: sum.splits)
qed auto

lemma dec_value_digit: "d < 10 \<Longrightarrow> dec_value (char_of (48 + d)) = Some d"
  by (simp add: dec_value_def)

lemma dec_digits_snoc:
  "\<forall>c\<in>set cs. dec_value c \<noteq> None \<Longrightarrow>
   dec_digits (cs @ ds) acc = dec_digits ds (foldl (\<lambda>a c. 10 * a + int (the (dec_value c))) acc cs)"
  by (induction cs arbitrary: acc) auto

lemma nat_text_digits: "\<forall>c\<in>set (nat_text n). dec_value c \<noteq> None"
proof (induction n rule: nat_text.induct)
  case (1 n)
  have "dec_value (char_of (48 + n mod 10)) \<noteq> None" "n < 10 \<Longrightarrow> dec_value (char_of (48 + n)) \<noteq> None"
    using dec_value_digit [of "n mod 10"] dec_value_digit [of n] by auto
  with 1 show ?case by (subst nat_text.simps) auto
qed

lemma nat_text_value:
  "foldl (\<lambda>a c. 10 * a + int (the (dec_value c))) 0 (nat_text n) = int n"
proof (induction n rule: nat_text.induct)
  case (1 n)
  show ?case
  proof (cases "n < 10")
    case True
    then show ?thesis by (simp add: nat_text.simps [of n] dec_value_digit)
  next
    case False
    have "int (n mod 10) = int n mod 10" "int (n div 10) = int n div 10" by (simp_all add: zmod_int zdiv_int)
    with False 1 show ?thesis
      by (simp add: nat_text.simps [of n] dec_value_digit)
  qed
qed

lemma nat_text_ne: "nat_text n \<noteq> []"
  by (subst nat_text.simps) simp

lemma dec_value_plain:
  assumes "dec_value c \<noteq> None"
  shows "\<not> py_space c" "c \<noteq> CHR ''-''" "c \<noteq> CHR ''+''"
  using assms by (auto simp: dec_value_def py_space_def split: if_splits)

lemma strip_plain:
  assumes "\<forall>c\<in>set t. \<not> py_space c"
  shows "strip t = t"
proof -
  have d: "dropWhile py_space s = s" if "\<forall>c\<in>set s. \<not> py_space c" for s
    using that by (cases s) simp_all
  show ?thesis using d [of t] d [of "rev t"] assms by (simp add: strip_def)
qed

lemma int_of_nat_text [simp]: "int_of_text (nat_text n) = Inr (int n)"
proof -
  have "strip (nat_text n) = nat_text n"
    using nat_text_digits dec_value_plain(1) by (intro strip_plain) blast
  moreover obtain c cs where c: "nat_text n = c # cs" using nat_text_ne by (cases "nat_text n") auto
  moreover have "dec_value c \<noteq> None" using nat_text_digits [of n] c by simp
  moreover from this have "c \<noteq> CHR ''-''" "c \<noteq> CHR ''+''" by (rule dec_value_plain)+
  moreover have "dec_digits (nat_text n @ []) 0 = Some (int n)"
    by (simp only: dec_digits_snoc [OF nat_text_digits] nat_text_value dec_digits.simps)
  ultimately show ?thesis by (simp add: int_of_text_def)
qed

lemma nat_text_inj: "nat_text m = nat_text n \<Longrightarrow> m = n"
  using int_of_nat_text by (metis Inr_inject of_nat_eq_iff)

lemma dict_of_snoc: "dict_of (kvs @ [(k, v)]) = AList.update k v (dict_of kvs)"
  by (simp add: dict_of_def)

lemma map_of_dict_of: "map_of (dict_of kvs) k = map_of (rev kvs) k"
proof (induction kvs rule: rev_induct)
  case (snoc kv kvs)
  then show ?case by (cases kv) (simp add: dict_of_snoc update_conv')
qed (simp add: dict_of_def)

lemma map_of_dict_distinct:
  assumes "distinct (map fst kvs)" and "(k, v) \<in> set kvs"
  shows "map_of (dict_of kvs) k = Some v"
  using assms by (simp add: map_of_dict_of map_of_is_SomeI rev_map [symmetric])

end
