(* ===== verification/Native_Config.thy ===== *)
theory Native_Config imports Py_Values begin

text \<open>
  What a job asks of the measurement: the enumerations of
  \<^verbatim>\<open>app/libs/quantum_executor/base/quantum_job/dtos.py\<close> and \<open>to_native_qobj_config\<close> of its
  \<^verbatim>\<open>__init__.py\<close>.
\<close>

datatype bin_mode = APPEND | AVERAGE | FIRST | DISTRIBUTION | SUM

datatype meas_level = RAW | INTEGRATED | DISCRIMINATED

datatype meas_ret = AVERAGED | APPENDED

datatype meas_protocol = SSB_INTEGRATION_COMPLEX | TRACE

fun protocol_value :: "meas_protocol \<Rightarrow> string" where
  "protocol_value SSB_INTEGRATION_COMPLEX = ''SSBIntegrationComplex''"
| "protocol_value TRACE = ''trace''"

datatype acq_return_type = COMPLEX | ND_ARRAY

record native_config =
  nc_acq_return_type :: acq_return_type
  nc_protocol :: meas_protocol
  nc_bin_mode :: bin_mode
  nc_meas_level :: meas_level
  nc_meas_return :: meas_ret
  nc_meas_return_cols :: int
  nc_n_qubits :: int
  nc_shots :: int

text \<open>The fields of the qobj's config that are read here; \<open>meas_return\<close> comes as a number or a text.\<close>

datatype return_setting = RetInt int | RetStr string

record qobj_config =
  qc_meas_level :: int
  qc_meas_return :: return_setting
  qc_n_qubits :: "int option"
  qc_shots :: "int option"
  qc_pulse_library :: "(string \<times> (rat \<times> rat) list) list"

fun get_bin_mode :: "return_setting \<Rightarrow> bin_mode result" where
  "get_bin_mode (RetInt n) = dict_get [(0, APPEND), (1, AVERAGE)] n"
| "get_bin_mode (RetStr s) = dict_get
     [(''avg'', AVERAGE), (''average'', AVERAGE), (''averaged'', AVERAGE),
      (''single'', APPEND), (''append'', APPEND), (''appended'', APPEND)] (lower s)"

definition get_meas_protocol :: "int \<Rightarrow> meas_protocol result" where
  "get_meas_protocol l =
     dict_get [(0, TRACE), (1, SSB_INTEGRATION_COMPLEX), (2, SSB_INTEGRATION_COMPLEX)] l"

text \<open>\<open>MeasLvl(n)\<close>.\<close>

definition meas_level_of :: "int \<Rightarrow> meas_level result" where
  "meas_level_of l =
     (if l = 0 then Inr RAW else if l = 1 then Inr INTEGRATED else if l = 2 then Inr DISCRIMINATED
      else Inl ValueError)"

definition to_native_qobj_config :: "qobj_config \<Rightarrow> native_config result" where
  "to_native_qobj_config config =
     bind_result (get_bin_mode (qc_meas_return config)) (\<lambda>bin_mode.
     bind_result (get_meas_protocol (qc_meas_level config)) (\<lambda>protocol.
     bind_result (attr (qc_n_qubits config)) (\<lambda>n_qubits.
     bind_result (meas_level_of (qc_meas_level config)) (\<lambda>meas_level.
       if bin_mode = AVERAGE \<and> protocol = SSB_INTEGRATION_COMPLEX then
         bind_result (attr (qc_shots config)) (\<lambda>shots.
         Inr \<lparr>nc_acq_return_type = COMPLEX, nc_protocol = protocol, nc_bin_mode = bin_mode,
              nc_meas_level = meas_level, nc_meas_return = AVERAGED, nc_meas_return_cols = 1,
              nc_n_qubits = n_qubits, nc_shots = shots\<rparr>)
       else if bin_mode = AVERAGE \<and> protocol = TRACE then
         bind_result (attr (qc_shots config)) (\<lambda>shots.
         Inr \<lparr>nc_acq_return_type = ND_ARRAY, nc_protocol = protocol, nc_bin_mode = bin_mode,
              nc_meas_level = meas_level, nc_meas_return = AVERAGED, nc_meas_return_cols = 16384,
              nc_n_qubits = n_qubits, nc_shots = shots\<rparr>)
       else if bin_mode = APPEND \<and> protocol = SSB_INTEGRATION_COMPLEX then
         bind_result (attr (qc_shots config)) (\<lambda>shots.
         Inr \<lparr>nc_acq_return_type = ND_ARRAY, nc_protocol = SSB_INTEGRATION_COMPLEX, nc_bin_mode = APPEND,
              nc_meas_level = meas_level, nc_meas_return = APPENDED, nc_meas_return_cols = shots,
              nc_n_qubits = n_qubits, nc_shots = shots\<rparr>)
       else Inl RuntimeError))))"

text \<open>A request for raw traces cannot keep its single shots; everything else with known settings is served.\<close>

lemma to_native_refused:
  assumes "qc_n_qubits config = Some n" "qc_shots config = Some m" "qc_meas_level config \<in> {0, 1, 2}"
    and "get_bin_mode (qc_meas_return config) = Inr b"
  shows "to_native_qobj_config config = Inl RuntimeError \<longleftrightarrow> qc_meas_level config = 0 \<and> b = APPEND"
proof -
  have "b = APPEND \<or> b = AVERAGE"
    using assms(4) by (cases "qc_meas_return config") (auto simp: dict_get_def split: if_splits option.splits)
  with assms show ?thesis
    by (auto simp: to_native_qobj_config_def get_meas_protocol_def meas_level_of_def dict_get_def)
qed

end
