(* ===== verification/Scheduler_Tasks.thy ===== *)
theory Scheduler_Tasks imports Job_Lifecycle Rq Bookings Native_Config begin

text \<open>
  The tasks that run on the queues: \<^verbatim>\<open>app/services/scheduler/tasks.py\<close>, with the queues of
  \<^verbatim>\<open>app/services/scheduler/queues.py\<close> they use. The state is the world: the Redis server (queues
  and jobs), rq, the bookings database and the message system. What a task gets from outside (the
  executor, the files, the measurements, the message server) is in the record of services. A task
  reads the clock once, as \<open>now\<close>.
\<close>

section \<open>The world\<close>

record ('r, 'q, 'd, 'm) world =
  w_redis :: 'r
  w_rq :: 'q
  w_db :: 'd
  w_mss :: 'm

datatype mss_event = JobUpdated job | DeviceRecalibrated string

record ('r, 'q, 'd, 'm) services =
  sv_redis :: "'r store"
  sv_rq :: "'q rq"
  sv_db :: "'d db"
  sv_settings :: settings
  sv_root_url :: string
  sv_read_job_file :: "string \<Rightarrow> string result"
  sv_compile :: "string \<Rightarrow> string \<Rightarrow> rat result"
  sv_run :: "string \<Rightarrow> string result"
  sv_recalibrate :: "string option result"
  sv_last_calibrated :: "string result"
  sv_move_file :: "string \<Rightarrow> string result"
  sv_read_hdf5 :: "string \<Rightarrow> meas_level result"
  sv_discriminate :: "string \<Rightarrow> memory result"
  sv_integrate :: "string \<Rightarrow> memory result"
  sv_mss_send :: "mss_event \<Rightarrow> (unit, 'm) prog"

definition on_r :: "('a, 'r) prog \<Rightarrow> ('a, ('r, 'q, 'd, 'm) world) prog" where
  "on_r = zoomE w_redis (\<lambda>r w. w\<lparr>w_redis := r\<rparr>)"

definition on_q :: "('a, 'q) prog \<Rightarrow> ('a, ('r, 'q, 'd, 'm) world) prog" where
  "on_q = zoomE w_rq (\<lambda>q w. w\<lparr>w_rq := q\<rparr>)"

definition on_d :: "('a, 'd) prog \<Rightarrow> ('a, ('r, 'q, 'd, 'm) world) prog" where
  "on_d = zoomE w_db (\<lambda>d w. w\<lparr>w_db := d\<rparr>)"

definition on_m :: "('a, 'm) prog \<Rightarrow> ('a, ('r, 'q, 'd, 'm) world) prog" where
  "on_m = zoomE w_mss (\<lambda>m w. w\<lparr>w_mss := m\<rparr>)"

definition on_queues :: "('a, ('r, 'q) queues) prog \<Rightarrow> ('a, ('r, 'q, 'd, 'm) world) prog" where
  "on_queues = zoomE (\<lambda>w. (w_redis w, w_rq w)) (\<lambda>(r, q) w. w\<lparr>w_redis := r, w_rq := q\<rparr>)"

section \<open>The queues\<close>

definition get_waitlist :: "string \<Rightarrow> string" where
  "get_waitlist pfx = pfx @ ''_waitlist''"

definition get_preprocessing_queue :: "string \<Rightarrow> runner_queue" where
  "get_preprocessing_queue pfx = \<lparr>q_name = pfx @ ''_preprocessing'', q_executor = Preprocess\<rparr>"

definition get_normal_execution_queue :: "string \<Rightarrow> runner_queue" where
  "get_normal_execution_queue pfx = \<lparr>q_name = pfx @ ''_normal_execution'', q_executor = Execute\<rparr>"

definition get_booked_execution_queue :: "string \<Rightarrow> runner_queue" where
  "get_booked_execution_queue pfx = \<lparr>q_name = pfx @ ''_booked_execution'', q_executor = Execute\<rparr>"

definition get_postprocessing_queue :: "string \<Rightarrow> runner_queue" where
  "get_postprocessing_queue pfx = \<lparr>q_name = pfx @ ''_postprocessing'', q_executor = Postprocess\<rparr>"

definition get_general_queue :: "string \<Rightarrow> string" where
  "get_general_queue pfx = pfx @ ''_general''"

definition get_recalibration_queue :: "string \<Rightarrow> string" where
  "get_recalibration_queue pfx = pfx @ ''_recalibration''"

section \<open>Enqueueing\<close>

definition is_job_shorter :: "secs \<Rightarrow> rkey \<Rightarrow> bool result" where
  "is_job_shorter d storage_id =
     (case key_duration storage_id of Inl e \<Rightarrow> Inl e | Inr x \<Rightarrow> Inr (Secs x < d))"

definition get_idle_timer_id :: "string \<Rightarrow> string" where
  "get_idle_timer_id booking_id = booking_id @ ''_idle_timer''"

definition push_to_waitlist ::
    "('r, 'q, 'd, 'm) services \<Rightarrow> int \<Rightarrow> string \<Rightarrow> queue_context
      \<Rightarrow> (string \<times> queue_context, ('r, 'q, 'd, 'm) world) prog" where
  "push_to_waitlist V now jid ctx =
     bindE (on_r (job_get (sv_redis V) now jid)) (\<lambda>uptodate_job.
       thenE (on_r (sq_add (sv_redis V) (get_waitlist (queue_prefix ctx)) uptodate_job
                (ctx, no_kwargs\<lparr>kw_job_id := Some (get_rq_job_id jid EXEC_Q)\<rparr>)))
         (retE (jid, ctx)))"

text \<open>The stage change and the enqueueing that every way to execution ends with.\<close>

definition stage_and_enqueue ::
    "('r, 'q, 'd, 'm) services \<Rightarrow> int \<Rightarrow> runner_queue \<Rightarrow> string \<Rightarrow> stage \<Rightarrow> queue_context \<Rightarrow> call_kwargs
      \<Rightarrow> (job, ('r, 'q, 'd, 'm) world) prog" where
  "stage_and_enqueue V now queue jid st ctx kwargs =
     bindE (on_r (update_job_stage (sv_redis V) now jid st)) (\<lambda>j.
       thenE (on_queues (runner_enqueue (sv_redis V) (sv_rq V) queue j ctx kwargs)) (retE j))"

definition total_duration_of ::
    "('r, 'q, 'd, 'm) services \<Rightarrow> int \<Rightarrow> runner_queue \<Rightarrow> (rat, ('r, 'q, 'd, 'm) world) prog" where
  "total_duration_of V now queue =
     bindE (getE (\<lambda>w. runner_total_duration (sv_redis V) queue now (w_redis w))) liftE"

text \<open>\<open>job.estimated_duration > usable_time\<close>: a missing estimate cannot be compared.\<close>

definition longer_than :: "rat option \<Rightarrow> rat \<Rightarrow> bool result" where
  "longer_than d usable_time = (case d of None \<Rightarrow> Inl TypeError | Some x \<Rightarrow> Inr (usable_time < x))"

definition try_enqueue_on_normal_queue ::
    "('r, 'q, 'd, 'm) services \<Rightarrow> int \<Rightarrow> job \<Rightarrow> queue_context
      \<Rightarrow> (string \<times> queue_context, ('r, 'q, 'd, 'm) world) prog" where
  "try_enqueue_on_normal_queue V now j ctx =
     (let jid = job_id j;
          queue = get_normal_execution_queue (queue_prefix ctx);
          enqueue = thenE (stage_and_enqueue V now queue jid EXEC_Q ctx
                      (no_kwargs\<lparr>kw_job_id := Some (get_rq_job_id jid EXEC_Q)\<rparr>)) (retE (jid, ctx))
      in bindE (on_d (get_next_booking (sv_db V) now)) (\<lambda>next_booking.
           case next_booking of
             None \<Rightarrow> enqueue
           | Some b \<Rightarrow>
               bindE (total_duration_of V now queue) (\<lambda>queue_duration.
                 bindE (liftE (longer_than (estimated_duration j)
                     (total_seconds (b_start_utc b - now) - queue_duration))) (\<lambda>too_long.
                   if too_long then thenE (push_to_waitlist V now jid ctx) (retE (jid, ctx))
                   else enqueue))))"

definition reset_idleness_timer ::
    "('r, 'q, 'd, 'm) services \<Rightarrow> int \<Rightarrow> string \<Rightarrow> int \<Rightarrow> queue_context \<Rightarrow> rat option \<Rightarrow> int option
      \<Rightarrow> (unit, ('r, 'q, 'd, 'm) world) prog" where
  "reset_idleness_timer V now booking_id fin ctx restart_in max_idle =
     (let max_idle = (case max_idle of None \<Rightarrow> max_idle_time ctx | Some m \<Rightarrow> m) in
      bindE (on_d (get_booking (sv_db V) (\<lambda>b. b_id b = booking_id))) (\<lambda>found.
        case found of
          None \<Rightarrow> retE ()
        | Some b \<Rightarrow>
            thenE (on_q (cancel_rq_job (sv_rq V) (b_idle_timer_id b) True))
              (case restart_in of
                 None \<Rightarrow> raiseE TypeError
               | Some restart_in \<Rightarrow>
                   (let d = total_seconds (fin - now) - restart_in in
                    if d < of_int max_idle then retE ()
                    else
                      (let repeat = (if 0 < max_idle
                             then Some (py_int (d / of_int max_idle), max_idle) else None)
                       in on_q (\<lambda>s. (Inr (), snd (rq_enqueue_in (sv_rq V)
                            (get_general_queue (queue_prefix ctx)) restart_in repeat
                            (Some (b_idle_timer_id b)) (PopWaitlistToBooking ctx) s))))))))"

definition too_long_update :: job_update where
  "too_long_update = no_update\<lparr>upd_status := Some FAILED,
     upd_failure_reason := Some ''job too long for the time left in the booking''\<rparr>"

definition try_enqueue_on_booked_queue ::
    "('r, 'q, 'd, 'm) services \<Rightarrow> int \<Rightarrow> job \<Rightarrow> queue_context \<Rightarrow> string option
      \<Rightarrow> (string \<times> queue_context, ('r, 'q, 'd, 'm) world) prog" where
  "try_enqueue_on_booked_queue V now j ctx booking_id =
     (let jid = job_id j; queue = get_booked_execution_queue (queue_prefix ctx) in
      bindE (case booking_id of
               None \<Rightarrow> retE None
             | Some i \<Rightarrow> if i = [] then retE None else on_d (get_booking (sv_db V) (\<lambda>b. b_id b = i)))
        (\<lambda>active_booking.
          case active_booking of
            None \<Rightarrow> push_to_waitlist V now jid ctx
          | Some b \<Rightarrow>
              bindE (total_duration_of V now queue) (\<lambda>queue_duration.
                let usable_time = b_total_duration b - queue_duration in
                if user_id j \<noteq> b_user_id b then push_to_waitlist V now jid ctx
                else if force_normal_queue ctx = Some True then push_to_waitlist V now jid ctx
                else bindE (liftE (longer_than (estimated_duration j) usable_time)) (\<lambda>too_long.
                  thenE
                    (if too_long then
                       thenE (on_r (job_update_one (sv_redis V) now jid too_long_update)) (retE ())
                     else
                       thenE (reset_idleness_timer V now (b_id b) (b_end_utc b) ctx
                                (estimated_duration j) None)
                         (thenE (stage_and_enqueue V now queue jid EXEC_Q ctx
                              (no_kwargs\<lparr>kw_job_id := Some (get_rq_job_id jid EXEC_Q)\<rparr>))
                            (retE ())))
                    (retE (jid, ctx))))))"

section \<open>Leaving the waitlist\<close>

definition time_to_next ::
    "('r, 'q, 'd, 'm) services \<Rightarrow> int \<Rightarrow> (rat option, ('r, 'q, 'd, 'm) world) prog" where
  "time_to_next V now =
     bindE (on_d (get_next_booking (sv_db V) now)) (\<lambda>next_booking.
       retE (map_option (\<lambda>b. total_seconds (b_start_utc b - now)) next_booking))"

definition pop_waitlist_to_booking ::
    "('r, 'q, 'd, 'm) services \<Rightarrow> int \<Rightarrow> queue_context
      \<Rightarrow> (string option \<times> queue_context, ('r, 'q, 'd, 'm) world) prog" where
  "pop_waitlist_to_booking V now ctx =
     bindE (time_to_next V now) (\<lambda>left.
       let usable_time = (case left of None \<Rightarrow> Infty | Some t \<Rightarrow> Secs t) in
       bindE (on_r (sq_pop_first (sv_redis V) (get_waitlist (queue_prefix ctx)) (is_job_shorter usable_time)))
         (\<lambda>next_job_tuple. case next_job_tuple of
            None \<Rightarrow> retE (None, ctx)
          | Some (j, job_ctx, kwargs) \<Rightarrow>
              bindE (on_d (get_active_booking (sv_db V) now)) (\<lambda>active_booking.
                thenE (case active_booking of
                         None \<Rightarrow> retE ()
                       | Some b \<Rightarrow> reset_idleness_timer V now (b_id b) (b_end_utc b) ctx
                                      (estimated_duration j) (Some 0))
                  (bindE (stage_and_enqueue V now (get_booked_execution_queue (queue_prefix ctx))
                            (job_id j) EXEC_Q job_ctx kwargs)
                     (\<lambda>j'. retE (Some (job_id j'), ctx))))))"

definition pop_waitlist_to_normal_queue ::
    "('r, 'q, 'd, 'm) services \<Rightarrow> int \<Rightarrow> queue_context \<Rightarrow> (unit, ('r, 'q, 'd, 'm) world) prog" where
  "pop_waitlist_to_normal_queue V now ctx =
     bindE (time_to_next V now) (\<lambda>max_total_duration.
       sq_pop_many (sv_redis V) (get_waitlist (queue_prefix ctx)) w_redis (\<lambda>r w. w\<lparr>w_redis := r\<rparr>)
         (\<lambda>(j, job_ctx, kwargs).
            thenE (stage_and_enqueue V now (get_normal_execution_queue (queue_prefix ctx))
                     (job_id j) EXEC_Q job_ctx kwargs) (retE ()))
         max_total_duration)"

definition post_booking_cleanup ::
    "('r, 'q, 'd, 'm) services \<Rightarrow> int \<Rightarrow> string \<Rightarrow> queue_context \<Rightarrow> (unit, ('r, 'q, 'd, 'm) world) prog" where
  "post_booking_cleanup V now booking_id ctx =
     bindE (on_d (get_booking (sv_db V) (\<lambda>b. b_id b = booking_id))) (\<lambda>found.
       case found of
         None \<Rightarrow> retE ()
       | Some b \<Rightarrow>
           thenE (on_q (cancel_rq_job (sv_rq V) (b_idle_timer_id b) True))
             (pop_waitlist_to_normal_queue V now ctx))"

end
