(* ===== verification/Workers.thy ===== *)
theory Workers imports Scheduler_Tasks begin

text \<open>
  What the workers run: \<open>preprocess\<close>, \<open>execute\<close>, \<open>postprocess\<close>, the callbacks of the
  post-processing queue and \<open>recalibrate\<close> of \<^verbatim>\<open>app/services/scheduler/tasks.py\<close>, and the dispatch
  from a queued task to the function it names.
\<close>

section \<open>Before execution\<close>

definition preprocess_failure :: "string" where
  "preprocess_failure = ''unexpected error during execution''"

text \<open>The handlers of \<open>preprocess\<close>: what is logged against which job before re-raising.\<close>

definition fail_job ::
    "('r, 'q, 'd, 'm) services \<Rightarrow> int \<Rightarrow> string \<Rightarrow> exn \<Rightarrow> ('a, ('r, 'q, 'd, 'm) world) prog" where
  "fail_job V now jid e =
     (if e = JobAlreadyCancelled then raiseE e
      else thenE (on_r (log_job_failure (sv_redis V) now jid preprocess_failure)) (raiseE e))"

definition fail_preprocessing ::
    "('r, 'q, 'd, 'm) services \<Rightarrow> int \<Rightarrow> string \<Rightarrow> string \<Rightarrow> exn \<Rightarrow> ('a, ('r, 'q, 'd, 'm) world) prog" where
  "fail_preprocessing V now jid message e =
     (if e = ValidationError then
        thenE (on_r (log_job_failure (sv_redis V) now jid message)) (raiseE e)
      else fail_job V now jid e)"

definition preprocess ::
    "('r, 'q, 'd, 'm) services \<Rightarrow> int \<Rightarrow> string \<Rightarrow> job \<Rightarrow> queue_context \<Rightarrow> string \<Rightarrow> string option
      \<Rightarrow> (string \<times> queue_context, ('r, 'q, 'd, 'm) world) prog" where
  "preprocess V now message j ctx job_file booking_id =
     (case sv_read_job_file V job_file of
        Inl e \<Rightarrow> fail_preprocessing V now (job_id j) message e
      | Inr jid \<Rightarrow>
          catchE
            (bindE (on_r (update_job_stage (sv_redis V) now jid PRE_PROC_W)) (\<lambda>_.
               bindE (liftE (sv_compile V job_file jid)) (\<lambda>d.
                 bindE (on_r (job_update_one (sv_redis V) now (job_id j) (estimate_update d))) (\<lambda>j'.
                   case booking_id of
                     None \<Rightarrow> try_enqueue_on_normal_queue V now j' ctx
                   | Some b \<Rightarrow> try_enqueue_on_booked_queue V now j' ctx (Some b)))))
            (fail_preprocessing V now jid message))"

section \<open>Execution\<close>

definition execute ::
    "('r, 'q, 'd, 'm) services \<Rightarrow> int \<Rightarrow> job \<Rightarrow> queue_context
      \<Rightarrow> (string \<times> queue_context \<times> string, ('r, 'q, 'd, 'm) world) prog" where
  "execute V now j ctx =
     (let jid = job_id j in
      catchE
        (bindE (on_r (update_job_stage (sv_redis V) now jid EXEC_W)) (\<lambda>_.
           bindE (liftE (sv_run V jid)) (\<lambda>results_file.
             bindE (on_r (on_jobs now (get_one (sv_redis V) job_schema (KTuple [jid])))) (\<lambda>j'.
               if status j' = CANCELLED then raiseE JobAlreadyCancelled
               else bindE (stage_and_enqueue V now (get_postprocessing_queue (queue_prefix ctx)) jid
                        PST_PROC_Q ctx (no_kwargs\<lparr>kw_job_id := Some (get_rq_job_id jid PST_PROC_Q),
                          kw_results_file := Some results_file\<rparr>))
                     (\<lambda>j''. retE (job_id j'', ctx, results_file))))))
        (fail_job V now jid))"

section \<open>After execution\<close>

definition update_job_in_mss ::
    "('r, 'q, 'd, 'm) services \<Rightarrow> job \<Rightarrow> (unit, ('r, 'q, 'd, 'm) world) prog" where
  "update_job_in_mss V payload =
     catchE (on_m (sv_mss_send V (JobUpdated payload)))
       (\<lambda>e. if e = ValueError then raiseE RuntimeError else raiseE e)"

definition save_results ::
    "('r, 'q, 'd, 'm) services \<Rightarrow> int \<Rightarrow> string \<Rightarrow> memory \<Rightarrow> (job, ('r, 'q, 'd, 'm) world) prog" where
  "save_results V now jid data =
     bindE (on_r (update_job_results (sv_redis V) (sv_root_url V) now jid data)) (\<lambda>j.
       thenE (update_job_in_mss V j) (retE j))"

text \<open>
  In the \<open>else\<close> branch the message reads \<open>job.meas_level\<close>, an attribute that a job does not have,
  but a job allows extra ones; either way something is raised and wrapped.
\<close>

definition postprocess ::
    "('r, 'q, 'd, 'm) services \<Rightarrow> int \<Rightarrow> job \<Rightarrow> queue_context \<Rightarrow> string
      \<Rightarrow> (string \<times> queue_context, ('r, 'q, 'd, 'm) world) prog" where
  "postprocess V now j ctx results_file =
     (let jid = job_id j in
      bindE (liftE (sv_move_file V results_file)) (\<lambda>new_file.
        bindE (on_r (update_job_stage (sv_redis V) now jid PST_PROC_W)) (\<lambda>_.
          bindE (liftE (sv_read_hdf5 V new_file)) (\<lambda>level.
            catchE
              (bindE
                 (case level of
                    DISCRIMINATED \<Rightarrow> bindE (liftE (sv_discriminate V new_file)) (save_results V now jid)
                  | INTEGRATED \<Rightarrow> bindE (liftE (sv_integrate V new_file)) (save_results V now jid)
                  | RAW \<Rightarrow> raiseE NotImplementedError)
                 (\<lambda>j'. retE (job_id j', ctx)))
              (\<lambda>_. raiseE (PostProcessingError jid))))))"

definition postprocessing_success_callback ::
    "('r, 'q, 'd, 'm) services \<Rightarrow> int \<Rightarrow> string \<times> queue_context \<Rightarrow> (unit, ('r, 'q, 'd, 'm) world) prog" where
  "postprocessing_success_callback V now res =
     (let jid = fst res in
      bindE (on_r (update_job_stage (sv_redis V) now jid FINAL_Q)) (\<lambda>j.
        bindE (if status j = SUCCESSFUL then on_r (update_job_stage (sv_redis V) now jid FINAL_W)
               else retE j)
          (update_job_in_mss V)))"

definition postprocessing_failure_callback ::
    "('r, 'q, 'd, 'm) services \<Rightarrow> int \<Rightarrow> exn \<Rightarrow> (unit, ('r, 'q, 'd, 'm) world) prog" where
  "postprocessing_failure_callback V now e =
     (case e of
        PostProcessingError jid \<Rightarrow>
          bindE (on_r (log_job_failure (sv_redis V) now jid ''error during post processing''))
            (update_job_in_mss V)
      | _ \<Rightarrow> retE ())"

section \<open>Recalibration\<close>

definition recalibrate ::
    "('r, 'q, 'd, 'm) services \<Rightarrow> queue_context \<Rightarrow> rat option \<Rightarrow> (string option, ('r, 'q, 'd, 'm) world) prog" where
  "recalibrate V ctx interval =
     bindE (liftE (sv_recalibrate V)) (\<lambda>results.
       thenE (case results of None \<Rightarrow> retE ()
              | Some calibration \<Rightarrow> on_m (sv_mss_send V (DeviceRecalibrated calibration)))
         (case interval of
            None \<Rightarrow> retE None
          | Some d \<Rightarrow> on_q (\<lambda>s.
              let (i, s') = rq_enqueue_in (sv_rq V) (get_recalibration_queue (queue_prefix ctx)) d None None
                              (Recalibrate ctx (Some d)) s
              in (Inr (Some i), rq_set_interval (sv_rq V) i (Some d) s'))))"

section \<open>Dispatch\<close>

text \<open>
  The executor functions take their job file, booking and results file from the stored keyword
  arguments; a call without one of the required ones is a \<open>TypeError\<close>.
\<close>

definition run_exec ::
    "('r, 'q, 'd, 'm) services \<Rightarrow> int \<Rightarrow> string \<Rightarrow> exec_func \<Rightarrow> job \<Rightarrow> call_args
      \<Rightarrow> (string \<times> queue_context, ('r, 'q, 'd, 'm) world) prog" where
  "run_exec V now message f j args =
     (let (ctx, kwargs) = args in
      case f of
        Preprocess \<Rightarrow> (case kw_job_file kwargs of None \<Rightarrow> raiseE TypeError
          | Some file \<Rightarrow> preprocess V now message j ctx file (kw_booking_id kwargs))
      | Execute \<Rightarrow> bindE (execute V now j ctx) (\<lambda>(jid, c, _). retE (jid, c))
      | Postprocess \<Rightarrow> (case kw_results_file kwargs of None \<Rightarrow> raiseE TypeError
          | Some file \<Rightarrow> postprocess V now j ctx file))"

definition run_queued ::
    "('r, 'q, 'd, 'm) services \<Rightarrow> int \<Rightarrow> string \<Rightarrow> string \<Rightarrow> exec_func
      \<Rightarrow> (string \<times> queue_context, ('r, 'q, 'd, 'm) world) prog" where
  "run_queued V now message sq f =
     run_next_job (sv_redis V) w_redis (\<lambda>r w. w\<lparr>w_redis := r\<rparr>) sq (run_exec V now message f)"

text \<open>Only the post-processing queue has callbacks; rq runs them after the function.\<close>

definition run_task ::
    "('r, 'q, 'd, 'm) services \<Rightarrow> int \<Rightarrow> string \<Rightarrow> task \<Rightarrow> (unit, ('r, 'q, 'd, 'm) world) prog" where
  "run_task V now message t =
     (case t of
        RunNext sq f \<Rightarrow>
          (if f = Postprocess then
             (\<lambda>w. case run_queued V now message sq f w of
                (Inr res, w') \<Rightarrow> postprocessing_success_callback V now res w'
              | (Inl e, w') \<Rightarrow> postprocessing_failure_callback V now e w')
           else thenE (run_queued V now message sq f) (retE ()))
      | ResetIdleness booking_id fin ctx \<Rightarrow>
          reset_idleness_timer V now booking_id fin ctx (Some 0) None
      | PostBookingCleanup booking_id ctx \<Rightarrow> post_booking_cleanup V now booking_id ctx
      | PopWaitlistToBooking ctx \<Rightarrow> thenE (pop_waitlist_to_booking V now ctx) (retE ())
      | Recalibrate ctx interval \<Rightarrow> thenE (recalibrate V ctx interval) (retE ()))"

end
