(* ===== verification/Scheduler_Service.thy ===== *)
theory Scheduler_Service imports Workers begin

text \<open>
  The scheduling service behind the API: \<^verbatim>\<open>app/services/scheduler/service.py\<close>, the queue pool of
  \<^verbatim>\<open>app/services/scheduler/queues.py\<close>, and the route handlers of \<^verbatim>\<open>app/api/__init__.py\<close> that
  call it. Each operation is a routine on the world, its errors values.
\<close>

section \<open>The pool of queues\<close>

record queue_pool =
  qp_preprocessing :: runner_queue
  qp_normal_execution :: runner_queue
  qp_booked_execution :: runner_queue
  qp_general :: string
  qp_postprocessing :: runner_queue
  qp_recalibration :: string
  qp_waitlist :: string

definition queue_pool_of :: "string \<Rightarrow> queue_pool" where
  "queue_pool_of pfx = \<lparr>qp_preprocessing = get_preprocessing_queue pfx,
     qp_normal_execution = get_normal_execution_queue pfx,
     qp_booked_execution = get_booked_execution_queue pfx,
     qp_general = get_general_queue pfx,
     qp_postprocessing = get_postprocessing_queue pfx,
     qp_recalibration = get_recalibration_queue pfx,
     qp_waitlist = get_waitlist pfx\<rparr>"

section \<open>Bookings\<close>

definition submit_booking ::
    "('r, 'q, 'd, 'm) services \<Rightarrow> queue_context \<Rightarrow> queue_pool \<Rightarrow> string \<Rightarrow> string \<Rightarrow> new_booking_info
      \<Rightarrow> (booking, ('r, 'q, 'd, 'm) world) prog" where
  "submit_booking V ctx queues fresh_id uid info =
     bindE (on_d (create_booking (sv_db V) (sv_settings V) fresh_id uid info)) (\<lambda>b.
       thenE (on_q (\<lambda>s. (Inr (), snd (rq_enqueue_at (sv_rq V) (qp_general queues) (b_start_utc b)
                (Some (b_start_event_id b)) (ResetIdleness (b_id b) (b_end_utc b) ctx) s))))
         (thenE (on_q (\<lambda>s. (Inr (), snd (rq_enqueue_at (sv_rq V) (qp_general queues) (b_end_utc b)
                  (Some (b_end_event_id b)) (PostBookingCleanup (b_id b) ctx) s))))
           (retE b)))"

definition cancel_booking_from_queues ::
    "('r, 'q, 'd, 'm) services \<Rightarrow> booking \<Rightarrow> (unit, ('r, 'q, 'd, 'm) world) prog" where
  "cancel_booking_from_queues V b =
     on_q (thenE (cancel_rq_job (sv_rq V) (b_idle_timer_id b) True)
       (thenE (cancel_rq_job (sv_rq V) (b_start_event_id b) True)
         (cancel_rq_job (sv_rq V) (b_end_event_id b) True)))"

definition cancel_booking ::
    "('r, 'q, 'd, 'm) services \<Rightarrow> int \<Rightarrow> string \<Rightarrow> string \<Rightarrow> bool \<Rightarrow> (unit, ('r, 'q, 'd, 'm) world) prog" where
  "cancel_booking V now uid booking_id is_mss_admin =
     bindE (on_d (get_user (sv_db V) (\<lambda>u. u_id u = uid))) (\<lambda>found_user.
       case found_user of
         None \<Rightarrow> raiseE ItemNotFoundError
       | Some u \<Rightarrow>
           bindE (on_d (get_booking (sv_db V) (\<lambda>b. b_id b = booking_id \<and>
               (b_user_id b = Some uid \<or> u_is_admin u \<or> is_mss_admin)))) (\<lambda>found.
             case found of
               None \<Rightarrow> raiseE ItemNotFoundError
             | Some b \<Rightarrow>
                 if is_active (sv_settings V) now b then raiseE BookingAlreadyActiveError
                 else if is_complete (sv_settings V) now b then raiseE BookingAlreadyCompleteError
                 else thenE (cancel_booking_from_queues V b)
                        (on_d (delete_bookings_where (sv_db V) (\<lambda>c. b_id c = booking_id)))))"

section \<open>Jobs\<close>

definition job_kwargs_for :: "string \<Rightarrow> string option \<Rightarrow> string \<Rightarrow> call_kwargs" where
  "job_kwargs_for jid booking_id file = no_kwargs\<lparr>kw_booking_id := booking_id,
     kw_job_file := Some file, kw_job_id := Some (get_rq_job_id jid PRE_PROC_Q)\<rparr>"

text \<open>\<open>uploaded\<close> is the outcome of saving the uploaded file: the path it is saved under.\<close>

definition submit_job_file ::
    "('r, 'q, 'd, 'm) services \<Rightarrow> int \<Rightarrow> queue_context \<Rightarrow> queue_pool \<Rightarrow> string result \<Rightarrow> string \<Rightarrow> string
      \<Rightarrow> (job, ('r, 'q, 'd, 'm) world) prog" where
  "submit_job_file V now ctx queues uploaded jid uid =
     bindE (on_r (job_exists (sv_redis V) now jid)) (\<lambda>present.
       if present then raiseE ConflictError
       else bindE (liftE uploaded) (\<lambda>job_file_path.
         bindE (liftE (sv_last_calibrated V)) (\<lambda>last_calibrated.
           let j = new_job jid (backend_name ctx) last_calibrated (Some uid) PRE_PROC_Q now in
           thenE (on_r (job_insert (sv_redis V) now j))
             (bindE (on_d (get_active_booking (sv_db V) now)) (\<lambda>active_booking.
               thenE (on_queues (runner_enqueue (sv_redis V) (sv_rq V) (qp_preprocessing queues) j ctx
                        (job_kwargs_for jid (map_option b_id active_booking) job_file_path)))
                 (retE j))))))"

text \<open>One queue's part of a cancellation: a missing rq job is not an error.\<close>

definition cancel_in_queue ::
    "('r, 'q, 'd, 'm) services \<Rightarrow> runner_queue \<Rightarrow> string \<Rightarrow> storage_id \<Rightarrow> bool
      \<Rightarrow> (unit, ('r, 'q, 'd, 'm) world) prog" where
  "cancel_in_queue V queue jid sid ignore_errors =
     suppressE (\<lambda>e. e = NoSuchJobError)
       (on_queues (runner_cancel_job (sv_redis V) (sv_rq V) queue jid (Some sid) ignore_errors))"

definition cancel_job_in_queues ::
    "('r, 'q, 'd, 'm) services \<Rightarrow> queue_pool \<Rightarrow> job \<Rightarrow> bool \<Rightarrow> (unit, ('r, 'q, 'd, 'm) world) prog" where
  "cancel_job_in_queues V queues j ignore_errors =
     (let jid = job_id j;
          preprocessing_storage_id = from_details jid None;
          execution_storage_id = from_details jid (estimated_duration j)
      in thenE (suppressE (\<lambda>e. e = ValidationError)
                 (thenE (on_r (sq_pop_job (sv_redis V) (qp_waitlist queues) (SidKey execution_storage_id)))
                   (retE ())))
           (thenE (cancel_in_queue V (qp_preprocessing queues) jid preprocessing_storage_id ignore_errors)
             (thenE (cancel_in_queue V (qp_normal_execution queues) jid execution_storage_id ignore_errors)
               (thenE (cancel_in_queue V (qp_booked_execution queues) jid execution_storage_id ignore_errors)
                 (cancel_in_queue V (qp_postprocessing queues) jid execution_storage_id ignore_errors)))))"

text \<open>The job, if the user may see it: its owner or an admin.\<close>

definition may_access :: "user \<Rightarrow> bool \<Rightarrow> job \<Rightarrow> string \<Rightarrow> bool" where
  "may_access u is_mss_admin j uid \<longleftrightarrow> u_is_admin u \<or> is_mss_admin \<or> user_id j = Some uid"

definition cancel_job ::
    "('r, 'q, 'd, 'm) services \<Rightarrow> int \<Rightarrow> queue_pool \<Rightarrow> string \<Rightarrow> string \<Rightarrow> bool \<Rightarrow> string option
      \<Rightarrow> (job, ('r, 'q, 'd, 'm) world) prog" where
  "cancel_job V now queues jid uid is_mss_admin reason =
     bindE (on_d (get_user (sv_db V) (\<lambda>u. u_id u = uid))) (\<lambda>found_user.
       case found_user of
         None \<Rightarrow> raiseE NotAuthenticatedError
       | Some u \<Rightarrow>
           bindE (on_r (job_get (sv_redis V) now jid)) (\<lambda>j.
             if \<not> may_access u is_mss_admin j uid then raiseE ItemNotFoundError
             else thenE (cancel_job_in_queues V queues j False)
                    (on_r (job_update_one (sv_redis V) now jid
                      (cancel_update (case reason of None \<Rightarrow> ''Cancelled by a user'' | Some r \<Rightarrow> r) now)))))"

text \<open>
  \<open>job\<close> is bound inside the \<open>with suppress\<close> block: when the cancellation is suppressed, the last
  line reads an unbound local.
\<close>

definition delete_job ::
    "('r, 'q, 'd, 'm) services \<Rightarrow> int \<Rightarrow> queue_pool \<Rightarrow> string \<Rightarrow> string \<Rightarrow> bool
      \<Rightarrow> (job, ('r, 'q, 'd, 'm) world) prog" where
  "delete_job V now queues jid uid is_mss_admin =
     bindE (catchE (bindE (cancel_job V now queues jid uid is_mss_admin None) (\<lambda>j. retE (Some j)))
              (\<lambda>e. if e = InvalidJobOperation then retE None else raiseE e)) (\<lambda>bound.
       thenE (catchE (on_r (on_jobs now (delete_many (sv_redis V) job_schema now [KStr jid])))
                (\<lambda>e. if e = ValidationError then raiseE ItemNotFoundError else raiseE e))
         (case bound of None \<Rightarrow> raiseE UnboundLocalError | Some j \<Rightarrow> retE j))"

definition get_job ::
    "('r, 'q, 'd, 'm) services \<Rightarrow> int \<Rightarrow> string \<Rightarrow> string \<Rightarrow> bool \<Rightarrow> (job, ('r, 'q, 'd, 'm) world) prog" where
  "get_job V now jid uid is_mss_admin =
     bindE (on_d (get_user (sv_db V) (\<lambda>u. u_id u = uid))) (\<lambda>found_user.
       case found_user of
         None \<Rightarrow> raiseE NotAuthenticatedError
       | Some u \<Rightarrow>
           bindE (on_r (job_get (sv_redis V) now jid)) (\<lambda>j.
             if may_access u is_mss_admin j uid then retE j else raiseE ItemNotFoundError))"

definition job_filters :: "string option \<Rightarrow> job_status option \<Rightarrow> job_update" where
  "job_filters uid st = no_update\<lparr>upd_status := st,
     upd_user_id := (case uid of Some [] \<Rightarrow> None | u \<Rightarrow> u)\<rparr>"

definition get_many_jobs ::
    "('r, 'q, 'd, 'm) services \<Rightarrow> int \<Rightarrow> string option \<Rightarrow> job_status option \<Rightarrow> nat \<Rightarrow> nat option
      \<Rightarrow> (job list, ('r, 'q, 'd, 'm) world) prog" where
  "get_many_jobs V now uid st skip limit =
     on_r (on_jobs now (find_by_index (sv_redis V) job_schema now (job_filters uid st) skip limit))"

section \<open>Users\<close>

definition user_deletion_update :: job_update where
  "user_deletion_update = no_update\<lparr>upd_status := Some CANCELLED,
     upd_failure_reason := Some ''Cancelled on user deletion''\<rparr>"

definition delete_user_profile ::
    "('r, 'q, 'd, 'm) services \<Rightarrow> int \<Rightarrow> queue_pool \<Rightarrow> string \<Rightarrow> (unit, ('r, 'q, 'd, 'm) world) prog" where
  "delete_user_profile V now queues uid =
     bindE (on_d (get_user (sv_db V) (\<lambda>u. u_id u = uid))) (\<lambda>found_user.
       case found_user of
         None \<Rightarrow> raiseE ItemNotFoundError
       | Some u \<Rightarrow>
           bindE (on_r (on_jobs now (find_by_index (sv_redis V) job_schema now
               (no_update\<lparr>upd_user_id := Some uid, upd_status := Some PENDING\<rparr>) 0 None)))
             (\<lambda>user_pending_jobs.
               thenE (forE user_pending_jobs (\<lambda>j.
                   thenE (suppressE (\<lambda>e. e = InvalidJobOperation) (cancel_job_in_queues V queues j False))
                     (thenE (on_r (job_update_one (sv_redis V) now (job_id j) user_deletion_update))
                       (retE ()))))
                 (bindE (on_d (get_many_bookings (sv_db V)
                     (\<lambda>b. now < b_end_utc b \<and> b_user_id b = Some uid) 0 None))
                   (\<lambda>user_incomplete_bookings.
                     thenE (forE user_incomplete_bookings (cancel_booking_from_queues V))
                       (thenE (on_d (delete_bookings_where (sv_db V)
                            (\<lambda>b. b_id b \<in> set (map b_id user_incomplete_bookings))))
                         (on_d (delete_users_where (sv_db V) (\<lambda>u. u_id u = uid))))))))"

section \<open>Recalibration\<close>

definition recalibration_error :: "exn \<Rightarrow> exn" where
  "recalibration_error e =
     (if e = NoSuchJobError then ItemNotFoundError
      else if e = InvalidJobOperation then JobAlreadyCancelled else e)"

definition stop_recalibration ::
    "('r, 'q, 'd, 'm) services \<Rightarrow> queue_pool \<Rightarrow> bool \<Rightarrow> (unit, ('r, 'q, 'd, 'm) world) prog" where
  "stop_recalibration V queues ignore_errors =
     bindE (getE (\<lambda>w. rq_queued_ids (sv_rq V) (w_rq w) (qp_recalibration queues)
               @ rq_scheduled_ids (sv_rq V) (w_rq w) (qp_recalibration queues)))
       (\<lambda>pending_job_ids. forE pending_job_ids (\<lambda>i.
          catchE (on_q (cancel_rq_job (sv_rq V) i ignore_errors))
            (\<lambda>e. raiseE (recalibration_error e))))"

definition init_recalibration ::
    "('r, 'q, 'd, 'm) services \<Rightarrow> queue_context \<Rightarrow> queue_pool \<Rightarrow> int option \<Rightarrow> rat option
      \<Rightarrow> (unit, ('r, 'q, 'd, 'm) world) prog" where
  "init_recalibration V ctx queues start interval =
     thenE (stop_recalibration V queues True)
       (let d = (case interval of None \<Rightarrow> default_recalibration_interval ctx | Some d \<Rightarrow> d) in
        on_q (\<lambda>s.
          let (i, s') = (case start of
              Some t \<Rightarrow> rq_enqueue_at (sv_rq V) (qp_recalibration queues) t None (Recalibrate ctx (Some d)) s
            | None \<Rightarrow> rq_enqueue (sv_rq V) (qp_recalibration queues) None (Recalibrate ctx (Some d)) s)
          in (Inr (), rq_set_interval (sv_rq V) i (Some d) s')))"

definition get_recalibration_info ::
    "('r, 'q, 'd, 'm) services \<Rightarrow> queue_pool \<Rightarrow> (recalibration_info, ('r, 'q, 'd, 'm) world) prog" where
  "get_recalibration_info V queues =
     bindE (getE (\<lambda>w. info_from_queue (sv_rq V) (w_rq w) (qp_recalibration queues))) liftE"

text \<open>\<open>get_job_ids\<close> with both bounds -1: the last id, if any.\<close>

definition last_id :: "string list \<Rightarrow> string list" where
  "last_id ids = (if ids = [] then [] else [last ids])"

definition get_current_recalibration_job_id ::
    "('r, 'q, 'd, 'm) services \<Rightarrow> queue_pool \<Rightarrow> (string option, ('r, 'q, 'd, 'm) world) prog" where
  "get_current_recalibration_job_id V queues =
     getE (\<lambda>w. case last_id (rq_scheduled_ids (sv_rq V) (w_rq w) (qp_recalibration queues)) of
        i # _ \<Rightarrow> Some i
      | [] \<Rightarrow> (case last_id (rq_queued_ids (sv_rq V) (w_rq w) (qp_recalibration queues)) of
                 i # _ \<Rightarrow> Some i | [] \<Rightarrow> None))"

section \<open>Route handlers\<close>

text \<open>A user that books without being known is created first.\<close>

definition route_create_booking ::
    "('r, 'q, 'd, 'm) services \<Rightarrow> (string \<Rightarrow> string) \<Rightarrow> string \<Rightarrow> string \<Rightarrow> queue_context \<Rightarrow> queue_pool
      \<Rightarrow> string \<Rightarrow> string \<Rightarrow> new_booking_info \<Rightarrow> (booking, ('r, 'q, 'd, 'm) world) prog" where
  "route_create_booking V hash_password random_name random_password ctx queues fresh_id uid data =
     bindE (on_d (get_user (sv_db V) (\<lambda>u. u_id u = uid))) (\<lambda>found.
       thenE (case found of
                None \<Rightarrow> thenE (on_d (create_random_user (sv_db V) hash_password random_name random_password uid))
                          (retE ())
              | Some _ \<Rightarrow> retE ())
         (submit_booking V ctx queues fresh_id uid data))"

definition route_submit_job ::
    "('r, 'q, 'd, 'm) services \<Rightarrow> int \<Rightarrow> queue_context \<Rightarrow> queue_pool \<Rightarrow> string result \<Rightarrow> string \<Rightarrow> string \<Rightarrow> bool
      \<Rightarrow> (job, ('r, 'q, 'd, 'm) world) prog" where
  "route_submit_job V now ctx queues uploaded jid uid force =
     submit_job_file V now (ctx\<lparr>force_normal_queue := Some force\<rparr>) queues uploaded jid uid"

definition booking_filters :: "int option \<Rightarrow> int option \<Rightarrow> string option \<Rightarrow> booking \<Rightarrow> bool" where
  "booking_filters min_start max_start uid b \<longleftrightarrow>
     (case min_start of None \<Rightarrow> True | Some t \<Rightarrow> t \<le> b_start_utc b) \<and>
     (case max_start of None \<Rightarrow> True | Some t \<Rightarrow> b_start_utc b \<le> t) \<and>
     (case uid of None \<Rightarrow> True | Some u \<Rightarrow> b_user_id b = Some u)"

definition route_view_bookings ::
    "('r, 'q, 'd, 'm) services \<Rightarrow> int option \<Rightarrow> int option \<Rightarrow> string option \<Rightarrow> nat \<Rightarrow> nat option
      \<Rightarrow> (booking list, ('r, 'q, 'd, 'm) world) prog" where
  "route_view_bookings V min_start max_start uid skip limit =
     on_d (get_many_bookings (sv_db V) (booking_filters min_start max_start uid) skip limit)"

end
