(* ===== verification/Scheduler_Facts.thy ===== *)
theory Scheduler_Facts imports Scheduler_Service begin

text \<open>
  What the tasks and the service operations do to the world, under the laws of Redis, rq and SQL:
  the table of jobs, the queues as lists of entries, the rq jobs by id, the bookings.
\<close>

section \<open>Jobs that stay queueable\<close>

lemma partial_storage_none:
  "keeps_ids u \<Longrightarrow> upd_storage_id u = None \<Longrightarrow> upd_estimated_duration u = None \<Longrightarrow> partial_storage_id u = None"
  by (simp add: partial_storage_id_def keeps_ids_def)

lemma apply_update_queueable:
  assumes "queueable j" and "keeps_ids u" and "upd_storage_id u = None" "upd_estimated_duration u = None"
  shows "queueable (apply_update now j u)" "from_job (apply_update now j u) = from_job j"
proof -
  have ids: "upd_job_id u = None" using assms(2) by (simp add: keeps_ids_def)
  show fj: "from_job (apply_update now j u) = from_job j"
    using ids assms(4) by (simp add: from_job_def)
  have "storage_id_of (merge_update now j (validate_partial u)) = Some (from_job j)"
    using assms partial_storage_none [OF assms(2-4)]
    by (simp add: merge_update_def validate_partial_def queueable_def)
  then have "storage_id_of (apply_update now j u) = Some (from_job j)"
    using ids assms(4)
    by (simp add: apply_update_def validate_model_def set_storage_id_def clone_with_def from_job_def
        from_details_def merge_update_def validate_partial_def split: option.split)
  with fj show "queueable (apply_update now j u)" by (simp add: queueable_def)
qed

lemma staged_queueable:
  assumes "queueable j"
  shows "queueable (staged now st j)" "from_job (staged now st j) = from_job j"
  unfolding staged_def
  by (rule apply_update_queueable [OF assms]; simp add: stage_update_def no_update_def keeps_ids_def)+

lemma estimated_queueable: "queueable (apply_update now j (estimate_update d))"
  by (rule queueable_estimated) (simp_all add: estimate_update_def no_update_def)

section \<open>Queues and jobs side by side\<close>

context job_redis
begin

lemma queue_names_not_jobs [simp]:
  "db_of n \<noteq> sc_name job_schema" "args_db_of n \<noteq> sc_name job_schema" "metadata_of n \<noteq> sc_name job_schema"
  "sc_name job_schema \<noteq> db_of n" "sc_name job_schema \<noteq> args_db_of n" "sc_name job_schema \<noteq> metadata_of n"
  by (simp_all add: db_of_def args_db_of_def metadata_of_def)

lemma same_jobs_added: "same_jobs s (added n j a s)"
  using queue_names_not_jobs by (simp add: same_jobs_def added_def law_simps del: job_schema_sel)

lemma same_jobs_removed: "same_jobs s (removed n k d s)"
  using queue_names_not_jobs by (simp add: same_jobs_def removed_def law_simps del: job_schema_sel)

lemma same_jobs_pop_job: "same_jobs s (snd (sq_pop_job R n k s))"
proof (cases "key_duration k")
  case (Inl e)
  then show ?thesis by (simp add: sq_pop_job_def same_jobs_def)
next
  case (Inr d)
  then have "snd (sq_pop_job R n k s) = removed n k d s"
    by (simp add: sq_pop_job_def removed_def Let_def split: sum.split)
  then show ?thesis by (simp add: same_jobs_removed)
qed

end

section \<open>The scheduler on lawful services\<close>

locale scheduler = job_redis "sv_redis V" + rq: rq_laws "sv_rq V" + sql: sql_laws "sv_db V"
  for V :: "('r, 'q, 'd, 'm) services"

lemma on_r_eval [prog_simps]: "m (w_redis w) = (x, r) \<Longrightarrow> on_r m w = (x, w\<lparr>w_redis := r\<rparr>)"
  by (simp add: on_r_def zoomE_def)

lemma on_q_eval [prog_simps]: "m (w_rq w) = (x, q) \<Longrightarrow> on_q m w = (x, w\<lparr>w_rq := q\<rparr>)"
  by (simp add: on_q_def zoomE_def)

lemma on_d_eval [prog_simps]: "m (w_db w) = (x, d) \<Longrightarrow> on_d m w = (x, w\<lparr>w_db := d\<rparr>)"
  by (simp add: on_d_def zoomE_def)

lemma on_m_eval [prog_simps]: "m (w_mss w) = (x, t) \<Longrightarrow> on_m m w = (x, w\<lparr>w_mss := t\<rparr>)"
  by (simp add: on_m_def zoomE_def)

lemma on_queues_eval [prog_simps]:
  "m (w_redis w, w_rq w) = (x, (r, q)) \<Longrightarrow> on_queues m w = (x, w\<lparr>w_redis := r, w_rq := q\<rparr>)"
  by (simp add: on_queues_def zoomE_def)

lemma world_same [simp]:
  "w\<lparr>w_redis := w_redis w\<rparr> = w" "w\<lparr>w_rq := w_rq w\<rparr> = w" "w\<lparr>w_db := w_db w\<rparr> = w" "w\<lparr>w_mss := w_mss w\<rparr> = w"
  by simp_all

text \<open>Views of the world.\<close>

definition jobs :: "('r, 'q, 'd, 'm) services \<Rightarrow> ('r, 'q, 'd, 'm) world \<Rightarrow> string \<Rightarrow> job option" where
  "jobs V w = jobs_of (sv_redis V) (w_redis w)"

definition jobs_ok :: "('r, 'q, 'd, 'm) services \<Rightarrow> ('r, 'q, 'd, 'm) world \<Rightarrow> bool" where
  "jobs_ok V w \<longleftrightarrow> jobs_wf (sv_redis V) (w_redis w)"

definition queue_ok :: "('r, 'q, 'd, 'm) services \<Rightarrow> ('r, 'q, 'd, 'm) world \<Rightarrow> string \<Rightarrow> bool" where
  "queue_ok V w n \<longleftrightarrow> sq_wf (sv_redis V) n (w_redis w)"

definition queue_entries :: "('r, 'q, 'd, 'm) services \<Rightarrow> ('r, 'q, 'd, 'm) world \<Rightarrow> string \<Rightarrow> entry list" where
  "queue_entries V w n = sq_contents (sv_redis V) n (w_redis w)"

definition queue_total :: "('r, 'q, 'd, 'm) services \<Rightarrow> ('r, 'q, 'd, 'm) world \<Rightarrow> string \<Rightarrow> rat result" where
  "queue_total V w n = sq_total_duration (sv_redis V) n (w_redis w)"

definition rq_state :: "('r, 'q, 'd, 'm) services \<Rightarrow> ('r, 'q, 'd, 'm) world \<Rightarrow> string \<Rightarrow> rq_status option" where
  "rq_state V w = status_of (sv_rq V) (w_rq w)"

text \<open>A job can join a queue when no entry of the queue has its storage id.\<close>

definition can_join :: "('r, 'q, 'd, 'm) services \<Rightarrow> ('r, 'q, 'd, 'm) world \<Rightarrow> string \<Rightarrow> job \<Rightarrow> bool" where
  "can_join V w n j \<longleftrightarrow> queue_ok V w n \<and> SidKey (from_job j) \<notin> set (items (sv_redis V) (w_redis w) n)"

text \<open>
  The decision for a job without a booking: it waits exactly when the next booking starts before
  the jobs already queued and this one can have run.
\<close>

definition must_wait :: "int \<Rightarrow> booking option \<Rightarrow> rat \<Rightarrow> rat \<Rightarrow> bool" where
  "must_wait now nb queued d \<longleftrightarrow>
     (case nb of None \<Rightarrow> False | Some b \<Rightarrow> total_seconds (b_start_utc b - now) - queued < d)"

context scheduler
begin

lemma update_stage_world:
  assumes "jobs_ok V w" and "jobs V w jid = Some j"
  shows "\<exists>r. on_r (update_job_stage (sv_redis V) now jid st) w = (Inr (staged now st j), w\<lparr>w_redis := r\<rparr>) \<and>
    jobs_wf (sv_redis V) r \<and> jobs_of (sv_redis V) r = (jobs V w)(jid \<mapsto> staged now st j) \<and>
    untouched (w_redis w) r"
proof -
  obtain r where "update_job_stage (sv_redis V) now jid st (w_redis w) = (Inr (staged now st j), r)"
    "jobs_wf (sv_redis V) r" "jobs_of (sv_redis V) r = (jobs V w)(jid \<mapsto> staged now st j)"
    "untouched (w_redis w) r"
    using update_job_stage_eval [of "w_redis w" jid j now st] assms
    by (auto simp: jobs_ok_def jobs_def)
  then show ?thesis by (intro exI [of _ r]) (simp add: prog_simps)
qed

text \<open>Adding an up-to-date job to a static queue.\<close>

lemma runner_enqueue_eval:
  assumes "queueable j"
  shows "\<exists>q. runner_enqueue (sv_redis V) (sv_rq V) rq j ctx kwargs (r, s) =
      (Inr (case kw_job_id kwargs of None \<Rightarrow> runner_rq_job_id rq (job_id j) | Some i \<Rightarrow> i),
        (added (static_name rq) j (ctx, kwargs\<lparr>kw_job_id := None\<rparr>) r, q)) \<and>
    (\<forall>i. status_of (sv_rq V) q i =
      (if i = (case kw_job_id kwargs of None \<Rightarrow> runner_rq_job_id rq (job_id j) | Some i \<Rightarrow> i)
       then Some Queued else status_of (sv_rq V) s i))"
proof -
  let ?id = "case kw_job_id kwargs of None \<Rightarrow> runner_rq_job_id rq (job_id j) | Some i \<Rightarrow> i"
  let ?enq = "rq_enqueue (sv_rq V) (q_name rq) (Some ?id) (RunNext (static_name rq) (q_executor rq)) s"
  obtain x q where e: "?enq = (x, q)" by (cases ?enq)
  moreover have "fst ?enq = ?id" by (rule rq.enqueue_id)
  ultimately have x: "?enq = (?id, q)" by simp
  have "\<forall>i. status_of (sv_rq V) q i = (if i = ?id then Some Queued else status_of (sv_rq V) s i)"
    using rq.enqueue_status [of "q_name rq" ?id "RunNext (static_name rq) (q_executor rq)" s] x by simp
  then show ?thesis
    using x by (intro exI [of _ q]) (simp add: runner_enqueue_def Let_def prog_simps sq_add_eval [OF assms])
qed

lemma stage_and_enqueue_eval:
  assumes "jobs_ok V w" and "jobs V w jid = Some j" and "queueable j"
    and "can_join V w (static_name queue) j" and "kw_job_id kwargs = Some i"
  shows "\<exists>w'. stage_and_enqueue V now queue jid st ctx kwargs w = (Inr (staged now st j), w') \<and>
    jobs_ok V w' \<and> jobs V w' = (jobs V w)(jid \<mapsto> staged now st j) \<and>
    queue_ok V w' (static_name queue) \<and>
    queue_entries V w' (static_name queue) =
      queue_entries V w (static_name queue) @ [(staged now st j, (ctx, kwargs\<lparr>kw_job_id := None\<rparr>))] \<and>
    (\<forall>n. n \<noteq> static_name queue \<longrightarrow> same_queue n (w_redis w) (w_redis w')) \<and>
    (\<forall>i'. rq_state V w' i' = (if i' = i then Some Queued else rq_state V w i')) \<and>
    w_db w' = w_db w \<and> w_mss w' = w_mss w"
proof -
  let ?n = "static_name queue" and ?j = "staged now st j" and ?a = "(ctx, kwargs\<lparr>kw_job_id := None\<rparr>)"
  obtain r where r: "on_r (update_job_stage (sv_redis V) now jid st) w = (Inr ?j, w\<lparr>w_redis := r\<rparr>)"
    "jobs_wf (sv_redis V) r" "jobs_of (sv_redis V) r = (jobs V w)(jid \<mapsto> ?j)" "untouched (w_redis w) r"
    using update_stage_world [OF assms(1,2)] by blast
  note q = staged_queueable [OF assms(3), of now st]
  obtain s where s: "runner_enqueue (sv_redis V) (sv_rq V) queue ?j ctx kwargs (r, w_rq w) =
      (Inr i, (added ?n ?j ?a r, s))"
    "\<forall>i'. status_of (sv_rq V) s i' = (if i' = i then Some Queued else status_of (sv_rq V) (w_rq w) i')"
    using runner_enqueue_eval [OF q(1), of queue ctx kwargs r "w_rq w"] assms(5) by auto
  let ?w = "w\<lparr>w_redis := added ?n ?j ?a r, w_rq := s\<rparr>"
  have same: "same_queue n (w_redis w) r" for n by (rule untouched_queue [OF r(4)])
  have wf: "sq_wf (sv_redis V) ?n r"
    using same_queue_wf [OF same] assms(4) by (simp add: can_join_def queue_ok_def)
  have new: "SidKey (from_job ?j) \<notin> set (items (sv_redis V) r ?n)"
    using assms(4) same [of ?n] q(2) by (simp add: can_join_def same_queue_def)
  have "stage_and_enqueue V now queue jid st ctx kwargs w = (Inr ?j, ?w)"
    using r(1) s(1) by (simp add: stage_and_enqueue_def prog_simps)
  moreover have "jobs_ok V ?w" "jobs V ?w = (jobs V w)(jid \<mapsto> ?j)"
    using r(2,3) same_jobs_wf [OF same_jobs_added] same_jobs_of [OF same_jobs_added]
    by (simp_all add: jobs_ok_def jobs_def)
  moreover have "queue_ok V ?w ?n" using added_wf [OF wf q(1) new] by (simp add: queue_ok_def)
  moreover have "queue_entries V ?w ?n = queue_entries V w ?n @ [(?j, ?a)]"
    using added_contents [OF new] same_queue_contents [OF same, of ?n] by (simp add: queue_entries_def)
  moreover have "same_queue n (w_redis w) (w_redis ?w)" if "n \<noteq> ?n" for n
    using same_queue_trans [OF same same_queue_added [OF that]] by simp
  moreover have "\<forall>i'. rq_state V ?w i' = (if i' = i then Some Queued else rq_state V w i')"
    using s(2) by (simp add: rq_state_def)
  ultimately show ?thesis by (intro exI [of _ ?w]) simp
qed

lemma push_to_waitlist_eval:
  assumes "jobs_ok V w" and "jobs V w jid = Some j" and "queueable j"
    and "can_join V w (get_waitlist (queue_prefix ctx)) j"
  shows "\<exists>w'. push_to_waitlist V now jid ctx w = (Inr (jid, ctx), w') \<and>
    jobs_ok V w' \<and> jobs V w' = jobs V w \<and>
    queue_ok V w' (get_waitlist (queue_prefix ctx)) \<and>
    queue_entries V w' (get_waitlist (queue_prefix ctx)) = queue_entries V w (get_waitlist (queue_prefix ctx))
      @ [(j, (ctx, no_kwargs\<lparr>kw_job_id := Some (get_rq_job_id jid EXEC_Q)\<rparr>))] \<and>
    (\<forall>n. n \<noteq> get_waitlist (queue_prefix ctx) \<longrightarrow> same_queue n (w_redis w) (w_redis w')) \<and>
    w_rq w' = w_rq w \<and> w_db w' = w_db w \<and> w_mss w' = w_mss w"
proof -
  let ?n = "get_waitlist (queue_prefix ctx)"
  let ?a = "(ctx, no_kwargs\<lparr>kw_job_id := Some (get_rq_job_id jid EXEC_Q)\<rparr>)"
  let ?w = "w\<lparr>w_redis := added ?n j ?a (w_redis w)\<rparr>"
  have get: "job_get (sv_redis V) now jid (w_redis w) = (Inr j, w_redis w)"
    using job_get_eval [of "w_redis w" now jid] assms(1,2) by (simp add: jobs_ok_def jobs_def)
  have "push_to_waitlist V now jid ctx w = (Inr (jid, ctx), ?w)"
    by (simp add: push_to_waitlist_def prog_simps get sq_add_eval [OF assms(3)])
  moreover have "jobs_ok V ?w" "jobs V ?w = jobs V w"
    using assms(1) same_jobs_wf [OF same_jobs_added] same_jobs_of [OF same_jobs_added]
    by (simp_all add: jobs_ok_def jobs_def)
  moreover have "queue_ok V ?w ?n"
    using added_wf [OF _ assms(3)] assms(4) by (simp add: can_join_def queue_ok_def)
  moreover have "queue_entries V ?w ?n = queue_entries V w ?n @ [(j, ?a)]"
    using added_contents assms(4) by (simp add: can_join_def queue_entries_def)
  moreover have "same_queue n (w_redis w) (w_redis ?w)" if "n \<noteq> ?n" for n
    using same_queue_added [OF that] by simp
  ultimately show ?thesis by (intro exI [of _ ?w]) simp
qed

lemma total_duration_eval:
  "total_duration_of V now queue w = (runner_total_duration (sv_redis V) queue now (w_redis w), w)"
  by (simp add: total_duration_of_def prog_simps)

lemma next_booking_world:
  assumes "get_next_booking (sv_db V) now (w_db w) = (Inr nb, w_db w)"
  shows "on_d (get_next_booking (sv_db V) now) w = (Inr nb, w)"
  using assms by (simp add: prog_simps)

lemma try_normal_eval:
  fixes ctx j
  defines "queue \<equiv> get_normal_execution_queue (queue_prefix ctx)"
    and "waitlist \<equiv> get_waitlist (queue_prefix ctx)"
    and "kw \<equiv> no_kwargs\<lparr>kw_job_id := Some (get_rq_job_id (job_id j) EXEC_Q)\<rparr>"
  assumes ok: "jobs_ok V w" and j: "jobs V w (job_id j) = Some j" "queueable j" "estimated_duration j = Some d"
    and nb: "get_next_booking (sv_db V) now (w_db w) = (Inr nb, w_db w)"
    and total: "runner_total_duration (sv_redis V) queue now (w_redis w) = Inr t"
    and join: "can_join V w (static_name queue) j" "can_join V w waitlist j"
  shows "\<exists>w'. try_enqueue_on_normal_queue V now j ctx w = (Inr (job_id j, ctx), w') \<and> jobs_ok V w' \<and>
    (if must_wait now nb t d then
       jobs V w' = jobs V w \<and> queue_entries V w' waitlist = queue_entries V w waitlist @ [(j, (ctx, kw))] \<and>
       queue_entries V w' (static_name queue) = queue_entries V w (static_name queue) \<and>
       rq_state V w' = rq_state V w
     else
       jobs V w' = (jobs V w)(job_id j \<mapsto> staged now EXEC_Q j) \<and>
       queue_entries V w' (static_name queue) =
         queue_entries V w (static_name queue) @ [(staged now EXEC_Q j, (ctx, no_kwargs))] \<and>
       queue_entries V w' waitlist = queue_entries V w waitlist \<and>
       rq_state V w' = (rq_state V w)(get_rq_job_id (job_id j) EXEC_Q \<mapsto> Queued))"
proof -
  have names: "static_name queue \<noteq> waitlist" "waitlist \<noteq> static_name queue"
  proof -
    have "last (static_name queue) = CHR ''n''" "last waitlist = CHR ''t''"
      by (simp_all add: static_name_def queue_def waitlist_def get_normal_execution_queue_def get_waitlist_def)
    then show "static_name queue \<noteq> waitlist" "waitlist \<noteq> static_name queue" by auto
  qed
  have nokw: "kw\<lparr>kw_job_id := None\<rparr> = no_kwargs" by (simp add: kw_def no_kwargs_def)
  have fold: "try_enqueue_on_normal_queue V now j ctx w =
      (if must_wait now nb t d
       then thenE (push_to_waitlist V now (job_id j) ctx) (retE (job_id j, ctx)) w
       else thenE (stage_and_enqueue V now queue (job_id j) EXEC_Q ctx kw) (retE (job_id j, ctx)) w)"
    using total j(3)
    by (cases nb) (simp_all add: try_enqueue_on_normal_queue_def Let_def prog_simps nb
        total_duration_eval queue_def kw_def must_wait_def longer_than_def)
  show ?thesis
  proof (cases "must_wait now nb t d")
    case True
    obtain w' where w': "push_to_waitlist V now (job_id j) ctx w = (Inr (job_id j, ctx), w')"
      "jobs_ok V w'" "jobs V w' = jobs V w"
      "queue_entries V w' waitlist = queue_entries V w waitlist @ [(j, (ctx, kw))]"
      "\<forall>n. n \<noteq> waitlist \<longrightarrow> same_queue n (w_redis w) (w_redis w')" "w_rq w' = w_rq w"
      using push_to_waitlist_eval [OF ok j(1,2), of ctx now] join(2)
      unfolding waitlist_def kw_def by blast
    have "queue_entries V w' (static_name queue) = queue_entries V w (static_name queue)"
      using w'(5) names same_queue_contents unfolding queue_entries_def by blast
    with w' True fold show ?thesis by (intro exI [of _ w']) (simp add: prog_simps rq_state_def)
  next
    case False
    have kwid: "kw_job_id kw = Some (get_rq_job_id (job_id j) EXEC_Q)" by (simp add: kw_def)
    obtain w' where w': "stage_and_enqueue V now queue (job_id j) EXEC_Q ctx kw w = (Inr (staged now EXEC_Q j), w')"
      "jobs_ok V w'" "jobs V w' = (jobs V w)(job_id j \<mapsto> staged now EXEC_Q j)"
      "queue_entries V w' (static_name queue) =
        queue_entries V w (static_name queue) @ [(staged now EXEC_Q j, (ctx, kw\<lparr>kw_job_id := None\<rparr>))]"
      "\<forall>n. n \<noteq> static_name queue \<longrightarrow> same_queue n (w_redis w) (w_redis w')"
      "\<forall>i'. rq_state V w' i' = (if i' = get_rq_job_id (job_id j) EXEC_Q then Some Queued else rq_state V w i')"
      using stage_and_enqueue_eval [OF ok j(1,2) join(1) kwid, of now EXEC_Q ctx] by blast
    have "queue_entries V w' waitlist = queue_entries V w waitlist"
      using w'(5) names same_queue_contents unfolding queue_entries_def by blast
    moreover have "rq_state V w' = (rq_state V w)(get_rq_job_id (job_id j) EXEC_Q \<mapsto> Queued)"
      using w'(6) by (intro ext) simp
    ultimately show ?thesis
      using w' False fold nokw by (intro exI [of _ w']) (simp add: prog_simps)
  qed
qed

end

end
