(* ===== verification/Instances.thy ===== *)
theory Instances imports Scheduler_Facts begin

text \<open>
  Concrete services: the in-memory Redis, rq and database, an executor that takes a second for
  every job and a message server that keeps what it is sent. They satisfy every law, and the
  witnesses of the properties run the model on them.
\<close>

type_synonym mem_redis_state = "(rkey, payload) mem"

definition default_settings :: settings where
  "default_settings = \<lparr>MAX_TIME_SLOT_LENGTH = 21600, MIN_TIME_SLOT_LENGTH = 120,
     MAX_SLOTS_PER_DAY = 1, CURRENT_DATE = None\<rparr>"

definition mem_services :: "(mem_redis_state, mem_rq_state, mem_db_state, mss_event list) services" where
  "mem_services = \<lparr>sv_redis = mem_redis, sv_rq = mem_rq, sv_db = mem_db,
     sv_settings = default_settings, sv_root_url = ''http://localhost'',
     sv_read_job_file = (\<lambda>path. Inr path), sv_compile = (\<lambda>path jid. Inr 1),
     sv_run = (\<lambda>jid. Inr (jid @ ''.hdf5'')), sv_recalibrate = Inr None,
     sv_last_calibrated = Inr ''2025-01-01'', sv_move_file = (\<lambda>path. Inr path),
     sv_read_hdf5 = (\<lambda>path. Inr DISCRIMINATED), sv_discriminate = (\<lambda>path. Inr (HexMemory [[''0x0'']])),
     sv_integrate = (\<lambda>path. Inr (IQMemory [])), sv_mss_send = (\<lambda>e. modE (\<lambda>l. l @ [e]))\<rparr>"

lemma mem_services_sel [simp]:
  "sv_redis mem_services = mem_redis" "sv_rq mem_services = mem_rq" "sv_db mem_services = mem_db"
  "sv_settings mem_services = default_settings" "sv_root_url mem_services = ''http://localhost''"
  "sv_run mem_services jid = Inr (jid @ ''.hdf5'')"
  by (simp_all add: mem_services_def)

interpretation mem_sched: scheduler mem_services
  unfolding scheduler_def mem_services_sel
  by (intro conjI mem_jobs.job_redis_axioms mem_rq.rq_laws_axioms mem_db.sql_laws_axioms)

definition empty_world :: "(mem_redis_state, mem_rq_state, mem_db_state, mss_event list) world" where
  "empty_world = \<lparr>w_redis = mem_empty, w_rq = mq_empty, w_db = ([], []), w_mss = []\<rparr>"

definition sample_context :: queue_context where
  "sample_context = \<lparr>queue_prefix = ''loke'', force_normal_queue = Some False, max_idle_time = 900,
     default_recalibration_interval = 86400, backend_name = ''loke''\<rparr>"

definition sample_job :: "string \<Rightarrow> rat \<Rightarrow> job" where
  "sample_job jid d = apply_update 0 (new_job jid ''loke'' ''2025-01-01'' (Some ''u'') PRE_PROC_W 0)
     (estimate_update d)"

text \<open>A world that stores one job.\<close>

definition world_with :: "job \<Rightarrow> (mem_redis_state, mem_rq_state, mem_db_state, mss_event list) world" where
  "world_with j = empty_world\<lparr>w_redis := snd (job_insert mem_redis 0 j mem_empty)\<rparr>"

lemma mem_empty_sel [simp]:
  "hget mem_redis mem_empty n k = None" "zscore mem_redis mem_empty z m = None"
  "lrange mem_redis mem_empty n a b = []"
  by (simp_all add: mem_redis_def mem_empty_def mem_score_def mem_lrange_def)

lemma mem_empty_jobs [simp]: "jobs_wf mem_redis mem_empty" "jobs_of mem_redis mem_empty = Map.empty"
  by (simp_all add: jobs_wf_def coll_wf_def is_stored_def jobs_of_def fun_eq_iff)

lemma sample_job_ok [simp]:
  "job_ok (sample_job jid d)" "queueable (sample_job jid d)" "job_id (sample_job jid d) = jid"
  "estimated_duration (sample_job jid d) = Some d" "user_id (sample_job jid d) = Some ''u''"
  "status (sample_job jid d) = PENDING"
  using estimated_queueable
  by (simp_all add: sample_job_def estimate_update_def no_update_def new_job_def)

lemma sample_job_plain [simp]: "plain_job (sample_job jid d) \<longleftrightarrow> CHR '':'' \<notin> set jid"
  by (simp add: plain_job_def opt_text_def)

lemma world_with_facts:
  assumes "job_ok j" "plain_job j"
  shows "jobs_ok mem_services (world_with j)" "jobs mem_services (world_with j) = [job_id j \<mapsto> j]"
    "queue_ok mem_services (world_with j) n" "queue_entries mem_services (world_with j) n = []"
    "items mem_redis (w_redis (world_with j)) n = []"
    "runner_total_duration mem_redis q now (w_redis (world_with j)) = Inr 0"
    "w_db (world_with j) = ([], [])" "w_rq (world_with j) = mq_empty" "w_mss (world_with j) = []"
proof -
  obtain s' where s': "job_insert mem_redis 0 j mem_empty = (Inr j, s')" "jobs_wf mem_redis s'"
    "jobs_of mem_redis s' = (jobs_of mem_redis mem_empty)(job_id j \<mapsto> j)" "mem_jobs.untouched mem_empty s'"
    using mem_jobs.job_insert_eval [of mem_empty j 0] assms by auto
  have same: "mem_jobs.same_queue n mem_empty s'" for n by (rule mem_jobs.untouched_queue [OF s'(4)])
  show "jobs_ok mem_services (world_with j)" "jobs mem_services (world_with j) = [job_id j \<mapsto> j]"
    using s' by (simp_all add: jobs_ok_def jobs_def world_with_def empty_world_def)
  show "queue_ok mem_services (world_with j) n"
    using mem_jobs.same_queue_wf [OF same] s' by (simp add: queue_ok_def world_with_def empty_world_def)
  show "queue_entries mem_services (world_with j) n = []"
    using mem_jobs.same_queue_contents [OF same] s' by (simp add: queue_entries_def world_with_def empty_world_def)
  show "items mem_redis (w_redis (world_with j)) n = []"
    using same s' by (simp add: mem_jobs.same_queue_def world_with_def empty_world_def)
  have "hget mem_redis s' (metadata_of m) k = None" for m k
    using same [of m] by (simp add: mem_jobs.same_queue_def)
  then show "runner_total_duration mem_redis q now (w_redis (world_with j)) = Inr 0"
    using s' by (simp add: runner_total_duration_def sq_total_duration_def sq_current_job_def parse_job_def
        world_with_def empty_world_def)
  show "w_db (world_with j) = ([], [])" "w_rq (world_with j) = mq_empty" "w_mss (world_with j) = []"
    by (simp_all add: world_with_def empty_world_def)
qed

lemma world_with_join: "job_ok j \<Longrightarrow> plain_job j \<Longrightarrow> can_join mem_services (world_with j) n k"
  by (simp add: can_join_def world_with_facts)

lemma world_with_no_booking:
  "job_ok j \<Longrightarrow> plain_job j \<Longrightarrow>
    get_next_booking mem_db now (w_db (world_with j)) = (Inr None, w_db (world_with j))"
  by (simp add: world_with_facts get_next_booking_def prog_simps mem_db_def first_validated_def)

end
