(* ===== verification/Queue_Properties.thy ===== *)
theory Queue_Properties imports Instances begin

text \<open>
  What the static queue promises: it is a list. The reference is a small abstract machine on lists
  of entries; the operations of \<open>StaticQueue\<close> refine it for every sequence of calls. The searches
  \<open>pop_first\<close> and \<open>pop_many\<close> are related to \<open>List.find\<close> and to the greedy choice \<open>fitting\<close>.
\<close>

section \<open>The abstract machine\<close>

datatype queue_op = Add job call_args | TakeNext | TakeOut entry

fun list_allows :: "queue_op \<Rightarrow> entry list \<Rightarrow> bool" where
  "list_allows (Add j a) es \<longleftrightarrow> queueable j \<and> key_of (j, a) \<notin> set (map key_of es)"
| "list_allows TakeNext es \<longleftrightarrow> es \<noteq> []"
| "list_allows (TakeOut e) es \<longleftrightarrow> e \<in> set es"

fun list_do :: "queue_op \<Rightarrow> entry list \<Rightarrow> entry option \<times> entry list" where
  "list_do (Add j a) es = (None, es @ [(j, a)])"
| "list_do TakeNext es = (Some (hd es), tl es)"
| "list_do (TakeOut e) es = (Some e, remove1 e es)"

fun list_runs :: "queue_op list \<Rightarrow> entry list \<Rightarrow> (entry option list \<times> entry list) option" where
  "list_runs [] es = Some ([], es)"
| "list_runs (c # cs) es =
     (if list_allows c es then
        (case list_runs cs (snd (list_do c es)) of
           None \<Rightarrow> None
         | Some (outs, es') \<Rightarrow> Some (fst (list_do c es) # outs, es'))
      else None)"

text \<open>The same commands as calls of a queue.\<close>

fun queue_do ::
    "(job \<Rightarrow> call_args \<Rightarrow> (unit, 's) prog) \<Rightarrow> (entry option, 's) prog \<Rightarrow> (rkey \<Rightarrow> (entry, 's) prog)
      \<Rightarrow> queue_op \<Rightarrow> (entry option, 's) prog" where
  "queue_do add nxt pop (Add j a) = thenE (add j a) (retE None)"
| "queue_do add nxt pop TakeNext = nxt"
| "queue_do add nxt pop (TakeOut e) = bindE (pop (key_of e)) (\<lambda>x. retE (Some x))"

primrec queue_runs ::
    "(queue_op \<Rightarrow> (entry option, 's) prog) \<Rightarrow> queue_op list \<Rightarrow> (entry option list, 's) prog" where
  "queue_runs run [] = retE []"
| "queue_runs run (c # cs) = bindE (run c) (\<lambda>x. bindE (queue_runs run cs) (\<lambda>xs. retE (x # xs)))"

context job_fifo
begin

lemma do_refines:
  assumes "ok s" and "list_allows c (contents s)"
  shows "\<exists>s'. queue_do add next_entry pop c s = (Inr (fst (list_do c (contents s))), s') \<and> ok s' \<and>
    contents s' = snd (list_do c (contents s))"
proof (cases c)
  case (Add j a)
  then show ?thesis using add_law [OF assms(1), of j a] assms(2) by (auto simp: prog_simps)
next
  case TakeNext
  then obtain e es where "contents s = e # es" using assms(2) by (cases "contents s") auto
  with TakeNext next_law [OF assms(1)] show ?thesis by auto
next
  case (TakeOut e)
  then show ?thesis using pop_law [OF assms(1), of e] assms(2) by (auto simp: prog_simps)
qed

lemma runs_refine:
  assumes "ok s" and "list_runs cs (contents s) = Some (outs, es')"
  shows "\<exists>s'. queue_runs (queue_do add next_entry pop) cs s = (Inr outs, s') \<and> ok s' \<and>
    contents s' = es' \<and> total s' = Inr (sum_list (map entry_duration es'))"
  using assms
proof (induction cs arbitrary: s outs)
  case Nil
  then show ?case using total_law by (auto simp: prog_simps)
next
  case (Cons c cs)
  then obtain outs' where c: "list_allows c (contents s)"
    "list_runs cs (snd (list_do c (contents s))) = Some (outs', es')"
    "outs = fst (list_do c (contents s)) # outs'"
    by (auto split: if_splits option.splits)
  obtain s1 where s1: "queue_do add next_entry pop c s = (Inr (fst (list_do c (contents s))), s1)"
    "ok s1" "contents s1 = snd (list_do c (contents s))"
    using do_refines [OF Cons.prems(1) c(1)] by blast
  obtain s2 where "queue_runs (queue_do add next_entry pop) cs s1 = (Inr outs', s2)" "ok s2"
    "contents s2 = es'" "total s2 = Inr (sum_list (map entry_duration es'))"
    using Cons.IH [OF s1(2)] c(2) s1(3) by auto
  with s1(1) c(3) show ?case by (simp add: prog_simps)
qed

end

context job_redis
begin

lemmas queue_runs_refine = queue.runs_refine

lemma shorter_first_eval:
  assumes wf: "sq_wf R n s"
  shows "\<exists>s'. sq_pop_first R n (is_job_shorter d) s =
      (Inr (List.find (\<lambda>e. Secs (entry_duration e) < d) (sq_contents R n s)), s') \<and> sq_wf R n s' \<and>
    sq_contents R n s' = (case List.find (\<lambda>e. Secs (entry_duration e) < d) (sq_contents R n s) of
       None \<Rightarrow> sq_contents R n s | Some e \<Rightarrow> remove1 e (sq_contents R n s))"
proof -
  let ?p = "\<lambda>k. case key_duration k of Inl _ \<Rightarrow> False | Inr x \<Rightarrow> Secs x < d"
  have p: "?p \<circ> key_of = (\<lambda>e. Secs (entry_duration e) < d)" by (simp add: fun_eq_iff)
  have ev: "sq_pop_first R n (is_job_shorter d) s =
    (case List.find (?p \<circ> key_of) (sq_contents R n s) of None \<Rightarrow> (Inr None, s)
     | Some e \<Rightarrow> (Inr (Some e), removed n (key_of e) (entry_duration e) s))"
    by (rule sq_pop_first_eval [OF wf]) (simp add: is_job_shorter_def)
  show ?thesis
  proof (cases "List.find (\<lambda>e. Secs (entry_duration e) < d) (sq_contents R n s)")
    case None
    with ev wf show ?thesis unfolding p by simp
  next
    case (Some e)
    then have "e \<in> set (sq_contents R n s)" using find_split [OF Some] by force
    with ev Some show ?thesis
      unfolding p by (simp add: removed_wf [OF wf] removed_contents [OF wf])
  qed
qed

end

text \<open>A consumer of \<open>pop_many\<close> that keeps the list of what it was given.\<close>

definition collecting :: "entry \<Rightarrow> (unit, 'r \<times> entry list) prog" where
  "collecting e = modE (\<lambda>(r, acc). (r, acc @ [e]))"

lemma collecting_eval [prog_simps]: "collecting e (r, acc) = (Inr (), (r, acc @ [e]))"
  by (simp add: collecting_def modE_def)

definition pop_many_list ::
    "'r store \<Rightarrow> string \<Rightarrow> rat option \<Rightarrow> 'r \<Rightarrow> unit result \<times> 'r \<times> entry list" where
  "pop_many_list R n limit s =
     sq_pop_many R n fst (\<lambda>r (_, acc). (r, acc)) collecting limit (s, [])"

context job_redis
begin

lemma collecting_keeps: "\<exists>s'. collecting e s = (Inr (), s') \<and> same_queue n (fst s) (fst s')"
  by (cases s) (simp add: prog_simps)

lemma consume_collecting:
  assumes "sq_wf R n s" and "distinct es" and "set es \<subseteq> set (sq_contents R n s)"
  shows "\<exists>s'. consume n fst (\<lambda>r (_, acc). (r, acc)) collecting es (s, acc) = (Inr (), (s', acc @ es)) \<and>
    sq_wf R n s' \<and> sq_contents R n s' = fold remove1 es (sq_contents R n s)"
  using assms
proof (induction es arbitrary: s acc)
  case (Cons e es)
  let ?t = "removed n (key_of e) (entry_duration e) s"
  have e: "e \<in> set (sq_contents R n s)" using Cons.prems by simp
  have pop: "sq_pop_job R n (key_of e) s = (Inr e, ?t)" by (rule sq_pop_job_eval [OF Cons.prems(1) e])
  have wf: "sq_wf R n ?t" by (rule removed_wf [OF Cons.prems(1) e])
  have c: "sq_contents R n ?t = remove1 e (sq_contents R n s)"
    by (rule removed_contents [OF Cons.prems(1) e])
  have sub: "set es \<subseteq> set (sq_contents R n ?t)"
  proof
    fix x
    assume "x \<in> set es"
    with Cons.prems(2,3) have "x \<noteq> e" "x \<in> set (sq_contents R n s)" by auto
    then show "x \<in> set (sq_contents R n ?t)" unfolding c using in_set_remove1 [of x e] by blast
  qed
  have "distinct es" using Cons.prems(2) by simp
  then obtain s' where "consume n fst (\<lambda>r (_, acc). (r, acc)) collecting es (?t, acc @ [e]) =
      (Inr (), (s', (acc @ [e]) @ es))" "sq_wf R n s'"
    "sq_contents R n s' = fold remove1 es (sq_contents R n ?t)"
    using Cons.IH [OF wf _ sub, of "acc @ [e]"] by blast
  then show ?case
    by (intro exI [of _ s']) (simp add: consume_def prog_simps pop c)
qed (simp add: consume_def prog_simps)

lemma pop_many_list_short:
  assumes wf: "sq_wf R n s" and len: "length (sq_contents R n s) \<le> batch_size"
    and lim: "case limit of None \<Rightarrow> True | Some d \<Rightarrow> 0 < d"
  defines "taken \<equiv> fitting (case limit of None \<Rightarrow> Infty | Some d \<Rightarrow> Secs d) (sq_contents R n s)"
  shows "\<exists>s'. pop_many_list R n limit s = (Inr (), (s', taken)) \<and> sq_wf R n s' \<and>
    sq_contents R n s' = fold remove1 taken (sq_contents R n s)"
proof -
  have sub: "subseq taken (sq_contents R n s)" unfolding taken_def by (rule fitting_subseq)
  have "set taken \<subseteq> set (sq_contents R n s)"
    using list_emb_set [OF sub] by blast
  moreover have "distinct taken"
    using contents_distinct [OF wf] subseqs_distinctD [of taken] sub by auto
  ultimately have "distinct taken" "set taken \<subseteq> set (sq_contents R n s)" by simp_all
  from consume_collecting [OF wf this, of "[]"] show ?thesis
    unfolding pop_many_list_def
    using pop_many_short [of n fst "(s, [])" limit "\<lambda>r (_, acc). (r, acc)" collecting] wf len lim
    by (simp add: taken_def)
qed

lemma pop_many_list_long:
  assumes wf: "sq_wf R n s"
    and len: "batch_size < length (sq_contents R n s)" "length (sq_contents R n s) \<le> 2 * batch_size"
  shows "\<exists>s' taken. pop_many_list R n None s = (Inr (), (s', taken)) \<and>
    sq_contents R n s' = drop batch_size (sq_contents R n s)"
proof -
  let ?s = "(s, []) :: 'r \<times> entry list"
  obtain s' where s': "sq_pop_many R n fst (\<lambda>r (_, acc). (r, acc)) collecting None ?s = (Inr (), s')"
    "sq_contents R n (fst s') = drop batch_size (sq_contents R n (fst ?s))"
    using pop_many_second_batch [of fst "\<lambda>r (_, acc). (r, acc)" n ?s collecting]
      wf len collecting_keeps by fastforce
  then show ?thesis
    by (intro exI [of _ "fst s'"] exI [of _ "snd s'"]) (simp add: pop_many_list_def)
qed

end

section \<open>Sample queues\<close>

definition sample_entry :: "nat \<Rightarrow> rat \<Rightarrow> entry" where
  "sample_entry i d = (sample_job (replicate i (CHR ''j'')) d, (sample_context, no_kwargs))"

lemma sample_entry_simps [simp]:
  "queueable (fst (sample_entry i d))" "entry_duration (sample_entry i d) = d"
  "key_of (sample_entry i d) = SidKey \<lparr>uuid = replicate i (CHR ''j''), duration = d\<rparr>"
  "sample_entry i d = sample_entry i' d' \<longleftrightarrow> i = i' \<and> d = d'"
proof -
  show "queueable (fst (sample_entry i d))" "entry_duration (sample_entry i d) = d"
    by (simp_all add: sample_entry_def entry_duration_def)
  show k: "key_of (sample_entry i d) = SidKey \<lparr>uuid = replicate i (CHR ''j''), duration = d\<rparr>" for i d
    by (simp add: sample_entry_def key_of_def from_job_def from_details_def)
  show "sample_entry i d = sample_entry i' d' \<longleftrightarrow> i = i' \<and> d = d'"
    using k [of i d] k [of i' d'] by (metis length_replicate rkey.inject(2) storage_id.ext_inject)
qed

text \<open>The in-memory server after adding some entries to an empty queue.\<close>

definition filled :: "string \<Rightarrow> entry list \<Rightarrow> mem_redis_state" where
  "filled n es = snd (forE es (\<lambda>(j, a). sq_add mem_redis n j a) mem_empty)"

lemma filled_wf:
  assumes "\<forall>e\<in>set es. queueable (fst e)" and "distinct (map key_of es)"
  shows "sq_wf mem_redis n (filled n es)" "sq_contents mem_redis n (filled n es) = es"
proof -
  have "\<exists>s'. forE es (\<lambda>(j, a). sq_add mem_redis n j a) mem_empty = (Inr (), s') \<and>
      sq_wf mem_redis n s' \<and> sq_contents mem_redis n s' = sq_contents mem_redis n mem_empty @ es"
    by (rule mem_jobs.queue.add_all) (use assms in simp_all)
  then show "sq_wf mem_redis n (filled n es)" "sq_contents mem_redis n (filled n es) = es"
    by (auto simp: filled_def)
qed

definition sample_queue :: "string \<Rightarrow> (nat \<times> rat) list \<Rightarrow> mem_redis_state" where
  "sample_queue n ps = filled n (map (\<lambda>(i, d). sample_entry i d) ps)"

lemma sample_queue_facts [simp]:
  assumes "distinct (map fst ps)"
  shows "sq_wf mem_redis n (sample_queue n ps)"
    "sq_contents mem_redis n (sample_queue n ps) = map (\<lambda>(i, d). sample_entry i d) ps"
proof -
  have "inj_on (\<lambda>p. key_of (case p of (i, d) \<Rightarrow> sample_entry i d)) (set ps)"
  proof (rule inj_onI)
    fix p q
    assume "p \<in> set ps" "q \<in> set ps"
      "key_of (case p of (i, d) \<Rightarrow> sample_entry i d) = key_of (case q of (i, d) \<Rightarrow> sample_entry i d)"
    then show "p = q" by (auto simp: split_beta prod_eq_iff)
  qed
  then have "distinct (map key_of (map (\<lambda>(i, d). sample_entry i d) ps))"
    using assms by (simp add: distinct_map comp_def)
  moreover have "\<forall>e\<in>set (map (\<lambda>(i, d). sample_entry i d) ps). queueable (fst e)" by auto
  ultimately show "sq_wf mem_redis n (sample_queue n ps)"
    "sq_contents mem_redis n (sample_queue n ps) = map (\<lambda>(i, d). sample_entry i d) ps"
    unfolding sample_queue_def using filled_wf by blast+
qed

section \<open>Properties\<close>

text \<open>
  C1. The static queue is a list. Whatever sequence of additions, removals of the head and removals
  of a given entry the list machine allows, \<open>StaticQueue.add\<close>, \<open>next\<close> and \<open>pop_job\<close> return what the
  list machine returns, leave its list as the queue's contents, and keep the stored total equal to
  the sum of the estimated durations of the entries that are left.
\<close>

theorem queue_refines_list:
  assumes "job_redis R" and "sq_wf R n s"
    and "list_runs cs (sq_contents R n s) = Some (outs, es')"
  shows "\<exists>s'. queue_runs (queue_do (sq_add R n) (sq_next R n) (sq_pop_job R n)) cs s = (Inr outs, s') \<and>
    sq_wf R n s' \<and> sq_contents R n s' = es' \<and>
    sq_total_duration R n s' = Inr (sum_list (map entry_duration es'))"
  by (rule job_redis.queue_runs_refine [OF assms])

theorem queue_refines_list_witness:
  "\<exists>s'. queue_runs (queue_do (sq_add mem_redis ''q'') (sq_next mem_redis ''q'') (sq_pop_job mem_redis ''q''))
      [Add (sample_job ''a'' 2) (sample_context, no_kwargs), Add (sample_job ''b'' 3) (sample_context, no_kwargs), TakeNext]
      mem_empty = (Inr [None, None, Some (sample_job ''a'' 2, (sample_context, no_kwargs))], s') \<and>
    sq_total_duration mem_redis ''q'' s' = Inr 3"
proof -
  have "list_runs [Add (sample_job ''a'' 2) (sample_context, no_kwargs),
      Add (sample_job ''b'' 3) (sample_context, no_kwargs), TakeNext] (sq_contents mem_redis ''q'' mem_empty) =
    Some ([None, None, Some (sample_job ''a'' 2, (sample_context, no_kwargs))],
      [(sample_job ''b'' 3, (sample_context, no_kwargs))])"
    by (simp add: key_of_def from_job_def from_details_def)
  from queue_refines_list [OF mem_jobs.job_redis_axioms mem_empty_wf(1) this]
  show ?thesis by (auto simp: entry_duration_def)
qed

text \<open>
  \<open>pop_first\<close> with the test \<open>_is_job_shorter\<close> returns the first entry of the queue whose estimate
  is strictly below the limit, wherever in the batches of 100 it stands, and takes exactly that
  entry out; when no entry is shorter it returns nothing and changes nothing.
\<close>

theorem pop_first_finds_first:
  assumes "job_redis R" and "sq_wf R n s"
  shows "\<exists>s'. sq_pop_first R n (is_job_shorter d) s =
      (Inr (List.find (\<lambda>e. Secs (entry_duration e) < d) (sq_contents R n s)), s') \<and> sq_wf R n s' \<and>
    sq_contents R n s' = (case List.find (\<lambda>e. Secs (entry_duration e) < d) (sq_contents R n s) of
       None \<Rightarrow> sq_contents R n s | Some e \<Rightarrow> remove1 e (sq_contents R n s))"
  by (rule job_redis.shorter_first_eval [OF assms])

theorem pop_first_finds_first_witness:
  "\<exists>s'. sq_pop_first mem_redis ''q'' (is_job_shorter (Secs 5))
      (sample_queue ''q'' [(1, 9), (2, 4), (3, 1)]) = (Inr (Some (sample_entry 2 4)), s') \<and>
    sq_contents mem_redis ''q'' s' = [sample_entry 1 9, sample_entry 3 1]"
proof -
  have d: "distinct (map fst [(1 :: nat, 9 :: rat), (2, 4), (3, 1)])" by simp
  show ?thesis
    using pop_first_finds_first [OF mem_jobs.job_redis_axioms sample_queue_facts(1) [OF d], of "''q''" "Secs 5"]
    by (auto simp: sample_queue_facts(2) [OF d])
qed

text \<open>
  On a queue of at most 100 entries, \<open>pop_many\<close> yields the greedy choice: in queue order, every
  entry that still fits in what the earlier ones have left of the limit. With a limit the yielded
  entries together do not exceed it; without one everything is yielded. What is not yielded stays.
\<close>

theorem pop_many_takes_fitting:
  assumes "job_redis R" and "sq_wf R n s" and "length (sq_contents R n s) \<le> 100"
    and "case limit of None \<Rightarrow> True | Some d \<Rightarrow> 0 < d"
  shows "\<exists>s' taken. pop_many_list R n limit s = (Inr (), (s', taken)) \<and>
    taken = fitting (case limit of None \<Rightarrow> Infty | Some d \<Rightarrow> Secs d) (sq_contents R n s) \<and>
    sq_wf R n s' \<and> sq_contents R n s' = fold remove1 taken (sq_contents R n s) \<and>
    (case limit of None \<Rightarrow> taken = sq_contents R n s
     | Some d \<Rightarrow> sum_list (map entry_duration taken) \<le> d)"
  using job_redis.pop_many_list_short [OF assms(1,2), of limit] assms(3,4) fitting_within
  by (cases limit) (fastforce simp: batch_size_def)+

theorem pop_many_takes_fitting_witness:
  "\<exists>s' taken. pop_many_list mem_redis ''q'' (Some 6)
      (sample_queue ''q'' [(1, 4), (2, 5), (3, 2)]) = (Inr (), (s', taken)) \<and>
    taken = [sample_entry 1 4, sample_entry 3 2] \<and> sq_contents mem_redis ''q'' s' = [sample_entry 2 5]"
proof -
  have d: "distinct (map fst [(1 :: nat, 4 :: rat), (2, 5), (3, 2)])" by simp
  show ?thesis
    using pop_many_takes_fitting [OF mem_jobs.job_redis_axioms sample_queue_facts(1) [OF d], of "''q''" "Some 6"]
    by (auto simp: sample_queue_facts(2) [OF d])
qed

text \<open>
  \<open>pop_many\<close> misses entries on a longer queue. It reads each batch of 100 at a fixed offset of a
  list it is shortening: with more than 100 and at most 200 entries and no limit at all, where its
  contract is to yield every entry, the entries after the hundredth stay in the queue.
\<close>

theorem pop_many_misses_second_batch:
  assumes "job_redis R" and "sq_wf R n s"
    and "100 < length (sq_contents R n s)" "length (sq_contents R n s) \<le> 200"
  shows "\<exists>s' taken. pop_many_list R n None s = (Inr (), (s', taken)) \<and>
    sq_contents R n s' = drop 100 (sq_contents R n s) \<and> sq_contents R n s' \<noteq> []"
  using job_redis.pop_many_list_long [OF assms(1,2)] assms(3,4) by (auto simp: batch_size_def)

theorem pop_many_misses_second_batch_witness:
  "\<exists>s' taken. pop_many_list mem_redis ''q'' None
      (sample_queue ''q'' (map (\<lambda>i. (i, 1)) [0..<101])) = (Inr (), (s', taken)) \<and>
    sq_contents mem_redis ''q'' s' = [sample_entry 100 1]"
proof -
  let ?ps = "map (\<lambda>i. (i, 1 :: rat)) [0..<101]"
  have d: "distinct (map fst ?ps)" by (simp add: comp_def)
  have last: "drop 100 (map (\<lambda>(i, d). sample_entry i d) ?ps) = [sample_entry 100 1]"
    by (simp add: drop_map upt_conv_Cons)
  show ?thesis
    using pop_many_misses_second_batch [OF mem_jobs.job_redis_axioms sample_queue_facts(1) [OF d], of "''q''"] last
    by (auto simp: sample_queue_facts(2) [OF d])
qed

text \<open>
  Popping a job that a queue does not hold raises, and still takes the job's duration off the
  queue's running total: from a state whose total was the sum of its entries' durations it leaves
  the same entries under a total that is short by the duration of the foreign job.
\<close>

theorem pop_absent_corrupts_total:
  assumes "job_redis R" and "sq_wf R n s" and "hget R s (db_of n) (SidKey sid) = None"
    and "duration sid \<noteq> 0"
  shows "\<exists>s'. sq_pop_job R n (SidKey sid) s = (Inl ValidationError, s') \<and>
    sq_contents R n s' = sq_contents R n s \<and>
    sq_total_duration R n s' = Inr (sum_list (map entry_duration (sq_contents R n s)) - duration sid) \<and>
    \<not> sq_wf R n s'"
  using job_redis.sq_pop_job_absent [OF assms(1-3)] assms(4) by (auto simp: sq_wf_def)

theorem pop_absent_corrupts_total_witness:
  "\<exists>s'. sq_pop_job mem_redis ''q'' (SidKey \<lparr>uuid = ''a'', duration = 7\<rparr>) mem_empty = (Inl ValidationError, s') \<and>
    sq_total_duration mem_redis ''q'' s' = Inr (- 7)"
  using pop_absent_corrupts_total [OF mem_jobs.job_redis_axioms mem_empty_wf(1) mem_empty_sel(1),
      of "\<lparr>uuid = ''a'', duration = 7\<rparr>" "''q''"] by auto

text \<open>
  Taking the next job of an empty queue raises \<open>ValueError\<close>; it does not return \<open>None\<close>. The
  queue is empty afterwards as well.
\<close>

theorem next_on_empty_raises:
  assumes "job_redis R" and "sq_wf R n s" and "sq_contents R n s = []"
  shows "\<exists>s'. sq_next R n s = (Inl ValueError, s') \<and> sq_contents R n s' = []"
proof -
  have "items R s n = []" using assms(3) by (simp add: sq_contents_def)
  from job_redis.sq_next_empty [OF assms(1) this] show ?thesis by (auto simp: sq_contents_def)
qed

theorem next_on_empty_raises_witness:
  "\<exists>s'. sq_next mem_redis ''q'' mem_empty = (Inl ValueError, s')"
  using next_on_empty_raises [OF mem_jobs.job_redis_axioms mem_empty_wf] by blast

end
