(* ===== verification/Job_Expiry.thy ===== *)
theory Job_Expiry imports Instances begin

text \<open>
  The store of jobs over time. An insertion and every update give the field of the job the time to
  live of \<^verbatim>\<open>settings.py\<close> (14 days), counted from the call, and Redis drops the field when it is over.
  The abstract state is therefore a map from job ids to jobs with deadlines, of which only those whose
  deadline is still to come are seen; the program's operations on the server, with time passing
  between them, implement it. The indexes keep an entry of every live job under its present texts,
  and every entry that is not such an entry has a score that is over.
\<close>

section \<open>What the store promises\<close>

datatype job_command = InsertJob job | ReadJob string | ChangeJob string job_change | RemoveJob string

type_synonym timed_jobs = "string \<Rightarrow> (job \<times> int) option"

text \<open>The job that is seen under an id at an instant.\<close>

definition alive :: "int \<Rightarrow> timed_jobs \<Rightarrow> string \<Rightarrow> job option" where
  "alive now m i = (case m i of None \<Rightarrow> None | Some (j, deadline) \<Rightarrow> if now < deadline then Some j else None)"

text \<open>Fourteen days, in microseconds.\<close>

definition two_weeks :: int where
  "two_weeks = 14 * 24 * 3600 * 1000000"

fun spec_allows :: "int \<Rightarrow> job_command \<Rightarrow> timed_jobs \<Rightarrow> bool" where
  "spec_allows now (InsertJob j) m \<longleftrightarrow> job_ok j \<and> plain_job j \<and> alive now m (job_id j) = None"
| "spec_allows now (ReadJob i) m \<longleftrightarrow> True"
| "spec_allows now (ChangeJob i c) m \<longleftrightarrow> True"
| "spec_allows now (RemoveJob i) m \<longleftrightarrow> True"

fun spec_do :: "int \<Rightarrow> job_command \<Rightarrow> timed_jobs \<Rightarrow> job option result \<times> timed_jobs" where
  "spec_do now (InsertJob j) m = (Inr (Some j), m(job_id j \<mapsto> (j, now + two_weeks)))"
| "spec_do now (ReadJob i) m =
     (case alive now m i of None \<Rightarrow> Inl ItemNotFoundError | Some j \<Rightarrow> Inr (Some j), m)"
| "spec_do now (ChangeJob i c) m =
     (case alive now m i of
        None \<Rightarrow> (Inl ItemNotFoundError, m)
      | Some j \<Rightarrow> (Inr (Some (changed now c j)), m(i \<mapsto> (changed now c j, now + two_weeks))))"
| "spec_do now (RemoveJob i) m = (Inr None, m(i := None))"

text \<open>Commands with their instants, which do not go back.\<close>

fun spec_runs ::
    "int \<Rightarrow> (int \<times> job_command) list \<Rightarrow> timed_jobs \<Rightarrow> (job option result list \<times> timed_jobs) option" where
  "spec_runs now [] m = Some ([], m)"
| "spec_runs now ((t, c) # cs) m =
     (if now \<le> t \<and> spec_allows t c m then
        let (x, m1) = spec_do t c m in map_option (\<lambda>(xs, m2). (x # xs, m2)) (spec_runs t cs m1)
      else None)"

definition end_of :: "int \<Rightarrow> (int \<times> 'a) list \<Rightarrow> int" where
  "end_of now cs = last (now # map fst cs)"

section \<open>The same commands as calls of the program\<close>

fun store_change :: "'r store \<Rightarrow> int \<Rightarrow> string \<Rightarrow> job_change \<Rightarrow> (job, 'r) prog" where
  "store_change R now jid (ToStage st) = update_job_stage R now jid st"
| "store_change R now jid (Fail reason) = log_job_failure R now jid reason"
| "store_change R now jid (Results url data) = update_job_results R url now jid data"
| "store_change R now jid (Cancel reason) = job_update_one R now jid (cancel_update reason now)"
| "store_change R now jid (Estimate d) = job_update_one R now jid (estimate_update d)"

fun store_do :: "'r store \<Rightarrow> int \<Rightarrow> job_command \<Rightarrow> (job option, 'r) prog" where
  "store_do R now (InsertJob j) = bindE (job_insert R now j) (\<lambda>j. retE (Some j))"
| "store_do R now (ReadJob i) = bindE (job_get R now i) (\<lambda>j. retE (Some j))"
| "store_do R now (ChangeJob i c) = bindE (store_change R now i c) (\<lambda>j. retE (Some j))"
| "store_do R now (RemoveJob i) = thenE (on_jobs now (delete_many R job_schema now [KStr i])) (retE None)"

text \<open>Between two commands the server is left to itself.\<close>

fun store_runs ::
    "'r store \<Rightarrow> (rat \<Rightarrow> 'r \<Rightarrow> 'r) \<Rightarrow> int \<Rightarrow> (int \<times> job_command) list \<Rightarrow> 'r \<Rightarrow> job option result list \<times> 'r" where
  "store_runs R pass now [] s = ([], s)"
| "store_runs R pass now ((t, c) # cs) s =
     (let (x, s1) = store_do R t c (pass (total_seconds (t - now)) s);
          (xs, s2) = store_runs R pass t cs s1
      in (x # xs, s2))"

section \<open>How the two correspond\<close>

abbreviation job_field :: "'r store \<Rightarrow> 'r \<Rightarrow> rkey \<Rightarrow> payload rval option" where
  "job_field R s \<equiv> hget R s (sc_name job_schema)"

definition represents :: "'r store \<Rightarrow> int \<Rightarrow> 'r \<Rightarrow> timed_jobs \<Rightarrow> bool" where
  "represents R now s m \<longleftrightarrow>
     (\<forall>k. job_field R s k =
        (case k of StrKey i \<Rightarrow> map_option (\<lambda>j. RVal (PJob j)) (alive now m i) | _ \<Rightarrow> None)) \<and>
     (\<forall>i j. alive now m i = Some j \<longrightarrow> job_ok j \<and> plain_job j \<and> job_id j = i) \<and>
     (\<forall>i j deadline. m i = Some (j, deadline) \<longrightarrow> now < deadline \<longrightarrow>
        httl R s (sc_name job_schema) (StrKey i) = Some (total_seconds (deadline - now)) \<and> deadline \<le> now + two_weeks)"

text \<open>The indexes.\<close>

definition indexed :: "'r store \<Rightarrow> int \<Rightarrow> 'r \<Rightarrow> timed_jobs \<Rightarrow> bool" where
  "indexed R now s m \<longleftrightarrow>
     (\<forall>i j. \<forall>f\<in>set (index_fields job_schema). alive now m i = Some j \<longrightarrow>
        zscore R s (index_key job_schema f (job_text j f)) (StrKey i) \<noteq> None) \<and>
     (\<forall>v k sc. \<forall>f\<in>set (index_fields job_schema). zscore R s (index_key job_schema f v) k = Some sc \<longrightarrow>
        sc \<le> Secs (total_seconds now) \<or>
        (\<exists>i j deadline. k = StrKey i \<and> m i = Some (j, deadline) \<and> now < deadline \<and> v = job_text j f \<and>
           sc \<le> Secs (total_seconds deadline)))"

text \<open>The queue of a name gives none of its fields a time to live.\<close>

definition lasting :: "'r store \<Rightarrow> string \<Rightarrow> 'r \<Rightarrow> bool" where
  "lasting R n s \<longleftrightarrow> (\<forall>h\<in>{db_of n, args_db_of n, metadata_of n}. \<forall>k. httl R s h k = None)"

locale timed_redis = job_redis R + redis_time R pass for R :: "'r store" and pass :: "rat \<Rightarrow> 'r \<Rightarrow> 'r"

context timed_redis
begin

lemma alive_earlier: "now \<le> t \<Longrightarrow> alive t m i = Some j \<Longrightarrow> alive now m i = Some j"
  by (auto simp: alive_def split: option.splits if_splits)

text \<open>Letting time pass.\<close>

lemma pass_field:
  assumes "represents R now s m" and "now \<le> t"
  shows "job_field R (pass (total_seconds (t - now)) s) k =
    (case k of StrKey i \<Rightarrow> map_option (\<lambda>j. RVal (PJob j)) (alive t m i) | _ \<Rightarrow> None)"
proof (cases "\<exists>i. k = StrKey i \<and> alive now m i \<noteq> None")
  case False
  then have "job_field R s k = None" using assms(1) unfolding represents_def by (auto split: rkey.splits)
  moreover have "alive t m i = None" if "k = StrKey i" for i
    using False that alive_earlier [OF assms(2)] by (metis option.exhaust option.simps(3))
  ultimately show ?thesis
    using assms(2) by (auto simp: hget_pass split: rkey.splits option.splits)
next
  case True
  then obtain i a where a: "k = StrKey i" "alive now m i = Some a" by blast
  then obtain j d where m: "k = StrKey i" "m i = Some (j, d)" "now < d"
    by (auto simp: alive_def split: option.splits if_splits)
  with assms(1) have "httl R s (sc_name job_schema) k = Some (total_seconds (d - now))"
    "job_field R s k = Some (RVal (PJob j))"
    unfolding represents_def by (auto simp: alive_def)
  with m assms(2) show ?thesis by (simp add: hget_pass alive_def)
qed

lemma represents_pass:
  assumes "represents R now s m" and "now \<le> t"
  shows "represents R t (pass (total_seconds (t - now)) s) m"
proof -
  have "httl R (pass (total_seconds (t - now)) s) (sc_name job_schema) (StrKey i) = Some (total_seconds (d - t))"
    if "m i = Some (j, d)" "t < d" for i j d
  proof -
    have "httl R s (sc_name job_schema) (StrKey i) = Some (total_seconds (d - now))"
      using assms that unfolding represents_def by force
    moreover have "total_seconds (d - now) - total_seconds (t - now) = total_seconds (d - t)"
      by (simp add: total_seconds_def diff_divide_distrib [symmetric])
    ultimately show ?thesis using assms(2) that by (simp add: httl_pass)
  qed
  moreover have "d \<le> t + two_weeks" if "m i = Some (j, d)" "t < d" for i j d
    using assms that unfolding represents_def by fastforce
  ultimately show ?thesis
    using assms pass_field [OF assms] alive_earlier [OF assms(2)] unfolding represents_def by blast
qed

lemma indexed_pass:
  assumes "indexed R now s m" and "now \<le> t"
  shows "indexed R t (pass (total_seconds (t - now)) s) m"
proof -
  have z: "zscore R (pass (total_seconds (t - now)) s) z k = zscore R s z k" for z k
    using assms(2) by (simp add: zscore_pass)
  show ?thesis
    unfolding indexed_def z
  proof (intro conjI allI ballI impI)
    fix i j f
    assume "f \<in> set (index_fields job_schema)" "alive t m i = Some j"
    then show "zscore R s (index_key job_schema f (job_text j f)) (StrKey i) \<noteq> None"
      using assms alive_earlier [OF assms(2)] unfolding indexed_def by blast
  next
    fix v k sc f
    assume f: "f \<in> set (index_fields job_schema)"
      and "zscore R s (index_key job_schema f v) k = Some sc"
    with f assms(1) have "sc \<le> Secs (total_seconds now) \<or>
        (\<exists>i j d. k = StrKey i \<and> m i = Some (j, d) \<and> now < d \<and> v = job_text j f \<and> sc \<le> Secs (total_seconds d))"
      unfolding indexed_def by blast
    then show "sc \<le> Secs (total_seconds t) \<or>
        (\<exists>i j d. k = StrKey i \<and> m i = Some (j, d) \<and> t < d \<and> v = job_text j f \<and> sc \<le> Secs (total_seconds d))"
    proof
      assume "sc \<le> Secs (total_seconds now)"
      also have "Secs (total_seconds now) \<le> Secs (total_seconds t)" using assms(2) by simp
      finally show ?thesis by blast
    next
      assume "\<exists>i j d. k = StrKey i \<and> m i = Some (j, d) \<and> now < d \<and> v = job_text j f \<and> sc \<le> Secs (total_seconds d)"
      then obtain i j d where d: "k = StrKey i" "m i = Some (j, d)" "v = job_text j f" "sc \<le> Secs (total_seconds d)"
        by blast
      show ?thesis
      proof (cases "t < d")
        case False
        then have "Secs (total_seconds d) \<le> Secs (total_seconds t)" by simp
        with d(4) show ?thesis by (meson order_trans)
      qed (use d in blast)
    qed
  qed
qed

lemma pass_queue:
  assumes "lasting R n s" and "0 \<le> d"
  shows "same_queue n s (pass d s)" and "lasting R n (pass d s)"
  using assms by (auto simp: lasting_def same_queue_def hget_pass httl_pass items_pass)

text \<open>What an operation on the jobs leaves alone.\<close>

definition kept :: "'r \<Rightarrow> 'r \<Rightarrow> bool" where
  "kept s s' \<longleftrightarrow> untouched s s' \<and> (\<forall>n k. n \<noteq> sc_name job_schema \<longrightarrow> httl R s' n k = httl R s n k)"

lemma kept_refl [simp]: "kept s s"
  by (simp add: kept_def)

lemma kept_queue:
  assumes "kept s s'"
  shows "same_queue n s s'" and "lasting R n s \<Longrightarrow> lasting R n s'"
  using assms untouched_queue by (auto simp: kept_def lasting_def db_of_def args_db_of_def metadata_of_def)

lemma ttl_two_weeks: "JOBS_STORE_TTL = total_seconds two_weeks" "seconds_us JOBS_STORE_TTL = two_weeks" "0 < two_weeks"
proof -
  show ttl: "JOBS_STORE_TTL = total_seconds two_weeks"
    by (simp add: JOBS_STORE_TTL_def two_weeks_def total_seconds_def)
  show "seconds_us JOBS_STORE_TTL = two_weeks" by (simp add: ttl)
  show "0 < two_weeks" by (simp add: two_weeks_def)
qed

lemma alive_update: "alive now (m(i \<mapsto> (j, d))) = (if now < d then (alive now m)(i \<mapsto> j) else (alive now m)(i := None))"
  by (auto simp: alive_def)

lemma alive_remove: "alive now (m(i := None)) = (alive now m)(i := None)"
  by (auto simp: alive_def)

lemma represents_alive:
  assumes "represents R now s m" and "alive now m i = Some j"
  shows "job_ok j" "plain_job j" "job_id j = i" "job_field R s (StrKey i) = Some (RVal (PJob j))"
  using assms unfolding represents_def by auto

lemma represents_dead: "represents R now s m \<Longrightarrow> alive now m i = None \<Longrightarrow> job_field R s (StrKey i) = None"
  unfolding represents_def by simp

lemma represents_jobs: "represents R now s m \<Longrightarrow> jobs_of R s = alive now m"
  by (rule ext) (simp add: represents_def jobs_of_def split: option.splits)

lemma represents_deadline:
  "represents R now s m \<Longrightarrow> m i = Some (j, d) \<Longrightarrow> now < d \<Longrightarrow> d \<le> now + two_weeks"
  unfolding represents_def by blast

text \<open>At every instant the collection is in order, which is what the operations of the service ask for.\<close>

lemma timed_jobs_wf:
  assumes rep: "represents R now s m" and idx: "indexed R now s m"
  shows "jobs_wf R s"
  unfolding jobs_wf_def coll_wf_def
proof (intro conjI allI ballI impI)
  fix k v
  assume "job_field R s k = Some v"
  then obtain i j where "k = StrKey i" "alive now m i = Some j" "v = RVal (PJob j)"
    using rep unfolding represents_def by (auto split: rkey.splits)
  then show "\<exists>t. job_ok t \<and> plain_item job_schema t \<and> k = item_key job_schema t \<and> v = RVal (sc_enc job_schema t)"
    using represents_alive [OF rep] by auto
next
  fix f t
  assume f: "f \<in> set (index_fields job_schema)" and "is_stored R job_schema s t"
  then have "alive now m (job_id t) = Some t"
    using stored_jobs_of represents_jobs [OF rep] by metis
  then have "zscore R s (index_key job_schema f (job_text t f)) (StrKey (job_id t)) \<noteq> None"
    using idx f unfolding indexed_def by blast
  then show "zscore R s (index_key job_schema f (sc_text job_schema t f)) (item_key job_schema t) \<noteq> None"
    by simp
qed

text \<open>A job written under its id with a new time to live.\<close>

lemma represents_write:
  assumes rep: "represents R now s m" and j: "job_ok j" "plain_job j" "job_id j = i"
    and h: "\<And>k. job_field R s' k = (if k = StrKey i then Some (RVal (PJob j)) else job_field R s k)"
    and t: "\<And>k. httl R s' (sc_name job_schema) k =
      (if k = StrKey i then Some JOBS_STORE_TTL else httl R s (sc_name job_schema) k)"
  shows "represents R now s' (m(i \<mapsto> (j, now + two_weeks)))"
proof -
  have "job_field R s' k = (case k of StrKey i' \<Rightarrow>
      map_option (\<lambda>j. RVal (PJob j)) (alive now (m(i \<mapsto> (j, now + two_weeks))) i') | _ \<Rightarrow> None)" for k
    using rep ttl_two_weeks(3) unfolding represents_def h by (simp add: alive_update split: rkey.splits)
  moreover have "job_ok j' \<and> plain_job j' \<and> job_id j' = i'" if "alive now (m(i \<mapsto> (j, now + two_weeks))) i' = Some j'" for i' j'
    using that j represents_alive [OF rep] ttl_two_weeks(3) by (auto simp: alive_update split: if_splits)
  moreover have "httl R s' (sc_name job_schema) (StrKey i') = Some (total_seconds (d - now)) \<and> d \<le> now + two_weeks"
    if "(m(i \<mapsto> (j, now + two_weeks))) i' = Some (j', d)" "now < d" for i' j' d
    using that rep ttl_two_weeks unfolding represents_def t by (auto split: if_splits)
  ultimately show ?thesis unfolding represents_def by blast
qed

lemma indexed_write:
  assumes idx: "indexed R now s m"
    and other: "\<And>f v k. f \<in> set (index_fields job_schema) \<Longrightarrow> k \<noteq> StrKey i \<Longrightarrow>
      zscore R s' (index_key job_schema f v) k = zscore R s (index_key job_schema f v) k"
    and new: "\<And>f. f \<in> set (index_fields job_schema) \<Longrightarrow>
      zscore R s' (index_key job_schema f (job_text j f)) (StrKey i) \<noteq> None"
    and old: "\<And>f v sc. f \<in> set (index_fields job_schema) \<Longrightarrow>
      zscore R s' (index_key job_schema f v) (StrKey i) = Some sc \<Longrightarrow>
      sc \<le> Secs (total_seconds now) \<or> v = job_text j f \<and> sc \<le> Secs (total_seconds (now + two_weeks))"
  shows "indexed R now s' (m(i \<mapsto> (j, now + two_weeks)))"
  unfolding indexed_def
proof (intro conjI allI ballI impI)
  fix i' j' f
  assume f: "f \<in> set (index_fields job_schema)" and "alive now (m(i \<mapsto> (j, now + two_weeks))) i' = Some j'"
  then have "i' = i \<and> j' = j \<or> i' \<noteq> i \<and> alive now m i' = Some j'"
    using ttl_two_weeks(3) by (auto simp: alive_update split: if_splits)
  then show "zscore R s' (index_key job_schema f (job_text j' f)) (StrKey i') \<noteq> None"
  proof
    assume "i' \<noteq> i \<and> alive now m i' = Some j'"
    moreover from this have "zscore R s (index_key job_schema f (job_text j' f)) (StrKey i') \<noteq> None"
      using idx f unfolding indexed_def by blast
    ultimately show ?thesis using other [OF f] by simp
  qed (use new [OF f] in simp)
next
  fix v k sc f
  let ?m = "m(i \<mapsto> (j, now + two_weeks))"
  assume f: "f \<in> set (index_fields job_schema)" and z: "zscore R s' (index_key job_schema f v) k = Some sc"
  show "sc \<le> Secs (total_seconds now) \<or>
    (\<exists>i j d. k = StrKey i \<and> ?m i = Some (j, d) \<and> now < d \<and> v = job_text j f \<and> sc \<le> Secs (total_seconds d))"
  proof (cases "k = StrKey i")
    case True
    with old [OF f] z ttl_two_weeks(3) show ?thesis by auto
  next
    case False
    with other [OF f] z idx f have "sc \<le> Secs (total_seconds now) \<or>
      (\<exists>i' j' d. k = StrKey i' \<and> m i' = Some (j', d) \<and> now < d \<and> v = job_text j' f \<and> sc \<le> Secs (total_seconds d))"
      unfolding indexed_def by metis
    with False show ?thesis by auto
  qed
qed

lemma indexed_entry:
  assumes "indexed R now s m" and "f \<in> set (index_fields job_schema)"
    and "zscore R s (index_key job_schema f v) (StrKey i) = Some sc" and "\<not> sc \<le> Secs (total_seconds now)"
  shows "\<exists>j d. m i = Some (j, d) \<and> now < d \<and> v = job_text j f \<and> sc \<le> Secs (total_seconds d)"
  using assms unfolding indexed_def by (metis rkey.inject(1))

lemma httl_fold_zadd: "httl R (fold (\<lambda>z. zadd R z m sc) zs s) n k = httl R s n k"
  by (induction zs arbitrary: s) (simp_all add: law_simps)

lemma httl_fold_zrem: "httl R (fold (\<lambda>z. zrem R z m) zs s) n k = httl R s n k"
  by (induction zs arbitrary: s) (simp_all add: law_simps)

text \<open>Insertion.\<close>

lemma insert_state:
  "\<exists>s'. job_insert R now j s = (Inr j, s') \<and> kept s s' \<and>
    (\<forall>k. job_field R s' k = (if k = StrKey (job_id j) then Some (RVal (PJob j)) else job_field R s k)) \<and>
    (\<forall>k. httl R s' (sc_name job_schema) k =
      (if k = StrKey (job_id j) then Some JOBS_STORE_TTL else httl R s (sc_name job_schema) k)) \<and>
    (\<forall>z k. zscore R s' z k = (if z \<in> set (get_index_keys job_schema j) \<and> k = StrKey (job_id j)
       then Some (Secs (total_seconds (now + two_weeks))) else zscore R s z k))"
proof -
  let ?k = "StrKey (job_id j)"
  let ?s1 = "hset R (sc_name job_schema) ?k (RVal (PJob j)) s"
  let ?s2 = "hexpire R (sc_name job_schema) JOBS_STORE_TTL ?k ?s1"
  let ?s' = "insert_indexes R job_schema now j (sc_default_ttl job_schema) ?s2"
  have ttl: "0 < JOBS_STORE_TTL" by (simp add: JOBS_STORE_TTL_def)
  have "job_insert R now j s = (Inr j, ?s')"
    by (simp add: job_insert_def on_jobs_def with_fresh_def insert_item_def effective_ttl_def Let_def prog_simps
        fresh_cleanup [OF job_schema.interval_nonneg])
  moreover have "hget R ?s' n k = (if n = sc_name job_schema \<and> k = ?k then Some (RVal (PJob j)) else hget R s n k)" for n k
    using ttl by (simp add: insert_indexes_def Let_def hget_fold_zadd law_simps)
  moreover have "httl R ?s' n k = (if n = sc_name job_schema \<and> k = ?k then Some JOBS_STORE_TTL else httl R s n k)" for n k
    using ttl by (simp add: insert_indexes_def Let_def httl_fold_zadd law_simps)
  moreover have "items R ?s' l = items R s l" for l
    by (simp add: insert_indexes_def Let_def items_fold_zadd law_simps)
  moreover have "zscore R ?s' z k = (if z \<in> set (get_index_keys job_schema j) \<and> k = ?k
       then Some (Secs (total_seconds (now + two_weeks))) else zscore R s z k)" for z k
    by (simp add: insert_indexes_def Let_def zscore_fold_zadd expiry_of_def ttl_two_weeks law_simps)
  ultimately show ?thesis by (intro exI [of _ ?s']) (simp add: kept_def untouched_def)
qed

lemma insert_timed:
  assumes rep: "represents R now s m" "indexed R now s m" and j: "job_ok j" "plain_job j"
    and new: "alive now m (job_id j) = None"
  shows "\<exists>s'. job_insert R now j s = (Inr j, s') \<and> kept s s' \<and>
    represents R now s' (m(job_id j \<mapsto> (j, now + two_weeks))) \<and>
    indexed R now s' (m(job_id j \<mapsto> (j, now + two_weeks)))"
proof -
  obtain s' where s': "job_insert R now j s = (Inr j, s')" "kept s s'"
    "\<And>k. job_field R s' k = (if k = StrKey (job_id j) then Some (RVal (PJob j)) else job_field R s k)"
    "\<And>k. httl R s' (sc_name job_schema) k =
      (if k = StrKey (job_id j) then Some JOBS_STORE_TTL else httl R s (sc_name job_schema) k)"
    and z: "\<And>z k. zscore R s' z k = (if z \<in> set (get_index_keys job_schema j) \<and> k = StrKey (job_id j)
       then Some (Secs (total_seconds (now + two_weeks))) else zscore R s z k)"
    using insert_state [of now j s] by blast
  have zi: "zscore R s' (index_key job_schema f v) k = (if v = job_text j f \<and> k = StrKey (job_id j)
       then Some (Secs (total_seconds (now + two_weeks))) else zscore R s (index_key job_schema f v) k)"
    if "f \<in> set (index_fields job_schema)" for f v k
    using jobs.in_get_index_keys [OF that] by (simp only: z job_schema_sel)
  have "indexed R now s' (m(job_id j \<mapsto> (j, now + two_weeks)))"
  proof (rule indexed_write [OF rep(2)])
    fix f v sc
    assume f: "f \<in> set (index_fields job_schema)" and sc: "zscore R s' (index_key job_schema f v) (StrKey (job_id j)) = Some sc"
    show "sc \<le> Secs (total_seconds now) \<or> v = job_text j f \<and> sc \<le> Secs (total_seconds (now + two_weeks))"
      using sc new indexed_entry [OF rep(2) f, of v "job_id j" sc]
      by (force simp only: zi [OF f] alive_def split: if_splits option.splits prod.splits)
  qed (simp_all only: zi, simp_all)
  moreover have "represents R now s' (m(job_id j \<mapsto> (j, now + two_weeks)))"
    by (rule represents_write [OF rep(1) j refl s'(3,4)])
  ultimately show ?thesis using s'(1,2) by blast
qed

text \<open>Reading.\<close>

lemma read_timed:
  assumes rep: "represents R now s m" and key: "construct_redis_key job_schema key = Inr i"
  shows "on_jobs now (get_one R job_schema key) s =
    (case alive now m i of None \<Rightarrow> Inl ItemNotFoundError | Some j \<Rightarrow> Inr j, s)"
proof (cases "alive now m i")
  case None
  then show ?thesis
    using represents_dead [OF rep None] by (simp add: on_jobs_def with_fresh_def jobs.get_one_missing [OF key])
next
  case (Some j)
  have "get_one R job_schema key (s, l) = (Inr j, (s, l))" for l
    using represents_alive [OF rep Some] by (intro jobs.get_one_eval [OF key]) simp_all
  with Some show ?thesis by (simp add: on_jobs_def with_fresh_def)
qed

text \<open>Updates.\<close>

lemma set_fields_status:
  "keeps_ids u \<Longrightarrow> jobs.set_fields (validate_partial u) =
    (case upd_status u of None \<Rightarrow> [] | Some st \<Rightarrow> [(''status'', status_fstring st)])"
  by (simp add: jobs.set_fields_def List.map_filter_def job_upd_text_def keeps_ids_def split: option.splits)

lemma move_status:
  fixes st :: job_status and j :: job
  defines "old \<equiv> index_key job_schema ''status'' (status_fstring (status j))"
    and "new \<equiv> index_key job_schema ''status'' (status_fstring st)"
  shows "jobs.move_command now j (Ttl JOBS_STORE_TTL) (''status'', status_fstring st) s =
    zadd R new (StrKey (job_id j)) (Secs (total_seconds (now + two_weeks))) (zrem R old (StrKey (job_id j)) s)"
  by (simp add: jobs.move_command_def Let_def old_def new_def job_text_def expiry_of_def ttl_two_weeks)

lemma update_state:
  assumes rep: "represents R now s m" "alive now m i = Some j" and u: "keeps_ids u"
    and key: "construct_redis_key job_schema key = Inr i"
  shows "\<exists>s'. on_jobs now (update_item R job_schema now key u Undefined) s = (Inr (apply_update now j u), s') \<and>
    kept s s' \<and>
    (\<forall>k. job_field R s' k = (if k = StrKey i then Some (RVal (PJob (apply_update now j u))) else job_field R s k)) \<and>
    (\<forall>k. httl R s' (sc_name job_schema) k =
      (if k = StrKey i then Some JOBS_STORE_TTL else httl R s (sc_name job_schema) k)) \<and>
    (\<forall>z k. zscore R s' z k =
      (case upd_status u of
         None \<Rightarrow> zscore R s z k
       | Some st \<Rightarrow>
           if k = StrKey i \<and> z = index_key job_schema ''status'' (status_fstring st)
           then Some (Secs (total_seconds (now + two_weeks)))
           else if k = StrKey i \<and> z = index_key job_schema ''status'' (status_fstring (status j)) then None
           else zscore R s z k))"
proof -
  note j = represents_alive [OF rep]
  let ?k = "StrKey i"
  let ?j' = "apply_update now j u"
  let ?s1 = "hset R (sc_name job_schema) ?k (RVal (PJob ?j')) s"
  let ?s2 = "hexpire R (sc_name job_schema) JOBS_STORE_TTL ?k ?s1"
  let ?s' = "fold (jobs.move_command now j (Ttl JOBS_STORE_TTL)) (jobs.set_fields (validate_partial u)) ?s2"
  have ttl: "0 < JOBS_STORE_TTL" by (simp add: JOBS_STORE_TTL_def)
  have "with_fresh now (update_item R job_schema now key u Undefined) s =
    (Inr ?j', fold (jobs.move_command now j (sc_default_ttl job_schema)) (jobs.set_fields (validate_partial u))
       (jobs.ttl_command (sc_default_ttl job_schema) (item_key job_schema j)
         (hset R (sc_name job_schema) (item_key job_schema j) (RVal (sc_enc job_schema ?j')) s)))"
  proof (rule jobs.update_item_eval)
    show "is_stored R job_schema s j" using j by (simp add: is_stored_def)
    show "\<And>f v. sc_upd_text job_schema (validate_partial u) f = Some v \<Longrightarrow> CHR '':'' \<notin> set v"
      using u job_upd_text_plain by simp
    show "construct_redis_key job_schema key = Inr (get_redis_key job_schema j)" using key j by simp
  qed (use j in \<open>simp_all add: apply_update_def\<close>)
  then have run: "on_jobs now (update_item R job_schema now key u Undefined) s = (Inr ?j', ?s')"
    using j(3) by (simp add: on_jobs_def jobs.ttl_command_def)
  have moved: "hget R ?s' n k = hget R ?s2 n k" "httl R ?s' n k = httl R ?s2 n k" "items R ?s' l = items R ?s2 l" for n k l
    using u j(3) by (simp_all add: set_fields_status move_status law_simps split: option.splits)
  have two: "hget R ?s2 n k = (if n = sc_name job_schema \<and> k = ?k then Some (RVal (PJob ?j')) else hget R s n k)"
    "httl R ?s2 n k = (if n = sc_name job_schema \<and> k = ?k then Some JOBS_STORE_TTL else httl R s n k)"
    "items R ?s2 l = items R s l" "zscore R ?s2 z k = zscore R s z k" for n k l z
    using ttl by (simp_all add: law_simps)
  have "zscore R ?s' z k =
      (case upd_status u of
         None \<Rightarrow> zscore R s z k
       | Some st \<Rightarrow>
           if k = ?k \<and> z = index_key job_schema ''status'' (status_fstring st)
           then Some (Secs (total_seconds (now + two_weeks)))
           else if k = ?k \<and> z = index_key job_schema ''status'' (status_fstring (status j)) then None
           else zscore R s z k)" for z k
    using u j(3) by (auto simp: set_fields_status move_status two law_simps split: option.splits)
  with run show ?thesis
    by (intro exI [of _ ?s'], unfold kept_def untouched_def moved two) simp
qed

lemma update_timed:
  assumes rep: "represents R now s m" "indexed R now s m" and j: "alive now m i = Some j" and u: "keeps_ids u"
    and key: "construct_redis_key job_schema key = Inr i"
  defines "j' \<equiv> apply_update now j u"
  shows "\<exists>s'. on_jobs now (update_item R job_schema now key u Undefined) s = (Inr j', s') \<and> kept s s' \<and>
    represents R now s' (m(i \<mapsto> (j', now + two_weeks))) \<and> indexed R now s' (m(i \<mapsto> (j', now + two_weeks)))"
proof -
  note ok = represents_alive [OF rep(1) j]
  obtain s' where s': "on_jobs now (update_item R job_schema now key u Undefined) s = (Inr j', s')" "kept s s'"
    "\<And>k. job_field R s' k = (if k = StrKey i then Some (RVal (PJob j')) else job_field R s k)"
    "\<And>k. httl R s' (sc_name job_schema) k =
      (if k = StrKey i then Some JOBS_STORE_TTL else httl R s (sc_name job_schema) k)"
    and z: "\<And>z k. zscore R s' z k =
      (case upd_status u of
         None \<Rightarrow> zscore R s z k
       | Some st \<Rightarrow>
           if k = StrKey i \<and> z = index_key job_schema ''status'' (status_fstring st)
           then Some (Secs (total_seconds (now + two_weeks)))
           else if k = StrKey i \<and> z = index_key job_schema ''status'' (status_fstring (status j)) then None
           else zscore R s z k)"
    using update_state [OF rep(1) j u key] unfolding j'_def by blast
  have ids: "job_id j' = i" "user_id j' = user_id j" "status j' = override (upd_status u) (status j)"
    using u ok(3) by (simp_all add: j'_def keeps_ids_def)
  have texts: "job_text j' f = (if f = ''status'' then status_fstring (override (upd_status u) (status j)) else job_text j f)"
    if "f \<in> set (index_fields job_schema)" for f
    using that ids ok(3) by (auto simp: job_text_def)
  have same: "job_text j' f = job_text j f"
    if "f \<in> set (index_fields job_schema)" "\<not> (f = ''status'' \<and> upd_status u \<noteq> None)" for f
    using that ids ok(3) by (auto simp: job_text_def)
  have plain: "job_ok j'" "plain_job j'" using ok ids by (simp_all add: j'_def plain_job_def)
  obtain d where d: "m i = Some (j, d)" "now < d" using j by (auto simp: alive_def split: option.splits if_splits)
  have bound: "sc \<le> Secs (total_seconds (now + two_weeks))" if "sc \<le> Secs (total_seconds d)" for sc
  proof -
    have "Secs (total_seconds d) \<le> Secs (total_seconds (now + two_weeks))"
      using represents_deadline [OF rep(1) d] by simp
    with that show ?thesis by (rule order_trans)
  qed
  have zi: "zscore R s' (index_key job_schema f v) k =
      (if f = ''status'' \<and> k = StrKey i \<and> upd_status u \<noteq> None
       then if v = job_text j' f then Some (Secs (total_seconds (now + two_weeks)))
            else if v = job_text j f then None else zscore R s (index_key job_schema f v) k
       else zscore R s (index_key job_schema f v) k)"
    if f: "f \<in> set (index_fields job_schema)" for f v k
    using jobs.index_key_inject [OF f, of "''status''"] texts [OF f]
    by (auto simp: z job_text_def split: option.splits)
  have "indexed R now s' (m(i \<mapsto> (j', now + two_weeks)))"
  proof (rule indexed_write [OF rep(2)])
    fix f
    assume f: "f \<in> set (index_fields job_schema)"
    have "zscore R s (index_key job_schema f (job_text j f)) (StrKey i) \<noteq> None"
      using rep(2) f j unfolding indexed_def by blast
    then show "zscore R s' (index_key job_schema f (job_text j' f)) (StrKey i) \<noteq> None"
    proof (cases "f = ''status'' \<and> upd_status u \<noteq> None")
      case False
      then have "zscore R s' (index_key job_schema f (job_text j' f)) (StrKey i) =
          zscore R s (index_key job_schema f (job_text j f)) (StrKey i)"
        unfolding zi [OF f] same [OF f False] by auto
      with \<open>zscore R s _ _ \<noteq> None\<close> show ?thesis by simp
    next
      case True
      then show ?thesis unfolding zi [OF f] by simp
    qed
  next
    fix f v sc
    assume f: "f \<in> set (index_fields job_schema)" and sc: "zscore R s' (index_key job_schema f v) (StrKey i) = Some sc"
    show "sc \<le> Secs (total_seconds now) \<or> v = job_text j' f \<and> sc \<le> Secs (total_seconds (now + two_weeks))"
    proof (cases "v = job_text j' f \<and> f = ''status'' \<and> upd_status u \<noteq> None")
      case True
      with sc show ?thesis unfolding zi [OF f] by simp
    next
      case False
      then have sc': "zscore R s (index_key job_schema f v) (StrKey i) = Some sc"
        "\<not> (f = ''status'' \<and> upd_status u \<noteq> None) \<or> v \<noteq> job_text j f"
        using sc unfolding zi [OF f] by (auto split: if_splits)
      show ?thesis
      proof (subst disj_imp, rule impI)
        assume "\<not> sc \<le> Secs (total_seconds now)"
        with indexed_entry [OF rep(2) f sc'(1)] d have v: "v = job_text j f" "sc \<le> Secs (total_seconds d)" by auto
        from sc'(2) v(1) have "job_text j' f = job_text j f" by (intro same [OF f]) simp
        with v(1) bound [OF v(2)] show "v = job_text j' f \<and> sc \<le> Secs (total_seconds (now + two_weeks))" by simp
      qed
    qed
  qed (simp_all add: zi)
  moreover have "represents R now s' (m(i \<mapsto> (j', now + two_weeks)))"
    by (rule represents_write [OF rep(1) plain ids(1) s'(3,4)])
  ultimately show ?thesis using s'(1,2) by blast
qed

lemma update_expired:
  assumes "represents R now s m" and "alive now m i = None" and "construct_redis_key job_schema key = Inr i"
  shows "on_jobs now (update_item R job_schema now key u Undefined) s = (Inl ItemNotFoundError, s)"
  unfolding on_jobs_def
  by (rule jobs.update_item_missing [OF _ assms(3)]) (use represents_dead [OF assms(1,2)] in simp_all)

text \<open>Deletion.\<close>

lemma delete_state:
  assumes rep: "represents R now s m"
  shows "\<exists>s'. on_jobs now (delete_many R job_schema now [KStr i]) s = (Inr (), s') \<and> kept s s' \<and>
    (\<forall>k. job_field R s' k = (if k = StrKey i then None else job_field R s k)) \<and>
    (\<forall>k. httl R s' (sc_name job_schema) k =
      (if k = StrKey i then None else httl R s (sc_name job_schema) k)) \<and>
    (\<forall>z k. zscore R s' z k =
      (if k = StrKey i \<and> (\<exists>j. alive now m i = Some j \<and> z \<in> set (get_index_keys job_schema j)) then None
       else zscore R s z k))"
proof -
  let ?s1 = "hdel R (sc_name job_schema) [StrKey i] s"
  let ?zs = "case alive now m i of None \<Rightarrow> [] | Some j \<Rightarrow> get_index_keys job_schema j"
  let ?s' = "fold (\<lambda>idx. zrem R idx (StrKey i)) ?zs ?s1"
  have "find_by_keys R job_schema [KStr i] (s, l) =
      (Inr (case alive now m i of None \<Rightarrow> [] | Some j \<Rightarrow> [j]), (s, l))" for l
  proof (cases "alive now m i")
    case None
    then show ?thesis using represents_dead [OF rep None] by (simp add: find_by_keys_def prog_simps)
  next
    case (Some j)
    from represents_alive [OF rep this] Some show ?thesis
      using job_schema.dec_enc [of j] by (simp add: find_by_keys_def prog_simps model_validate_json_def)
  qed
  then have run: "on_jobs now (delete_many R job_schema now [KStr i]) s = (Inr (), ?s')"
    using represents_alive(3) [OF rep]
    by (simp add: on_jobs_def with_fresh_def delete_many_def prog_simps
        fresh_cleanup [OF job_schema.interval_nonneg] delete_indexes_def split: option.splits)
  have h: "hget R ?s' n k = (if n = sc_name job_schema \<and> k = StrKey i then None else hget R s n k)"
    "httl R ?s' n k = (if n = sc_name job_schema \<and> k = StrKey i then None else httl R s n k)"
    "items R ?s' l = items R s l" for n k l
    by (simp_all add: hget_fold_zrem httl_fold_zrem items_fold_zrem httl_hdel law_simps)
  have "zscore R ?s' z k =
      (if k = StrKey i \<and> (\<exists>j. alive now m i = Some j \<and> z \<in> set (get_index_keys job_schema j)) then None
       else zscore R s z k)" for z k
    by (auto simp: zscore_fold_zrem law_simps split: option.splits)
  with run show ?thesis by (intro exI [of _ ?s'], unfold kept_def untouched_def h) simp
qed

lemma delete_timed:
  assumes rep: "represents R now s m" "indexed R now s m"
  shows "\<exists>s'. on_jobs now (delete_many R job_schema now [KStr i]) s = (Inr (), s') \<and> kept s s' \<and>
    represents R now s' (m(i := None)) \<and> indexed R now s' (m(i := None))"
proof -
  obtain s' where s': "on_jobs now (delete_many R job_schema now [KStr i]) s = (Inr (), s')" "kept s s'"
    and h: "\<And>k. job_field R s' k = (if k = StrKey i then None else job_field R s k)"
      "\<And>k. httl R s' (sc_name job_schema) k = (if k = StrKey i then None else httl R s (sc_name job_schema) k)"
    and z: "\<And>z k. zscore R s' z k =
      (if k = StrKey i \<and> (\<exists>j. alive now m i = Some j \<and> z \<in> set (get_index_keys job_schema j)) then None
       else zscore R s z k)"
    using delete_state [OF rep(1), of i] by blast
  have "represents R now s' (m(i := None))"
    using rep(1) unfolding represents_def h alive_remove by (auto split: rkey.splits)
  moreover have "indexed R now s' (m(i := None))"
    unfolding indexed_def
  proof (intro conjI allI ballI impI)
    fix i' j f
    assume f: "f \<in> set (index_fields job_schema)" and j: "alive now (m(i := None)) i' = Some j"
    then have "i' \<noteq> i" "alive now m i' = Some j" by (auto simp: alive_remove split: if_splits)
    with f rep(2) have "zscore R s (index_key job_schema f (job_text j f)) (StrKey i') \<noteq> None"
      unfolding indexed_def by blast
    with \<open>i' \<noteq> i\<close> show "zscore R s' (index_key job_schema f (job_text j f)) (StrKey i') \<noteq> None"
      by (simp add: z)
  next
    fix v k sc f
    assume f: "f \<in> set (index_fields job_schema)" and sc: "zscore R s' (index_key job_schema f v) k = Some sc"
    show "sc \<le> Secs (total_seconds now) \<or> (\<exists>i' j d. k = StrKey i' \<and> (m(i := None)) i' = Some (j, d) \<and> now < d \<and>
        v = job_text j f \<and> sc \<le> Secs (total_seconds d))"
    proof (rule disjCI)
      assume no: "\<nexists>i' j d. k = StrKey i' \<and> (m(i := None)) i' = Some (j, d) \<and> now < d \<and>
        v = job_text j f \<and> sc \<le> Secs (total_seconds d)"
      have sc': "zscore R s (index_key job_schema f v) k = Some sc"
        "\<not> (k = StrKey i \<and> (\<exists>j. alive now m i = Some j \<and> index_key job_schema f v \<in> set (get_index_keys job_schema j)))"
        using sc by (auto simp: z split: if_splits)
      show "sc \<le> Secs (total_seconds now)"
      proof (rule ccontr)
        assume "\<not> sc \<le> Secs (total_seconds now)"
        with rep(2) f sc'(1) obtain i' j d where d: "k = StrKey i'" "m i' = Some (j, d)" "now < d" "v = job_text j f"
            "sc \<le> Secs (total_seconds d)" unfolding indexed_def by blast
        have "i' = i"
        proof (rule ccontr)
          assume "i' \<noteq> i"
          with d have "(m(i := None)) i' = Some (j, d)" by simp
          with d no show False by blast
        qed
        with d have "alive now m i = Some j" by (simp add: alive_def)
        moreover have "index_key job_schema f v \<in> set (get_index_keys job_schema j)"
          using jobs.in_get_index_keys [OF f] d(4) by simp
        ultimately show False using sc'(2) d(1) \<open>i' = i\<close> by blast
      qed
    qed
  qed
  ultimately show ?thesis using s' by blast
qed

section \<open>The refinement\<close>

text \<open>Every change is a read followed by an update, or an update alone.\<close>

lemma store_change_timed:
  assumes rep: "represents R now s m" "indexed R now s m"
  shows "case alive now m i of
      None \<Rightarrow> store_change R now i c s = (Inl ItemNotFoundError, s)
    | Some j \<Rightarrow> \<exists>s'. store_change R now i c s = (Inr (changed now c j), s') \<and> kept s s' \<and>
        represents R now s' (m(i \<mapsto> (changed now c j, now + two_weeks))) \<and>
        indexed R now s' (m(i \<mapsto> (changed now c j, now + two_weeks)))"
proof (cases "alive now m i")
  case None
  note missing = update_expired [OF rep(1) None] read_timed [OF rep(1)]
  show ?thesis
    using None
    by (cases c) (simp_all add: missing update_job_stage_def log_job_failure_def update_job_results_def
        job_update_one_def prog_simps)
next
  case (Some j)
  note upd = update_timed [OF rep Some]
  have id: "job_id j = i" by (rule represents_alive(3) [OF rep(1) Some])
  have ops: "store_change R now i c s =
      on_jobs now (update_item R job_schema now key u Undefined) s \<and> keeps_ids u \<and>
      changed now c j = apply_update now j u \<and> construct_redis_key job_schema key = Inr i"
    if "(key, u) = (case c of ToStage st \<Rightarrow> (KTuple [i], stage_update j st now)
      | Fail r \<Rightarrow> (KTuple [i], failure_update r now) | Results url d \<Rightarrow> (KTuple [i], results_update url i d now)
      | Cancel r \<Rightarrow> (KStr i, cancel_update r now) | Estimate d \<Rightarrow> (KStr i, estimate_update d))" for key u
    using that Some id
    by (cases c) (simp_all add: read_timed [OF rep(1)] update_job_stage_def log_job_failure_def
        update_job_results_def job_update_one_def prog_simps staged_def)
  then obtain key u where "store_change R now i c s = on_jobs now (update_item R job_schema now key u Undefined) s"
    "keeps_ids u" "changed now c j = apply_update now j u" "construct_redis_key job_schema key = Inr i"
    by (metis surj_pair)
  then show ?thesis using Some update_timed [OF rep Some, of u key] by simp
qed

lemma store_do_timed:
  assumes rep: "represents R now s m" "indexed R now s m" and ok: "spec_allows now c m"
  shows "\<exists>s'. store_do R now c s = (fst (spec_do now c m), s') \<and> kept s s' \<and>
    represents R now s' (snd (spec_do now c m)) \<and> indexed R now s' (snd (spec_do now c m))"
proof (cases c)
  case (InsertJob j)
  then show ?thesis using insert_timed [OF rep, of j] ok by (auto simp: prog_simps)
next
  case (ReadJob i)
  then show ?thesis
    using rep read_timed [OF rep(1), of "KStr i" i]
    by (auto simp: job_get_def prog_simps split: option.splits)
next
  case (ChangeJob i d)
  then show ?thesis
    using rep store_change_timed [OF rep, of i d] by (auto simp: prog_simps split: option.splits)
next
  case (RemoveJob i)
  then show ?thesis using delete_timed [OF rep, of i] by (auto simp: prog_simps)
qed

lemma store_runs_timed:
  assumes "represents R now s m" and "indexed R now s m" and "spec_runs now cs m = Some (xs, m')"
  shows "\<exists>s'. store_runs R pass now cs s = (xs, s') \<and> represents R (end_of now cs) s' m' \<and>
    indexed R (end_of now cs) s' m' \<and> (\<forall>n. lasting R n s \<longrightarrow> same_queue n s s' \<and> lasting R n s')"
  using assms
proof (induction cs arbitrary: now s m xs)
  case Nil
  then show ?case by (simp add: end_of_def)
next
  case (Cons tc cs)
  obtain t c where tc: "tc = (t, c)" by (cases tc)
  from Cons.prems(3) obtain ys where ys: "now \<le> t" "spec_allows t c m" "spec_runs t cs (snd (spec_do t c m)) = Some (ys, m')"
    "xs = fst (spec_do t c m) # ys"
    by (auto simp: tc split: if_splits prod.splits)
  let ?s = "pass (total_seconds (t - now)) s"
  have rep: "represents R t ?s m" "indexed R t ?s m"
    using represents_pass indexed_pass Cons.prems(1,2) ys(1) by blast+
  obtain s1 where s1: "store_do R t c ?s = (fst (spec_do t c m), s1)" "kept ?s s1"
    "represents R t s1 (snd (spec_do t c m))" "indexed R t s1 (snd (spec_do t c m))"
    using store_do_timed [OF rep ys(2)] by blast
  obtain s2 where s2: "store_runs R pass t cs s1 = (ys, s2)" "represents R (end_of t cs) s2 m'"
    "indexed R (end_of t cs) s2 m'" "\<forall>n. lasting R n s1 \<longrightarrow> same_queue n s1 s2 \<and> lasting R n s2"
    using Cons.IH [OF s1(3,4) ys(3)] by blast
  have "same_queue n s s2 \<and> lasting R n s2" if l: "lasting R n s" for n
  proof -
    have "same_queue n s ?s" "lasting R n ?s" using pass_queue [OF l] ys(1) by simp_all
    moreover from this have "same_queue n ?s s1" "lasting R n s1" using kept_queue [OF s1(2)] by simp_all
    moreover from this have "same_queue n s1 s2" "lasting R n s2" using s2(4) by simp_all
    ultimately show ?thesis using same_queue_trans by blast
  qed
  moreover have "end_of now (tc # cs) = end_of t cs" by (simp add: end_of_def tc)
  ultimately show ?case using s1(1) s2 ys(4) by (simp add: tc)
qed

text \<open>An update moves the entry of the status only.\<close>

lemma owner_entry:
  assumes rep: "represents R t0 s m" "indexed R t0 s m" and j: "job_ok j" "plain_job j"
    and new: "alive t0 m (job_id j) = None" and t: "t0 \<le> t1" "t1 < t0 + two_weeks"
  shows "\<exists>s1 s2 j'. job_insert R t0 j s = (Inr j, s1) \<and>
    job_update_one R t1 (job_id j) (estimate_update d) (pass (total_seconds (t1 - t0)) s1) = (Inr j', s2) \<and>
    httl R s2 (sc_name job_schema) (StrKey (job_id j)) = Some (total_seconds two_weeks) \<and>
    zscore R s2 (index_key job_schema ''user_id'' (opt_text (user_id j))) (StrKey (job_id j)) =
      Some (Secs (total_seconds (t0 + two_weeks)))"
proof -
  let ?k = "StrKey (job_id j)" and ?z = "index_key job_schema ''user_id'' (opt_text (user_id j))"
  let ?m = "m(job_id j \<mapsto> (j, t0 + two_weeks))"
  obtain s1 where s1: "job_insert R t0 j s = (Inr j, s1)" "represents R t0 s1 ?m"
    using insert_timed [OF rep j new] by blast
  have "?z \<in> set (get_index_keys job_schema j)"
    using jobs.in_get_index_keys [of "''user_id''" "opt_text (user_id j)" j] by (simp add: job_text_def)
  then have z1: "zscore R s1 ?z ?k = Some (Secs (total_seconds (t0 + two_weeks)))"
    using insert_state [of t0 j s] s1(1) by auto
  let ?s1 = "pass (total_seconds (t1 - t0)) s1"
  have rep1: "represents R t1 ?s1 ?m" using represents_pass [OF s1(2) t(1)] .
  have al: "alive t1 ?m (job_id j) = Some j" using t(2) by (simp add: alive_def)
  have none: "upd_status (estimate_update d) = None" by (simp add: estimate_update_def no_update_def)
  obtain s2 where s2: "job_update_one R t1 (job_id j) (estimate_update d) ?s1 = (Inr (apply_update t1 j (estimate_update d)), s2)"
    "httl R s2 (sc_name job_schema) ?k = Some JOBS_STORE_TTL" "zscore R s2 ?z ?k = zscore R ?s1 ?z ?k"
    using update_state [OF rep1 al, of "estimate_update d" "KStr (job_id j)"] unfolding job_update_one_def none by auto
  moreover have "zscore R ?s1 ?z ?k = zscore R s1 ?z ?k" using t(1) by (simp add: zscore_pass)
  ultimately show ?thesis using s1(1) z1 ttl_two_weeks(1) by (intro exI conjI) auto
qed

end

interpretation mem_timed: timed_redis "mem_redis :: (rkey, payload, mem_redis_state) redis" mem_pass
  by unfold_locales

lemma mem_empty_represents:
  "represents mem_redis now mem_empty Map.empty" "indexed mem_redis now mem_empty Map.empty"
  by (simp_all add: represents_def indexed_def alive_def split: rkey.splits)

section \<open>Properties\<close>

text \<open>
  C2. The collection of jobs in Redis is a map from ids to jobs with deadlines. Whatever sequence of
  insertions of new jobs, reads, stage changes, failures, results, cancellations, estimates and deletions is
  made, at whatever instants, the program's operations answer as the map does: a job is there until 14 days
  after its insertion or its last update, and from then on reading or changing it raises
  \<open>ItemNotFoundError\<close> and does not bring it back, until it is inserted anew. At the end the jobs of the
  server are those of the map whose deadline is to come, each indexed by its id, owner and status; index
  entries of other values are over; and the queues in the same Redis are as they were, as long as none of
  their fields was given a time to live.
\<close>

theorem job_store_refines_timed_map:
  assumes "timed_redis R pass" and "represents R now s m" and "indexed R now s m"
    and "spec_runs now cs m = Some (xs, m')"
  shows "\<exists>s'. store_runs R pass now cs s = (xs, s') \<and> jobs_of R s' = alive (end_of now cs) m' \<and>
    represents R (end_of now cs) s' m' \<and> indexed R (end_of now cs) s' m' \<and> jobs_wf R s' \<and>
    (\<forall>n. lasting R n s \<longrightarrow> sq_contents R n s' = sq_contents R n s \<and>
      sq_total_duration R n s' = sq_total_duration R n s)"
proof -
  have jr: "job_redis R" using assms(1) by (simp add: timed_redis_def)
  obtain s' where "store_runs R pass now cs s = (xs, s')" "represents R (end_of now cs) s' m'"
    "indexed R (end_of now cs) s' m'" "\<forall>n. lasting R n s \<longrightarrow> job_redis.same_queue R n s s'"
    using timed_redis.store_runs_timed [OF assms] by blast
  then show ?thesis
    using timed_redis.represents_jobs [OF assms(1)] timed_redis.timed_jobs_wf [OF assms(1)] job_redis.same_queue_contents [OF jr]
      job_redis.same_queue_total [OF jr] by blast
qed

theorem job_store_refines_timed_map_witness:
  "\<exists>s'. store_runs mem_redis mem_pass 0
      [(1, InsertJob (sample_job ''a'' 2)), (5, ChangeJob ''a'' (ToStage EXEC_W)), (3 + two_weeks, ReadJob ''a''),
       (5 + two_weeks, ChangeJob ''a'' (Fail ''x'')), (6 + two_weeks, InsertJob (sample_job ''b'' 2))] mem_empty =
      ([Inr (Some (sample_job ''a'' 2)), Inr (Some (staged 5 EXEC_W (sample_job ''a'' 2))),
        Inr (Some (staged 5 EXEC_W (sample_job ''a'' 2))), Inl ItemNotFoundError, Inr (Some (sample_job ''b'' 2))], s') \<and>
    jobs_of mem_redis s' = [''b'' \<mapsto> sample_job ''b'' 2]"
proof -
  let ?cs = "[(1, InsertJob (sample_job ''a'' 2)), (5, ChangeJob ''a'' (ToStage EXEC_W)), (3 + two_weeks, ReadJob ''a''),
       (5 + two_weeks, ChangeJob ''a'' (Fail ''x'')), (6 + two_weeks, InsertJob (sample_job ''b'' 2))]"
  let ?m = "[''a'' \<mapsto> (staged 5 EXEC_W (sample_job ''a'' 2), 5 + two_weeks),
    ''b'' \<mapsto> (sample_job ''b'' 2, 6 + two_weeks + two_weeks)]"
  have "spec_runs 0 ?cs Map.empty =
      Some ([Inr (Some (sample_job ''a'' 2)), Inr (Some (staged 5 EXEC_W (sample_job ''a'' 2))),
        Inr (Some (staged 5 EXEC_W (sample_job ''a'' 2))), Inl ItemNotFoundError, Inr (Some (sample_job ''b'' 2))], ?m)"
    by (simp add: alive_def two_weeks_def)
  moreover have "alive (end_of 0 ?cs) ?m = [''b'' \<mapsto> sample_job ''b'' 2]"
    by (rule ext) (simp add: alive_def end_of_def two_weeks_def)
  ultimately show ?thesis
    using job_store_refines_timed_map [OF mem_timed.timed_redis_axioms mem_empty_represents] by metis
qed

text \<open>
  Of the index entries only those of the fields that an update sets get the new deadline: a job that is
  updated lives on, but the entry of its owner is over 14 days after its insertion, from when on a
  search by owner does not list it.
\<close>

theorem owner_entry_not_renewed:
  assumes "timed_redis R pass" and "represents R t0 s m" and "indexed R t0 s m"
    and "job_ok j" "plain_job j" "alive t0 m (job_id j) = None" and "t0 \<le> t1" "t1 < t0 + two_weeks"
  shows "\<exists>s1 s2 j'. job_insert R t0 j s = (Inr j, s1) \<and>
    job_update_one R t1 (job_id j) (estimate_update d) (pass (total_seconds (t1 - t0)) s1) = (Inr j', s2) \<and>
    httl R s2 (sc_name job_schema) (StrKey (job_id j)) = Some (total_seconds two_weeks) \<and>
    zscore R s2 (index_key job_schema ''user_id'' (opt_text (user_id j))) (StrKey (job_id j)) =
      Some (Secs (total_seconds (t0 + two_weeks)))"
  by (rule timed_redis.owner_entry [OF assms])

end
