(* ===== verification/Job_Properties.thy ===== *)
theory Job_Properties imports Instances begin

text \<open>
  What the search of the store of jobs and the job's life promise: searching the store by index
  selects by value, and the stages stamp, estimate and finish a job in order.
\<close>

section \<open>Searching\<close>

lemma job_filters_validated [simp]: "validate_partial (job_filters uid st) = job_filters uid st"
  by (simp add: validate_partial_def partial_actual_duration_def partial_storage_id_def job_filters_def
      no_update_def)

lemma no_update_facts:
  "validate_partial no_update = no_update" "job_upd_fields no_update = []"
  "get_index_keys_from_dict job_schema no_update = []"
  by (simp_all add: validate_partial_def partial_actual_duration_def partial_storage_id_def no_update_def
      job_upd_fields_def get_index_keys_from_dict_def job_upd_text_def)

definition selected_by :: "string option \<Rightarrow> job_status option \<Rightarrow> job \<Rightarrow> bool" where
  "selected_by uid st j \<longleftrightarrow> (case uid of None \<Rightarrow> True | Some u \<Rightarrow> user_id j = Some u) \<and>
     (case st of None \<Rightarrow> True | Some x \<Rightarrow> status j = x)"

lemma job_filters_fields:
  "set (job_upd_fields (job_filters uid st)) \<subseteq> set (index_fields job_schema)"
  by (auto simp: job_upd_fields_def job_filters_def no_update_def)

lemma job_filters_keys:
  assumes "uid \<noteq> None \<or> st \<noteq> None" and "uid \<noteq> Some []"
  shows "get_index_keys_from_dict job_schema (job_filters uid st) \<noteq> []"
  using assms
  by (auto simp: get_index_keys_from_dict_def job_upd_text_def job_filters_def no_update_def
      split: option.splits list.splits)

lemma job_filters_match:
  assumes "uid \<noteq> Some []" and "uid \<noteq> Some ''None''"
  shows "matches job_schema (job_filters uid st) j \<longleftrightarrow> selected_by uid st j"
  using assms
  by (auto simp: matches_def job_upd_text_def job_text_def job_filters_def no_update_def
      selected_by_def opt_text_def split: option.splits list.splits)

context job_redis
begin

lemma find_jobs_eval:
  assumes wf: "jobs_wf R s" and f: "uid \<noteq> None \<or> st \<noteq> None" "uid \<noteq> Some []" "uid \<noteq> Some ''None''"
    and exact: "index_exact R job_schema job_ok s"
    and live: "\<And>z k sc. zscore R s z k = Some sc \<Longrightarrow> Secs (total_seconds now) \<le> sc"
  shows "\<exists>ts. on_jobs now (find_by_index R job_schema now (job_filters uid st) skip limit) s =
      (Inr (paginate ts skip limit), s) \<and> distinct ts \<and>
    set ts = {j. jobs_of R s (job_id j) = Some j \<and> selected_by uid st j}"
proof -
  have same: "{t. job_ok t \<and> is_stored R job_schema s t \<and> matches job_schema (job_filters uid st) t} =
      {j. jobs_of R s (job_id j) = Some j \<and> selected_by uid st j}"
    using jobs_of_Some [OF wf] stored_jobs_of job_filters_match [OF f(2,3)] by (metis (mono_tags, lifting))
  show ?thesis
    unfolding on_jobs_def same [symmetric]
    by (rule jobs.find_by_index_correct)
      (use exact job_filters_fields job_filters_keys [OF f(1,2)] live in \<open>simp_all add: jobs_wf_def\<close>)
qed

end

section \<open>Stage by stage\<close>

text \<open>The stages a job goes through from its registration, and the instants it enters them at.\<close>

definition all_stages :: "stage list" where
  "all_stages = [REG_Q, REG_W, PRE_PROC_Q, PRE_PROC_W, EXEC_Q, EXEC_W, PST_PROC_Q, PST_PROC_W, FINAL_Q, FINAL_W]"

primrec through :: "(int \<times> stage) list \<Rightarrow> job \<Rightarrow> job" where
  "through [] j = j"
| "through (x # xs) j = through xs (staged (fst x) (snd x) j)"

lemma through_status_terminal: "is_terminal (status j) \<Longrightarrow> status (through xs j) = status j"
  by (induction xs arbitrary: j) simp_all

lemma through_id [simp]: "job_id (through xs j) = job_id j" "user_id (through xs j) = user_id j"
  by (induction xs arbitrary: j) simp_all

definition stamped :: "job \<Rightarrow> job_stage \<Rightarrow> job_event \<Rightarrow> int option" where
  "stamped j n l = (case timestamps_of j of None \<Rightarrow> None | Some ts \<Rightarrow> stamp ts n l)"

lemma stamped_staged [simp]:
  "stamped (staged now st j) n l =
    (if (n, l) \<in> set (stage_timestamps st) then Some now else stamped j n l)"
  by (simp add: stamped_def stamp_next_timestamps)

lemma through_stamps:
  fixes j :: job
  assumes "length ts = 10"
  defines "j' \<equiv> through (zip ts all_stages) j"
  shows "stamped j' registration started = Some (ts ! 1)" "stamped j' registration finished = Some (ts ! 2)"
    "stamped j' pre_processing started = Some (ts ! 3)" "stamped j' pre_processing finished = Some (ts ! 4)"
    "stamped j' execution started = Some (ts ! 5)" "stamped j' execution finished = Some (ts ! 6)"
    "stamped j' post_processing started = Some (ts ! 7)" "stamped j' post_processing finished = Some (ts ! 8)"
    "stamped j' final started = Some (ts ! 8)" "stamped j' final finished = Some (ts ! 9)"
    "stage_of j' = FINAL_W"
proof -
  obtain a b c d e f g h i k where ts: "ts = [a, b, c, d, e, f, g, h, i, k]"
    using assms(1) by (auto simp: length_Suc_conv eval_nat_numeral)
  show "stamped j' registration started = Some (ts ! 1)" "stamped j' registration finished = Some (ts ! 2)"
    "stamped j' pre_processing started = Some (ts ! 3)" "stamped j' pre_processing finished = Some (ts ! 4)"
    "stamped j' execution started = Some (ts ! 5)" "stamped j' execution finished = Some (ts ! 6)"
    "stamped j' post_processing started = Some (ts ! 7)" "stamped j' post_processing finished = Some (ts ! 8)"
    "stamped j' final started = Some (ts ! 8)" "stamped j' final finished = Some (ts ! 9)"
    "stage_of j' = FINAL_W"
    by (simp_all add: j'_def ts all_stages_def)
qed

lemma through_successful:
  assumes "length ts = 10" and "status j = PENDING"
  shows "status (through (zip ts all_stages) j) = SUCCESSFUL"
proof -
  obtain a b c d e f g h i k where ts: "ts = [a, b, c, d, e, f, g, h, i, k]"
    using assms(1) by (auto simp: length_Suc_conv eval_nat_numeral)
  show ?thesis
    using assms(2) by (simp add: ts all_stages_def get_next_status_def is_terminal_def)
qed

lemma sample_job_fresh [simp]:
  "actual_duration (sample_job jid d) = None" "end_utc (sample_job jid d) = None"
  "timestamps_of (sample_job jid d) = None"
  by (simp_all add: sample_job_def new_job_def estimate_update_def no_update_def end_utc_def
      apply_update_def merge_update_def validate_partial_def partial_actual_duration_def set_actual_duration_def)

section \<open>Properties\<close>

text \<open>
  Listing jobs by owner and status. While no index entry has expired or stayed behind, \<open>get_many_jobs\<close> returns,
  paginated, each job of the store that has the asked owner and the asked status exactly once, and
  no other, and changes nothing.
\<close>

theorem get_many_jobs_exact:
  assumes "job_redis (sv_redis V)" and "jobs_ok V w" and "uid \<noteq> None \<or> st \<noteq> None"
    and "uid \<noteq> Some []" and "uid \<noteq> Some ''None''"
    and "index_exact (sv_redis V) job_schema job_ok (w_redis w)"
    and "\<And>z k sc. zscore (sv_redis V) (w_redis w) z k = Some sc \<Longrightarrow> Secs (total_seconds now) \<le> sc"
  shows "\<exists>js. get_many_jobs V now uid st skip limit w = (Inr (paginate js skip limit), w) \<and> distinct js \<and>
    set js = {j. jobs V w (job_id j) = Some j \<and> (\<forall>u. uid = Some u \<longrightarrow> user_id j = Some u) \<and>
      (\<forall>x. st = Some x \<longrightarrow> status j = x)}"
proof -
  have sel: "selected_by uid st j \<longleftrightarrow> (\<forall>u. uid = Some u \<longrightarrow> user_id j = Some u) \<and> (\<forall>x. st = Some x \<longrightarrow> status j = x)"
    for j by (auto simp: selected_by_def split: option.splits)
  obtain js where "on_jobs now (find_by_index (sv_redis V) job_schema now (job_filters uid st) skip limit) (w_redis w) =
      (Inr (paginate js skip limit), w_redis w)" "distinct js"
    "set js = {j. jobs_of (sv_redis V) (w_redis w) (job_id j) = Some j \<and> selected_by uid st j}"
    using job_redis.find_jobs_eval [OF assms(1) assms(2) [unfolded jobs_ok_def] assms(3-6), of now skip limit]
      assms(7) by blast
  then show ?thesis by (auto simp: get_many_jobs_def jobs_def prog_simps sel intro!: exI [of _ js])
qed

text \<open>The index entries of the one stored job are alive for two weeks.\<close>

lemma sample_world_live:
  "zscore mem_redis (w_redis (world_with j)) z k = Some sc \<Longrightarrow> Secs (total_seconds 0) \<le> sc"
proof -
  assume z: "zscore mem_redis (w_redis (world_with j)) z k = Some sc"
  obtain s' where s': "job_insert mem_redis 0 j mem_empty = (Inr j, s')"
    "\<forall>z m. zscore mem_redis s' z m = (if z \<in> set (get_index_keys job_schema j) \<and> m = item_key job_schema j
       then Some (expiry_of 0 (sc_default_ttl job_schema)) else None)"
    using mem_jobs.jobs.insert_item_eval [of 0 j mem_empty]
    unfolding mem_empty_sel job_insert_def on_jobs_def by blast
  have "0 \<le> seconds_us JOBS_STORE_TTL"
    by (simp add: seconds_us_def timedelta_us_def py_round_nonneg JOBS_STORE_TTL_def)
  then have "0 \<le> total_seconds (seconds_us JOBS_STORE_TTL)" by (simp add: total_seconds_def)
  with z s' show ?thesis
    by (auto simp: world_with_def empty_world_def expiry_of_def total_seconds_def split: if_splits)
qed

lemma sample_world_exact:
  assumes "job_ok j"
  shows "index_exact mem_redis job_schema job_ok (w_redis (world_with j))"
proof -
  obtain s' where s': "job_insert mem_redis 0 j mem_empty = (Inr j, s')"
    "\<And>n k. hget mem_redis s' n k = (if n = sc_name job_schema \<and> k = item_key job_schema j
       then Some (RVal (sc_enc job_schema j)) else None)"
    "\<And>z m. zscore mem_redis s' z m = (if z \<in> set (get_index_keys job_schema j) \<and> m = item_key job_schema j
       then Some (expiry_of 0 (sc_default_ttl job_schema)) else None)"
    using mem_jobs.jobs.insert_item_eval [of 0 j mem_empty]
    unfolding mem_empty_sel job_insert_def on_jobs_def by blast
  have "is_stored mem_redis job_schema s' t \<longleftrightarrow> t = j" for t
    by (auto simp: is_stored_def s'(2))
  then have "index_exact mem_redis job_schema job_ok s'"
    using assms mem_jobs.jobs.in_get_index_keys [of _ _ j] unfolding index_exact_def s'(3) by auto
  then show ?thesis by (simp add: world_with_def empty_world_def s'(1))
qed

theorem get_many_jobs_exact_witness:
  "\<exists>js. get_many_jobs mem_services 0 (Some ''u'') (Some PENDING) 0 None (world_with (sample_job ''a'' 2)) =
      (Inr js, world_with (sample_job ''a'' 2)) \<and> set js = {sample_job ''a'' 2}"
proof -
  have ok: "job_ok (sample_job ''a'' 2)" "plain_job (sample_job ''a'' 2)" by simp_all
  obtain js where js: "get_many_jobs mem_services 0 (Some ''u'') (Some PENDING) 0 None (world_with (sample_job ''a'' 2)) =
      (Inr (paginate js 0 None), world_with (sample_job ''a'' 2))"
    "set js = {j. jobs mem_services (world_with (sample_job ''a'' 2)) (job_id j) = Some j \<and>
      (\<forall>u. Some ''u'' = Some u \<longrightarrow> user_id j = Some u) \<and> (\<forall>x. Some PENDING = Some x \<longrightarrow> status j = x)}"
    using get_many_jobs_exact [where V = mem_services and w = "world_with (sample_job ''a'' 2)" and now = 0
        and uid = "Some ''u''" and st = "Some PENDING" and skip = 0 and limit = None]
      mem_jobs.job_redis_axioms world_with_facts(1) [OF ok] sample_world_exact [OF ok(1)] sample_world_live by auto
  have "set js = {sample_job ''a'' 2}"
    unfolding js(2) world_with_facts(2) [OF ok] by (auto split: if_splits)
  with js(1) show ?thesis by auto
qed

text \<open>
  Without an owner and without a status the search has no index to intersect: \<open>get_many_jobs\<close>
  raises, whatever the store holds; it does not return all the jobs.
\<close>

theorem get_many_jobs_unfiltered_raises:
  assumes "redis_laws (sv_redis V)" and "uid \<in> {None, Some []}"
  shows "get_many_jobs V now uid None skip limit w = (Inl OtherError, w)"
proof -
  have f: "job_filters uid None = no_update" using assms(2) by (auto simp: job_filters_def no_update_def)
  have "on_jobs now (find_by_index (sv_redis V) job_schema now no_update skip limit) (w_redis w) =
      (Inl OtherError, w_redis w)"
    using redis_laws.zinter_None [OF assms(1)]
    by (simp add: on_jobs_def with_fresh_def find_by_index_def prog_simps no_update_facts)
  then show ?thesis by (simp add: get_many_jobs_def f prog_simps)
qed

theorem get_many_jobs_unfiltered_raises_witness:
  "get_many_jobs mem_services 0 None None 0 None empty_world = (Inl OtherError, empty_world)"
  by (rule get_many_jobs_unfiltered_raises) (simp_all add: mem.redis_laws_axioms)

text \<open>
  A job that is finished stays as it finished: through whatever stages it is still taken, its
  status is the one it ended with, and so are its id and its owner.
\<close>

theorem terminal_status_kept:
  assumes "status j \<in> {SUCCESSFUL, FAILED, CANCELLED}"
  shows "status (through steps j) = status j \<and> job_id (through steps j) = job_id j \<and>
    user_id (through steps j) = user_id j"
  using assms through_status_terminal [of j] by (auto simp: is_terminal_def)

theorem terminal_status_kept_witness:
  "status (through (zip [1 ..  10] all_stages) (changed 0 (Cancel ''c'') (sample_job ''a'' 2))) = CANCELLED"
  using terminal_status_kept [of "changed 0 (Cancel ''c'') (sample_job ''a'' 2)"]
  by (simp add: changed_status del: changed.simps)

text \<open>
  A job taken through its ten stages is stamped at the instant it entered each: registration
  starts at its second stage, each working phase ends when the next queue is entered, the final phase
  starts when post-processing ends; a pending job ends up successful in the last stage.
\<close>

theorem stages_stamp_in_order:
  assumes "length ts = 10" and "status j = PENDING" and "j' = through (zip ts all_stages) j"
  shows "[stamped j' registration started, stamped j' registration finished,
      stamped j' pre_processing started, stamped j' pre_processing finished,
      stamped j' execution started, stamped j' execution finished,
      stamped j' post_processing started, stamped j' post_processing finished,
      stamped j' final started, stamped j' final finished] =
    map Some [ts ! 1, ts ! 2, ts ! 3, ts ! 4, ts ! 5, ts ! 6, ts ! 7, ts ! 8, ts ! 8, ts ! 9] \<and>
    stage_of j' = FINAL_W \<and> status j' = SUCCESSFUL"
  unfolding assms(3) using through_stamps [OF assms(1), of j] through_successful [OF assms(1,2)] by simp

theorem stages_stamp_in_order_witness:
  "stamped (through (zip [0 .. 9] all_stages) (sample_job ''a'' 2)) execution finished = Some 6"
  using stages_stamp_in_order [OF _ _ refl, of "[0 .. 9]" "sample_job ''a'' 2"]
  by (simp add: upto_rec_numeral upto.simps)

text \<open>
  While a job runs, its estimated time of completion counts down from its estimate by the time
  since it started; when execution ends its actual duration is the time between the two stages, and
  asking for the estimate is refused from then on.
\<close>

theorem eta_counts_down:
  assumes "actual_duration j = None" and "end_utc j = None" and "estimated_duration j = Some d"
    and "start < fin"
  shows "current_eta now (staged start EXEC_W j) = Inr (Some (d - total_seconds (now - start))) \<and>
    actual_duration (staged fin PST_PROC_Q (staged start EXEC_W j)) = Some (total_seconds (fin - start)) \<and>
    current_eta now (staged fin PST_PROC_Q (staged start EXEC_W j)) = Inl JobAlreadyCompleteError"
proof -
  have "timestamps_of j = None \<or> (\<exists>ts. timestamps_of j = Some ts \<and> stamp ts execution finished = None)"
    using assms(2) by (auto simp: end_utc_def split: option.splits)
  from staged_execution(1) [OF this, of start]
  have "actual_duration (staged fin PST_PROC_Q (staged start EXEC_W j)) = Some (total_seconds (fin - start))"
    by (rule staged_actual_duration) (use assms(4) in simp)
  then show ?thesis
    using staged_eta [OF assms(1-3)] by (simp add: current_eta_def)
qed

theorem eta_counts_down_witness:
  "current_eta 3000000 (staged 1000000 EXEC_W (sample_job ''a'' 5)) = Inr (Some 3)"
  using eta_counts_down [of "sample_job ''a'' 5" 5 1000000 4000000 3000000]
  by (simp add: sample_job_fresh total_seconds_def)

end
