(* ===== verification/Booking_Properties.thy ===== *)
theory Booking_Properties imports Instances begin

text \<open>
  What the booking service promises: the validation of a request, the outcomes of a creation, the
  invariant of every reachable database, and which booking the look-ups find.
\<close>

section \<open>Outcomes of a creation\<close>

definition day_of :: "int \<Rightarrow> int" where
  "day_of t = t - t mod day_us"

lemma day_of_range: "day_of t mod day_us = 0" "day_of t \<le> t" "t < day_of t + day_us"
proof -
  have pos: "0 < day_us" by (simp add: day_us_def)
  show "day_of t mod day_us = 0" by (simp add: day_of_def mod_diff_eq)
  show "day_of t \<le> t" using pos by (simp add: day_of_def)
  show "t < day_of t + day_us" using pos_mod_bound [OF pos, of t] by (simp add: day_of_def)
qed

text \<open>The bookings of a user that reach into the day of an instant.\<close>

definition bookings_of_day :: "'d db \<Rightarrow> 'd \<Rightarrow> string \<Rightarrow> int \<Rightarrow> booking multiset" where
  "bookings_of_day D d uid t = filter_mset
     (\<lambda>b. b_start_utc b < day_of t + day_us \<and> day_of t < b_end_utc b \<and> b_user_id b = Some uid)
     (mset (all_bookings D d))"

definition collides :: "'d db \<Rightarrow> 'd \<Rightarrow> new_booking_info \<Rightarrow> bool" where
  "collides D d info \<longleftrightarrow> (\<exists>b\<in>set (all_bookings D d). b_start_utc b < i_end_utc info \<and> i_start_utc info < b_end_utc b)"

context sql_laws
begin

lemma slots_day_eval:
  "validate_max_slots D S uid info d =
    (if MAX_SLOTS_PER_DAY S \<le> size (bookings_of_day D d uid (i_start_utc info)) then Inl MaxBookingsError
     else Inr (), d)"
  by (simp add: max_slots_eval split_beta Let_def bookings_of_day_def day_of_start [OF day_of_range])

lemma create_booking_outcome:
  assumes "i_start_utc info \<le> i_end_utc info" and "bid \<notin> b_id ` set (all_bookings D d)"
    and "uid \<in> u_id ` set (all_users D d)"
  shows "if collides D d info then create_booking D S bid uid info d = (Inl ConflictError, d)
    else if MAX_SLOTS_PER_DAY S \<le> size (bookings_of_day D d uid (i_start_utc info))
      then create_booking D S bid uid info d = (Inl MaxBookingsError, d)
    else \<exists>b d'. create_booking D S bid uid info d = (Inr b, d') \<and>
      mset (all_bookings D d') = add_mset (booking_row bid uid info) (mset (all_bookings D d)) \<and>
      all_users D d' = all_users D d \<and>
      b_id b = bid \<and> b_user_id b = Some uid \<and> b_start_utc b = i_start_utc info \<and>
      b_end_utc b = i_end_utc info \<and> b_total_duration b = total_seconds (i_end_utc info - i_start_utc info) \<and>
      b_start_event_id b = bid @ ''_start_event'' \<and> b_end_event_id b = bid @ ''_end_event'' \<and>
      b_idle_timer_id b = bid @ ''_idle_timer''"
proof -
  let ?row = "booking_row bid uid info"
  have no: "validate_no_overlap D info d = (if collides D d info then Inl ConflictError else Inr (), d)"
    by (simp add: no_overlap_eval collides_def)
  obtain d' where d': "db_add_booking D ?row d = (Inr (), d')"
    "mset (all_bookings D d') = add_mset ?row (mset (all_bookings D d))"
    using add_booking [of ?row d] assms(2,3) by (cases "db_add_booking D ?row d") (auto simp: booking_row_def)
  have users: "all_users D d' = all_users D d" using add_booking_users [of ?row d] d'(1) by simp
  show ?thesis
    using no slots_day_eval [of S uid info d] d' users assms(1)
    by (auto simp: create_booking_def prog_simps validate_booking_def booking_row_def)
qed

lemma collides_overlap: "collides D d info \<longleftrightarrow> (\<exists>b\<in>set (all_bookings D d). overlaps (booking_row i u info) b)"
  by (auto simp: collides_def overlaps_def booking_row_def)

end

lemma disjoint_unique:
  assumes "disjoint_bookings (mset xs)" and "a \<in> set xs" "b \<in> set xs" and "overlaps a b"
  shows "a = b"
proof (rule ccontr)
  assume "a \<noteq> b"
  then have "b \<in># mset xs - {#a#}" using assms(3) by (simp add: in_diff_count)
  with assms show False by (auto simp: disjoint_bookings_def)
qed

section \<open>Properties\<close>

text \<open>
  C3. Starting from an empty database, whatever validated booking requests are made, refused or
  granted, and whatever bookings are deleted and users created or deleted, no two bookings ever
  overlap, no user ever holds more than the daily number of bookings starting on one day, and every
  booking's length is between the two limits.
\<close>

theorem bookings_always_disjoint:
  assumes "sql_laws D" and "0 < MIN_TIME_SLOT_LENGTH S" and "all_bookings D d0 = []"
    and "(booking_step D S)\<^sup>*\<^sup>* d0 d"
  shows "disjoint_bookings (mset (all_bookings D d)) \<and> within_slots S (mset (all_bookings D d)) \<and>
    (\<forall>b\<in>set (all_bookings D d). row_ok S b)"
  using sql_laws.booking_steps_keep [OF assms(1,4) empty_bookings_ok [where S = S, OF assms(3)] assms(2)]
  by (simp add: bookings_ok_def)

definition sample_info :: "new_booking_info" where
  "sample_info = \<lparr>i_start_utc = 0, i_end_utc = 600000000, i_total_duration = 600\<rparr>"

definition sample_user :: user where
  "sample_user = \<lparr>u_id = ''u'', u_name = ''U'', u_email = ''u@x'', u_password = ''p'', u_is_admin = False\<rparr>"

lemma sample_info_valid: "new_booking_info_of default_settings 0 \<lparr>wall = 0, tz = UTC\<rparr> \<lparr>wall = 600000000, tz = UTC\<rparr> = Inr sample_info"
proof -
  have "oldest_allowed default_settings 0 = - 1000000"
    by (simp add: oldest_allowed_now default_settings_def)
  then show ?thesis
    by (simp add: new_booking_info_of_def validate_start_utc_def validate_end_utc_def validate_total_duration_def
        instant_def to_utc_def Let_def default_settings_def total_seconds_def sample_info_def)
qed

theorem bookings_always_disjoint_witness:
  "disjoint_bookings (mset (all_bookings mem_db
    (snd (create_booking mem_db default_settings ''b'' ''u'' sample_info ([], [sample_user])))))"
proof -
  have "booking_step mem_db default_settings ([], [sample_user])
      (snd (create_booking mem_db default_settings ''b'' ''u'' sample_info ([], [sample_user])))"
    by (rule booking_step.create [OF sample_info_valid])
  then have "(booking_step mem_db default_settings)\<^sup>*\<^sup>* ([], [sample_user])
      (snd (create_booking mem_db default_settings ''b'' ''u'' sample_info ([], [sample_user])))"
    by blast
  from bookings_always_disjoint [OF mem_db.sql_laws_axioms _ _ this] show ?thesis
    by (simp add: default_settings_def mem_db_def)
qed

text \<open>
  What a creation does, branch by branch: a request that shares time with a stored booking is a
  conflict; otherwise a user whose bookings already fill the day is refused; otherwise exactly one
  row is added, and the booking returned carries the request's times and the ids of its three events.
  The two refusals leave the database as it was.
\<close>

theorem create_booking_branches:
  assumes "sql_laws D" and "i_start_utc info \<le> i_end_utc info"
    and "bid \<notin> b_id ` set (all_bookings D d)" and "uid \<in> u_id ` set (all_users D d)"
  shows "if collides D d info then create_booking D S bid uid info d = (Inl ConflictError, d)
    else if MAX_SLOTS_PER_DAY S \<le> size (bookings_of_day D d uid (i_start_utc info))
      then create_booking D S bid uid info d = (Inl MaxBookingsError, d)
    else \<exists>b d'. create_booking D S bid uid info d = (Inr b, d') \<and>
      mset (all_bookings D d') = add_mset (booking_row bid uid info) (mset (all_bookings D d)) \<and>
      all_users D d' = all_users D d \<and>
      b_id b = bid \<and> b_user_id b = Some uid \<and> b_start_utc b = i_start_utc info \<and>
      b_end_utc b = i_end_utc info \<and> b_total_duration b = total_seconds (i_end_utc info - i_start_utc info) \<and>
      b_start_event_id b = bid @ ''_start_event'' \<and> b_end_event_id b = bid @ ''_end_event'' \<and>
      b_idle_timer_id b = bid @ ''_idle_timer''"
  by (rule sql_laws.create_booking_outcome [OF assms])

theorem create_booking_branches_witness:
  "\<exists>b d'. create_booking mem_db default_settings ''b'' ''u'' sample_info ([], [sample_user]) = (Inr b, d') \<and>
    b_total_duration b = 600"
  using create_booking_branches [OF mem_db.sql_laws_axioms, of sample_info "''b''" "([], [sample_user])" "''u''" default_settings]
  by (simp add: sample_info_def sample_user_def mem_db_def collides_def bookings_of_day_def default_settings_def
      total_seconds_def) blast

text \<open>
  A request is accepted exactly when it does not start more than a second in the past, does not
  end before it starts or in the past, and is neither too long nor too short; its times are then the
  instants asked for.
\<close>

theorem booking_request_accepted:
  assumes "CURRENT_DATE S = None"
  shows "new_booking_info_of S now start fin =
    (if now - 1000000 \<le> instant start \<and> instant start \<le> instant fin \<and> now - 1000000 \<le> instant fin \<and>
        total_seconds (instant fin - instant start) \<le> MAX_TIME_SLOT_LENGTH S \<and>
        MIN_TIME_SLOT_LENGTH S \<le> total_seconds (instant fin - instant start)
     then Inr \<lparr>i_start_utc = instant start, i_end_utc = instant fin,
       i_total_duration = total_seconds (instant fin - instant start)\<rparr>
     else Inl ValidationError)"
  by (auto simp: new_booking_info_of_def validate_start_utc_def validate_end_utc_def validate_total_duration_def
      Let_def oldest_allowed_now [OF assms] instant_def)

theorem booking_request_accepted_witness:
  "new_booking_info_of default_settings 0 \<lparr>wall = 3600000000, tz = Offset 3600000000\<rparr> \<lparr>wall = 600000000, tz = Naive\<rparr> =
    Inr sample_info"
  using booking_request_accepted [of default_settings 0 "\<lparr>wall = 3600000000, tz = Offset 3600000000\<rparr>"
      "\<lparr>wall = 600000000, tz = Naive\<rparr>"]
  by (simp add: default_settings_def instant_def to_utc_def total_seconds_def sample_info_def)

text \<open>
  The next booking is the earliest of those that have not started: nothing is returned only when
  every stored booking has started before now, and otherwise no stored booking starts earlier without
  having started already.
\<close>

theorem next_booking_is_earliest:
  assumes "sql_laws D" and "bookings_ok D S d"
  shows "\<exists>r. get_next_booking D now d = (Inr r, d) \<and>
    (case r of
       None \<Rightarrow> \<forall>b\<in>set (all_bookings D d). b_start_utc b < now
     | Some v \<Rightarrow> (\<exists>b\<in>set (all_bookings D d). validate_booking b = Inr v) \<and> now \<le> b_start_utc v \<and>
         (\<forall>b\<in>set (all_bookings D d). now \<le> b_start_utc b \<longrightarrow> b_start_utc v \<le> b_start_utc b))"
  by (rule sql_laws.get_next_booking_eval [OF assms])

theorem next_booking_is_earliest_witness:
  "\<exists>r. get_next_booking mem_db 5 ([], [sample_user]) = (Inr r, ([], [sample_user]))"
proof -
  have "bookings_ok mem_db default_settings ([], [sample_user])"
    by (rule empty_bookings_ok) (simp add: mem_db_def)
  from next_booking_is_earliest [OF mem_db.sql_laws_axioms this] show ?thesis by blast
qed

text \<open>
  The active booking. When the clock is strictly inside a stored booking, the look-up finds that
  booking and no other one, since bookings do not overlap; when nothing is found no stored booking
  contains the instant.
\<close>

theorem active_booking_found:
  assumes "sql_laws D" and "bookings_ok D S d"
  shows "\<exists>r. get_active_booking D now d = (Inr r, d) \<and>
    (r = None \<longleftrightarrow> (\<forall>b\<in>set (all_bookings D d). \<not> (b_start_utc b \<le> now \<and> now \<le> b_end_utc b))) \<and>
    (\<forall>b\<in>set (all_bookings D d). b_start_utc b < now \<and> now < b_end_utc b \<longrightarrow>
      r \<noteq> None \<and> validate_booking b = Inr (the r))"
proof -
  obtain r where r: "get_active_booking D now d = (Inr r, d)"
    "case r of
       None \<Rightarrow> \<forall>b\<in>set (all_bookings D d). \<not> (b_start_utc b \<le> now \<and> now \<le> b_end_utc b)
     | Some v \<Rightarrow> (\<exists>b\<in>set (all_bookings D d). validate_booking b = Inr v) \<and> b_start_utc v \<le> now \<and> now \<le> b_end_utc v"
    using sql_laws.get_active_booking_eval [OF assms, of now] by blast
  show ?thesis
  proof (cases r)
    case None
    with r show ?thesis by fastforce
  next
    case (Some v)
    then obtain a where a: "a \<in> set (all_bookings D d)" "validate_booking a = Inr v"
      "b_start_utc v \<le> now" "now \<le> b_end_utc v" using r(2) by auto
    then have t: "b_start_utc a \<le> now" "now \<le> b_end_utc a"
      by (auto simp: validate_booking_def split: if_splits)
    have "a = b" if "b \<in> set (all_bookings D d)" "b_start_utc b < now" "now < b_end_utc b" for b
      using disjoint_unique [OF _ a(1) that(1)] assms(2) t that(2,3)
      by (simp add: bookings_ok_def overlaps_def)
    with a t r(1) Some show ?thesis by (intro exI [of _ r]) auto
  qed
qed

theorem active_booking_found_witness:
  "get_active_booking mem_db 5 ([], [sample_user]) = (Inr None, ([], [sample_user]))"
proof -
  have "bookings_ok mem_db default_settings ([], [sample_user])"
    by (rule empty_bookings_ok) (simp add: mem_db_def)
  from active_booking_found [OF mem_db.sql_laws_axioms this, of 5] show ?thesis
    by (auto simp: mem_db_def)
qed

end
