(* ===== verification/Request_Log.thy ===== *)
theory Request_Log imports Job_Store begin

text \<open>
  The store of request logs (\<open>get_request_logs_store\<close> of \<^verbatim>\<open>app/utils/api.py\<close>): a second schema
  of \<open>Collection\<close>, in the same Redis as the jobs. Unlike the store of jobs it is one collection
  kept for the life of the process, so its indexes are cleaned up now and then. No log is ever
  updated: the type of its updates is \<open>unit\<close>.
\<close>

section \<open>The collection\<close>

definition REQUEST_LOG_TTL :: rat where
  "REQUEST_LOG_TTL = 3600 * 24 * 14"

definition REQUEST_LOG_CLEAN_INTERVAL :: rat where
  "REQUEST_LOG_CLEAN_INTERVAL = 3600 * 5"

definition log_text :: "request_log \<Rightarrow> string \<Rightarrow> string" where
  "log_text l f =
     (if f = ''request_id'' then rl_request_id l
      else if f = ''user_id'' then opt_text (rl_user_id l)
      else if f = ''ip_address'' then opt_text (rl_ip_address l)
      else [])"

fun log_dec :: "payload \<Rightarrow> request_log result" where
  "log_dec (PLog l) = Inr l"
| "log_dec _ = Inl ValidationError"

definition log_schema :: "(rkey, payload, request_log, unit) schema" where
  "log_schema = \<lparr>
     sc_name = ''app.utils.api.requestlog'',
     sc_primary_fields = [''request_id''],
     sc_index_fields = [''user_id'', ''ip_address''],
     sc_text = log_text,
     sc_upd_text = (\<lambda>_ _. None),
     sc_upd_fields = (\<lambda>_. []),
     sc_validate_partial = (\<lambda>u. Inr u),
     sc_merge = (\<lambda>now l u. Inr l),
     sc_enc = PLog,
     sc_dec = log_dec,
     sc_field = StrKey,
     sc_default_ttl = Ttl REQUEST_LOG_TTL,
     sc_cleanup_interval = REQUEST_LOG_CLEAN_INTERVAL\<rparr>"

definition log_exists :: "'r store \<Rightarrow> string \<Rightarrow> (bool, 'r coll) prog" where
  "log_exists R request_id = exists_item R log_schema (KStr request_id)"

definition log_insert :: "'r store \<Rightarrow> int \<Rightarrow> request_log \<Rightarrow> (request_log, 'r coll) prog" where
  "log_insert R now l = insert_item R log_schema now l Undefined"

lemma log_schema_fields [simp]:
  "index_fields log_schema = [''request_id'', ''user_id'', ''ip_address'']"
  by (simp add: index_fields_def log_schema_def)

lemma log_schema_sel [simp]:
  "sc_name log_schema = ''app.utils.api.requestlog''" "sc_text log_schema = log_text"
  "sc_enc log_schema = PLog" "sc_field log_schema = StrKey" "sc_primary_fields log_schema = [''request_id'']"
  "sc_default_ttl log_schema = Ttl REQUEST_LOG_TTL"
  by (simp_all add: log_schema_def)

lemma log_key [simp]: "get_redis_key log_schema l = rl_request_id l" "item_key log_schema l = StrKey (rl_request_id l)"
  "construct_redis_key log_schema (KStr k) = Inr k"
  by (simp_all add: get_redis_key_def item_key_def log_text_def construct_redis_key_def)

lemma log_ttl_positive [simp]: "0 < REQUEST_LOG_TTL"
  by (simp add: REQUEST_LOG_TTL_def)

interpretation log_schema: schema_laws log_schema "\<lambda>_. True"
proof
  show "f \<in> set (index_fields log_schema) \<Longrightarrow> CHR '':'' \<notin> set f" for f by auto
  show "distinct (index_fields log_schema)" by simp
qed (auto simp: log_schema_def REQUEST_LOG_TTL_def REQUEST_LOG_CLEAN_INTERVAL_def)

sublocale job_redis \<subseteq> logs: collection R log_schema "\<lambda>_. True"
  by unfold_locales

section \<open>What logging does\<close>

text \<open>
  Whether a request is logged, and that logging one request adds exactly it; jobs and queues are
  as before, also when the indexes of the logs are cleaned up on the way.
\<close>

definition is_logged :: "'r store \<Rightarrow> 'r \<Rightarrow> string \<Rightarrow> bool" where
  "is_logged R s i \<longleftrightarrow> hget R s (sc_name log_schema) (StrKey i) \<noteq> None"

lemma log_index_other:
  "index_key log_schema f v \<noteq> index_key job_schema g w"
  "startswith z (index_prefix log_schema @ idx_separator) \<Longrightarrow> z \<noteq> index_key job_schema g w"
  by (auto simp: index_key_def index_prefix_def startswith_def)

context job_redis
begin

lemma log_exists_eval: "log_exists R i (s, l) = (Inr (is_logged R s i), (s, l))"
  by (simp add: log_exists_def exists_item_def is_logged_def prog_simps)

lemma fold_cleanup:
  "hget R (fold (\<lambda>k. zremrangebyscore R k lo hi) ks s) n k = hget R s n k"
  "items R (fold (\<lambda>k. zremrangebyscore R k lo hi) ks s) l = items R s l"
  "z \<notin> set ks \<Longrightarrow> zscore R (fold (\<lambda>k. zremrangebyscore R k lo hi) ks s) z m = zscore R s z m"
  by (induction ks arbitrary: s) (simp_all add: law_simps)

lemma log_cleanup_eval:
  "\<exists>ks l'. cleanup_expired_indexes R log_schema now (s, l) =
      (Inr (fold (\<lambda>k. zremrangebyscore R k (Secs 0) (Secs (total_seconds now))) ks), (s, l')) \<and>
    (\<forall>k\<in>set ks. startswith k (index_prefix log_schema @ idx_separator))"
proof (cases "sc_cleanup_interval log_schema < total_seconds now - l")
  case True
  obtain zs where zs: "\<And>l. get_all_index_keys R log_schema (s, l) = (Inr zs, (s, l))"
    "set zs = {z. startswith z (index_prefix log_schema @ idx_separator) \<and> (\<exists>m. zscore R s z m \<noteq> None)}"
  proof -
    obtain zs where zs: "get_all_index_keys R log_schema (s, 0) = (Inr zs, (s, 0))"
      "set zs = {z. startswith z (index_prefix log_schema @ idx_separator) \<and> (\<exists>m. zscore R s z m \<noteq> None)}"
      using get_all_index_keys_eval [of log_schema s 0] by blast
    have "get_all_index_keys R log_schema (s, l) = (Inr zs, (s, l))" for l
      using zs(1) by (simp add: get_all_index_keys_def prog_simps Let_def split: option.splits)
    with zs(2) that show ?thesis by blast
  qed
  show ?thesis
    using True zs by (intro exI [of _ zs] exI [of _ "total_seconds now"]) (simp add: cleanup_expired_indexes_def prog_simps)
next
  case False
  then show ?thesis by (intro exI [of _ "[]"] exI [of _ l]) (simp add: cleanup_expired_indexes_def prog_simps id_def)
qed

lemma log_insert_eval:
  "\<exists>s' l'. log_insert R now rl (s, l) = (Inr rl, (s', l')) \<and>
    (\<forall>i. is_logged R s' i \<longleftrightarrow> i = rl_request_id rl \<or> is_logged R s i) \<and>
    same_jobs s s' \<and> (\<forall>n. same_queue n s s')"
proof -
  obtain ks l' where c: "cleanup_expired_indexes R log_schema now (s, l) =
      (Inr (fold (\<lambda>k. zremrangebyscore R k (Secs 0) (Secs (total_seconds now))) ks), (s, l'))"
    "\<forall>k\<in>set ks. startswith k (index_prefix log_schema @ idx_separator)"
    using log_cleanup_eval [of now s l] by blast
  let ?clean = "fold (\<lambda>k. zremrangebyscore R k (Secs 0) (Secs (total_seconds now))) ks s"
  let ?k = "StrKey (rl_request_id rl)"
  let ?s' = "fold (\<lambda>idx. zadd R idx ?k (expiry_of now (Ttl REQUEST_LOG_TTL))) (get_index_keys log_schema rl)
    (hexpire R (sc_name log_schema) REQUEST_LOG_TTL ?k (hset R (sc_name log_schema) ?k (RVal (PLog rl)) ?clean))"
  have run: "log_insert R now rl (s, l) = (Inr rl, (?s', l'))"
    using c(1) by (simp add: log_insert_def insert_item_def Let_def effective_ttl_def prog_simps insert_indexes_def)
  have h: "hget R ?s' n k = (if n = sc_name log_schema \<and> k = ?k then Some (RVal (PLog rl)) else hget R s n k)" for n k
    by (simp add: hget_fold_zadd law_simps fold_cleanup)
  have it: "items R ?s' q = items R s q" for q
    by (simp add: items_fold_zadd law_simps fold_cleanup)
  have z: "zscore R ?s' (index_key job_schema f v) m = zscore R s (index_key job_schema f v) m" for f v m
  proof -
    have "index_key job_schema f v \<notin> set ks" using c(2) log_index_other(2) by blast
    moreover have "index_key job_schema f v \<notin> set (get_index_keys log_schema rl)"
      using log_index_other(1) [symmetric] by (auto simp: get_index_keys_def simp del: log_schema_sel)
    ultimately show ?thesis by (simp add: zscore_fold_zadd law_simps fold_cleanup)
  qed
  have "is_logged R ?s' i \<longleftrightarrow> i = rl_request_id rl \<or> is_logged R s i" for i
    unfolding is_logged_def h by simp
  moreover have "same_jobs s ?s'" unfolding same_jobs_def h z by simp
  moreover have "same_queue n s ?s'" for n
    unfolding same_queue_def h it by (simp add: db_of_def args_db_of_def metadata_of_def)
  ultimately show ?thesis using run by blast
qed

end

end
