(* ===== verification/Py_Uuid.thy ===== *)
theory Py_Uuid imports Py_String "HOL-Library.Word" begin

text \<open>
  \<open>validate_uuid4_str\<close> of \<^verbatim>\<open>app/utils/strings.py\<close>, with the constructor of \<open>uuid.UUID\<close>
  for a text and version 4, Python's \<open>int(text, 16)\<close> and the text of a UUID; and a reference
  definition of the texts it accepts.
\<close>

unbundle bit_operations_syntax

section \<open>Reading a number\<close>

definition hex_value :: "char \<Rightarrow> nat option" where
  "hex_value c =
     (let n = of_char c :: nat in
      if 48 \<le> n \<and> n \<le> 57 then Some (n - 48)
      else if 97 \<le> n \<and> n \<le> 102 then Some (n - 87)
      else if 65 \<le> n \<and> n \<le> 70 then Some (n - 55) else None)"

text \<open>Digits, with single underscores between them.\<close>

fun hex_digits :: "string \<Rightarrow> int \<Rightarrow> int option" where
  "hex_digits [] acc = Some acc"
| "hex_digits (c # cs) acc =
     (case hex_value c of
        Some d \<Rightarrow> hex_digits cs (16 * acc + int d)
      | None \<Rightarrow>
          (case cs of
             d # _ \<Rightarrow> if c = CHR ''_'' \<and> hex_value d \<noteq> None then hex_digits cs acc else None
           | [] \<Rightarrow> None))"

fun hex_number :: "string \<Rightarrow> int option" where
  "hex_number [] = None"
| "hex_number (c # cs) = (if hex_value c = None then None else hex_digits (c # cs) 0)"

definition hex_unsigned :: "string \<Rightarrow> int option" where
  "hex_unsigned cs =
     (case cs of
        z # x # ds \<Rightarrow>
          if z = CHR ''0'' \<and> (x = CHR ''x'' \<or> x = CHR ''X'')
          then hex_number (case ds of [] \<Rightarrow> [] | u # ds' \<Rightarrow> if u = CHR ''_'' then ds' else ds)
          else hex_number cs
      | _ \<Rightarrow> hex_number cs)"

definition int16 :: "string \<Rightarrow> int option" where
  "int16 s =
     (case strip s of
        [] \<Rightarrow> None
      | c # cs \<Rightarrow> if c = CHR ''-'' then map_option uminus (hex_unsigned cs)
                  else if c = CHR ''+'' then hex_unsigned cs else hex_unsigned (c # cs))"

section \<open>UUIDs\<close>

text \<open>\<open>hex.replace('urn:', '').replace('uuid:', '').strip('{}').replace('-', '')\<close>.\<close>

definition uuid_hex :: "string \<Rightarrow> string" where
  "uuid_hex s =
     (let t = concat (py_split ''uuid:'' (concat (py_split ''urn:'' s)));
          brace = (\<lambda>c. c = CHR ''{'' \<or> c = CHR ''}'')
      in filter (\<lambda>c. c \<noteq> CHR ''-'') (rev (dropWhile brace (rev (dropWhile brace t)))))"

definition uuid4_bits :: "int \<Rightarrow> int" where
  "uuid4_bits n =
     (let n1 = (n AND NOT (push_bit 48 0xc000)) OR push_bit 48 0x8000
      in (n1 AND NOT (push_bit 64 0xf000)) OR push_bit 76 4)"

definition uuid4_int :: "string \<Rightarrow> int option" where
  "uuid4_int s =
     (let hex = uuid_hex s in
      if length hex \<noteq> 32 then None
      else case int16 hex of
             None \<Rightarrow> None
           | Some n \<Rightarrow> if 0 \<le> n \<and> n < 2 ^ 128 then Some (uuid4_bits n) else None)"

definition hex_char :: "int \<Rightarrow> char" where
  "hex_char d = ''0123456789abcdef'' ! nat d"

text \<open>\<open>'%032x' % n\<close> and the dashes of \<open>str\<close>.\<close>

definition hex32 :: "int \<Rightarrow> string" where
  "hex32 n = map (\<lambda>i. hex_char (drop_bit (4 * (31 - i)) n AND 15)) [0..<32]"

definition uuid_text :: "int \<Rightarrow> string" where
  "uuid_text n =
     (let h = hex32 n in take 8 h @ ''-'' @ take 4 (drop 8 h) @ ''-'' @ take 4 (drop 12 h) @ ''-'' @
        take 4 (drop 16 h) @ ''-'' @ drop 20 h)"

definition validate_uuid4_str :: "string \<Rightarrow> bool" where
  "validate_uuid4_str s = (case uuid4_int s of None \<Rightarrow> False | Some n \<Rightarrow> uuid_text n = s)"

section \<open>The reference\<close>

definition lower_hex :: "char \<Rightarrow> bool" where
  "lower_hex c \<longleftrightarrow> c \<in> set ''0123456789abcdef''"

text \<open>Eight, four, four, four and twelve lower-case digits, with version 4 and the RFC variant.\<close>

definition canonical_uuid4 :: "string \<Rightarrow> bool" where
  "canonical_uuid4 s \<longleftrightarrow> (\<exists>a b c d e. s = a @ ''-'' @ b @ ''-'' @ c @ ''-'' @ d @ ''-'' @ e \<and>
     length a = 8 \<and> length b = 4 \<and> length c = 4 \<and> length d = 4 \<and> length e = 12 \<and>
     (\<forall>x\<in>set (a @ b @ c @ d @ e). lower_hex x) \<and> hd c = CHR ''4'' \<and> hd d \<in> set ''89ab'')"

section \<open>Digits\<close>

lemma digit_cases:
  "0 \<le> d \<Longrightarrow> d < 16 \<Longrightarrow> d \<in> {0 :: int, 1, 2, 3, 4, 5, 6, 7, 8, 9, 10, 11, 12, 13, 14, 15}"
  by simp presburger

lemma hex_char_facts:
  assumes "0 \<le> d" "d < 16"
  shows "hex_value (hex_char d) = Some (nat d)" "\<not> py_space (hex_char d)" "lower_hex (hex_char d)"
    "hex_char d \<notin> {CHR ''-'', CHR ''+'', CHR ''x'', CHR ''X'', CHR ''u'', CHR ''{'', CHR ''}''}"
  using digit_cases [OF assms]
  by (auto simp: hex_char_def hex_value_def py_space_def lower_hex_def)

lemma lower_hexE:
  assumes "lower_hex c"
  obtains d where "0 \<le> d" "d < 16" "c = hex_char d"
proof -
  have "c \<in> set ''0123456789abcdef''" using assms by (simp add: lower_hex_def)
  then obtain i where i: "i < length ''0123456789abcdef''" "''0123456789abcdef'' ! i = c"
    unfolding in_set_conv_nth by blast
  show thesis
    using i by (intro that [of "int i"]) (simp_all add: hex_char_def)
qed

lemma lower_hex_plain:
  assumes "lower_hex c"
  shows "\<not> py_space c" "hex_value c \<noteq> None"
    "c \<noteq> CHR ''-''" "c \<noteq> CHR ''+''" "c \<noteq> CHR ''x''" "c \<noteq> CHR ''X''" "c \<noteq> CHR ''u''" "c \<noteq> CHR ''{''" "c \<noteq> CHR ''}''"
proof -
  obtain d where d: "0 \<le> d" "d < 16" "c = hex_char d" using lower_hexE [OF assms] .
  show "\<not> py_space c" "hex_value c \<noteq> None" "c \<noteq> CHR ''-''" "c \<noteq> CHR ''+''" "c \<noteq> CHR ''x''" "c \<noteq> CHR ''X''"
    "c \<noteq> CHR ''u''" "c \<noteq> CHR ''{''" "c \<noteq> CHR ''}''"
    using hex_char_facts [OF d(1,2)] unfolding d(3) by blast+
qed

lemma and_15: "(x :: int) AND 15 = x mod 16"
  using take_bit_eq_mask [of 4 x] by (simp add: mask_eq_exp_minus_1 take_bit_eq_mod)

definition horner :: "int list \<Rightarrow> int" where
  "horner ds = foldl (\<lambda>acc d. 16 * acc + d) 0 ds"

lemma horner_bounds:
  assumes "\<forall>d\<in>set ds. 0 \<le> d \<and> d < 16"
  shows "0 \<le> horner ds \<and> horner ds < 16 ^ length ds"
  using assms
proof (induction ds rule: rev_induct)
  case (snoc d ds)
  then have "0 \<le> horner ds" "horner ds + 1 \<le> 16 ^ length ds" "0 \<le> d" "d < 16" by auto
  then have "0 \<le> 16 * horner ds + d" "16 * horner ds + d < 16 * 16 ^ length ds" by linarith+
  then show ?case by (simp add: horner_def)
qed (simp add: horner_def)

lemma horner_digit:
  assumes "\<forall>d\<in>set ds. 0 \<le> d \<and> d < 16" and "i < length ds"
  shows "horner ds div 16 ^ (length ds - 1 - i) mod 16 = ds ! i"
  using assms
proof (induction ds rule: rev_induct)
  case (snoc d ds)
  have h: "horner (ds @ [d]) = 16 * horner ds + d" by (simp add: horner_def)
  have d: "0 \<le> d" "d < 16" using snoc.prems by auto
  show ?case
  proof (cases "i = length ds")
    case True
    then show ?thesis using d by (simp add: h)
  next
    case False
    then have i: "i < length ds" using snoc.prems by simp
    then obtain k where k: "length ds - i = Suc k" by (metis Suc_diff_Suc)
    have "(16 * horner ds + d) div 16 ^ Suc k = (16 * horner ds + d) div 16 div 16 ^ k"
      by (simp add: div_mult2_eq' zdiv_zmult2_eq)
    moreover have "(16 * horner ds + d) div 16 = horner ds" using d by simp
    moreover have "length ds - 1 - i = k" using k by simp
    ultimately show ?thesis using snoc.IH snoc.prems(1) i k by (simp add: h nth_append)
  qed
qed simp

lemma hex_digits_horner:
  assumes "\<forall>c\<in>set cs. lower_hex c"
  shows "hex_digits cs acc = Some (foldl (\<lambda>acc d. 16 * acc + d) acc (map (\<lambda>c. int (the (hex_value c))) cs))"
  using assms
proof (induction cs arbitrary: acc)
  case (Cons c cs)
  then obtain d where "hex_value c = Some (nat d)" using hex_char_facts(1) lower_hexE by (metis list.set_intros(1))
  with Cons show ?case by simp
qed simp

section \<open>Version and variant\<close>

lemma uuid4_bits_bit:
  "bit (uuid4_bits n) k \<longleftrightarrow> k = 63 \<or> k = 78 \<or> (bit n k \<and> k \<notin> {62, 63, 76, 77, 78, 79})"
proof -
  have masks: "push_bit 48 (0xc000 :: int) = push_bit 62 (mask 2)" "push_bit 48 (0x8000 :: int) = push_bit 63 (mask 1)"
    "push_bit 64 (0xf000 :: int) = push_bit 76 (mask 4)" "push_bit 76 (4 :: int) = push_bit 78 (mask 1)"
    by (simp_all add: mask_eq_exp_minus_1 push_bit_eq_mult)
  have bits: "bit (push_bit 62 (mask 2) :: int) k \<longleftrightarrow> k = 62 \<or> k = 63" "bit (push_bit 63 (mask 1) :: int) k \<longleftrightarrow> k = 63"
    "bit (push_bit 76 (mask 4) :: int) k \<longleftrightarrow> k \<in> {76, 77, 78, 79}" "bit (push_bit 78 (mask 1) :: int) k \<longleftrightarrow> k = 78"
    unfolding bit_push_bit_iff bit_mask_iff by (simp_all, presburger+)
  show ?thesis
    unfolding uuid4_bits_def Let_def masks bit_or_iff bit_and_iff bit_not_iff bits by auto
qed

text \<open>The digit at a place of the text: bits \<open>4 * (31 - i)\<close> and up.\<close>

definition nibble :: "int \<Rightarrow> nat \<Rightarrow> int" where
  "nibble n i = drop_bit (4 * (31 - i)) n AND 15"

lemma nibble_range: "0 \<le> nibble n i" "nibble n i < 16"
  by (simp_all add: nibble_def and_15)

lemma bit_nibble: "bit (nibble n i) k \<longleftrightarrow> k < 4 \<and> bit n (4 * (31 - i) + k)"
proof -
  have m: "bit (15 :: int) k \<longleftrightarrow> k < 4"
    using bit_mask_iff [of 4 k, where 'a = int] by (simp add: mask_eq_exp_minus_1)
  show ?thesis unfolding nibble_def bit_and_iff bit_drop_bit_eq m by auto
qed

lemma uuid4_bits_nibbles: "nibble (uuid4_bits n) 12 = 4" "nibble (uuid4_bits n) 16 \<in> {8, 9, 10, 11}"
proof -
  show "nibble (uuid4_bits n) 12 = 4"
  proof (rule bit_eqI)
    fix k :: nat
    consider "k = 0" | "k = 1" | "k = 2" | "k = 3" | "4 \<le> k" by linarith
    then show "bit (nibble (uuid4_bits n) 12) k = bit (4 :: int) k"
    proof cases
      case 5
      then have "\<not> bit (4 :: int) k"
        using bit_push_bit_iff [of 2 "1 :: int" k] by (simp add: bit_1_iff)
      with 5 show ?thesis by (simp add: bit_nibble)
    qed (simp_all add: bit_nibble uuid4_bits_bit)
  qed
  have "bit (nibble (uuid4_bits n) 16) 3" "\<not> bit (nibble (uuid4_bits n) 16) 2"
    unfolding bit_nibble uuid4_bits_bit by simp_all
  with digit_cases [OF nibble_range, of "uuid4_bits n" 16] show "nibble (uuid4_bits n) 16 \<in> {8, 9, 10, 11}" by auto
qed

lemma uuid4_bits_same:
  assumes "nibble n 12 = 4" "nibble n 16 \<in> {8, 9, 10, 11}"
  shows "uuid4_bits n = n"
proof (rule bit_eqI)
  fix k
  have four: "bit n (76 + j) \<longleftrightarrow> bit (4 :: int) j" if "j < 4" for j
    using bit_nibble [of n 12 j] assms(1) that by simp
  have var: "bit n (60 + j) \<longleftrightarrow> bit (nibble n 16) j" if "j < 4" for j
    using bit_nibble [of n 16 j] that by simp
  have "\<not> bit n 76" "\<not> bit n 77" "bit n 78" "\<not> bit n 79"
    using four [of 0] four [of 1] four [of 2] four [of 3] by simp_all
  moreover have "bit n 63" "\<not> bit n 62"
    using var [of 3] var [of 2] assms(2) by auto
  ultimately show "bit (uuid4_bits n) k = bit n k" unfolding uuid4_bits_bit by auto
qed

section \<open>The two definitions agree\<close>

lemma hex32_nibbles: "hex32 n = map (\<lambda>i. hex_char (nibble n i)) [0..<32]"
  by (simp add: hex32_def nibble_def)

lemma uuid_text_parts:
  fixes n defines "h \<equiv> hex32 n"
  shows "uuid_text n = take 8 h @ ''-'' @ take 4 (drop 8 h) @ ''-'' @ take 4 (drop 12 h) @ ''-'' @
      take 4 (drop 16 h) @ ''-'' @ drop 20 h" "length h = 32" "\<forall>c\<in>set h. lower_hex c"
    "hd (take 4 (drop 12 h)) = hex_char (nibble n 12)" "hd (take 4 (drop 16 h)) = hex_char (nibble n 16)"
proof -
  show "length h = 32" by (simp add: h_def hex32_def)
  then have "take 4 (drop k h) \<noteq> [] \<and> hd (take 4 (drop k h)) = h ! k" if "k < 32" for k
    using that by (simp add: hd_drop_conv_nth hd_take)
  moreover have "h ! 12 = hex_char (nibble n 12)" "h ! 16 = hex_char (nibble n 16)"
    by (simp_all add: h_def hex32_nibbles del: upt_Suc)
  ultimately show "hd (take 4 (drop 12 h)) = hex_char (nibble n 12)" "hd (take 4 (drop 16 h)) = hex_char (nibble n 16)"
    by simp_all
  show "\<forall>c\<in>set h. lower_hex c"
    using hex_char_facts(3) [OF nibble_range] by (auto simp: h_def hex32_nibbles)
qed (simp add: uuid_text_def h_def Let_def)

lemma uuid_text_canonical: "canonical_uuid4 (uuid_text (uuid4_bits n))"
proof -
  let ?h = "hex32 (uuid4_bits n)"
  note p = uuid_text_parts [of "uuid4_bits n"]
  have v: "hex_char (nibble (uuid4_bits n) 12) = CHR ''4''" "hex_char (nibble (uuid4_bits n) 16) \<in> set ''89ab''"
    using uuid4_bits_nibbles(2) [of n] by (auto simp: uuid4_bits_nibbles(1) hex_char_def)
  have low: "\<forall>x\<in>set (take 8 ?h @ take 4 (drop 8 ?h) @ take 4 (drop 12 ?h) @ take 4 (drop 16 ?h) @ drop 20 ?h). lower_hex x"
    using p(3) by (auto dest: in_set_takeD in_set_dropD)
  show ?thesis
    unfolding canonical_uuid4_def
    by (intro exI conjI) (rule p(1), (rule low | simp only: p(4,5) v | simp add: p(2))+)
qed

lemma no_split: "sep \<noteq> [] \<Longrightarrow> hd sep \<notin> set s \<Longrightarrow> concat (py_split sep s) = s"
  by (simp add: py_split_one)

lemma dropWhile_none: "\<forall>x\<in>set xs. \<not> P x \<Longrightarrow> dropWhile P xs = xs"
  by (cases xs) simp_all

lemma uuid_hex_canonical:
  assumes "s = a @ ''-'' @ b @ ''-'' @ c @ ''-'' @ d @ ''-'' @ e"
    and low: "\<forall>x\<in>set (a @ b @ c @ d @ e). lower_hex x"
  shows "uuid_hex s = a @ b @ c @ d @ e"
proof -
  have ne: "x \<noteq> CHR ''u''" "x \<noteq> CHR ''{''" "x \<noteq> CHR ''}''" if "x \<in> set s" for x
  proof -
    have "x = CHR ''-'' \<or> lower_hex x" using that low unfolding assms(1) by auto
    then show "x \<noteq> CHR ''u''" "x \<noteq> CHR ''{''" "x \<noteq> CHR ''}''" using lower_hex_plain by (elim disjE; blast)+
  qed
  have u: "CHR ''u'' \<notin> set s" using ne(1) by blast
  have "concat (py_split ''urn:'' s) = s" "concat (py_split ''uuid:'' s) = s"
    by (rule no_split; simp add: u)+
  then have "concat (py_split ''uuid:'' (concat (py_split ''urn:'' s))) = s" by simp
  moreover have "\<forall>x\<in>set s. \<not> (x = CHR ''{'' \<or> x = CHR ''}'')" using ne(2,3) by blast
  then have "dropWhile (\<lambda>c. c = CHR ''{'' \<or> c = CHR ''}'') s = s"
    "dropWhile (\<lambda>c. c = CHR ''{'' \<or> c = CHR ''}'') (rev s) = rev s"
    by (simp_all only: dropWhile_none set_rev)
  ultimately have "uuid_hex s = filter (\<lambda>c. c \<noteq> CHR ''-'') s" by (simp add: uuid_hex_def Let_def)
  moreover have "filter (\<lambda>x. x \<noteq> CHR ''-'') xs = xs" if "\<forall>x\<in>set xs. lower_hex x" for xs
    using that lower_hex_plain(3) by (intro filter_True) blast
  then have "filter (\<lambda>x. x \<noteq> CHR ''-'') xs = xs" if "xs \<in> {a, b, c, d, e}" for xs
    using that low by auto
  ultimately show ?thesis by (simp add: assms(1))
qed

lemma int16_lower:
  assumes "ds \<noteq> []" and low: "\<forall>x\<in>set ds. lower_hex x"
  shows "int16 ds = Some (horner (map (\<lambda>c. int (the (hex_value c))) ds))"
proof -
  have "strip ds = ds"
  proof -
    have "\<forall>x\<in>set ds. \<not> py_space x" using low lower_hex_plain(1) by blast
    then show ?thesis by (simp only: strip_def dropWhile_none set_rev rev_rev_ident)
  qed
  moreover have "hex_unsigned ds = hex_number ds"
  proof (cases "\<exists>x y zs. ds = x # y # zs")
    case True
    then obtain x y zs where ds: "ds = x # y # zs" by blast
    then have "lower_hex y" using low by simp
    with ds show ?thesis by (simp only: hex_unsigned_def lower_hex_plain(5,6) list.case simp_thms if_False)
  next
    case False
    then show ?thesis by (cases ds; cases "tl ds") (simp_all add: hex_unsigned_def)
  qed
  moreover have "hex_number ds = hex_digits ds 0"
  proof (cases ds)
    case (Cons x xs)
    then have "hex_value x \<noteq> None" using low lower_hex_plain(2) [of x] by simp
    then show ?thesis by (simp only: Cons hex_number.simps if_False)
  qed (use assms(1) in simp)
  moreover obtain x xs where "ds = x # xs" "x \<noteq> CHR ''-''" "x \<noteq> CHR ''+''"
    using assms lower_hex_plain(3,4) by (cases ds) auto
  ultimately show ?thesis
    using hex_digits_horner [OF low, of 0] by (simp add: int16_def horner_def)
qed

lemma canonical_text:
  assumes "s = a @ ''-'' @ b @ ''-'' @ c @ ''-'' @ d @ ''-'' @ e"
    and len: "length a = 8" "length b = 4" "length c = 4" "length d = 4" "length e = 12"
    and low: "\<forall>x\<in>set (a @ b @ c @ d @ e). lower_hex x"
  defines "ds \<equiv> map (\<lambda>c. int (the (hex_value c))) (a @ b @ c @ d @ e)"
  shows "uuid_text (horner ds) = s" "nibble (horner ds) 12 = ds ! 12" "nibble (horner ds) 16 = ds ! 16"
    "0 \<le> horner ds" "horner ds < 2 ^ 128" "\<forall>x\<in>set ds. 0 \<le> x \<and> x < 16"
proof -
  let ?h = "a @ b @ c @ d @ e"
  have digit: "hex_char (int (the (hex_value x))) = x \<and> 0 \<le> int (the (hex_value x)) \<and> int (the (hex_value x)) < 16"
    if "lower_hex x" for x
  proof -
    obtain d where "0 \<le> d" "d < 16" "x = hex_char d" using lower_hexE [OF \<open>lower_hex x\<close>] .
    then show ?thesis using hex_char_facts(1) by simp
  qed
  show range: "\<forall>x\<in>set ds. 0 \<le> x \<and> x < 16" using digit low by (auto simp: ds_def)
  have l: "length ds = 32" using len by (simp add: ds_def)
  have nib: "nibble (horner ds) i = ds ! i" if "i < 32" for i
  proof -
    have "nibble (horner ds) i = horner ds div 16 ^ (31 - i) mod 16"
      unfolding nibble_def and_15 drop_bit_eq_div by (simp add: power_mult)
    then show ?thesis using horner_digit [OF range, of i] that l by simp
  qed
  show "nibble (horner ds) 12 = ds ! 12" "nibble (horner ds) 16 = ds ! 16" by (rule nib; simp)+
  show "0 \<le> horner ds" "horner ds < 2 ^ 128" using horner_bounds [OF range] l by simp_all
  have "hex_char (ds ! i) = ?h ! i" if "i < 32" for i
  proof -
    have "?h ! i \<in> set ?h" using that len by (intro nth_mem) simp
    then have "hex_char (int (the (hex_value (?h ! i)))) = ?h ! i" using digit low by blast
    moreover have "ds ! i = int (the (hex_value (?h ! i)))" unfolding ds_def using that len by (intro nth_map) simp
    ultimately show ?thesis by simp
  qed
  then have "hex32 (horner ds) = map (\<lambda>i. ?h ! i) [0..<32]"
    using nib by (simp add: hex32_nibbles del: upt_Suc)
  also have "\<dots> = ?h" using len map_nth [of ?h] by simp
  finally have "hex32 (horner ds) = ?h" .
  then show "uuid_text (horner ds) = s" using len unfolding uuid_text_def Let_def assms(1) by simp
qed

lemma canonical_validates:
  assumes "canonical_uuid4 s"
  shows "validate_uuid4_str s"
proof -
  obtain a b c d e where s: "s = a @ ''-'' @ b @ ''-'' @ c @ ''-'' @ d @ ''-'' @ e"
    "length a = 8" "length b = 4" "length c = 4" "length d = 4" "length e = 12"
    "\<forall>x\<in>set (a @ b @ c @ d @ e). lower_hex x" "hd c = CHR ''4''" "hd d \<in> set ''89ab''"
    using assms unfolding canonical_uuid4_def by blast
  let ?h = "a @ b @ c @ d @ e"
  let ?ds = "map (\<lambda>c. int (the (hex_value c))) ?h"
  note t = canonical_text [OF s(1-7)]
  have "c \<noteq> []" "d \<noteq> []" using s(4,5) by auto
  then have "?h ! 12 = hd c" "?h ! 16 = hd d" using s(2-6) by (simp_all add: nth_append hd_conv_nth)
  then have h: "?h ! 12 = CHR ''4''" "?h ! 16 \<in> set ''89ab''" using s(8,9) by simp_all
  have nth: "?ds ! 12 = int (the (hex_value (?h ! 12)))" "?ds ! 16 = int (the (hex_value (?h ! 16)))"
    by (rule nth_map, use s(2-6) in simp)+
  have "hex_value (CHR ''4'') = Some 4" by (simp add: hex_value_def)
  then have "?ds ! 12 = 4" by (simp only: nth h(1) option.sel of_nat_numeral)
  moreover have "\<forall>x\<in>set ''89ab''. int (the (hex_value x)) \<in> {8, 9, 10, 11}" by (simp add: hex_value_def)
  then have "?ds ! 16 \<in> {8, 9, 10, 11}" using h(2) unfolding nth by blast
  ultimately have bits: "uuid4_bits (horner ?ds) = horner ?ds"
    using uuid4_bits_same [of "horner ?ds"] t(2,3) by simp
  have "?h \<noteq> []" using s(2) by auto
  then have "uuid4_int s = Some (horner ?ds)"
    using int16_lower [OF _ s(7)] t(4,5) bits s(2-6)
    unfolding uuid4_int_def uuid_hex_canonical [OF s(1,7)] by (simp del: map_append)
  then show ?thesis using t(1) by (simp add: validate_uuid4_str_def)
qed

text \<open>
  A text is taken for a version 4 UUID exactly when it is the canonical lower-case text of one: eight,
  four, four, four and twelve hexadecimal digits, with version 4 and the RFC variant; every other text that
  \<open>uuid.UUID\<close> reads is refused because it is not written the way \<open>str\<close> writes it.
\<close>
theorem uuid4_exactly_canonical:
  "validate_uuid4_str s \<longleftrightarrow> canonical_uuid4 s"
proof
  assume "validate_uuid4_str s"
  then obtain n where n: "uuid4_int s = Some n" "uuid_text n = s"
    by (auto simp: validate_uuid4_str_def split: option.splits)
  then obtain m where "n = uuid4_bits m"
    by (auto simp: uuid4_int_def Let_def split: option.splits if_splits)
  with n(2) uuid_text_canonical show "canonical_uuid4 s" by metis
qed (rule canonical_validates)

end
