(* ===== verification/Auth.thy ===== *)
theory Auth imports Request_Log Py_Uuid Scheduler_Service begin

text \<open>
  Who a request comes from: \<^verbatim>\<open>app/api/dependencies.py\<close> and the tokens of
  \<^verbatim>\<open>app/services/booking/service.py\<close>. The signature check, the JWT library, the encryption
  and Python's \<open>float\<close> of a text are parameters, in the record \<open>auth\<close>.
\<close>

section \<open>Requests and the server\<close>

text \<open>
  A request as the handlers read it. Header names are in lower case, as the framework compares them;
  the uploaded file is what \<open>json.load\<close> makes of it, with values that are texts, null or neither.
\<close>

datatype json_value = JStr string | JNull | JOther

record request =
  req_headers :: "(string \<times> string) list"
  req_path_params :: "(string \<times> string) list"
  req_upload :: "(string \<times> json_value) list result option"
  req_client_host :: string

text \<open>
  The state behind the API: the world of the services, and the time of the last cleanup of the
  cached collection of request logs, once there is one.
\<close>

record ('r, 'q, 'd, 'm) server =
  srv_world :: "('r, 'q, 'd, 'm) world"
  srv_logs :: "rat option"

definition on_world :: "('a, ('r, 'q, 'd, 'm) world) prog \<Rightarrow> ('a, ('r, 'q, 'd, 'm) server) prog" where
  "on_world = zoomE srv_world (\<lambda>w s. s\<lparr>srv_world := w\<rparr>)"

definition on_logs :: "int \<Rightarrow> ('a, 'r coll) prog \<Rightarrow> ('a, ('r, 'q, 'd, 'm) server) prog" where
  "on_logs now m s =
     (let l = (case srv_logs s of None \<Rightarrow> total_seconds now | Some l \<Rightarrow> l);
          (x, (r, l')) = m (w_redis (srv_world s), l)
      in (x, s\<lparr>srv_logs := Some l', srv_world := (srv_world s)\<lparr>w_redis := r\<rparr>\<rparr>))"

datatype py_float = Finite rat | PosInf | NegInf | NaN

record jwt_claims =
  jc_job :: string
  jc_exp :: int
  jc_sub :: string

record auth =
  au_verify :: "string \<Rightarrow> string \<Rightarrow> unit result"
  au_float :: "string \<Rightarrow> py_float result"
  au_nonce_ttl :: rat
  au_jwt_ttl :: rat
  au_jwt_encode :: "jwt_claims \<Rightarrow> string"
  au_jwt_decode :: "int \<Rightarrow> string \<Rightarrow> (string \<times> string option) list result"
  au_encrypt :: "string \<Rightarrow> string"

section \<open>Signed headers\<close>

definition header :: "request \<Rightarrow> string \<Rightarrow> string result" where
  "header req n = (case map_of (req_headers req) n of None \<Rightarrow> Inl KeyError | Some v \<Rightarrow> Inr v)"

definition signed_message :: "string \<Rightarrow> string \<Rightarrow> string \<Rightarrow> string" where
  "signed_message uid nonce timestamp = uid @ ''-'' @ nonce @ ''-'' @ timestamp"

text \<open>\<open>time_difference > ttl\<close> and \<open>time_difference < 0\<close>, both of which are false of a NaN.\<close>

fun check_timestamp :: "rat \<Rightarrow> int \<Rightarrow> py_float \<Rightarrow> unit result" where
  "check_timestamp ttl now (Finite t) =
     (if ttl < total_seconds now - t then Inl ValueError
      else if total_seconds now - t < 0 then Inl ValueError else Inr ())"
| "check_timestamp ttl now PosInf = Inl ValueError"
| "check_timestamp ttl now NegInf = Inl ValueError"
| "check_timestamp ttl now NaN = Inr ()"

definition get_verified_mss_user_id ::
    "auth \<Rightarrow> 'r store \<Rightarrow> int \<Rightarrow> request \<Rightarrow> (string, ('r, 'q, 'd, 'm) server) prog" where
  "get_verified_mss_user_id A R now req =
     catchE
       (bindE (liftE (header req ''x-mss-user-id'')) (\<lambda>uid.
        bindE (liftE (header req ''x-mss-request-id'')) (\<lambda>nonce.
        bindE (liftE (header req ''x-mss-timestamp'')) (\<lambda>timestamp.
        bindE (liftE (header req ''x-mss-signature'')) (\<lambda>signature.
        bindE (liftE (au_verify A signature (signed_message uid nonce timestamp))) (\<lambda>_.
        bindE (liftE (au_float A timestamp)) (\<lambda>t.
        bindE (liftE (check_timestamp (au_nonce_ttl A) now t)) (\<lambda>_.
        bindE (on_logs now (log_exists R nonce)) (\<lambda>present.
          if present then raiseE ValueError else retE uid)))))))))
       (\<lambda>e. if e \<in> {KeyError, InvalidSignature, ValueError, ValidationError}
             then raiseE NotAuthenticatedError else raiseE e)"

definition get_unverified_mss_is_admin :: "request \<Rightarrow> bool" where
  "get_unverified_mss_is_admin req =
     (case header req ''x-mss-is-admin'' of Inl _ \<Rightarrow> False | Inr v \<Rightarrow> strip (lower v) = ''true'')"

definition get_verified_mss_admin_user_id ::
    "auth \<Rightarrow> 'r store \<Rightarrow> int \<Rightarrow> request \<Rightarrow> (string, ('r, 'q, 'd, 'm) server) prog" where
  "get_verified_mss_admin_user_id A R now req =
     bindE (get_verified_mss_user_id A R now req) (\<lambda>uid.
       case header req ''x-mss-is-admin'' of
         Inl _ \<Rightarrow> raiseE UnauthorizedError
       | Inr v \<Rightarrow> if strip (lower v) \<noteq> ''true'' then raiseE UnauthorizedError else retE uid)"

section \<open>Bearer tokens\<close>

text \<open>The second piece of \<open>split\<close>, if there is one.\<close>

definition get_bearer_token :: "request \<Rightarrow> string result" where
  "get_bearer_token req =
     (case header req ''authorization'' of
        Inl _ \<Rightarrow> Inl (HTTPException 401)
      | Inr v \<Rightarrow> (case py_split ''Bearer '' v of
            _ # t # _ \<Rightarrow> Inr (strip t) | _ \<Rightarrow> Inl (HTTPException 401)))"

definition create_mss_jwt_token :: "auth \<Rightarrow> settings \<Rightarrow> int \<Rightarrow> user \<Rightarrow> string \<Rightarrow> string" where
  "create_mss_jwt_token A S now u jid =
     au_jwt_encode A \<lparr>jc_job = jid, jc_exp = settings_now S now + seconds_us (au_jwt_ttl A), jc_sub = u_id u\<rparr>"

definition claim :: "(string \<times> string option) list \<Rightarrow> string \<Rightarrow> string option result" where
  "claim claims k = (case map_of claims k of None \<Rightarrow> Inl KeyError | Some v \<Rightarrow> Inr v)"

text \<open>A null user is refused; a null job id is handed on, as \<open>None\<close>.\<close>

definition get_user_job_id_pair_from_token ::
    "auth \<Rightarrow> int \<Rightarrow> string \<Rightarrow> (string \<times> string option) result" where
  "get_user_job_id_pair_from_token A now token =
     (case (case au_jwt_decode A now token of
              Inl e \<Rightarrow> Inl e
            | Inr claims \<Rightarrow>
                (case claim claims ''sub'' of
                   Inl e \<Rightarrow> Inl e
                 | Inr sub \<Rightarrow>
                     (case claim claims ''job'' of
                        Inl e \<Rightarrow> Inl e
                      | Inr job \<Rightarrow> (case sub of None \<Rightarrow> Inl ValueError | Some uid \<Rightarrow> Inr (uid, job)))))
      of Inl e \<Rightarrow> Inl (if e \<in> {InvalidTokenError, KeyError, ValueError, ValidationError}
                      then NotAuthenticatedError else e)
       | Inr p \<Rightarrow> Inr p)"

section \<open>The job a request is about\<close>

text \<open>\<open>validate_uuid4_str\<close> of what the file holds: \<open>uuid.UUID\<close> of anything but a text or null fails.\<close>

fun validate_uuid4_json :: "json_value \<Rightarrow> bool result" where
  "validate_uuid4_json (JStr s) = Inr (validate_uuid4_str s)"
| "validate_uuid4_json JNull = Inr False"
| "validate_uuid4_json JOther = Inl AttributeError"

fun json_text :: "json_value \<Rightarrow> string" where
  "json_text (JStr s) = s"
| "json_text _ = []"

definition get_job_id_from_uploaded_file :: "request \<Rightarrow> string \<Rightarrow> string result" where
  "get_job_id_from_uploaded_file req job_id_field =
     (case req_upload req of
        None \<Rightarrow> Inl InvalidJobIdInUploadedFileError
      | Some (Inl e) \<Rightarrow> Inl e
      | Some (Inr job_dict) \<Rightarrow>
          (case map_of job_dict job_id_field of
             None \<Rightarrow> Inl InvalidJobIdInUploadedFileError
           | Some v \<Rightarrow>
               (case validate_uuid4_json v of
                  Inl e \<Rightarrow> Inl e
                | Inr ok \<Rightarrow> if ok then Inr (json_text v) else Inl InvalidJobIdInUploadedFileError)))"

definition get_job_id_dependency :: "string \<Rightarrow> request \<Rightarrow> string result" where
  "get_job_id_dependency job_id_field req =
     (case map_of (req_path_params req) job_id_field of
        Some jid \<Rightarrow> Inr jid
      | None \<Rightarrow> get_job_id_from_uploaded_file req job_id_field)"

text \<open>
  The dependency of the routes that take a job's token. \<open>get_job\<close> is called without the admin
  flag; its \<open>NotAuthenticatedError\<close> is raised again with another message.
\<close>

definition get_mss_token_claims ::
    "auth \<Rightarrow> ('r, 'q, 'd, 'm) services \<Rightarrow> int \<Rightarrow> bool \<Rightarrow> string \<Rightarrow> request
      \<Rightarrow> (string \<times> string, ('r, 'q, 'd, 'm) server) prog" where
  "get_mss_token_claims A V now expected job_id_field req =
     bindE (liftE (get_job_id_dependency job_id_field req)) (\<lambda>jid.
     bindE (liftE (get_bearer_token req)) (\<lambda>token.
     bindE (liftE (get_user_job_id_pair_from_token A now token)) (\<lambda>(uid, token_jid).
       if Some jid \<noteq> token_jid then raiseE UnauthorizedError
       else thenE
         (catchE (thenE (on_world (get_job V now jid uid False))
                    (if expected then retE () else raiseE ConflictError))
            (\<lambda>e. if e = ItemNotFoundError then (if expected then raiseE UnauthorizedError else retE ())
                  else raiseE e))
         (retE (uid, jid)))))"

record mss_auth_details =
  ad_user_id :: string
  ad_job_id :: string
  ad_is_mss_admin :: bool

definition get_verified_mss_details ::
    "auth \<Rightarrow> 'r store \<Rightarrow> int \<Rightarrow> request \<Rightarrow> (mss_auth_details, ('r, 'q, 'd, 'm) server) prog" where
  "get_verified_mss_details A R now req =
     (case map_of (req_path_params req) ''job_id'' of
        None \<Rightarrow> raiseE KeyError
      | Some jid \<Rightarrow>
          catchE
            (bindE (get_verified_mss_user_id A R now req) (\<lambda>uid.
               retE \<lparr>ad_user_id = uid, ad_job_id = jid, ad_is_mss_admin = get_unverified_mss_is_admin req\<rparr>))
            (\<lambda>e. if e \<noteq> NotAuthenticatedError then raiseE e
               else bindE (liftE (get_bearer_token req)) (\<lambda>token.
                 bindE (liftE (get_user_job_id_pair_from_token A now token)) (\<lambda>(uid, token_jid).
                   if token_jid \<noteq> Some jid then raiseE UnauthorizedError
                   else retE \<lparr>ad_user_id = uid, ad_job_id = jid, ad_is_mss_admin = False\<rparr>))))"

section \<open>Facts\<close>

lemma on_logs_eval:
  "on_logs now (log_exists R i) s = (Inr (is_logged R (w_redis (srv_world s)) i),
     s\<lparr>srv_logs := Some (case srv_logs s of None \<Rightarrow> total_seconds now | Some l \<Rightarrow> l)\<rparr>)" if "job_redis R"
  using job_redis.log_exists_eval [OF that] by (simp add: on_logs_def Let_def)

end
