(* ===== verification/Api.thy ===== *)
theory Api imports Auth begin

text \<open>
  The HTTP API: \<^verbatim>\<open>app/api/__init__.py\<close>. Exceptions become status codes, two middlewares name
  and log every request, and each route is its dependencies followed by one call of a service. What
  the framework has read from the request (query parameters, bodies) is an argument of the route; a
  body that its model refuses is answered with 422 after the other dependencies were solved.
\<close>

section \<open>Errors\<close>

text \<open>\<open>None\<close>: no handler is registered, the exception leaves the application.\<close>

fun http_status :: "exn \<Rightarrow> nat option" where
  "http_status NotAllowedError = Some 405"
| "http_status NotAuthenticatedError = Some 401"
| "http_status UnauthorizedError = Some 403"
| "http_status ItemNotFoundError = Some 404"
| "http_status JobAlreadyCompleteError = Some 406"
| "http_status ConflictError = Some 409"
| "http_status MaxBookingsError = Some 400"
| "http_status InvalidRequestError = Some 400"
| "http_status BookingAlreadyCompleteError = Some 400"
| "http_status BookingAlreadyActiveError = Some 400"
| "http_status ValidationError = Some 422"
| "http_status ValueError = Some 500"
| "http_status IndexError = Some 500"
| "http_status TypeError = Some 500"
| "http_status RuntimeError = Some 500"
| "http_status NotImplementedError = Some 500"
| "http_status InvalidJobIdInUploadedFileError = Some 400"
| "http_status JobAlreadyCancelled = Some 406"
| "http_status (HTTPException code) = Some code"
| "http_status _ = None"

section \<open>Middlewares\<close>

record response =
  rs_status :: nat
  rs_request_id :: string

definition request_id_of :: "request \<Rightarrow> string \<Rightarrow> string" where
  "request_id_of req fresh = (case map_of (req_headers req) ''x-mss-request-id'' of None \<Rightarrow> fresh | Some i \<Rightarrow> i)"

definition log_from_request :: "int \<Rightarrow> request \<Rightarrow> string \<Rightarrow> request_log" where
  "log_from_request now req state_request_id =
     \<lparr>rl_request_id = state_request_id, rl_user_id = map_of (req_headers req) ''x-mss-user-id'',
      rl_ip_address = Some (req_client_host req), rl_created_at = Some now, rl_updated_at = Some now\<rparr>"

text \<open>
  \<open>add_request_id_header\<close> around the routes, with the state it leaves on the request: its own
  request id. An exception without a handler passes through.
\<close>

definition add_request_id_header ::
    "request \<Rightarrow> string \<Rightarrow> ('a, 's) prog \<Rightarrow> (response \<times> string, 's) prog" where
  "add_request_id_header req fresh route s =
     (let request_id = request_id_of req fresh in
      case route s of
        (Inr _, s') \<Rightarrow> (Inr (\<lparr>rs_status = 200, rs_request_id = request_id\<rparr>, request_id), s')
      | (Inl e, s') \<Rightarrow>
          (case http_status e of
             None \<Rightarrow> (Inl e, s')
           | Some code \<Rightarrow> (Inr (\<lparr>rs_status = code, rs_request_id = request_id\<rparr>, request_id), s')))"

text \<open>
  \<open>log_requests\<close> is the outer one. It makes a request id of its own when the header is missing,
  looks for that one, logs the one that the inner middleware put on the request, and answers with
  its own.
\<close>

definition log_requests ::
    "'r store \<Rightarrow> int \<Rightarrow> request \<Rightarrow> string \<Rightarrow> string \<Rightarrow> ('a, ('r, 'q, 'd, 'm) server) prog
      \<Rightarrow> (response, ('r, 'q, 'd, 'm) server) prog" where
  "log_requests R now req fresh fresh_inner route =
     (let request_id = request_id_of req fresh in
      bindE (add_request_id_header req fresh_inner route) (\<lambda>(response, state_request_id).
      bindE (on_logs now (log_exists R request_id)) (\<lambda>present.
      thenE (if present then retE ()
             else thenE (on_logs now (log_insert R now (log_from_request now req state_request_id))) (retE ()))
        (retE (response\<lparr>rs_request_id := request_id\<rparr>)))))"

section \<open>Routes\<close>

definition route_root ::
    "auth \<Rightarrow> ('r, 'q, 'd, 'm) services \<Rightarrow> int \<Rightarrow> request \<Rightarrow> (string, ('r, 'q, 'd, 'm) server) prog" where
  "route_root A V now req =
     thenE (get_verified_mss_user_id A (sv_redis V) now req) (retE ''Welcome to BCC machine'')"

definition route_view_profile ::
    "auth \<Rightarrow> ('r, 'q, 'd, 'm) services \<Rightarrow> int \<Rightarrow> request \<Rightarrow> (user_profile, ('r, 'q, 'd, 'm) server) prog" where
  "route_view_profile A V now req =
     bindE (get_verified_mss_user_id A (sv_redis V) now req) (\<lambda>uid.
       on_world (on_d (get_user_profile (sv_db V) uid)))"

definition route_delete_profile ::
    "auth \<Rightarrow> ('r, 'q, 'd, 'm) services \<Rightarrow> int \<Rightarrow> queue_pool \<Rightarrow> request \<Rightarrow> (unit, ('r, 'q, 'd, 'm) server) prog" where
  "route_delete_profile A V now queues req =
     bindE (get_verified_mss_user_id A (sv_redis V) now req) (\<lambda>uid.
       on_world (delete_user_profile V now queues uid))"

definition found_or_created ::
    "('r, 'q, 'd, 'm) services \<Rightarrow> (string \<Rightarrow> string) \<Rightarrow> string \<Rightarrow> string \<Rightarrow> string
      \<Rightarrow> (user, ('r, 'q, 'd, 'm) server) prog" where
  "found_or_created V hash_password random_name random_password uid =
     bindE (on_world (on_d (get_user (sv_db V) (\<lambda>u. u_id u = uid)))) (\<lambda>found.
       case found of
         Some u \<Rightarrow> retE u
       | None \<Rightarrow> on_world (on_d (create_random_user (sv_db V) hash_password random_name random_password uid)))"

definition route_get_mss_token ::
    "auth \<Rightarrow> ('r, 'q, 'd, 'm) services \<Rightarrow> int \<Rightarrow> (string \<Rightarrow> string) \<Rightarrow> string \<Rightarrow> string \<Rightarrow> string \<Rightarrow> string
      \<Rightarrow> request \<Rightarrow> (string, ('r, 'q, 'd, 'm) server) prog" where
  "route_get_mss_token A V now hash_password random_name random_password uid jid req =
     bindE (get_verified_mss_user_id A (sv_redis V) now req) (\<lambda>mss_user_id.
       if uid \<noteq> mss_user_id then raiseE UnauthorizedError
       else bindE (found_or_created V hash_password random_name random_password uid) (\<lambda>u.
         retE (au_encrypt A (create_mss_jwt_token A (sv_settings V) now u jid))))"

definition route_create_user ::
    "auth \<Rightarrow> ('r, 'q, 'd, 'm) services \<Rightarrow> int \<Rightarrow> (string \<Rightarrow> string) \<Rightarrow> user \<Rightarrow> request
      \<Rightarrow> (user_profile, ('r, 'q, 'd, 'm) server) prog" where
  "route_create_user A V now hash_password data req =
     thenE (get_verified_mss_admin_user_id A (sv_redis V) now req)
       (bindE (on_world (on_d (create_user (sv_db V) hash_password data))) (\<lambda>u. retE (from_user u)))"

definition route_remove_user ::
    "auth \<Rightarrow> ('r, 'q, 'd, 'm) services \<Rightarrow> int \<Rightarrow> queue_pool \<Rightarrow> string \<Rightarrow> request
      \<Rightarrow> (unit, ('r, 'q, 'd, 'm) server) prog" where
  "route_remove_user A V now queues uid req =
     thenE (get_verified_mss_admin_user_id A (sv_redis V) now req)
       (on_world (delete_user_profile V now queues uid))"

definition route_view_users ::
    "auth \<Rightarrow> ('r, 'q, 'd, 'm) services \<Rightarrow> int \<Rightarrow> nat \<Rightarrow> nat option \<Rightarrow> request
      \<Rightarrow> (user_profile list, ('r, 'q, 'd, 'm) server) prog" where
  "route_view_users A V now skip limit req =
     thenE (get_verified_mss_admin_user_id A (sv_redis V) now req)
       (on_world (on_d (get_many_user_profiles (sv_db V) (\<lambda>_. True) skip limit)))"

text \<open>The three that the scheduler's theory already has, behind their dependencies.\<close>

definition api_create_booking ::
    "auth \<Rightarrow> ('r, 'q, 'd, 'm) services \<Rightarrow> int \<Rightarrow> (string \<Rightarrow> string) \<Rightarrow> string \<Rightarrow> string \<Rightarrow> queue_context
      \<Rightarrow> queue_pool \<Rightarrow> string \<Rightarrow> datetime \<Rightarrow> datetime \<Rightarrow> request
      \<Rightarrow> (booking, ('r, 'q, 'd, 'm) server) prog" where
  "api_create_booking A V now hash_password random_name random_password ctx queues fresh_id start fin req =
     bindE (get_verified_mss_user_id A (sv_redis V) now req) (\<lambda>uid.
       case new_booking_info_of (sv_settings V) now start fin of
         Inl _ \<Rightarrow> raiseE (HTTPException 422)
       | Inr data \<Rightarrow> on_world
           (route_create_booking V hash_password random_name random_password ctx queues fresh_id uid data))"

definition api_view_bookings ::
    "auth \<Rightarrow> ('r, 'q, 'd, 'm) services \<Rightarrow> int \<Rightarrow> int option \<Rightarrow> int option \<Rightarrow> string option \<Rightarrow> nat
      \<Rightarrow> nat option \<Rightarrow> request \<Rightarrow> (booking list, ('r, 'q, 'd, 'm) server) prog" where
  "api_view_bookings A V now min_start max_start uid skip limit req =
     thenE (get_verified_mss_user_id A (sv_redis V) now req)
       (on_world (route_view_bookings V min_start max_start uid skip limit))"

text \<open>\<open>valid_file\<close> is what \<open>JobFile.model_validate_json\<close> says of the uploaded file.\<close>

definition validate_job_file :: "unit result \<Rightarrow> unit result" where
  "validate_job_file valid_file =
     (case valid_file of
        Inl e \<Rightarrow> Inl (if e \<in> {ValidationError, KeyError, TypeError} then HTTPException 400 else e)
      | Inr u \<Rightarrow> Inr u)"

definition api_submit_job ::
    "auth \<Rightarrow> ('r, 'q, 'd, 'm) services \<Rightarrow> int \<Rightarrow> queue_context \<Rightarrow> queue_pool \<Rightarrow> unit result \<Rightarrow> string result
      \<Rightarrow> bool \<Rightarrow> request \<Rightarrow> (job, ('r, 'q, 'd, 'm) server) prog" where
  "api_submit_job A V now ctx queues valid_file uploaded force req =
     thenE (liftE (validate_job_file valid_file))
       (bindE (get_mss_token_claims A V now False ''job_id'' req) (\<lambda>(uid, jid).
          on_world (route_submit_job V now ctx queues uploaded jid uid force)))"

definition route_view_bookings_config ::
    "auth \<Rightarrow> ('r, 'q, 'd, 'm) services \<Rightarrow> int \<Rightarrow> int \<Rightarrow> request \<Rightarrow> (bookings_config, ('r, 'q, 'd, 'm) server) prog" where
  "route_view_bookings_config A V now idle req =
     thenE (get_verified_mss_user_id A (sv_redis V) now req) (retE (config_from_settings (sv_settings V) idle))"

definition route_cancel_booking ::
    "auth \<Rightarrow> ('r, 'q, 'd, 'm) services \<Rightarrow> int \<Rightarrow> string \<Rightarrow> request \<Rightarrow> (unit, ('r, 'q, 'd, 'm) server) prog" where
  "route_cancel_booking A V now booking_id req =
     bindE (get_verified_mss_user_id A (sv_redis V) now req) (\<lambda>uid.
       on_world (cancel_booking V now uid booking_id (get_unverified_mss_is_admin req)))"

definition route_view_job ::
    "auth \<Rightarrow> ('r, 'q, 'd, 'm) services \<Rightarrow> int \<Rightarrow> string \<Rightarrow> request \<Rightarrow> (job, ('r, 'q, 'd, 'm) server) prog" where
  "route_view_job A V now jid req =
     bindE (get_verified_mss_user_id A (sv_redis V) now req) (\<lambda>uid.
       on_world (get_job V now jid uid (get_unverified_mss_is_admin req)))"

definition route_cancel_job ::
    "auth \<Rightarrow> ('r, 'q, 'd, 'm) services \<Rightarrow> int \<Rightarrow> queue_pool \<Rightarrow> string option \<Rightarrow> request
      \<Rightarrow> (job, ('r, 'q, 'd, 'm) server) prog" where
  "route_cancel_job A V now queues reason req =
     bindE (get_verified_mss_details A (sv_redis V) now req) (\<lambda>d.
       on_world (cancel_job V now queues (ad_job_id d) (ad_user_id d) (ad_is_mss_admin d) reason))"

definition route_remove_job ::
    "auth \<Rightarrow> ('r, 'q, 'd, 'm) services \<Rightarrow> int \<Rightarrow> queue_pool \<Rightarrow> string \<Rightarrow> request
      \<Rightarrow> (job, ('r, 'q, 'd, 'm) server) prog" where
  "route_remove_job A V now queues jid req =
     bindE (get_verified_mss_user_id A (sv_redis V) now req) (\<lambda>uid.
       on_world (delete_job V now queues jid uid (get_unverified_mss_is_admin req)))"

definition route_view_jobs ::
    "auth \<Rightarrow> ('r, 'q, 'd, 'm) services \<Rightarrow> int \<Rightarrow> job_status option \<Rightarrow> nat \<Rightarrow> nat option \<Rightarrow> request
      \<Rightarrow> (job list, ('r, 'q, 'd, 'm) server) prog" where
  "route_view_jobs A V now st skip limit req =
     bindE (get_verified_mss_user_id A (sv_redis V) now req) (\<lambda>uid.
       on_world (get_many_jobs V now (Some uid) st skip limit))"

definition route_initialize_recalibration ::
    "auth \<Rightarrow> ('r, 'q, 'd, 'm) services \<Rightarrow> int \<Rightarrow> queue_context \<Rightarrow> queue_pool \<Rightarrow> int option \<Rightarrow> rat option \<Rightarrow> request
      \<Rightarrow> (unit, ('r, 'q, 'd, 'm) server) prog" where
  "route_initialize_recalibration A V now ctx queues start interval req =
     thenE (get_verified_mss_admin_user_id A (sv_redis V) now req)
       (on_world (init_recalibration V ctx queues start interval))"

definition route_recalibration_info ::
    "auth \<Rightarrow> ('r, 'q, 'd, 'm) services \<Rightarrow> int \<Rightarrow> queue_pool \<Rightarrow> request
      \<Rightarrow> (recalibration_info, ('r, 'q, 'd, 'm) server) prog" where
  "route_recalibration_info A V now queues req =
     thenE (get_verified_mss_admin_user_id A (sv_redis V) now req) (on_world (get_recalibration_info V queues))"

definition route_cancel_recalibration ::
    "auth \<Rightarrow> ('r, 'q, 'd, 'm) services \<Rightarrow> int \<Rightarrow> queue_pool \<Rightarrow> bool \<Rightarrow> request
      \<Rightarrow> (unit, ('r, 'q, 'd, 'm) server) prog" where
  "route_cancel_recalibration A V now queues ignore_errors req =
     thenE (get_verified_mss_admin_user_id A (sv_redis V) now req)
       (on_world (stop_recalibration V queues ignore_errors))"

end
