(* ===== verification/Scheduler_Effects.thy ===== *)
theory Scheduler_Effects imports Instances begin

text \<open>
  Effects of the service operations and the tasks on the world, branch by branch, under the laws of
  Redis, rq and SQL: who is let through, what a cancellation touches, what a task writes.
\<close>

section \<open>Components a routine leaves alone\<close>

lemma stable_on_r [stable_rules]:
  "stable (\<lambda>w. P (w_rq w)) (on_r m)" "stable (\<lambda>w. P (w_db w)) (on_r m)" "stable (\<lambda>w. P (w_mss w)) (on_r m)"
  by (simp_all add: on_r_def stable_zoomE)

lemma stable_on_q [stable_rules]:
  "stable (\<lambda>w. P (w_redis w)) (on_q m)" "stable (\<lambda>w. P (w_db w)) (on_q m)" "stable (\<lambda>w. P (w_mss w)) (on_q m)"
  by (simp_all add: on_q_def stable_zoomE)

lemma stable_on_d [stable_rules]:
  "stable (\<lambda>w. P (w_redis w)) (on_d m)" "stable (\<lambda>w. P (w_rq w)) (on_d m)" "stable (\<lambda>w. P (w_mss w)) (on_d m)"
  by (simp_all add: on_d_def stable_zoomE)

lemma stable_on_queues_parts [stable_rules]:
  "stable (\<lambda>w. P (w_db w)) (on_queues m)" "stable (\<lambda>w. P (w_mss w)) (on_queues m)"
  by (simp_all add: on_queues_def stable_def zoomE_def split_beta Let_def)

lemma stable_on_queues:
  "stable (\<lambda>(r, q). P q) m \<Longrightarrow> stable (\<lambda>w. P (w_rq w)) (on_queues m)"
  by (simp add: stable_def on_queues_def zoomE_def split_beta Let_def)

lemma stable_on_redis [stable_rules]: "stable (\<lambda>(r, q). P q) (on_redis m)"
  by (simp add: stable_def on_redis_def zoomE_def split_beta Let_def)

lemma stable_on_rq: "stable P m \<Longrightarrow> stable (\<lambda>(r, q). P q) (on_rq m)"
  by (simp add: stable_def on_rq_def zoomE_def split_beta Let_def)

lemma stable_on_q_part: "stable P m \<Longrightarrow> stable (\<lambda>w. P (w_rq w)) (on_q m)"
  by (simp add: stable_def on_q_def zoomE_def split_beta Let_def)

context rq_laws
begin

lemma cancel_rq_other: "i' \<noteq> i \<Longrightarrow> status_of Q (snd (cancel_rq_job Q i b s)) i' = status_of Q s i'"
  by (auto simp: cancel_rq_job_eval cancel_status split: option.split rq_status.split)

lemma stable_cancel_rq: "i' \<noteq> i \<Longrightarrow> stable (\<lambda>s. status_of Q s i' = x) (cancel_rq_job Q i b)"
  by (simp add: stable_def cancel_rq_other)

lemma stable_runner_cancel:
  assumes "runner_rq_job_id rq jid \<noteq> i"
  shows "stable (\<lambda>(r, q). status_of Q q i = x) (runner_cancel_job R Q rq jid sid b)"
  using assms unfolding runner_cancel_job_def
  by (intro stable_rules stable_on_rq stable_cancel_rq) auto

end

section \<open>Cancelling a job\<close>

lemma queue_names_long:
  "10 < length (q_name (get_preprocessing_queue pfx))" "10 < length (q_name (get_normal_execution_queue pfx))"
  "10 < length (q_name (get_booked_execution_queue pfx))" "10 < length (q_name (get_postprocessing_queue pfx))"
  by (simp_all add: get_preprocessing_queue_def get_normal_execution_queue_def
      get_booked_execution_queue_def get_postprocessing_queue_def)

text \<open>Who may see a job.\<close>

definition may_see :: "('r, 'q, 'd, 'm) services \<Rightarrow> ('r, 'q, 'd, 'm) world \<Rightarrow> string \<Rightarrow> bool \<Rightarrow> job \<Rightarrow> bool" where
  "may_see V w uid is_mss_admin j \<longleftrightarrow>
     (\<exists>u\<in>set (all_users (sv_db V) (w_db w)). u_id u = uid \<and> u_is_admin u) \<or> is_mss_admin \<or> user_id j = Some uid"

context scheduler
begin

lemma stable_cancel_in_queue:
  assumes "10 < length (q_name queue)"
  shows "stable (\<lambda>w. status_of (sv_rq V) (w_rq w) (get_rq_job_id jid st) = x) (cancel_in_queue V queue jid sid b)"
  using rq_ids_differ [OF assms, of jid st] unfolding cancel_in_queue_def
  by (intro stable_rules stable_on_queues rq.stable_runner_cancel) (simp add: get_rq_job_id_def)

lemma stable_cancel_job_in_queues:
  assumes "job_id j = jid"
  shows "stable (\<lambda>w. status_of (sv_rq V) (w_rq w) (get_rq_job_id jid st) = x)
    (cancel_job_in_queues V (queue_pool_of pfx) j b)"
  unfolding cancel_job_in_queues_def Let_def assms queue_pool_of_def queue_pool.simps
  by (intro stable_rules stable_cancel_in_queue queue_names_long)

lemma users_unique:
  "u \<in> set (all_users (sv_db V) d) \<Longrightarrow> u' \<in> set (all_users (sv_db V) d) \<Longrightarrow> u_id u = u_id u' \<Longrightarrow> u = u'"
  using sql.user_ids [of d] by (meson distinct_map inj_onD)

lemma find_user_cases:
  obtains (unknown) "get_user (sv_db V) (\<lambda>u. u_id u = uid) d = (Inr None, d)" "uid \<notin> u_id ` set (all_users (sv_db V) d)"
  | (known) u where "get_user (sv_db V) (\<lambda>u. u_id u = uid) d = (Inr (Some u), d)"
      "u \<in> set (all_users (sv_db V) d)" "u_id u = uid"
proof -
  obtain r where r: "get_user (sv_db V) (\<lambda>u. u_id u = uid) d = (Inr r, d)"
    "case r of None \<Rightarrow> uid \<notin> u_id ` set (all_users (sv_db V) d)
     | Some u \<Rightarrow> u \<in> set (all_users (sv_db V) d) \<and> u_id u = uid"
    using sql.get_user_eval [of uid d] by blast
  then show thesis using unknown known by (cases r) auto
qed

lemma may_access_see:
  assumes "u \<in> set (all_users (sv_db V) (w_db w))" "u_id u = uid"
  shows "may_access u adm j uid \<longleftrightarrow> may_see V w uid adm j"
  using assms users_unique by (auto simp: may_access_def may_see_def)

lemma job_get_world:
  assumes "jobs_ok V w"
  shows "on_r (job_get (sv_redis V) now jid) w =
    ((case jobs V w jid of None \<Rightarrow> Inl ItemNotFoundError | Some j \<Rightarrow> Inr j), w)"
  using job_get_eval [of "w_redis w" now jid] assms by (simp add: jobs_ok_def jobs_def prog_simps)

lemma get_job_eval:
  assumes ok: "jobs_ok V w"
  shows "get_job V now jid uid adm w =
    (if uid \<notin> u_id ` set (all_users (sv_db V) (w_db w)) then Inl NotAuthenticatedError
     else case jobs V w jid of None \<Rightarrow> Inl ItemNotFoundError
       | Some j \<Rightarrow> if may_see V w uid adm j then Inr j else Inl ItemNotFoundError, w)"
proof (cases rule: find_user_cases [of uid "w_db w"])
  case unknown
  then show ?thesis by (simp add: get_job_def prog_simps)
next
  case (known u)
  then show ?thesis
    using may_access_see [OF known(2,3)] known(3) job_get_world [OF ok, of now jid]
    by (cases "jobs V w jid") (auto simp: get_job_def prog_simps)
qed

lemma cancel_job_refused:
  assumes ok: "jobs_ok V w"
    and no: "uid \<notin> u_id ` set (all_users (sv_db V) (w_db w)) \<or> jobs V w jid = None \<or>
      (\<exists>j. jobs V w jid = Some j \<and> \<not> may_see V w uid adm j)"
  shows "cancel_job V now queues jid uid adm reason w =
    (Inl (if uid \<notin> u_id ` set (all_users (sv_db V) (w_db w)) then NotAuthenticatedError else ItemNotFoundError), w)"
proof (cases rule: find_user_cases [of uid "w_db w"])
  case unknown
  then show ?thesis by (simp add: cancel_job_def prog_simps)
next
  case (known u)
  then show ?thesis
    using may_access_see [OF known(2,3)] known(3) job_get_world [OF ok, of now jid] no
    by (cases "jobs V w jid") (auto simp: cancel_job_def prog_simps)
qed

end

section \<open>What a cancellation does to the queues\<close>

text \<open>No data is stored for a job that the queue's list does not hold.\<close>

definition tidy :: "'r store \<Rightarrow> string \<Rightarrow> storage_id \<Rightarrow> 'r \<Rightarrow> bool" where
  "tidy R n sid s \<longleftrightarrow> (hget R s (db_of n) (SidKey sid) \<noteq> None \<longrightarrow> SidKey sid \<in> set (items R s n))"

context job_redis
begin

lemma same_queue_tidy: "same_queue n s s' \<Longrightarrow> tidy R n sid s' = tidy R n sid s"
  by (simp add: same_queue_def tidy_def)

text \<open>Popping by storage id, whether or not the queue holds the job.\<close>

lemma sq_pop_uniform:
  assumes wf: "sq_wf R n s" and tidy: "tidy R n sid s"
  shows "\<exists>r s'. sq_pop_job R n (SidKey sid) s = (r, s') \<and> (\<forall>e. r = Inl e \<longrightarrow> e = ValidationError) \<and>
    sq_contents R n s' = filter (\<lambda>e. key_of e \<noteq> SidKey sid) (sq_contents R n s) \<and>
    sq_total_duration R n s' = Inr (sum_list (map entry_duration (sq_contents R n s)) - duration sid)"
proof (cases "SidKey sid \<in> set (items R s n)")
  case True
  then obtain e where e: "e \<in> set (sq_contents R n s)" "key_of e = SidKey sid"
    using items_keys [OF wf] by auto
  have dist: "distinct (map key_of (sq_contents R n s))"
    using wf items_keys [OF wf] by (simp add: sq_wf_def)
  have "remove1 e xs = filter (\<lambda>x. key_of x \<noteq> key_of e) xs" if "distinct (map key_of xs)" "e \<in> set xs" for xs
    using that
  proof (induction xs)
    case (Cons x xs)
    show ?case
    proof (cases "x = e")
      case True
      with Cons.prems(1) have "\<forall>y\<in>set xs. key_of y \<noteq> key_of e" by (metis distinct.simps(2) image_eqI list.map(2) set_map)
      with True show ?thesis by (simp add: filter_id_conv)
    next
      case False
      with Cons.prems have "key_of x \<noteq> key_of e" by auto
      with False Cons show ?thesis by simp
    qed
  qed simp
  from this [OF dist e(1)] have c: "remove1 e (sq_contents R n s) = filter (\<lambda>x. key_of x \<noteq> SidKey sid) (sq_contents R n s)"
    by (simp add: e(2))
  have d: "entry_duration e = duration sid" using key_duration_key_of [of e] e(2) by simp
  have t: "sq_total_duration R n s = Inr (sum_list (map entry_duration (sq_contents R n s)))"
    using wf by (simp add: sq_wf_def)
  show ?thesis
    using sq_pop_job_eval [OF wf e(1)] removed_contents [OF wf e(1)] removed_total [OF t] c d e(2) by simp
next
  case False
  then have no: "hget R s (db_of n) (SidKey sid) = None" using tidy by (auto simp: tidy_def)
  have "filter (\<lambda>e. key_of e \<noteq> SidKey sid) (sq_contents R n s) = sq_contents R n s"
    using False items_keys [OF wf] by (metis (mono_tags, lifting) filter_True image_eqI set_map)
  with sq_pop_job_absent [OF wf no] show ?thesis by auto
qed

end

definition ready :: "('r, 'q, 'd, 'm) services \<Rightarrow> ('r, 'q, 'd, 'm) world \<Rightarrow> string \<Rightarrow> storage_id \<Rightarrow> bool" where
  "ready V w n sid \<longleftrightarrow> queue_ok V w n \<and> tidy (sv_redis V) n sid (w_redis w)"

context scheduler
begin

text \<open>The world after the entry of a storage id is taken out of one queue.\<close>

definition taken_out :: "string \<Rightarrow> storage_id \<Rightarrow> ('r, 'q, 'd, 'm) world \<Rightarrow> ('r, 'q, 'd, 'm) world \<Rightarrow> bool" where
  "taken_out n sid w w' \<longleftrightarrow>
     jobs_ok V w' = jobs_ok V w \<and> jobs V w' = jobs V w \<and> w_rq w' = w_rq w \<and> w_db w' = w_db w \<and> w_mss w' = w_mss w \<and>
     (\<forall>m. m \<noteq> n \<longrightarrow> same_queue m (w_redis w) (w_redis w')) \<and>
     queue_entries V w' n = filter (\<lambda>e. key_of e \<noteq> SidKey sid) (queue_entries V w n) \<and>
     queue_total V w' n = Inr (sum_list (map entry_duration (queue_entries V w n)) - duration sid)"

lemma pop_taken_out:
  assumes "ready V w n sid"
  shows "\<exists>r w'. on_r (sq_pop_job (sv_redis V) n (SidKey sid)) w = (r, w') \<and>
    (\<forall>e. r = Inl e \<longrightarrow> e = ValidationError) \<and> taken_out n sid w w'"
proof -
  obtain r s' where s': "sq_pop_job (sv_redis V) n (SidKey sid) (w_redis w) = (r, s')"
    "\<forall>e. r = Inl e \<longrightarrow> e = ValidationError"
    "sq_contents (sv_redis V) n s' = filter (\<lambda>e. key_of e \<noteq> SidKey sid) (sq_contents (sv_redis V) n (w_redis w))"
    "sq_total_duration (sv_redis V) n s' = Inr (sum_list (map entry_duration (sq_contents (sv_redis V) n (w_redis w))) - duration sid)"
    using sq_pop_uniform assms by (metis queue_ok_def ready_def)
  have "same_jobs (w_redis w) s'" using same_jobs_pop_job [of "w_redis w" n "SidKey sid"] s'(1) by simp
  moreover have "m \<noteq> n \<Longrightarrow> same_queue m (w_redis w) s'" for m
    using same_queue_pop_job [of m n "w_redis w" "SidKey sid"] s'(1) by simp
  ultimately show ?thesis
    using s' by (intro exI [of _ r] exI [of _ "w\<lparr>w_redis := s'\<rparr>"])
      (simp add: prog_simps taken_out_def jobs_ok_def jobs_def same_jobs_wf same_jobs_of queue_entries_def queue_total_def)
qed

lemma taken_out_ready: "taken_out n sid w w' \<Longrightarrow> m \<noteq> n \<Longrightarrow> ready V w m sid' \<Longrightarrow> ready V w' m sid'"
  using same_queue_wf same_queue_tidy unfolding taken_out_def ready_def queue_ok_def by blast

lemma taken_out_other:
  assumes "taken_out n sid w w'" and "m \<noteq> n"
  shows "queue_entries V w' m = queue_entries V w m" "queue_total V w' m = queue_total V w m"
  using assms same_queue_contents same_queue_total unfolding taken_out_def queue_entries_def queue_total_def
  by blast+

lemma cancel_in_queue_eval:
  assumes "ready V w (static_name queue) sid" and "rq_state V w (runner_rq_job_id queue jid) = None"
  shows "\<exists>w'. cancel_in_queue V queue jid sid b w = (Inr (), w') \<and> taken_out (static_name queue) sid w w'"
proof -
  let ?n = "static_name queue"
  obtain r w' where w': "on_r (sq_pop_job (sv_redis V) ?n (SidKey sid)) w = (r, w')"
    "\<forall>e. r = Inl e \<longrightarrow> e = ValidationError" "taken_out ?n sid w w'"
    using pop_taken_out [OF assms(1)] by blast
  then obtain s' where s': "sq_pop_job (sv_redis V) ?n (SidKey sid) (w_redis w) = (r, s')" "w' = w\<lparr>w_redis := s'\<rparr>"
    by (simp add: on_r_def zoomE_def split_beta Let_def) (metis prod.collapse)
  have "suppressE (\<lambda>e. e = ValidationError) (thenE (on_redis (sq_pop_job (sv_redis V) ?n (SidKey sid))) (retE ()))
      (w_redis w, w_rq w) = (Inr (), (s', w_rq w))"
    using s'(1) w'(2) by (cases r) (simp_all add: prog_simps)
  moreover have "cancel_rq_job (sv_rq V) (runner_rq_job_id queue jid) b (w_rq w) =
      (if b then Inr () else Inl NoSuchJobError, w_rq w)"
    using assms(2) by (simp add: rq.cancel_rq_job_eval rq_state_def)
  ultimately have "runner_cancel_job (sv_redis V) (sv_rq V) queue jid (Some sid) b (w_redis w, w_rq w) =
      (if b then Inr () else Inl NoSuchJobError, (s', w_rq w))"
    by (simp add: runner_cancel_job_def prog_simps)
  then have "cancel_in_queue V queue jid sid b w = (Inr (), w')"
    using s'(2) by (cases b) (simp_all add: cancel_in_queue_def prog_simps)
  with w'(3) show ?thesis by blast
qed

end

section \<open>Cancelling and deleting a job\<close>

lemma pool_names [simp]:
  "qp_waitlist (queue_pool_of pfx) = get_waitlist pfx"
  "qp_preprocessing (queue_pool_of pfx) = get_preprocessing_queue pfx"
  "qp_normal_execution (queue_pool_of pfx) = get_normal_execution_queue pfx"
  "qp_booked_execution (queue_pool_of pfx) = get_booked_execution_queue pfx"
  "qp_postprocessing (queue_pool_of pfx) = get_postprocessing_queue pfx"
  "qp_general (queue_pool_of pfx) = get_general_queue pfx"
  "qp_recalibration (queue_pool_of pfx) = get_recalibration_queue pfx"
  by (simp_all add: queue_pool_of_def)

text \<open>The five queues that can hold a job, by the name of their list in Redis.\<close>

definition job_queues :: "string \<Rightarrow> string list" where
  "job_queues pfx = [get_waitlist pfx, static_name (get_preprocessing_queue pfx),
     static_name (get_normal_execution_queue pfx), static_name (get_booked_execution_queue pfx),
     static_name (get_postprocessing_queue pfx)]"

lemma job_queues_distinct: "distinct (job_queues pfx)"
proof -
  have last: "last (get_waitlist pfx) = CHR ''t''" "last (static_name (get_preprocessing_queue pfx)) = CHR ''g''"
    "last (static_name (get_normal_execution_queue pfx)) = CHR ''n''"
    "last (static_name (get_booked_execution_queue pfx)) = CHR ''n''"
    "last (static_name (get_postprocessing_queue pfx)) = CHR ''g''"
    by (simp_all add: get_waitlist_def static_name_def get_preprocessing_queue_def
        get_normal_execution_queue_def get_booked_execution_queue_def get_postprocessing_queue_def)
  have "get_waitlist pfx \<noteq> n" if "last n \<noteq> CHR ''t''" for n using that last(1) by auto
  then show ?thesis
    by (simp add: job_queues_def last)
      (simp add: static_name_def get_preprocessing_queue_def
        get_normal_execution_queue_def get_booked_execution_queue_def get_postprocessing_queue_def)
qed

text \<open>The storage id under which a cancellation looks for the job in a queue.\<close>

definition cancel_sid :: "string \<Rightarrow> job \<Rightarrow> string \<Rightarrow> storage_id" where
  "cancel_sid pfx j n = from_details (job_id j)
     (if n = static_name (get_preprocessing_queue pfx) then None else estimated_duration j)"

definition cancellable :: "('r, 'q, 'd, 'm) services \<Rightarrow> string \<Rightarrow> job \<Rightarrow> ('r, 'q, 'd, 'm) world \<Rightarrow> bool" where
  "cancellable V pfx j w \<longleftrightarrow> (\<forall>n\<in>set (job_queues pfx). ready V w n (cancel_sid pfx j n)) \<and>
     (\<forall>q\<in>{get_preprocessing_queue pfx, get_normal_execution_queue pfx, get_booked_execution_queue pfx,
         get_postprocessing_queue pfx}. rq_state V w (runner_rq_job_id q (job_id j)) = None)"

definition cancelled_job :: "string option \<Rightarrow> int \<Rightarrow> job \<Rightarrow> job" where
  "cancelled_job reason now j =
     apply_update now j (cancel_update (case reason of None \<Rightarrow> ''Cancelled by a user'' | Some r \<Rightarrow> r) now)"

context scheduler
begin

text \<open>Taking the job out of the queues of a list, one after the other.\<close>

definition all_taken_out :: "string \<Rightarrow> job \<Rightarrow> string list \<Rightarrow> ('r, 'q, 'd, 'm) world \<Rightarrow> ('r, 'q, 'd, 'm) world \<Rightarrow> bool" where
  "all_taken_out pfx j ns w w' \<longleftrightarrow>
     jobs_ok V w' = jobs_ok V w \<and> jobs V w' = jobs V w \<and> w_rq w' = w_rq w \<and> w_db w' = w_db w \<and> w_mss w' = w_mss w \<and>
     (\<forall>m. m \<notin> set ns \<longrightarrow> same_queue m (w_redis w) (w_redis w')) \<and>
     (\<forall>n\<in>set ns. queue_entries V w' n = filter (\<lambda>e. key_of e \<noteq> SidKey (cancel_sid pfx j n)) (queue_entries V w n) \<and>
       queue_total V w' n = Inr (sum_list (map entry_duration (queue_entries V w n)) - duration (cancel_sid pfx j n)))"

lemma all_taken_out_Nil: "all_taken_out pfx j [] w w"
  by (simp add: all_taken_out_def)

lemma all_taken_out_snoc:
  assumes "all_taken_out pfx j ns w w'" and "taken_out n (cancel_sid pfx j n) w' w''" and "n \<notin> set ns"
  shows "all_taken_out pfx j (ns @ [n]) w w''"
proof -
  have same: "same_queue n (w_redis w) (w_redis w')" using assms(1,3) by (simp add: all_taken_out_def)
  have "queue_entries V w' n = queue_entries V w n"
    using same_queue_contents [OF same] by (simp add: queue_entries_def)
  moreover have "same_queue m (w_redis w) (w_redis w'')" if "m \<notin> set (ns @ [n])" for m
    using that assms(1,2) same_queue_trans unfolding all_taken_out_def taken_out_def by fastforce
  moreover have "queue_entries V w'' m = queue_entries V w' m \<and> queue_total V w'' m = queue_total V w' m"
    if "m \<in> set ns" for m
    using taken_out_other [OF assms(2), of m] that assms(3) by auto
  ultimately show ?thesis
    using assms(1,2) unfolding all_taken_out_def taken_out_def by simp
qed

lemma all_taken_out_ready:
  "all_taken_out pfx j ns w w' \<Longrightarrow> n \<notin> set ns \<Longrightarrow> ready V w n sid \<Longrightarrow> ready V w' n sid"
  using same_queue_wf same_queue_tidy unfolding all_taken_out_def ready_def queue_ok_def by blast

lemma cancel_job_in_queues_eval:
  assumes "cancellable V pfx j w"
  shows "\<exists>w'. cancel_job_in_queues V (queue_pool_of pfx) j b w = (Inr (), w') \<and> all_taken_out pfx j (job_queues pfx) w w'"
proof -
  let ?W = "get_waitlist pfx" and ?P = "get_preprocessing_queue pfx" and ?N = "get_normal_execution_queue pfx"
    and ?B = "get_booked_execution_queue pfx" and ?O = "get_postprocessing_queue pfx"
  let ?sid = "cancel_sid pfx j" and ?jid = "job_id j"
  have d: "distinct [?W, static_name ?P, static_name ?N, static_name ?B, static_name ?O]"
    using job_queues_distinct [of pfx] by (simp only: job_queues_def)
  have rdy: "ready V w n (?sid n)" if "n \<in> set (job_queues pfx)" for n
    using that assms by (simp add: cancellable_def)
  have sid: "?sid (static_name ?P) = from_details ?jid None" "?sid ?W = from_details ?jid (estimated_duration j)"
    "?sid (static_name ?N) = from_details ?jid (estimated_duration j)"
    "?sid (static_name ?B) = from_details ?jid (estimated_duration j)"
    "?sid (static_name ?O) = from_details ?jid (estimated_duration j)"
    using d by (auto simp: cancel_sid_def)
  have rq: "rq_state V w' (runner_rq_job_id q ?jid) = None"
    if "all_taken_out pfx j ns w w'" "q \<in> {?P, ?N, ?B, ?O}" for ns w' q
    using that assms by (auto simp: cancellable_def all_taken_out_def rq_state_def)
  have step: "\<exists>w2. cancel_in_queue V q ?jid (?sid (static_name q)) b w1 = (Inr (), w2) \<and>
      all_taken_out pfx j (ns @ [static_name q]) w w2"
    if "all_taken_out pfx j ns w w1" "q \<in> {?P, ?N, ?B, ?O}" "static_name q \<notin> set ns" for ns w1 q
  proof -
    have "ready V w1 (static_name q) (?sid (static_name q))"
      using all_taken_out_ready [OF that(1,3) rdy] that(2) by (auto simp: job_queues_def)
    from cancel_in_queue_eval [OF this rq [OF that(1,2)]] show ?thesis
      using all_taken_out_snoc [OF that(1) _ that(3)] by blast
  qed
  obtain r w1 where w1: "on_r (sq_pop_job (sv_redis V) ?W (SidKey (?sid ?W))) w = (r, w1)"
    "\<forall>e. r = Inl e \<longrightarrow> e = ValidationError" "taken_out ?W (?sid ?W) w w1"
    using pop_taken_out [OF rdy [of ?W]] by (auto simp: job_queues_def)
  have t1: "all_taken_out pfx j [?W] w w1"
    using all_taken_out_snoc [OF all_taken_out_Nil w1(3)] by simp
  have pop: "suppressE (\<lambda>e. e = ValidationError)
      (thenE (on_r (sq_pop_job (sv_redis V) ?W (SidKey (?sid ?W)))) (retE ())) w = (Inr (), w1)"
    using w1(1,2) by (cases r) (simp_all add: prog_simps)
  obtain w2 where w2: "cancel_in_queue V ?P ?jid (?sid (static_name ?P)) b w1 = (Inr (), w2)"
    "all_taken_out pfx j ([?W] @ [static_name ?P]) w w2"
    using step [OF t1, of ?P] d by auto
  obtain w3 where w3: "cancel_in_queue V ?N ?jid (?sid (static_name ?N)) b w2 = (Inr (), w3)"
    "all_taken_out pfx j (([?W] @ [static_name ?P]) @ [static_name ?N]) w w3"
    using step [OF w2(2), of ?N] d by auto
  obtain w4 where w4: "cancel_in_queue V ?B ?jid (?sid (static_name ?B)) b w3 = (Inr (), w4)"
    "all_taken_out pfx j ((([?W] @ [static_name ?P]) @ [static_name ?N]) @ [static_name ?B]) w w4"
    using step [OF w3(2), of ?B] d by auto
  obtain w5 where w5: "cancel_in_queue V ?O ?jid (?sid (static_name ?O)) b w4 = (Inr (), w5)"
    "all_taken_out pfx j (((([?W] @ [static_name ?P]) @ [static_name ?N]) @ [static_name ?B]) @ [static_name ?O]) w w5"
    using step [OF w4(2), of ?O] d by auto
  have "cancel_job_in_queues V (queue_pool_of pfx) j b w = (Inr (), w5)"
    using pop w2(1) w3(1) w4(1) w5(1) unfolding sid
    by (simp add: cancel_job_in_queues_def Let_def prog_simps)
  with w5(2) show ?thesis by (auto simp: job_queues_def)
qed

text \<open>An update of a stored job, on the world.\<close>

lemma update_world:
  assumes "jobs_ok V w" and "jobs V w jid = Some j" and "keeps_ids u"
  shows "\<exists>r. on_r (job_update_one (sv_redis V) now jid u) w = (Inr (apply_update now j u), w\<lparr>w_redis := r\<rparr>) \<and>
    jobs_wf (sv_redis V) r \<and> jobs_of (sv_redis V) r = (jobs V w)(jid \<mapsto> apply_update now j u) \<and>
    untouched (w_redis w) r"
proof -
  obtain r where "job_update_one (sv_redis V) now jid u (w_redis w) = (Inr (apply_update now j u), r)"
    "jobs_wf (sv_redis V) r" "jobs_of (sv_redis V) r = (jobs V w)(jid \<mapsto> apply_update now j u)"
    "untouched (w_redis w) r"
    using update_job_eval [OF assms(1,2) [unfolded jobs_ok_def jobs_def] assms(3), of "KStr jid" now]
    by (auto simp: job_update_one_def jobs_def)
  then show ?thesis by (intro exI [of _ r]) (simp add: prog_simps)
qed

lemma cancel_job_permitted:
  assumes ok: "jobs_ok V w" and j: "jobs V w jid = Some j"
    and user: "uid \<in> u_id ` set (all_users (sv_db V) (w_db w))" and see: "may_see V w uid adm j"
  shows "cancel_job V now queues jid uid adm reason w =
    thenE (cancel_job_in_queues V queues j False)
      (on_r (job_update_one (sv_redis V) now jid
        (cancel_update (case reason of None \<Rightarrow> ''Cancelled by a user'' | Some r \<Rightarrow> r) now))) w"
proof (cases rule: find_user_cases [of uid "w_db w"])
  case unknown
  with user show ?thesis by simp
next
  case (known u)
  have user': "on_d (get_user (sv_db V) (\<lambda>u. u_id u = uid)) w = (Inr (Some u), w)"
    using known(1) by (simp add: prog_simps)
  have get: "on_r (job_get (sv_redis V) now jid) w = (Inr j, w)" using job_get_world [OF ok] j by simp
  have acc: "may_access u adm j uid" using may_access_see [OF known(2,3)] see by simp
  show ?thesis
    unfolding cancel_job_def using acc
    by (simp add: bindE_Inr [where m = "on_d (get_user (sv_db V) (\<lambda>u. u_id u = uid))" and s = w, OF user']
        bindE_Inr [where m = "on_r (job_get (sv_redis V) now jid)" and s = w, OF get])
qed

lemma cancel_job_done:
  assumes ok: "jobs_ok V w" and j: "jobs V w jid = Some j"
    and user: "uid \<in> u_id ` set (all_users (sv_db V) (w_db w))" and see: "may_see V w uid adm j"
    and can: "cancellable V pfx j w"
  shows "\<exists>w'. cancel_job V now (queue_pool_of pfx) jid uid adm reason w = (Inr (cancelled_job reason now j), w') \<and>
    jobs_ok V w' \<and> jobs V w' = (jobs V w)(jid \<mapsto> cancelled_job reason now j) \<and>
    w_rq w' = w_rq w \<and> w_db w' = w_db w \<and> w_mss w' = w_mss w \<and>
    (\<forall>n\<in>set (job_queues pfx). queue_entries V w' n =
        filter (\<lambda>e. key_of e \<noteq> SidKey (cancel_sid pfx j n)) (queue_entries V w n) \<and>
      queue_total V w' n = Inr (sum_list (map entry_duration (queue_entries V w n)) - duration (cancel_sid pfx j n)))"
proof -
  obtain w1 where w1: "cancel_job_in_queues V (queue_pool_of pfx) j False w = (Inr (), w1)"
    "all_taken_out pfx j (job_queues pfx) w w1"
    using cancel_job_in_queues_eval [OF can] by blast
  have ok1: "jobs_ok V w1" "jobs V w1 jid = Some j"
    using w1(2) ok j by (simp_all add: all_taken_out_def)
  obtain r where r: "on_r (job_update_one (sv_redis V) now jid
        (cancel_update (case reason of None \<Rightarrow> ''Cancelled by a user'' | Some r \<Rightarrow> r) now)) w1 =
      (Inr (cancelled_job reason now j), w1\<lparr>w_redis := r\<rparr>)"
    "jobs_wf (sv_redis V) r" "jobs_of (sv_redis V) r = (jobs V w1)(jid \<mapsto> cancelled_job reason now j)"
    "untouched (w_redis w1) r"
    using update_world [OF ok1, of "cancel_update (case reason of None \<Rightarrow> ''Cancelled by a user'' | Some r \<Rightarrow> r) now" now]
    unfolding cancelled_job_def by auto
  have "cancel_job V now (queue_pool_of pfx) jid uid adm reason w = (Inr (cancelled_job reason now j), w1\<lparr>w_redis := r\<rparr>)"
    unfolding cancel_job_permitted [OF ok j user see] by (simp add: prog_simps w1(1) r(1))
  moreover have "queue_entries V (w1\<lparr>w_redis := r\<rparr>) n = queue_entries V w1 n"
    "queue_total V (w1\<lparr>w_redis := r\<rparr>) n = queue_total V w1 n" for n
    using same_queue_contents [OF untouched_queue [OF r(4)]] same_queue_total [OF untouched_queue [OF r(4)]]
    by (simp_all add: queue_entries_def queue_total_def)
  ultimately show ?thesis
    using r(2,3) w1(2)
    by (intro exI [of _ "w1\<lparr>w_redis := r\<rparr>"]) (simp add: all_taken_out_def jobs_ok_def jobs_def)
qed

lemma delete_job_done:
  assumes ok: "jobs_ok V w" and j: "jobs V w jid = Some j"
    and user: "uid \<in> u_id ` set (all_users (sv_db V) (w_db w))" and see: "may_see V w uid adm j"
    and can: "cancellable V pfx j w"
  shows "\<exists>w'. delete_job V now (queue_pool_of pfx) jid uid adm w = (Inr (cancelled_job None now j), w') \<and>
    jobs_ok V w' \<and> jobs V w' = (jobs V w)(jid := None) \<and> w_db w' = w_db w \<and>
    (\<forall>n\<in>set (job_queues pfx). queue_entries V w' n =
        filter (\<lambda>e. key_of e \<noteq> SidKey (cancel_sid pfx j n)) (queue_entries V w n))"
proof -
  obtain w1 where w1: "cancel_job V now (queue_pool_of pfx) jid uid adm None w = (Inr (cancelled_job None now j), w1)"
    "jobs_ok V w1" "jobs V w1 = (jobs V w)(jid \<mapsto> cancelled_job None now j)" "w_db w1 = w_db w"
    "\<forall>n\<in>set (job_queues pfx). queue_entries V w1 n =
        filter (\<lambda>e. key_of e \<noteq> SidKey (cancel_sid pfx j n)) (queue_entries V w n)"
    using cancel_job_done [OF assms, of now None] by auto
  have j1: "jobs_of (sv_redis V) (w_redis w1) jid = Some (cancelled_job None now j)"
    using w1(3) by (simp add: jobs_def)
  obtain r where r: "on_jobs now (delete_many (sv_redis V) job_schema now [KStr jid]) (w_redis w1) = (Inr (), r)"
    "jobs_wf (sv_redis V) r" "jobs_of (sv_redis V) r = (jobs_of (sv_redis V) (w_redis w1))(jid := None)"
    "untouched (w_redis w1) r"
    using delete_job_eval [OF w1(2) [unfolded jobs_ok_def] j1, of "KStr jid" now] by auto
  have "delete_job V now (queue_pool_of pfx) jid uid adm w = (Inr (cancelled_job None now j), w1\<lparr>w_redis := r\<rparr>)"
    by (simp add: delete_job_def prog_simps w1(1) r(1))
  moreover have "queue_entries V (w1\<lparr>w_redis := r\<rparr>) n = queue_entries V w1 n" for n
    using same_queue_contents [OF untouched_queue [OF r(4)]] by (simp add: queue_entries_def)
  ultimately show ?thesis
    using w1 r(2,3) by (intro exI [of _ "w1\<lparr>w_redis := r\<rparr>"]) (simp add: jobs_ok_def jobs_def)
qed

lemma cancel_job_keeps_rq:
  assumes ok: "jobs_ok V w"
  shows "rq_state V (snd (cancel_job V now (queue_pool_of pfx) jid uid adm reason w)) (get_rq_job_id jid st) =
    rq_state V w (get_rq_job_id jid st)"
proof (cases "uid \<notin> u_id ` set (all_users (sv_db V) (w_db w)) \<or> jobs V w jid = None \<or>
      (\<exists>j. jobs V w jid = Some j \<and> \<not> may_see V w uid adm j)")
  case True
  then show ?thesis by (simp only: cancel_job_refused [OF ok True] snd_conv)
next
  case False
  then obtain j where j: "jobs V w jid = Some j" "may_see V w uid adm j"
    "uid \<in> u_id ` set (all_users (sv_db V) (w_db w))" by auto
  have jid: "job_id j = jid" using jobs_of_Some(3) ok j(1) by (auto simp: jobs_ok_def jobs_def)
  let ?P = "\<lambda>w'. status_of (sv_rq V) (w_rq w') (get_rq_job_id jid st) = rq_state V w (get_rq_job_id jid st)"
  have "stable ?P (thenE (cancel_job_in_queues V (queue_pool_of pfx) j False)
      (on_r (job_update_one (sv_redis V) now jid
         (cancel_update (case reason of None \<Rightarrow> ''Cancelled by a user'' | Some r \<Rightarrow> r) now))))"
    by (intro stable_rules stable_cancel_job_in_queues jid)
  from stableD [OF this, of w] show ?thesis
    unfolding cancel_job_permitted [OF ok j(1,3,2)] by (simp add: rq_state_def)
qed

end

end
