(* ===== verification/Booking_Effects.thy ===== *)
theory Booking_Effects imports Scheduler_Effects Booking_Properties begin

text \<open>
  Bookings seen from the scheduler: submitting and cancelling one, the idleness timer, the decision
  for a job that belongs to a booking.
\<close>

section \<open>Submitting a booking\<close>

lemma event_ids_differ [simp]:
  "bid @ ''_start_event'' \<noteq> bid' @ ''_end_event''" "bid @ ''_end_event'' \<noteq> bid' @ ''_start_event''"
  "bid @ ''_start_event'' \<noteq> bid' @ ''_idle_timer''" "bid @ ''_idle_timer'' \<noteq> bid' @ ''_start_event''"
  "bid @ ''_end_event'' \<noteq> bid' @ ''_idle_timer''" "bid @ ''_idle_timer'' \<noteq> bid' @ ''_end_event''"
  by (subst rev_is_rev_conv [symmetric], simp)+

definition rq_task :: "('r, 'q, 'd, 'm) services \<Rightarrow> ('r, 'q, 'd, 'm) world \<Rightarrow> string \<Rightarrow> task option" where
  "rq_task V w = task_of (sv_rq V) (w_rq w)"

context scheduler
begin

lemma submit_booking_refused:
  assumes "create_booking (sv_db V) (sv_settings V) bid uid info (w_db w) = (Inl e, w_db w)"
  shows "submit_booking V ctx queues bid uid info w = (Inl e, w)"
  by (simp add: submit_booking_def prog_simps assms)

lemma submit_booking_done:
  assumes "create_booking (sv_db V) (sv_settings V) bid uid info (w_db w) = (Inr b, d)"
    and "b_start_event_id b = bid @ ''_start_event''" "b_end_event_id b = bid @ ''_end_event''"
  shows "\<exists>q. submit_booking V ctx (queue_pool_of (queue_prefix ctx)) bid uid info w = (Inr b, w\<lparr>w_db := d, w_rq := q\<rparr>) \<and>
    (\<forall>i. status_of (sv_rq V) q i = (if i \<in> {b_start_event_id b, b_end_event_id b} then Some Scheduled else rq_state V w i)) \<and>
    task_of (sv_rq V) q (b_start_event_id b) = Some (ResetIdleness (b_id b) (b_end_utc b) ctx) \<and>
    task_of (sv_rq V) q (b_end_event_id b) = Some (PostBookingCleanup (b_id b) ctx)"
proof -
  let ?g = "get_general_queue (queue_prefix ctx)"
  define q1 where "q1 = snd (rq_enqueue_at (sv_rq V) ?g (b_start_utc b) (Some (b_start_event_id b))
      (ResetIdleness (b_id b) (b_end_utc b) ctx) (w_rq w))"
  define q2 where "q2 = snd (rq_enqueue_at (sv_rq V) ?g (b_end_utc b) (Some (b_end_event_id b))
      (PostBookingCleanup (b_id b) ctx) q1)"
  have "submit_booking V ctx (queue_pool_of (queue_prefix ctx)) bid uid info w = (Inr b, w\<lparr>w_db := d, w_rq := q2\<rparr>)"
    by (simp add: submit_booking_def prog_simps assms(1) q1_def q2_def)
  moreover have "status_of (sv_rq V) q2 i =
      (if i \<in> {b_start_event_id b, b_end_event_id b} then Some Scheduled else rq_state V w i)" for i
    by (simp add: q2_def q1_def rq.enqueue_at_status rq_state_def)
  moreover have "task_of (sv_rq V) q2 (b_start_event_id b) = Some (ResetIdleness (b_id b) (b_end_utc b) ctx)"
    "task_of (sv_rq V) q2 (b_end_event_id b) = Some (PostBookingCleanup (b_id b) ctx)"
    using assms(2,3) by (simp_all add: q2_def q1_def rq.enqueue_at_task)
  ultimately show ?thesis by blast
qed

end

section \<open>Cancelling a booking\<close>

context rq_laws
begin

text \<open>Cancelling a list of ids, errors ignored: each that rq knows is cancelled, nothing else changes.\<close>

lemma cancel_three:
  "\<exists>s'. thenE (cancel_rq_job Q i True) (thenE (cancel_rq_job Q j True) (cancel_rq_job Q k True)) s = (Inr (), s') \<and>
    (\<forall>i'. status_of Q s' i' = (if i' \<in> {i, j, k} \<and> status_of Q s i' \<noteq> None then Some Canceled else status_of Q s i'))"
proof -
  obtain s1 where s1: "cancel_rq_job Q i True s = (Inr (), s1)"
    "\<forall>i'. status_of Q s1 i' = (if i' = i \<and> status_of Q s i \<noteq> None then Some Canceled else status_of Q s i')"
    using cancel_rq_job_ignore [of i s] by blast
  obtain s2 where s2: "cancel_rq_job Q j True s1 = (Inr (), s2)"
    "\<forall>i'. status_of Q s2 i' = (if i' = j \<and> status_of Q s1 j \<noteq> None then Some Canceled else status_of Q s1 i')"
    using cancel_rq_job_ignore [of j s1] by blast
  obtain s3 where s3: "cancel_rq_job Q k True s2 = (Inr (), s3)"
    "\<forall>i'. status_of Q s3 i' = (if i' = k \<and> status_of Q s2 k \<noteq> None then Some Canceled else status_of Q s2 i')"
    using cancel_rq_job_ignore [of k s2] by blast
  have "status_of Q s3 i' = (if i' \<in> {i, j, k} \<and> status_of Q s i' \<noteq> None then Some Canceled else status_of Q s i')" for i'
    using s1(2) s2(2) s3(2) by auto
  with s1(1) s2(1) s3(1) show ?thesis by (intro exI [of _ s3]) (simp add: prog_simps)
qed

end

text \<open>Whether a user may cancel a booking.\<close>

definition may_cancel :: "('r, 'q, 'd, 'm) services \<Rightarrow> ('r, 'q, 'd, 'm) world \<Rightarrow> string \<Rightarrow> bool \<Rightarrow> booking \<Rightarrow> bool" where
  "may_cancel V w uid adm b \<longleftrightarrow> b_user_id b = Some uid \<or> adm \<or>
     (\<exists>u\<in>set (all_users (sv_db V) (w_db w)). u_id u = uid \<and> u_is_admin u)"

context scheduler
begin

lemma cancel_booking_from_queues_eval:
  "\<exists>q. cancel_booking_from_queues V b w = (Inr (), w\<lparr>w_rq := q\<rparr>) \<and>
    (\<forall>i. status_of (sv_rq V) q i = (if i \<in> {b_idle_timer_id b, b_start_event_id b, b_end_event_id b} \<and>
       rq_state V w i \<noteq> None then Some Canceled else rq_state V w i))"
proof -
  obtain q where q: "thenE (cancel_rq_job (sv_rq V) (b_idle_timer_id b) True)
      (thenE (cancel_rq_job (sv_rq V) (b_start_event_id b) True)
        (cancel_rq_job (sv_rq V) (b_end_event_id b) True)) (w_rq w) = (Inr (), q)"
    "\<forall>i. status_of (sv_rq V) q i = (if i \<in> {b_idle_timer_id b, b_start_event_id b, b_end_event_id b} \<and>
       status_of (sv_rq V) (w_rq w) i \<noteq> None then Some Canceled else status_of (sv_rq V) (w_rq w) i)"
    using rq.cancel_three by blast
  have "cancel_booking_from_queues V b w = (Inr (), w\<lparr>w_rq := q\<rparr>)"
    unfolding cancel_booking_from_queues_def on_q_def zoomE_def by (simp only: q(1) Let_def prod.case)
  with q(2) show ?thesis unfolding rq_state_def by blast
qed

text \<open>The outcome of the look-up of a booking by id, when its row is the only one with that id.\<close>

lemma find_booking:
  assumes ok: "bookings_ok (sv_db V) (sv_settings V) (w_db w)"
    and row: "row \<in> set (all_bookings (sv_db V) (w_db w))" "P row"
    and only: "\<forall>c\<in>set (all_bookings (sv_db V) (w_db w)). P c \<longrightarrow> c = row"
  shows "\<exists>b. validate_booking row = Inr b \<and> on_d (get_booking (sv_db V) P) w = (Inr (Some b), w)"
proof -
  obtain r where r: "get_booking (sv_db V) P (w_db w) = (Inr r, w_db w)"
    "case r of None \<Rightarrow> \<forall>b\<in>set (all_bookings (sv_db V) (w_db w)). \<not> P b
     | Some v \<Rightarrow> \<exists>b\<in>set (all_bookings (sv_db V) (w_db w)). P b \<and> validate_booking b = Inr v"
    using sql.get_booking_eval [OF ok, of P] by blast
  show ?thesis
  proof (cases r)
    case None
    with r(2) row show ?thesis by auto
  next
    case (Some v)
    with r(2) obtain b where b: "b \<in> set (all_bookings (sv_db V) (w_db w))" "P b" "validate_booking b = Inr v"
      by auto
    have "b = row" using only b(1,2) by blast
    with b(3) r(1) Some show ?thesis by (simp add: prog_simps)
  qed
qed

lemma find_no_booking:
  assumes "bookings_ok (sv_db V) (sv_settings V) (w_db w)"
    and "\<forall>c\<in>set (all_bookings (sv_db V) (w_db w)). \<not> P c"
  shows "on_d (get_booking (sv_db V) P) w = (Inr None, w)"
proof -
  obtain r where r: "get_booking (sv_db V) P (w_db w) = (Inr r, w_db w)"
    "case r of None \<Rightarrow> \<forall>b\<in>set (all_bookings (sv_db V) (w_db w)). \<not> P b
     | Some v \<Rightarrow> \<exists>b\<in>set (all_bookings (sv_db V) (w_db w)). P b \<and> validate_booking b = Inr v"
    using sql.get_booking_eval [OF assms(1), of P] by blast
  with assms(2) have "r = None" by (cases r) auto
  with r(1) show ?thesis by (simp add: prog_simps)
qed

lemma validated_times:
  "validate_booking row = Inr b \<Longrightarrow> b_id b = b_id row \<and> b_start_utc b = b_start_utc row \<and> b_end_utc b = b_end_utc row \<and>
    b_user_id b = b_user_id row \<and> b_idle_timer_id b = b_id row @ ''_idle_timer'' \<and>
    b_start_event_id b = b_id row @ ''_start_event'' \<and> b_end_event_id b = b_id row @ ''_end_event'' \<and>
    b_total_duration b = total_seconds (b_end_utc row - b_start_utc row)"
  by (auto simp: validate_booking_def split: if_splits)

lemma cancel_booking_refused:
  assumes ok: "bookings_ok (sv_db V) (sv_settings V) (w_db w)"
    and no: "uid \<notin> u_id ` set (all_users (sv_db V) (w_db w)) \<or>
      (\<forall>c\<in>set (all_bookings (sv_db V) (w_db w)). b_id c = bid \<longrightarrow> \<not> may_cancel V w uid adm c)"
  shows "cancel_booking V now uid bid adm w = (Inl ItemNotFoundError, w)"
proof (cases rule: find_user_cases [of uid "w_db w"])
  case unknown
  then show ?thesis by (simp add: cancel_booking_def prog_simps)
next
  case (known u)
  have "\<forall>c\<in>set (all_bookings (sv_db V) (w_db w)).
      \<not> (b_id c = bid \<and> (b_user_id c = Some uid \<or> u_is_admin u \<or> adm))"
    using no known(2,3) by (auto simp: may_cancel_def)
  from find_no_booking [OF ok this] show ?thesis
    using known(1) by (simp add: cancel_booking_def prog_simps)
qed

lemma cancel_booking_outcome:
  assumes ok: "bookings_ok (sv_db V) (sv_settings V) (w_db w)"
    and user: "uid \<in> u_id ` set (all_users (sv_db V) (w_db w))"
    and row: "row \<in> set (all_bookings (sv_db V) (w_db w))" "b_id row = bid" "may_cancel V w uid adm row"
    and only: "\<forall>c\<in>set (all_bookings (sv_db V) (w_db w)). b_id c = bid \<longrightarrow> c = row"
  shows "if b_end_utc row < settings_now (sv_settings V) now
    then cancel_booking V now uid bid adm w = (Inl BookingAlreadyCompleteError, w)
    else if b_start_utc row \<le> settings_now (sv_settings V) now
    then cancel_booking V now uid bid adm w = (Inl BookingAlreadyActiveError, w)
    else \<exists>q d. cancel_booking V now uid bid adm w = (Inr (), w\<lparr>w_rq := q, w_db := d\<rparr>) \<and>
      mset (all_bookings (sv_db V) d) = filter_mset (\<lambda>c. b_id c \<noteq> bid) (mset (all_bookings (sv_db V) (w_db w))) \<and>
      (\<forall>i. status_of (sv_rq V) q i = (if i \<in> {bid @ ''_idle_timer'', bid @ ''_start_event'', bid @ ''_end_event''} \<and>
         rq_state V w i \<noteq> None then Some Canceled else rq_state V w i))"
proof (cases rule: find_user_cases [of uid "w_db w"])
  case unknown
  with user show ?thesis by simp
next
  case (known u)
  let ?P = "\<lambda>c. b_id c = bid \<and> (b_user_id c = Some uid \<or> u_is_admin u \<or> adm)"
  have P: "?P row"
    using row(2,3) known(3) users_unique [OF known(2)] unfolding may_cancel_def by metis
  have "\<forall>c\<in>set (all_bookings (sv_db V) (w_db w)). ?P c \<longrightarrow> c = row" using only by simp
  from find_booking [OF ok row(1) P this] obtain b where
    b: "validate_booking row = Inr b" "on_d (get_booking (sv_db V) ?P) w = (Inr (Some b), w)" by blast
  note vt = validated_times [OF b(1)]
  have user': "on_d (get_user (sv_db V) (\<lambda>u. u_id u = uid)) w = (Inr (Some u), w)"
    using known(1) by (simp add: prog_simps)
  have run: "cancel_booking V now uid bid adm w =
      (if is_active (sv_settings V) now b then raiseE BookingAlreadyActiveError
       else if is_complete (sv_settings V) now b then raiseE BookingAlreadyCompleteError
       else thenE (cancel_booking_from_queues V b)
              (on_d (delete_bookings_where (sv_db V) (\<lambda>c. b_id c = bid)))) w"
    unfolding cancel_booking_def
    by (simp add: bindE_Inr [where m = "on_d (get_user (sv_db V) (\<lambda>u. u_id u = uid))" and s = w, OF user']
        bindE_Inr [where m = "on_d (get_booking (sv_db V) ?P)" and s = w, OF b(2)])
  obtain q where q: "cancel_booking_from_queues V b w = (Inr (), w\<lparr>w_rq := q\<rparr>)"
    "\<forall>i. status_of (sv_rq V) q i = (if i \<in> {b_idle_timer_id b, b_start_event_id b, b_end_event_id b} \<and>
       rq_state V w i \<noteq> None then Some Canceled else rq_state V w i)"
    using cancel_booking_from_queues_eval [of b w] by blast
  have le: "b_start_utc row \<le> b_end_utc row" using ok row(1) by (auto simp: bookings_ok_def row_ok_def)
  let ?now = "settings_now (sv_settings V) now"
  consider "b_end_utc row < ?now" | "b_start_utc row \<le> ?now" "\<not> b_end_utc row < ?now" | "?now < b_start_utc row"
    by linarith
  then show ?thesis
  proof cases
    case 1
    with run vt show ?thesis by (simp add: is_active_def is_complete_def prog_simps)
  next
    case 2
    with run vt show ?thesis by (simp add: is_active_def prog_simps)
  next
    case 3
    let ?d = "db_delete_bookings (sv_db V) (\<lambda>c. b_id c = bid) (w_db w)"
    have fin: "cancel_booking V now uid bid adm w = (Inr (), w\<lparr>w_rq := q, w_db := ?d\<rparr>)"
      using 3 vt le unfolding run
      by (simp add: is_active_def is_complete_def prog_simps q(1) delete_bookings_where_def)
    have del: "mset (all_bookings (sv_db V) ?d) =
        filter_mset (\<lambda>c. b_id c \<noteq> bid) (mset (all_bookings (sv_db V) (w_db w)))"
      by (rule sql.delete_bookings)
    have ids: "{b_idle_timer_id b, b_start_event_id b, b_end_event_id b} =
        {bid @ ''_idle_timer'', bid @ ''_start_event'', bid @ ''_end_event''}" using vt row(2) by simp
    have "\<not> b_end_utc row < ?now" "\<not> b_start_utc row \<le> ?now" using 3 le by simp_all
    then show ?thesis
      by (simp only: if_False) (intro exI conjI, rule fin, rule del, rule q(2) [unfolded ids])
  qed
qed

end

section \<open>The idleness timer\<close>

text \<open>What the timer is enqueued with, and what it is enqueued on.\<close>

definition timer_repeat :: "rat \<Rightarrow> int \<Rightarrow> (int \<times> int) option" where
  "timer_repeat left max_idle = (if 0 < max_idle then Some (py_int (left / of_int max_idle), max_idle) else None)"

definition timer_queued ::
    "('r, 'q, 'd, 'm) services \<Rightarrow> queue_context \<Rightarrow> string \<Rightarrow> rat \<Rightarrow> (int \<times> int) option \<Rightarrow> 'q \<Rightarrow> 'q" where
  "timer_queued V ctx timer restart_in rep s = snd (rq_enqueue_in (sv_rq V)
     (get_general_queue (queue_prefix ctx)) restart_in rep (Some timer) (PopWaitlistToBooking ctx) s)"

lemma timer_repeat_bounds:
  assumes "0 < max_idle" and "of_int max_idle \<le> left"
  obtains n where "timer_repeat left max_idle = Some (n, max_idle)" "1 \<le> n" "of_int (n * max_idle) \<le> left"
    "left < of_int ((n + 1) * max_idle)"
proof
  let ?n = "\<lfloor>left / of_int max_idle\<rfloor>"
  have pos: "(0 :: rat) < of_int max_idle" using assms(1) by simp
  have nonneg: "0 \<le> left / of_int max_idle" using assms pos by (simp add: order_trans [OF _ assms(2)])
  then show "timer_repeat left max_idle = Some (?n, max_idle)"
    using assms(1) by (simp add: timer_repeat_def py_int_nonneg)
  show "1 \<le> ?n" using assms(2) pos by (simp add: le_floor_iff)
  have "of_int ?n * of_int max_idle \<le> left"
    using of_int_floor_le [of "left / of_int max_idle"] by (simp only: pos_le_divide_eq [OF pos])
  then show "of_int (?n * max_idle) \<le> left" by simp
  have "left / of_int max_idle < of_int ?n + 1" by linarith
  then show "left < of_int ((?n + 1) * max_idle)" using pos by (simp add: pos_divide_less_eq)
qed

context scheduler
begin

lemma reset_timer_eval:
  assumes ok: "bookings_ok (sv_db V) (sv_settings V) (w_db w)"
    and row: "row \<in> set (all_bookings (sv_db V) (w_db w))" "b_id row = bid"
    and only: "\<forall>c\<in>set (all_bookings (sv_db V) (w_db w)). b_id c = bid \<longrightarrow> c = row"
    and idle: "i = (case max_idle of None \<Rightarrow> max_idle_time ctx | Some m \<Rightarrow> m)"
    and left: "left = total_seconds (fin - now) - restart_in"
  shows "\<exists>q. (\<forall>t. status_of (sv_rq V) q t =
        (if t = bid @ ''_idle_timer'' \<and> rq_state V w t \<noteq> None then Some Canceled else rq_state V w t)) \<and>
    reset_idleness_timer V now bid fin ctx (Some restart_in) max_idle w =
      (Inr (), w\<lparr>w_rq := if left < of_int i then q
         else timer_queued V ctx (bid @ ''_idle_timer'') restart_in (timer_repeat left i) q\<rparr>)"
proof -
  have P: "b_id row = bid" by (rule row(2))
  obtain b where b: "validate_booking row = Inr b" "on_d (get_booking (sv_db V) (\<lambda>b. b_id b = bid)) w = (Inr (Some b), w)"
    using find_booking [OF ok row(1) P only] by blast
  have timer: "b_idle_timer_id b = bid @ ''_idle_timer''" using validated_times [OF b(1)] row(2) by simp
  obtain q where q: "cancel_rq_job (sv_rq V) (bid @ ''_idle_timer'') True (w_rq w) = (Inr (), q)"
    "\<forall>t. status_of (sv_rq V) q t = (if t = bid @ ''_idle_timer'' \<and> status_of (sv_rq V) (w_rq w) (bid @ ''_idle_timer'') \<noteq> None
       then Some Canceled else status_of (sv_rq V) (w_rq w) t)"
    using rq.cancel_rq_job_ignore by blast
  have st: "\<forall>t. status_of (sv_rq V) q t =
      (if t = bid @ ''_idle_timer'' \<and> rq_state V w t \<noteq> None then Some Canceled else rq_state V w t)"
    using q(2) unfolding rq_state_def by metis
  have run: "reset_idleness_timer V now bid fin ctx (Some restart_in) max_idle w =
      (Inr (), w\<lparr>w_rq := if left < of_int i then q
         else timer_queued V ctx (bid @ ''_idle_timer'') restart_in (timer_repeat left i) q\<rparr>)"
    unfolding reset_idleness_timer_def
    by (simp add: Let_def prog_simps timer q(1) timer_queued_def timer_repeat_def bindE_Inr [where m = "on_d (get_booking (sv_db V) (\<lambda>b. b_id b = bid))" and s = w, OF b(2)]
        flip: idle left)
  show ?thesis using st run by blast
qed

lemma reset_timer_no_booking:
  assumes "bookings_ok (sv_db V) (sv_settings V) (w_db w)"
    and "\<forall>c\<in>set (all_bookings (sv_db V) (w_db w)). b_id c \<noteq> bid"
  shows "reset_idleness_timer V now bid fin ctx restart_in max_idle w = (Inr (), w)"
  using find_no_booking [OF assms(1), of "\<lambda>b. b_id b = bid"] assms(2)
  by (simp add: reset_idleness_timer_def Let_def
      bindE_Inr [where m = "on_d (get_booking (sv_db V) (\<lambda>b. b_id b = bid))" and s = w] retE_eval)

end

section \<open>A job that comes with a booking\<close>

lemma too_long_keeps_ids [simp]: "keeps_ids too_long_update"
  by (simp add: too_long_update_def no_update_def keeps_ids_def)

lemma exec_id_not_timer [simp]: "get_rq_job_id jid st \<noteq> bid @ ''_idle_timer''"
  by (subst rev_is_rev_conv [symmetric], cases st) (simp_all add: get_rq_job_id_def)

lemma booked_not_waitlist [simp]:
  "static_name (get_booked_execution_queue pfx) \<noteq> get_waitlist pfx" "get_waitlist pfx \<noteq> static_name (get_booked_execution_queue pfx)"
  using job_queues_distinct [of pfx] by (auto simp: job_queues_def)

context scheduler
begin

lemma rq_only_world:
  "jobs_ok V (w\<lparr>w_rq := q\<rparr>) = jobs_ok V w" "jobs V (w\<lparr>w_rq := q\<rparr>) = jobs V w"
  "queue_entries V (w\<lparr>w_rq := q\<rparr>) n = queue_entries V w n" "queue_ok V (w\<lparr>w_rq := q\<rparr>) n = queue_ok V w n"
  "can_join V (w\<lparr>w_rq := q\<rparr>) n j = can_join V w n j" "rq_state V (w\<lparr>w_rq := q\<rparr>) = status_of (sv_rq V) q"
  by (simp_all add: jobs_ok_def jobs_def queue_entries_def queue_ok_def can_join_def rq_state_def)

text \<open>The part of the decision that comes after the look-up of the booking and of the queue's total.\<close>

lemma try_booked_found:
  fixes ctx
  defines "queue \<equiv> get_booked_execution_queue (queue_prefix ctx)"
  assumes b: "on_d (get_booking (sv_db V) (\<lambda>b. b_id b = bid)) w = (Inr (Some b), w)" "bid \<noteq> []"
    and d: "estimated_duration j = Some d"
    and total: "runner_total_duration (sv_redis V) queue now (w_redis w) = Inr t"
  shows "try_enqueue_on_booked_queue V now j ctx (Some bid) w =
    (if user_id j \<noteq> b_user_id b \<or> force_normal_queue ctx = Some True then push_to_waitlist V now (job_id j) ctx w
     else if b_total_duration b - t < d then
       thenE (on_r (job_update_one (sv_redis V) now (job_id j) too_long_update)) (retE (job_id j, ctx)) w
     else
       thenE (reset_idleness_timer V now (b_id b) (b_end_utc b) ctx (Some d) None)
         (thenE (stage_and_enqueue V now queue (job_id j) EXEC_Q ctx
            (no_kwargs\<lparr>kw_job_id := Some (get_rq_job_id (job_id j) EXEC_Q)\<rparr>)) (retE (job_id j, ctx))) w)"
proof -
  have td: "total_duration_of V now queue w = (Inr t, w)" using total by (simp add: total_duration_eval)
  have assoc: "thenE (thenE m (retE ())) k w = thenE m k w" for m :: "('x, _) prog" and k :: "('y, _) prog"
    by (simp add: thenE_def bindE_def retE_def split: prod.split sum.split)
  have assoc2: "thenE (thenE m (thenE n (retE ()))) k w = thenE m (thenE n k) w"
    for m :: "('x, _) prog" and n :: "('z, _) prog" and k :: "('y, _) prog"
    by (simp add: thenE_def bindE_def retE_def split: prod.split sum.split)
  show ?thesis
    using b(2) d
    by (simp add: try_enqueue_on_booked_queue_def Let_def prog_simps longer_than_def assoc assoc2
        bindE_Inr [where m = "on_d (get_booking (sv_db V) (\<lambda>b. b_id b = bid))" and s = w, OF b(1)]
        bindE_Inr [where m = "total_duration_of V now queue" and s = w, OF td] flip: queue_def)
qed

lemma try_booked_eval:
  fixes ctx j row
  defines "queue \<equiv> get_booked_execution_queue (queue_prefix ctx)"
    and "waitlist \<equiv> get_waitlist (queue_prefix ctx)"
    and "exec_id \<equiv> get_rq_job_id (job_id j) EXEC_Q"
    and "timer \<equiv> b_id row @ ''_idle_timer''"
    and "usable \<equiv> total_seconds (b_end_utc row - b_start_utc row)"
  assumes ok: "jobs_ok V w" and j: "jobs V w (job_id j) = Some j" "queueable j" "estimated_duration j = Some d"
    and db: "bookings_ok (sv_db V) (sv_settings V) (w_db w)"
    and row: "row \<in> set (all_bookings (sv_db V) (w_db w))" "b_id row \<noteq> []"
    and only: "\<forall>c\<in>set (all_bookings (sv_db V) (w_db w)). b_id c = b_id row \<longrightarrow> c = row"
    and total: "runner_total_duration (sv_redis V) queue now (w_redis w) = Inr t"
    and join: "can_join V w (static_name queue) j" "can_join V w waitlist j"
  shows "\<exists>w'. try_enqueue_on_booked_queue V now j ctx (Some (b_id row)) w = (Inr (job_id j, ctx), w') \<and> jobs_ok V w' \<and>
    (if user_id j \<noteq> b_user_id row \<or> force_normal_queue ctx = Some True then
       jobs V w' = jobs V w \<and> rq_state V w' = rq_state V w \<and>
       queue_entries V w' (static_name queue) = queue_entries V w (static_name queue) \<and>
       queue_entries V w' waitlist = queue_entries V w waitlist @ [(j, (ctx, no_kwargs\<lparr>kw_job_id := Some exec_id\<rparr>))]
     else if usable - t < d then
       jobs V w' = (jobs V w)(job_id j \<mapsto> apply_update now j too_long_update) \<and> rq_state V w' = rq_state V w \<and>
       (\<forall>n. queue_entries V w' n = queue_entries V w n)
     else
       jobs V w' = (jobs V w)(job_id j \<mapsto> staged now EXEC_Q j) \<and>
       queue_entries V w' (static_name queue) =
         queue_entries V w (static_name queue) @ [(staged now EXEC_Q j, (ctx, no_kwargs))] \<and>
       queue_entries V w' waitlist = queue_entries V w waitlist \<and>
       rq_state V w' exec_id = Some Queued \<and>
       rq_state V w' timer = (if total_seconds (b_end_utc row - now) - d < of_int (max_idle_time ctx)
         then map_option (\<lambda>_. Canceled) (rq_state V w timer) else Some Scheduled) \<and>
       (\<forall>i. i \<noteq> exec_id \<longrightarrow> i \<noteq> timer \<longrightarrow> rq_state V w' i = rq_state V w i))"
proof -
  have names: "static_name queue \<noteq> waitlist" "waitlist \<noteq> static_name queue"
    by (simp_all add: queue_def waitlist_def)
  obtain b where b: "validate_booking row = Inr b" "on_d (get_booking (sv_db V) (\<lambda>b. b_id b = b_id row)) w = (Inr (Some b), w)"
    using find_booking [OF db row(1) refl only] by blast
  note vt = validated_times [OF b(1)]
  note run = try_booked_found [OF b(2) row(2) j(3) total [unfolded queue_def], folded queue_def]
  have run': "try_enqueue_on_booked_queue V now j ctx (Some (b_id row)) w =
    (if user_id j \<noteq> b_user_id row \<or> force_normal_queue ctx = Some True then push_to_waitlist V now (job_id j) ctx w
     else if usable - t < d then
       thenE (on_r (job_update_one (sv_redis V) now (job_id j) too_long_update)) (retE (job_id j, ctx)) w
     else
       thenE (reset_idleness_timer V now (b_id row) (b_end_utc row) ctx (Some d) None)
         (thenE (stage_and_enqueue V now queue (job_id j) EXEC_Q ctx
            (no_kwargs\<lparr>kw_job_id := Some exec_id\<rparr>)) (retE (job_id j, ctx))) w)"
    unfolding run exec_id_def usable_def using vt by simp
  consider (wait) "user_id j \<noteq> b_user_id row \<or> force_normal_queue ctx = Some True"
    | (long) "\<not> (user_id j \<noteq> b_user_id row \<or> force_normal_queue ctx = Some True)" "usable - t < d"
    | (fits) "\<not> (user_id j \<noteq> b_user_id row \<or> force_normal_queue ctx = Some True)" "\<not> usable - t < d"
    by blast
  then show ?thesis
  proof cases
    case wait
    obtain w' where w': "push_to_waitlist V now (job_id j) ctx w = (Inr (job_id j, ctx), w')"
      "jobs_ok V w'" "jobs V w' = jobs V w"
      "queue_entries V w' waitlist = queue_entries V w waitlist @ [(j, (ctx, no_kwargs\<lparr>kw_job_id := Some exec_id\<rparr>))]"
      "\<forall>n. n \<noteq> waitlist \<longrightarrow> same_queue n (w_redis w) (w_redis w')" "w_rq w' = w_rq w"
      using push_to_waitlist_eval [OF ok j(1,2), of ctx now] join(2)
      unfolding waitlist_def exec_id_def by blast
    have "queue_entries V w' (static_name queue) = queue_entries V w (static_name queue)"
      using w'(5) names same_queue_contents unfolding queue_entries_def by blast
    moreover have "rq_state V w' = rq_state V w" using w'(6) by (simp add: rq_state_def)
    ultimately show ?thesis
      unfolding run' if_P [OF wait] using w'(1-4) by blast
  next
    case long
    obtain r where r: "on_r (job_update_one (sv_redis V) now (job_id j) too_long_update) w =
        (Inr (apply_update now j too_long_update), w\<lparr>w_redis := r\<rparr>)"
      "jobs_wf (sv_redis V) r" "jobs_of (sv_redis V) r = (jobs V w)(job_id j \<mapsto> apply_update now j too_long_update)"
      "untouched (w_redis w) r"
      using update_world [OF ok j(1), of too_long_update now] by auto
    let ?w = "w\<lparr>w_redis := r\<rparr>"
    have "thenE (on_r (job_update_one (sv_redis V) now (job_id j) too_long_update)) (retE (job_id j, ctx)) w =
        (Inr (job_id j, ctx), ?w)" by (simp add: prog_simps r(1))
    moreover have "jobs_ok V ?w" "jobs V ?w = (jobs V w)(job_id j \<mapsto> apply_update now j too_long_update)"
      "rq_state V ?w = rq_state V w" using r(2,3) by (simp_all add: jobs_ok_def jobs_def rq_state_def)
    moreover have "\<forall>n. queue_entries V ?w n = queue_entries V w n"
      using same_queue_contents [OF untouched_queue [OF r(4)]] by (simp add: queue_entries_def)
    ultimately show ?thesis
      unfolding run' if_not_P [OF long(1)] if_P [OF long(2)] by blast
  next
    case fits
    let ?left = "total_seconds (b_end_utc row - now) - d"
    obtain q where q: "\<forall>t. status_of (sv_rq V) q t =
        (if t = timer \<and> rq_state V w t \<noteq> None then Some Canceled else rq_state V w t)"
      "reset_idleness_timer V now (b_id row) (b_end_utc row) ctx (Some d) None w =
      (Inr (), w\<lparr>w_rq := if ?left < of_int (max_idle_time ctx) then q
         else timer_queued V ctx timer d (timer_repeat ?left (max_idle_time ctx)) q\<rparr>)"
      using reset_timer_eval [OF db row(1) refl only, where ctx = ctx and max_idle = None and i = "max_idle_time ctx" and left = ?left and fin = "b_end_utc row" and now = now and restart_in = d]
      unfolding timer_def by auto
    define q' where "q' = (if ?left < of_int (max_idle_time ctx) then q
         else timer_queued V ctx timer d (timer_repeat ?left (max_idle_time ctx)) q)"
    have q': "status_of (sv_rq V) q' i = (if i = timer then (if ?left < of_int (max_idle_time ctx)
         then map_option (\<lambda>_. Canceled) (rq_state V w timer) else Some Scheduled) else rq_state V w i)" for i
      using q(1) by (cases "rq_state V w timer") (simp_all add: q'_def timer_queued_def rq.enqueue_in_status)
    let ?w1 = "w\<lparr>w_rq := q'\<rparr>"
    have kwid: "kw_job_id (no_kwargs\<lparr>kw_job_id := Some exec_id\<rparr>) = Some exec_id" by simp
    have nokw: "no_kwargs\<lparr>kw_job_id := Some exec_id\<rparr>\<lparr>kw_job_id := None\<rparr> = no_kwargs" by (simp add: no_kwargs_def)
    have pre: "jobs_ok V ?w1" "jobs V ?w1 (job_id j) = Some j" "can_join V ?w1 (static_name queue) j"
      using ok j(1) join(1) by (simp_all add: rq_only_world)
    obtain w' where w': "stage_and_enqueue V now queue (job_id j) EXEC_Q ctx (no_kwargs\<lparr>kw_job_id := Some exec_id\<rparr>) ?w1 =
        (Inr (staged now EXEC_Q j), w')"
      "jobs_ok V w'" "jobs V w' = (jobs V ?w1)(job_id j \<mapsto> staged now EXEC_Q j)"
      "queue_entries V w' (static_name queue) =
        queue_entries V ?w1 (static_name queue) @ [(staged now EXEC_Q j, (ctx, no_kwargs))]"
      "\<forall>n. n \<noteq> static_name queue \<longrightarrow> same_queue n (w_redis ?w1) (w_redis w')"
      "\<forall>i'. rq_state V w' i' = (if i' = exec_id then Some Queued else rq_state V ?w1 i')"
      using stage_and_enqueue_eval [OF pre(1,2) j(2) pre(3) kwid, of now EXEC_Q ctx] unfolding nokw by blast
    have wl: "queue_entries V w' waitlist = queue_entries V w waitlist"
      using w'(5) names same_queue_contents unfolding queue_entries_def by fastforce
    have et: "timer \<noteq> exec_id" unfolding timer_def exec_id_def by (rule exec_id_not_timer [symmetric])
    have "thenE (reset_idleness_timer V now (b_id row) (b_end_utc row) ctx (Some d) None)
         (thenE (stage_and_enqueue V now queue (job_id j) EXEC_Q ctx
            (no_kwargs\<lparr>kw_job_id := Some exec_id\<rparr>)) (retE (job_id j, ctx))) w = (Inr (job_id j, ctx), w')"
      using q(2) unfolding q'_def [symmetric] by (simp add: prog_simps w'(1))
    moreover have "\<forall>i. i \<noteq> exec_id \<longrightarrow> i \<noteq> timer \<longrightarrow> rq_state V w' i = rq_state V w i"
      using w'(6) q' by (simp add: rq_only_world)
    moreover have "rq_state V w' exec_id = Some Queued"
      "rq_state V w' timer = (if ?left < of_int (max_idle_time ctx)
         then map_option (\<lambda>_. Canceled) (rq_state V w timer) else Some Scheduled)"
      using w'(6) q' et by (simp_all add: rq_only_world)
    ultimately show ?thesis
      unfolding run' if_not_P [OF fits(1)] if_not_P [OF fits(2)]
      using w'(2-4) wl by (simp add: rq_only_world)
  qed
qed

end

end
