(* ===== verification/Worker_Effects.thy ===== *)
theory Worker_Effects imports Booking_Effects begin

text \<open>
  What the workers do to the world: a task taken from its queue, the outcomes of execution and of
  post-processing with the callbacks that follow it.
\<close>

section \<open>Taking a task from its queue\<close>

context job_redis
begin

lemma next_same_jobs: "same_jobs s (snd (sq_next R n s))"
  using queue_names_not_jobs
  by (simp add: sq_next_def Let_def split_beta same_jobs_def law_simps split: sum.split del: job_schema_sel)

lemma next_same_queue: "m \<noteq> n \<Longrightarrow> same_queue m s (snd (sq_next R n s))"
  by (simp add: sq_next_def Let_def split_beta same_queue_def law_simps split: sum.split)

end

text \<open>A message server that takes every message.\<close>

definition mss_up :: "('r, 'q, 'd, 'm) services \<Rightarrow> bool" where
  "mss_up V \<longleftrightarrow> (\<forall>e t. fst (sv_mss_send V e t) = Inr ())"

definition measured :: "('r, 'q, 'd, 'm) services \<Rightarrow> string \<Rightarrow> memory result result" where
  "measured V results_file =
     (case sv_move_file V results_file of
        Inl e \<Rightarrow> Inl e
      | Inr new_file \<Rightarrow>
          (case sv_read_hdf5 V new_file of
             Inl e \<Rightarrow> Inl e
           | Inr DISCRIMINATED \<Rightarrow> Inr (sv_discriminate V new_file)
           | Inr INTEGRATED \<Rightarrow> Inr (sv_integrate V new_file)
           | Inr RAW \<Rightarrow> Inr (Inl NotImplementedError)))"

context scheduler
begin

text \<open>The world after its Redis was exchanged for one that differs in the table of jobs only.\<close>

lemma redis_only_world:
  assumes "untouched (w_redis w) r" and "jobs_wf (sv_redis V) r"
  shows "jobs_ok V (w\<lparr>w_redis := r\<rparr>)" "jobs V (w\<lparr>w_redis := r\<rparr>) = jobs_of (sv_redis V) r"
    "queue_entries V (w\<lparr>w_redis := r\<rparr>) n = queue_entries V w n"
    "can_join V (w\<lparr>w_redis := r\<rparr>) n j = can_join V w n j"
    "rq_state V (w\<lparr>w_redis := r\<rparr>) = rq_state V w"
proof -
  have same: "same_queue n (w_redis w) r" for n by (rule untouched_queue [OF assms(1)])
  have conv: "same_queue n r (w_redis w)" for n using same [of n] by (simp add: same_queue_def)
  show "jobs_ok V (w\<lparr>w_redis := r\<rparr>)" "jobs V (w\<lparr>w_redis := r\<rparr>) = jobs_of (sv_redis V) r"
    using assms(2) by (simp_all add: jobs_ok_def jobs_def)
  show "queue_entries V (w\<lparr>w_redis := r\<rparr>) n = queue_entries V w n"
    using same_queue_contents [OF same] by (simp add: queue_entries_def)
  show "can_join V (w\<lparr>w_redis := r\<rparr>) n j = can_join V w n j"
    using same_queue_wf [OF same, of n] same_queue_wf [OF conv, of n] same [of n]
    by (auto simp: can_join_def queue_ok_def same_queue_def)
  show "rq_state V (w\<lparr>w_redis := r\<rparr>) = rq_state V w" by (simp add: rq_state_def)
qed

lemma log_failure_world:
  assumes "jobs_ok V w" and "jobs V w jid = Some j"
  shows "\<exists>r. on_r (log_job_failure (sv_redis V) now jid reason) w =
      (Inr (apply_update now j (failure_update reason now)), w\<lparr>w_redis := r\<rparr>) \<and>
    jobs_wf (sv_redis V) r \<and> jobs_of (sv_redis V) r = (jobs V w)(jid \<mapsto> apply_update now j (failure_update reason now)) \<and>
    untouched (w_redis w) r"
proof -
  obtain r where "log_job_failure (sv_redis V) now jid reason (w_redis w) =
      (Inr (apply_update now j (failure_update reason now)), r)" "jobs_wf (sv_redis V) r"
    "jobs_of (sv_redis V) r = (jobs V w)(jid \<mapsto> apply_update now j (failure_update reason now))"
    "untouched (w_redis w) r"
    using log_job_failure_eval [of "w_redis w" jid j now reason] assms by (auto simp: jobs_ok_def jobs_def)
  then show ?thesis by (intro exI [of _ r]) (simp add: prog_simps)
qed

lemma results_world:
  assumes "jobs_ok V w" and "jobs V w jid = Some j"
  shows "\<exists>r. on_r (update_job_results (sv_redis V) url now jid data) w =
      (Inr (apply_update now j (results_update url jid data now)), w\<lparr>w_redis := r\<rparr>) \<and>
    jobs_wf (sv_redis V) r \<and> jobs_of (sv_redis V) r = (jobs V w)(jid \<mapsto> apply_update now j (results_update url jid data now)) \<and>
    untouched (w_redis w) r"
proof -
  obtain r where "update_job_results (sv_redis V) url now jid data (w_redis w) =
      (Inr (apply_update now j (results_update url jid data now)), r)" "jobs_wf (sv_redis V) r"
    "jobs_of (sv_redis V) r = (jobs V w)(jid \<mapsto> apply_update now j (results_update url jid data now))"
    "untouched (w_redis w) r"
    using update_job_results_eval [of "w_redis w" jid j url now data] assms by (auto simp: jobs_ok_def jobs_def)
  then show ?thesis by (intro exI [of _ r]) (simp add: prog_simps)
qed

lemma get_one_world:
  assumes "jobs_ok V w" and "jobs V w jid = Some j"
  shows "on_r (on_jobs now (get_one (sv_redis V) job_schema (KTuple [jid]))) w = (Inr j, w)"
  using get_one_job [of "w_redis w" "KTuple [jid]" jid now] assms by (simp add: jobs_ok_def jobs_def prog_simps)

section \<open>Execution\<close>

lemma execute_eval:
  fixes j j0 ctx and now :: int
  defines "jid \<equiv> job_id j" and "queue \<equiv> get_postprocessing_queue (queue_prefix ctx)"
    and "run \<equiv> staged now EXEC_W j0"
  assumes ok: "jobs_ok V w" and j0: "jobs V w jid = Some j0" "queueable j0"
    and join: "can_join V w (static_name queue) j0"
  shows "\<exists>w'. jobs_ok V w' \<and> w_db w' = w_db w \<and> w_mss w' = w_mss w \<and>
    (case sv_run V jid of
       Inl e \<Rightarrow> fst (execute V now j ctx w) = Inl e \<and> snd (execute V now j ctx w) = w' \<and>
         jobs V w' = (jobs V w)(jid \<mapsto> (if e = JobAlreadyCancelled then run
           else apply_update now run (failure_update preprocess_failure now))) \<and>
         (\<forall>n. queue_entries V w' n = queue_entries V w n) \<and> rq_state V w' = rq_state V w
     | Inr path \<Rightarrow>
         if status j0 = CANCELLED then
           execute V now j ctx w = (Inl JobAlreadyCancelled, w') \<and> jobs V w' = (jobs V w)(jid \<mapsto> run) \<and>
           (\<forall>n. queue_entries V w' n = queue_entries V w n) \<and> rq_state V w' = rq_state V w
         else
           execute V now j ctx w = (Inr (jid, ctx, path), w') \<and>
           jobs V w' = (jobs V w)(jid \<mapsto> staged now PST_PROC_Q run) \<and>
           queue_entries V w' (static_name queue) = queue_entries V w (static_name queue) @
             [(staged now PST_PROC_Q run, (ctx, no_kwargs\<lparr>kw_results_file := Some path\<rparr>))] \<and>
           rq_state V w' = (rq_state V w)(get_rq_job_id jid PST_PROC_Q \<mapsto> Queued))"
proof -
  obtain r where r: "on_r (update_job_stage (sv_redis V) now jid EXEC_W) w = (Inr run, w\<lparr>w_redis := r\<rparr>)"
    "jobs_wf (sv_redis V) r" "jobs_of (sv_redis V) r = (jobs V w)(jid \<mapsto> run)" "untouched (w_redis w) r"
    using update_stage_world [OF ok j0(1), of now EXEC_W] unfolding run_def by blast
  let ?w1 = "w\<lparr>w_redis := r\<rparr>"
  note w1 = redis_only_world [OF r(4,2)]
  have j1: "jobs V ?w1 jid = Some run" using w1(2) r(3) by simp
  have q1: "queueable run" "from_job run = from_job j0"
    unfolding run_def by (rule staged_queueable [OF j0(2)])+
  have jid1: "job_id run = jid"
    using jobs_of_Some(3) [of "w_redis w" jid j0] ok j0(1) by (simp add: run_def jobs_ok_def jobs_def)
  show ?thesis
  proof (cases "sv_run V jid")
    case (Inl e)
    show ?thesis
    proof (cases "e = JobAlreadyCancelled")
      case True
      have "execute V now j ctx w = (Inl e, ?w1)"
        using True Inl r(1) by (simp add: execute_def prog_simps fail_job_def flip: jid_def)
      with True Inl w1 r(3) show ?thesis by (intro exI [of _ ?w1]) simp
    next
      case False
      obtain r2 where r2: "on_r (log_job_failure (sv_redis V) now jid preprocess_failure) ?w1 =
          (Inr (apply_update now run (failure_update preprocess_failure now)), ?w1\<lparr>w_redis := r2\<rparr>)"
        "jobs_wf (sv_redis V) r2"
        "jobs_of (sv_redis V) r2 = (jobs V ?w1)(jid \<mapsto> apply_update now run (failure_update preprocess_failure now))"
        "untouched (w_redis ?w1) r2"
        using log_failure_world [OF w1(1) j1, of now preprocess_failure] by blast
      note w2 = redis_only_world [OF r2(4,2)]
      have "execute V now j ctx w = (Inl e, ?w1\<lparr>w_redis := r2\<rparr>)"
        using False Inl r(1) r2(1) by (simp add: execute_def prog_simps fail_job_def flip: jid_def)
      with False Inl w1 w2 r(3) r2(3) show ?thesis by (intro exI [of _ "?w1\<lparr>w_redis := r2\<rparr>"]) simp
    qed
  next
    case (Inr path)
    have get: "on_r (on_jobs now (get_one (sv_redis V) job_schema (KTuple [jid]))) ?w1 = (Inr run, ?w1)"
      by (rule get_one_world [OF w1(1) j1])
    have canc: "status run = CANCELLED \<longleftrightarrow> status j0 = CANCELLED"
      unfolding run_def by (cases "status j0") (simp_all add: get_next_status_def is_terminal_def)
    show ?thesis
    proof (cases "status j0 = CANCELLED")
      case True
      have "execute V now j ctx w = (Inl JobAlreadyCancelled, ?w1)"
        using True Inr r(1) get canc by (simp add: execute_def prog_simps fail_job_def flip: jid_def)
      with True Inr w1 r(3) show ?thesis by (intro exI [of _ ?w1]) simp
    next
      case False
      let ?kw = "no_kwargs\<lparr>kw_job_id := Some (get_rq_job_id jid PST_PROC_Q), kw_results_file := Some path\<rparr>"
      have kw: "kw_job_id ?kw = Some (get_rq_job_id jid PST_PROC_Q)"
        "?kw\<lparr>kw_job_id := None\<rparr> = no_kwargs\<lparr>kw_results_file := Some path\<rparr>"
        by (simp_all add: no_kwargs_def)
      have join1: "can_join V ?w1 (static_name queue) run"
        using join w1(4) q1(2) by (simp add: can_join_def)
      obtain w' where w': "stage_and_enqueue V now queue jid PST_PROC_Q ctx ?kw ?w1 = (Inr (staged now PST_PROC_Q run), w')"
        "jobs_ok V w'" "jobs V w' = (jobs V ?w1)(jid \<mapsto> staged now PST_PROC_Q run)"
        "queue_entries V w' (static_name queue) = queue_entries V ?w1 (static_name queue) @
          [(staged now PST_PROC_Q run, (ctx, no_kwargs\<lparr>kw_results_file := Some path\<rparr>))]"
        "\<forall>i. rq_state V w' i = (if i = get_rq_job_id jid PST_PROC_Q then Some Queued else rq_state V ?w1 i)"
        "w_db w' = w_db ?w1" "w_mss w' = w_mss ?w1"
        using stage_and_enqueue_eval [OF w1(1) j1 q1(1) join1 kw(1), of now PST_PROC_Q ctx] unfolding kw(2) by blast
      have "execute V now j ctx w = (Inr (jid, ctx, path), w')"
        using False Inr r(1) get canc w'(1) jid1
        by (simp add: execute_def prog_simps flip: jid_def queue_def)
      moreover have "rq_state V w' = (rq_state V w)(get_rq_job_id jid PST_PROC_Q \<mapsto> Queued)"
        using w'(5) w1(5) by (intro ext) simp
      ultimately show ?thesis
        using False Inr w' w1 r(3) by (intro exI [of _ w']) simp
    qed
  qed
qed

section \<open>Post-processing\<close>

lemma update_in_mss_up:
  assumes "mss_up V"
  shows "\<exists>t. update_job_in_mss V j w = (Inr (), w\<lparr>w_mss := t\<rparr>)"
proof -
  obtain x t where xt: "sv_mss_send V (JobUpdated j) (w_mss w) = (x, t)" by fastforce
  moreover have "x = Inr ()" using assms xt unfolding mss_up_def by (metis fst_conv)
  ultimately show ?thesis by (intro exI [of _ t]) (simp add: update_job_in_mss_def prog_simps)
qed

lemma mss_only_world:
  "jobs_ok V (w\<lparr>w_mss := t\<rparr>) = jobs_ok V w" "jobs V (w\<lparr>w_mss := t\<rparr>) = jobs V w"
  "queue_entries V (w\<lparr>w_mss := t\<rparr>) n = queue_entries V w n"
  by (simp_all add: jobs_ok_def jobs_def queue_entries_def)

lemma save_results_up:
  fixes j data and now :: int
  assumes "mss_up V" and "jobs_ok V w" and "jobs V w jid = Some j"
  defines "j' \<equiv> apply_update now j (results_update (sv_root_url V) jid data now)"
  shows "\<exists>w'. save_results V now jid data w = (Inr j', w') \<and> jobs_ok V w' \<and> jobs V w' = (jobs V w)(jid \<mapsto> j') \<and>
    (\<forall>n. queue_entries V w' n = queue_entries V w n)"
proof -
  obtain r where r: "on_r (update_job_results (sv_redis V) (sv_root_url V) now jid data) w = (Inr j', w\<lparr>w_redis := r\<rparr>)"
    "jobs_wf (sv_redis V) r" "jobs_of (sv_redis V) r = (jobs V w)(jid \<mapsto> j')" "untouched (w_redis w) r"
    using results_world [OF assms(2,3), of "sv_root_url V" now data] unfolding j'_def by blast
  obtain t where t: "update_job_in_mss V j' (w\<lparr>w_redis := r\<rparr>) = (Inr (), w\<lparr>w_redis := r\<rparr>\<lparr>w_mss := t\<rparr>)"
    using update_in_mss_up [OF assms(1)] by blast
  note w1 = redis_only_world [OF r(4,2)]
  have "save_results V now jid data w = (Inr j', w\<lparr>w_redis := r\<rparr>\<lparr>w_mss := t\<rparr>)"
    by (simp only: save_results_def bindE_def thenE_def r(1) t retE_def sum.case prod.case)
  then show ?thesis
    using w1 r(3) mss_only_world by (intro exI [of _ "w\<lparr>w_redis := r\<rparr>\<lparr>w_mss := t\<rparr>"]) simp
qed

text \<open>
  The measurement: what is raised before the \<open>try\<close>, what is raised inside it, or the data.
\<close>

lemma postprocess_eval:
  fixes j j0 and now :: int
  defines "jid \<equiv> job_id j" and "run \<equiv> staged now PST_PROC_W j0"
  assumes ok: "jobs_ok V w" and j0: "jobs V w jid = Some j0" and up: "mss_up V"
  shows "\<exists>w'. jobs_ok V w' \<and> (\<forall>n. queue_entries V w' n = queue_entries V w n) \<and>
    (case measured V results_file of
       Inl e \<Rightarrow> postprocess V now j ctx results_file w = (Inl e, w') \<and>
         jobs V w' \<in> {jobs V w, (jobs V w)(jid \<mapsto> run)}
     | Inr (Inl e) \<Rightarrow> postprocess V now j ctx results_file w = (Inl (PostProcessingError jid), w') \<and>
         jobs V w' = (jobs V w)(jid \<mapsto> run)
     | Inr (Inr data) \<Rightarrow> postprocess V now j ctx results_file w = (Inr (jid, ctx), w') \<and>
         jobs V w' = (jobs V w)(jid \<mapsto> apply_update now run (results_update (sv_root_url V) jid data now)))"
proof (cases "sv_move_file V results_file")
  case (Inl e)
  then show ?thesis
    using ok by (intro exI [of _ w]) (simp add: measured_def postprocess_def Let_def prog_simps)
next
  case (Inr new_file)
  obtain r where r: "on_r (update_job_stage (sv_redis V) now jid PST_PROC_W) w = (Inr run, w\<lparr>w_redis := r\<rparr>)"
    "jobs_wf (sv_redis V) r" "jobs_of (sv_redis V) r = (jobs V w)(jid \<mapsto> run)" "untouched (w_redis w) r"
    using update_stage_world [OF ok j0, of now PST_PROC_W] unfolding run_def by blast
  let ?w1 = "w\<lparr>w_redis := r\<rparr>"
  note w1 = redis_only_world [OF r(4,2)]
  have j1: "jobs V ?w1 jid = Some run" using w1(2) r(3) by simp
  have jid1: "job_id run = jid"
    using jobs_of_Some(3) [of "w_redis w" jid j0] ok j0 by (simp add: run_def jobs_ok_def jobs_def)
  have failed: ?thesis if "measured V results_file = Inr (Inl e)"
    "postprocess V now j ctx results_file w = (Inl (PostProcessingError jid), ?w1)" for e
    using that w1 r(3) by (intro exI [of _ ?w1]) simp
  have saved: ?thesis if m: "measured V results_file = Inr (Inr data)"
    and p: "\<And>x. save_results V now jid data ?w1 = x \<Longrightarrow> postprocess V now j ctx results_file w =
        (case x of (Inr j', w') \<Rightarrow> (Inr (job_id j', ctx), w') | (Inl e, w') \<Rightarrow> (Inl (PostProcessingError jid), w'))" for data
  proof -
    let ?j2 = "apply_update now run (results_update (sv_root_url V) jid data now)"
    obtain w' where w': "save_results V now jid data ?w1 = (Inr ?j2, w')" "jobs_ok V w'"
      "jobs V w' = (jobs V ?w1)(jid \<mapsto> ?j2)" "\<forall>n. queue_entries V w' n = queue_entries V ?w1 n"
      using save_results_up [OF up w1(1) j1, of now data] by blast
    have "job_id ?j2 = jid" using jid1 by (simp add: results_update_def no_update_def)
    with m p [OF w'(1)] w' w1 r(3) show ?thesis by (intro exI [of _ w']) simp
  qed
  show ?thesis
  proof (cases "sv_read_hdf5 V new_file")
    case (Inl e)
    then have "measured V results_file = Inl e" using Inr by (simp add: measured_def)
    moreover have "postprocess V now j ctx results_file w = (Inl e, ?w1)"
      using Inl Inr r(1) by (simp add: postprocess_def prog_simps flip: jid_def)
    ultimately show ?thesis using w1 r(3) by (intro exI [of _ ?w1]) simp
  next
    case level: (Inr level)
    have body: "postprocess V now j ctx results_file w =
        catchE (bindE (case level of
              DISCRIMINATED \<Rightarrow> bindE (liftE (sv_discriminate V new_file)) (save_results V now jid)
            | INTEGRATED \<Rightarrow> bindE (liftE (sv_integrate V new_file)) (save_results V now jid)
            | RAW \<Rightarrow> raiseE NotImplementedError) (\<lambda>j'. retE (job_id j', ctx)))
          (\<lambda>_. raiseE (PostProcessingError jid)) ?w1"
      using level Inr r(1) by (simp add: postprocess_def prog_simps flip: jid_def)
    have cont: "catchE (bindE (bindE (liftE (Inr data)) (save_results V now jid)) (\<lambda>j'. retE (job_id j', ctx)))
          (\<lambda>_. raiseE (PostProcessingError jid)) ?w1 =
        (case save_results V now jid data ?w1 of (Inr j', w') \<Rightarrow> (Inr (job_id j', ctx), w')
         | (Inl e, w') \<Rightarrow> (Inl (PostProcessingError jid), w'))" for data
      by (simp add: catchE_def bindE_def liftE_def retE_def raiseE_def split: prod.split sum.split)
    show ?thesis
    proof (cases level)
      case RAW
      then show ?thesis
        by (intro failed) (use Inr level body in \<open>simp_all add: measured_def prog_simps\<close>)
    next
      case INTEGRATED
      show ?thesis
      proof (cases "sv_integrate V new_file")
        case (Inl e)
        then show ?thesis
          by (intro failed [of e]) (use Inr level body INTEGRATED in \<open>simp_all add: measured_def prog_simps\<close>)
      next
        case (Inr data)
        then show ?thesis
          using \<open>sv_move_file V results_file = Inr new_file\<close> level body INTEGRATED cont
          by (intro saved [of data]) (simp_all add: measured_def)
      qed
    next
      case DISCRIMINATED
      show ?thesis
      proof (cases "sv_discriminate V new_file")
        case (Inl e)
        then show ?thesis
          by (intro failed [of e]) (use Inr level body DISCRIMINATED in \<open>simp_all add: measured_def prog_simps\<close>)
      next
        case (Inr data)
        then show ?thesis
          using \<open>sv_move_file V results_file = Inr new_file\<close> level body DISCRIMINATED cont
          by (intro saved [of data]) (simp_all add: measured_def)
      qed
    qed
  qed
qed

section \<open>A post-processing task from beginning to end\<close>

lemma results_sel [simp]:
  "status (apply_update now j (results_update url jid data now)) = SUCCESSFUL"
  "job_memory (apply_update now j (results_update url jid data now)) = Some data"
  "stage_of (apply_update now j (results_update url jid data now)) = stage_of j"
  "job_id (apply_update now j (results_update url jid data now)) = job_id j"
  by (simp_all add: results_update_def no_update_def)

lemma staged_memory [simp]: "job_memory (staged now st j) = job_memory j"
  by (simp add: staged_def stage_update_def no_update_def)

lemma success_callback_up:
  assumes up: "mss_up V" and ok: "jobs_ok V w" and j: "jobs V w jid = Some j" "status j = SUCCESSFUL"
  shows "\<exists>w'. postprocessing_success_callback V now (jid, ctx) w = (Inr (), w') \<and> jobs_ok V w' \<and>
    jobs V w' = (jobs V w)(jid \<mapsto> staged now FINAL_W (staged now FINAL_Q j)) \<and>
    (\<forall>n. queue_entries V w' n = queue_entries V w n)"
proof -
  let ?j1 = "staged now FINAL_Q j" and ?j2 = "staged now FINAL_W (staged now FINAL_Q j)"
  obtain r where r: "on_r (update_job_stage (sv_redis V) now jid FINAL_Q) w = (Inr ?j1, w\<lparr>w_redis := r\<rparr>)"
    "jobs_wf (sv_redis V) r" "jobs_of (sv_redis V) r = (jobs V w)(jid \<mapsto> ?j1)" "untouched (w_redis w) r"
    using update_stage_world [OF ok j(1), of now FINAL_Q] by blast
  let ?w1 = "w\<lparr>w_redis := r\<rparr>"
  note w1 = redis_only_world [OF r(4,2)]
  have j1: "jobs V ?w1 jid = Some ?j1" using w1(2) r(3) by simp
  obtain r2 where r2: "on_r (update_job_stage (sv_redis V) now jid FINAL_W) ?w1 = (Inr ?j2, ?w1\<lparr>w_redis := r2\<rparr>)"
    "jobs_wf (sv_redis V) r2" "jobs_of (sv_redis V) r2 = (jobs V ?w1)(jid \<mapsto> ?j2)" "untouched (w_redis ?w1) r2"
    using update_stage_world [OF w1(1) j1, of now FINAL_W] by blast
  let ?w2 = "?w1\<lparr>w_redis := r2\<rparr>"
  note w2 = redis_only_world [OF r2(4,2)]
  obtain t where t: "update_job_in_mss V ?j2 ?w2 = (Inr (), ?w2\<lparr>w_mss := t\<rparr>)"
    using update_in_mss_up [OF up] by blast
  have st: "status ?j1 = SUCCESSFUL" using j(2) by (simp add: get_next_status_def is_terminal_def)
  have "postprocessing_success_callback V now (jid, ctx) w = (Inr (), ?w2\<lparr>w_mss := t\<rparr>)"
    by (simp only: postprocessing_success_callback_def Let_def fst_conv bindE_def r(1) prod.case sum.case st if_P r2(1) t)
  moreover have "queue_entries V (?w2\<lparr>w_mss := t\<rparr>) n = queue_entries V w n" for n
    using w2(3) w1(3) mss_only_world(3) by metis
  moreover have "jobs V (?w2\<lparr>w_mss := t\<rparr>) = (jobs V w)(jid \<mapsto> ?j2)"
    using mss_only_world(2) w2(2) r2(3) w1(2) r(3) by simp
  moreover have "jobs_ok V (?w2\<lparr>w_mss := t\<rparr>)" using mss_only_world(1) w2(1) by metis
  ultimately show ?thesis by blast
qed

lemma failure_callback_up:
  assumes up: "mss_up V" and ok: "jobs_ok V w" and j: "jobs V w jid = Some j"
  shows "\<exists>w'. postprocessing_failure_callback V now (PostProcessingError jid) w = (Inr (), w') \<and> jobs_ok V w' \<and>
    jobs V w' = (jobs V w)(jid \<mapsto> apply_update now j (failure_update ''error during post processing'' now)) \<and>
    (\<forall>n. queue_entries V w' n = queue_entries V w n)"
proof -
  let ?j1 = "apply_update now j (failure_update ''error during post processing'' now)"
  obtain r where r: "on_r (log_job_failure (sv_redis V) now jid ''error during post processing'') w =
      (Inr ?j1, w\<lparr>w_redis := r\<rparr>)"
    "jobs_wf (sv_redis V) r" "jobs_of (sv_redis V) r = (jobs V w)(jid \<mapsto> ?j1)" "untouched (w_redis w) r"
    using log_failure_world [OF ok j, of now "''error during post processing''"] by blast
  let ?w1 = "w\<lparr>w_redis := r\<rparr>"
  note w1 = redis_only_world [OF r(4,2)]
  obtain t where t: "update_job_in_mss V ?j1 ?w1 = (Inr (), ?w1\<lparr>w_mss := t\<rparr>)"
    using update_in_mss_up [OF up] by blast
  have "postprocessing_failure_callback V now (PostProcessingError jid) w = (Inr (), ?w1\<lparr>w_mss := t\<rparr>)"
    by (simp only: postprocessing_failure_callback_def exn.case bindE_def r(1) t prod.case sum.case)
  then show ?thesis
    using w1 r(3) mss_only_world by (intro exI [of _ "?w1\<lparr>w_mss := t\<rparr>"]) simp
qed

text \<open>Taking the task: the head of the queue, with the rest of the world as it was.\<close>

lemma take_task:
  assumes ok: "jobs_ok V w" and q: "queue_ok V w n" "queue_entries V w n = e # es"
  shows "\<exists>w1. zoomE w_redis (\<lambda>r w. w\<lparr>w_redis := r\<rparr>) (sq_next (sv_redis V) n) w = (Inr (Some e), w1) \<and>
    jobs_ok V w1 \<and> jobs V w1 = jobs V w \<and> queue_entries V w1 n = es \<and>
    (\<forall>m. m \<noteq> n \<longrightarrow> same_queue m (w_redis w) (w_redis w1)) \<and> rq_state V w1 = rq_state V w \<and> w_db w1 = w_db w"
proof -
  obtain s where s: "sq_next (sv_redis V) n (w_redis w) = (Inr (Some e), s)"
    "sq_contents (sv_redis V) n s = es"
    using sq_next_eval [of n "w_redis w" e es] q by (auto simp: queue_ok_def queue_entries_def)
  have sj: "same_jobs (w_redis w) s" using next_same_jobs [of "w_redis w" n] s(1) by simp
  have sq: "m \<noteq> n \<Longrightarrow> same_queue m (w_redis w) s" for m using next_same_queue [of m n "w_redis w"] s(1) by simp
  show ?thesis
    using s sq ok same_jobs_wf [OF sj] same_jobs_of [OF sj]
    by (intro exI [of _ "w\<lparr>w_redis := s\<rparr>"])
      (simp add: zoomE_def jobs_ok_def jobs_def queue_entries_def rq_state_def)
qed

lemma postprocessing_task:
  fixes j j0 pfx and now :: int
  defines "jid \<equiv> job_id j" and "n \<equiv> static_name (get_postprocessing_queue pfx)"
  assumes ok: "jobs_ok V w" and q: "queue_ok V w n" "queue_entries V w n = (j, (ctx, kw)) # es"
    and res: "kw_results_file kw = Some path" and j0: "jobs V w jid = Some j0" and up: "mss_up V"
    and early: "\<And>e. measured V path = Inl e \<Longrightarrow> (\<forall>i. e \<noteq> PostProcessingError i)"
  shows "\<exists>w' j'. run_task V now msg (RunNext n Postprocess) w = (Inr (), w') \<and> queue_entries V w' n = es \<and>
    jobs V w' = (jobs V w)(jid \<mapsto> j') \<and>
    (case measured V path of
       Inl e \<Rightarrow> status j' = status j0 \<or> status j' = get_next_status j0 PST_PROC_W
     | Inr (Inl e) \<Rightarrow> status j' = FAILED \<and> failure_reason j' = Some ''error during post processing''
     | Inr (Inr data) \<Rightarrow> status j' = SUCCESSFUL \<and> stage_of j' = FINAL_W \<and> job_memory j' = Some data)"
proof -
  let ?run = "staged now PST_PROC_W j0"
  obtain w1 where w1: "zoomE w_redis (\<lambda>r w. w\<lparr>w_redis := r\<rparr>) (sq_next (sv_redis V) n) w = (Inr (Some (j, (ctx, kw))), w1)"
    "jobs_ok V w1" "jobs V w1 = jobs V w" "queue_entries V w1 n = es"
    using take_task [OF ok q] by blast
  have j1: "jobs V w1 (job_id j) = Some j0" using w1(3) j0 jid_def by simp
  have rq: "run_queued V now msg n Postprocess w = postprocess V now j ctx path w1"
    by (simp add: run_queued_def run_next_job_def bindE_def w1(1) run_exec_def res)
  obtain w2 where w2: "jobs_ok V w2" "\<forall>n. queue_entries V w2 n = queue_entries V w1 n"
    "case measured V path of
       Inl e \<Rightarrow> postprocess V now j ctx path w1 = (Inl e, w2) \<and>
         jobs V w2 \<in> {jobs V w1, (jobs V w1)(job_id j \<mapsto> ?run)}
     | Inr (Inl e) \<Rightarrow> postprocess V now j ctx path w1 = (Inl (PostProcessingError (job_id j)), w2) \<and>
         jobs V w2 = (jobs V w1)(job_id j \<mapsto> ?run)
     | Inr (Inr data) \<Rightarrow> postprocess V now j ctx path w1 = (Inr (job_id j, ctx), w2) \<and>
         jobs V w2 = (jobs V w1)(job_id j \<mapsto> apply_update now ?run (results_update (sv_root_url V) (job_id j) data now))"
    using postprocess_eval [OF w1(2) j1 up, where results_file = path and now = now and ctx = ctx] by blast
  show ?thesis
  proof (cases "measured V path")
    case (Inl e)
    have "postprocessing_failure_callback V now e w2 = (Inr (), w2)"
      using early [OF Inl] by (cases e) (simp_all add: postprocessing_failure_callback_def prog_simps)
    then have run: "run_task V now msg (RunNext n Postprocess) w = (Inr (), w2)"
      using w2(3) Inl rq by (simp add: run_task_def)
    have "jobs V w = (jobs V w)(jid \<mapsto> j0)" using j0 by (simp add: fun_upd_idem)
    then have "jobs V w2 = (jobs V w)(jid \<mapsto> j0) \<or> jobs V w2 = (jobs V w)(jid \<mapsto> ?run)"
      using w2(3) Inl w1(3) by (auto simp: jid_def)
    then show ?thesis
    proof
      assume "jobs V w2 = (jobs V w)(jid \<mapsto> j0)"
      with run w2(2) w1(4) Inl show ?thesis by (intro exI [of _ w2] exI [of _ j0]) simp
    next
      assume "jobs V w2 = (jobs V w)(jid \<mapsto> ?run)"
      with run w2(2) w1(4) Inl show ?thesis by (intro exI [of _ w2] exI [of _ ?run]) simp
    qed
  next
    case (Inr m)
    show ?thesis
    proof (cases m)
      case (Inl e)
      let ?j' = "apply_update now ?run (failure_update ''error during post processing'' now)"
      have p: "postprocess V now j ctx path w1 = (Inl (PostProcessingError (job_id j)), w2)"
        "jobs V w2 = (jobs V w1)(job_id j \<mapsto> ?run)" using w2(3) Inl Inr by simp_all
      have j2: "jobs V w2 (job_id j) = Some ?run" using p(2) by simp
      obtain w3 where w3: "postprocessing_failure_callback V now (PostProcessingError (job_id j)) w2 = (Inr (), w3)"
        "jobs V w3 = (jobs V w2)(job_id j \<mapsto> ?j')" "\<forall>n. queue_entries V w3 n = queue_entries V w2 n"
        using failure_callback_up [OF up w2(1) j2, of now] by blast
      have "run_task V now msg (RunNext n Postprocess) w = (Inr (), w3)"
        using p(1) rq w3(1) by (simp add: run_task_def)
      moreover have "status ?j' = FAILED" "failure_reason ?j' = Some ''error during post processing''"
        by (simp_all add: failure_update_def no_update_def)
      ultimately show ?thesis
        using Inl Inr w3(2,3) w2(2) w1(3,4) p(2) by (intro exI [of _ w3] exI [of _ ?j']) (simp add: jid_def)
    next
      case (Inr data)
      let ?j2 = "apply_update now ?run (results_update (sv_root_url V) (job_id j) data now)"
      let ?j' = "staged now FINAL_W (staged now FINAL_Q ?j2)"
      have p: "postprocess V now j ctx path w1 = (Inr (job_id j, ctx), w2)"
        "jobs V w2 = (jobs V w1)(job_id j \<mapsto> ?j2)" using w2(3) Inr \<open>measured V path = Inr m\<close> by simp_all
      have j2: "jobs V w2 (job_id j) = Some ?j2" using p(2) by simp
      obtain w3 where w3: "postprocessing_success_callback V now (job_id j, ctx) w2 = (Inr (), w3)"
        "jobs V w3 = (jobs V w2)(job_id j \<mapsto> ?j')" "\<forall>n. queue_entries V w3 n = queue_entries V w2 n"
        using success_callback_up [OF up w2(1) j2 results_sel(1), of now ctx] by blast
      have "run_task V now msg (RunNext n Postprocess) w = (Inr (), w3)"
        using p(1) rq w3(1) by (simp add: run_task_def)
      moreover have "status ?j' = SUCCESSFUL" "job_memory ?j' = Some data" "stage_of ?j' = FINAL_W"
        by (simp_all add: get_next_status_def is_terminal_def Let_def results_update_def no_update_def)
      ultimately show ?thesis
        using Inr \<open>measured V path = Inr m\<close> w3(2,3) w2(2) w1(3,4) p(2)
        by (intro exI [of _ w3] exI [of _ ?j']) (simp add: jid_def)
    qed
  qed
qed

end

end
