(* ===== verification/Scheduler_Properties.thy ===== *)
theory Scheduler_Properties imports Worker_Effects begin

text \<open>
  What the scheduling service and its tasks promise: where a job goes after preprocessing, how
  execution and post-processing end, what bookings schedule, who may see or cancel what, and what a
  cancellation leaves behind. Every property holds for every Redis, rq and SQL that keeps the laws
  of the locale \<open>scheduler\<close>; the witnesses run it on the in-memory services.
\<close>

section \<open>Samples\<close>

definition user_world :: "job \<Rightarrow> (mem_redis_state, mem_rq_state, mem_db_state, mss_event list) world" where
  "user_world j = (world_with j)\<lparr>w_db := ([], [sample_user])\<rparr>"

lemma user_world_facts:
  assumes "job_ok j" "plain_job j"
  shows "jobs_ok mem_services (user_world j)" "jobs mem_services (user_world j) = [job_id j \<mapsto> j]"
    "queue_ok mem_services (user_world j) n" "queue_entries mem_services (user_world j) n = []"
    "w_db (user_world j) = ([], [sample_user])" "rq_state mem_services (user_world j) i = None"
  using world_with_facts [OF assms]
  by (simp_all add: user_world_def jobs_ok_def jobs_def queue_ok_def queue_entries_def rq_state_def
      status_of_def mem_rq_def mq_empty_def)

lemma sample_next_booking: "get_next_booking mem_db now ([], us) = (Inr None, ([], us))"
  by (simp add: get_next_booking_def prog_simps mem_db_def first_validated_def)

definition sample_booking :: booking where
  "sample_booking = booking_row ''b1'' ''u'' sample_info"

lemma sample_context_sel [simp]:
  "queue_prefix sample_context = ''loke''" "force_normal_queue sample_context = Some False"
  "max_idle_time sample_context = 900"
  by (simp_all add: sample_context_def)

lemma sample_sel [simp]:
  "u_id sample_user = ''u''" "u_is_admin sample_user = False" "i_start_utc sample_info = 0"
  "i_end_utc sample_info = 600000000" "MAX_SLOTS_PER_DAY default_settings = 1"
  "settings_now default_settings now = now"
  by (simp_all add: sample_user_def sample_info_def default_settings_def settings_now_def)

lemma sample_booking_sel [simp]:
  "b_id sample_booking = ''b1''" "b_user_id sample_booking = Some ''u''"
  "b_start_utc sample_booking = 0" "b_end_utc sample_booking = 600000000"
  by (simp_all add: sample_booking_def booking_row_def sample_info_def)

lemma sample_db [simp]:
  "all_users mem_db (bs, [sample_user]) = [sample_user]" "all_bookings mem_db ([], us) = []"
  "all_bookings mem_db ([sample_booking], us) = [sample_booking]"
  "bookings_ok mem_db default_settings ([sample_booking], us)" "bookings_ok mem_db default_settings ([], us)"
  by (simp_all add: mem_db_def bookings_ok_def row_ok_def disjoint_bookings_def within_slots_def
      default_settings_def total_seconds_def sample_booking_sel)

definition booked_world :: "job \<Rightarrow> (mem_redis_state, mem_rq_state, mem_db_state, mss_event list) world" where
  "booked_world j = (world_with j)\<lparr>w_db := ([sample_booking], [sample_user])\<rparr>"

lemma booked_world_facts:
  assumes "job_ok j" "plain_job j"
  shows "jobs_ok mem_services (booked_world j)" "jobs mem_services (booked_world j) = [job_id j \<mapsto> j]"
    "queue_ok mem_services (booked_world j) n" "queue_entries mem_services (booked_world j) n = []"
    "w_db (booked_world j) = ([sample_booking], [sample_user])" "rq_state mem_services (booked_world j) i = None"
    "can_join mem_services (booked_world j) n k"
    "runner_total_duration mem_redis q now (w_redis (booked_world j)) = Inr 0"
  using world_with_facts [OF assms] world_with_join [OF assms, of n k]
  by (simp_all add: booked_world_def jobs_ok_def jobs_def queue_ok_def queue_entries_def rq_state_def
      status_of_def mem_rq_def mq_empty_def can_join_def)

section \<open>Where a job goes\<close>

text \<open>
  C29. A preprocessed job without a booking joins the normal execution queue, staged and known to rq,
  unless the next booking starts before the queued jobs and this one can have run; then it joins the
  waitlist unchanged and rq learns nothing.
\<close>
theorem normal_or_waitlist:
  assumes "scheduler V" and "jobs_ok V w"
    and "jobs V w (job_id j) = Some j" "queueable j" "estimated_duration j = Some d"
    and "get_next_booking (sv_db V) now (w_db w) = (Inr nb, w_db w)"
    and "runner_total_duration (sv_redis V) (get_normal_execution_queue (queue_prefix ctx)) now (w_redis w) = Inr t"
    and "can_join V w (static_name (get_normal_execution_queue (queue_prefix ctx))) j"
      "can_join V w (get_waitlist (queue_prefix ctx)) j"
  shows "\<exists>w'. try_enqueue_on_normal_queue V now j ctx w = (Inr (job_id j, ctx), w') \<and>
    (if must_wait now nb t d then
       jobs V w' = jobs V w \<and> rq_state V w' = rq_state V w \<and>
       queue_entries V w' (get_waitlist (queue_prefix ctx)) = queue_entries V w (get_waitlist (queue_prefix ctx))
         @ [(j, (ctx, no_kwargs\<lparr>kw_job_id := Some (get_rq_job_id (job_id j) EXEC_Q)\<rparr>))]
     else
       jobs V w' = (jobs V w)(job_id j \<mapsto> staged now EXEC_Q j) \<and>
       rq_state V w' = (rq_state V w)(get_rq_job_id (job_id j) EXEC_Q \<mapsto> Queued) \<and>
       queue_entries V w' (static_name (get_normal_execution_queue (queue_prefix ctx))) =
         queue_entries V w (static_name (get_normal_execution_queue (queue_prefix ctx)))
         @ [(staged now EXEC_Q j, (ctx, no_kwargs))])"
  using scheduler.try_normal_eval [OF assms(1,2,3,4,5,6,7,8,9)] by (auto split: if_splits)

theorem normal_or_waitlist_witness:
  "\<exists>w'. try_enqueue_on_normal_queue mem_services 7 (sample_job ''a'' 5) sample_context
      (world_with (sample_job ''a'' 5)) = (Inr (''a'', sample_context), w') \<and>
    rq_state mem_services w' ''a_EXEC_Q'' = Some Queued"
  using normal_or_waitlist [OF mem_sched.scheduler_axioms, of "world_with (sample_job ''a'' 5)"
      "sample_job ''a'' 5" 5 7 None sample_context 0]
  by (auto simp: world_with_facts world_with_join sample_next_booking must_wait_def get_rq_job_id_def)

text \<open>What a job looks like that was too long for its booking.\<close>

lemma too_long_applied:
  assumes "job_ok j"
  shows "apply_update now j too_long_update =
    j\<lparr>status := FAILED, failure_reason := Some ''job too long for the time left in the booking'',
      created_at := override_opt (created_at j) (Some now), updated_at := override_opt (updated_at j) (Some now)\<rparr>"
  using assms by (cases j) (auto simp: apply_update_def too_long_update_def no_update_def merge_update_def validate_partial_def partial_storage_id_def partial_actual_duration_def job_ok_def
      validate_model_def set_storage_id_def set_actual_duration_def split: option.splits if_splits)

text \<open>
  C30. A preprocessed job that comes with a booking: it waits when the booking is another user's or the
  user forced the normal queue; it fails, with its reason, when the booking's whole length less the
  queued work is shorter than the estimate; otherwise it joins the booked execution queue and the
  idleness timer is cancelled and, when enough of the booking is left, started again. The doc, the
  comment and the reason of the failure all speak of the time that is left of the booking: the code does
  not look at the clock here, so a job that is longer than what is left of the slot joins the booked
  queue all the same and runs past its end, which the last conjunct says and the witness shows.
\<close>
theorem booked_wait_or_fail:
  assumes "scheduler V" and "jobs_ok V w"
    and "jobs V w (job_id j) = Some j" "queueable j" "estimated_duration j = Some d"
    and "bookings_ok (sv_db V) (sv_settings V) (w_db w)"
    and "row \<in> set (all_bookings (sv_db V) (w_db w))" "b_id row \<noteq> []"
    and "\<forall>c\<in>set (all_bookings (sv_db V) (w_db w)). b_id c = b_id row \<longrightarrow> c = row"
    and "runner_total_duration (sv_redis V) (get_booked_execution_queue (queue_prefix ctx)) now (w_redis w) = Inr t"
    and "can_join V w (static_name (get_booked_execution_queue (queue_prefix ctx))) j"
      "can_join V w (get_waitlist (queue_prefix ctx)) j"
  shows "\<exists>w'. try_enqueue_on_booked_queue V now j ctx (Some (b_id row)) w = (Inr (job_id j, ctx), w') \<and>
    (if user_id j \<noteq> b_user_id row \<or> force_normal_queue ctx = Some True then
       jobs V w' = jobs V w \<and> rq_state V w' = rq_state V w \<and>
       queue_entries V w' (get_waitlist (queue_prefix ctx)) = queue_entries V w (get_waitlist (queue_prefix ctx))
         @ [(j, (ctx, no_kwargs\<lparr>kw_job_id := Some (get_rq_job_id (job_id j) EXEC_Q)\<rparr>))]
     else if total_seconds (b_end_utc row - b_start_utc row) - t < d then
       jobs V w' = (jobs V w)(job_id j \<mapsto>
         j\<lparr>status := FAILED, failure_reason := Some ''job too long for the time left in the booking'',
           created_at := override_opt (created_at j) (Some now), updated_at := override_opt (updated_at j) (Some now)\<rparr>) \<and>
       rq_state V w' = rq_state V w \<and> (\<forall>n. queue_entries V w' n = queue_entries V w n)
     else
       jobs V w' = (jobs V w)(job_id j \<mapsto> staged now EXEC_Q j) \<and>
       queue_entries V w' (static_name (get_booked_execution_queue (queue_prefix ctx))) =
         queue_entries V w (static_name (get_booked_execution_queue (queue_prefix ctx)))
         @ [(staged now EXEC_Q j, (ctx, no_kwargs))] \<and>
       rq_state V w' (get_rq_job_id (job_id j) EXEC_Q) = Some Queued \<and>
       rq_state V w' (get_idle_timer_id (b_id row)) =
         (if total_seconds (b_end_utc row - now) - d < of_int (max_idle_time ctx)
          then map_option (\<lambda>_. Canceled) (rq_state V w (get_idle_timer_id (b_id row))) else Some Scheduled)) \<and>
    (user_id j = b_user_id row \<and> force_normal_queue ctx \<noteq> Some True \<and> total_seconds (b_end_utc row - now) < d \<and>
       d + t \<le> total_seconds (b_end_utc row - b_start_utc row) \<longrightarrow>
       rq_state V w' (get_rq_job_id (job_id j) EXEC_Q) = Some Queued)"
  using scheduler.try_booked_eval [OF assms(1,2,3,4,5,6,7,8,9,10,11,12)] assms(4)
  unfolding get_idle_timer_id_def queueable_def
  by (auto simp: too_long_applied split: if_splits)

theorem booked_wait_or_fail_witness:
  "(\<exists>w'. try_enqueue_on_booked_queue mem_services 0 (sample_job ''a'' 700) sample_context (Some ''b1'')
      (booked_world (sample_job ''a'' 700)) = (Inr (''a'', sample_context), w') \<and>
    map_option status (jobs mem_services w' ''a'') = Some FAILED) \<and>
   total_seconds (b_end_utc sample_booking - 590000000) = 10 \<and>
   (\<exists>w'. try_enqueue_on_booked_queue mem_services 590000000 (sample_job ''a'' 100) sample_context (Some ''b1'')
      (booked_world (sample_job ''a'' 100)) = (Inr (''a'', sample_context), w') \<and>
    rq_state mem_services w' ''a_EXEC_Q'' = Some Queued)"
proof (intro conjI)
  show "\<exists>w'. try_enqueue_on_booked_queue mem_services 0 (sample_job ''a'' 700) sample_context (Some ''b1'')
      (booked_world (sample_job ''a'' 700)) = (Inr (''a'', sample_context), w') \<and>
    map_option status (jobs mem_services w' ''a'') = Some FAILED"
    using booked_wait_or_fail [OF mem_sched.scheduler_axioms, of "booked_world (sample_job ''a'' 700)"
        "sample_job ''a'' 700" 700 sample_booking sample_context 0 0]
    by (auto simp: booked_world_facts total_seconds_def)
  show "total_seconds (b_end_utc sample_booking - 590000000) = 10" by (simp add: total_seconds_def)
  show "\<exists>w'. try_enqueue_on_booked_queue mem_services 590000000 (sample_job ''a'' 100) sample_context (Some ''b1'')
      (booked_world (sample_job ''a'' 100)) = (Inr (''a'', sample_context), w') \<and>
    rq_state mem_services w' ''a_EXEC_Q'' = Some Queued"
    using booked_wait_or_fail [OF mem_sched.scheduler_axioms, of "booked_world (sample_job ''a'' 100)"
        "sample_job ''a'' 100" 100 sample_booking sample_context 590000000 0]
    by (auto simp: booked_world_facts total_seconds_def get_rq_job_id_def)
qed

section \<open>Running a job\<close>

text \<open>
  C31. The outcomes of the execution task. When the run raises, the job fails (unless what was raised says
  that it was cancelled) and nothing is queued; a job found cancelled after its run stays cancelled, with
  the stamp of the execution stage, and is not post-processed; every other job joins the post-processing queue with its results file.
\<close>
theorem execute_branches:
  assumes "scheduler V" and "jobs_ok V w" and "jobs V w (job_id j) = Some j0" "queueable j0"
    and "can_join V w (static_name (get_postprocessing_queue (queue_prefix ctx))) j0"
  shows "\<exists>w'. case sv_run V (job_id j) of
      Inl e \<Rightarrow> execute V now j ctx w = (Inl e, w') \<and> rq_state V w' = rq_state V w \<and>
        (\<forall>n. queue_entries V w' n = queue_entries V w n) \<and>
        jobs V w' = (jobs V w)(job_id j \<mapsto> (if e = JobAlreadyCancelled then staged now EXEC_W j0
          else apply_update now (staged now EXEC_W j0) (failure_update preprocess_failure now)))
    | Inr path \<Rightarrow>
        if status j0 = CANCELLED then
          execute V now j ctx w = (Inl JobAlreadyCancelled, w') \<and> rq_state V w' = rq_state V w \<and>
          jobs V w' = (jobs V w)(job_id j \<mapsto> staged now EXEC_W j0) \<and> status (staged now EXEC_W j0) = CANCELLED \<and>
          (\<forall>n. queue_entries V w' n = queue_entries V w n)
        else
          execute V now j ctx w = (Inr (job_id j, ctx, path), w') \<and>
          jobs V w' = (jobs V w)(job_id j \<mapsto> staged now PST_PROC_Q (staged now EXEC_W j0)) \<and>
          queue_entries V w' (static_name (get_postprocessing_queue (queue_prefix ctx))) =
            queue_entries V w (static_name (get_postprocessing_queue (queue_prefix ctx))) @
            [(staged now PST_PROC_Q (staged now EXEC_W j0), (ctx, no_kwargs\<lparr>kw_results_file := Some path\<rparr>))] \<and>
          rq_state V w' = (rq_state V w)(get_rq_job_id (job_id j) PST_PROC_Q \<mapsto> Queued)"
proof -
  obtain w' where w': "case sv_run V (job_id j) of
       Inl e \<Rightarrow> fst (execute V now j ctx w) = Inl e \<and> snd (execute V now j ctx w) = w' \<and>
         jobs V w' = (jobs V w)(job_id j \<mapsto> (if e = JobAlreadyCancelled then staged now EXEC_W j0
           else apply_update now (staged now EXEC_W j0) (failure_update preprocess_failure now))) \<and>
         (\<forall>n. queue_entries V w' n = queue_entries V w n) \<and> rq_state V w' = rq_state V w
     | Inr path \<Rightarrow>
         if status j0 = CANCELLED then
           execute V now j ctx w = (Inl JobAlreadyCancelled, w') \<and> jobs V w' = (jobs V w)(job_id j \<mapsto> staged now EXEC_W j0) \<and>
           (\<forall>n. queue_entries V w' n = queue_entries V w n) \<and> rq_state V w' = rq_state V w
         else
           execute V now j ctx w = (Inr (job_id j, ctx, path), w') \<and>
           jobs V w' = (jobs V w)(job_id j \<mapsto> staged now PST_PROC_Q (staged now EXEC_W j0)) \<and>
           queue_entries V w' (static_name (get_postprocessing_queue (queue_prefix ctx))) =
             queue_entries V w (static_name (get_postprocessing_queue (queue_prefix ctx))) @
             [(staged now PST_PROC_Q (staged now EXEC_W j0), (ctx, no_kwargs\<lparr>kw_results_file := Some path\<rparr>))] \<and>
           rq_state V w' = (rq_state V w)(get_rq_job_id (job_id j) PST_PROC_Q \<mapsto> Queued)"
    using scheduler.execute_eval [OF assms, of now] by blast
  then show ?thesis by (intro exI [of _ w']) (auto split: sum.splits if_splits simp: prod_eq_iff get_next_status_def is_terminal_def)
qed

theorem execute_branches_witness:
  "\<exists>w'. execute mem_services 3 (sample_job ''a'' 5) sample_context (world_with (sample_job ''a'' 5)) =
      (Inr (''a'', sample_context, ''a.hdf5''), w') \<and>
    rq_state mem_services w' ''a_PST_PROC_Q'' = Some Queued"
  using execute_branches [OF mem_sched.scheduler_axioms, of "world_with (sample_job ''a'' 5)"
      "sample_job ''a'' 5" "sample_job ''a'' 5" sample_context 3]
  by (auto simp: world_with_facts world_with_join get_rq_job_id_def)

text \<open>
  C32. The post-processing task from the queue to its callback, when the message server is up: a
  measurement finishes the job as successful with its data, whatever status it had, even a cancelled
  one; an error while reading the measurement fails it; an error before that (the file is not there or is
  not readable) is swallowed by the callback, which only knows \<open>PostProcessingError\<close>, and the job is
  neither failed nor finished.
\<close>
theorem postprocessing_outcomes:
  assumes "scheduler V" and "jobs_ok V w"
    and "queue_ok V w (static_name (get_postprocessing_queue pfx))"
    and "queue_entries V w (static_name (get_postprocessing_queue pfx)) = (j, (ctx, kw)) # es"
    and "kw_results_file kw = Some path" and "jobs V w (job_id j) = Some j0" and "mss_up V"
    and "\<And>e. measured V path = Inl e \<Longrightarrow> (\<forall>i. e \<noteq> PostProcessingError i)"
  shows "\<exists>w' j'. run_task V now msg (RunNext (static_name (get_postprocessing_queue pfx)) Postprocess) w = (Inr (), w') \<and>
    queue_entries V w' (static_name (get_postprocessing_queue pfx)) = es \<and>
    jobs V w' = (jobs V w)(job_id j \<mapsto> j') \<and>
    (case measured V path of
       Inl e \<Rightarrow> status j' = status j0 \<or> status j' = get_next_status j0 PST_PROC_W
     | Inr (Inl e) \<Rightarrow> status j' = FAILED \<and> failure_reason j' = Some ''error during post processing''
     | Inr (Inr data) \<Rightarrow> status j' = SUCCESSFUL \<and> stage_of j' = FINAL_W \<and> job_memory j' = Some data)"
  by (rule scheduler.postprocessing_task [OF assms])

text \<open>A cancelled job that waits for its post-processing.\<close>

definition cancelled_sample :: job where
  "cancelled_sample = apply_update 0 (sample_job ''a'' 5) (cancel_update ''Cancelled by a user'' 0)"

definition postprocessing_world :: "(mem_redis_state, mem_rq_state, mem_db_state, mss_event list) world" where
  "postprocessing_world = (world_with cancelled_sample)\<lparr>w_redis :=
     mem_jobs.added (static_name (get_postprocessing_queue ''loke'')) cancelled_sample
       (sample_context, no_kwargs\<lparr>kw_results_file := Some ''a.hdf5''\<rparr>) (w_redis (world_with cancelled_sample))\<rparr>"

lemma cancelled_sample_ok [simp]:
  "job_ok cancelled_sample" "queueable cancelled_sample" "plain_job cancelled_sample"
  "job_id cancelled_sample = ''a''" "status cancelled_sample = CANCELLED"
  using apply_update_queueable [of "sample_job ''a'' 5" "cancel_update ''Cancelled by a user'' 0" 0]
  by (simp_all add: cancelled_sample_def cancel_update_def no_update_def plain_job_def opt_text_def keeps_ids_def)

lemma postprocessing_world_facts:
  "jobs_ok mem_services postprocessing_world" "jobs mem_services postprocessing_world = [''a'' \<mapsto> cancelled_sample]"
  "queue_ok mem_services postprocessing_world (static_name (get_postprocessing_queue ''loke''))"
  "queue_entries mem_services postprocessing_world (static_name (get_postprocessing_queue ''loke'')) =
    [(cancelled_sample, (sample_context, no_kwargs\<lparr>kw_results_file := Some ''a.hdf5''\<rparr>))]"
proof -
  let ?n = "static_name (get_postprocessing_queue ''loke'')" and ?w = "world_with cancelled_sample"
    and ?a = "(sample_context, no_kwargs\<lparr>kw_results_file := Some ''a.hdf5''\<rparr>)"
  note wf = world_with_facts [OF cancelled_sample_ok(1,3)]
  have same: "mem_jobs.same_jobs (w_redis ?w) (mem_jobs.added ?n cancelled_sample ?a (w_redis ?w))"
    by (rule mem_jobs.same_jobs_added)
  have new: "SidKey (from_job cancelled_sample) \<notin> set (items mem_redis (w_redis ?w) ?n)" by (simp add: wf(5))
  show "jobs_ok mem_services postprocessing_world" "jobs mem_services postprocessing_world = [''a'' \<mapsto> cancelled_sample]"
    using wf(1,2) mem_jobs.same_jobs_wf [OF same] mem_jobs.same_jobs_of [OF same]
    by (simp_all add: postprocessing_world_def jobs_ok_def jobs_def)
  show "queue_ok mem_services postprocessing_world ?n"
    using mem_jobs.added_wf [OF _ cancelled_sample_ok(2) new] wf(3) [of ?n] by (simp add: postprocessing_world_def queue_ok_def)
  show "queue_entries mem_services postprocessing_world ?n = [(cancelled_sample, ?a)]"
    using mem_jobs.added_contents [OF new] wf(4) [of ?n] by (simp add: postprocessing_world_def queue_entries_def)
qed

lemma mem_mss_up [simp]: "mss_up mem_services" "measured mem_services path = Inr (Inr (HexMemory [[''0x0'']]))"
  by (simp_all add: mss_up_def measured_def mem_services_def modE_def)

theorem postprocessing_outcomes_witness:
  "\<exists>w' j'. run_task mem_services 9 ''m'' (RunNext (static_name (get_postprocessing_queue ''loke'')) Postprocess)
      postprocessing_world = (Inr (), w') \<and> status cancelled_sample = CANCELLED \<and>
    jobs mem_services w' = [''a'' \<mapsto> j'] \<and> status j' = SUCCESSFUL"
  using postprocessing_outcomes [OF mem_sched.scheduler_axioms postprocessing_world_facts(1,3,4), of "''a.hdf5''" cancelled_sample 9 "''m''"]
  by (auto simp: postprocessing_world_facts(2))

section \<open>Bookings and the events they schedule\<close>

text \<open>
  C34. A booking that is created schedules, under its own two event ids and on the general queue, the
  start of its idleness timer and its cleanup, and changes nothing else in rq; a refused one changes
  nothing at all.
\<close>
theorem booking_schedules_events:
  assumes "scheduler V" and "i_start_utc info \<le> i_end_utc info"
    and "bid \<notin> b_id ` set (all_bookings (sv_db V) (w_db w))"
    and "uid \<in> u_id ` set (all_users (sv_db V) (w_db w))"
  shows "(\<exists>e. submit_booking V ctx (queue_pool_of (queue_prefix ctx)) bid uid info w = (Inl e, w) \<and>
      (collides (sv_db V) (w_db w) info \<or>
       MAX_SLOTS_PER_DAY (sv_settings V) \<le> size (bookings_of_day (sv_db V) (w_db w) uid (i_start_utc info)))) \<or>
    (\<exists>b w'. submit_booking V ctx (queue_pool_of (queue_prefix ctx)) bid uid info w = (Inr b, w') \<and>
      \<not> collides (sv_db V) (w_db w) info \<and>
      mset (all_bookings (sv_db V) (w_db w')) =
        add_mset (booking_row bid uid info) (mset (all_bookings (sv_db V) (w_db w))) \<and>
      w_redis w' = w_redis w \<and>
      rq_task V w' (bid @ ''_start_event'') = Some (ResetIdleness bid (i_end_utc info) ctx) \<and>
      rq_task V w' (bid @ ''_end_event'') = Some (PostBookingCleanup bid ctx) \<and>
      (\<forall>i. rq_state V w' i = (if i \<in> {bid @ ''_start_event'', bid @ ''_end_event''} then Some Scheduled
        else rq_state V w i)))"
proof -
  have sql: "sql_laws (sv_db V)" using assms(1) by (simp add: scheduler_def)
  note out = sql_laws.create_booking_outcome [OF sql assms(2,3,4), of "sv_settings V"]
  show ?thesis
  proof (cases "collides (sv_db V) (w_db w) info \<or>
      MAX_SLOTS_PER_DAY (sv_settings V) \<le> size (bookings_of_day (sv_db V) (w_db w) uid (i_start_utc info))")
    case True
    with out scheduler.submit_booking_refused [OF assms(1)] show ?thesis by (auto split: if_splits)
  next
    case False
    then obtain b d where b: "create_booking (sv_db V) (sv_settings V) bid uid info (w_db w) = (Inr b, d)"
      "mset (all_bookings (sv_db V) d) = add_mset (booking_row bid uid info) (mset (all_bookings (sv_db V) (w_db w)))"
      "b_id b = bid" "b_end_utc b = i_end_utc info"
      "b_start_event_id b = bid @ ''_start_event''" "b_end_event_id b = bid @ ''_end_event''"
      using out by auto
    from scheduler.submit_booking_done [OF assms(1) b(1,5,6), of ctx] obtain q where
      q: "submit_booking V ctx (queue_pool_of (queue_prefix ctx)) bid uid info w = (Inr b, w\<lparr>w_db := d, w_rq := q\<rparr>)"
      "\<forall>i. status_of (sv_rq V) q i =
        (if i \<in> {b_start_event_id b, b_end_event_id b} then Some Scheduled else rq_state V w i)"
      "task_of (sv_rq V) q (b_start_event_id b) = Some (ResetIdleness (b_id b) (b_end_utc b) ctx)"
      "task_of (sv_rq V) q (b_end_event_id b) = Some (PostBookingCleanup (b_id b) ctx)" by blast
    then have "\<exists>w'. submit_booking V ctx (queue_pool_of (queue_prefix ctx)) bid uid info w = (Inr b, w') \<and>
      mset (all_bookings (sv_db V) (w_db w')) =
        add_mset (booking_row bid uid info) (mset (all_bookings (sv_db V) (w_db w))) \<and>
      w_redis w' = w_redis w \<and>
      rq_task V w' (bid @ ''_start_event'') = Some (ResetIdleness bid (i_end_utc info) ctx) \<and>
      rq_task V w' (bid @ ''_end_event'') = Some (PostBookingCleanup bid ctx) \<and>
      (\<forall>i. rq_state V w' i = (if i \<in> {bid @ ''_start_event'', bid @ ''_end_event''} then Some Scheduled
        else rq_state V w i))"
      using b(2-6) by (intro exI [of _ "w\<lparr>w_db := d, w_rq := q\<rparr>"]) (simp add: rq_task_def rq_state_def)
    with False show ?thesis by blast
  qed
qed

theorem booking_schedules_events_witness:
  "\<exists>b w'. submit_booking mem_services sample_context (queue_pool_of ''loke'') ''b1'' ''u'' sample_info
      (user_world (sample_job ''a'' 5)) = (Inr b, w') \<and>
    rq_state mem_services w' ''b1_start_event'' = Some Scheduled"
  using booking_schedules_events [OF mem_sched.scheduler_axioms, of sample_info "''b1''"
      "user_world (sample_job ''a'' 5)" "''u''" sample_context]
  by (auto simp: user_world_facts collides_def bookings_of_day_def)



text \<open>
  The idleness timer of a booking with enough time left is scheduled under the booking's timer id,
  again every \<open>max_idle_time\<close> seconds as often as fits: the last repetition is not after the end
  of the booking, and one more would be.
\<close>
theorem idle_timer_within_booking:
  assumes "scheduler V" and "bookings_ok (sv_db V) (sv_settings V) (w_db w)"
    and "row \<in> set (all_bookings (sv_db V) (w_db w))"
    and "\<forall>c\<in>set (all_bookings (sv_db V) (w_db w)). b_id c = b_id row \<longrightarrow> c = row"
    and "0 < max_idle_time ctx" and "of_int (max_idle_time ctx) \<le> total_seconds (fin - now) - restart_in"
  shows "\<exists>n q w'. reset_idleness_timer V now (b_id row) fin ctx (Some restart_in) None w = (Inr (), w') \<and>
    w' = w\<lparr>w_rq := snd (rq_enqueue_in (sv_rq V) (get_general_queue (queue_prefix ctx)) restart_in
      (Some (n, max_idle_time ctx)) (Some (b_id row @ ''_idle_timer'')) (PopWaitlistToBooking ctx) q)\<rparr> \<and>
    rq_state V w' (b_id row @ ''_idle_timer'') = Some Scheduled \<and>
    1 \<le> n \<and> restart_in + of_int (n * max_idle_time ctx) \<le> total_seconds (fin - now) \<and>
    total_seconds (fin - now) < restart_in + of_int ((n + 1) * max_idle_time ctx)"
proof -
  let ?left = "total_seconds (fin - now) - restart_in" and ?t = "b_id row @ ''_idle_timer''"
  obtain n where n: "timer_repeat ?left (max_idle_time ctx) = Some (n, max_idle_time ctx)" "1 \<le> n"
    "of_int (n * max_idle_time ctx) \<le> ?left" "?left < of_int ((n + 1) * max_idle_time ctx)"
    using timer_repeat_bounds [OF assms(5,6)] by metis
  obtain q where q: "reset_idleness_timer V now (b_id row) fin ctx (Some restart_in) None w =
      (Inr (), w\<lparr>w_rq := if ?left < of_int (max_idle_time ctx) then q
         else timer_queued V ctx ?t restart_in (timer_repeat ?left (max_idle_time ctx)) q\<rparr>)"
    using scheduler.reset_timer_eval [OF assms(1,2,3) refl assms(4), where max_idle = None and ctx = ctx
        and i = "max_idle_time ctx" and left = ?left and fin = fin and now = now and restart_in = restart_in]
    by auto
  have rq: "rq_laws (sv_rq V)" using assms(1) by (simp add: scheduler_def)
  let ?w = "w\<lparr>w_rq := timer_queued V ctx ?t restart_in (Some (n, max_idle_time ctx)) q\<rparr>"
  have "reset_idleness_timer V now (b_id row) fin ctx (Some restart_in) None w = (Inr (), ?w)"
    using q n(1) assms(6) by simp
  moreover have "rq_state V ?w ?t = Some Scheduled"
    using rq_laws.enqueue_in_status [OF rq] by (simp add: rq_state_def timer_queued_def)
  ultimately show ?thesis
    using n by (intro exI [of _ n] exI [of _ q] exI [of _ ?w]) (auto simp: timer_queued_def)
qed

theorem idle_timer_within_booking_witness:
  "\<exists>n w'. reset_idleness_timer mem_services 0 ''b1'' 1000000000 sample_context (Some 0) None
      (booked_world (sample_job ''a'' 5)) = (Inr (), w') \<and> 1 \<le> n \<and> of_int (n * 900) \<le> (1000 :: rat)"
proof -
  have "0 < max_idle_time sample_context" by simp
  moreover have "of_int (max_idle_time sample_context) \<le> total_seconds (1000000000 - 0) - 0"
    by (simp add: total_seconds_def)
  ultimately obtain n w' where n: "reset_idleness_timer mem_services 0 ''b1'' 1000000000 sample_context (Some 0) None
      (booked_world (sample_job ''a'' 5)) = (Inr (), w')" "1 \<le> n" "0 + of_int (n * 900) \<le> total_seconds (1000000000 - 0)"
    using idle_timer_within_booking [OF mem_sched.scheduler_axioms, of "booked_world (sample_job ''a'' 5)"
      sample_booking sample_context 1000000000 0 0] by (auto simp: booked_world_facts)
  then have "of_int (n * 900) \<le> (1000 :: rat)" by (simp add: total_seconds_def)
  with n show ?thesis by blast
qed

section \<open>Who may see and cancel a job\<close>

text \<open>
  Reading a job: only a known user gets an answer, and only its owner or an admin gets the job;
  for everyone else it is as if it did not exist. Reading changes nothing.
\<close>
theorem get_job_access:
  assumes "scheduler V" and "jobs_ok V w"
  shows "get_job V now jid uid adm w =
    (if uid \<notin> u_id ` set (all_users (sv_db V) (w_db w)) then Inl NotAuthenticatedError
     else case jobs V w jid of
         None \<Rightarrow> Inl ItemNotFoundError
       | Some j \<Rightarrow> if may_see V w uid adm j then Inr j else Inl ItemNotFoundError, w)"
  by (rule scheduler.get_job_eval [OF assms])

theorem get_job_access_witness:
  "get_job mem_services 0 ''a'' ''u'' False (user_world (sample_job ''a'' 5)) =
    (Inr (sample_job ''a'' 5), user_world (sample_job ''a'' 5))"
  using get_job_access [OF mem_sched.scheduler_axioms, of "user_world (sample_job ''a'' 5)" 0 "''a''" "''u''" False]
  by (simp add: user_world_facts may_see_def)

text \<open>
  A user who may not see a job cannot cancel it: the answer is the one for an unknown user or an
  unknown job, and nothing in the world changes.
\<close>
theorem strangers_cannot_cancel:
  assumes "scheduler V" and "jobs_ok V w"
    and "uid \<notin> u_id ` set (all_users (sv_db V) (w_db w)) \<or> jobs V w jid = None \<or>
      (\<exists>j. jobs V w jid = Some j \<and> \<not> may_see V w uid adm j)"
  shows "cancel_job V now queues jid uid adm reason w =
    (Inl (if uid \<notin> u_id ` set (all_users (sv_db V) (w_db w)) then NotAuthenticatedError else ItemNotFoundError), w)"
  by (rule scheduler.cancel_job_refused [OF assms])

theorem strangers_cannot_cancel_witness:
  "cancel_job mem_services 0 (queue_pool_of ''loke'') ''a'' ''v'' False None (user_world (sample_job ''a'' 5)) =
    (Inl NotAuthenticatedError, user_world (sample_job ''a'' 5))"
  using strangers_cannot_cancel [OF mem_sched.scheduler_axioms, of "user_world (sample_job ''a'' 5)" "''v''" "''a''" False]
  by (simp add: user_world_facts)

text \<open>
  C35. A permitted cancellation marks the job, takes it out of the five queues that could hold it and
  leaves rq, the database and the message server alone. It lowers the stored total of each of the five
  queues by the job's duration, also of those that did not hold it.
\<close>
theorem cancel_job_effect:
  assumes "scheduler V" and "jobs_ok V w" and "jobs V w jid = Some j"
    and "uid \<in> u_id ` set (all_users (sv_db V) (w_db w))" and "may_see V w uid adm j" and "cancellable V pfx j w"
  shows "\<exists>w'. cancel_job V now (queue_pool_of pfx) jid uid adm reason w = (Inr (cancelled_job reason now j), w') \<and>
    jobs V w' = (jobs V w)(jid \<mapsto> cancelled_job reason now j) \<and>
    w_rq w' = w_rq w \<and> w_db w' = w_db w \<and> w_mss w' = w_mss w \<and>
    (\<forall>n\<in>set (job_queues pfx). queue_entries V w' n =
        filter (\<lambda>e. key_of e \<noteq> SidKey (cancel_sid pfx j n)) (queue_entries V w n) \<and>
      queue_total V w' n = Inr (sum_list (map entry_duration (queue_entries V w n)) - duration (cancel_sid pfx j n)))"
  using scheduler.cancel_job_done [OF assms] by blast

lemma user_world_cancellable:
  assumes "job_ok j" "plain_job j"
  shows "cancellable mem_services pfx j (user_world j)"
proof -
  have "mem_jobs.same_queue n mem_empty (w_redis (world_with j))" for n
    using mem_jobs.job_insert_eval [of mem_empty j 0] assms mem_jobs.untouched_queue
    by (auto simp: world_with_def empty_world_def)
  then have "hget mem_redis (w_redis (world_with j)) (db_of n) k = None" for n k
    by (simp add: mem_jobs.same_queue_def)
  then show ?thesis
    using user_world_facts [OF assms] by (simp add: cancellable_def ready_def tidy_def user_world_def)
qed

theorem cancel_job_effect_witness:
  "\<exists>w'. cancel_job mem_services 0 (queue_pool_of ''loke'') ''a'' ''u'' False None (user_world (sample_job ''a'' 5)) =
      (Inr (cancelled_job None 0 (sample_job ''a'' 5)), w') \<and>
    queue_entries mem_services (user_world (sample_job ''a'' 5)) (get_waitlist ''loke'') = [] \<and>
    queue_total mem_services w' (get_waitlist ''loke'') = Inr (- 5)"
proof -
  let ?j = "sample_job ''a'' 5"
  have j: "job_ok ?j" "plain_job ?j" by simp_all
  note f = user_world_facts [OF j]
  have "jobs mem_services (user_world ?j) ''a'' = Some ?j" "may_see mem_services (user_world ?j) ''u'' False ?j"
    "''u'' \<in> u_id ` set (all_users (sv_db mem_services) (w_db (user_world ?j)))"
    using f(2,5) by (simp_all add: may_see_def)
  from cancel_job_effect [OF mem_sched.scheduler_axioms f(1) this(1,3,2) user_world_cancellable [OF j, of "''loke''"], of 0 None]
  obtain w' where w': "cancel_job mem_services 0 (queue_pool_of ''loke'') ''a'' ''u'' False None (user_world ?j) =
      (Inr (cancelled_job None 0 ?j), w')"
    "queue_total mem_services w' (get_waitlist ''loke'') = Inr (sum_list (map entry_duration
      (queue_entries mem_services (user_world ?j) (get_waitlist ''loke''))) - duration (cancel_sid ''loke'' ?j (get_waitlist ''loke'')))"
    by (auto simp: job_queues_def)
  have "get_waitlist ''loke'' \<noteq> static_name (get_preprocessing_queue ''loke'')"
    using job_queues_distinct [of "''loke''"] by (auto simp: job_queues_def)
  with w' f(4) show ?thesis by (auto simp: cancel_sid_def from_details_def)
qed

text \<open>
  C36. Whatever a cancellation ends with, the rq jobs that run the job are as before: they were enqueued
  under ids made of the job and its stage, and the queues cancel under ids made of the queue and the job.
\<close>
theorem cancellation_misses_rq:
  assumes "scheduler V" and "jobs_ok V w"
  shows "rq_state V (snd (cancel_job V now (queue_pool_of pfx) jid uid adm reason w)) (get_rq_job_id jid st) =
    rq_state V w (get_rq_job_id jid st)"
  by (rule scheduler.cancel_job_keeps_rq [OF assms])

text \<open>A job whose execution is queued in rq.\<close>

definition queued_world :: "(mem_redis_state, mem_rq_state, mem_db_state, mss_event list) world" where
  "queued_world = (user_world (sample_job ''a'' 5))\<lparr>w_rq :=
     snd (rq_enqueue mem_rq ''loke_normal_execution'' (Some ''a_EXEC_Q'')
       (RunNext ''__static_loke_normal_execution'' Execute) mq_empty)\<rparr>"

theorem cancellation_misses_rq_witness:
  "rq_state mem_services (snd (cancel_job mem_services 0 (queue_pool_of ''loke'') ''a'' ''u'' False None queued_world))
    ''a_EXEC_Q'' = Some Queued"
proof -
  have ok: "jobs_ok mem_services queued_world"
    using user_world_facts(1) [of "sample_job ''a'' 5"] by (simp add: queued_world_def jobs_ok_def)
  have "rq_state mem_services queued_world (get_rq_job_id ''a'' EXEC_Q) = Some Queued"
    by (simp add: rq_state_def queued_world_def mem_rq.enqueue_status get_rq_job_id_def)
  with cancellation_misses_rq [OF mem_sched.scheduler_axioms ok, of 0 "''loke''" "''a''" "''u''" False None EXEC_Q]
  show ?thesis by (simp add: get_rq_job_id_def)
qed

text \<open>
  A permitted deletion answers with the cancelled job, removes exactly that job from the store and
  leaves no entry of it in the five queues.
\<close>
theorem delete_job_effect:
  assumes "scheduler V" and "jobs_ok V w" and "jobs V w jid = Some j"
    and "uid \<in> u_id ` set (all_users (sv_db V) (w_db w))" and "may_see V w uid adm j" and "cancellable V pfx j w"
  shows "\<exists>w'. delete_job V now (queue_pool_of pfx) jid uid adm w = (Inr (cancelled_job None now j), w') \<and>
    jobs_ok V w' \<and> jobs V w' = (jobs V w)(jid := None) \<and>
    (\<forall>n\<in>set (job_queues pfx). queue_entries V w' n =
        filter (\<lambda>e. key_of e \<noteq> SidKey (cancel_sid pfx j n)) (queue_entries V w n))"
  using scheduler.delete_job_done [OF assms] by blast

theorem delete_job_effect_witness:
  "\<exists>w'. delete_job mem_services 0 (queue_pool_of ''loke'') ''a'' ''u'' False (user_world (sample_job ''a'' 5)) =
      (Inr (cancelled_job None 0 (sample_job ''a'' 5)), w') \<and> jobs mem_services w' = Map.empty"
proof -
  let ?j = "sample_job ''a'' 5"
  have j: "job_ok ?j" "plain_job ?j" by simp_all
  note f = user_world_facts [OF j]
  have "jobs mem_services (user_world ?j) ''a'' = Some ?j" "may_see mem_services (user_world ?j) ''u'' False ?j"
    "''u'' \<in> u_id ` set (all_users (sv_db mem_services) (w_db (user_world ?j)))"
    using f(2,5) by (simp_all add: may_see_def)
  from delete_job_effect [OF mem_sched.scheduler_axioms f(1) this(1,3,2) user_world_cancellable [OF j, of "''loke''"], of 0]
  show ?thesis using f(2) by auto
qed

end
