(* ===== verification/Api_Properties.thy ===== *)
theory Api_Properties imports Api Scheduler_Properties begin

text \<open>
  What the API promises about who it talks to: which requests are authenticated, what a nonce is
  worth, what a job's token opens, and what a client sees of a job.
\<close>

section \<open>Samples\<close>

text \<open>
  Services for the witnesses: a signature is the message itself, the clock text is read as 0, a
  token is its claims, the numbers in unary, and lives until the second before its end.
\<close>

definition unary :: "nat \<Rightarrow> string" where
  "unary n = replicate n CHR ''1'' @ ''.''"

definition read_unary :: "string \<Rightarrow> nat \<times> string" where
  "read_unary t = (length (takeWhile (\<lambda>c. c = CHR ''1'') t), drop 1 (dropWhile (\<lambda>c. c = CHR ''1'') t))"

definition sample_token :: "jwt_claims \<Rightarrow> string" where
  "sample_token c = unary (nat (jc_exp c)) @ unary (nat (- jc_exp c)) @ unary (length (jc_sub c)) @ jc_sub c @ jc_job c"

definition read_token :: "int \<Rightarrow> string \<Rightarrow> (string \<times> string option) list result" where
  "read_token now t =
     (let (a, t) = read_unary t; (b, t) = read_unary t; (n, t) = read_unary t in
      if now < 1000000 * ((int a - int b) div 1000000)
      then Inr [(''job'', Some (drop n t)), (''sub'', Some (take n t))] else Inl InvalidTokenError)"

lemma read_unary [simp]: "read_unary (unary n @ t) = (n, t)"
  by (simp add: read_unary_def unary_def takeWhile_append dropWhile_append)

definition sample_auth :: auth where
  "sample_auth = \<lparr>au_verify = (\<lambda>s m. if s = m then Inr () else Inl InvalidSignature),
     au_float = (\<lambda>_. Inr (Finite 0)), au_nonce_ttl = 300, au_jwt_ttl = 900,
     au_jwt_encode = sample_token, au_jwt_decode = read_token, au_encrypt = id\<rparr>"

definition signed_request :: "string \<Rightarrow> string \<Rightarrow> string \<Rightarrow> request" where
  "signed_request uid nonce signature =
     \<lparr>req_headers = [(''x-mss-user-id'', uid), (''x-mss-request-id'', nonce), (''x-mss-timestamp'', ''0''),
        (''x-mss-signature'', signature)],
      req_path_params = [(''job_id'', ''a'')], req_upload = None, req_client_host = ''h''\<rparr>"

definition sample_server :: "(mem_redis_state, mem_rq_state, mem_db_state, mss_event list) server" where
  "sample_server = \<lparr>srv_world = user_world (sample_job ''a'' 5), srv_logs = None\<rparr>"

lemma sample_server_facts:
  "srv_world sample_server = user_world (sample_job ''a'' 5)"
  "\<not> is_logged mem_redis (w_redis (srv_world sample_server)) i"
proof -
  obtain s' where s': "job_insert mem_redis 0 (sample_job ''a'' 5) mem_empty = (Inr (sample_job ''a'' 5), s')"
    "mem_jobs.untouched mem_empty s'"
    using mem_jobs.job_insert_eval [of mem_empty "sample_job ''a'' 5" 0] by auto
  have "hget mem_redis s' ''app.utils.api.requestlog'' k = None" for k
    using s'(2) by (simp add: mem_jobs.untouched_def)
  then show "\<not> is_logged mem_redis (w_redis (srv_world sample_server)) i"
    by (simp add: sample_server_def user_world_def world_with_def empty_world_def s'(1) is_logged_def)
qed (simp add: sample_server_def)

section \<open>Authenticated requests\<close>

text \<open>
  A timestamp is fresh when it is not in the future and at most \<open>ttl\<close> seconds old; an infinite one
  never is. A timestamp that reads as NaN counts as fresh at any time: no comparison with it holds, so
  the code refuses it neither as too old nor as in the future.
\<close>

definition fresh_timestamp :: "rat \<Rightarrow> int \<Rightarrow> py_float \<Rightarrow> bool" where
  "fresh_timestamp ttl now t \<longleftrightarrow> t = NaN \<or> (\<exists>x. t = Finite x \<and> total_seconds now - ttl \<le> x \<and> x \<le> total_seconds now)"

lemma check_timestamp_iff: "check_timestamp ttl now t = Inr () \<longleftrightarrow> fresh_timestamp ttl now t"
  by (cases t) (auto simp: fresh_timestamp_def)

text \<open>A request that MSS signed for a user, under a nonce, recently enough.\<close>

definition authentic :: "auth \<Rightarrow> int \<Rightarrow> request \<Rightarrow> string \<Rightarrow> string \<Rightarrow> bool" where
  "authentic A now req uid nonce \<longleftrightarrow> (\<exists>timestamp signature t.
     header req ''x-mss-user-id'' = Inr uid \<and> header req ''x-mss-request-id'' = Inr nonce \<and>
     header req ''x-mss-timestamp'' = Inr timestamp \<and> header req ''x-mss-signature'' = Inr signature \<and>
     au_verify A signature (uid @ ''-'' @ nonce @ ''-'' @ timestamp) = Inr () \<and>
     au_float A timestamp = Inr t \<and> fresh_timestamp (au_nonce_ttl A) now t)"

text \<open>What the two library calls may raise.\<close>

definition plain_auth :: "auth \<Rightarrow> bool" where
  "plain_auth A \<longleftrightarrow> (\<forall>s m e. au_verify A s m = Inl e \<longrightarrow> e \<in> {InvalidSignature, ValueError}) \<and>
     (\<forall>t e. au_float A t = Inl e \<longrightarrow> e = ValueError)"

lemma check_timestamp_error: "check_timestamp ttl now t = Inl e \<Longrightarrow> e = ValueError"
  by (cases t) (auto split: if_splits)

lemma header_error: "header req n = Inl e \<Longrightarrow> e = KeyError"
  by (auto simp: header_def split: option.splits)

definition logs_open :: "int \<Rightarrow> ('r, 'q, 'd, 'm) server \<Rightarrow> ('r, 'q, 'd, 'm) server" where
  "logs_open now s = s\<lparr>srv_logs := Some (case srv_logs s of None \<Rightarrow> total_seconds now | Some l \<Rightarrow> l)\<rparr>"

lemma logs_open_world [simp]: "srv_world (logs_open now s) = srv_world s"
  by (simp add: logs_open_def)

lemma authentic_eval:
  assumes "job_redis R" and "authentic A now req uid nonce"
  shows "get_verified_mss_user_id A R now req s =
    (if is_logged R (w_redis (srv_world s)) nonce then Inl NotAuthenticatedError else Inr uid, logs_open now s)"
proof -
  obtain ts sig t where h: "header req ''x-mss-user-id'' = Inr uid" "header req ''x-mss-request-id'' = Inr nonce"
    "header req ''x-mss-timestamp'' = Inr ts" "header req ''x-mss-signature'' = Inr sig"
    "au_verify A sig (signed_message uid nonce ts) = Inr ()" "au_float A ts = Inr t"
    "check_timestamp (au_nonce_ttl A) now t = Inr ()"
    using assms(2) unfolding authentic_def check_timestamp_iff signed_message_def by auto
  show ?thesis
    using on_logs_eval [OF assms(1), of now nonce s]
    by (simp add: get_verified_mss_user_id_def prog_simps h logs_open_def)
qed

lemma not_authentic_eval:
  assumes "plain_auth A" and "\<And>uid nonce. \<not> authentic A now req uid nonce"
  shows "get_verified_mss_user_id A R now req s = (Inl NotAuthenticatedError, s)"
proof (cases "header req ''x-mss-user-id''")
  case (Inl e)
  then show ?thesis using header_error [OF Inl] by (simp add: get_verified_mss_user_id_def prog_simps)
next
  case uid: (Inr uid)
  show ?thesis
  proof (cases "header req ''x-mss-request-id''")
    case (Inl e)
    then show ?thesis using uid header_error [OF Inl] by (simp add: get_verified_mss_user_id_def prog_simps)
  next
    case nonce: (Inr nonce)
    show ?thesis
    proof (cases "header req ''x-mss-timestamp''")
      case (Inl e)
      then show ?thesis using uid nonce header_error [OF Inl] by (simp add: get_verified_mss_user_id_def prog_simps)
    next
      case ts: (Inr ts)
      show ?thesis
      proof (cases "header req ''x-mss-signature''")
        case (Inl e)
        then show ?thesis using uid nonce ts header_error [OF Inl] by (simp add: get_verified_mss_user_id_def prog_simps)
      next
        case sig: (Inr sig)
        note hs = uid nonce ts sig
        show ?thesis
        proof (cases "au_verify A sig (signed_message uid nonce ts)")
          case (Inl e)
          then have "e \<in> {InvalidSignature, ValueError}" using assms(1) by (auto simp: plain_auth_def)
          with Inl hs show ?thesis by (auto simp: get_verified_mss_user_id_def prog_simps)
        next
          case ver: (Inr u)
          show ?thesis
          proof (cases "au_float A ts")
            case (Inl e)
            then have "e = ValueError" using assms(1) by (auto simp: plain_auth_def)
            with Inl hs ver show ?thesis by (auto simp: get_verified_mss_user_id_def prog_simps)
          next
            case t: (Inr t)
            have "check_timestamp (au_nonce_ttl A) now t \<noteq> Inr ()"
              using assms(2) hs ver t unfolding authentic_def check_timestamp_iff signed_message_def by auto
            then have "check_timestamp (au_nonce_ttl A) now t = Inl ValueError"
              using check_timestamp_error by (cases "check_timestamp (au_nonce_ttl A) now t") auto
            with hs ver t show ?thesis by (simp add: get_verified_mss_user_id_def prog_simps)
          qed
        qed
      qed
    qed
  qed
qed

text \<open>
  C39. A request is authenticated as a user exactly when MSS signed the text of that user, a nonce and a
  timestamp, the timestamp is neither in the future nor older than a nonce lives, and the log of the
  answered requests does not hold the nonce; everything else is refused with
  \<open>NotAuthenticatedError\<close>, and checking changes nothing in the world. One timestamp escapes the
  window: a signed one that reads as NaN is fresh for ever.
\<close>
theorem verified_user_iff:
  assumes "job_redis R" and "plain_auth A"
  shows "(fst (get_verified_mss_user_id A R now req s) = Inr uid \<longleftrightarrow>
      (\<exists>nonce. authentic A now req uid nonce \<and> \<not> is_logged R (w_redis (srv_world s)) nonce)) \<and>
    fst (get_verified_mss_user_id A R now req s) \<in> Inr ` UNIV \<union> {Inl NotAuthenticatedError} \<and>
    srv_world (snd (get_verified_mss_user_id A R now req s)) = srv_world s"
proof (cases "\<exists>uid nonce. authentic A now req uid nonce")
  case True
  then obtain u n where a: "authentic A now req u n" by blast
  then have "authentic A now req v m \<longleftrightarrow> v = u \<and> m = n" for v m
    by (auto simp: authentic_def)
  then show ?thesis using authentic_eval [OF assms(1) a, of s] by auto
next
  case False
  then show ?thesis using not_authentic_eval [OF assms(2), of now req R s] by auto
qed


lemma sample_auth_facts: "plain_auth sample_auth"
  "authentic sample_auth 0 (signed_request u n (signed_message u n ''0'')) u n"
  by (auto simp: plain_auth_def sample_auth_def authentic_def fresh_timestamp_def signed_message_def header_def signed_request_def total_seconds_def)

theorem verified_user_iff_witness:
  "fst (get_verified_mss_user_id sample_auth mem_redis 0 (signed_request ''u'' ''n'' ''u-n-0'') sample_server) = Inr ''u''"
  using verified_user_iff [OF mem_jobs.job_redis_axioms sample_auth_facts(1), of 0 "signed_request ''u'' ''n'' ''u-n-0''" sample_server "''u''"]
    sample_auth_facts(2) [of "''u''" "''n''"] sample_server_facts(2) [of "''n''"]
  by (auto simp: signed_message_def)

section \<open>Nonces\<close>

lemma on_logs_insert:
  assumes "job_redis R"
  shows "\<exists>s2. on_logs now (log_insert R now rl) s = (Inr rl, s2) \<and>
    (\<forall>i. is_logged R (w_redis (srv_world s2)) i \<longleftrightarrow> i = rl_request_id rl \<or> is_logged R (w_redis (srv_world s)) i) \<and>
    job_redis.same_jobs R (w_redis (srv_world s)) (w_redis (srv_world s2)) \<and>
    (\<forall>n. job_redis.same_queue R n (w_redis (srv_world s)) (w_redis (srv_world s2))) \<and>
    w_db (srv_world s2) = w_db (srv_world s)"
proof -
  let ?l = "case srv_logs s of None \<Rightarrow> total_seconds now | Some l \<Rightarrow> l"
  obtain r l' where "log_insert R now rl (w_redis (srv_world s), ?l) = (Inr rl, (r, l'))"
    "\<forall>i. is_logged R r i \<longleftrightarrow> i = rl_request_id rl \<or> is_logged R (w_redis (srv_world s)) i"
    "job_redis.same_jobs R (w_redis (srv_world s)) r" "\<forall>n. job_redis.same_queue R n (w_redis (srv_world s)) r"
    using job_redis.log_insert_eval [OF assms] by blast
  then show ?thesis
    by (intro exI [of _ "s\<lparr>srv_logs := Some l', srv_world := (srv_world s)\<lparr>w_redis := r\<rparr>\<rparr>"]) (simp add: on_logs_def)
qed

lemma log_requests_eval:
  assumes "job_redis R" and route: "route s = (x, s1)" and known: "case x of Inl e \<Rightarrow> http_status e \<noteq> None | Inr _ \<Rightarrow> True"
  shows "\<exists>s2. log_requests R now req fresh fresh_inner route s =
      (Inr \<lparr>rs_status = (case x of Inl e \<Rightarrow> the (http_status e) | Inr _ \<Rightarrow> 200), rs_request_id = request_id_of req fresh\<rparr>, s2) \<and>
    (\<forall>i. is_logged R (w_redis (srv_world s2)) i \<longleftrightarrow> is_logged R (w_redis (srv_world s1)) i \<or>
      (\<not> is_logged R (w_redis (srv_world s1)) (request_id_of req fresh) \<and> i = request_id_of req fresh_inner)) \<and>
    job_redis.same_jobs R (w_redis (srv_world s1)) (w_redis (srv_world s2)) \<and>
    (\<forall>n. job_redis.same_queue R n (w_redis (srv_world s1)) (w_redis (srv_world s2))) \<and>
    w_db (srv_world s2) = w_db (srv_world s1)"
proof -
  let ?id = "request_id_of req fresh" and ?inner = "request_id_of req fresh_inner"
  let ?code = "case x of Inl e \<Rightarrow> the (http_status e) | Inr _ \<Rightarrow> 200"
  have inner: "add_request_id_header req fresh_inner route s =
      (Inr (\<lparr>rs_status = ?code, rs_request_id = ?inner\<rparr>, ?inner), s1)"
    using route known by (auto simp: add_request_id_header_def Let_def split: sum.splits)
  have present: "on_logs now (log_exists R ?id) s1 = (Inr (is_logged R (w_redis (srv_world s1)) ?id), logs_open now s1)"
    using on_logs_eval [OF assms(1)] by (simp add: logs_open_def)
  show ?thesis
  proof (cases "is_logged R (w_redis (srv_world s1)) ?id")
    case True
    then have "log_requests R now req fresh fresh_inner route s =
        (Inr \<lparr>rs_status = ?code, rs_request_id = ?id\<rparr>, logs_open now s1)"
      using present by (simp add: log_requests_def Let_def prog_simps inner)
    with True show ?thesis
      using job_redis.same_jobs_refl [OF assms(1)] job_redis.same_queue_refl [OF assms(1)] by auto
  next
    case False
    let ?log = "log_from_request now req ?inner"
    obtain s2 where s2: "on_logs now (log_insert R now ?log) (logs_open now s1) = (Inr ?log, s2)"
      "\<forall>i. is_logged R (w_redis (srv_world s2)) i \<longleftrightarrow> i = rl_request_id ?log \<or> is_logged R (w_redis (srv_world s1)) i"
      "job_redis.same_jobs R (w_redis (srv_world s1)) (w_redis (srv_world s2))"
      "\<forall>n. job_redis.same_queue R n (w_redis (srv_world s1)) (w_redis (srv_world s2))"
      "w_db (srv_world s2) = w_db (srv_world s1)"
      using on_logs_insert [OF assms(1), of now ?log "logs_open now s1"] by auto
    have "log_requests R now req fresh fresh_inner route s = (Inr \<lparr>rs_status = ?code, rs_request_id = ?id\<rparr>, s2)"
      using present False by (simp add: log_requests_def Let_def prog_simps inner s2(1))
    with False s2 show ?thesis by (intro exI [of _ s2]) (auto simp: log_from_request_def)
  qed
qed

text \<open>
  A response spends the nonce of its request: once a request with the header \<open>x-mss-request-id\<close> was
  answered, every later request under that nonce is refused, whoever signed it and whatever it asks
  for. A route whose exception has no handler is not answered: the exception leaves the application in
  the state of the route, and the nonce is as good as before.
\<close>
theorem response_spends_nonce:
  assumes "job_redis R" and "map_of (req_headers req) ''x-mss-request-id'' = Some n" and "route s = (x, s1)"
  shows "case log_requests R now req fresh fresh_inner route s of
      (Inl e, s2) \<Rightarrow> x = Inl e \<and> http_status e = None \<and> s2 = s1
    | (Inr rsp, s2) \<Rightarrow> rs_request_id rsp = n \<and>
        rs_status rsp = (case x of Inl e \<Rightarrow> the (http_status e) | Inr _ \<Rightarrow> 200) \<and>
        (\<forall>A later req' uid. authentic A later req' uid n \<longrightarrow>
          fst (get_verified_mss_user_id A R later req' s2) = Inl NotAuthenticatedError)"
proof (cases "case x of Inl e \<Rightarrow> http_status e \<noteq> None | Inr _ \<Rightarrow> True")
  case True
  from log_requests_eval [where route = route, OF assms(1,3) True, of now req fresh fresh_inner] assms(2)
  obtain s2 where s2: "log_requests R now req fresh fresh_inner route s =
      (Inr \<lparr>rs_status = (case x of Inl e \<Rightarrow> the (http_status e) | Inr _ \<Rightarrow> 200), rs_request_id = n\<rparr>, s2)"
      "is_logged R (w_redis (srv_world s2)) n"
    by (auto simp: request_id_of_def)
  have "fst (get_verified_mss_user_id A R later req' s2) = Inl NotAuthenticatedError"
    if "authentic A later req' uid n" for A :: auth and later req' uid
    using authentic_eval [OF assms(1) that, of s2] s2(2) by simp
  with s2(1) show ?thesis by auto
next
  case False
  then obtain e where "x = Inl e" "http_status e = None" by (auto split: sum.splits)
  with assms(3) show ?thesis
    by (simp add: log_requests_def add_request_id_header_def Let_def prog_simps)
qed

theorem response_spends_nonce_witness:
  "\<exists>rsp s2. log_requests mem_redis 0 (signed_request ''u'' ''n'' ''u-n-0'') ''f'' ''g''
      (route_root sample_auth mem_services 0 (signed_request ''u'' ''n'' ''u-n-0'')) sample_server = (Inr rsp, s2) \<and>
    rs_status rsp = 200 \<and>
    fst (get_verified_mss_user_id sample_auth mem_redis 0 (signed_request ''v'' ''n'' ''v-n-0'') s2)
      = Inl NotAuthenticatedError"
proof -
  let ?req = "signed_request ''u'' ''n'' ''u-n-0''"
  have a: "authentic sample_auth 0 ?req ''u'' ''n''" "authentic sample_auth 0 (signed_request ''v'' ''n'' ''v-n-0'') ''v'' ''n''"
    using sample_auth_facts(2) [of "''u''" "''n''"] sample_auth_facts(2) [of "''v''" "''n''"]
    by (simp_all add: signed_message_def)
  have r: "route_root sample_auth mem_services 0 ?req sample_server = (Inr ''Welcome to BCC machine'', logs_open 0 sample_server)"
    using authentic_eval [OF mem_jobs.job_redis_axioms a(1), of sample_server] sample_server_facts(2)
    by (simp add: route_root_def prog_simps)
  have "map_of (req_headers ?req) ''x-mss-request-id'' = Some ''n''" by (simp add: signed_request_def)
  from response_spends_nonce [where route = "route_root sample_auth mem_services 0 ?req",
      OF mem_jobs.job_redis_axioms this r, of 0 "''f''" "''g''"] a(2)
  show ?thesis
    by (cases "log_requests mem_redis 0 ?req ''f'' ''g'' (route_root sample_auth mem_services 0 ?req) sample_server")
      (auto split: sum.splits)
qed

text \<open>
  Checking a request does not spend its nonce, only the answer does: a second request under the same
  nonce that is checked before the first is answered is accepted as well.
\<close>
theorem nonce_open_until_answer:
  assumes "job_redis R" and "authentic A now req uid nonce" and "authentic A later req' uid' nonce"
    and "\<not> is_logged R (w_redis (srv_world s)) nonce"
  shows "fst (get_verified_mss_user_id A R now req s) = Inr uid \<and>
    fst (get_verified_mss_user_id A R later req' (snd (get_verified_mss_user_id A R now req s))) = Inr uid'"
  using authentic_eval [OF assms(1,2), of s] authentic_eval [OF assms(1,3), of "logs_open now s"] assms(4) by simp

theorem nonce_open_until_answer_witness:
  "fst (get_verified_mss_user_id sample_auth mem_redis 0 (signed_request ''u'' ''n'' ''u-n-0'')
      (snd (get_verified_mss_user_id sample_auth mem_redis 0 (signed_request ''u'' ''n'' ''u-n-0'') sample_server)))
    = Inr ''u''"
proof -
  have a: "authentic sample_auth 0 (signed_request ''u'' ''n'' ''u-n-0'') ''u'' ''n''"
    using sample_auth_facts(2) [of "''u''" "''n''"] by (simp add: signed_message_def)
  show ?thesis using nonce_open_until_answer [OF mem_jobs.job_redis_axioms a a] sample_server_facts(2) by blast
qed

text \<open>
  The signed text does not say where the user ends and the nonce begins: whoever holds one signed
  request can cut it elsewhere, and is then authenticated under another user id and another nonce,
  which the answer to the first did not spend.
\<close>
theorem signature_moves_dash:
  assumes "job_redis R" and "authentic A now req uid (p @ ''-'' @ q)"
    and "header req' ''x-mss-user-id'' = Inr (uid @ ''-'' @ p)" and "header req' ''x-mss-request-id'' = Inr q"
    and "header req' ''x-mss-timestamp'' = header req ''x-mss-timestamp''"
    and "header req' ''x-mss-signature'' = header req ''x-mss-signature''"
    and "\<not> is_logged R (w_redis (srv_world s)) q"
  shows "fst (get_verified_mss_user_id A R now req' s) = Inr (uid @ ''-'' @ p)"
proof -
  have "signed_message (uid @ ''-'' @ p) q ts = signed_message uid (p @ ''-'' @ q) ts" for ts
    by (simp add: signed_message_def)
  then have "authentic A now req' (uid @ ''-'' @ p) q"
    using assms(2-6) by (auto simp: authentic_def)
  from authentic_eval [OF assms(1) this, of s] assms(7) show ?thesis by simp
qed

theorem signature_moves_dash_witness:
  "fst (get_verified_mss_user_id sample_auth mem_redis 0 (signed_request ''u-a'' ''b'' ''u-a-b-0'') sample_server)
    = Inr ''u-a''"
proof -
  have "authentic sample_auth 0 (signed_request ''u'' ''a-b'' ''u-a-b-0'') ''u'' (''a'' @ ''-'' @ ''b'')"
    using sample_auth_facts(2) [of "''u''" "''a-b''"] by (simp add: signed_message_def)
  from signature_moves_dash [OF mem_jobs.job_redis_axioms this, of "signed_request ''u-a'' ''b'' ''u-a-b-0''" sample_server]
    sample_server_facts(2) show ?thesis by (simp add: header_def signed_request_def)
qed

text \<open>
  A request without the header \<open>x-mss-request-id\<close> is logged under another id than the one its
  response carries: each of the two middlewares makes its own.
\<close>
theorem unnamed_request_id_differs:
  assumes "job_redis R" and "map_of (req_headers req) ''x-mss-request-id'' = None" and "route s = (Inr x, s1)"
    and "fresh \<noteq> fresh_inner" and "\<not> is_logged R (w_redis (srv_world s1)) fresh"
  shows "\<exists>rsp s2. log_requests R now req fresh fresh_inner route s = (Inr rsp, s2) \<and> rs_request_id rsp = fresh \<and>
    \<not> is_logged R (w_redis (srv_world s2)) fresh \<and> is_logged R (w_redis (srv_world s2)) fresh_inner"
  using log_requests_eval [where route = route, OF assms(1,3), of now req fresh fresh_inner] assms(2,4,5)
  by (auto simp: request_id_of_def)

theorem unnamed_request_id_differs_witness:
  "\<exists>rsp s2. log_requests mem_redis 0 \<lparr>req_headers = [], req_path_params = [], req_upload = None, req_client_host = ''h''\<rparr>
      ''f'' ''g'' (retE ()) sample_server = (Inr rsp, s2) \<and> rs_request_id rsp = ''f'' \<and>
    \<not> is_logged mem_redis (w_redis (srv_world s2)) ''f''"
proof -
  have r: "retE () sample_server = (Inr (), sample_server)" by (simp add: retE_def)
  show ?thesis
    using unnamed_request_id_differs [where route = "retE ()" and fresh = "''f''" and fresh_inner = "''g''" and now = 0 and
        req = "\<lparr>req_headers = [], req_path_params = [], req_upload = None, req_client_host = ''h''\<rparr>",
        OF mem_jobs.job_redis_axioms _ r] sample_server_facts(2)
    by auto
qed

end
