(* ===== verification/Request_Properties.thy ===== *)
theory Request_Properties imports Api_Properties Py_Values begin

text \<open>
  The way of a job into the system: the token that MSS gets for it, the dependency that reads the
  token, and the submission that stores the job and puts it on the preprocessing queue.
\<close>

section \<open>Tokens\<close>

text \<open>
  What the code relies on of the JWT library: a token that was made with the secret is read back
  until its expiry, which the library writes in whole seconds, and is refused after it.
\<close>

definition jwt_law :: "auth \<Rightarrow> bool" where
  "jwt_law A \<longleftrightarrow> (\<forall>c now.
     if now < 1000000 * (jc_exp c div 1000000)
     then \<exists>claims. au_jwt_decode A now (au_jwt_encode A c) = Inr claims \<and>
       map_of claims ''sub'' = Some (Some (jc_sub c)) \<and> map_of claims ''job'' = Some (Some (jc_job c))
     else au_jwt_decode A now (au_jwt_encode A c) = Inl InvalidTokenError)"

lemma sample_jwt_law: "jwt_law sample_auth"
proof -
  have "int (nat e) - int (nat (- e)) = e" for e by simp
  then show ?thesis
    by (simp add: jwt_law_def sample_auth_def sample_token_def read_token_def del: int_nat_eq)
qed

text \<open>
  C40. A token carries its user and its job until it expires, in whole seconds after its creation, and is
  refused from then on.
\<close>
theorem token_roundtrip:
  assumes "jwt_law A"
  shows "get_user_job_id_pair_from_token A now (create_mss_jwt_token A S created u jid) =
    (if now < 1000000 * ((settings_now S created + seconds_us (au_jwt_ttl A)) div 1000000)
     then Inr (u_id u, Some jid) else Inl NotAuthenticatedError)"
proof -
  let ?c = "\<lparr>jc_job = jid, jc_exp = settings_now S created + seconds_us (au_jwt_ttl A), jc_sub = u_id u\<rparr>"
  show ?thesis
  proof (cases "now < 1000000 * ((settings_now S created + seconds_us (au_jwt_ttl A)) div 1000000)")
    case True
    moreover from True obtain claims where "au_jwt_decode A now (au_jwt_encode A ?c) = Inr claims"
      "map_of claims ''sub'' = Some (Some (u_id u))" "map_of claims ''job'' = Some (Some jid)"
      using assms [unfolded jwt_law_def, THEN spec [of _ ?c], THEN spec [of _ now]] by auto
    ultimately show ?thesis
      by (simp add: get_user_job_id_pair_from_token_def create_mss_jwt_token_def claim_def)
  next
    case False
    then have "au_jwt_decode A now (au_jwt_encode A ?c) = Inl InvalidTokenError"
      using assms [unfolded jwt_law_def, THEN spec [of _ ?c], THEN spec [of _ now]] by simp
    with False show ?thesis by (simp add: get_user_job_id_pair_from_token_def create_mss_jwt_token_def)
  qed
qed

theorem token_roundtrip_witness:
  "get_user_job_id_pair_from_token sample_auth 5 (create_mss_jwt_token sample_auth default_settings 0 sample_user ''a'')
    = Inr (''u'', Some ''a'')"
proof -
  have "au_jwt_ttl sample_auth = total_seconds 900000000" by (simp add: sample_auth_def total_seconds_def)
  then have "seconds_us (au_jwt_ttl sample_auth) = 900000000" by (simp only: seconds_us_total_seconds)
  with token_roundtrip [OF sample_jwt_law] show ?thesis by simp
qed

lemma py_split_prefix:
  assumes "sep \<noteq> []" and "c \<in> set sep" and "c \<notin> set t"
  shows "py_split sep (sep @ t) = [[], t]"
proof -
  have "cut sep t = None"
  proof (cases "cut sep t")
    case (Some p)
    then obtain a b where "cut sep t = Some (a, b)" by (cases p) simp
    from cut_Some [OF this] assms(2,3) show ?thesis by simp
  qed
  then show ?thesis
    using assms(1) cut_first [of sep "[]" t] by (simp add: py_split.simps [of sep "sep @ t"] py_split.simps [of sep t])
qed

lemma bearer_token:
  assumes "map_of (req_headers req) ''authorization'' = Some (''Bearer '' @ t)" and "\<forall>c\<in>set t. \<not> py_space c"
  shows "get_bearer_token req = Inr t"
proof -
  have "CHR '' '' \<notin> set t" using assms(2) by (auto simp: py_space_def)
  then have "py_split ''Bearer '' (''Bearer '' @ t) = [[], t]"
    by (intro py_split_prefix [where c = "CHR '' ''"]) simp_all
  with assms(1) strip_plain [OF assms(2)] show ?thesis
    unfolding get_bearer_token_def header_def by (simp del: append.simps)
qed

section \<open>Submitting a job\<close>

lemma new_job_facts [simp]:
  "queueable (new_job jid dev cal user st now)" "job_ok (new_job jid dev cal user st now)"
  "job_id (new_job jid dev cal user st now) = jid" "user_id (new_job jid dev cal user st now) = user"
  by (simp_all add: queueable_def) (simp_all add: new_job_def from_job_def validate_model_def set_storage_id_def
      clone_with_def from_details_def)

context scheduler
begin

text \<open>The job a submission makes, and what the preprocessing queue gets with it.\<close>

lemma submit_job_file_eval:
  fixes ctx cal jid uid now
  defines "j \<equiv> new_job jid (backend_name ctx) cal (Some uid) PRE_PROC_Q now"
  assumes ok: "jobs_ok V w" and plain: "CHR '':'' \<notin> set jid" "CHR '':'' \<notin> set uid"
    and free: "jobs V w jid = None"
    and cal: "sv_last_calibrated V = Inr cal"
    and booking: "get_active_booking (sv_db V) now (w_db w) = (Inr ab, w_db w)"
    and join: "can_join V w (static_name (qp_preprocessing queues)) j"
  shows "\<exists>w'. submit_job_file V now ctx queues (Inr path) jid uid w = (Inr j, w') \<and>
    jobs_ok V w' \<and> jobs V w' = (jobs V w)(jid \<mapsto> j) \<and>
    queue_entries V w' (static_name (qp_preprocessing queues)) =
      queue_entries V w (static_name (qp_preprocessing queues))
      @ [(j, (ctx, no_kwargs\<lparr>kw_booking_id := map_option b_id ab, kw_job_file := Some path\<rparr>))] \<and>
    (\<forall>n. n \<noteq> static_name (qp_preprocessing queues) \<longrightarrow> queue_entries V w' n = queue_entries V w n) \<and>
    rq_state V w' = (rq_state V w)(get_rq_job_id jid PRE_PROC_Q \<mapsto> Queued) \<and>
    w_db w' = w_db w \<and> w_mss w' = w_mss w"
proof -
  let ?n = "static_name (qp_preprocessing queues)"
  let ?kw = "job_kwargs_for jid (map_option b_id ab) path"
  let ?a = "(ctx, ?kw\<lparr>kw_job_id := None\<rparr>)"
  have "plain_job j" using plain by (simp add: plain_job_def j_def opt_text_def)
  then obtain r where r: "job_insert (sv_redis V) now j (w_redis w) = (Inr j, r)" "jobs_wf (sv_redis V) r"
    "jobs_of (sv_redis V) r = (jobs V w)(jid \<mapsto> j)" "untouched (w_redis w) r"
    using job_insert_eval [of "w_redis w" j now] ok free by (auto simp: jobs_ok_def jobs_def j_def)
  obtain s where s: "runner_enqueue (sv_redis V) (sv_rq V) (qp_preprocessing queues) j ctx ?kw (r, w_rq w) =
      (Inr (get_rq_job_id jid PRE_PROC_Q), (added ?n j ?a r, s))"
    "\<forall>i'. status_of (sv_rq V) s i' =
      (if i' = get_rq_job_id jid PRE_PROC_Q then Some Queued else status_of (sv_rq V) (w_rq w) i')"
    using runner_enqueue_eval [of j "qp_preprocessing queues" ctx ?kw r "w_rq w"]
    by (auto simp: j_def job_kwargs_for_def)
  let ?w = "w\<lparr>w_redis := added ?n j ?a r, w_rq := s\<rparr>"
  have same: "same_queue n (w_redis w) r" for n by (rule untouched_queue [OF r(4)])
  have new: "SidKey (from_job j) \<notin> set (items (sv_redis V) r ?n)"
    using join same [of ?n] by (simp add: can_join_def same_queue_def)
  have absent: "on_r (job_exists (sv_redis V) now jid) w = (Inr False, w)"
    using job_exists_eval [of "w_redis w" now jid] ok free by (simp add: prog_simps jobs_ok_def jobs_def)
  have "submit_job_file V now ctx queues (Inr path) jid uid w = (Inr j, ?w)"
    using s(1) by (simp add: submit_job_file_def bindE_Inr [where m = "on_r (job_exists (sv_redis V) now jid)" and s = w, OF absent] prog_simps cal booking j_def [symmetric] r(1) Let_def)
  moreover have "jobs_ok V ?w" "jobs V ?w = (jobs V w)(jid \<mapsto> j)"
    using r(2,3) same_jobs_wf [OF same_jobs_added] same_jobs_of [OF same_jobs_added]
    by (simp_all add: jobs_ok_def jobs_def)
  moreover have "queue_entries V ?w ?n = queue_entries V w ?n @ [(j, ?a)]"
    using added_contents [OF new] same_queue_contents [OF same, of ?n] by (simp add: queue_entries_def)
  moreover have "queue_entries V ?w n = queue_entries V w n" if "n \<noteq> ?n" for n
    using same_queue_contents [OF same_queue_trans [OF same same_queue_added [OF that]]]
    by (simp add: queue_entries_def)
  moreover have "rq_state V ?w = (rq_state V w)(get_rq_job_id jid PRE_PROC_Q \<mapsto> Queued)"
    using s(2) by (simp add: rq_state_def fun_eq_iff)
  ultimately show ?thesis
    by (intro exI [of _ ?w]) (simp add: job_kwargs_for_def no_kwargs_def)
qed

lemma submit_job_file_refused:
  assumes "jobs_ok V w"
  shows "jobs V w jid \<noteq> None \<Longrightarrow> submit_job_file V now ctx queues uploaded jid uid w = (Inl ConflictError, w)"
    and "jobs V w jid = None \<Longrightarrow> submit_job_file V now ctx queues (Inl e) jid uid w = (Inl e, w)"
proof -
  have x: "on_r (job_exists (sv_redis V) now jid) w = (Inr (jobs V w jid \<noteq> None), w)"
    using job_exists_eval [of "w_redis w" now jid] assms by (simp add: prog_simps jobs_ok_def jobs_def)
  show "jobs V w jid \<noteq> None \<Longrightarrow> submit_job_file V now ctx queues uploaded jid uid w = (Inl ConflictError, w)"
    and "jobs V w jid = None \<Longrightarrow> submit_job_file V now ctx queues (Inl e) jid uid w = (Inl e, w)"
    by (simp_all add: submit_job_file_def bindE_Inr [where m = "on_r (job_exists (sv_redis V) now jid)" and s = w, OF x] prog_simps)
qed

end

text \<open>
  C37. A submitted job is new or refused with \<open>ConflictError\<close>, and a failed upload leaves nothing behind.
  A new one is stored in the first stage and appended to the preprocessing queue with the saved file
  and the booking that is active now, its rq job waits under the id of that stage, and no other queue,
  job, booking or message changes.
\<close>
theorem submit_job_branches:
  fixes queues ctx cal
  assumes "scheduler V" and "jobs_ok V w" and "CHR '':'' \<notin> set jid" and "CHR '':'' \<notin> set uid"
    and "sv_last_calibrated V = Inr cal"
    and "get_active_booking (sv_db V) now (w_db w) = (Inr ab, w_db w)"
    and "can_join V w (static_name (qp_preprocessing queues)) (new_job jid (backend_name ctx) cal (Some uid) PRE_PROC_Q now)"
  shows "case submit_job_file V now ctx queues uploaded jid uid w of
      (Inl e, w') \<Rightarrow> w' = w \<and> (if jobs V w jid \<noteq> None then e = ConflictError else uploaded = Inl e)
    | (Inr j, w') \<Rightarrow> jobs V w jid = None \<and> j = new_job jid (backend_name ctx) cal (Some uid) PRE_PROC_Q now \<and>
        (\<exists>path. uploaded = Inr path \<and>
          queue_entries V w' = (queue_entries V w)(static_name (qp_preprocessing queues) :=
            queue_entries V w (static_name (qp_preprocessing queues))
            @ [(j, (ctx, no_kwargs\<lparr>kw_booking_id := map_option b_id ab, kw_job_file := Some path\<rparr>))])) \<and>
        jobs V w' = (jobs V w)(jid \<mapsto> j) \<and>
        rq_state V w' = (rq_state V w)(get_rq_job_id jid PRE_PROC_Q \<mapsto> Queued) \<and>
        w_db w' = w_db w \<and> w_mss w' = w_mss w"
proof (cases "jobs V w jid")
  case (Some a)
  then show ?thesis using scheduler.submit_job_file_refused(1) [OF assms(1,2)] by simp
next
  case None
  show ?thesis
  proof (cases uploaded)
    case (Inl e)
    then show ?thesis using scheduler.submit_job_file_refused(2) [OF assms(1,2) None] None by simp
  next
    case (Inr path)
    from scheduler.submit_job_file_eval [OF assms(1,2,3,4) None assms(5,6,7), of path] None Inr
    show ?thesis by (auto simp: fun_eq_iff)
  qed
qed

lemma user_world_join:
  assumes "job_ok j" "plain_job j"
  shows "can_join mem_services (user_world j) n k"
proof -
  have "items mem_redis (w_redis (user_world j)) n = []"
    using world_with_facts(5) [OF assms] by (simp add: user_world_def)
  then show ?thesis using user_world_facts(3) [OF assms] by (simp add: can_join_def)
qed

lemma sample_active_booking: "get_active_booking mem_db now ([], us) = (Inr None, ([], us))"
  by (simp add: get_active_booking_def prog_simps mem_db_def first_validated_def)

theorem submit_job_branches_witness:
  "\<exists>w'. submit_job_file mem_services 7 sample_context (queue_pool_of ''loke'') (Inr ''/f'') ''b'' ''u''
      (user_world (sample_job ''a'' 5)) = (Inr (new_job ''b'' ''loke'' ''2025-01-01'' (Some ''u'') PRE_PROC_Q 7), w') \<and>
    rq_state mem_services w' ''b_PRE_PROC_Q'' = Some Queued"
proof -
  let ?w = "user_world (sample_job ''a'' 5)"
  have j: "job_ok (sample_job ''a'' 5)" "plain_job (sample_job ''a'' 5)" by simp_all
  have cal: "sv_last_calibrated mem_services = Inr ''2025-01-01''" by (simp add: mem_services_def)
  from submit_job_branches [OF mem_sched.scheduler_axioms user_world_facts(1) [OF j], of "''b''" "''u''"
      "''2025-01-01''" 7 None "queue_pool_of ''loke''" sample_context "Inr ''/f''"] sample_active_booking user_world_join [OF j] cal
  show ?thesis
    by (cases "submit_job_file mem_services 7 sample_context (queue_pool_of ''loke'') (Inr ''/f'') ''b'' ''u'' ?w")
      (auto simp: user_world_facts [OF j] sample_context_def get_rq_job_id_def split: sum.splits)
qed

section \<open>Who may use a token\<close>

lemma server_same [simp]: "s\<lparr>srv_world := srv_world s\<rparr> = s"
  by (cases s) simp

lemma on_world_eval [prog_simps]: "m (srv_world s) = (x, w) \<Longrightarrow> on_world m s = (x, s\<lparr>srv_world := w\<rparr>)"
  by (simp add: on_world_def prog_simps)

text \<open>
  A token opens its own job only, and in one of two ways: a route that expects the job lets the token
  of a known user that owns it pass; the route that submits it lets the token pass as long as that user
  sees no such job. Nothing changes.
\<close>
theorem token_opens_its_job:
  assumes "scheduler V" and "jobs_ok V (srv_world s)"
    and "get_job_id_dependency fld req = Inr jid" and "get_bearer_token req = Inr token"
    and "get_user_job_id_pair_from_token A now token = Inr (uid, token_jid)"
  shows "get_mss_token_claims A V now expected fld req s =
    (if token_jid \<noteq> Some jid then Inl UnauthorizedError
     else if uid \<notin> u_id ` set (all_users (sv_db V) (w_db (srv_world s))) then Inl NotAuthenticatedError
     else if \<exists>j. jobs V (srv_world s) jid = Some j \<and> may_see V (srv_world s) uid False j
       then if expected then Inr (uid, jid) else Inl ConflictError
     else if expected then Inl UnauthorizedError else Inr (uid, jid), s)"
proof -
  define x where "x = (if uid \<notin> u_id ` set (all_users (sv_db V) (w_db (srv_world s))) then Inl NotAuthenticatedError
     else case jobs V (srv_world s) jid of
         None \<Rightarrow> Inl ItemNotFoundError
       | Some j \<Rightarrow> if may_see V (srv_world s) uid False j then Inr j else Inl ItemNotFoundError)"
  have "on_world (get_job V now jid uid False) s = (x, s)"
    using scheduler.get_job_eval [OF assms(1,2), of now jid uid False] by (simp add: prog_simps x_def)
  then have g: "on_world (get_job V now jid uid False) s = (Inr j, s)" if "x = Inr j" for j
    using that by simp
  have g': "on_world (get_job V now jid uid False) s = (Inl e, s)" if "x = Inl e" for e
    using that \<open>on_world _ s = (x, s)\<close> by simp
  have "get_mss_token_claims A V now expected fld req s =
    (if token_jid \<noteq> Some jid then (Inl UnauthorizedError, s)
     else case x of
         Inr j \<Rightarrow> (if expected then Inr (uid, jid) else Inl ConflictError, s)
       | Inl e \<Rightarrow> (if e = ItemNotFoundError
           then if expected then Inl UnauthorizedError else Inr (uid, jid) else Inl e, s))"
    using assms(3-5) by (cases x) (auto simp: get_mss_token_claims_def prog_simps g g')
  then show ?thesis by (auto simp: x_def split: option.splits)
qed

definition token_request :: "string \<Rightarrow> string \<Rightarrow> request" where
  "token_request jid token = \<lparr>req_headers = [(''authorization'', ''Bearer '' @ token)],
     req_path_params = [(''job_id'', jid)], req_upload = None, req_client_host = ''h''\<rparr>"

lemma token_request_facts:
  "get_job_id_dependency ''job_id'' (token_request jid token) = Inr jid"
  "\<forall>c\<in>set token. \<not> py_space c \<Longrightarrow> get_bearer_token (token_request jid token) = Inr token"
  by (simp_all add: get_job_id_dependency_def token_request_def bearer_token)

text \<open>A library that reads every token as one of the user \<open>u\<close> for the job \<open>a\<close>.\<close>

definition one_token_auth :: auth where
  "one_token_auth = sample_auth\<lparr>au_jwt_decode := (\<lambda>_ _. Inr [(''job'', Some ''a''), (''sub'', Some ''u'')])\<rparr>"

lemma one_token_facts:
  "get_bearer_token (token_request jid ''t'') = Inr ''t''"
  "get_user_job_id_pair_from_token one_token_auth now token = Inr (''u'', Some ''a'')"
  by (simp_all add: token_request_facts py_space_def one_token_auth_def get_user_job_id_pair_from_token_def claim_def)

theorem token_opens_its_job_witness:
  "get_mss_token_claims one_token_auth mem_services 5 True ''job_id'' (token_request ''a'' ''t'') sample_server
    = (Inr (''u'', ''a''), sample_server)"
proof -
  have j: "job_ok (sample_job ''a'' 5)" "plain_job (sample_job ''a'' 5)" by simp_all
  have ok: "jobs_ok mem_services (srv_world sample_server)"
    using user_world_facts(1) [OF j] by (simp add: sample_server_facts)
  show ?thesis
    using token_opens_its_job [where expected = True and now = 5, OF mem_sched.scheduler_axioms ok token_request_facts(1) one_token_facts]
    by (simp add: sample_server_facts user_world_facts [OF j] may_see_def)
qed

text \<open>The two outcomes of a submission with a valid token.\<close>

lemma submission_by_token:
  assumes "scheduler V" and "jobs_ok V (srv_world s)" and "CHR '':'' \<notin> set jid" and "CHR '':'' \<notin> set uid"
    and "sv_last_calibrated V = Inr cal"
    and "get_active_booking (sv_db V) now (w_db (srv_world s)) = (Inr ab, w_db (srv_world s))"
    and "can_join V (srv_world s) (static_name (qp_preprocessing queues)) (new_job jid (backend_name ctx) cal (Some uid) PRE_PROC_Q now)"
    and "get_job_id_dependency ''job_id'' req = Inr jid" and "get_bearer_token req = Inr token"
    and "get_user_job_id_pair_from_token A now token = Inr (uid, Some jid)"
    and "uid \<in> u_id ` set (all_users (sv_db V) (w_db (srv_world s)))"
  shows "jobs V (srv_world s) jid = None \<Longrightarrow>
      \<exists>s'. api_submit_job A V now ctx queues (Inr ()) (Inr path) force req s = (Inr (new_job jid (backend_name ctx) cal (Some uid) PRE_PROC_Q now), s') \<and>
        jobs_ok V (srv_world s') \<and> w_db (srv_world s') = w_db (srv_world s) \<and>
        jobs V (srv_world s') = (jobs V (srv_world s))(jid \<mapsto> new_job jid (backend_name ctx) cal (Some uid) PRE_PROC_Q now)"
    and "jobs V (srv_world s) jid \<noteq> None \<Longrightarrow>
      api_submit_job A V now ctx queues (Inr ()) uploaded force req s = (Inl ConflictError, s)"
proof -
  assume None: "jobs V (srv_world s) jid = None"
  let ?ctx = "ctx\<lparr>force_normal_queue := Some force\<rparr>"
  let ?j = "new_job jid (backend_name ?ctx) cal (Some uid) PRE_PROC_Q now"
  have join: "can_join V (srv_world s) (static_name (qp_preprocessing queues)) ?j" using assms(7) by simp
  obtain w where w: "submit_job_file V now ?ctx queues (Inr path) jid uid (srv_world s) = (Inr ?j, w)"
    "jobs_ok V w" "jobs V w = (jobs V (srv_world s))(jid \<mapsto> ?j)" "w_db w = w_db (srv_world s)"
    using scheduler.submit_job_file_eval [OF assms(1,2,3,4) None assms(5,6) join, of path] by blast
  have "get_mss_token_claims A V now False ''job_id'' req s = (Inr (uid, jid), s)"
    using token_opens_its_job [OF assms(1,2,8,9,10), of False] assms(11) None by simp
  then have "api_submit_job A V now ctx queues (Inr ()) (Inr path) force req s = (Inr ?j, s\<lparr>srv_world := w\<rparr>)"
    by (simp add: api_submit_job_def validate_job_file_def prog_simps route_submit_job_def w(1))
  then show "\<exists>s'. api_submit_job A V now ctx queues (Inr ()) (Inr path) force req s = (Inr (new_job jid (backend_name ctx) cal (Some uid) PRE_PROC_Q now), s') \<and>
      jobs_ok V (srv_world s') \<and> w_db (srv_world s') = w_db (srv_world s) \<and>
      jobs V (srv_world s') = (jobs V (srv_world s))(jid \<mapsto> new_job jid (backend_name ctx) cal (Some uid) PRE_PROC_Q now)" using w(2-4) by auto
next
  assume "jobs V (srv_world s) jid \<noteq> None"
  then obtain j where stored: "jobs V (srv_world s) jid = Some j" by auto
  have "submit_job_file V now (ctx\<lparr>force_normal_queue := Some force\<rparr>) queues uploaded jid uid (srv_world s)
      = (Inl ConflictError, srv_world s)"
    using scheduler.submit_job_file_refused(1) [OF assms(1,2)] stored by auto
  moreover have "get_mss_token_claims A V now False ''job_id'' req s =
      (if may_see V (srv_world s) uid False j then Inl ConflictError else Inr (uid, jid), s)"
    using token_opens_its_job [OF assms(1,2,8,9,10), of False] assms(11) stored by auto
  ultimately show "api_submit_job A V now ctx queues (Inr ()) uploaded force req s = (Inl ConflictError, s)"
    by (cases "may_see V (srv_world s) uid False j")
      (simp_all add: api_submit_job_def validate_job_file_def prog_simps route_submit_job_def)
qed

text \<open>
  C38. What a token does, in any state: as long as its job is stored, every submission with a token for
  it, whatever file it carries, is refused with \<open>ConflictError\<close> and changes nothing; when no job of
  its id is stored, the submission stores one, the new job of the token's user under the token's id,
  and changes no other job. So a token submits once for as long as its job is kept; nothing else
  ends it before it expires, and once the job is deleted the same token submits a second time
  (\<open>deleted_job_submitted_again\<close>).
\<close>
theorem token_submits_unless_stored:
  assumes "scheduler V" and "jobs_ok V (srv_world s)" and "CHR '':'' \<notin> set jid" and "CHR '':'' \<notin> set uid"
    and "sv_last_calibrated V = Inr cal"
    and "get_active_booking (sv_db V) now (w_db (srv_world s)) = (Inr ab, w_db (srv_world s))"
    and "can_join V (srv_world s) (static_name (qp_preprocessing queues)) (new_job jid (backend_name ctx) cal (Some uid) PRE_PROC_Q now)"
    and "get_job_id_dependency ''job_id'' req = Inr jid" and "get_bearer_token req = Inr token"
    and "get_user_job_id_pair_from_token A now token = Inr (uid, Some jid)"
    and "uid \<in> u_id ` set (all_users (sv_db V) (w_db (srv_world s)))"
  shows "if jobs V (srv_world s) jid = None then
      \<exists>s'. api_submit_job A V now ctx queues (Inr ()) (Inr path) force req s =
          (Inr (new_job jid (backend_name ctx) cal (Some uid) PRE_PROC_Q now), s') \<and>
        jobs_ok V (srv_world s') \<and> w_db (srv_world s') = w_db (srv_world s) \<and>
        jobs V (srv_world s') = (jobs V (srv_world s))(jid \<mapsto> new_job jid (backend_name ctx) cal (Some uid) PRE_PROC_Q now)
    else \<forall>uploaded. api_submit_job A V now ctx queues (Inr ()) uploaded force req s = (Inl ConflictError, s)"
  using submission_by_token [OF assms] by auto

text \<open>After its job was deleted, a token that has not expired submits once more.\<close>

theorem deleted_job_submitted_again:
  assumes "scheduler V" and "jobs_ok V w" and "CHR '':'' \<notin> set jid" and "CHR '':'' \<notin> set uid"
    and "jobs V w jid = Some j" and "may_see V w uid adm j" and "cancellable V pfx j w"
    and "uid \<in> u_id ` set (all_users (sv_db V) (w_db w))"
    and "sv_last_calibrated V = Inr cal" and "get_active_booking (sv_db V) later (w_db w) = (Inr ab, w_db w)"
    and "get_job_id_dependency ''job_id'' req = Inr jid" and "get_bearer_token req = Inr token"
    and "get_user_job_id_pair_from_token A later token = Inr (uid, Some jid)"
    and "\<forall>x w'. delete_job V now (queue_pool_of pfx) jid uid adm w = (x, w') \<longrightarrow>
      can_join V w' (static_name (qp_preprocessing queues)) (new_job jid (backend_name ctx) cal (Some uid) PRE_PROC_Q later)"
  shows "\<exists>w' j' s'. delete_job V now (queue_pool_of pfx) jid uid adm w = (Inr (cancelled_job None now j), w') \<and>
    api_submit_job A V later ctx queues (Inr ()) (Inr path) force req \<lparr>srv_world = w', srv_logs = logs\<rparr> = (Inr j', s') \<and>
    jobs V (srv_world s') jid = Some j'"
proof -
  obtain w' where w': "delete_job V now (queue_pool_of pfx) jid uid adm w = (Inr (cancelled_job None now j), w')"
    "jobs_ok V w'" "jobs V w' = (jobs V w)(jid := None)" "w_db w' = w_db w"
    using scheduler.delete_job_done [OF assms(1,2,5,8,6,7)] by blast
  have join: "can_join V w' (static_name (qp_preprocessing queues)) (new_job jid (backend_name ctx) cal (Some uid) PRE_PROC_Q later)"
    using assms(14) w'(1) by blast
  let ?s = "\<lparr>srv_world = w', srv_logs = logs\<rparr>"
  have "\<exists>s'. api_submit_job A V later ctx queues (Inr ()) (Inr path) force req ?s =
      (Inr (new_job jid (backend_name ctx) cal (Some uid) PRE_PROC_Q later), s') \<and>
      jobs V (srv_world s') jid = Some (new_job jid (backend_name ctx) cal (Some uid) PRE_PROC_Q later)"
    using submission_by_token(1) [OF assms(1) _ assms(3,4,9) _ _ assms(11-13), of ?s] w' join assms(8,10) by fastforce
  with w'(1) show ?thesis by blast
qed

lemma token_submits_unless_stored_witness:
  "(\<exists>j s'. api_submit_job one_token_auth mem_services 7 sample_context (queue_pool_of ''loke'') (Inr ()) (Inr ''/f'') True
      (token_request ''a'' ''t'') \<lparr>srv_world = user_world (sample_job ''b'' 5), srv_logs = None\<rparr> = (Inr j, s') \<and>
    job_id j = ''a'' \<and> user_id j = Some ''u'' \<and> jobs mem_services (srv_world s') ''a'' = Some j) \<and>
   api_submit_job one_token_auth mem_services 9 sample_context (queue_pool_of ''loke'') (Inr ()) (Inr ''/g'') True
      (token_request ''a'' ''t'') \<lparr>srv_world = user_world (sample_job ''a'' 5), srv_logs = None\<rparr>
    = (Inl ConflictError, \<lparr>srv_world = user_world (sample_job ''a'' 5), srv_logs = None\<rparr>)"
proof -
  let ?s = "\<lambda>i. \<lparr>srv_world = user_world (sample_job i 5), srv_logs = None\<rparr>"
  have j: "job_ok (sample_job ''a'' 5)" "plain_job (sample_job ''a'' 5)" "job_ok (sample_job ''b'' 5)" "plain_job (sample_job ''b'' 5)"
    by simp_all
  note f = user_world_facts [OF j(1,2)] user_world_facts [OF j(3,4)]
  have cal: "sv_last_calibrated mem_services = Inr ''2025-01-01''" by (simp add: mem_services_def)
  have ok: "jobs_ok mem_services (srv_world (?s ''a''))" "jobs_ok mem_services (srv_world (?s ''b''))" using f by simp_all
  note law = token_submits_unless_stored [OF mem_sched.scheduler_axioms _ _ _ cal _ _ token_request_facts(1) one_token_facts(1,2),
      where ctx = sample_context and queues = "queue_pool_of ''loke''" and force = True and ab = None]
  have "\<exists>j s'. api_submit_job one_token_auth mem_services 7 sample_context (queue_pool_of ''loke'') (Inr ()) (Inr ''/f'') True
      (token_request ''a'' ''t'') (?s ''b'') = (Inr j, s') \<and>
    job_id j = ''a'' \<and> user_id j = Some ''u'' \<and> jobs mem_services (srv_world s') ''a'' = Some j"
    using law [of "?s ''b''" 7 "''/f''"] ok user_world_join [OF j(3,4)] sample_active_booking by (fastforce simp: f)
  moreover have "api_submit_job one_token_auth mem_services 9 sample_context (queue_pool_of ''loke'') (Inr ()) (Inr ''/g'') True
      (token_request ''a'' ''t'') (?s ''a'') = (Inl ConflictError, ?s ''a'')"
    using law [of "?s ''a''" 9 "''/g''"] ok user_world_join [OF j(1,2)] sample_active_booking by (fastforce simp: f)
  ultimately show ?thesis by blast
qed

section \<open>Reading a job over HTTP\<close>

text \<open>
  What a client sees that asks for a job with a signed request: 401 when the nonce was used or the user
  is unknown, 200 when the user may see the job, 404 in every other case, so that a stranger's job and
  no job look the same. The request leaves every job and every queue as it was.
\<close>
theorem view_job_answers:
  assumes "scheduler V" and "jobs_ok V (srv_world s)" and "authentic A now req uid nonce"
  shows "\<exists>rsp s2. log_requests (sv_redis V) now req fresh fresh_inner (route_view_job A V now jid req) s = (Inr rsp, s2) \<and>
    rs_status rsp =
      (if is_logged (sv_redis V) (w_redis (srv_world s)) nonce \<or>
          uid \<notin> u_id ` set (all_users (sv_db V) (w_db (srv_world s))) then 401
       else if \<exists>j. jobs V (srv_world s) jid = Some j \<and>
          may_see V (srv_world s) uid (get_unverified_mss_is_admin req) j then 200 else 404) \<and>
    jobs V (srv_world s2) = jobs V (srv_world s) \<and>
    queue_entries V (srv_world s2) = queue_entries V (srv_world s)"
proof -
  have jr: "job_redis (sv_redis V)" using assms(1) by (simp add: scheduler_def)
  let ?used = "is_logged (sv_redis V) (w_redis (srv_world s)) nonce"
  define x where "x = (if ?used \<or> uid \<notin> u_id ` set (all_users (sv_db V) (w_db (srv_world s)))
     then Inl NotAuthenticatedError
     else case jobs V (srv_world s) jid of
         None \<Rightarrow> Inl ItemNotFoundError
       | Some j \<Rightarrow> if may_see V (srv_world s) uid (get_unverified_mss_is_admin req) j then Inr j
                   else Inl ItemNotFoundError)"
  have g: "on_world (get_job V now jid uid (get_unverified_mss_is_admin req)) (logs_open now s)
      = (x, logs_open now s)" if "\<not> ?used"
    using scheduler.get_job_eval [OF assms(1,2), of now jid uid "get_unverified_mss_is_admin req"] that
    by (simp add: prog_simps x_def server_same [of "logs_open now s", simplified])
  have r: "route_view_job A V now jid req s = (x, logs_open now s)"
    using authentic_eval [OF jr assms(3), of s] g
    by (cases ?used) (simp_all add: route_view_job_def prog_simps x_def)
  have "case x of Inl e \<Rightarrow> http_status e \<noteq> None | Inr _ \<Rightarrow> True"
    by (auto simp: x_def split: option.splits)
  from log_requests_eval [where route = "route_view_job A V now jid req", OF jr r this, of now req fresh fresh_inner]
  obtain rsp s2 where s2: "log_requests (sv_redis V) now req fresh fresh_inner (route_view_job A V now jid req) s = (Inr rsp, s2)"
    "rs_status rsp = (case x of Inl e \<Rightarrow> the (http_status e) | Inr _ \<Rightarrow> 200)"
    "job_redis.same_jobs (sv_redis V) (w_redis (srv_world s)) (w_redis (srv_world s2))"
    "\<forall>n. job_redis.same_queue (sv_redis V) n (w_redis (srv_world s)) (w_redis (srv_world s2))"
    by auto
  have "rs_status rsp =
      (if ?used \<or> uid \<notin> u_id ` set (all_users (sv_db V) (w_db (srv_world s))) then 401
       else if \<exists>j. jobs V (srv_world s) jid = Some j \<and>
          may_see V (srv_world s) uid (get_unverified_mss_is_admin req) j then 200 else 404)"
    by (auto simp: s2(2) x_def split: option.splits)
  moreover have "jobs V (srv_world s2) = jobs V (srv_world s)"
    using job_redis.same_jobs_of [OF jr s2(3)] by (simp add: jobs_def)
  moreover have "queue_entries V (srv_world s2) = queue_entries V (srv_world s)"
    using job_redis.same_queue_contents [OF jr] s2(4) by (auto simp: queue_entries_def fun_eq_iff)
  ultimately show ?thesis using s2(1) by blast
qed

theorem view_job_answers_witness:
  "\<exists>rsp s2. log_requests mem_redis 0 (signed_request ''u'' ''n'' ''u-n-0'') ''f'' ''g''
      (route_view_job sample_auth mem_services 0 ''a'' (signed_request ''u'' ''n'' ''u-n-0'')) sample_server = (Inr rsp, s2) \<and>
    rs_status rsp = 200"
proof -
  have j: "job_ok (sample_job ''a'' 5)" "plain_job (sample_job ''a'' 5)" by simp_all
  have ok: "jobs_ok mem_services (srv_world sample_server)"
    using user_world_facts(1) [OF j] by (simp add: sample_server_facts)
  have a: "authentic sample_auth 0 (signed_request ''u'' ''n'' ''u-n-0'') ''u'' ''n''"
    using sample_auth_facts(2) [of "''u''" "''n''"] by (simp add: signed_message_def)
  show ?thesis
    using view_job_answers [where fresh = "''f''" and fresh_inner = "''g''" and jid = "''a''",
        OF mem_sched.scheduler_axioms ok a] sample_server_facts(2)
    by (auto simp: sample_server_facts(1) user_world_facts [OF j] may_see_def)
qed

end
