(* ===== verification/Quantify_Channel.thy ===== *)
theory Quantify_Channel imports Native_Config begin

text \<open>
  Channels and instructions of the Quantify executor:
  \<^verbatim>\<open>app/libs/quantum_executor/quantify/channel.py\<close> and \<^verbatim>\<open>instruction.py\<close>. An instruction refers to
  its channel by the channel's clock, the key of the registry, since both are the one mutable object
  of the code. Operations of quantify-scheduler are terms that record what the code passes.
\<close>

section \<open>Numbers\<close>

definition QBLOX_TIMEGRID_INTERVAL :: rat where
  "QBLOX_TIMEGRID_INTERVAL = 4 / 10 ^ 9"

definition DT_CONST :: rat where
  "DT_CONST = 1 / 10 ^ 9"

definition INITIAL_RESET_VALUE :: rat where
  "INITIAL_RESET_VALUE = 500 / 10 ^ 6"

definition map_to_qblox_timegrid :: "rat \<Rightarrow> rat" where
  "map_to_qblox_timegrid raw_time =
     of_int (py_round (raw_time / QBLOX_TIMEGRID_INTERVAL)) * QBLOX_TIMEGRID_INTERVAL"

text \<open>\<open>math.pi\<close> is a double, a rational number; \<open>round(x, 12)\<close> rounds to twelve decimals.\<close>

definition py_pi :: rat where
  "py_pi = 884279719003555 / 281474976710656"

definition degrees :: "rat \<Rightarrow> rat" where
  "degrees x = x * 180 / py_pi"

definition round12 :: "rat \<Rightarrow> rat" where
  "round12 x = of_int (py_round (x * 10 ^ 12)) / 10 ^ 12"

section \<open>Instructions\<close>

datatype param = PNum rat | PComplex rat rat

type_synonym params = "(string \<times> param) list"

datatype kind =
    InitialObject
  | Acquire nat string bin_mode
  | Delay
  | SetFreq rat
  | ShiftFreq rat
  | SetPhase rat
  | ShiftPhase rat
  | GaussPulse "string option" params
  | SquarePulse "string option" params
  | PulseLib
  | WacqtCZ params

record instruction =
  in_name :: string
  in_t0 :: rat
  in_clock :: string
  in_port :: string
  in_duration :: rat
  in_kind :: kind
  in_label :: string
  in_position :: nat

definition is_freq_control :: "instruction \<Rightarrow> bool" where
  "is_freq_control i \<longleftrightarrow> (case in_kind i of SetFreq _ \<Rightarrow> True | ShiftFreq _ \<Rightarrow> True | _ \<Rightarrow> False)"

section \<open>Channels\<close>

record channel =
  ch_clock :: string
  ch_instructions :: "instruction list"
  ch_phase_playback :: "rat list"
  ch_frequency_playback :: "rat list"
  ch_acquisition_playback :: "int list"

definition new_channel :: "string \<Rightarrow> channel" where
  "new_channel clock = \<lparr>ch_clock = clock, ch_instructions = [], ch_phase_playback = [],
     ch_frequency_playback = [], ch_acquisition_playback = []\<rparr>"

text \<open>The last entry of a playback, zero when there is none.\<close>

definition final_of :: "channel \<Rightarrow> 'a::zero list \<Rightarrow> 'a" where
  "final_of ch playback =
     (case py_at playback (int (length (ch_instructions ch)) - 1) of Inl _ \<Rightarrow> 0 | Inr x \<Rightarrow> x)"

definition final_phase :: "channel \<Rightarrow> rat" where
  "final_phase ch = final_of ch (ch_phase_playback ch)"

definition final_frequency :: "channel \<Rightarrow> rat" where
  "final_frequency ch = final_of ch (ch_frequency_playback ch)"

definition final_acquisitions :: "channel \<Rightarrow> int" where
  "final_acquisitions ch = final_of ch (ch_acquisition_playback ch)"

definition get_phase_at_position :: "channel \<Rightarrow> int \<Rightarrow> rat result" where
  "get_phase_at_position ch i = py_at (ch_phase_playback ch) i"

definition get_freq_at_position :: "channel \<Rightarrow> int \<Rightarrow> rat result" where
  "get_freq_at_position ch i = py_at (ch_frequency_playback ch) i"

definition get_acquisitions_at_position :: "channel \<Rightarrow> int \<Rightarrow> int result" where
  "get_acquisitions_at_position ch i = py_at (ch_acquisition_playback ch) i"

definition get_phase_delta :: "channel \<Rightarrow> instruction \<Rightarrow> rat" where
  "get_phase_delta ch i =
     (case in_kind i of SetPhase p \<Rightarrow> p - final_phase ch | ShiftPhase p \<Rightarrow> p | _ \<Rightarrow> 0)"

definition get_frequency_delta :: "channel \<Rightarrow> instruction \<Rightarrow> rat" where
  "get_frequency_delta ch i =
     (case in_kind i of SetFreq f \<Rightarrow> f - final_frequency ch | ShiftFreq f \<Rightarrow> f | _ \<Rightarrow> 0)"

definition get_acquisitions_delta :: "channel \<Rightarrow> instruction \<Rightarrow> int" where
  "get_acquisitions_delta ch i = (case in_kind i of Acquire _ _ _ \<Rightarrow> 1 | _ \<Rightarrow> 0)"

text \<open>\<open>register_instruction\<close>, with the position that \<open>register\<close> then sets on the instruction.\<close>

definition register_instruction :: "channel \<Rightarrow> instruction \<Rightarrow> channel" where
  "register_instruction ch i =
     (let index = length (ch_instructions ch) in
      ch\<lparr>ch_phase_playback := ch_phase_playback ch @ [final_phase ch + get_phase_delta ch i],
         ch_frequency_playback := ch_frequency_playback ch @ [final_frequency ch + get_frequency_delta ch i],
         ch_acquisition_playback :=
           ch_acquisition_playback ch @ [final_acquisitions ch + get_acquisitions_delta ch i],
         ch_instructions := ch_instructions ch @ [i\<lparr>in_position := index\<rparr>]\<rparr>)"

section \<open>The registry\<close>

text \<open>
  The channels in the order of their creation, and how many labels (\<open>uuid4\<close>) have been drawn;
  the texts drawn are the argument \<open>fresh\<close>.
\<close>

record registry =
  rg_channels :: "(string \<times> channel) list"
  rg_drawn :: nat

definition registry_get :: "string \<Rightarrow> (unit, registry) prog" where
  "registry_get clock = modE (\<lambda>r.
     case map_of (rg_channels r) clock of
       Some _ \<Rightarrow> r
     | None \<Rightarrow> r\<lparr>rg_channels := rg_channels r @ [(clock, new_channel clock)]\<rparr>)"

definition build ::
    "(nat \<Rightarrow> string) \<Rightarrow> string \<Rightarrow> rat \<Rightarrow> string \<Rightarrow> string \<Rightarrow> rat \<Rightarrow> kind \<Rightarrow> (instruction, registry) prog" where
  "build fresh name t0 clock port dur k r =
     (Inr \<lparr>in_name = name, in_t0 = t0, in_clock = clock, in_port = port, in_duration = dur, in_kind = k,
           in_label = fresh (rg_drawn r), in_position = 0\<rparr>, r\<lparr>rg_drawn := Suc (rg_drawn r)\<rparr>)"

definition register :: "instruction \<Rightarrow> (unit, registry) prog" where
  "register i = modE (\<lambda>r. r\<lparr>rg_channels :=
     map (\<lambda>(c, ch). (c, if c = in_clock i then register_instruction ch i else ch)) (rg_channels r)\<rparr>)"

section \<open>From the instructions of a qobj\<close>

record qobj_inst =
  qi_name :: string
  qi_t0 :: int
  qi_ch :: "string option"
  qi_duration :: "int option"
  qi_qubits :: "nat list option"
  qi_memory_slot :: "nat list option"
  qi_phase :: "rat option"
  qi_frequency :: "rat option"
  qi_pulse_shape :: "string option"
  qi_parameters :: "params option"

type_synonym hardware_map = "(string \<times> (string \<times> string)) list"

record frequencies =
  fr_lo :: "(string \<times> rat) list"
  fr_drive :: "(string \<times> rat) list"

text \<open>An element of the list: an instruction, or the bare phase reset that is never registered.\<close>

datatype listed = Listed instruction | ListedReset string

definition grid_time :: "int \<Rightarrow> rat" where
  "grid_time t = map_to_qblox_timegrid (of_int t * DT_CONST)"

text \<open>\<open>params["duration"] * DT_CONST\<close> on the grid; a complex number cannot be rounded.\<close>

definition grid_duration :: "params \<Rightarrow> rat result" where
  "grid_duration ps = bind_result (dict_get ps ''duration'') (\<lambda>d.
     case d of PNum x \<Rightarrow> Inr (map_to_qblox_timegrid (x * DT_CONST)) | PComplex _ _ \<Rightarrow> Inl TypeError)"

text \<open>The clock and the port of the instruction's channel, whose entry in the registry is made.\<close>

definition channel_of :: "hardware_map \<Rightarrow> qobj_inst \<Rightarrow> (string \<times> string, registry) prog" where
  "channel_of hw q =
     bindE (liftE (attr (qi_ch q))) (\<lambda>ch.
     bindE (liftE (dict_get hw ch)) (\<lambda>(clock, port).
     thenE (registry_get clock) (retE (clock, port))))"

definition acquire_list ::
    "(nat \<Rightarrow> string) \<Rightarrow> native_config \<Rightarrow> hardware_map \<Rightarrow> qobj_inst \<Rightarrow> (listed list, registry) prog" where
  "acquire_list fresh native hw q =
     bindE (liftE (attr (qi_duration q))) (\<lambda>dur.
     bindE (liftE (attr (qi_qubits q))) (\<lambda>qubits.
       mapE (\<lambda>(n, qubit_idx).
         bindE (liftE (dict_get hw (CHR ''m'' # nat_text qubit_idx))) (\<lambda>(clock, port).
         thenE (registry_get clock)
           (bindE (liftE (attr (qi_memory_slot q))) (\<lambda>slots.
            bindE (liftE (py_at slots (int n))) (\<lambda>slot.
            bindE (build fresh ''acquire'' (grid_time (qi_t0 q)) clock port (grid_time dur)
                     (Acquire slot (protocol_value (nc_protocol native)) (nc_bin_mode native))) (\<lambda>i.
              retE (Listed i)))))))
         (List.enumerate 0 qubits)))"

definition delay_list ::
    "(nat \<Rightarrow> string) \<Rightarrow> hardware_map \<Rightarrow> qobj_inst \<Rightarrow> (listed list, registry) prog" where
  "delay_list fresh hw q =
     bindE (channel_of hw q) (\<lambda>(clock, port).
     bindE (liftE (attr (qi_duration q))) (\<lambda>dur.
     bindE (build fresh ''delay'' (grid_time (qi_t0 q)) clock port (grid_time dur) Delay) (\<lambda>i. retE [Listed i])))"

definition set_freq_list ::
    "(nat \<Rightarrow> string) \<Rightarrow> hardware_map \<Rightarrow> qobj_inst \<Rightarrow> (listed list, registry) prog" where
  "set_freq_list fresh hw q =
     bindE (channel_of hw q) (\<lambda>(clock, port).
     bindE (liftE (attr (qi_frequency q))) (\<lambda>f.
     bindE (build fresh ''setf'' (grid_time (qi_t0 q)) clock port 0 (SetFreq (f * 10 ^ 9))) (\<lambda>i. retE [Listed i])))"

definition shift_freq_list ::
    "(nat \<Rightarrow> string) \<Rightarrow> hardware_map \<Rightarrow> qobj_inst \<Rightarrow> (listed list, registry) prog" where
  "shift_freq_list fresh hw q =
     bindE (channel_of hw q) (\<lambda>(clock, port).
     bindE (liftE (attr (qi_frequency q))) (\<lambda>f.
     bindE (build fresh ''shiftf'' (grid_time (qi_t0 q)) clock port 0 (ShiftFreq f)) (\<lambda>i. retE [Listed i])))"

definition set_phase_list ::
    "(nat \<Rightarrow> string) \<Rightarrow> hardware_map \<Rightarrow> qobj_inst \<Rightarrow> (listed list, registry) prog" where
  "set_phase_list fresh hw q =
     bindE (channel_of hw q) (\<lambda>(clock, port).
     bindE (liftE (attr (qi_phase q))) (\<lambda>p.
     bindE (build fresh ''setp'' (grid_time (qi_t0 q)) clock port 0 (SetPhase (round12 (degrees p))))
       (\<lambda>i. retE [Listed i])))"

text \<open>The sign of a frame change depends on the side of the local oscillator the drive is on.\<close>

definition shift_phase_list ::
    "(nat \<Rightarrow> string) \<Rightarrow> frequencies \<Rightarrow> hardware_map \<Rightarrow> qobj_inst \<Rightarrow> (listed list, registry) prog" where
  "shift_phase_list fresh fr hw q =
     bindE (channel_of hw q) (\<lambda>(clock, port).
     bindE (liftE (attr (qi_phase q))) (\<lambda>p.
     let phase_degree = degrees p;
         flipped = (case (map_of (fr_drive fr) clock, map_of (fr_lo fr) (port @ ''-'' @ clock)) of
             (Some drive, Some lo) \<Rightarrow> if lo < drive then - phase_degree else phase_degree
           | _ \<Rightarrow> phase_degree)
     in bindE (build fresh ''fc'' (grid_time (qi_t0 q)) clock port 0 (ShiftPhase flipped)) (\<lambda>i. retE [Listed i])))"

definition gauss_list ::
    "(nat \<Rightarrow> string) \<Rightarrow> hardware_map \<Rightarrow> qobj_inst \<Rightarrow> (listed list, registry) prog" where
  "gauss_list fresh hw q =
     bindE (liftE (attr (qi_parameters q))) (\<lambda>ps.
     bindE (liftE (grid_duration ps)) (\<lambda>dur.
     bindE (channel_of hw q) (\<lambda>(clock, port).
     bindE (build fresh (qi_name q) (grid_time (qi_t0 q)) clock port dur (GaussPulse (qi_pulse_shape q) ps))
       (\<lambda>i. retE [Listed i]))))"

definition square_list ::
    "(nat \<Rightarrow> string) \<Rightarrow> hardware_map \<Rightarrow> qobj_inst \<Rightarrow> (listed list, registry) prog" where
  "square_list fresh hw q =
     bindE (liftE (attr (qi_parameters q))) (\<lambda>ps.
     bindE (liftE (grid_duration ps)) (\<lambda>dur.
     bindE (channel_of hw q) (\<lambda>(clock, port).
     bindE (build fresh (qi_name q) (grid_time (qi_t0 q)) clock port dur (SquarePulse (qi_pulse_shape q) ps))
       (\<lambda>i. retE [ListedReset clock, Listed i]))))"

definition pulse_lib_list ::
    "(nat \<Rightarrow> string) \<Rightarrow> qobj_config \<Rightarrow> hardware_map \<Rightarrow> qobj_inst \<Rightarrow> (listed list, registry) prog" where
  "pulse_lib_list fresh config hw q =
     bindE (channel_of hw q) (\<lambda>(clock, port).
     bindE (liftE (dict_get (qc_pulse_library config) (qi_name q))) (\<lambda>samples.
     bindE (build fresh (qi_name q) (grid_time (qi_t0 q)) clock port (grid_time (int (length samples))) PulseLib)
       (\<lambda>i. retE [Listed i])))"

definition wacqt_cz_list ::
    "(nat \<Rightarrow> string) \<Rightarrow> hardware_map \<Rightarrow> qobj_inst \<Rightarrow> (listed list, registry) prog" where
  "wacqt_cz_list fresh hw q =
     (let is_name_ok = lower (qi_name q) \<in> {''wacqt_cz'', ''parametric_pulse''};
          shape = (case qi_pulse_shape q of None \<Rightarrow> ''wacqt_cz'' | Some s \<Rightarrow> s);
          shape_ok = lower shape \<in> {''wacqt_cz'', ''wacqt_cz_gate_pulse''}
      in if \<not> (is_name_ok \<and> shape_ok) then retE []
         else bindE (liftE (attr (qi_parameters q))) (\<lambda>raw.
              let ps = dict_of (map (\<lambda>(k, v). (lower k, v)) raw) in
              bindE (liftE (grid_duration ps)) (\<lambda>dur.
              bindE (channel_of hw q) (\<lambda>(clock, port).
              bindE (build fresh ''wacqt_cz'' (grid_time (qi_t0 q)) clock port dur (WacqtCZ ps))
                (\<lambda>i. retE [Listed i])))))"

text \<open>The table from a name and a shape to the class, and the fallback to the pulse library.\<close>

definition list_from_qobj_inst ::
    "(nat \<Rightarrow> string) \<Rightarrow> qobj_config \<Rightarrow> native_config \<Rightarrow> frequencies \<Rightarrow> hardware_map \<Rightarrow> qobj_inst
      \<Rightarrow> (listed list, registry) prog" where
  "list_from_qobj_inst fresh config native fr hw q =
     (let key = (qi_name q, qi_pulse_shape q) in
      if key = (''setf'', None) then set_freq_list fresh hw q
      else if key = (''shiftf'', None) then shift_freq_list fresh hw q
      else if key = (''setp'', None) then set_phase_list fresh hw q
      else if key = (''fc'', None) then shift_phase_list fresh fr hw q
      else if key = (''delay'', None) then delay_list fresh hw q
      else if key = (''acquire'', None) then acquire_list fresh native hw q
      else if key = (''parametric_pulse'', Some ''gaussian'') \<or> key = (''parametric_pulse'', Some ''drag'')
        then gauss_list fresh hw q
      else if key = (''parametric_pulse'', Some ''constant'') then square_list fresh hw q
      else if key = (''parametric_pulse'', Some ''wacqt_cz'') \<or> key = (''parametric_pulse'', Some ''wacqt_cz_gate_pulse'')
        then wacqt_cz_list fresh hw q
      else if map_of (qc_pulse_library config) (qi_name q) \<noteq> None then pulse_lib_list fresh config hw q
      else raiseE RuntimeError)"

definition add_instruction_to_channel_registry ::
    "(nat \<Rightarrow> string) \<Rightarrow> qobj_config \<Rightarrow> native_config \<Rightarrow> frequencies \<Rightarrow> hardware_map \<Rightarrow> qobj_inst
      \<Rightarrow> (unit, registry) prog" where
  "add_instruction_to_channel_registry fresh config native fr hw q =
     bindE (list_from_qobj_inst fresh config native fr hw q) (\<lambda>ls.
       forE ls (\<lambda>l. case l of Listed i \<Rightarrow> register i | ListedReset _ \<Rightarrow> retE ()))"

section \<open>What a channel plays\<close>

text \<open>
  The reference: the phase, the frequency and the number of acquisitions after a list of
  instructions, from zero.
\<close>

definition phase_step :: "rat \<Rightarrow> instruction \<Rightarrow> rat" where
  "phase_step p i = (case in_kind i of SetPhase q \<Rightarrow> q | ShiftPhase d \<Rightarrow> p + d | _ \<Rightarrow> p)"

definition frequency_step :: "rat \<Rightarrow> instruction \<Rightarrow> rat" where
  "frequency_step f i = (case in_kind i of SetFreq g \<Rightarrow> g | ShiftFreq d \<Rightarrow> f + d | _ \<Rightarrow> f)"

definition is_acquire :: "instruction \<Rightarrow> bool" where
  "is_acquire i \<longleftrightarrow> (case in_kind i of Acquire _ _ _ \<Rightarrow> True | _ \<Rightarrow> False)"

definition phase_after :: "instruction list \<Rightarrow> rat" where
  "phase_after js = foldl phase_step 0 js"

definition frequency_after :: "instruction list \<Rightarrow> rat" where
  "frequency_after js = foldl frequency_step 0 js"

definition acquisitions_after :: "instruction list \<Rightarrow> int" where
  "acquisitions_after js = int (length (filter is_acquire js))"

definition playback_of :: "(instruction list \<Rightarrow> 'a) \<Rightarrow> instruction list \<Rightarrow> 'a list" where
  "playback_of f js = map (\<lambda>n. f (take (Suc n) js)) [0..<length js]"

definition channel_ok :: "channel \<Rightarrow> bool" where
  "channel_ok ch \<longleftrightarrow>
     ch_phase_playback ch = playback_of phase_after (ch_instructions ch) \<and>
     ch_frequency_playback ch = playback_of frequency_after (ch_instructions ch) \<and>
     ch_acquisition_playback ch = playback_of acquisitions_after (ch_instructions ch) \<and>
     map in_position (ch_instructions ch) = [0..<length (ch_instructions ch)] \<and>
     (\<forall>i\<in>set (ch_instructions ch). in_clock i = ch_clock ch)"

definition registry_ok :: "registry \<Rightarrow> bool" where
  "registry_ok r \<longleftrightarrow> distinct (map fst (rg_channels r)) \<and>
     (\<forall>(c, ch)\<in>set (rg_channels r). ch_clock ch = c \<and> channel_ok ch)"

lemma playback_snoc: "playback_of f (js @ [i]) = playback_of f js @ [f (js @ [i])]"
proof -
  have "map (\<lambda>n. f (take (Suc n) (js @ [i]))) [0..<length js] = map (\<lambda>n. f (take (Suc n) js)) [0..<length js]"
    by (rule map_cong) simp_all
  then show ?thesis by (simp add: playback_of_def)
qed

lemma playback_length [simp]: "length (playback_of f js) = length js"
  by (simp add: playback_of_def)

lemma playback_nth: "n < length js \<Longrightarrow> playback_of f js ! n = f (take (Suc n) js)"
  by (simp add: playback_of_def)

lemma final_playback:
  assumes "f [] = 0"
  shows "final_of ch (playback_of f (ch_instructions ch)) = f (ch_instructions ch)"
proof (cases "ch_instructions ch" rule: rev_cases)
  case Nil
  then show ?thesis using assms by (simp add: final_of_def playback_of_def)
next
  case (snoc js i)
  then have "py_at (playback_of f (ch_instructions ch)) (int (length (ch_instructions ch)) - 1) =
      Inr (f (ch_instructions ch))"
    using py_at_nat [of "playback_of f (js @ [i])" "length js"] by (simp add: playback_nth)
  then show ?thesis by (simp add: final_of_def)
qed

lemma after_Nil [simp]: "phase_after [] = 0" "frequency_after [] = 0" "acquisitions_after [] = 0"
  by (simp_all add: phase_after_def frequency_after_def acquisitions_after_def)

lemma after_snoc:
  "phase_after (js @ [i]) = phase_step (phase_after js) i"
  "frequency_after (js @ [i]) = frequency_step (frequency_after js) i"
  "acquisitions_after (js @ [i]) = acquisitions_after js + (if is_acquire i then 1 else 0)"
  by (simp_all add: phase_after_def frequency_after_def acquisitions_after_def)

lemma steps_position [simp]:
  "phase_step p (i\<lparr>in_position := n\<rparr>) = phase_step p i"
  "frequency_step f (i\<lparr>in_position := n\<rparr>) = frequency_step f i"
  "is_acquire (i\<lparr>in_position := n\<rparr>) = is_acquire i"
  by (simp_all add: phase_step_def frequency_step_def is_acquire_def)

lemma new_channel_ok [simp]: "channel_ok (new_channel c)" "ch_clock (new_channel c) = c"
  by (simp_all add: channel_ok_def new_channel_def playback_of_def)

lemma register_instruction_ok:
  assumes "channel_ok ch" and "in_clock i = ch_clock ch"
  shows "channel_ok (register_instruction ch i)" "ch_clock (register_instruction ch i) = ch_clock ch"
proof -
  have p: "final_phase ch + get_phase_delta ch i = phase_step (phase_after (ch_instructions ch)) i"
    "final_frequency ch + get_frequency_delta ch i = frequency_step (frequency_after (ch_instructions ch)) i"
    "final_acquisitions ch + get_acquisitions_delta ch i =
      acquisitions_after (ch_instructions ch) + (if is_acquire i then 1 else 0)"
    using assms(1) final_playback [of phase_after ch] final_playback [of frequency_after ch]
      final_playback [of acquisitions_after ch]
    by (auto simp: channel_ok_def final_phase_def final_frequency_def final_acquisitions_def get_phase_delta_def
        get_frequency_delta_def get_acquisitions_delta_def phase_step_def frequency_step_def is_acquire_def
        split: kind.split)
  show "channel_ok (register_instruction ch i)"
    using assms by (simp add: channel_ok_def register_instruction_def p playback_snoc after_snoc)
  show "ch_clock (register_instruction ch i) = ch_clock ch"
    by (simp add: register_instruction_def Let_def)
qed

lemma stable_mapE [stable_rules]: "(\<And>x. stable P (f x)) \<Longrightarrow> stable P (mapE f xs)"
  by (induction xs) (auto intro!: stable_rules)

lemma stable_registry_get [stable_rules]: "stable registry_ok (registry_get c)"
proof -
  have "registry_ok r \<Longrightarrow> registry_ok (r\<lparr>rg_channels := rg_channels r @ [(c, new_channel c)]\<rparr>)"
    if "map_of (rg_channels r) c = None" for r
    using that by (auto simp: registry_ok_def map_of_eq_None_iff)
  then show ?thesis by (auto simp: stable_def registry_get_def modE_def split: option.splits)
qed

lemma stable_build [stable_rules]: "stable registry_ok (build fresh name t0 clock port dur k)"
  by (simp add: stable_def build_def registry_ok_def)

lemma stable_register [stable_rules]: "stable registry_ok (register i)"
proof -
  have "registry_ok (r\<lparr>rg_channels :=
     map (\<lambda>(c, ch). (c, if c = in_clock i then register_instruction ch i else ch)) (rg_channels r)\<rparr>)"
    if r: "registry_ok r" for r
  proof -
    have "map fst (map (\<lambda>(c, ch). (c, if c = in_clock i then register_instruction ch i else ch)) (rg_channels r))
        = map fst (rg_channels r)" by (induction "rg_channels r" rule: list.induct) (simp_all add: case_prod_beta)
    then show ?thesis using r register_instruction_ok
      unfolding registry_ok_def by (auto simp del: map_map)
  qed
  then show ?thesis by (simp add: stable_def register_def modE_def)
qed

lemma stable_case_prod [stable_rules]: "(\<And>a b. stable P (f a b)) \<Longrightarrow> stable P (case_prod f p)"
  by (cases p) simp

lemma stable_channel_of [stable_rules]: "stable registry_ok (channel_of hw q)"
  unfolding channel_of_def by (intro stable_rules)

lemma stable_lists [stable_rules]:
  "stable registry_ok (set_freq_list fresh hw q)" "stable registry_ok (shift_freq_list fresh hw q)"
  "stable registry_ok (set_phase_list fresh hw q)" "stable registry_ok (shift_phase_list fresh fr hw q)"
  "stable registry_ok (delay_list fresh hw q)" "stable registry_ok (acquire_list fresh native hw q)"
  "stable registry_ok (gauss_list fresh hw q)" "stable registry_ok (square_list fresh hw q)"
  "stable registry_ok (wacqt_cz_list fresh hw q)" "stable registry_ok (pulse_lib_list fresh config hw q)"
  unfolding set_freq_list_def shift_freq_list_def set_phase_list_def shift_phase_list_def delay_list_def
    acquire_list_def gauss_list_def square_list_def wacqt_cz_list_def pulse_lib_list_def Let_def
  by (intro stable_rules)+

lemma stable_listed [stable_rules]:
  "stable registry_ok (list_from_qobj_inst fresh config native fr hw q)"
  unfolding list_from_qobj_inst_def Let_def by (intro stable_rules)

lemma stable_add_instruction [stable_rules]:
  "stable registry_ok (add_instruction_to_channel_registry fresh config native fr hw q)"
proof -
  have "stable registry_ok (case l of Listed i \<Rightarrow> register i | ListedReset c \<Rightarrow> retE ())" for l
    by (cases l) (simp_all add: stable_rules)
  then show ?thesis unfolding add_instruction_to_channel_registry_def by (intro stable_rules)
qed

end
