(* ===== verification/Quantify_Schedule.thy ===== *)
theory Quantify_Schedule imports Quantify_Channel begin

text \<open>
  The schedule of an experiment: the operations of the instructions
  (\<^verbatim>\<open>app/libs/quantum_executor/quantify/instruction.py\<close>) and \<open>_construct_schedule\<close> of
  \<^verbatim>\<open>experiment.py\<close>. Time is counted in ticks of the time grid. The plan of which instruction starts
  at which tick is computed first, and the operations of the plan in its order after it, since the
  schedule of a failed construction is dropped. The clocks whose phase is reset are a set in the code,
  whose order is not fixed; here they come in the order of the channels.
\<close>

section \<open>Operations\<close>

datatype operation =
    IdleOp rat
  | SSBIntegrationOp string string rat int int bin_mode
  | TraceOp string string rat int int
  | SetClockFrequencyOp string rat
  | ShiftClockPhaseOp rat string
  | DRAGOp rat param rat string string param "param option"
  | SquareOp "param option" rat string string "param option"
  | NumericalOp "complex list" "rat list" string string
  | SoftSquareOp rat rat string string
  | ResetClockPhaseOp string

text \<open>\<open>int(clock.split(".")[0][1:])\<close>.\<close>

definition acq_channel :: "string \<Rightarrow> int result" where
  "acq_channel clock = int_of_text (drop 1 (hd (py_split ''.'' clock)))"

text \<open>\<open>np.linspace(0, duration, n)\<close>.\<close>

definition linspace :: "rat \<Rightarrow> nat \<Rightarrow> rat list" where
  "linspace dur n = map (\<lambda>k. if n = 1 then 0 else dur * of_nat k / of_nat (n - 1)) [0..<n]"

text \<open>The samples turned by \<open>exp(1j * phase)\<close>.\<close>

definition rotate_samples :: "rat \<Rightarrow> (rat \<times> rat) list \<Rightarrow> complex list" where
  "rotate_samples phase samples =
     map (\<lambda>(a, b). Complex (of_rat a) (of_rat b) * cis (of_rat phase)) samples"

definition acquire_operation :: "channel \<Rightarrow> instruction \<Rightarrow> string \<Rightarrow> bin_mode \<Rightarrow> operation result" where
  "acquire_operation ch i protocol bin_mode =
     bind_result (get_acquisitions_at_position ch (int (in_position i))) (\<lambda>n.
       let acq_index = n - 1 in
       if protocol = ''SSBIntegrationComplex'' then
         bind_result (acq_channel (ch_clock ch)) (\<lambda>c.
           Inr (SSBIntegrationOp (in_port i) (ch_clock ch) (in_duration i) c acq_index bin_mode))
       else if protocol = ''trace'' then
         bind_result (acq_channel (ch_clock ch)) (\<lambda>c.
           Inr (TraceOp (in_port i) (ch_clock ch) (in_duration i) c acq_index))
       else Inl RuntimeError)"

text \<open>From the phase before the instruction, zero for the first, to the one after it.\<close>

definition set_phase_operation :: "channel \<Rightarrow> instruction \<Rightarrow> operation result" where
  "set_phase_operation ch i =
     bind_result (get_phase_at_position ch (int (in_position i))) (\<lambda>target.
     bind_result (if in_position i > 0 then get_phase_at_position ch (int (in_position i) - 1) else Inr 0)
       (\<lambda>prev. Inr (ShiftClockPhaseOp (target - prev) (ch_clock ch))))"

fun real_part :: "param option \<Rightarrow> rat result" where
  "real_part None = Inl AttributeError"
| "real_part (Some (PNum x)) = Inr x"
| "real_part (Some (PComplex a b)) = Inr a"

fun float_param :: "param option \<Rightarrow> rat result" where
  "float_param (Some (PNum x)) = Inr x"
| "float_param _ = Inl TypeError"

definition param_or_zero :: "params \<Rightarrow> string \<Rightarrow> param" where
  "param_or_zero ps k = (case map_of ps k of None \<Rightarrow> PNum 0 | Some v \<Rightarrow> v)"

definition numerical_operation :: "channel \<Rightarrow> qobj_config \<Rightarrow> instruction \<Rightarrow> operation result" where
  "numerical_operation ch config i =
     (case map_of (qc_pulse_library config) (in_name i) of
        None \<Rightarrow> Inl RuntimeError
      | Some waveform \<Rightarrow>
          bind_result (get_phase_at_position ch (int (in_position i))) (\<lambda>phase.
            Inr (NumericalOp (rotate_samples phase waveform) (linspace (in_duration i) (length waveform))
                   (in_port i) (ch_clock ch))))"

definition to_operation :: "channel \<Rightarrow> qobj_config \<Rightarrow> instruction \<Rightarrow> operation result" where
  "to_operation ch config i =
     (case in_kind i of
        InitialObject \<Rightarrow> Inr (IdleOp (in_duration i))
      | Acquire slot protocol bin_mode \<Rightarrow> acquire_operation ch i protocol bin_mode
      | Delay \<Rightarrow> Inr (IdleOp (in_duration i))
      | SetFreq f \<Rightarrow> bind_result (get_freq_at_position ch (int (in_position i)))
          (\<lambda>freq_now. Inr (SetClockFrequencyOp (ch_clock ch) freq_now))
      | ShiftFreq f \<Rightarrow> bind_result (get_freq_at_position ch (int (in_position i)))
          (\<lambda>freq_now. Inr (SetClockFrequencyOp (ch_clock ch) freq_now))
      | SetPhase p \<Rightarrow> set_phase_operation ch i
      | ShiftPhase p \<Rightarrow> Inr (ShiftClockPhaseOp p (ch_clock ch))
      | GaussPulse shape ps \<Rightarrow> bind_result (real_part (map_of ps ''amp'')) (\<lambda>amp.
          Inr (DRAGOp amp (param_or_zero ps ''beta'') (in_duration i) (in_port i) (ch_clock ch)
                 (param_or_zero ps ''phase'') (map_of ps ''reference_magnitude'')))
      | SquarePulse shape ps \<Rightarrow> Inr (SquareOp (map_of ps ''amp'') (in_duration i) (in_port i) (ch_clock ch)
                 (map_of ps ''reference_magnitude''))
      | PulseLib \<Rightarrow> numerical_operation ch config i
      | WacqtCZ ps \<Rightarrow> bind_result (float_param (map_of ps ''delta_0'')) (\<lambda>amp.
          Inr (SoftSquareOp (in_duration i) amp (in_port i) (ch_clock ch))))"

section \<open>Clocks\<close>

definition is_drive_clock :: "string \<Rightarrow> bool" where
  "is_drive_clock clock = (case py_split ''.'' clock of [_, p] \<Rightarrow> p = ''01'' \<or> p = ''12'' | _ \<Rightarrow> False)"

definition is_baseband_clock :: "string \<Rightarrow> bool" where
  "is_baseband_clock clock \<longleftrightarrow> endswith clock ''.baseband'' \<or> clock = ''cl0.baseband''"

text \<open>The earliest \<open>setf\<close> of a channel, the first of several at one time.\<close>

definition init_candidate :: "instruction list \<Rightarrow> (rat \<times> rat) option" where
  "init_candidate insts = foldl (\<lambda>best i.
     case in_kind i of
       SetFreq f \<Rightarrow> (case best of None \<Rightarrow> Some (in_t0 i, f)
                    | Some (t, _) \<Rightarrow> if in_t0 i < t then Some (in_t0 i, f) else best)
     | _ \<Rightarrow> best) None insts"

definition clock_frequency :: "channel \<Rightarrow> rat" where
  "clock_frequency ch =
     (if is_baseband_clock (ch_clock ch) then 0
      else case init_candidate (ch_instructions ch) of None \<Rightarrow> 0 | Some (_, f) \<Rightarrow> f)"

section \<open>The plan\<close>

record plan =
  pl_clock :: string
  pl_schedulable :: "instruction list"
  pl_had_any :: bool

definition plan_of :: "bool \<Rightarrow> channel \<Rightarrow> plan" where
  "plan_of include_dynamic ch =
     \<lparr>pl_clock = ch_clock ch,
      pl_schedulable = filter (\<lambda>i. include_dynamic \<or> \<not> is_freq_control i) (ch_instructions ch),
      pl_had_any = (ch_instructions ch \<noteq> [])\<rparr>"

definition to_tick :: "rat \<Rightarrow> int" where
  "to_tick t = \<lfloor>t / QBLOX_TIMEGRID_INTERVAL + 1 / 2 + 1 / 10 ^ 12\<rfloor>"

definition slot_of :: "instruction \<Rightarrow> int" where
  "slot_of i = to_tick (in_t0 i)"

definition last_slot :: "plan \<Rightarrow> int" where
  "last_slot p = foldl (\<lambda>m i. max m (slot_of i)) (- 1) (pl_schedulable p)"

definition insts_at :: "int \<Rightarrow> plan \<Rightarrow> instruction list" where
  "insts_at slot p = filter (\<lambda>i. slot_of i = slot) (pl_schedulable p)"

definition sorted_slots :: "plan list \<Rightarrow> int list" where
  "sorted_slots plans = sorted_list_of_set (set (concat (map (\<lambda>p. map slot_of (pl_schedulable p)) plans)))"

record tick_state =
  dispatch_tick :: int
  sync_tick :: int
  last_label :: string
  has_emitted :: bool

record emission =
  em_clock :: string
  em_inst :: instruction
  em_tick :: int

text \<open>All the instructions of one channel in one slot.\<close>

fun emit_insts :: "bool \<Rightarrow> string \<Rightarrow> int \<Rightarrow> instruction list \<Rightarrow> tick_state \<Rightarrow> tick_state \<times> emission list" where
  "emit_insts inc clock slot [] st = (st, [])"
| "emit_insts inc clock slot (i # js) st =
     (let start_tick = slot + sync_tick st + dispatch_tick st + 1;
          emit = (inc \<or> \<not> is_freq_control i);
          st' = (if emit then st\<lparr>last_label := in_label i, has_emitted := True\<rparr> else st);
          (st'', es) = emit_insts inc clock slot js (st'\<lparr>dispatch_tick := dispatch_tick st' + 1\<rparr>)
      in (st'', (if emit then [\<lparr>em_clock = clock, em_inst = i, em_tick = start_tick\<rparr>] else []) @ es))"

fun emit_plans ::
    "bool \<Rightarrow> int \<Rightarrow> plan list \<Rightarrow> (string \<Rightarrow> tick_state) \<Rightarrow> (string \<Rightarrow> tick_state) \<times> emission list" where
  "emit_plans inc slot [] st = (st, [])"
| "emit_plans inc slot (p # ps) st =
     (let (c', es) = emit_insts inc (pl_clock p) slot (insts_at slot p) (st (pl_clock p));
          (st', es') = emit_plans inc slot ps (st(pl_clock p := c'))
      in (st', es @ es'))"

definition ready_tick :: "int \<Rightarrow> tick_state \<Rightarrow> int" where
  "ready_tick slot c = slot + sync_tick c + dispatch_tick c"

definition barrier :: "int \<Rightarrow> plan list \<Rightarrow> (string \<Rightarrow> tick_state) \<Rightarrow> int" where
  "barrier slot active st = Max (set (map (\<lambda>p. ready_tick slot (st (pl_clock p))) active))"

definition sync_to :: "int \<Rightarrow> int \<Rightarrow> tick_state \<Rightarrow> tick_state" where
  "sync_to slot b c = (if ready_tick slot c < b then c\<lparr>sync_tick := sync_tick c + (b - ready_tick slot c)\<rparr> else c)"

definition synced :: "int \<Rightarrow> plan list \<Rightarrow> (string \<Rightarrow> tick_state) \<Rightarrow> (string \<Rightarrow> tick_state)" where
  "synced slot active st = (\<lambda>c. if c \<in> set (map pl_clock active)
     then sync_to slot (barrier slot active st) (st c) else st c)"

fun emit_slots ::
    "bool \<Rightarrow> plan list \<Rightarrow> int list \<Rightarrow> (string \<Rightarrow> tick_state) \<Rightarrow> (string \<Rightarrow> tick_state) \<times> emission list" where
  "emit_slots inc plans [] st = (st, [])"
| "emit_slots inc plans (slot # slots) st =
     (let active = filter (\<lambda>p. slot \<le> last_slot p) plans in
      if active = [] then (st, [])
      else let (st', es) = emit_plans inc slot active (synced slot active st);
               (st'', es') = emit_slots inc plans slots st'
           in (st'', es @ es'))"

definition initial_ticks :: "string \<Rightarrow> string \<Rightarrow> tick_state" where
  "initial_ticks root_label = (\<lambda>_. \<lparr>dispatch_tick = 0, sync_tick = 0, last_label = root_label, has_emitted = False\<rparr>)"

definition emissions :: "bool \<Rightarrow> string \<Rightarrow> plan list \<Rightarrow> (string \<Rightarrow> tick_state) \<times> emission list" where
  "emissions inc root_label plans = emit_slots inc plans (sorted_slots plans) (initial_ticks root_label)"

section \<open>The schedule\<close>

record sched_entry =
  en_ref_op :: "string option"
  en_ref_pt :: string
  en_rel_time :: rat
  en_label :: string
  en_operation :: operation

record schedule =
  sd_name :: string
  sd_repetitions :: "int option"
  sd_resources :: "(string \<times> rat) list"
  sd_entries :: "sched_entry list"

definition entry_of :: "(string \<times> channel) list \<Rightarrow> qobj_config \<Rightarrow> string \<Rightarrow> emission \<Rightarrow> sched_entry result" where
  "entry_of channels config root_label e =
     bind_result (dict_get channels (in_clock (em_inst e))) (\<lambda>ch.
     bind_result (to_operation ch config (em_inst e)) (\<lambda>operation.
       Inr \<lparr>en_ref_op = Some root_label, en_ref_pt = ''end'',
            en_rel_time = of_int (em_tick e) * QBLOX_TIMEGRID_INTERVAL,
            en_label = in_label (em_inst e), en_operation = operation\<rparr>))"

definition root_entry :: "string \<Rightarrow> sched_entry" where
  "root_entry root_label = \<lparr>en_ref_op = None, en_ref_pt = ''end'', en_rel_time = 0, en_label = root_label,
     en_operation = IdleOp INITIAL_RESET_VALUE\<rparr>"

definition reset_entry :: "string \<Rightarrow> string \<Rightarrow> sched_entry" where
  "reset_entry root_label clock = \<lparr>en_ref_op = Some root_label, en_ref_pt = ''start'', en_rel_time = 0,
     en_label = ''reset_phase_'' @ clock, en_operation = ResetClockPhaseOp clock\<rparr>"

definition tail_entry :: "string \<Rightarrow> (string \<Rightarrow> tick_state) \<Rightarrow> plan \<Rightarrow> sched_entry" where
  "tail_entry root_label st p =
     (let r = (if has_emitted (st (pl_clock p)) then last_label (st (pl_clock p)) else root_label) in
      \<lparr>en_ref_op = Some r, en_ref_pt = ''end'', en_rel_time = QBLOX_TIMEGRID_INTERVAL,
       en_label = r @ ''__tail_idle'', en_operation = IdleOp QBLOX_TIMEGRID_INTERVAL\<rparr>)"

text \<open>\<open>root_label\<close> is the label drawn for the initial object.\<close>

definition construct_schedule ::
    "registry \<Rightarrow> string \<Rightarrow> qobj_config \<Rightarrow> bool \<Rightarrow> string \<Rightarrow> schedule result" where
  "construct_schedule reg name config inc root_label =
     (let channels = map snd (rg_channels reg);
          plans = map (plan_of inc) channels;
          (st, es) = emissions inc root_label plans
      in bind_result (attr (qc_shots config)) (\<lambda>shots.
         bind_result (map_result (entry_of (rg_channels reg) config root_label) es) (\<lambda>entries.
         Inr \<lparr>sd_name = name, sd_repetitions = Some shots,
              sd_resources = map (\<lambda>ch. (ch_clock ch, clock_frequency ch)) channels,
              sd_entries = root_entry root_label
                # map (reset_entry root_label) (filter is_drive_clock (map ch_clock channels))
                @ entries
                @ map (tail_entry root_label st) (filter pl_had_any plans)\<rparr>)))"

text \<open>\<open>QuantifyExperiment.from_qobj_expt\<close>, up to the experiment's name and header.\<close>

definition from_qobj_expt ::
    "(nat \<Rightarrow> string) \<Rightarrow> qobj_config \<Rightarrow> native_config \<Rightarrow> frequencies \<Rightarrow> hardware_map \<Rightarrow> bool \<Rightarrow> string
      \<Rightarrow> qobj_inst list \<Rightarrow> nat \<Rightarrow> (registry \<times> schedule) result" where
  "from_qobj_expt fresh config native fr hw inc name instructions drawn =
     (case forE instructions (add_instruction_to_channel_registry fresh config native fr hw)
             \<lparr>rg_channels = [], rg_drawn = drawn\<rparr> of
        (Inl e, _) \<Rightarrow> Inl e
      | (Inr _, reg) \<Rightarrow>
          bind_result (construct_schedule reg name config inc (fresh (rg_drawn reg))) (\<lambda>sd. Inr (reg, sd)))"

end
