(* ===== verification/Quantify_Timing.thy ===== *)
theory Quantify_Timing imports Quantify_Schedule begin

text \<open>
  When the operations of a schedule start. In every slot all active channels are brought to one
  barrier, from which each channel issues its instructions of the slot one tick apart.
\<close>

section \<open>One slot\<close>

text \<open>Instructions issued one tick apart after a common tick.\<close>

definition burst :: "string \<Rightarrow> instruction list \<Rightarrow> int \<Rightarrow> emission list" where
  "burst c insts b = map (\<lambda>n. \<lparr>em_clock = c, em_inst = insts ! n, em_tick = b + 1 + int n\<rparr>) [0..<length insts]"

definition level :: "tick_state \<Rightarrow> int" where
  "level c = sync_tick c + dispatch_tick c"

definition after_burst :: "instruction list \<Rightarrow> tick_state \<Rightarrow> tick_state" where
  "after_burst insts c = c\<lparr>dispatch_tick := dispatch_tick c + int (length insts),
     last_label := (if insts = [] then last_label c else in_label (last insts)),
     has_emitted := (insts \<noteq> [] \<or> has_emitted c)\<rparr>"

lemma ready_level: "ready_tick slot c = slot + level c"
  by (simp add: ready_tick_def level_def)

lemma burst_Nil [simp]: "burst c [] b = []"
  by (simp add: burst_def)

lemma burst_Cons: "burst c (i # js) b = \<lparr>em_clock = c, em_inst = i, em_tick = b + 1\<rparr> # burst c js (b + 1)"
proof -
  have "[0..<Suc (length js)] = 0 # map Suc [0..<length js]" by (simp add: upt_conv_Cons map_Suc_upt del: upt_Suc)
  then show ?thesis by (simp add: burst_def comp_def algebra_simps del: upt_Suc)
qed

lemma burst_sel:
  "map em_inst (burst c insts b) = insts" "map em_tick (burst c insts b) = map (\<lambda>n. b + 1 + int n) [0..<length insts]"
  "e \<in> set (burst c insts b) \<Longrightarrow> em_clock e = c"
  "e \<in> set (burst c insts b) \<Longrightarrow> em_inst e \<in> set insts"
  by (auto simp: burst_def comp_def map_nth)

lemma emit_insts_eval:
  assumes "\<forall>i\<in>set insts. inc \<or> \<not> is_freq_control i"
  shows "emit_insts inc c slot insts st = (after_burst insts st, burst c insts (ready_tick slot st))"
  using assms
proof (induction insts arbitrary: st)
  case Nil
  then show ?case by (simp add: after_burst_def)
next
  case (Cons i js)
  let ?st = "st\<lparr>last_label := in_label i, has_emitted := True, dispatch_tick := dispatch_tick st + 1\<rparr>"
  have "emit_insts inc c slot js ?st = (after_burst js ?st, burst c js (ready_tick slot ?st))"
    using Cons by auto
  moreover have "ready_tick slot ?st = ready_tick slot st + 1" by (simp add: ready_tick_def)
  ultimately show ?case using Cons.prems
    by (auto simp: Let_def burst_Cons after_burst_def ready_tick_def algebra_simps)
qed

definition emitted_all :: "bool \<Rightarrow> plan \<Rightarrow> bool" where
  "emitted_all inc p \<longleftrightarrow> (\<forall>i\<in>set (pl_schedulable p). inc \<or> \<not> is_freq_control i)"

lemma plan_of_emitted [simp]: "emitted_all inc (plan_of inc ch)"
  by (auto simp: emitted_all_def plan_of_def)

lemma emit_plans_eval:
  assumes "distinct (map pl_clock ps)" and "\<forall>p\<in>set ps. emitted_all inc p"
  shows "snd (emit_plans inc slot ps st) =
      concat (map (\<lambda>p. burst (pl_clock p) (insts_at slot p) (ready_tick slot (st (pl_clock p)))) ps) \<and>
    (\<forall>p\<in>set ps. fst (emit_plans inc slot ps st) (pl_clock p) = after_burst (insts_at slot p) (st (pl_clock p))) \<and>
    (\<forall>c. c \<notin> set (map pl_clock ps) \<longrightarrow> fst (emit_plans inc slot ps st) c = st c)"
  using assms
proof (induction ps arbitrary: st)
  case (Cons q ps)
  define st1 where "st1 = st(pl_clock q := after_burst (insts_at slot q) (st (pl_clock q)))"
  have e: "emit_insts inc (pl_clock q) slot (insts_at slot q) (st (pl_clock q)) =
      (after_burst (insts_at slot q) (st (pl_clock q)), burst (pl_clock q) (insts_at slot q) (ready_tick slot (st (pl_clock q))))"
    using Cons.prems by (intro emit_insts_eval) (auto simp: emitted_all_def insts_at_def)
  have new: "pl_clock q \<notin> set (map pl_clock ps)" using Cons.prems(1) by simp
  then have same: "st1 (pl_clock p) = st (pl_clock p)" if "p \<in> set ps" for p
    using that by (auto simp: rev_image_eqI st1_def)
  have at: "st1 (pl_clock q) = after_burst (insts_at slot q) (st (pl_clock q))" "c \<noteq> pl_clock q \<Longrightarrow> st1 c = st c" for c
    by (simp_all add: st1_def)
  have IH: "snd (emit_plans inc slot ps st1) =
      concat (map (\<lambda>p. burst (pl_clock p) (insts_at slot p) (ready_tick slot (st1 (pl_clock p)))) ps)"
    "\<forall>p\<in>set ps. fst (emit_plans inc slot ps st1) (pl_clock p) = after_burst (insts_at slot p) (st1 (pl_clock p))"
    "\<forall>c. c \<notin> set (map pl_clock ps) \<longrightarrow> fst (emit_plans inc slot ps st1) c = st1 c"
    using Cons.IH [of st1] Cons.prems by auto
  have same_map: "map (\<lambda>p. burst (pl_clock p) (insts_at slot p) (ready_tick slot (st1 (pl_clock p)))) ps =
      map (\<lambda>p. burst (pl_clock p) (insts_at slot p) (ready_tick slot (st (pl_clock p)))) ps"
    using same by (intro map_cong) simp_all
  have step: "emit_plans inc slot (q # ps) st = (fst (emit_plans inc slot ps st1),
      burst (pl_clock q) (insts_at slot q) (ready_tick slot (st (pl_clock q))) @ snd (emit_plans inc slot ps st1))"
    by (simp add: e Let_def split_beta st1_def)
  have "snd (emit_plans inc slot (q # ps) st) =
      concat (map (\<lambda>p. burst (pl_clock p) (insts_at slot p) (ready_tick slot (st (pl_clock p)))) (q # ps))"
    unfolding step IH(1) same_map by simp
  moreover have "fst (emit_plans inc slot (q # ps) st) = fst (emit_plans inc slot ps st1)"
    unfolding step by simp
  ultimately show ?case using IH(2,3) new same at by simp
qed simp

section \<open>All slots\<close>

definition active_at :: "int \<Rightarrow> plan list \<Rightarrow> plan list" where
  "active_at slot plans = filter (\<lambda>p. slot \<le> last_slot p) plans"

text \<open>What all active channels issue in a slot, after the barrier \<open>b\<close>.\<close>

definition slot_burst :: "plan list \<Rightarrow> int \<Rightarrow> int \<Rightarrow> emission list" where
  "slot_burst plans slot b = concat (map (\<lambda>p. burst (pl_clock p) (insts_at slot p) b) (active_at slot plans))"

lemma level_sync: "level (sync_to slot b c) = (if slot + level c < b then b - slot else level c)"
  by (simp add: sync_to_def ready_tick_def level_def)

lemma level_after [simp]: "level (after_burst insts c) = level c + int (length insts)"
  by (simp add: level_def after_burst_def)

lemma labels_after [simp]:
  "last_label (after_burst insts c) = (if insts = [] then last_label c else in_label (last insts))"
  "has_emitted (after_burst insts c) \<longleftrightarrow> insts \<noteq> [] \<or> has_emitted c"
  "last_label (sync_to slot b c) = last_label c" "has_emitted (sync_to slot b c) = has_emitted c"
  by (simp_all add: after_burst_def sync_to_def)

text \<open>One slot: every active channel is ready at the barrier and issues its burst from there.\<close>

lemma slot_step:
  fixes st slot inc
  assumes "distinct (map pl_clock plans)" and "\<forall>p\<in>set plans. emitted_all inc p"
  defines "b \<equiv> barrier slot (active_at slot plans) st"
    and "st' \<equiv> fst (emit_plans inc slot (active_at slot plans) (synced slot (active_at slot plans) st))"
  shows "snd (emit_plans inc slot (active_at slot plans) (synced slot (active_at slot plans) st)) = slot_burst plans slot b"
    and "\<forall>p\<in>set (active_at slot plans). slot + level (st (pl_clock p)) \<le> b \<and>
      level (st' (pl_clock p)) = b - slot + int (length (insts_at slot p)) \<and>
      last_label (st' (pl_clock p)) = (if insts_at slot p = [] then last_label (st (pl_clock p))
        else in_label (last (insts_at slot p))) \<and>
      has_emitted (st' (pl_clock p)) = (insts_at slot p \<noteq> [] \<or> has_emitted (st (pl_clock p)))"
    and "\<forall>c. c \<notin> set (map pl_clock (active_at slot plans)) \<longrightarrow> st' c = st c"
proof -
  let ?active = "active_at slot plans"
  have d: "distinct (map pl_clock ?active)" "\<forall>p\<in>set ?active. emitted_all inc p"
    using assms(1,2) by (auto simp: active_at_def distinct_map_filter)
  have bound: "slot + level (st (pl_clock p)) \<le> b" if "p \<in> set ?active" for p
    unfolding b_def barrier_def using that by (intro Max_ge) (auto simp: ready_level)
  have sync: "synced slot ?active st (pl_clock p) = sync_to slot b (st (pl_clock p))" if "p \<in> set ?active" for p
    using that by (simp add: synced_def b_def)
  have lev: "level (sync_to slot b (st (pl_clock p))) = b - slot" if "p \<in> set ?active" for p
    using bound [OF that] by (simp add: level_sync)
  note e = emit_plans_eval [OF d, of slot "synced slot ?active st"]
  have "map (\<lambda>p. burst (pl_clock p) (insts_at slot p) (ready_tick slot (synced slot ?active st (pl_clock p)))) ?active =
      map (\<lambda>p. burst (pl_clock p) (insts_at slot p) b) ?active"
    by (intro map_cong) (simp_all add: sync lev ready_level)
  with e show "snd (emit_plans inc slot ?active (synced slot ?active st)) = slot_burst plans slot b"
    by (simp add: slot_burst_def)
  show "\<forall>p\<in>set ?active. slot + level (st (pl_clock p)) \<le> b \<and>
      level (st' (pl_clock p)) = b - slot + int (length (insts_at slot p)) \<and>
      last_label (st' (pl_clock p)) = (if insts_at slot p = [] then last_label (st (pl_clock p))
        else in_label (last (insts_at slot p))) \<and>
      has_emitted (st' (pl_clock p)) = (insts_at slot p \<noteq> [] \<or> has_emitted (st (pl_clock p)))"
    using e bound by (auto simp: st'_def sync lev)
  show "\<forall>c. c \<notin> set (map pl_clock ?active) \<longrightarrow> st' c = st c"
    using e by (simp add: st'_def synced_def)
qed

text \<open>
  All slots: one barrier for each, from which every active channel issues its instructions. The
  barrier of a later slot leaves a channel that is active then at least the distance of the slots and
  the ticks of what it has issued since.
\<close>

lemma emit_slots_eval:
  assumes "distinct (map pl_clock plans)" and "\<forall>p\<in>set plans. emitted_all inc p"
    and "sorted_wrt (<) slots" and "\<forall>s\<in>set slots. active_at s plans \<noteq> []"
  shows "\<exists>B. snd (emit_slots inc plans slots st) = concat (map (\<lambda>s. slot_burst plans s (B s)) slots) \<and>
    (\<forall>s\<in>set slots. \<forall>p\<in>set plans. s \<le> last_slot p \<longrightarrow> s + level (st (pl_clock p)) \<le> B s) \<and>
    (\<forall>s\<in>set slots. \<forall>t\<in>set slots. s < t \<longrightarrow> (\<forall>p\<in>set plans. t \<le> last_slot p \<longrightarrow>
      B s - s + int (length (insts_at s p)) + t \<le> B t))"
  using assms(3,4)
proof (induction slots arbitrary: st)
  case (Cons s slots)
  let ?active = "active_at s plans"
  define b where "b = barrier s ?active st"
  define st' where "st' = fst (emit_plans inc s ?active (synced s ?active st))"
  note step = slot_step [OF assms(1,2), of s st, folded b_def st'_def]
  obtain B where B: "snd (emit_slots inc plans slots st') = concat (map (\<lambda>s. slot_burst plans s (B s)) slots)"
    "\<forall>t\<in>set slots. \<forall>p\<in>set plans. t \<le> last_slot p \<longrightarrow> t + level (st' (pl_clock p)) \<le> B t"
    "\<forall>u\<in>set slots. \<forall>t\<in>set slots. u < t \<longrightarrow> (\<forall>p\<in>set plans. t \<le> last_slot p \<longrightarrow>
      B u - u + int (length (insts_at u p)) + t \<le> B t)"
    using Cons.IH [of st'] Cons.prems by auto
  have later: "s < t" if "t \<in> set slots" for t using that Cons.prems(1) by simp
  have act: "p \<in> set ?active" if "p \<in> set plans" "s \<le> last_slot p" for p
    using that by (simp add: active_at_def)
  have "emit_slots inc plans (s # slots) st =
      (let (st'', es') = emit_slots inc plans slots st' in (st'', slot_burst plans s b @ es'))"
    using Cons.prems(2) step(1) by (simp add: active_at_def [symmetric] Let_def split_beta st'_def)
  moreover have same: "map (\<lambda>t. slot_burst plans t ((B(s := b)) t)) slots = map (\<lambda>t. slot_burst plans t (B t)) slots"
    using later by (intro map_cong) auto
  ultimately have "snd (emit_slots inc plans (s # slots) st) =
      slot_burst plans s b @ concat (map (\<lambda>t. slot_burst plans t (B t)) slots)"
    by (simp only: split_beta Let_def snd_conv B(1))
  then have 1: "snd (emit_slots inc plans (s # slots) st) =
      concat (map (\<lambda>t. slot_burst plans t ((B(s := b)) t)) (s # slots))"
    by (simp only: list.map concat.simps same fun_upd_same)
  have 2: "t + level (st (pl_clock p)) \<le> (B(s := b)) t"
    if "t \<in> set (s # slots)" "p \<in> set plans" "t \<le> last_slot p" for t p
  proof (cases "t = s")
    case True
    then show ?thesis using step(2) act that by auto
  next
    case False
    with that later have t: "t \<in> set slots" "s < t" by auto
    with act that have "level (st (pl_clock p)) \<le> level (st' (pl_clock p))" using step(2) by fastforce
    with B(2) t that show ?thesis by fastforce
  qed
  have 3: "(B(s := b)) u - u + int (length (insts_at u p)) + t \<le> (B(s := b)) t"
    if "u \<in> set (s # slots)" "t \<in> set (s # slots)" "u < t" "p \<in> set plans" "t \<le> last_slot p" for u t p
  proof -
    have t: "t \<in> set slots" "t \<noteq> s" using that(1-3) later by (auto dest: less_asym)
    show ?thesis
    proof (cases "u = s")
      case True
      with act that have "level (st' (pl_clock p)) = b - s + int (length (insts_at s p))" using step(2) by fastforce
      with B(2) t that True show ?thesis by fastforce
    next
      case False
      then show ?thesis using B(3) t that by auto
    qed
  qed
  show ?case using 1 2 3 by (intro exI [of _ "B(s := b)"]) blast
qed simp

section \<open>One channel in one slot\<close>

lemma insts_at_slot: "i \<in> set (insts_at s p) \<Longrightarrow> slot_of i = s"
  by (simp add: insts_at_def)

lemma last_slot_ge: "i \<in> set (pl_schedulable p) \<Longrightarrow> slot_of i \<le> last_slot p"
proof -
  have mono: "m \<le> foldl (\<lambda>m i. max m (slot_of i)) m js" for m js
    by (induction js arbitrary: m) (auto intro: order_trans [OF max.cobounded1])
  have "i \<in> set js \<Longrightarrow> slot_of i \<le> foldl (\<lambda>m i. max m (slot_of i)) m js" for m js
    by (induction js arbitrary: m) (auto intro: order_trans [OF max.cobounded2 mono])
  then show "i \<in> set (pl_schedulable p) \<Longrightarrow> slot_of i \<le> last_slot p" by (simp add: last_slot_def)
qed

lemma insts_inactive: "\<not> s \<le> last_slot p \<Longrightarrow> insts_at s p = []"
  using last_slot_ge by (auto simp: insts_at_def filter_empty_conv)

lemma filter_burst:
  assumes "\<forall>i\<in>set insts. slot_of i = s"
  shows "filter (\<lambda>e. em_clock e = c \<and> slot_of (em_inst e) = t) (burst d insts b) =
    (if d = c \<and> s = t then burst d insts b else [])"
proof -
  have "em_clock e = d \<and> slot_of (em_inst e) = s" if "e \<in> set (burst d insts b)" for e
    using burst_sel(3,4) [OF that] assms by simp
  then show ?thesis by (auto simp: filter_empty_conv intro!: filter_True)
qed

lemma filter_other:
  assumes "c \<notin> pl_clock ` set qs"
  shows "filter (\<lambda>e. em_clock e = c \<and> P e) (concat (map (\<lambda>p. burst (pl_clock p) (insts_at s p) b) qs)) = []"
  using assms
proof (induction qs)
  case (Cons q qs)
  then have "em_clock e \<noteq> c" if "e \<in> set (burst (pl_clock q) (insts_at s q) b)" for e
    using burst_sel(3) [OF that] by auto
  then have "filter (\<lambda>e. em_clock e = c \<and> P e) (burst (pl_clock q) (insts_at s q) b) = []"
    by (auto simp: filter_empty_conv)
  with Cons show ?case by simp
qed simp

lemma filter_plans:
  assumes "distinct (map pl_clock ps)" and "p \<in> set ps"
  shows "filter (\<lambda>e. em_clock e = pl_clock p \<and> slot_of (em_inst e) = t)
      (concat (map (\<lambda>p. burst (pl_clock p) (insts_at s p) b) ps)) =
    (if s = t then burst (pl_clock p) (insts_at s p) b else [])"
  using assms
proof (induction ps)
  case (Cons q ps)
  have f: "filter (\<lambda>e. em_clock e = pl_clock p \<and> slot_of (em_inst e) = t) (burst (pl_clock q) (insts_at s q) b) =
      (if pl_clock q = pl_clock p \<and> s = t then burst (pl_clock q) (insts_at s q) b else [])" for q
    by (rule filter_burst) (simp add: insts_at_slot)
  show ?case
  proof (cases "p = q")
    case True
    then show ?thesis using f [of q] filter_other [of "pl_clock p" ps] Cons.prems by simp
  next
    case False
    then have "p \<in> set ps" "pl_clock q \<noteq> pl_clock p" using Cons.prems by auto
    then show ?thesis using f [of q] Cons.IH Cons.prems by simp
  qed
qed simp

lemma filter_slot_burst:
  assumes "distinct (map pl_clock plans)" and "p \<in> set plans"
  shows "filter (\<lambda>e. em_clock e = pl_clock p \<and> slot_of (em_inst e) = t) (slot_burst plans s b) =
    (if s = t then burst (pl_clock p) (insts_at s p) b else [])"
proof (cases "s \<le> last_slot p")
  case True
  then show ?thesis
    using filter_plans [of "active_at s plans" p t s b] assms
    by (simp add: slot_burst_def active_at_def distinct_map_filter)
next
  case False
  then have "pl_clock p \<notin> pl_clock ` set (active_at s plans)"
    using assms by (auto simp: active_at_def dest: distinct_map [THEN iffD1, THEN conjunct2, THEN inj_onD])
  then have "filter (\<lambda>e. em_clock e = pl_clock p \<and> slot_of (em_inst e) = t) (slot_burst plans s b) = []"
    using filter_other by (simp add: slot_burst_def)
  with insts_inactive [OF False] show ?thesis by (cases "s = t") simp_all
qed

lemma sorted_slots_set: "set (sorted_slots plans) = (\<Union>p\<in>set plans. slot_of ` set (pl_schedulable p))"
  by (simp add: sorted_slots_def)

lemma sorted_slots_strict: "sorted_wrt (<) (sorted_slots plans)"
  by (simp add: sorted_slots_def strict_sorted_iff [symmetric] del: strict_sorted_iff)

lemma slots_active: "\<forall>s\<in>set (sorted_slots plans). active_at s plans \<noteq> []"
  using last_slot_ge by (fastforce simp: sorted_slots_set active_at_def filter_empty_conv)

lemma concat_single:
  "distinct xs \<Longrightarrow> concat (map (\<lambda>s. if s = t then f s else []) xs) = (if t \<in> set xs then f t else [])"
  by (induction xs) auto

text \<open>The plan of a whole experiment: one barrier for each slot.\<close>

lemma emissions_eval:
  assumes "distinct (map pl_clock plans)" and "\<forall>p\<in>set plans. emitted_all inc p"
  shows "\<exists>B. snd (emissions inc root_label plans) =
      concat (map (\<lambda>s. slot_burst plans s (B s)) (sorted_slots plans)) \<and>
    (\<forall>s\<in>set (sorted_slots plans). s \<le> B s) \<and>
    (\<forall>s\<in>set (sorted_slots plans). \<forall>t\<in>set (sorted_slots plans). s < t \<longrightarrow>
      (\<forall>p\<in>set plans. t \<le> last_slot p \<longrightarrow> B s - s + int (length (insts_at s p)) + t \<le> B t)) \<and>
    (\<forall>p\<in>set plans. \<forall>s. filter (\<lambda>e. em_clock e = pl_clock p \<and> slot_of (em_inst e) = s)
      (snd (emissions inc root_label plans)) = burst (pl_clock p) (insts_at s p) (B s))"
proof -
  let ?slots = "sorted_slots plans" and ?es = "snd (emissions inc root_label plans)"
  obtain B where B: "?es = concat (map (\<lambda>s. slot_burst plans s (B s)) ?slots)"
    "\<forall>s\<in>set ?slots. \<forall>p\<in>set plans. s \<le> last_slot p \<longrightarrow>
      s + level (initial_ticks root_label (pl_clock p)) \<le> B s"
    "\<forall>s\<in>set ?slots. \<forall>t\<in>set ?slots. s < t \<longrightarrow> (\<forall>p\<in>set plans. t \<le> last_slot p \<longrightarrow>
      B s - s + int (length (insts_at s p)) + t \<le> B t)"
    using emit_slots_eval [OF assms sorted_slots_strict slots_active, of "initial_ticks root_label"]
    unfolding emissions_def by blast
  have "s \<le> B s" if s: "s \<in> set ?slots" for s
  proof -
    have "active_at s plans \<noteq> []" using slots_active s by blast
    then obtain p where "p \<in> set (active_at s plans)" by (cases "active_at s plans") auto
    then have "p \<in> set plans" "s \<le> last_slot p" by (simp_all add: active_at_def)
    with B(2) s show ?thesis by (auto simp: initial_ticks_def level_def)
  qed
  moreover have "filter (\<lambda>e. em_clock e = pl_clock p \<and> slot_of (em_inst e) = s) ?es =
      burst (pl_clock p) (insts_at s p) (B s)" if p: "p \<in> set plans" for p s
  proof -
    have "filter (\<lambda>e. em_clock e = pl_clock p \<and> slot_of (em_inst e) = s) ?es =
        concat (map (\<lambda>t. if t = s then burst (pl_clock p) (insts_at t p) (B t) else []) ?slots)"
      unfolding B(1) by (simp add: filter_concat comp_def filter_slot_burst [OF assms(1) p])
    also have "\<dots> = (if s \<in> set ?slots then burst (pl_clock p) (insts_at s p) (B s) else [])"
      using sorted_slots_strict [of plans] by (intro concat_single) (simp add: strict_sorted_iff)
    also have "\<dots> = burst (pl_clock p) (insts_at s p) (B s)"
    proof (cases "s \<in> set ?slots")
      case False
      then have "insts_at s p = []" using p by (auto simp: sorted_slots_set insts_at_def filter_empty_conv)
      with False show ?thesis by simp
    qed simp
    finally show ?thesis .
  qed
  ultimately show ?thesis using B(1,3) by blast
qed

lemma burst_member:
  assumes "x \<in> set (concat (map (\<lambda>s. slot_burst plans s (B s)) slots))"
  shows "\<exists>p n. p \<in> set plans \<and> em_clock x = pl_clock p \<and> em_inst x \<in> set (pl_schedulable p) \<and>
    slot_of (em_inst x) \<in> set slots \<and> n < length (insts_at (slot_of (em_inst x)) p) \<and>
    em_tick x = B (slot_of (em_inst x)) + 1 + int n"
proof -
  obtain s where s: "s \<in> set slots" "x \<in> set (slot_burst plans s (B s))" using assms by auto
  then obtain p where p: "p \<in> set plans" "x \<in> set (burst (pl_clock p) (insts_at s p) (B s))"
    by (auto simp: slot_burst_def active_at_def)
  then obtain n where n: "n < length (insts_at s p)"
    "x = \<lparr>em_clock = pl_clock p, em_inst = insts_at s p ! n, em_tick = B s + 1 + int n\<rparr>"
    by (auto simp: burst_def)
  then have "em_inst x \<in> set (insts_at s p)" by simp
  then have "slot_of (em_inst x) = s" "em_inst x \<in> set (pl_schedulable p)" by (simp_all add: insts_at_def)
  with s p n show ?thesis by auto
qed

lemma emissions_gap:
  fixes inc root_label plans
  defines "es \<equiv> snd (emissions inc root_label plans)"
  assumes d: "distinct (map pl_clock plans)" "\<forall>p\<in>set plans. emitted_all inc p"
    and m: "e \<in> set es" "f \<in> set es" "g \<in> set es" "em_clock g = em_clock e"
    and s: "slot_of (em_inst e) < slot_of (em_inst f)" "slot_of (em_inst f) \<le> slot_of (em_inst g)"
  shows "em_tick e + (slot_of (em_inst f) - slot_of (em_inst e)) < em_tick f"
proof -
  obtain B where B: "es = concat (map (\<lambda>s. slot_burst plans s (B s)) (sorted_slots plans))"
    "\<forall>s\<in>set (sorted_slots plans). \<forall>t\<in>set (sorted_slots plans). s < t \<longrightarrow>
      (\<forall>p\<in>set plans. t \<le> last_slot p \<longrightarrow> B s - s + int (length (insts_at s p)) + t \<le> B t)"
    using emissions_eval [OF d, of root_label] unfolding es_def by blast
  note src = burst_member [of _ plans B "sorted_slots plans", folded B(1)]
  obtain p n where e: "p \<in> set plans" "em_clock e = pl_clock p" "slot_of (em_inst e) \<in> set (sorted_slots plans)"
    "n < length (insts_at (slot_of (em_inst e)) p)" "em_tick e = B (slot_of (em_inst e)) + 1 + int n"
    using src [OF m(1)] by blast
  obtain k where f: "slot_of (em_inst f) \<in> set (sorted_slots plans)" "em_tick f = B (slot_of (em_inst f)) + 1 + int k"
    using src [OF m(2)] by blast
  obtain q where g: "q \<in> set plans" "em_clock g = pl_clock q" "em_inst g \<in> set (pl_schedulable q)"
    using src [OF m(3)] by blast
  have "inj_on pl_clock (set plans)" using d(1) by (simp add: distinct_map)
  then have "q = p" using e(1,2) g(1,2) m(4) by (simp add: inj_on_def)
  then have "slot_of (em_inst f) \<le> last_slot p" using last_slot_ge [OF g(3)] s(2) by simp
  then have "B (slot_of (em_inst e)) - slot_of (em_inst e) + int (length (insts_at (slot_of (em_inst e)) p)) + slot_of (em_inst f)
      \<le> B (slot_of (em_inst f))"
    using B(2) e(1,3) f(1) s(1) by blast
  with e(4,5) f(2) show ?thesis by linarith
qed

section \<open>Properties\<close>

text \<open>The plan that \<open>construct_schedule\<close> makes of a registry.\<close>

definition planned :: "bool \<Rightarrow> string \<Rightarrow> registry \<Rightarrow> emission list" where
  "planned inc root_label reg = snd (emissions inc root_label (map (plan_of inc) (map snd (rg_channels reg))))"

lemma registry_clocks: "registry_ok reg \<Longrightarrow> map ch_clock (map snd (rg_channels reg)) = map fst (rg_channels reg)"
  by (auto simp: registry_ok_def)

lemma plans_distinct: "registry_ok reg \<Longrightarrow> distinct (map pl_clock (map (plan_of inc) (map snd (rg_channels reg))))"
proof -
  assume ok: "registry_ok reg"
  have "map pl_clock (map (plan_of inc) chs) = map ch_clock chs" for chs by (simp add: plan_of_def)
  then have "map pl_clock (map (plan_of inc) (map snd (rg_channels reg))) = map fst (rg_channels reg)"
    by (simp only: registry_clocks [OF ok])
  then show ?thesis using ok by (simp only: registry_ok_def)
qed

lemma plans_emitted: "\<forall>p\<in>set (map (plan_of inc) (map snd (rg_channels reg))). emitted_all inc p"
  by auto

text \<open>
  C7. Every slot has one barrier: a channel's instructions of that slot, all of them and in the order they
  were registered, start one tick apart from the tick after the barrier, so that the first instructions
  of two channels in one slot start together, and no earlier than the slot asks for.
\<close>
theorem slots_aligned:
  assumes "registry_ok reg"
  shows "\<exists>B. \<forall>ch\<in>set (map snd (rg_channels reg)). \<forall>s.
    map em_inst (filter (\<lambda>e. em_clock e = ch_clock ch \<and> slot_of (em_inst e) = s) (planned inc root_label reg))
      = insts_at s (plan_of inc ch) \<and>
    map em_tick (filter (\<lambda>e. em_clock e = ch_clock ch \<and> slot_of (em_inst e) = s) (planned inc root_label reg))
      = map (\<lambda>n. B s + 1 + int n) [0..<length (insts_at s (plan_of inc ch))] \<and>
    (insts_at s (plan_of inc ch) \<noteq> [] \<longrightarrow> s \<le> B s)"
proof -
  let ?plans = "map (plan_of inc) (map snd (rg_channels reg))"
  obtain B where B: "\<forall>s\<in>set (sorted_slots ?plans). s \<le> B s"
    "\<forall>p\<in>set ?plans. \<forall>s. filter (\<lambda>e. em_clock e = pl_clock p \<and> slot_of (em_inst e) = s) (planned inc root_label reg)
      = burst (pl_clock p) (insts_at s p) (B s)"
    using emissions_eval [OF plans_distinct [OF assms] plans_emitted, of inc root_label] unfolding planned_def by blast
  have "s \<in> set (sorted_slots ?plans)" if "ch \<in> set (map snd (rg_channels reg))" "insts_at s (plan_of inc ch) \<noteq> []" for ch s
    using that by (fastforce simp: sorted_slots_set insts_at_def filter_empty_conv)
  moreover have "pl_clock (plan_of inc ch) = ch_clock ch" for ch by (simp add: plan_of_def)
  ultimately show ?thesis using B burst_sel(1,2) by (intro exI [of _ B]) fastforce
qed

text \<open>
  C28. No instruction comes closer to an earlier one than asked for: between an instruction and one of a
  later slot lie more ticks than between their slots, on one channel, and across channels as long as the
  first channel still has instructions in the later slot or after it.
\<close>
theorem schedule_keeps_gaps:
  assumes "registry_ok reg" and "e \<in> set (planned inc root_label reg)" and "f \<in> set (planned inc root_label reg)"
    and "g \<in> set (planned inc root_label reg)" and "em_clock g = em_clock e"
    and "slot_of (em_inst e) < slot_of (em_inst f)" and "slot_of (em_inst f) \<le> slot_of (em_inst g)"
  shows "em_tick e + (slot_of (em_inst f) - slot_of (em_inst e)) < em_tick f"
  using assms(2-7) emissions_gap [OF plans_distinct [OF assms(1)] plans_emitted] unfolding planned_def by blast

section \<open>A sample\<close>

lemma to_tick_grid [simp]: "to_tick (of_int n * QBLOX_TIMEGRID_INTERVAL) = n"
proof -
  have "(of_int n :: rat) * QBLOX_TIMEGRID_INTERVAL / QBLOX_TIMEGRID_INTERVAL + 1 / 2 + 1 / 10 ^ 12
      = of_int n + (1 / 2 + 1 / 10 ^ 12)" by (simp add: QBLOX_TIMEGRID_INTERVAL_def)
  then have "to_tick (of_int n * QBLOX_TIMEGRID_INTERVAL) = \<lfloor>of_int n + (1 / 2 + 1 / 10 ^ 12) :: rat\<rfloor>"
    unfolding to_tick_def by (rule arg_cong)
  also have "\<dots> = n" by (simp add: floor_eq_iff)
  finally show ?thesis .
qed

definition sample_inst :: "string \<Rightarrow> int \<Rightarrow> kind \<Rightarrow> string \<Rightarrow> nat \<Rightarrow> instruction" where
  "sample_inst c t k l n = \<lparr>in_name = ''i'', in_t0 = of_int t * QBLOX_TIMEGRID_INTERVAL, in_clock = c,
     in_port = ''p'', in_duration = 0, in_kind = k, in_label = l, in_position = n\<rparr>"

lemma sample_inst_sel [simp]:
  "slot_of (sample_inst c t k l n) = t" "in_clock (sample_inst c t k l n) = c"
  "in_kind (sample_inst c t k l n) = k" "in_label (sample_inst c t k l n) = l"
  "in_position (sample_inst c t k l n) = n"
  "is_freq_control (sample_inst c t k l n) \<longleftrightarrow> (case k of SetFreq _ \<Rightarrow> True | ShiftFreq _ \<Rightarrow> True | _ \<Rightarrow> False)"
  by (simp_all add: sample_inst_def slot_of_def is_freq_control_def)

text \<open>A drive channel with a phase shift and a delay in its first slot and a delay in the third, and a readout.\<close>

definition sample_registry :: registry where
  "sample_registry = \<lparr>rg_channels =
     [(''q00.01'', \<lparr>ch_clock = ''q00.01'',
         ch_instructions = [sample_inst ''q00.01'' 0 (ShiftPhase 90) ''l0'' 0, sample_inst ''q00.01'' 0 Delay ''l1'' 1,
           sample_inst ''q00.01'' 2 Delay ''l2'' 2],
         ch_phase_playback = [90, 90, 90], ch_frequency_playback = [0, 0, 0], ch_acquisition_playback = [0, 0, 0]\<rparr>),
      (''q00.ro'', \<lparr>ch_clock = ''q00.ro'',
         ch_instructions = [sample_inst ''q00.ro'' 2 (Acquire 0 ''trace'' AVERAGE) ''l3'' 0],
         ch_phase_playback = [0], ch_frequency_playback = [0], ch_acquisition_playback = [1]\<rparr>)],
     rg_drawn = 4\<rparr>"

lemma sample_registry_ok: "registry_ok sample_registry"
  by (simp add: sample_registry_def registry_ok_def channel_ok_def playback_of_def phase_after_def frequency_after_def
      acquisitions_after_def phase_step_def frequency_step_def is_acquire_def upt_rec)

lemma sample_planned:
  "map (\<lambda>e. (em_clock e, in_label (em_inst e), em_tick e)) (planned False ''r'' sample_registry) =
    [(''q00.01'', ''l0'', 1), (''q00.01'', ''l1'', 2), (''q00.01'', ''l2'', 5), (''q00.ro'', ''l3'', 5)]"
  by (simp add: planned_def sample_registry_def emissions_def sorted_slots_def plan_of_def initial_ticks_def
      last_slot_def insts_at_def Let_def synced_def barrier_def sync_to_def ready_tick_def)

theorem slots_aligned_witness:
  "\<exists>B. map em_tick (filter (\<lambda>e. em_clock e = ''q00.01'' \<and> slot_of (em_inst e) = 0) (planned False ''r'' sample_registry))
      = [B, B + 1] \<and> (0::int) < B"
proof -
  have ch: "ch_clock (snd (rg_channels sample_registry ! 0)) = ''q00.01''"
    "snd (rg_channels sample_registry ! 0) \<in> set (map snd (rg_channels sample_registry))"
    "length (insts_at 0 (plan_of False (snd (rg_channels sample_registry ! 0)))) = 2"
    by (simp_all add: sample_registry_def insts_at_def plan_of_def)
  obtain B where "\<forall>ch\<in>set (map snd (rg_channels sample_registry)). \<forall>s.
      map em_tick (filter (\<lambda>e. em_clock e = ch_clock ch \<and> slot_of (em_inst e) = s) (planned False ''r'' sample_registry))
        = map (\<lambda>n. B s + 1 + int n) [0..<length (insts_at s (plan_of False ch))] \<and>
      (insts_at s (plan_of False ch) \<noteq> [] \<longrightarrow> s \<le> B s)"
    using slots_aligned [OF sample_registry_ok, of False "''r''"] by blast
  from bspec [OF this ch(2), THEN spec [of _ 0]] ch(1,3)
  show ?thesis by (intro exI [of _ "B 0 + 1"]) (auto simp: upt_rec)
qed

theorem schedule_keeps_gaps_witness:
  "map em_tick (planned False ''r'' sample_registry) ! 1 + 2 < map em_tick (planned False ''r'' sample_registry) ! 3"
proof -
  let ?es = "planned False ''r'' sample_registry"
  have l: "length ?es = 4" and c: "em_clock (?es ! 1) = ''q00.01''" "em_clock (?es ! 2) = ''q00.01''"
    using sample_planned [THEN arg_cong, of length] sample_planned [THEN arg_cong, of "\<lambda>xs. fst (xs ! 1)"]
      sample_planned [THEN arg_cong, of "\<lambda>xs. fst (xs ! 2)"] by simp_all
  have "map (\<lambda>e. slot_of (em_inst e)) ?es = [0, 0, 2, 2]"
    by (simp add: planned_def sample_registry_def emissions_def sorted_slots_def plan_of_def initial_ticks_def
      last_slot_def insts_at_def Let_def synced_def barrier_def sync_to_def ready_tick_def)
  then have s: "slot_of (em_inst (?es ! 1)) = 0" "slot_of (em_inst (?es ! 2)) = 2" "slot_of (em_inst (?es ! 3)) = 2"
    using l by (auto simp: list_eq_iff_nth_eq All_less_Suc)
  show ?thesis
    using schedule_keeps_gaps [OF sample_registry_ok, of "?es ! 1" False "''r''" "?es ! 3" "?es ! 2"] l c s by simp
qed

section \<open>A channel that has finished\<close>

lemma last_slot_source: "last_slot p = - 1 \<or> last_slot p \<in> slot_of ` set (pl_schedulable p)"
proof -
  have "foldl (\<lambda>m i. max m (slot_of i)) m js = m \<or> foldl (\<lambda>m i. max m (slot_of i)) m js \<in> slot_of ` set js" for m js
  proof (induction js arbitrary: m)
    case (Cons i js)
    from Cons.IH [of "max m (slot_of i)"] show ?case by (auto simp: max_def split: if_splits)
  qed simp
  then show ?thesis by (simp add: last_slot_def)
qed

text \<open>
  A channel that has no instruction in a later slot is not waited for: two channels, one that issues
  any number of instructions in its only slot, and one whose only instruction comes in a later slot. The
  second starts one tick after its slot whatever the first still has to issue, so that with more
  instructions than there are ticks between the slots it starts before the first has issued them all.
\<close>
theorem finished_channel_overtaken:
  assumes "pl_clock p \<noteq> pl_clock q" and "emitted_all inc p" and "emitted_all inc q"
    and "pl_schedulable p \<noteq> []" and "\<forall>i\<in>set (pl_schedulable p). slot_of i = s" and "0 \<le> s"
    and "pl_schedulable q = [a]" and "slot_of a = t" and "s < t"
  shows "map (\<lambda>e. (em_clock e, em_tick e)) (snd (emissions inc root_label [p, q])) =
    map (\<lambda>n. (pl_clock p, s + 1 + int n)) [0..<length (pl_schedulable p)] @ [(pl_clock q, t + 1)]"
proof -
  have last: "last_slot p = s" "last_slot q = t"
    using last_slot_source [of p] last_slot_ge [of "hd (pl_schedulable p)" p] assms(4-6)
      last_slot_source [of q] last_slot_ge [of a q] assms(6-9) by fastforce+
  have at: "insts_at s p = pl_schedulable p" "insts_at s q = []" "insts_at t q = [a]" "insts_at t p = []"
    using assms(5,7-9) by (auto simp: insts_at_def filter_empty_conv intro!: filter_True)
  have "slot_of ` set (pl_schedulable p) = {s}" using assms(4,5) by (auto simp: image_iff) (metis list.set_intros(1) neq_Nil_conv)
  then have "set (sorted_slots [p, q]) = {s, t}" using assms(7,8) by (auto simp: sorted_slots_set)
  moreover have "sorted_wrt (<) [s, t]" using assms(9) by simp
  ultimately have slots: "sorted_slots [p, q] = [s, t]"
    using sorted_slots_strict [of "[p, q]"] by (intro strict_sorted_equal) auto
  have act: "active_at s [p, q] = [p, q]" "active_at t [p, q] = [q]"
    using last assms(9) by (simp_all add: active_at_def)
  have d: "distinct (map pl_clock [p, q])" "\<forall>x\<in>set [p, q]. emitted_all inc x" using assms(1-3) by simp_all
  let ?st = "initial_ticks root_label"
  define st1 where "st1 = fst (emit_plans inc s (active_at s [p, q]) (synced s (active_at s [p, q]) ?st))"
  have b1: "barrier s [p, q] ?st = s" by (simp add: barrier_def ready_tick_def initial_ticks_def)
  note s1 = slot_step [OF d, of s ?st, folded st1_def, unfolded act b1] and s2 = slot_step [OF d, of t st1, unfolded act]
  have "level (st1 (pl_clock q)) = 0" using s1(2) by (simp add: at)
  then have b2: "barrier t [q] st1 = t" by (simp add: barrier_def ready_level)
  have "snd (emissions inc root_label [p, q]) = slot_burst [p, q] s s @ slot_burst [p, q] t t"
    by (simp add: emissions_def slots active_at_def [symmetric] Let_def split_beta act s1(1) s2(1) b2
        st1_def [unfolded act, symmetric] del: filter.simps emit_plans.simps)
  also have "\<dots> = burst (pl_clock p) (pl_schedulable p) s @ burst (pl_clock q) [a] t"
    by (simp add: slot_burst_def act at)
  finally show ?thesis by (simp add: burst_def comp_def)
qed

text \<open>Three instructions of the first channel at tick 0, one of the second at tick 1.\<close>

definition sample_plan :: "string \<Rightarrow> instruction list \<Rightarrow> plan" where
  "sample_plan c insts = \<lparr>pl_clock = c, pl_schedulable = insts, pl_had_any = True\<rparr>"

theorem finished_channel_overtaken_witness:
  "map (\<lambda>e. (em_clock e, em_tick e)) (snd (emissions False ''r''
      [sample_plan ''d'' [sample_inst ''d'' 0 Delay ''a'' 0, sample_inst ''d'' 0 Delay ''b'' 1, sample_inst ''d'' 0 Delay ''c'' 2],
       sample_plan ''m'' [sample_inst ''m'' 1 (Acquire 0 ''trace'' AVERAGE) ''e'' 0]])) =
    [(''d'', 1), (''d'', 2), (''d'', 3), (''m'', 2)]"
  using finished_channel_overtaken [of
      "sample_plan ''d'' [sample_inst ''d'' 0 Delay ''a'' 0, sample_inst ''d'' 0 Delay ''b'' 1, sample_inst ''d'' 0 Delay ''c'' 2]"
      "sample_plan ''m'' [sample_inst ''m'' 1 (Acquire 0 ''trace'' AVERAGE) ''e'' 0]" False 0 _ 1 "''r''"]
  by (simp add: sample_plan_def emitted_all_def upt_rec)

end
