(* ===== verification/Quantify_Properties.thy ===== *)
theory Quantify_Properties imports Quantify_Timing Py_Uuid begin

text \<open>
  What the compilation of an experiment promises beyond its timing: playbacks, phases, acquisition
  indices, the time grid, and that every entry of a schedule refers to one before it.
\<close>

section \<open>Time grid\<close>

text \<open>
  A time is moved to the nearest multiple of the grid, by at most half an interval, later times never
  before earlier ones, and the tick that the schedule computes from the moved time is that multiple.
\<close>
theorem timegrid_rounding:
  "(\<exists>k. map_to_qblox_timegrid t = of_int k * QBLOX_TIMEGRID_INTERVAL \<and> to_tick (map_to_qblox_timegrid t) = k) \<and>
   \<bar>map_to_qblox_timegrid t - t\<bar> \<le> QBLOX_TIMEGRID_INTERVAL / 2 \<and>
   (t \<le> u \<longrightarrow> map_to_qblox_timegrid t \<le> map_to_qblox_timegrid u)"
proof -
  let ?g = QBLOX_TIMEGRID_INTERVAL
  have g: "0 < ?g" by (simp add: QBLOX_TIMEGRID_INTERVAL_def)
  have "\<bar>of_int (py_round (t / ?g)) - t / ?g\<bar> * ?g \<le> 1 / 2 * ?g"
    using g by (intro mult_right_mono py_round_error) simp
  moreover have "map_to_qblox_timegrid t - t = (of_int (py_round (t / ?g)) - t / ?g) * ?g"
    using g by (simp add: map_to_qblox_timegrid_def field_simps)
  ultimately have "\<bar>map_to_qblox_timegrid t - t\<bar> \<le> ?g / 2"
    using g by (simp add: abs_mult)
  moreover have "map_to_qblox_timegrid t \<le> map_to_qblox_timegrid u" if "t \<le> u"
  proof -
    have "py_round (t / ?g) \<le> py_round (u / ?g)" using that g by (intro py_round_mono divide_right_mono) simp_all
    then show ?thesis using g by (simp add: map_to_qblox_timegrid_def mult_right_mono)
  qed
  ultimately show ?thesis by (auto simp: map_to_qblox_timegrid_def)
qed

theorem timegrid_rounding_witness:
  "map_to_qblox_timegrid (5 / 10 ^ 9) \<le> map_to_qblox_timegrid (7 / 10 ^ 9)"
  using timegrid_rounding [of "5 / 10 ^ 9" "7 / 10 ^ 9"] by simp

section \<open>Playback\<close>

lemma channel_playbacks:
  assumes "channel_ok ch" and "k < length (ch_instructions ch)"
  shows "get_phase_at_position ch (int k) = Inr (phase_after (take (Suc k) (ch_instructions ch)))"
    and "get_freq_at_position ch (int k) = Inr (frequency_after (take (Suc k) (ch_instructions ch)))"
    and "get_acquisitions_at_position ch (int k) = Inr (acquisitions_after (take (Suc k) (ch_instructions ch)))"
    and "in_position (ch_instructions ch ! k) = k" and "in_clock (ch_instructions ch ! k) = ch_clock ch"
  using assms nth_map [OF assms(2), of in_position]
  by (simp_all add: channel_ok_def get_phase_at_position_def get_freq_at_position_def
      get_acquisitions_at_position_def py_at_nat playback_nth)

text \<open>
  C8. Whatever instructions an experiment has and wherever its translation stops, every channel of the
  registry is the one of its clock, its instructions carry their positions, and its playbacks hold, at
  each position, the phase, the frequency and the number of acquisitions after the instructions so far.
\<close>
theorem channels_play_back:
  fixes instructions fresh config native fr hw n
  defines "reg \<equiv> snd (forE instructions (add_instruction_to_channel_registry fresh config native fr hw)
             \<lparr>rg_channels = [], rg_drawn = n\<rparr>)"
  shows "distinct (map fst (rg_channels reg)) \<and>
    (\<forall>clock ch k. (clock, ch) \<in> set (rg_channels reg) \<and> k < length (ch_instructions ch) \<longrightarrow>
        get_phase_at_position ch (int k) = Inr (phase_after (take (Suc k) (ch_instructions ch))) \<and>
        get_freq_at_position ch (int k) = Inr (frequency_after (take (Suc k) (ch_instructions ch))) \<and>
        get_acquisitions_at_position ch (int k) = Inr (acquisitions_after (take (Suc k) (ch_instructions ch))) \<and>
        in_position (ch_instructions ch ! k) = k \<and> in_clock (ch_instructions ch ! k) = clock)"
proof -
  have "registry_ok \<lparr>rg_channels = [], rg_drawn = n\<rparr>" by (simp add: registry_ok_def)
  then have ok: "registry_ok reg"
    unfolding reg_def by (rule stableD [OF stable_forE [OF stable_add_instruction]])
  show ?thesis
  proof (intro conjI allI impI)
    show "distinct (map fst (rg_channels reg))" using ok by (simp add: registry_ok_def)
  next
    fix clock ch k
    assume k: "(clock, ch) \<in> set (rg_channels reg) \<and> k < length (ch_instructions ch)"
    then have c: "ch_clock ch = clock" "channel_ok ch" using ok unfolding registry_ok_def by blast+
    from k have l: "k < length (ch_instructions ch)" by (rule conjunct2)
    note pb = channel_playbacks [OF c(2) l]
    show "get_phase_at_position ch (int k) = Inr (phase_after (take (Suc k) (ch_instructions ch)))" by (rule pb)
    show "get_freq_at_position ch (int k) = Inr (frequency_after (take (Suc k) (ch_instructions ch)))" by (rule pb)
    show "get_acquisitions_at_position ch (int k) = Inr (acquisitions_after (take (Suc k) (ch_instructions ch)))"
      by (rule pb)
    show "in_position (ch_instructions ch ! k) = k" by (rule pb)
    show "in_clock (ch_instructions ch ! k) = clock" using pb(5) c(1) by (rule trans)
  qed
qed

text \<open>A frame change on the channel \<open>d0\<close> and a map of it to a clock and a port.\<close>

definition sample_fc :: qobj_inst where
  "sample_fc = \<lparr>qi_name = ''fc'', qi_t0 = 0, qi_ch = Some ''d0'', qi_duration = None, qi_qubits = None,
     qi_memory_slot = None, qi_phase = Some 1, qi_frequency = None, qi_pulse_shape = None, qi_parameters = None\<rparr>"

definition sample_hw :: hardware_map where
  "sample_hw = [(''d0'', (''q00.01'', ''q00:mw''))]"

definition sample_config :: qobj_config where
  "sample_config = \<lparr>qc_meas_level = 1, qc_meas_return = RetInt 1, qc_n_qubits = None, qc_shots = Some 10,
     qc_pulse_library = []\<rparr>"

lemma sample_acq_channel: "acq_channel ''q00.ro'' = Inr 0"
  by code_simp

definition sample_native :: native_config where
  "sample_native = \<lparr>nc_acq_return_type = COMPLEX, nc_protocol = SSB_INTEGRATION_COMPLEX, nc_bin_mode = AVERAGE,
     nc_meas_level = INTEGRATED, nc_meas_return = AVERAGED, nc_meas_return_cols = 1, nc_n_qubits = 1, nc_shots = 10\<rparr>"

lemma sample_fc_registry:
  "\<exists>ch. rg_channels (snd (forE [sample_fc] (add_instruction_to_channel_registry (\<lambda>_. ''l'') sample_config sample_native
      \<lparr>fr_lo = [], fr_drive = []\<rparr> sample_hw) \<lparr>rg_channels = [], rg_drawn = 0\<rparr>)) = [(''q00.01'', ch)] \<and>
    length (ch_instructions ch) = 1 \<and> phase_after (ch_instructions ch) = degrees 1"
  by (simp add: prog_simps add_instruction_to_channel_registry_def list_from_qobj_inst_def Let_def sample_fc_def
      shift_phase_list_def channel_of_def dict_get_def sample_hw_def registry_get_def new_channel_def build_def
      register_def register_instruction_def phase_after_def phase_step_def)

theorem channels_play_back_witness:
  "\<exists>ch. rg_channels (snd (forE [sample_fc] (add_instruction_to_channel_registry (\<lambda>_. ''l'') sample_config sample_native
      \<lparr>fr_lo = [], fr_drive = []\<rparr> sample_hw) \<lparr>rg_channels = [], rg_drawn = 0\<rparr>)) = [(''q00.01'', ch)] \<and>
    get_phase_at_position ch 0 = Inr (degrees 1)"
proof -
  obtain ch where ch: "rg_channels (snd (forE [sample_fc] (add_instruction_to_channel_registry (\<lambda>_. ''l'') sample_config sample_native
      \<lparr>fr_lo = [], fr_drive = []\<rparr> sample_hw) \<lparr>rg_channels = [], rg_drawn = 0\<rparr>)) = [(''q00.01'', ch)]"
    "length (ch_instructions ch) = 1" "phase_after (ch_instructions ch) = degrees 1"
    using sample_fc_registry by blast
  then have "get_phase_at_position ch (int 0) = Inr (phase_after (take (Suc 0) (ch_instructions ch)))"
    using channels_play_back [of "[sample_fc]" "\<lambda>_. ''l''" sample_config sample_native "\<lparr>fr_lo = [], fr_drive = []\<rparr>" sample_hw 0] by simp
  with ch show ?thesis by auto
qed

section \<open>Operations\<close>

text \<open>The phase that an operation adds to its clock.\<close>

definition phase_shift :: "operation result \<Rightarrow> rat" where
  "phase_shift r = (case r of Inr (ShiftClockPhaseOp d _) \<Rightarrow> d | _ \<Rightarrow> 0)"

text \<open>
  The phase operations of a channel, set and shifted alike, add up to its playback: issued in the order
  of registration from phase zero they leave, after every instruction, the phase of the playback.
\<close>
theorem phase_operations_add_up:
  assumes "channel_ok ch" and "k \<le> length (ch_instructions ch)"
  shows "sum_list (map (\<lambda>i. phase_shift (to_operation ch config i)) (take k (ch_instructions ch))) =
    phase_after (take k (ch_instructions ch))"
  using assms(2)
proof (induction k)
  case (Suc k)
  let ?i = "ch_instructions ch ! k"
  have p: "in_position ?i = k" "get_phase_at_position ch (int k) = Inr (phase_after (take (Suc k) (ch_instructions ch)))"
    using channel_playbacks [OF assms(1), of k] Suc.prems by simp_all
  have prev: "get_phase_at_position ch (int k - 1) = Inr (phase_after (take k (ch_instructions ch)))" if "0 < k"
    using channel_playbacks(1) [OF assms(1), of "k - 1"] Suc.prems that by simp
  have take: "take (Suc k) (ch_instructions ch) = take k (ch_instructions ch) @ [?i]"
    using Suc.prems by (simp add: take_Suc_conv_app_nth)
  have "phase_shift (to_operation ch config ?i) + phase_after (take k (ch_instructions ch)) =
      phase_step (phase_after (take k (ch_instructions ch))) ?i"
    using p prev
    by (cases "in_kind ?i") (auto simp: to_operation_def phase_shift_def phase_step_def set_phase_operation_def
        acquire_operation_def numerical_operation_def bind_result_def take after_snoc Let_def
        split: sum.splits option.splits if_splits)
  then show ?case using Suc by (simp add: take after_snoc)
qed simp

theorem phase_operations_add_up_witness:
  "sum_list (map (\<lambda>i. phase_shift (to_operation (snd (rg_channels sample_registry ! 0)) sample_config i))
    (take 3 (ch_instructions (snd (rg_channels sample_registry ! 0))))) = 90"
proof -
  let ?ch = "snd (rg_channels sample_registry ! 0)"
  have c: "channel_ok ?ch" "3 \<le> length (ch_instructions ?ch)" "phase_after (take 3 (ch_instructions ?ch)) = 90"
    using sample_registry_ok by (simp_all add: sample_registry_def registry_ok_def phase_after_def phase_step_def)
  show ?thesis using phase_operations_add_up [OF c(1,2)] c(3) by simp
qed

text \<open>The index that an acquisition reads into, none for another operation.\<close>

fun acq_index_of :: "operation \<Rightarrow> int option" where
  "acq_index_of (SSBIntegrationOp _ _ _ _ n _) = Some n"
| "acq_index_of (TraceOp _ _ _ _ n) = Some n"
| "acq_index_of _ = None"

lemma acq_index_of_operation:
  assumes "channel_ok ch" and k: "k < length (ch_instructions ch)"
    and op: "to_operation ch config (ch_instructions ch ! k) = Inr x"
  shows "acq_index_of x = (if is_acquire (ch_instructions ch ! k)
    then Some (acquisitions_after (take k (ch_instructions ch))) else None)"
proof -
  let ?i = "ch_instructions ch ! k"
  have p: "get_acquisitions_at_position ch (int (in_position ?i)) =
      Inr (acquisitions_after (take k (ch_instructions ch)) + (if is_acquire ?i then 1 else 0))"
    using channel_playbacks(3,4) [OF assms(1) k] k by (simp add: take_Suc_conv_app_nth after_snoc)
  show ?thesis
    using op p by (cases "in_kind ?i") (auto simp: to_operation_def is_acquire_def set_phase_operation_def
        acquire_operation_def numerical_operation_def bind_result_def Let_def
        split: sum.splits option.splits if_splits)
qed

text \<open>
  The acquisitions of a channel read into the indices 0, 1, 2 and so on, without a gap and in the
  order in which they were registered, however many other instructions lie between them.
\<close>
theorem acquisition_indices_consecutive:
  assumes "channel_ok ch" and "map_result (to_operation ch config) (ch_instructions ch) = Inr ops"
  shows "List.map_filter acq_index_of ops = map int [0..<length (filter is_acquire (ch_instructions ch))]"
proof -
  let ?is = "ch_instructions ch"
  have all: "list_all2 (\<lambda>i x. to_operation ch config i = Inr x) ?is ops"
    using assms(2) by (simp only: map_result_Inr)
  then have len: "length ops = length ?is" by (simp add: list_all2_lengthD)
  have "List.map_filter acq_index_of (take k ops) = map int [0..<length (filter is_acquire (take k ?is))]"
    if "k \<le> length ?is" for k
    using that
  proof (induction k)
    case (Suc k)
    have "acq_index_of (ops ! k) = (if is_acquire (?is ! k) then Some (acquisitions_after (take k ?is)) else None)"
      using Suc.prems list_all2_nthD [OF all, of k] by (intro acq_index_of_operation [OF assms(1)]) simp_all
    moreover have "take (Suc k) ops = take k ops @ [ops ! k]" "take (Suc k) ?is = take k ?is @ [?is ! k]"
      using Suc.prems len by (simp_all add: take_Suc_conv_app_nth)
    ultimately show ?case using Suc by (simp add: List.map_filter_def acquisitions_after_def)
  qed (simp add: List.map_filter_def)
  from this [of "length ?is"] show ?thesis using len by simp
qed

section \<open>References\<close>

definition label_known :: "string set \<Rightarrow> tick_state \<Rightarrow> bool" where
  "label_known L c \<longleftrightarrow> (has_emitted c \<longrightarrow> last_label c \<in> L)"

definition labels_of :: "emission list \<Rightarrow> string set" where
  "labels_of es = (\<lambda>e. in_label (em_inst e)) ` set es"

lemma labels_of_append [simp]: "labels_of [] = {}" "labels_of (xs @ ys) = labels_of xs \<union> labels_of ys"
  by (auto simp: labels_of_def)

lemma label_known_mono: "label_known L c \<Longrightarrow> L \<subseteq> M \<Longrightarrow> label_known M c"
  by (auto simp: label_known_def)

lemma emit_insts_known:
  "label_known L st \<Longrightarrow> label_known (L \<union> labels_of (snd (emit_insts inc c slot insts st))) (fst (emit_insts inc c slot insts st))"
proof (induction insts arbitrary: st L)
  case (Cons i js)
  define emit where "emit = (inc \<or> \<not> is_freq_control i)"
  define st' where "st' = (if emit then st\<lparr>last_label := in_label i, has_emitted := True\<rparr> else st)"
  define L' where "L' = (if emit then insert (in_label i) L else L)"
  have "label_known L' (st'\<lparr>dispatch_tick := dispatch_tick st' + 1\<rparr>)"
    using Cons.prems by (simp add: label_known_def st'_def L'_def)
  note IH = Cons.IH [OF this]
  have e: "emit_insts inc c slot (i # js) st =
      (fst (emit_insts inc c slot js (st'\<lparr>dispatch_tick := dispatch_tick st' + 1\<rparr>)),
       (if emit then [\<lparr>em_clock = c, em_inst = i, em_tick = slot + sync_tick st + dispatch_tick st + 1\<rparr>] else [])
         @ snd (emit_insts inc c slot js (st'\<lparr>dispatch_tick := dispatch_tick st' + 1\<rparr>)))"
    by (simp add: Let_def split_beta emit_def st'_def)
  show ?case unfolding e fst_conv snd_conv
    by (rule label_known_mono [OF IH]) (auto simp: L'_def labels_of_def)
qed simp

lemma emit_plans_known:
  "\<forall>c. label_known L (st c) \<Longrightarrow> label_known (L \<union> labels_of (snd (emit_plans inc slot ps st))) (fst (emit_plans inc slot ps st) c)"
proof (induction ps arbitrary: st L)
  case (Cons p ps)
  let ?r = "emit_insts inc (pl_clock p) slot (insts_at slot p) (st (pl_clock p))"
  have "label_known (L \<union> labels_of (snd ?r)) (fst ?r)" using Cons.prems emit_insts_known by blast
  then have "\<forall>c. label_known (L \<union> labels_of (snd ?r)) ((st(pl_clock p := fst ?r)) c)"
    using Cons.prems by (auto intro: label_known_mono)
  note IH = Cons.IH [OF this]
  have e: "emit_plans inc slot (p # ps) st = (fst (emit_plans inc slot ps (st(pl_clock p := fst ?r))),
      snd ?r @ snd (emit_plans inc slot ps (st(pl_clock p := fst ?r))))"
    by (simp add: Let_def split_beta)
  show ?case unfolding e fst_conv snd_conv
    by (rule label_known_mono [OF IH]) (simp only: labels_of_append Un_assoc order_refl)
qed simp

lemma emit_slots_known:
  "\<forall>c. label_known L (st c) \<Longrightarrow> label_known (L \<union> labels_of (snd (emit_slots inc ps slots st))) (fst (emit_slots inc ps slots st) c)"
proof (induction slots arbitrary: st L)
  case (Cons s slots)
  let ?active = "filter (\<lambda>p. s \<le> last_slot p) ps"
  let ?r = "emit_plans inc s ?active (synced s ?active st)"
  show ?case
  proof (cases "?active = []")
    case True
    then show ?thesis using Cons.prems by (simp add: label_known_def)
  next
    case False
    have "\<forall>c. label_known L (synced s ?active st c)"
      using Cons.prems by (simp add: synced_def sync_to_def label_known_def)
    then have "\<forall>c. label_known (L \<union> labels_of (snd ?r)) (fst ?r c)" using emit_plans_known by blast
    note IH = Cons.IH [OF this]
    have e: "emit_slots inc ps (s # slots) st =
        (fst (emit_slots inc ps slots (fst ?r)), snd ?r @ snd (emit_slots inc ps slots (fst ?r)))"
      using False by (simp add: Let_def split_beta del: filter.simps)
    show ?thesis unfolding e fst_conv snd_conv
      by (rule label_known_mono [OF IH]) (simp only: labels_of_append Un_assoc order_refl)
  qed
qed simp

text \<open>
  A schedule that is built hangs together: it begins with the initial object, which refers to nothing,
  and every later entry refers to the label of an entry before it.
\<close>
theorem entries_refer_back:
  assumes "construct_schedule reg name config inc root_label = Inr sd"
  shows "sd_entries sd \<noteq> [] \<and> en_ref_op (sd_entries sd ! 0) = None \<and>
    (\<forall>k. 0 < k \<and> k < length (sd_entries sd) \<longrightarrow>
      (\<exists>j<k. en_ref_op (sd_entries sd ! k) = Some (en_label (sd_entries sd ! j))))"
proof -
  let ?plans = "map (plan_of inc) (map snd (rg_channels reg))"
  obtain st es where es: "emissions inc root_label ?plans = (st, es)" by fastforce
  obtain shots entries where m: "map_result (entry_of (rg_channels reg) config root_label) es = Inr entries"
    and sd: "sd_entries sd = root_entry root_label
        # map (reset_entry root_label) (filter is_drive_clock (map ch_clock (map snd (rg_channels reg))))
        @ entries @ map (tail_entry root_label st) (filter pl_had_any ?plans)"
    using assms unfolding construct_schedule_def Let_def es prod.case bind_result_def
    by (auto split: sum.splits)
  define resets where "resets = map (reset_entry root_label) (filter is_drive_clock (map ch_clock (map snd (rg_channels reg))))"
  define tails where "tails = map (tail_entry root_label st) (filter pl_had_any ?plans)"
  define front where "front = root_entry root_label # resets @ entries"
  have sd': "sd_entries sd = front @ tails" by (simp add: sd front_def resets_def tails_def)
  have entry: "en_ref_op x = Some root_label \<and> en_label x = in_label (em_inst e)"
    if "entry_of (rg_channels reg) config root_label e = Inr x" for e x
    using that by (auto simp: entry_of_def bind_result_def split: sum.splits)
  have all: "list_all2 (\<lambda>e x. entry_of (rg_channels reg) config root_label e = Inr x) es entries"
    using m by (simp only: map_result_Inr)
  have ref: "\<forall>x\<in>set (resets @ entries). en_ref_op x = Some root_label"
  proof
    fix x
    assume "x \<in> set (resets @ entries)"
    then consider "x \<in> set resets" | e where "entry_of (rg_channels reg) config root_label e = Inr x"
      using all by (auto simp: in_set_conv_nth list_all2_conv_all_nth)
    then show "en_ref_op x = Some root_label"
      by cases (auto simp: resets_def reset_entry_def entry)
  qed
  have labels: "labels_of es \<subseteq> en_label ` set front"
  proof
    fix l
    assume "l \<in> labels_of es"
    then obtain n where n: "n < length es" "l = in_label (em_inst (es ! n))"
      by (auto simp: labels_of_def in_set_conv_nth)
    then have "l = en_label (entries ! n)" using entry [OF list_all2_nthD [OF all n(1)]] by simp
    then show "l \<in> en_label ` set front" using n(1) list_all2_lengthD [OF all] by (auto simp: front_def)
  qed
  have "label_known ({} \<union> labels_of es) (st c)" for c
    using emit_slots_known [of "{}" "initial_ticks root_label" inc ?plans "sorted_slots ?plans"] es
    by (simp add: emissions_def label_known_def initial_ticks_def)
  then have tail: "\<exists>l\<in>en_label ` set front. en_ref_op x = Some l" if "x \<in> set tails" for x
    using that labels
    by (auto simp: tails_def tail_entry_def Let_def label_known_def front_def root_entry_def split: if_splits) blast+
  have "\<exists>j<k. en_ref_op (sd_entries sd ! k) = Some (en_label (sd_entries sd ! j))"
    if k: "0 < k" "k < length (sd_entries sd)" for k
  proof (cases "k < length front")
    case True
    then have "sd_entries sd ! k = (resets @ entries) ! (k - 1)" "k - 1 < length (resets @ entries)"
      using k(1) by (auto simp: sd' front_def nth_Cons' nth_append)
    then have "sd_entries sd ! k \<in> set (resets @ entries)" by (simp only: nth_mem)
    then have "en_ref_op (sd_entries sd ! k) = Some (en_label (sd_entries sd ! 0))"
      using ref by (simp add: sd root_entry_def)
    then show ?thesis using k by blast
  next
    case False
    then have "sd_entries sd ! k \<in> set tails" using k by (simp add: sd' nth_append)
    then obtain j where "j < length front" "en_ref_op (sd_entries sd ! k) = Some (en_label (front ! j))"
      using tail by (fastforce simp: in_set_conv_nth)
    then show ?thesis using False by (intro exI [of _ j]) (simp add: sd' nth_append)
  qed
  then show ?thesis by (simp add: sd root_entry_def)
qed

text \<open>The schedule of the sample: an initial object, a reset, four instructions and two tails.\<close>

lemma sample_drive_clocks: "is_drive_clock ''q00.01''" "\<not> is_drive_clock ''q00.ro''"
  by code_simp+

lemma sample_operations:
  "to_operation (snd (rg_channels sample_registry ! 1)) config
      (sample_inst ''q00.ro'' 2 (Acquire 0 ''trace'' AVERAGE) ''l3'' 0) = Inr (TraceOp ''p'' ''q00.ro'' 0 0 0)"
  by (simp add: to_operation_def acquire_operation_def sample_registry_def get_acquisitions_at_position_def
      py_at_def sample_acq_channel bind_result_def)
     (simp add: sample_inst_def)

theorem acquisition_indices_consecutive_witness:
  "List.map_filter acq_index_of [TraceOp ''p'' ''q00.ro'' 0 0 0] = [0] \<and>
   map_result (to_operation (snd (rg_channels sample_registry ! 1)) sample_config)
     (ch_instructions (snd (rg_channels sample_registry ! 1))) = Inr [TraceOp ''p'' ''q00.ro'' 0 0 0]"
proof -
  let ?ch = "snd (rg_channels sample_registry ! 1)"
  have c: "channel_ok ?ch" using sample_registry_ok by (simp add: sample_registry_def registry_ok_def)
  have i: "ch_instructions ?ch = [sample_inst ''q00.ro'' 2 (Acquire 0 ''trace'' AVERAGE) ''l3'' 0]"
    by (simp add: sample_registry_def)
  have m: "map_result (to_operation ?ch sample_config) (ch_instructions ?ch) = Inr [TraceOp ''p'' ''q00.ro'' 0 0 0]"
    unfolding i by (simp add: sample_operations del: One_nat_def)
  from acquisition_indices_consecutive [OF c m] m show ?thesis by (simp add: i is_acquire_def)
qed

lemma map_result_total: "\<forall>x\<in>set xs. \<exists>y. f x = Inr y \<Longrightarrow> \<exists>ys. map_result f xs = Inr ys \<and> length ys = length xs"
  by (induction xs) auto

lemma sample_planned_insts:
  "map em_inst (planned False ''r'' sample_registry) =
    [sample_inst ''q00.01'' 0 (ShiftPhase 90) ''l0'' 0, sample_inst ''q00.01'' 0 Delay ''l1'' 1,
     sample_inst ''q00.01'' 2 Delay ''l2'' 2, sample_inst ''q00.ro'' 2 (Acquire 0 ''trace'' AVERAGE) ''l3'' 0]"
  by (simp add: planned_def sample_registry_def emissions_def sorted_slots_def plan_of_def initial_ticks_def
      last_slot_def insts_at_def Let_def synced_def barrier_def sync_to_def ready_tick_def)

lemma sample_entry:
  "em_inst e \<in> {sample_inst ''q00.01'' 0 (ShiftPhase 90) ''l0'' 0, sample_inst ''q00.01'' 0 Delay ''l1'' 1,
     sample_inst ''q00.01'' 2 Delay ''l2'' 2, sample_inst ''q00.ro'' 2 (Acquire 0 ''trace'' AVERAGE) ''l3'' 0} \<Longrightarrow>
   \<exists>x. entry_of (rg_channels sample_registry) sample_config ''r'' e = Inr x"
  using sample_operations [of sample_config]
  by (auto simp: entry_of_def bind_result_def dict_get_def sample_registry_def to_operation_def)

lemma sample_schedule:
  "\<exists>sd. construct_schedule sample_registry ''x'' sample_config False ''r'' = Inr sd \<and> length (sd_entries sd) = 8"
proof -
  obtain st es where e: "emissions False ''r'' (map (plan_of False) (map snd (rg_channels sample_registry))) = (st, es)"
    by fastforce
  then have es: "planned False ''r'' sample_registry = es" by (simp only: planned_def snd_conv)
  have "\<forall>x\<in>set es. \<exists>y. entry_of (rg_channels sample_registry) sample_config ''r'' x = Inr y"
  proof
    fix x
    assume "x \<in> set es"
    then have "em_inst x \<in> set (map em_inst es)" by simp
    then have "em_inst x \<in> {sample_inst ''q00.01'' 0 (ShiftPhase 90) ''l0'' 0, sample_inst ''q00.01'' 0 Delay ''l1'' 1,
      sample_inst ''q00.01'' 2 Delay ''l2'' 2, sample_inst ''q00.ro'' 2 (Acquire 0 ''trace'' AVERAGE) ''l3'' 0}"
      using sample_planned_insts unfolding es by (simp only: list.set)
    then show "\<exists>y. entry_of (rg_channels sample_registry) sample_config ''r'' x = Inr y" by (rule sample_entry)
  qed
  from map_result_total [OF this]
  obtain entries where m: "map_result (entry_of (rg_channels sample_registry) sample_config ''r'') es = Inr entries"
    "length entries = length es" by (elim exE conjE)
  have "length (map em_inst es) = 4" unfolding es [symmetric] sample_planned_insts by simp
  then have "length es = 4" by (simp only: length_map)
  moreover have "map ch_clock (map snd (rg_channels sample_registry)) = [''q00.01'', ''q00.ro'']"
    "filter pl_had_any (map (plan_of False) (map snd (rg_channels sample_registry))) =
      map (plan_of False) (map snd (rg_channels sample_registry))" "length (rg_channels sample_registry) = 2"
    by (simp_all add: sample_registry_def plan_of_def)
  moreover have "attr (qc_shots sample_config) = Inr 10" by (simp add: sample_config_def)
  ultimately show ?thesis
    unfolding construct_schedule_def Let_def e prod.case
    by (simp add: bind_result_def m sample_drive_clocks del: map_map)
qed

theorem entries_refer_back_witness:
  "\<exists>sd. construct_schedule sample_registry ''x'' sample_config False ''r'' = Inr sd \<and>
    (\<exists>j<7. en_ref_op (sd_entries sd ! 7) = Some (en_label (sd_entries sd ! j)))"
proof -
  obtain sd where sd: "construct_schedule sample_registry ''x'' sample_config False ''r'' = Inr sd"
    "length (sd_entries sd) = 8" using sample_schedule by blast
  show ?thesis using entries_refer_back [OF sd(1)] sd by auto
qed

end
