(* ===== verification/Py_Json.thy ===== *)
theory Py_Json imports Py_Values begin

text \<open>
  Values of JSON as Python holds them: dictionaries keep the order of their keys. With them the
  helpers on nested dictionaries: \<open>search_nested\<close> and \<open>get_duplicates\<close> of
  \<^verbatim>\<open>app/libs/quantum_executor/utils/general.py\<close> and \<open>_get_value_at_path\<close> of
  \<^verbatim>\<open>app/libs/quantum_executor/base/quantum_job\<close>.
\<close>

datatype json =
    JNull
  | JBool bool
  | JInt int
  | JNum rat
  | JStr string
  | JList "json list"
  | JDict "(string \<times> json) list"

fun truthy :: "json \<Rightarrow> bool" where
  "truthy JNull = False"
| "truthy (JBool b) = b"
| "truthy (JInt n) = (n \<noteq> 0)"
| "truthy (JNum x) = (x \<noteq> 0)"
| "truthy (JStr s) = (s \<noteq> [])"
| "truthy (JList xs) = (xs \<noteq> [])"
| "truthy (JDict d) = (d \<noteq> [])"

text \<open>\<open>int(value)\<close>.\<close>

fun int_of_json :: "json \<Rightarrow> int result" where
  "int_of_json (JBool b) = Inr (of_bool b)"
| "int_of_json (JInt n) = Inr n"
| "int_of_json (JNum x) = Inr (py_int x)"
| "int_of_json (JStr s) = int_of_text s"
| "int_of_json _ = Inl TypeError"

text \<open>\<open>value[key]\<close> with a text.\<close>

fun json_item :: "json \<Rightarrow> string \<Rightarrow> json result" where
  "json_item (JDict d) k = dict_get d k"
| "json_item _ _ = Inl TypeError"

text \<open>\<open>value.get(key)\<close> of a dictionary.\<close>

fun dict_find :: "json \<Rightarrow> string \<Rightarrow> json option" where
  "dict_find (JDict d) k = map_of d k"
| "dict_find _ _ = None"

section \<open>Nested dictionaries\<close>

lemma size_item: "(k, v) \<in> set d \<Longrightarrow> size v < Suc (size_list (size_prod (\<lambda>_. 0) size) d)"
  by (induction d) auto

function search_nested :: "json \<Rightarrow> string \<Rightarrow> string list list" where
  "search_nested haystack needle =
     (case haystack of
        JDict d \<Rightarrow> (if map_of d needle \<noteq> None then [[needle]] else [])
          @ concat (map (\<lambda>(key, val). map (\<lambda>sub_path. key # sub_path) (search_nested val needle)) d)
      | _ \<Rightarrow> [])"
  by pat_completeness auto
termination
  by (relation "measure (\<lambda>(h, n). size h)") (auto intro: size_item)

declare search_nested.simps [simp del]

text \<open>The loop reads every part from the outermost dictionary.\<close>

definition get_value_at_path :: "json \<Rightarrow> string list \<Rightarrow> json result" where
  "get_value_at_path data path =
     foldl (\<lambda>r part. bind_result r (\<lambda>_. json_item data part)) (Inr data) path"

text \<open>What the doc describes: \<open>data[p1][p2]...\<close>.\<close>

fun value_at :: "json \<Rightarrow> string list \<Rightarrow> json result" where
  "value_at v [] = Inr v"
| "value_at v (p # ps) = bind_result (json_item v p) (\<lambda>w. value_at w ps)"

definition get_duplicates :: "string list \<Rightarrow> string list" where
  "get_duplicates texts = fst (foldl (\<lambda>(duplicates, seen) name.
     if name \<in> seen then (duplicates @ [name], seen) else (duplicates, insert name seen)) ([], {}) texts)"

section \<open>Facts\<close>

lemma get_value_at_path_last:
  "get_value_at_path data (ps @ [p]) =
     (if \<forall>q\<in>set ps. \<exists>v. json_item data q = Inr v then json_item data p
      else get_value_at_path data ps)"
proof -
  have e: "foldl (\<lambda>r part. bind_result r (\<lambda>_. json_item data part)) (Inl e) qs = Inl e" for e qs
    by (induction qs) simp_all
  have "(\<exists>v. foldl (\<lambda>r part. bind_result r (\<lambda>_. json_item data part)) (Inr w) ps = Inr v) \<longleftrightarrow>
      (\<forall>q\<in>set ps. \<exists>v. json_item data q = Inr v)" for w
  proof (induction ps arbitrary: w)
    case (Cons q ps)
    show ?case
    proof (cases "json_item data q")
      case (Inl x)
      then show ?thesis by (simp add: e)
    next
      case (Inr v)
      with Cons [of v] show ?thesis by simp
    qed
  qed simp
  note ok = this [of data, folded get_value_at_path_def]
  have "get_value_at_path data (ps @ [p]) = bind_result (get_value_at_path data ps) (\<lambda>_. json_item data p)"
    by (simp add: get_value_at_path_def)
  then show ?thesis using ok by (cases "get_value_at_path data ps") auto
qed

end
