(* ===== verification/Readout.thy ===== *)
theory Readout imports Py_Json Quantify_Channel Py_Uuid "HOL-Library.Word" begin

text \<open>
  From the measured points of a job to its results: the routines of
  \<^verbatim>\<open>app/libs/quantum_executor/base/quantum_job/__init__.py\<close> that read the acquisitions of an experiment,
  discriminate the points, pack the states into a register and write it in hexadecimal, or list the
  points as they are; and \<open>apply_linear_discriminator\<close> of \<^verbatim>\<open>app/services/scheduler/utils.py\<close>.
  Arrays of \<open>int8\<close> and \<open>int64\<close> wrap around at their width, as those of numpy do.
\<close>

section \<open>Data\<close>

text \<open>A float that is a number, or none. The points of a measurement are pairs of them.\<close>

datatype flt = Fin rat | PosInf | NegInf | NaN

type_synonym iq = "flt \<times> flt"

text \<open>An array of one or two dimensions, the latter with its number of columns, or of more.\<close>

datatype iq_array = Arr1 "iq list" | Arr2 nat "iq list list" | ArrN

text \<open>The dataset of an experiment: how many repetitions, unless the dimension is missing.\<close>

record dataset =
  ds_repetition :: "nat option"
  ds_vars :: "(string \<times> iq_array) list"

record qobj_expt =
  ex_instructions :: "qobj_inst list"
  ex_metadata :: "json option"

record quantum_job =
  jb_meas_return :: meas_ret
  jb_n_qubits :: int
  jb_experiments :: "qobj_expt list"
  jb_raw_results :: "(string \<times> dataset) list option"

datatype byte_order = BIG_ENDIAN | LITTLE_ENDIAN

text \<open>What a discriminator returns: one state, or one for each point.\<close>

datatype states = Scalar int | States "int list"

section \<open>Acquisitions\<close>

record acq_params =
  ac_qubits :: "nat list"
  ac_memory_slots :: "nat list"

fun collect_from_obj :: "qobj_inst list \<Rightarrow> acq_params result" where
  "collect_from_obj [] = Inr \<lparr>ac_qubits = [], ac_memory_slots = []\<rparr>"
| "collect_from_obj (inst # insts) =
     (case (qi_qubits inst, qi_memory_slot inst) of
        (Some qs, Some ms) \<Rightarrow>
          if length qs \<noteq> length ms then Inl ValueError
          else bind_result (collect_from_obj insts) (\<lambda>acq.
            Inr \<lparr>ac_qubits = qs @ ac_qubits acq, ac_memory_slots = ms @ ac_memory_slots acq\<rparr>)
      | _ \<Rightarrow> Inl ValueError)"

definition get_acquisition_parameters_from_experiment :: "nat \<Rightarrow> qobj_expt list \<Rightarrow> acq_params result" where
  "get_acquisition_parameters_from_experiment exp_index experiments =
     bind_result (py_at experiments (int exp_index)) (\<lambda>ex.
       let acq_instrs = filter (\<lambda>inst. qi_name inst = ''acquire'') (ex_instructions ex) in
       if acq_instrs = [] then Inl ValueError else collect_from_obj acq_instrs)"

section \<open>Qubits, classical bits and the width of the register\<close>

text \<open>The metadata under \<open>tergite\<close>, an empty dictionary when there are none.\<close>

definition get_tergite_metadata_for_experiment :: "qobj_expt list \<Rightarrow> nat \<Rightarrow> json result" where
  "get_tergite_metadata_for_experiment experiments exp_index =
     bind_result (py_at experiments (int exp_index)) (\<lambda>ex.
       Inr (case ex_metadata ex of
              Some (JDict d) \<Rightarrow> (case map_of d ''tergite'' of Some (JDict t) \<Rightarrow> JDict t | _ \<Rightarrow> JDict [])
            | _ \<Rightarrow> JDict []))"

definition get_q_to_c_from_qobj :: "qobj_expt list \<Rightarrow> nat \<Rightarrow> acq_params \<Rightarrow> (int \<times> int) list result" where
  "get_q_to_c_from_qobj experiments exp_index acq =
     bind_result (get_tergite_metadata_for_experiment experiments exp_index) (\<lambda>md.
       let zipped = dict_of (zip (map int (ac_qubits acq)) (map int (ac_memory_slots acq))) in
       case dict_find md ''q_to_c'' of
         None \<Rightarrow> Inr zipped
       | Some raw_q_to_c \<Rightarrow>
           if \<not> truthy raw_q_to_c then Inr zipped
           else case raw_q_to_c of
                  JDict d \<Rightarrow> bind_result (map_result (\<lambda>(q, c).
                      bind_result (int_of_text q) (\<lambda>q'. bind_result (int_of_json c) (\<lambda>c'. Inr (q', c')))) d)
                    (\<lambda>kvs. Inr (dict_of kvs))
                | _ \<Rightarrow> Inl AttributeError)"

definition get_c_reg_len_from_qobj :: "int \<Rightarrow> qobj_expt list \<Rightarrow> nat \<Rightarrow> acq_params \<Rightarrow> int result" where
  "get_c_reg_len_from_qobj n_qubits experiments exp_index acq =
     bind_result (get_tergite_metadata_for_experiment experiments exp_index) (\<lambda>md.
       case dict_find md ''c_reg_len'' of
         Some v \<Rightarrow> if v \<noteq> JNull then int_of_json v
                   else Inr (if ac_memory_slots acq \<noteq> [] then int (Max (set (ac_memory_slots acq))) + 1 else n_qubits)
       | None \<Rightarrow> Inr (if ac_memory_slots acq \<noteq> [] then int (Max (set (ac_memory_slots acq))) + 1 else n_qubits))"

section \<open>Arrays of machine integers\<close>

definition int8 :: "int \<Rightarrow> int" where
  "int8 x = sint (word_of_int x :: 8 word)"

definition int64 :: "int \<Rightarrow> int" where
  "int64 x = sint (word_of_int x :: 64 word)"

text \<open>\<open>array @ powers\<close> for one row: the first digit has the highest power.\<close>

definition row_to_decimal :: "int \<Rightarrow> int list \<Rightarrow> int" where
  "row_to_decimal base row =
     (let powers_of_base = map (\<lambda>k. int64 (base ^ k)) (rev [0..<length row])
      in int64 (sum_list (map2 (*) row powers_of_base)))"

definition bitarrays_to_decimal :: "int list list \<Rightarrow> int \<Rightarrow> byte_order \<Rightarrow> int list" where
  "bitarrays_to_decimal rows base byteorder =
     map (\<lambda>row. row_to_decimal base (if byteorder = LITTLE_ENDIAN then rev row else row)) rows"

fun hex_nat :: "nat \<Rightarrow> string" where
  "hex_nat n = (if n < 16 then [hex_char (int n)] else hex_nat (n div 16) @ [hex_char (int (n mod 16))])"

declare hex_nat.simps [simp del]

text \<open>\<open>hex(n)\<close>.\<close>

definition py_hex :: "int \<Rightarrow> string" where
  "py_hex n = (if n < 0 then ''-'' else []) @ ''0x'' @ hex_nat (nat \<bar>n\<bar>)"

section \<open>Discrimination\<close>

text \<open>\<open>register[i, :] = row\<close>: a negative index counts from the end.\<close>

definition set_row :: "'a list \<Rightarrow> int \<Rightarrow> 'a \<Rightarrow> 'a list result" where
  "set_row xs i x = bind_result (py_at xs i) (\<lambda>_.
     Inr (xs[nat (if i < 0 then int (length xs) + i else i) := x]))"

fun num_columns :: "iq_array \<Rightarrow> nat result" where
  "num_columns (Arr1 _) = Inl IndexError"
| "num_columns (Arr2 c _) = Inr c"
| "num_columns ArrN = Inl IndexError"

definition first_column :: "iq_array \<Rightarrow> iq list result" where
  "first_column a = (case a of Arr2 c rows \<Rightarrow> if c = 0 then Inl IndexError else map_result (\<lambda>row. py_at row 0) rows | _ \<Rightarrow> Inl IndexError)"

text \<open>\<open>sorted(items, key=lambda kv: int(kv[0]))\<close>.\<close>

definition sorted_acquisitions :: "(string \<times> iq_array) list \<Rightarrow> (int \<times> iq_array) list result" where
  "sorted_acquisitions vars =
     bind_result (map_result (\<lambda>(channel, a). bind_result (int_of_text channel) (\<lambda>q. Inr (q, a))) vars)
       (\<lambda>kvs. Inr (sort_key fst kvs))"

text \<open>
  One channel: its row of the register, or its place among the channels without a classical bit.
  \<open>sdk\<close> maps the qubits of the device to those of the circuit.
\<close>

definition read_channel ::
    "(int \<Rightarrow> iq list \<Rightarrow> states result) \<Rightarrow> meas_ret \<Rightarrow> (int \<times> nat) list \<Rightarrow> (int \<times> int) list \<Rightarrow> nat
      \<Rightarrow> int \<times> iq_array \<Rightarrow> int list list \<times> nat list \<Rightarrow> (int list list \<times> nat list) result" where
  "read_channel discriminator meas_return sdk q_to_c reps kv st =
     (let (quantify_qubit_id, acquisitions) = kv; (reg, unmapped) = st in
      bind_result (num_columns acquisitions) (\<lambda>cols.
      if cols \<noteq> 1 \<and> meas_return \<noteq> AVERAGED then Inl ValueError
      else case map_of sdk quantify_qubit_id of
        None \<Rightarrow> Inl ValueError
      | Some sdk_qubit_id \<Rightarrow>
         (case map_of q_to_c (int sdk_qubit_id) of
            None \<Rightarrow> Inr (reg, unmapped @ [sdk_qubit_id])
          | Some cbit_id \<Rightarrow>
             bind_result (first_column acquisitions) (\<lambda>iq_values.
             bind_result (discriminator quantify_qubit_id iq_values) (\<lambda>disc_res.
               case disc_res of
                 Scalar x \<Rightarrow> bind_result (set_row reg cbit_id (replicate reps (int8 x)))
                               (\<lambda>reg1. Inr (reg1, unmapped))
               | States xs \<Rightarrow> if length xs \<noteq> reps then Inl ValueError
                               else bind_result (set_row reg cbit_id (map int8 xs))
                                      (\<lambda>reg1. Inr (reg1, unmapped)))))))"

fun read_channels ::
    "(int \<Rightarrow> iq list \<Rightarrow> states result) \<Rightarrow> meas_ret \<Rightarrow> (int \<times> nat) list \<Rightarrow> (int \<times> int) list \<Rightarrow> nat
      \<Rightarrow> (int \<times> iq_array) list \<Rightarrow> int list list \<times> nat list \<Rightarrow> (int list list \<times> nat list) result" where
  "read_channels discriminator meas_return sdk q_to_c reps [] st = Inr st"
| "read_channels discriminator meas_return sdk q_to_c reps (kv # kvs) st =
     bind_result (read_channel discriminator meas_return sdk q_to_c reps kv st)
       (read_channels discriminator meas_return sdk q_to_c reps kvs)"

definition repetitions :: "dataset \<Rightarrow> nat" where
  "repetitions ds = (case ds_repetition ds of None \<Rightarrow> 1 | Some n \<Rightarrow> n)"

text \<open>\<open>register.transpose()\<close>, one list for each repetition.\<close>

definition rows_per_rep :: "nat \<Rightarrow> int list list \<Rightarrow> int list list" where
  "rows_per_rep reps reg = map (\<lambda>r. map (\<lambda>row. row ! r) reg) [0..<reps]"

definition discriminate_experiment ::
    "(int \<Rightarrow> iq list \<Rightarrow> states result) \<Rightarrow> int \<Rightarrow> byte_order \<Rightarrow> (int \<times> nat) list \<Rightarrow> quantum_job
      \<Rightarrow> nat \<times> dataset \<Rightarrow> string list result" where
  "discriminate_experiment discriminator num_of_states byteorder sdk job e =
     (let (exp_index, ds) = e; reps = repetitions ds in
      bind_result (get_acquisition_parameters_from_experiment exp_index (jb_experiments job)) (\<lambda>acq.
      bind_result (get_q_to_c_from_qobj (jb_experiments job) exp_index acq) (\<lambda>q_to_c.
      bind_result (get_c_reg_len_from_qobj (jb_n_qubits job) (jb_experiments job) exp_index acq) (\<lambda>c_reg_len.
      if c_reg_len < 0 then Inl ValueError
      else bind_result (sorted_acquisitions (ds_vars ds)) (\<lambda>acquisitions.
      bind_result (read_channels discriminator (jb_meas_return job) sdk q_to_c reps acquisitions
                     (replicate (nat c_reg_len) (replicate reps 0), [])) (\<lambda>(reg, unmapped).
      if unmapped \<noteq> [] then Inl ValueError
      else Inr (map py_hex (bitarrays_to_decimal (rows_per_rep reps reg) num_of_states byteorder))))))))"

text \<open>The qubits of the device, in numerical order, against their places in it.\<close>

definition quantify_to_sdk_map :: "string list \<Rightarrow> (int \<times> nat) list result" where
  "quantify_to_sdk_map ids = bind_result (map_result int_of_text ids) (\<lambda>qs.
     Inr (dict_of (map (\<lambda>(idx, q). (q, idx)) (List.enumerate 0 (sort qs)))))"

definition discriminate_results ::
    "(int \<Rightarrow> iq list \<Rightarrow> states result) \<Rightarrow> int \<Rightarrow> byte_order \<Rightarrow> string list \<Rightarrow> quantum_job \<Rightarrow> string list list result" where
  "discriminate_results discriminator num_of_states byteorder calibrated_qubits job =
     bind_result (quantify_to_sdk_map calibrated_qubits) (\<lambda>sdk.
     bind_result (attr (jb_raw_results job)) (\<lambda>raw.
       map_result (discriminate_experiment discriminator num_of_states byteorder sdk job)
         (List.enumerate 0 (map snd raw))))"

section \<open>The points as they are\<close>

fun row_of :: "iq_array \<Rightarrow> nat \<Rightarrow> iq list result" where
  "row_of (Arr2 c rows) rep_idx = py_at rows (int rep_idx)"
| "row_of (Arr1 row) rep_idx = Inr row"
| "row_of ArrN rep_idx = Inl ValueError"

text \<open>A point with a part that is no finite number becomes the origin.\<close>

definition finite_point :: "iq \<Rightarrow> rat \<times> rat" where
  "finite_point c = (case c of (Fin a, Fin b) \<Rightarrow> (a, b) | _ \<Rightarrow> (0, 0))"

text \<open>By memory slot where every channel has one, else by number.\<close>

definition ordered_channel_ids :: "qobj_expt list \<Rightarrow> nat \<Rightarrow> int list \<Rightarrow> int list" where
  "ordered_channel_ids experiments exp_index channel_ids =
     (case get_acquisition_parameters_from_experiment exp_index experiments of
        Inl _ \<Rightarrow> channel_ids
      | Inr acq \<Rightarrow>
          let qubit_to_slot = dict_of (zip (map int (ac_qubits acq)) (ac_memory_slots acq)) in
          if qubit_to_slot \<noteq> [] \<and> (\<forall>q\<in>set channel_ids. map_of qubit_to_slot q \<noteq> None)
          then sort_key (\<lambda>q. the (map_of qubit_to_slot q)) channel_ids
          else channel_ids)"

definition int_text :: "int \<Rightarrow> string" where
  "int_text n = (if n < 0 then ''-'' else []) @ nat_text (nat \<bar>n\<bar>)"

definition list_experiment :: "qobj_expt list \<Rightarrow> nat \<times> dataset \<Rightarrow> (rat \<times> rat) list list result" where
  "list_experiment experiments e =
     (let (exp_index, ds) = e in
      bind_result (map_result int_of_text (map fst (ds_vars ds))) (\<lambda>ids.
        let ordered = ordered_channel_ids experiments exp_index (sort ids) in
        map_result (\<lambda>rep_idx.
          bind_result (map_result (\<lambda>qid. bind_result (dict_get (ds_vars ds) (int_text qid)) (\<lambda>a. row_of a rep_idx)) ordered)
            (\<lambda>rows. Inr (map finite_point (concat rows))))
          [0..<repetitions ds]))"

definition xarray_to_list :: "quantum_job \<Rightarrow> (rat \<times> rat) list list list result" where
  "xarray_to_list job =
     (case jb_raw_results job of
        None \<Rightarrow> Inl ValueError
      | Some raw \<Rightarrow> map_result (list_experiment (jb_experiments job)) (List.enumerate 0 (map snd raw)))"

section \<open>The linear discriminator\<close>

fun flt_times :: "flt \<Rightarrow> rat \<Rightarrow> flt" where
  "flt_times (Fin a) c = Fin (a * c)"
| "flt_times PosInf c = (if c > 0 then PosInf else if c < 0 then NegInf else NaN)"
| "flt_times NegInf c = (if c > 0 then NegInf else if c < 0 then PosInf else NaN)"
| "flt_times NaN c = NaN"

fun flt_plus :: "flt \<Rightarrow> flt \<Rightarrow> flt" where
  "flt_plus NaN y = NaN"
| "flt_plus x NaN = NaN"
| "flt_plus (Fin a) (Fin b) = Fin (a + b)"
| "flt_plus PosInf NegInf = NaN"
| "flt_plus NegInf PosInf = NaN"
| "flt_plus PosInf y = PosInf"
| "flt_plus x PosInf = PosInf"
| "flt_plus NegInf y = NegInf"
| "flt_plus x NegInf = NegInf"

definition flt_positive :: "flt \<Rightarrow> bool" where
  "flt_positive x = (case x of Fin a \<Rightarrow> 0 < a | PosInf \<Rightarrow> True | _ \<Rightarrow> False)"

record lda =
  ld_coef_0 :: rat
  ld_coef_1 :: rat
  ld_intercept :: rat

text \<open>\<open>discriminators\<close> is the part of the calibration under \<open>lda\<close>, by the names of the qubits.\<close>

definition apply_linear_discriminator :: "(string \<times> lda) list \<Rightarrow> int \<Rightarrow> iq list \<Rightarrow> states result" where
  "apply_linear_discriminator discriminators qubit_idx iq_points =
     bind_result (dict_get discriminators (CHR ''q'' # int_text qubit_idx)) (\<lambda>d.
       Inr (States (map (\<lambda>(x, y).
         of_bool (flt_positive (flt_plus (flt_plus (flt_times x (ld_coef_0 d)) (flt_times y (ld_coef_1 d)))
           (Fin (ld_intercept d))))) iq_points)))"

end
