(* ===== verification/Readout_Properties.thy ===== *)
theory Readout_Properties imports Readout "HOL-Library.Multiset" begin

text \<open>
  What the results of a job say: the register of each shot, its text in hexadecimal and back, and
  where the width of the machine integers shows.
\<close>

section \<open>Machine integers\<close>

lemma word_of_int64: "(word_of_int (int64 x) :: 64 word) = word_of_int x"
  by (simp add: int64_def)

lemma int64_cong: "(word_of_int x :: 64 word) = word_of_int y \<Longrightarrow> int64 x = int64 y"
  by (simp add: int64_def)

lemma int64_small: "- (2 ^ 63) \<le> x \<Longrightarrow> x < 2 ^ 63 \<Longrightarrow> int64 x = x"
  by (simp add: int64_def sint_sbintrunc' signed_take_bit_int_eq_self)

lemma int8_small: "- 128 \<le> x \<Longrightarrow> x < 128 \<Longrightarrow> int8 x = x"
  by (simp add: int8_def sint_sbintrunc' signed_take_bit_int_eq_self)

lemma int64_sum:
  "int64 (\<Sum>k\<leftarrow>ks. f k * int64 (g k)) = int64 (\<Sum>k\<leftarrow>ks. f k * g k)"
proof (rule int64_cong)
  show "(word_of_int (\<Sum>k\<leftarrow>ks. f k * int64 (g k)) :: 64 word) = word_of_int (\<Sum>k\<leftarrow>ks. f k * g k)"
    by (induction ks) (simp_all add: wi_hom_add [symmetric] wi_hom_mult [symmetric] word_of_int64)
qed

text \<open>In little-endian order bit \<open>k\<close> of the row has the weight \<open>base\<close> to the power of \<open>k\<close>.\<close>

lemma row_to_decimal_little:
  "row_to_decimal base (rev row) = int64 (\<Sum>k<length row. row ! k * base ^ k)"
proof -
  have "map2 (*) (rev row) (map (\<lambda>k. int64 (base ^ k)) (rev [0..<length row])) =
      rev (map (\<lambda>k. row ! k * int64 (base ^ k)) [0..<length row])"
  proof (rule nth_equalityI)
    fix i
    assume "i < length (map2 (*) (rev row) (map (\<lambda>k. int64 (base ^ k)) (rev [0..<length row])))"
    then have "i < length row" "length row - Suc i < length row" by simp_all
    then show "map2 (*) (rev row) (map (\<lambda>k. int64 (base ^ k)) (rev [0..<length row])) ! i =
        rev (map (\<lambda>k. row ! k * int64 (base ^ k)) [0..<length row]) ! i"
      using nth_upt [of 0 "length row - Suc i" "length row"] by (simp add: rev_nth)
  qed simp
  then have "row_to_decimal base (rev row) = int64 (\<Sum>k\<leftarrow>[0..<length row]. row ! k * int64 (base ^ k))"
    by (simp add: row_to_decimal_def sum_list_rev)
  also have "\<dots> = int64 (\<Sum>k\<leftarrow>[0..<length row]. row ! k * base ^ k)" by (rule int64_sum)
  finally show ?thesis by (simp add: interv_sum_list_conv_sum_set_nat atLeast0LessThan)
qed


section \<open>The register\<close>

lemma set_row_nat: "c < length xs \<Longrightarrow> set_row xs (int c) x = Inr (xs[c := x])"
  by (simp add: set_row_def py_at_nat)

lemma int8_states: "set xs \<subseteq> {0, 1} \<Longrightarrow> map int8 xs = xs"
  by (induction xs) (auto simp: int8_small)

text \<open>A channel that can be read: it has a classical bit in the register and one state for each shot.\<close>

definition readable ::
    "(int \<Rightarrow> iq list \<Rightarrow> states result) \<Rightarrow> (int \<times> nat) list \<Rightarrow> (int \<times> int) list \<Rightarrow> nat \<Rightarrow> nat
      \<Rightarrow> (int \<Rightarrow> nat) \<Rightarrow> (int \<Rightarrow> int list) \<Rightarrow> int \<times> iq_array \<Rightarrow> bool" where
  "readable discriminator sdk q_to_c n reps cbit measured kv \<longleftrightarrow>
     (case kv of (q, a) \<Rightarrow>
        num_columns a = Inr 1 \<and>
        (\<exists>s. map_of sdk q = Some s \<and> map_of q_to_c (int s) = Some (int (cbit q))) \<and> cbit q < n \<and>
        (\<exists>iqs. first_column a = Inr iqs \<and> discriminator q iqs = Inr (States (measured q))) \<and>
        length (measured q) = reps \<and> set (measured q) \<subseteq> {0, 1})"

lemma read_channel_readable:
  assumes "readable discriminator sdk q_to_c (length reg) reps cbit measured kv"
  shows "read_channel discriminator mr sdk q_to_c reps kv (reg, un) =
    Inr (reg[cbit (fst kv) := measured (fst kv)], un)"
proof -
  obtain q a where kv: "kv = (q, a)" by (cases kv)
  with assms obtain s iqs where
    "num_columns a = Inr 1" "map_of sdk q = Some s" "map_of q_to_c (int s) = Some (int (cbit q))"
    "cbit q < length reg" "first_column a = Inr iqs" "discriminator q iqs = Inr (States (measured q))"
    "length (measured q) = reps" "set (measured q) \<subseteq> {0, 1}"
    unfolding readable_def prod.case by blast
  then show ?thesis by (simp add: read_channel_def kv set_row_nat int8_states)
qed

lemma read_channels_readable:
  assumes "\<forall>kv\<in>set kvs. readable discriminator sdk q_to_c (length reg) reps cbit measured kv"
  shows "read_channels discriminator mr sdk q_to_c reps kvs (reg, un) =
    Inr (foldl (\<lambda>g q. g[cbit q := measured q]) reg (map fst kvs), un)"
  using assms
proof (induction kvs arbitrary: reg)
  case (Cons kv kvs)
  then have "read_channel discriminator mr sdk q_to_c reps kv (reg, un) =
      Inr (reg[cbit (fst kv) := measured (fst kv)], un)"
    by (intro read_channel_readable) simp
  with Cons show ?case by simp
qed simp

lemma foldl_rows:
  assumes "inj_on cbit (set qs)" and "distinct qs" and "\<forall>q\<in>set qs. cbit q < length reg"
  shows "length (foldl (\<lambda>g q. g[cbit q := f q]) reg qs) = length reg \<and>
    (\<forall>q\<in>set qs. foldl (\<lambda>g q. g[cbit q := f q]) reg qs ! cbit q = f q) \<and>
    (\<forall>c. c \<notin> cbit ` set qs \<longrightarrow> foldl (\<lambda>g q. g[cbit q := f q]) reg qs ! c = reg ! c)"
  using assms
proof (induction qs arbitrary: reg)
  case (Cons p qs)
  let ?reg = "reg[cbit p := f p]"
  have p: "cbit p \<notin> cbit ` set qs" using Cons.prems by (auto simp: inj_on_def)
  have "inj_on cbit (set qs)" "distinct qs" "\<forall>q\<in>set qs. cbit q < length ?reg"
    using Cons.prems by (simp_all add: inj_on_def)
  note IH = Cons.IH [OF this]
  have "foldl (\<lambda>g q. g[cbit q := f q]) ?reg qs ! cbit p = f p"
    using IH p Cons.prems(3) by simp
  with IH show ?case by simp
qed simp

text \<open>The weight of the states of a shot adds up over the channels.\<close>

lemma register_value:
  fixes reps n
  defines "reg0 \<equiv> replicate n (replicate reps (0::int))"
  assumes "inj_on cbit (set qs)" and "distinct qs" and "\<forall>q\<in>set qs. cbit q < n" and "r < reps"
  shows "(\<Sum>k<n. foldl (\<lambda>g q. g[cbit q := f q]) reg0 qs ! k ! r * base ^ k) = (\<Sum>q\<in>set qs. f q ! r * base ^ cbit q)"
proof -
  let ?reg = "foldl (\<lambda>g q. g[cbit q := f q]) reg0 qs"
  have "\<forall>q\<in>set qs. cbit q < length reg0" using assms(4) by (simp add: reg0_def)
  note rows = foldl_rows [OF assms(2,3) this, of f]
  have "(\<Sum>k<n. ?reg ! k ! r * base ^ k) = (\<Sum>k\<in>cbit ` set qs. ?reg ! k ! r * base ^ k)"
  proof (rule sum.mono_neutral_right)
    show "\<forall>k\<in>{..<n} - cbit ` set qs. ?reg ! k ! r * base ^ k = 0"
    proof
      fix k
      assume k: "k \<in> {..<n} - cbit ` set qs"
      then have "?reg ! k = reg0 ! k" using rows by blast
      then show "?reg ! k ! r * base ^ k = 0" using k assms(5) by (simp add: reg0_def)
    qed
  qed (use assms(4) in auto)
  also have "\<dots> = (\<Sum>q\<in>set qs. ?reg ! cbit q ! r * base ^ cbit q)" by (rule sum.reindex [OF assms(2), unfolded comp_def])
  also have "\<dots> = (\<Sum>q\<in>set qs. f q ! r * base ^ cbit q)" using rows by (intro sum.cong) auto
  finally show ?thesis .
qed

section \<open>Hexadecimal texts\<close>

lemma hex_nat_lower: "\<forall>c\<in>set (hex_nat n). lower_hex c"
proof (induction n rule: hex_nat.induct)
  case (1 n)
  have "lower_hex (hex_char (int (n mod 16)))" "n < 16 \<Longrightarrow> lower_hex (hex_char (int n))"
    by (intro hex_char_facts(3); simp)+
  with 1 show ?case by (subst hex_nat.simps) auto
qed

lemma hex_nat_value: "foldl (\<lambda>acc d. 16 * acc + d) 0 (map (\<lambda>c. int (the (hex_value c))) (hex_nat n)) = int n"
proof (induction n rule: hex_nat.induct)
  case (1 n)
  have d: "hex_value (hex_char (int k)) = Some k" if "k < 16" for k
    using hex_char_facts(1) [of "int k"] that by simp
  show ?case
  proof (cases "n < 16")
    case True
    then show ?thesis by (simp add: hex_nat.simps [of n] d)
  next
    case False
    have "int (the (hex_value (hex_char (int n mod 16)))) = int n mod 16"
      using d [of "n mod 16"] by (simp add: zmod_int)
    with False 1 show ?thesis by (simp add: hex_nat.simps [of n] d zmod_int zdiv_int)
  qed
qed

lemma hex_nat_ne: "hex_nat n \<noteq> []"
  by (subst hex_nat.simps) simp

lemma hex_number_nat: "hex_number (hex_nat n) = Some (int n)"
proof -
  obtain c cs where c: "hex_nat n = c # cs" using hex_nat_ne by (cases "hex_nat n") auto
  have "lower_hex c" using hex_nat_lower [of n] c by simp
  then have "hex_value c \<noteq> None" by (rule lower_hex_plain)
  then have "hex_number (hex_nat n) = hex_digits (hex_nat n) 0" by (simp only: c hex_number.simps if_False)
  also have "\<dots> = Some (int n)" using hex_digits_horner [OF hex_nat_lower] by (simp only: hex_nat_value)
  finally show ?thesis .
qed

text \<open>
  What \<open>hex\<close> writes of a number, \<open>int(text, 16)\<close> reads back, negative numbers included.
\<close>
theorem hex_roundtrip: "int16 (py_hex n) = Some n"
proof -
  let ?h = "hex_nat (nat \<bar>n\<bar>)"
  have l: "\<forall>c\<in>set ?h. lower_hex c" by (rule hex_nat_lower)
  have sp: "\<not> py_space CHR ''-''" "\<not> py_space CHR ''0''" "\<not> py_space CHR ''x''" by (simp_all add: py_space_def)
  have "\<not> py_space c" if "c \<in> set (py_hex n)" for c
  proof -
    from that consider "c \<in> set ?h" | "c \<in> {CHR ''-'', CHR ''0'', CHR ''x''}"
      by (auto simp: py_hex_def split: if_splits)
    then show ?thesis using l lower_hex_plain(1) sp by cases blast+
  qed
  then have "strip (py_hex n) = py_hex n" by (intro strip_plain) blast
  moreover have "hex_unsigned (''0x'' @ ?h) = Some \<bar>n\<bar>"
  proof (cases ?h)
    case Nil
    then show ?thesis using hex_number_nat [of "nat \<bar>n\<bar>"] by (simp add: hex_unsigned_def)
  next
    case (Cons c cs)
    moreover have "\<not> lower_hex CHR ''_''" by (simp add: lower_hex_def)
    ultimately have "c \<noteq> CHR ''_''" using l by (metis list.set_intros(1))
    then show ?thesis using hex_number_nat [of "nat \<bar>n\<bar>"] Cons by (simp add: hex_unsigned_def)
  qed
  ultimately show ?thesis by (auto simp: int16_def py_hex_def)
qed

section \<open>Shots\<close>

text \<open>The bits of a shot: bit \<open>k\<close> is set when the channel whose classical bit is \<open>k\<close> measured 1.\<close>

definition shot_bits :: "nat \<Rightarrow> (int \<Rightarrow> nat) \<Rightarrow> (int \<Rightarrow> int list) \<Rightarrow> int set \<Rightarrow> nat \<Rightarrow> bool list" where
  "shot_bits n cbit measured qs r = map (\<lambda>k. \<exists>q\<in>qs. cbit q = k \<and> measured q ! r = 1) [0..<n]"

lemma register_bits:
  fixes reps n
  defines "reg0 \<equiv> replicate n (replicate reps (0::int))"
  assumes "inj_on cbit (set qs)" and "distinct qs" and "\<forall>q\<in>set qs. cbit q < n" and "r < reps"
    and "\<forall>q\<in>set qs. length (f q) = reps \<and> set (f q) \<subseteq> {0, 1}"
  shows "(\<Sum>k<n. foldl (\<lambda>g q. g[cbit q := f q]) reg0 qs ! k ! r * 2 ^ k) =
    horner_sum of_bool 2 (shot_bits n cbit f (set qs) r)"
proof -
  let ?reg = "foldl (\<lambda>g q. g[cbit q := f q]) reg0 qs"
  have "\<forall>q\<in>set qs. cbit q < length reg0" using assms(4) by (simp add: reg0_def)
  note rows = foldl_rows [OF assms(2,3) this, of f]
  have bit: "?reg ! k ! r = of_bool (\<exists>q\<in>set qs. cbit q = k \<and> f q ! r = 1)" if k: "k < n" for k
  proof (cases "k \<in> cbit ` set qs")
    case True
    then obtain q where q: "q \<in> set qs" "k = cbit q" by blast
    then have "?reg ! k = f q" using rows by blast
    moreover have "r < length (f q)" "set (f q) \<subseteq> {0, 1}" using assms(5,6) q by simp_all
    then have "f q ! r \<in> {0, 1}" by (meson nth_mem subsetD)
    moreover have "(\<exists>p\<in>set qs. cbit p = k \<and> f p ! r = 1) \<longleftrightarrow> f q ! r = 1"
      using q assms(2) by (auto simp: inj_on_def)
    ultimately show ?thesis by auto
  next
    case False
    then have "?reg ! k = reg0 ! k" using rows by blast
    then show ?thesis using False k assms(5) by (auto simp: reg0_def)
  qed
  have "horner_sum of_bool 2 (shot_bits n cbit f (set qs) r) =
      (\<Sum>k<n. of_bool (\<exists>q\<in>set qs. cbit q = k \<and> f q ! r = 1) * 2 ^ k :: int)"
    by (simp add: horner_sum_eq_sum shot_bits_def lessThan_atLeast0)
  also have "\<dots> = (\<Sum>k<n. ?reg ! k ! r * 2 ^ k)" by (rule sum.cong) (simp_all add: bit)
  finally show ?thesis by simp
qed

text \<open>
  An experiment whose channels can all be read: the acquisition parameters, the map to classical
  bits and the width of the register come from the qobj, every channel is readable and no two share
  a bit.
\<close>

definition measured_experiment ::
    "(int \<Rightarrow> iq list \<Rightarrow> states result) \<Rightarrow> (int \<times> nat) list \<Rightarrow> quantum_job \<Rightarrow> nat \<Rightarrow> dataset
      \<Rightarrow> nat \<Rightarrow> (int \<Rightarrow> nat) \<Rightarrow> (int \<Rightarrow> int list) \<Rightarrow> int set \<Rightarrow> bool" where
  "measured_experiment discriminator sdk job e ds n cbit measured qs \<longleftrightarrow>
     (\<exists>acq q_to_c kvs.
        get_acquisition_parameters_from_experiment e (jb_experiments job) = Inr acq \<and>
        get_q_to_c_from_qobj (jb_experiments job) e acq = Inr q_to_c \<and>
        get_c_reg_len_from_qobj (jb_n_qubits job) (jb_experiments job) e acq = Inr (int n) \<and>
        sorted_acquisitions (ds_vars ds) = Inr kvs \<and> distinct (map fst kvs) \<and> set (map fst kvs) = qs \<and>
        inj_on cbit qs \<and>
        (\<forall>kv\<in>set kvs. readable discriminator sdk q_to_c n (repetitions ds) cbit measured kv))"

lemma measured_facts:
  assumes "measured_experiment discriminator sdk job e ds n cbit measured qs"
  shows "discriminate_experiment discriminator 2 LITTLE_ENDIAN sdk job (e, ds) =
    Inr (map (\<lambda>r. py_hex (int64 (horner_sum of_bool 2 (shot_bits n cbit measured qs r)))) [0..<repetitions ds])"
proof -
  obtain acq q_to_c kvs where m:
    "get_acquisition_parameters_from_experiment e (jb_experiments job) = Inr acq"
    "get_q_to_c_from_qobj (jb_experiments job) e acq = Inr q_to_c"
    "get_c_reg_len_from_qobj (jb_n_qubits job) (jb_experiments job) e acq = Inr (int n)"
    "sorted_acquisitions (ds_vars ds) = Inr kvs" and d: "distinct (map fst kvs)" "set (map fst kvs) = qs" "inj_on cbit qs"
    and r: "\<forall>kv\<in>set kvs. readable discriminator sdk q_to_c n (repetitions ds) cbit measured kv"
    using assms unfolding measured_experiment_def by blast
  let ?zeros = "replicate n (replicate (repetitions ds) (0::int))"
  let ?reg = "foldl (\<lambda>g q. g[cbit q := measured q]) ?zeros (map fst kvs)"
  have read: "read_channels discriminator (jb_meas_return job) sdk q_to_c (repetitions ds) kvs (?zeros, []) = Inr (?reg, [])"
    using r by (intro read_channels_readable) simp
  have q: "cbit q < n \<and> length (measured q) = repetitions ds \<and> set (measured q) \<subseteq> {0, 1}"
    if "q \<in> set (map fst kvs)" for q using that r by (fastforce simp: readable_def)
  have inj: "inj_on cbit (set (map fst kvs))" using d(2,3) by simp
  have "length ?reg = n" using foldl_rows [OF inj d(1), of ?zeros measured] q by simp
  then have "row_to_decimal 2 (rev (map (\<lambda>row. row ! s) ?reg)) =
      int64 (horner_sum of_bool 2 (shot_bits n cbit measured qs s))" if "s < repetitions ds" for s
    using register_bits [OF inj d(1) _ that, of n measured] q d(2)
    by (simp add: row_to_decimal_little)
  then have "bitarrays_to_decimal (rows_per_rep (repetitions ds) ?reg) 2 LITTLE_ENDIAN =
      map (\<lambda>r. int64 (horner_sum of_bool 2 (shot_bits n cbit measured qs r))) [0..<repetitions ds]"
    by (simp add: bitarrays_to_decimal_def rows_per_rep_def)
  then show ?thesis
    by (simp add: discriminate_experiment_def m read Let_def comp_def)
qed

lemma horner_nonneg: "(0::int) \<le> horner_sum of_bool 2 bs"
  by (induction bs) simp_all

lemma experiment_shots:
  assumes "measured_experiment discriminator sdk job e ds n cbit measured qs" and "n \<le> 63"
  shows "\<exists>texts. discriminate_experiment discriminator 2 LITTLE_ENDIAN sdk job (e, ds) = Inr texts \<and>
    length texts = repetitions ds \<and>
    (\<forall>r<repetitions ds. \<exists>v. int16 (texts ! r) = Some v \<and> 0 \<le> v \<and> v < 2 ^ n \<and>
      (\<forall>k. bit v k \<longleftrightarrow> (\<exists>q\<in>qs. cbit q = k \<and> measured q ! r = 1)))"
proof -
  let ?v = "\<lambda>r. horner_sum of_bool 2 (shot_bits n cbit measured qs r) :: int"
  have v: "0 \<le> ?v r" "?v r < 2 ^ n" for r
    using horner_sum_of_bool_2_less [of "shot_bits n cbit measured qs r", where 'a = int] horner_nonneg
    by (simp_all add: shot_bits_def)
  have "(2::int) ^ n \<le> 2 ^ 63" using assms(2) by (intro power_increasing) simp_all
  then have "int64 (?v r) = ?v r" for r using v [of r] by (intro int64_small) linarith+
  moreover have "cbit q < n" if "q \<in> qs" for q
    using assms(1) that unfolding measured_experiment_def by (fastforce simp: readable_def)
  then have "bit (?v r) k \<longleftrightarrow> (\<exists>q\<in>qs. cbit q = k \<and> measured q ! r = 1)" for r k
    by (auto simp: bit_horner_sum_bit_iff shot_bits_def)
  ultimately show ?thesis
    using measured_facts [OF assms(1)] v hex_roundtrip by simp
qed

lemma map_result_enumerate:
  assumes "\<forall>i<length xs. \<exists>y. f (i, xs ! i) = Inr y \<and> P i y"
  shows "\<exists>ys. map_result f (List.enumerate 0 xs) = Inr ys \<and> length ys = length xs \<and> (\<forall>i<length xs. P i (ys ! i))"
proof -
  obtain g where g: "\<forall>i<length xs. f (i, xs ! i) = Inr (g i) \<and> P i (g i)"
    using assms by metis
  have "map_result f (List.enumerate 0 xs) = Inr (map g [0..<length xs])"
    unfolding map_result_Inr using g by (simp add: list_all2_conv_all_nth nth_enumerate_eq)
  then show ?thesis using g by (intro exI [of _ "map g [0..<length xs]"]) simp
qed

text \<open>
  C14. A job is discriminated shot by shot: with registers of at most 63 bits each result, read back as
  a hexadecimal number, has bit \<open>k\<close> set exactly when the channel with the classical bit \<open>k\<close>
  measured 1 in that shot; bits that no channel has stay 0.
\<close>
theorem discriminated_shots:
  assumes "quantify_to_sdk_map ids = Inr sdk" and "jb_raw_results job = Some raw"
    and "\<forall>e<length raw. n e \<le> 63 \<and>
      measured_experiment discriminator sdk job e (snd (raw ! e)) (n e) (cbit e) (measured e) (qs e)"
  shows "\<exists>out. discriminate_results discriminator 2 LITTLE_ENDIAN ids job = Inr out \<and> length out = length raw \<and>
    (\<forall>e<length raw. length (out ! e) = repetitions (snd (raw ! e)) \<and>
      (\<forall>r<repetitions (snd (raw ! e)). \<exists>v. int16 (out ! e ! r) = Some v \<and> 0 \<le> v \<and> v < 2 ^ n e \<and>
        (\<forall>k. bit v k \<longleftrightarrow> (\<exists>q\<in>qs e. cbit e q = k \<and> measured e q ! r = 1))))"
proof -
  let ?f = "discriminate_experiment discriminator 2 LITTLE_ENDIAN sdk job"
  let ?P = "\<lambda>e texts. length texts = repetitions (snd (raw ! e)) \<and>
      (\<forall>r<repetitions (snd (raw ! e)). \<exists>v. int16 (texts ! r) = Some v \<and> 0 \<le> v \<and> v < 2 ^ n e \<and>
        (\<forall>k. bit v k \<longleftrightarrow> (\<exists>q\<in>qs e. cbit e q = k \<and> measured e q ! r = 1)))"
  have "\<forall>e<length (map snd raw). \<exists>texts. ?f (e, map snd raw ! e) = Inr texts \<and> ?P e texts"
    using assms(3) experiment_shots by simp
  from map_result_enumerate [OF this] assms(1,2) show ?thesis by (simp add: discriminate_results_def)
qed

text \<open>
  A register of 64 bits does not fit: when the channel with the classical bit 63 measured 1, the
  result is the text of a negative number.
\<close>
theorem register_sign_bit:
  assumes "measured_experiment discriminator sdk job e ds 64 cbit measured qs"
    and "r < repetitions ds" and "q \<in> qs" and "cbit q = 63" and "measured q ! r = 1"
  shows "\<exists>texts v. discriminate_experiment discriminator 2 LITTLE_ENDIAN sdk job (e, ds) = Inr texts \<and>
    int16 (texts ! r) = Some v \<and> v < 0"
proof -
  let ?v = "horner_sum of_bool 2 (shot_bits 64 cbit measured qs r) :: int"
  have "bit ?v 63" using assms(3-5) by (auto simp: bit_horner_sum_bit_iff shot_bits_def)
  then have "int64 ?v < 0" by (simp add: int64_def sint_sbintrunc' signed_take_bit_negative_iff)
  then show ?thesis using measured_facts [OF assms(1)] assms(2) hex_roundtrip by simp
qed

section \<open>A sample\<close>

text \<open>Qubit 6 of the device, 0 of the circuit, measures 1 and then 0 into the classical bit \<open>c\<close> of \<open>n\<close>.\<close>

definition sample_metadata :: "nat \<Rightarrow> nat \<Rightarrow> json" where
  "sample_metadata c n = JDict [(''tergite'', JDict [(''q_to_c'', JDict [(''0'', JInt (int c))]), (''c_reg_len'', JInt (int n))])]"

definition sample_acquire :: qobj_inst where
  "sample_acquire = \<lparr>qi_name = ''acquire'', qi_t0 = 0, qi_ch = Some ''a0'', qi_duration = Some 1000, qi_qubits = Some [0],
     qi_memory_slot = Some [0], qi_phase = None, qi_frequency = None, qi_pulse_shape = None, qi_parameters = None\<rparr>"

definition sample_dataset :: dataset where
  "sample_dataset = \<lparr>ds_repetition = Some 2, ds_vars = [(''6'', Arr2 1 [[(Fin 1, Fin 0)], [(Fin 0, NaN)]])]\<rparr>"

definition sample_quantum_job :: "nat \<Rightarrow> nat \<Rightarrow> quantum_job" where
  "sample_quantum_job c n = \<lparr>jb_meas_return = APPENDED, jb_n_qubits = 1,
     jb_experiments = [\<lparr>ex_instructions = [sample_acquire], ex_metadata = Some (sample_metadata c n)\<rparr>],
     jb_raw_results = Some [(''x~1'', sample_dataset)]\<rparr>"

definition sample_discriminator :: "int \<Rightarrow> iq list \<Rightarrow> states result" where
  "sample_discriminator = apply_linear_discriminator [(''q6'', \<lparr>ld_coef_0 = 1, ld_coef_1 = 0, ld_intercept = - 1 / 2\<rparr>)]"

lemma sample_texts: "int_of_text ''0'' = Inr 0" "int_of_text ''6'' = Inr 6" "int_text 6 = ''6''"
  by code_simp+

lemma sample_measured:
  assumes "c < n"
  shows "measured_experiment sample_discriminator [(6, 0)] (sample_quantum_job c n) 0 sample_dataset n (\<lambda>_. c) (\<lambda>_. [1, 0]) {6}"
proof -
  let ?job = "sample_quantum_job c n" and ?acq = "\<lparr>ac_qubits = [0], ac_memory_slots = [0]\<rparr>"
  have ex: "py_at (jb_experiments ?job) (int 0) = Inr \<lparr>ex_instructions = [sample_acquire], ex_metadata = Some (sample_metadata c n)\<rparr>"
    by (simp add: py_at_def sample_quantum_job_def)
  have md: "get_tergite_metadata_for_experiment (jb_experiments ?job) 0 =
      Inr (JDict [(''q_to_c'', JDict [(''0'', JInt (int c))]), (''c_reg_len'', JInt (int n))])"
    unfolding get_tergite_metadata_for_experiment_def ex by (simp add: sample_metadata_def)
  have "get_acquisition_parameters_from_experiment 0 (jb_experiments ?job) = Inr ?acq"
    unfolding get_acquisition_parameters_from_experiment_def ex by (simp add: sample_acquire_def)
  moreover have "get_q_to_c_from_qobj (jb_experiments ?job) 0 ?acq = Inr [(0, int c)]"
    unfolding get_q_to_c_from_qobj_def md by (simp add: sample_texts dict_of_def)
  moreover have "get_c_reg_len_from_qobj (jb_n_qubits ?job) (jb_experiments ?job) 0 ?acq = Inr (int n)"
    unfolding get_c_reg_len_from_qobj_def md by simp
  moreover have "sorted_acquisitions (ds_vars sample_dataset) = Inr [(6, Arr2 1 [[(Fin 1, Fin 0)], [(Fin 0, NaN)]])]"
    by (simp add: sorted_acquisitions_def sample_dataset_def sample_texts)
  moreover have "sample_discriminator 6 [(Fin 1, Fin 0), (Fin 0, NaN)] = Inr (States [1, 0])"
    by (simp add: sample_discriminator_def apply_linear_discriminator_def sample_texts dict_get_def flt_positive_def)
  then have "readable sample_discriminator [(6, 0)] [(0, int c)] n (repetitions sample_dataset) (\<lambda>_. c) (\<lambda>_. [1, 0])
      (6, Arr2 1 [[(Fin 1, Fin 0)], [(Fin 0, NaN)]])"
    using assms by (simp add: readable_def first_column_def py_at_def repetitions_def sample_dataset_def)
  ultimately show ?thesis unfolding measured_experiment_def by auto
qed

theorem discriminated_shots_witness:
  "\<exists>out v. discriminate_results sample_discriminator 2 LITTLE_ENDIAN [''6''] (sample_quantum_job 3 5) = Inr out \<and>
    int16 (out ! 0 ! 0) = Some v \<and> bit v 3 \<and> \<not> bit v 0"
proof -
  have sdk: "quantify_to_sdk_map [''6''] = Inr [(6, 0)]"
    by (simp add: quantify_to_sdk_map_def sample_texts dict_of_def)
  have raw: "jb_raw_results (sample_quantum_job 3 5) = Some [(''x~1'', sample_dataset)]"
    by (simp add: sample_quantum_job_def)
  have "repetitions sample_dataset = 2" by (simp add: repetitions_def sample_dataset_def)
  then show ?thesis
    using discriminated_shots [OF sdk raw, of "\<lambda>_. 5" sample_discriminator "\<lambda>_ _. 3" "\<lambda>_ _. [1, 0]" "\<lambda>_. {6}"]
      sample_measured [of 3 5] by fastforce
qed

theorem register_sign_bit_witness:
  "\<exists>texts v. discriminate_experiment sample_discriminator 2 LITTLE_ENDIAN [(6, 0)] (sample_quantum_job 63 64) (0, sample_dataset)
      = Inr texts \<and> int16 (texts ! 0) = Some v \<and> v < 0"
  using register_sign_bit [OF sample_measured [of 63 64], of 0 6] by (simp add: repetitions_def sample_dataset_def)

section \<open>Lists of points\<close>

lemma int_of_int_text [simp]: "int_of_text (int_text n) = Inr n"
proof (cases "n < 0")
  case True
  let ?t = "nat_text (nat \<bar>n\<bar>)"
  obtain c cs where c: "?t = c # cs" using nat_text_ne by (cases ?t) auto
  have d: "\<forall>c\<in>set ?t. dec_value c \<noteq> None" by (rule nat_text_digits)
  have "\<not> py_space CHR ''-''" by (simp add: py_space_def)
  then have "strip (CHR ''-'' # ?t) = CHR ''-'' # ?t" using d dec_value_plain(1) by (intro strip_plain) auto
  moreover have "dec_value c \<noteq> None" using d c by simp
  then have "dec_number ?t = dec_digits (?t @ []) 0" by (simp only: c dec_number.simps if_False append_Nil2)
  then have "dec_number ?t = Some (int (nat \<bar>n\<bar>))"
    by (simp only: dec_digits_snoc [OF d] nat_text_value dec_digits.simps)
  ultimately show ?thesis using True by (simp add: int_of_text_def int_text_def)
qed (simp add: int_text_def)

lemma int_text_inj: "int_text m = int_text n \<Longrightarrow> m = n"
  using int_of_int_text by (metis Inr_inject)

lemma ordered_channels_mset: "mset (ordered_channel_ids exs e ids) = mset ids"
  by (simp add: ordered_channel_ids_def Let_def split: sum.splits)

lemma ordered_channels_set: "set (ordered_channel_ids exs e ids) = set ids"
  using ordered_channels_mset by (rule mset_eq_setD)

lemma map_of_int_text: "q \<in> set ids \<Longrightarrow> map_of (map (\<lambda>q. (int_text q, f q)) ids) (int_text q) = Some (f q)"
  by (induction ids) (auto dest: int_text_inj)

text \<open>
  An undiscriminated experiment is listed shot by shot: each shot holds, channel after channel,
  the points of its row, a point with a part that is not finite as the origin, and every channel
  occurs once, at the same place in every shot.
\<close>

lemma listed_rows:
  assumes "ds_vars ds = map (\<lambda>q. (int_text q, Arr2 c (points q))) ids"
    and "\<forall>q\<in>set ids. length (points q) = repetitions ds"
  shows "list_experiment experiments (e, ds) =
    Inr (map (\<lambda>r. map finite_point (concat (map (\<lambda>q. points q ! r) (ordered_channel_ids experiments e (sort ids)))))
      [0..<repetitions ds])"
proof -
  let ?order = "ordered_channel_ids experiments e (sort ids)"
  have names: "map_result int_of_text (map fst (ds_vars ds)) = Inr ids"
    unfolding assms(1) map_result_Inr by (simp add: list_all2_conv_all_nth)
  have rows: "map_result (\<lambda>qid. bind_result (dict_get (ds_vars ds) (int_text qid)) (\<lambda>a. row_of a r)) ?order =
      Inr (map (\<lambda>q. points q ! r) ?order)" if r: "r < repetitions ds" for r
  proof -
    have "bind_result (dict_get (ds_vars ds) (int_text q)) (\<lambda>a. row_of a r) = Inr (points q ! r)"
      if "q \<in> set ?order" for q
      using that assms r by (simp add: ordered_channels_set dict_get_def map_of_int_text py_at_nat)
    then show ?thesis unfolding map_result_Inr by (simp add: list_all2_conv_all_nth)
  qed
  have "map_result (\<lambda>r. bind_result
        (map_result (\<lambda>qid. bind_result (dict_get (ds_vars ds) (int_text qid)) (\<lambda>a. row_of a r)) ?order)
        (\<lambda>rows. Inr (map finite_point (concat rows)))) [0..<repetitions ds] =
      Inr (map (\<lambda>r. map finite_point (concat (map (\<lambda>q. points q ! r) ?order))) [0..<repetitions ds])"
    by (simp only: map_result_Inr) (simp add: list_all2_conv_all_nth rows)
  then show ?thesis by (simp add: list_experiment_def names Let_def)
qed

theorem listed_shots:
  assumes "ds_vars ds = map (\<lambda>q. (int_text q, Arr2 c (points q))) ids"
    and "\<forall>q\<in>set ids. length (points q) = repetitions ds"
  shows "\<exists>shots order. list_experiment experiments (e, ds) = Inr shots \<and> length shots = repetitions ds \<and>
    mset order = mset ids \<and>
    (\<forall>r<repetitions ds. shots ! r = map finite_point (concat (map (\<lambda>q. points q ! r) order)))"
  using listed_rows [OF assms] ordered_channels_mset [of experiments e "sort ids"] by auto

theorem listed_shots_witness:
  "\<exists>shots. list_experiment [] (0, \<lparr>ds_repetition = Some 1, ds_vars = [(int_text 6, Arr2 1 [[(Fin 2, Fin 3)]])]\<rparr>) = Inr shots \<and>
    shots ! 0 = [(2, 3)]"
proof -
  let ?ds = "\<lparr>ds_repetition = Some 1, ds_vars = [(int_text 6, Arr2 1 [[(Fin 2, Fin 3)]])]\<rparr>"
  have r: "repetitions ?ds = 1" by (simp add: repetitions_def)
  obtain shots order where s: "list_experiment [] (0, ?ds) = Inr shots" "mset order = mset [6::int]"
    "shots ! 0 = map finite_point (concat (map (\<lambda>q. [[(Fin 2, Fin 3)]] ! 0) order))"
    using listed_shots [of ?ds 1 "\<lambda>_. [[(Fin 2, Fin 3)]]" "[6]" "[]" 0] r by auto
  then show ?thesis by (simp add: finite_point_def)
qed

end
