(* ===== verification/Hdf5_Results.thy ===== *)
theory Hdf5_Results imports Readout "HOL-Library.List_Lexorder" "HOL-Library.Char_ord" begin

text \<open>
  The measurement results of a job in an HDF5 file: the names of experiments, how
  \<open>_save_results_to_hdf5\<close> lays the arrays out and how \<open>_extract_results_from_hdf5\<close> reads them
  back (\<^verbatim>\<open>app/libs/quantum_executor/base/quantum_job/__init__.py\<close>). A file is the list of its
  datasets by path; the order in which h5py visits the names of a file is an argument.
\<close>

section \<open>Names of experiments\<close>

text \<open>Letters and digits of Latin-1.\<close>

definition py_isalnum :: "char \<Rightarrow> bool" where
  "py_isalnum c =
     (let n = of_char c :: nat in
      48 \<le> n \<and> n \<le> 57 \<or> 65 \<le> n \<and> n \<le> 90 \<or> 97 \<le> n \<and> n \<le> 122 \<or>
      n \<in> {170, 178, 179, 181, 185, 186, 188, 189, 190} \<or> 192 \<le> n \<and> n \<le> 255 \<and> n \<noteq> 215 \<and> n \<noteq> 247)"

definition get_experiment_name :: "string \<Rightarrow> int \<Rightarrow> string" where
  "get_experiment_name qobj_expt_name expt_index =
     filter (\<lambda>x. py_isalnum x \<or> x \<in> set '' -_,.()'') qobj_expt_name @ ''~'' @ int_text expt_index"

definition parse_exp_index_from_name :: "string \<Rightarrow> int option" where
  "parse_exp_index_from_name expt_name =
     (case rcut ''~'' expt_name of
        None \<Rightarrow> None
      | Some (_, idx_str) \<Rightarrow> (case int_of_text idx_str of Inl _ \<Rightarrow> None | Inr n \<Rightarrow> Some n))"

section \<open>Paths\<close>

definition measurement_path :: "string \<Rightarrow> string \<Rightarrow> string" where
  "measurement_path name acq = ''experiments/'' @ name @ ''/slot~'' @ acq @ ''/measurement''"

definition slot_digits :: "string \<Rightarrow> string option" where
  "slot_digits seg =
     (let ds = drop 5 seg in
      if startswith seg ''slot~'' \<and> ds \<noteq> [] \<and> (\<forall>c\<in>set ds. dec_value c \<noteq> None) then Some ds else None)"

text \<open>
  \<open>experiments/(.*)/slot~(\d+)/measurement\<close> at the start of a path: the last segment that is a slot and
  is followed by one that begins with \<open>measurement\<close>, with everything before it, which has no line
  break, as the name.
\<close>

definition match_path :: "string \<Rightarrow> (string \<times> string) option" where
  "match_path path =
     (let segs = py_split ''/'' path in
      if hd segs \<noteq> ''experiments'' then None
      else case find (\<lambda>k. slot_digits (segs ! k) \<noteq> None \<and> startswith (segs ! Suc k) ''measurement'' \<and>
                        CHR 0x0A \<notin> set (join ''/'' (take (k - 1) (drop 1 segs))))
                     (rev [2..<length segs - 1]) of
             None \<Rightarrow> None
           | Some k \<Rightarrow> Some (join ''/'' (take (k - 1) (drop 1 segs)), the (slot_digits (segs ! k))))"

section \<open>Files\<close>

type_synonym h5 = "(string \<times> iq_array) list"

primrec fold_result :: "('a \<Rightarrow> 's \<Rightarrow> 's result) \<Rightarrow> 'a list \<Rightarrow> 's \<Rightarrow> 's result" where
  "fold_result f [] s = Inr s"
| "fold_result f (x # xs) s = bind_result (f x s) (fold_result f xs)"

fun shape_of :: "iq_array \<Rightarrow> nat list" where
  "shape_of (Arr1 xs) = [length xs]"
| "shape_of (Arr2 c rows) = [length rows, c]"
| "shape_of ArrN = [0, 0, 0]"

text \<open>\<open>require_dataset\<close> and the assignment to it: a dataset of another shape is an error.\<close>

definition write_dataset :: "string \<Rightarrow> iq_array \<Rightarrow> h5 \<Rightarrow> h5 result" where
  "write_dataset path a h =
     (case map_of h path of
        None \<Rightarrow> Inr (h @ [(path, a)])
      | Some old \<Rightarrow> if shape_of old = shape_of a then Inr (AList.update path a h) else Inl TypeError)"

definition save_results_to_hdf5 :: "(string \<times> dataset) list \<Rightarrow> h5 \<Rightarrow> h5 result" where
  "save_results_to_hdf5 results =
     fold_result (\<lambda>(name, result). fold_result (\<lambda>(acq, a). write_dataset (measurement_path name acq) a) (ds_vars result))
       results"

text \<open>The names in a file: its datasets and the groups above them.\<close>

definition groups_of :: "string \<Rightarrow> string list" where
  "groups_of path = (let segs = py_split ''/'' path in map (\<lambda>k. join ''/'' (take k segs)) [1..<length segs])"

definition members :: "h5 \<Rightarrow> string set" where
  "members h = fst ` set h \<union> (\<Union>p\<in>fst ` set h. set (groups_of p))"

text \<open>\<open>visit\<close> names every member once, in an order of its own.\<close>

definition visits_all :: "(h5 \<Rightarrow> string list) \<Rightarrow> bool" where
  "visits_all visit \<longleftrightarrow> (\<forall>h. set (visit h) = members h \<and> distinct (visit h))"

definition match_hdf5_paths :: "(h5 \<Rightarrow> string list) \<Rightarrow> h5 \<Rightarrow> (string \<times> string) list" where
  "match_hdf5_paths visit h = List.map_filter match_path (visit h)"

text \<open>\<open>dataset[acq] = (dims, array)\<close>: two dimensions, and the number of repetitions of the dataset.\<close>

definition set_variable :: "string \<Rightarrow> iq_array \<Rightarrow> dataset \<Rightarrow> dataset result" where
  "set_variable acq a ds =
     (case a of
        Arr2 c rows \<Rightarrow>
          if ds_repetition ds \<noteq> None \<and> ds_repetition ds \<noteq> Some (length rows) then Inl ValueError
          else Inr (ds\<lparr>ds_repetition := Some (length rows), ds_vars := AList.update acq a (ds_vars ds)\<rparr>)
      | _ \<Rightarrow> Inl ValueError)"

definition empty_dataset :: dataset where
  "empty_dataset = \<lparr>ds_repetition = None, ds_vars = []\<rparr>"

definition add_match :: "h5 \<Rightarrow> string \<times> string \<Rightarrow> (string \<times> dataset) list \<Rightarrow> (string \<times> dataset) list result" where
  "add_match h m results =
     (let (expt_name, acq) = m in
      bind_result (dict_get h (measurement_path expt_name acq)) (\<lambda>a.
      bind_result (set_variable acq a
                     (case map_of results expt_name of None \<Rightarrow> empty_dataset | Some ds \<Rightarrow> ds)) (\<lambda>ds.
        Inr (AList.update expt_name ds results))))"

text \<open>
  \<open>sorted\<close> by the index in the name, or by the name where it has none; numbers and texts cannot be
  compared.
\<close>

definition sort_by_index :: "(string \<times> 'a) list \<Rightarrow> (string \<times> 'a) list result" where
  "sort_by_index kvs =
     (if \<forall>(k, _)\<in>set kvs. parse_exp_index_from_name k \<noteq> None
      then Inr (sort_key (\<lambda>kv. the (parse_exp_index_from_name (fst kv))) kvs)
      else if \<forall>(k, _)\<in>set kvs. parse_exp_index_from_name k = None then Inr (sort_key fst kvs)
      else Inl TypeError)"

definition extract_results_from_hdf5 :: "(h5 \<Rightarrow> string list) \<Rightarrow> h5 \<Rightarrow> (string \<times> dataset) list result" where
  "extract_results_from_hdf5 visit h =
     bind_result (fold_result (add_match h) (match_hdf5_paths visit h) []) sort_by_index"

end
