(* ===== verification/Hdf5_Properties.thy ===== *)
theory Hdf5_Properties imports Hdf5_Results Readout_Properties begin

text \<open>
  What is saved of a job's measurements is read back, experiment by experiment and in the order of
  the experiments, whatever the order in which the file is visited.
\<close>

section \<open>Names\<close>

lemma int_text_chars: "c \<in> set (int_text n) \<Longrightarrow> c = CHR ''-'' \<or> dec_value c \<noteq> None"
  using nat_text_digits by (auto simp: int_text_def split: if_splits)

lemma plain_chars: "dec_value CHR ''~'' = None" "dec_value CHR ''/'' = None" "dec_value CHR 0x0A = None"
  by (simp_all add: dec_value_def)

lemma parse_experiment_name: "parse_exp_index_from_name (get_experiment_name s n) = Some n"
proof -
  have "CHR ''~'' \<notin> set (int_text n)" using int_text_chars plain_chars by fastforce
  then have "rcut ''~'' (get_experiment_name s n) =
      Some (filter (\<lambda>x. py_isalnum x \<or> x \<in> set '' -_,.()'') s, int_text n)"
    unfolding get_experiment_name_def by (intro rcut_last) simp_all
  then show ?thesis by (simp add: parse_exp_index_from_name_def)
qed

lemma experiment_name_plain:
  "CHR ''/'' \<notin> set (get_experiment_name s n)" "CHR 0x0A \<notin> set (get_experiment_name s n)"
proof -
  have "CHR ''/'' \<notin> set (int_text n)" "CHR 0x0A \<notin> set (int_text n)" using int_text_chars plain_chars by fastforce+
  then show "CHR ''/'' \<notin> set (get_experiment_name s n)" "CHR 0x0A \<notin> set (get_experiment_name s n)"
    by (simp_all add: get_experiment_name_def py_isalnum_def)
qed

section \<open>Paths\<close>

lemma py_split_join:
  assumes "segs \<noteq> []" and "\<forall>s\<in>set segs. c \<notin> set s"
  shows "py_split [c] (join [c] segs) = segs"
  using assms
proof (induction "[c]" segs rule: join.induct)
  case (2 x)
  then show ?case by (simp add: py_split_one)
next
  case (3 x y ys)
  have "cut [c] (x @ [c] @ join [c] (y # ys)) = Some (x, join [c] (y # ys))"
    using 3 by (intro cut_first) simp_all
  with 3 show ?case by (simp add: py_split.simps [of "[c]" "x @ c # join [c] (y # ys)"])
qed simp

text \<open>A name without a slash or a line break, and a channel that is a number.\<close>

definition plain_entry :: "string \<Rightarrow> string \<Rightarrow> bool" where
  "plain_entry name acq \<longleftrightarrow> CHR ''/'' \<notin> set name \<and> CHR 0x0A \<notin> set name \<and>
     acq \<noteq> [] \<and> (\<forall>c\<in>set acq. dec_value c \<noteq> None)"

definition segments :: "string \<Rightarrow> string \<Rightarrow> string list" where
  "segments name acq = [''experiments'', name, ''slot~'' @ acq, ''measurement'']"

lemma segments_path: "join ''/'' (segments name acq) = measurement_path name acq"
  by (simp add: segments_def measurement_path_def)

lemma segments_plain:
  assumes "plain_entry name acq"
  shows "\<forall>s\<in>set (segments name acq). CHR ''/'' \<notin> set s"
proof -
  have "CHR ''/'' \<notin> set acq" using assms plain_chars by (auto simp: plain_entry_def)
  then show ?thesis using assms by (simp add: segments_def plain_entry_def)
qed

lemma split_path:
  assumes "plain_entry name acq"
  shows "py_split ''/'' (measurement_path name acq) = segments name acq"
  using py_split_join [OF _ segments_plain [OF assms]] by (simp add: segments_path) (simp add: segments_def)

lemma match_measurement_path:
  assumes "plain_entry name acq"
  shows "match_path (measurement_path name acq) = Some (name, acq)"
proof -
  have "slot_digits (''slot~'' @ acq) = Some acq"
    using assms by (simp add: slot_digits_def plain_entry_def startswith_def)
  then show ?thesis
    using assms by (simp add: match_path_def split_path segments_def startswith_def plain_entry_def upt_rec)
qed

lemma match_group:
  assumes "plain_entry name acq" and "p \<in> set (groups_of (measurement_path name acq))"
  shows "match_path p = None"
proof -
  have "length (segments name acq) = 4" by (simp add: segments_def)
  then obtain k where k: "1 \<le> k" "k < 4" "p = join ''/'' (take k (segments name acq))"
    using assms(2) unfolding groups_of_def Let_def split_path [OF assms(1)] set_map set_upt
    by (auto simp only: image_iff atLeastLessThan_iff)
  have sp: "py_split ''/'' p = take k (segments name acq)"
    unfolding k(3)
  proof (rule py_split_join)
    show "take k (segments name acq) \<noteq> []" using k(1) by (simp add: segments_def)
    show "\<forall>s\<in>set (take k (segments name acq)). CHR ''/'' \<notin> set s"
      by (intro ballI bspec [OF segments_plain [OF assms(1)]]) (rule in_set_takeD)
  qed
  have "length (take k (segments name acq)) \<le> 3" using k(2) by simp
  then have none: "[2..<length (take k (segments name acq)) - 1] = []" by simp
  show ?thesis
    by (simp only: match_path_def Let_def sp none rev.simps find.simps option.case if_cancel)
qed

section \<open>Writing\<close>

lemma write_fresh:
  assumes "distinct (map fst h @ map (\<lambda>v. P (fst v)) vs)"
  shows "fold_result (\<lambda>(acq, a). write_dataset (P acq) a) vs h = Inr (h @ map (\<lambda>v. (P (fst v), snd v)) vs)"
  using assms
proof (induction vs arbitrary: h)
  case (Cons v vs)
  obtain acq a where v: "v = (acq, a)" by (cases v)
  have "map_of h (P acq) = None" using Cons.prems v by (auto simp: map_of_eq_None_iff)
  then show ?case using Cons v by (simp add: write_dataset_def)
qed simp

text \<open>All the datasets of a job, by path.\<close>

definition layout_of :: "string \<times> dataset \<Rightarrow> h5" where
  "layout_of r = map (\<lambda>v. (measurement_path (fst r) (fst v), snd v)) (ds_vars (snd r))"

definition layout :: "(string \<times> dataset) list \<Rightarrow> h5" where
  "layout results = concat (map layout_of results)"

lemma save_layout:
  assumes "distinct (map fst h @ map fst (layout results))"
  shows "save_results_to_hdf5 results h = Inr (h @ layout results)"
  using assms
proof (induction results arbitrary: h)
  case (Cons r results)
  have "map fst (layout_of r) = map (\<lambda>v. measurement_path (fst r) (fst v)) (ds_vars (snd r))"
    by (simp add: layout_of_def comp_def)
  moreover have d: "distinct (map fst h @ map fst (layout_of r) @ map fst (layout results))"
    using Cons.prems by (simp add: layout_def)
  then have "distinct (map fst h @ map fst (layout_of r))" by auto
  ultimately have "distinct (map fst h @ map (\<lambda>v. measurement_path (fst r) (fst v)) (ds_vars (snd r)))" by simp
  from write_fresh [OF this]
  have "fold_result (\<lambda>(acq, a). write_dataset (measurement_path (fst r) acq) a) (ds_vars (snd r)) h = Inr (h @ layout_of r)"
    by (simp add: layout_of_def)
  moreover have "distinct (map fst (h @ layout_of r) @ map fst (layout results))"
    using d by simp
  note Cons.IH [OF this]
  ultimately show ?case by (simp add: save_results_to_hdf5_def layout_def split_beta)
qed (simp add: save_results_to_hdf5_def layout_def)

section \<open>Reading\<close>

text \<open>
  The results of a run: one dataset for each experiment, named after it and its place from one on, each
  with at least one channel, whose arrays have one row for each repetition.
\<close>

definition dataset_ok :: "dataset \<Rightarrow> bool" where
  "dataset_ok ds \<longleftrightarrow> ds_vars ds \<noteq> [] \<and> distinct (map fst (ds_vars ds)) \<and>
     (\<exists>reps. ds_repetition ds = Some reps \<and>
       (\<forall>(acq, a)\<in>set (ds_vars ds). acq \<noteq> [] \<and> (\<forall>c\<in>set acq. dec_value c \<noteq> None) \<and>
          (\<exists>c rows. a = Arr2 c rows \<and> length rows = reps)))"

definition results_ok :: "(string \<times> dataset) list \<Rightarrow> bool" where
  "results_ok results \<longleftrightarrow>
     (\<exists>raw. map fst results = map (\<lambda>i. get_experiment_name (raw i) (int i + 1)) [0..<length results]) \<and>
     (\<forall>(name, ds)\<in>set results. dataset_ok ds)"

text \<open>The channels of all experiments.\<close>

definition channels_of :: "(string \<times> dataset) list \<Rightarrow> (string \<times> string) list" where
  "channels_of results = concat (map (\<lambda>r. map (\<lambda>v. (fst r, fst v)) (ds_vars (snd r))) results)"

lemma results_names:
  assumes "results_ok results" and "i < length results"
  shows "\<exists>s. fst (results ! i) = get_experiment_name s (int i + 1)"
proof -
  obtain raw where "map fst results = map (\<lambda>i. get_experiment_name (raw i) (int i + 1)) [0..<length results]"
    using assms(1) unfolding results_ok_def by blast
  then have "map fst results ! i = map (\<lambda>i. get_experiment_name (raw i) (int i + 1)) [0..<length results] ! i" by simp
  then show ?thesis using assms(2) by auto
qed

lemma results_index:
  assumes "results_ok results"
  shows "map (\<lambda>r. parse_exp_index_from_name (fst r)) results = map (\<lambda>i. Some (int i + 1)) [0..<length results]"
proof (rule nth_equalityI)
  fix i
  assume "i < length (map (\<lambda>r. parse_exp_index_from_name (fst r)) results)"
  then show "map (\<lambda>r. parse_exp_index_from_name (fst r)) results ! i = map (\<lambda>i. Some (int i + 1)) [0..<length results] ! i"
    using results_names [OF assms, of i] parse_experiment_name by fastforce
qed simp

lemma results_distinct:
  assumes "results_ok results"
  shows "distinct (map fst results)"
proof -
  have "distinct (map parse_exp_index_from_name (map fst results))"
    using results_index [OF assms] by (simp add: comp_def distinct_map inj_on_def)
  then show ?thesis by (simp only: distinct_map)
qed

lemma results_plain:
  assumes "results_ok results" and "(name, acq) \<in> set (channels_of results)"
  shows "plain_entry name acq"
proof -
  obtain ds a where r: "(name, ds) \<in> set results" "(acq, a) \<in> set (ds_vars ds)"
    using assms(2) by (auto simp: channels_of_def)
  then have "dataset_ok ds" using assms(1) unfolding results_ok_def by blast
  with r have acq: "acq \<noteq> []" "\<forall>c\<in>set acq. dec_value c \<noteq> None" unfolding dataset_ok_def by blast+
  obtain i where "i < length results" "results ! i = (name, ds)" using r(1) by (auto simp: in_set_conv_nth)
  then obtain s where "name = get_experiment_name s (int i + 1)" using results_names [OF assms(1), of i] by auto
  then show ?thesis using acq experiment_name_plain unfolding plain_entry_def by blast
qed

lemma channel_path:
  assumes "results_ok results" and "x \<in> set (channels_of results)"
  shows "match_path ((\<lambda>(name, acq). measurement_path name acq) x) = Some x"
proof -
  obtain n a where x: "x = (n, a)" by (cases x)
  then have "plain_entry n a" using assms results_plain by simp
  then show ?thesis by (simp add: x match_measurement_path)
qed

lemma channels_distinct:
  assumes "results_ok results"
  shows "distinct (channels_of results)"
proof -
  have "\<forall>r\<in>set results. distinct (map fst (ds_vars (snd r)))"
    using assms unfolding results_ok_def dataset_ok_def by fastforce
  with results_distinct [OF assms] show ?thesis
  proof (induction results)
    case (Cons r results)
    have "distinct (map (\<lambda>v. (fst r, fst v)) (ds_vars (snd r)))"
      using Cons.prems by (auto simp: distinct_map inj_on_def)
    moreover have "fst r \<notin> fst ` set (channels_of results)"
      using Cons.prems by (force simp: channels_of_def)
    ultimately show ?case using Cons by (force simp: channels_of_def)
  qed (simp add: channels_of_def)
qed

lemma layout_paths: "map fst (layout results) = map (\<lambda>(name, acq). measurement_path name acq) (channels_of results)"
  by (induction results) (simp_all add: layout_def layout_of_def channels_of_def)

lemma layout_distinct:
  assumes "results_ok results"
  shows "distinct (map fst (layout results))"
proof -
  have "map match_path (map fst (layout results)) = map Some (channels_of results)"
    unfolding layout_paths map_map
  proof (rule map_cong)
    fix x
    assume "x \<in> set (channels_of results)"
    then show "(match_path \<circ> (\<lambda>(name, acq). measurement_path name acq)) x = Some x"
      using channel_path [OF assms] by (simp only: comp_apply)
  qed simp
  then have "distinct (map match_path (map fst (layout results)))"
    using channels_distinct [OF assms] by (simp add: distinct_map)
  then show ?thesis by (simp only: distinct_map)
qed

lemma set_map_filter: "set (List.map_filter f xs) = {y. \<exists>x\<in>set xs. f x = Some y}"
  by (force simp: List.map_filter_def)

lemma matches_channels:
  assumes "results_ok results" and "visits_all visit"
  shows "set (match_hdf5_paths visit (layout results)) = set (channels_of results)"
proof -
  have v: "set (visit (layout results)) = members (layout results)" using assms(2) by (simp add: visits_all_def)
  have paths: "fst ` set (layout results) = (\<lambda>(name, acq). measurement_path name acq) ` set (channels_of results)"
    by (metis layout_paths set_map)
  have "(\<exists>p\<in>members (layout results). match_path p = Some x) \<longleftrightarrow> x \<in> set (channels_of results)" for x
  proof
    assume x: "x \<in> set (channels_of results)"
    then have "(\<lambda>(name, acq). measurement_path name acq) x \<in> members (layout results)"
      unfolding members_def paths by (intro UnI1 imageI)
    with channel_path [OF assms(1) x] show "\<exists>p\<in>members (layout results). match_path p = Some x" by blast
  next
    assume "\<exists>p\<in>members (layout results). match_path p = Some x"
    then obtain p n a where p: "(n, a) \<in> set (channels_of results)" "match_path p = Some x"
      "p = measurement_path n a \<or> p \<in> set (groups_of (measurement_path n a))"
      unfolding members_def paths by (elim bexE UnE UN_E imageE) auto
    have pl: "plain_entry n a" using results_plain [OF assms(1) p(1)] .
    from p(3) show "x \<in> set (channels_of results)"
    proof
      assume "p = measurement_path n a"
      then show ?thesis using p(1,2) match_measurement_path [OF pl] by simp
    next
      assume "p \<in> set (groups_of (measurement_path n a))"
      then show ?thesis using p(2) match_group [OF pl] by simp
    qed
  qed
  then show ?thesis
    unfolding match_hdf5_paths_def set_map_filter v by blast
qed

text \<open>What has been read after some of the channels.\<close>

definition read_so_far ::
    "(string \<Rightarrow> nat) \<Rightarrow> (string \<Rightarrow> string \<Rightarrow> iq_array) \<Rightarrow> (string \<times> string) set \<Rightarrow> (string \<times> dataset) list \<Rightarrow> bool" where
  "read_so_far reps arr S R \<longleftrightarrow> distinct (map fst R) \<and> fst ` set R = fst ` S \<and>
     (\<forall>n ds. map_of R n = Some ds \<longrightarrow> ds_repetition ds = Some (reps n) \<and> distinct (map fst (ds_vars ds)) \<and>
       (\<forall>a. map_of (ds_vars ds) a = (if (n, a) \<in> S then Some (arr n a) else None)))"

lemma map_of_none_fst: "map_of xs k = None \<longleftrightarrow> k \<notin> fst ` set xs"
  by (rule map_of_eq_None_iff)

lemma add_match_step:
  assumes r: "read_so_far reps arr S R"
    and a: "map_of h (measurement_path n a) = Some (arr n a)" "arr n a = Arr2 c rows" "length rows = reps n"
  shows "\<exists>R'. add_match h (n, a) R = Inr R' \<and> read_so_far reps arr (insert (n, a) S) R'"
proof -
  let ?old = "case map_of R n of None \<Rightarrow> empty_dataset | Some ds \<Rightarrow> ds"
  let ?new = "?old\<lparr>ds_repetition := Some (reps n), ds_vars := AList.update a (arr n a) (ds_vars ?old)\<rparr>"
  have old: "(ds_repetition ?old = None \<or> ds_repetition ?old = Some (reps n)) \<and> distinct (map fst (ds_vars ?old)) \<and>
    (\<forall>b. map_of (ds_vars ?old) b = (if (n, b) \<in> S then Some (arr n b) else None))"
  proof (cases "map_of R n")
    case None
    then have "n \<notin> fst ` S" using r by (simp add: read_so_far_def map_of_none_fst)
    then have "(n, b) \<notin> S" for b by force
    then show ?thesis using None by (simp add: empty_dataset_def)
  next
    case (Some ds)
    then show ?thesis using r unfolding read_so_far_def by simp
  qed
  have "set_variable a (arr n a) ?old = Inr ?new"
    using old a(2,3) by (auto simp: set_variable_def)
  then have add: "add_match h (n, a) R = Inr (AList.update n ?new R)"
    using a(1) by (simp add: add_match_def dict_get_def)
  have "read_so_far reps arr (insert (n, a) S) (AList.update n ?new R)"
    unfolding read_so_far_def
  proof (intro conjI allI impI)
    show "distinct (map fst (AList.update n ?new R))" using r by (simp add: read_so_far_def distinct_update)
    show "fst ` set (AList.update n ?new R) = fst ` insert (n, a) S"
      using r by (simp add: read_so_far_def dom_update [unfolded dom_map_of_conv_image_fst])
  next
    fix m ds
    assume m: "map_of (AList.update n ?new R) m = Some ds"
    have "ds_repetition ds = Some (reps m) \<and> distinct (map fst (ds_vars ds)) \<and>
      (\<forall>b. map_of (ds_vars ds) b = (if (m, b) \<in> insert (n, a) S then Some (arr m b) else None))"
    proof (cases "m = n")
      case True
      then have "ds = ?new" using m by (simp add: update_conv')
      then show ?thesis using True old by (simp add: update_conv' distinct_update)
    next
      case False
      then show ?thesis using m r by (simp add: update_conv' read_so_far_def)
    qed
    then show "ds_repetition ds = Some (reps m)" "distinct (map fst (ds_vars ds))"
      "map_of (ds_vars ds) b = (if (m, b) \<in> insert (n, a) S then Some (arr m b) else None)" for b by blast+
  qed
  with add show ?thesis by blast
qed

lemma add_matches:
  assumes "read_so_far reps arr S R"
    and "\<forall>(n, a)\<in>set M. map_of h (measurement_path n a) = Some (arr n a) \<and>
      (\<exists>c rows. arr n a = Arr2 c rows \<and> length rows = reps n)"
  shows "\<exists>R'. fold_result (add_match h) M R = Inr R' \<and> read_so_far reps arr (S \<union> set M) R'"
  using assms
proof (induction M arbitrary: S R)
  case (Cons m M)
  obtain n a where m: "m = (n, a)" by (cases m)
  obtain c rows where "map_of h (measurement_path n a) = Some (arr n a)" "arr n a = Arr2 c rows" "length rows = reps n"
    using Cons.prems(2) m by auto
  from add_match_step [OF Cons.prems(1) this]
  obtain R' where R': "add_match h (n, a) R = Inr R'" "read_so_far reps arr (insert (n, a) S) R'" by blast
  have "\<forall>(n, a)\<in>set M. map_of h (measurement_path n a) = Some (arr n a) \<and>
      (\<exists>c rows. arr n a = Arr2 c rows \<and> length rows = reps n)" using Cons.prems(2) by simp
  from Cons.IH [OF R'(2) this] R'(1) show ?case by (simp add: m insert_commute Un_commute)
qed auto

section \<open>The order of the experiments\<close>

lemma sorted_by_index:
  assumes "map (\<lambda>k. parse_exp_index_from_name k) names = map (\<lambda>i. Some (int i + 1)) [0..<length names]"
    and "distinct (map fst R)" and "fst ` set R = set names"
  shows "\<exists>R'. sort_by_index R = Inr R' \<and> map fst R' = names \<and> set R' = set R"
proof -
  define idx where "idx k = the (parse_exp_index_from_name k)" for k
  have n: "map idx names = map (\<lambda>i. int i + 1) [0..<length names]"
    using arg_cong [OF assms(1), of "map the"] by (simp add: idx_def [abs_def] comp_def)
  have all: "\<forall>k\<in>set names. parse_exp_index_from_name k \<noteq> None"
  proof
    fix k
    assume "k \<in> set names"
    then have "parse_exp_index_from_name k \<in> set (map parse_exp_index_from_name names)" by simp
    then show "parse_exp_index_from_name k \<noteq> None" unfolding assms(1) by auto
  qed
  let ?R = "sort_key (\<lambda>r. idx (fst r)) R"
  have "\<forall>(k, _)\<in>set R. parse_exp_index_from_name k \<noteq> None" using all assms(3) by force
  then have s: "sort_by_index R = Inr ?R" by (simp add: sort_by_index_def idx_def split_beta)
  have "sorted (map idx (map fst ?R))"
    using sorted_sort_key [of "\<lambda>r. idx (fst r)" R] by (simp add: comp_def)
  moreover have "sorted (map idx names)" unfolding n by (simp add: sorted_iff_nth_mono)
  moreover have set: "set (map fst ?R) = set names" using assms(3) by simp
  moreover have dn: "distinct (map idx names)" unfolding n by (simp add: distinct_map inj_on_def)
  moreover have "distinct (map fst ?R)"
    using assms(2) by (metis distinct_map distinct_sort set_sort)
  moreover from this have "distinct (map idx (map fst ?R))"
    using set dn by (simp only: distinct_map [of idx])
  ultimately have "map idx (map fst ?R) = map idx names"
    by (intro sorted_distinct_set_unique) (simp_all add: image_image [symmetric] del: map_map)
  then have "map fst ?R = names" using dn set by (intro map_inj_on [of idx]) (simp_all add: distinct_map)
  with s show ?thesis by simp
qed

section \<open>Round trip\<close>

definition same_dataset :: "dataset \<Rightarrow> dataset \<Rightarrow> bool" where
  "same_dataset ds ds' \<longleftrightarrow> ds_repetition ds' = ds_repetition ds \<and> map_of (ds_vars ds') = map_of (ds_vars ds) \<and>
     distinct (map fst (ds_vars ds'))"

lemma map_of_layout:
  assumes "results_ok results" and "(name, ds) \<in> set results" and "(acq, a) \<in> set (ds_vars ds)"
  shows "map_of (layout results) (measurement_path name acq) = Some a"
proof -
  have "(measurement_path name acq, a) \<in> set (layout results)"
    using assms(2,3) by (force simp: layout_def layout_of_def)
  then show ?thesis using layout_distinct [OF assms(1)] by (rule map_of_is_SomeI [rotated])
qed

lemma results_read:
  assumes "results_ok results" and "visits_all visit"
  shows "\<exists>h results'. save_results_to_hdf5 results [] = Inr h \<and> extract_results_from_hdf5 visit h = Inr results' \<and>
    map fst results' = map fst results \<and>
    (\<forall>i<length results. same_dataset (snd (results ! i)) (snd (results' ! i)))"
proof -
  let ?h = "layout results"
  define ds_at where "ds_at n = the (map_of results n)" for n
  define arr where "arr n a = the (map_of (ds_vars (ds_at n)) a)" for n a
  define reps where "reps n = the (ds_repetition (ds_at n))" for n
  have d: "distinct (map fst results)" by (rule results_distinct [OF assms(1)])
  have save: "save_results_to_hdf5 results [] = Inr ?h" using save_layout [of "[]" results] layout_distinct [OF assms(1)] by simp
  have at: "ds_at n = ds" if "(n, ds) \<in> set results" for n ds
    using that d by (simp add: ds_at_def map_of_is_SomeI)
  have ok: "dataset_ok ds" if "(n, ds) \<in> set results" for n ds using that assms(1) unfolding results_ok_def by blast
  have M: "set (match_hdf5_paths visit ?h) = set (channels_of results)" by (rule matches_channels [OF assms])
  have chan: "(n, a) \<in> set (channels_of results) \<longleftrightarrow> (\<exists>ds. (n, ds) \<in> set results \<and> a \<in> fst ` set (ds_vars ds))" for n a
    by (force simp: channels_of_def)
  have "map_of ?h (measurement_path n a) = Some (arr n a) \<and> (\<exists>c rows. arr n a = Arr2 c rows \<and> length rows = reps n)"
    if "(n, a) \<in> set (channels_of results)" for n a
  proof -
    from that obtain ds x where ds: "(n, ds) \<in> set results" "(a, x) \<in> set (ds_vars ds)" unfolding chan by force
    have "distinct (map fst (ds_vars ds))" using ok [OF ds(1)] unfolding dataset_ok_def by blast
    then have "arr n a = x" using ds(2) by (simp add: arr_def at [OF ds(1)] map_of_is_SomeI)
    moreover obtain c rows where "x = Arr2 c rows" "ds_repetition ds = Some (length rows)"
      using ok [OF ds(1)] ds(2) unfolding dataset_ok_def by blast
    ultimately show ?thesis using map_of_layout [OF assms(1) ds] by (simp add: reps_def at [OF ds(1)])
  qed
  then have "\<forall>(n, a)\<in>set (match_hdf5_paths visit ?h). map_of ?h (measurement_path n a) = Some (arr n a) \<and>
      (\<exists>c rows. arr n a = Arr2 c rows \<and> length rows = reps n)" unfolding M by blast
  note all = this
  have "read_so_far reps arr {} []" by (simp add: read_so_far_def)
  from add_matches [OF this all]
  obtain R where R: "fold_result (add_match ?h) (match_hdf5_paths visit ?h) [] = Inr R"
    "read_so_far reps arr (set (channels_of results)) R"
    by (auto simp: M)
  have "n \<in> fst ` set (channels_of results)" if n: "(n, ds) \<in> set results" for n ds
  proof -
    obtain v vs where "ds_vars ds = v # vs" using ok [OF n] by (auto simp: dataset_ok_def neq_Nil_conv)
    then have "(n, fst v) \<in> set (channels_of results)" unfolding chan using n by auto
    then show ?thesis by force
  qed
  moreover have "n \<in> fst ` set results" if "(n, a) \<in> set (channels_of results)" for n a
    using that unfolding chan by force
  ultimately have "fst ` set (channels_of results) = fst ` set results" by fastforce
  then have names: "distinct (map fst R)" "fst ` set R = set (map fst results)"
    using R(2) by (simp_all add: read_so_far_def)
  have "map (\<lambda>k. parse_exp_index_from_name k) (map fst results) = map (\<lambda>i. Some (int i + 1)) [0..<length (map fst results)]"
    using results_index [OF assms(1)] by (simp add: comp_def)
  from sorted_by_index [OF this names]
  obtain R' where R': "sort_by_index R = Inr R'" "map fst R' = map fst results" "set R' = set R" by blast
  have "same_dataset (snd (results ! i)) (snd (R' ! i))" if i: "i < length results" for i
  proof -
    obtain n ds where n: "results ! i = (n, ds)" by fastforce
    have "length R' = length results" using R'(2) by (metis length_map)
    moreover have "fst (R' ! i) = n" using arg_cong [OF R'(2), of "\<lambda>xs. xs ! i"] i n calculation by simp
    ultimately obtain ds' where "R' ! i = (n, ds')" "(n, ds') \<in> set R" using R'(3) i by (metis nth_mem prod.collapse)
    then have ds': "snd (R' ! i) = ds'" "map_of R n = Some ds'" using names(1) by (simp_all add: map_of_is_SomeI)
    have m: "(n, ds) \<in> set results" using i n by (metis nth_mem)
    have "distinct (map fst (ds_vars ds))" "ds_repetition ds \<noteq> None" using ok [OF m] by (auto simp: dataset_ok_def)
    then have "map_of (ds_vars ds) a = (if (n, a) \<in> set (channels_of results) then Some (arr n a) else None)" for a
    proof (cases "map_of (ds_vars ds) a")
      case None
      then have "(n, a) \<notin> set (channels_of results)" unfolding chan using at m by (metis map_of_eq_None_iff)
      then show ?thesis using None by simp
    next
      case (Some x)
      then have "(n, a) \<in> set (channels_of results)" unfolding chan using m by (force dest: map_of_SomeD)
      then show ?thesis using Some by (simp add: arr_def at [OF m])
    qed
    moreover have "ds_repetition ds = Some (reps n)" using \<open>ds_repetition ds \<noteq> None\<close> by (auto simp: reps_def at [OF m])
    ultimately show ?thesis using R(2) ds' n by (auto simp: read_so_far_def same_dataset_def)
  qed
  then show ?thesis using save R(1) R'(1,2) by (simp add: extract_results_from_hdf5_def)
qed

text \<open>
  C13. The results of a run survive the HDF5 file: for whatever order in which h5py visits the names of
  the file, reading gives back the experiments in the order in which they were run, also from the
  tenth on, each with its number of repetitions and its channels with their arrays.
\<close>
theorem results_roundtrip:
  assumes "results_ok results" and "visits_all visit"
  shows "\<exists>h results'. save_results_to_hdf5 results [] = Inr h \<and> extract_results_from_hdf5 visit h = Inr results' \<and>
    map fst results' = map fst results \<and>
    (\<forall>i<length results. same_dataset (snd (results ! i)) (snd (results' ! i)))"
  by (rule results_read [OF assms])

text \<open>Two experiments, the second with two channels.\<close>

definition sample_results :: "(string \<times> dataset) list" where
  "sample_results = [(get_experiment_name ''a/b'' 1, \<lparr>ds_repetition = Some 1, ds_vars = [(''6'', Arr2 1 [[(Fin 1, Fin 0)]])]\<rparr>),
     (get_experiment_name ''a'' 2, \<lparr>ds_repetition = Some 0, ds_vars = [(''7'', Arr2 1 []), (''6'', Arr2 2 [])]\<rparr>)]"

lemma sample_results_ok: "results_ok sample_results"
proof -
  have "map fst sample_results = map (\<lambda>i. get_experiment_name ((\<lambda>n. if n = 0 then ''a/b'' else ''a'') i) (int i + 1)) [0..<length sample_results]"
    by (simp add: sample_results_def upt_rec)
  moreover have "\<forall>(name, ds)\<in>set sample_results. dataset_ok ds"
    by (simp add: sample_results_def dataset_ok_def dec_value_def)
  ultimately show ?thesis
    unfolding results_ok_def by (intro conjI exI [of _ "\<lambda>n. if n = 0 then ''a/b'' else ''a''"]) assumption+
qed

lemma finite_members: "finite (members h)"
  by (simp add: members_def)

lemma sorted_visit: "visits_all (\<lambda>h. sorted_list_of_set (members h))"
  by (simp add: visits_all_def finite_members)

theorem results_roundtrip_witness:
  "\<exists>h results'. save_results_to_hdf5 sample_results [] = Inr h \<and>
    extract_results_from_hdf5 (\<lambda>h. sorted_list_of_set (members h)) h = Inr results' \<and>
    map fst results' = [''ab~1'', ''a~2''] \<and> map_of (ds_vars (snd (results' ! 1))) ''6'' = Some (Arr2 2 [])"
proof -
  have names: "map fst sample_results = [''ab~1'', ''a~2'']" unfolding sample_results_def by code_simp
  have "snd (sample_results ! 1) = \<lparr>ds_repetition = Some 0, ds_vars = [(''7'', Arr2 1 []), (''6'', Arr2 2 [])]\<rparr>"
    "1 < length sample_results" by (simp_all add: sample_results_def)
  then show ?thesis
    using results_roundtrip [OF sample_results_ok sorted_visit] unfolding names same_dataset_def by fastforce
qed

end
