(* ===== verification/Hardware_Map.thy ===== *)
theory Hardware_Map imports Quantify_Schedule Readout begin

text \<open>
  From the configuration of the device to the channels of a circuit: \<open>generate_hardware_map\<close> of
  \<^verbatim>\<open>app/libs/quantum_executor/quantify/utils/portclock.py\<close>, and what
  \<^verbatim>\<open>app/libs/quantum_executor/quantify/executor.py\<close> reads out of its configuration and of a compiled
  experiment.
\<close>

section \<open>The map of channels\<close>

definition pad_qubit :: "string \<Rightarrow> string" where
  "pad_qubit q = (let num = lstrip_char CHR ''q'' q in if length num > 1 then num else CHR ''0'' # num)"

definition drive_entry :: "string \<Rightarrow> string \<times> string" where
  "drive_entry padded = (CHR ''q'' # padded @ ''.01'', CHR ''q'' # padded @ '':mw'')"

definition readout_entry :: "string \<Rightarrow> string \<times> string" where
  "readout_entry padded = (CHR ''q'' # padded @ ''.ro'', CHR ''q'' # padded @ '':res'')"

definition coupling_entry :: "string \<Rightarrow> string \<Rightarrow> string \<times> string" where
  "coupling_entry q1 q2 = (CHR ''q'' # q1 @ ''_q'' @ q2 @ ''.cz'', CHR ''q'' # q1 @ ''_q'' @ q2 @ '':fl'')"

text \<open>\<open>sorted(qubit_ids, key=lambda q: int(q.lstrip("q")))\<close>.\<close>

definition sorted_qubits :: "string list \<Rightarrow> string list result" where
  "sorted_qubits qubit_ids =
     bind_result (map_result (\<lambda>q. bind_result (int_of_text (lstrip_char CHR ''q'' q)) (\<lambda>n. Inr (n, q))) qubit_ids)
       (\<lambda>nqs. Inr (map snd (sort_key fst nqs)))"

definition qubit_entries :: "nat \<times> string \<Rightarrow> (string \<times> (string \<times> string)) list" where
  "qubit_entries iq = (let (idx, qubit) = iq; padded = pad_qubit qubit in
     [(CHR ''d'' # nat_text idx, drive_entry padded), (CHR ''m'' # nat_text idx, readout_entry padded)])"

definition generate_hardware_map :: "string list \<Rightarrow> (string \<times> string list) list \<Rightarrow> hardware_map result" where
  "generate_hardware_map qubit_ids coupling_dict =
     bind_result (sorted_qubits qubit_ids) (\<lambda>qs.
     bind_result (map_result (\<lambda>(key, qubits).
         case qubits of
           [q1, q2] \<Rightarrow> Inr (key, coupling_entry (pad_qubit q1) (pad_qubit q2))
         | _ \<Rightarrow> Inl ValueError) coupling_dict)
       (\<lambda>couplings. Inr (dict_of (concat (map qubit_entries (List.enumerate 0 qs)) @ couplings))))"

section \<open>Frequencies\<close>

text \<open>An entry of the modulation frequencies: an object or a dictionary, with \<open>lo_freq\<close> or without.\<close>

datatype lo_entry = LoObject "rat option" | LoDict "rat option"

fun lo_freq :: "lo_entry \<Rightarrow> rat option" where
  "lo_freq (LoObject f) = f"
| "lo_freq (LoDict f) = f"

definition extract_lo_frequencies :: "(string \<times> lo_entry) list \<Rightarrow> (string \<times> rat) list" where
  "extract_lo_frequencies modulation_frequencies =
     List.map_filter (\<lambda>(key, e). map_option (\<lambda>f. (key, f)) (lo_freq e)) modulation_frequencies"

definition pad2 :: "int \<Rightarrow> string" where
  "pad2 n = (if 0 \<le> n \<and> n < 10 then CHR ''0'' # int_text n else int_text n)"

definition to_drive_clock :: "string \<Rightarrow> string result" where
  "to_drive_clock qubit_id =
     bind_result (int_of_text (lstrip_char CHR ''q'' (strip qubit_id))) (\<lambda>n. Inr (CHR ''q'' # pad2 n @ ''.01''))"

text \<open>A qubit of the calibration: the text of its id and its frequency, where it has them.\<close>

definition extract_drive_frequencies ::
    "(string option \<times> rat option) list option \<Rightarrow> (string \<times> rat) list result" where
  "extract_drive_frequencies calibration =
     (case calibration of
        None \<Rightarrow> Inr []
      | Some qubits \<Rightarrow>
          bind_result (map_result (\<lambda>(i, f). bind_result (to_drive_clock i) (\<lambda>clock. Inr (clock, f)))
              (List.map_filter (\<lambda>(i, f). case (i, f) of (Some i', Some f') \<Rightarrow> Some (i', f') | _ \<Rightarrow> None) qubits))
            (\<lambda>kvs. Inr (dict_of kvs)))"

section \<open>Bias currents\<close>

text \<open>The ports of the couplers in the map, against the couplers.\<close>

definition port_to_coupler :: "hardware_map \<Rightarrow> string list \<Rightarrow> (string \<times> string) list" where
  "port_to_coupler hw couplers =
     dict_of (List.map_filter (\<lambda>u. map_option (\<lambda>(clock, port). (port, u)) (map_of hw u)) couplers)"

definition dc_bias :: "instruction \<Rightarrow> param option result" where
  "dc_bias i =
     (case in_kind i of
        WacqtCZ ps \<Rightarrow> Inr (map_of ps ''theta'')
      | GaussPulse _ ps \<Rightarrow> Inr (map_of ps ''theta'')
      | SquarePulse _ ps \<Rightarrow> Inr (map_of ps ''theta'')
      | _ \<Rightarrow> Inl AttributeError)"

text \<open>The bias of one instruction: the larger one, without its sign, of two for one coupler.\<close>

definition add_bias ::
    "(string \<times> string) list \<Rightarrow> instruction \<Rightarrow> (string \<times> rat) list \<Rightarrow> (string \<times> rat) list result" where
  "add_bias ports i bias =
     (if in_name i \<noteq> ''wacqt_cz'' then Inr bias
      else bind_result (dc_bias i) (\<lambda>theta. case theta of
        None \<Rightarrow> Inr bias
      | Some v \<Rightarrow>
          bind_result (dict_get ports (in_port i)) (\<lambda>coupler.
          bind_result (float_param (Some v)) (\<lambda>bias_current.
            case map_of bias coupler of
              None \<Rightarrow> Inr (AList.update coupler bias_current bias)
            | Some old \<Rightarrow> if \<bar>bias_current\<bar> > \<bar>old\<bar> then Inr (AList.update coupler bias_current bias) else Inr bias))))"

fun extract_from :: "(string \<times> string) list \<Rightarrow> instruction list \<Rightarrow> (string \<times> rat) list \<Rightarrow> (string \<times> rat) list result" where
  "extract_from ports [] bias = Inr bias"
| "extract_from ports (i # js) bias = bind_result (add_bias ports i bias) (extract_from ports js)"

definition extract_bias :: "(string \<times> string) list \<Rightarrow> registry \<Rightarrow> (string \<times> rat) list result" where
  "extract_bias ports reg = extract_from ports (concat (map (\<lambda>(_, ch). ch_instructions ch) (rg_channels reg))) []"

end
