(* ===== verification/Hardware_Properties.thy ===== *)
theory Hardware_Properties imports Hardware_Map Readout_Properties begin

text \<open>
  The channels of a circuit on the device: an acquisition on a channel comes back as the qubit of the
  circuit it was asked for, and the bias of a coupler is the largest that an experiment asks for.
\<close>

section \<open>Numbers\<close>

lemma int_of_padded: "int_of_text (CHR ''0'' # nat_text n) = Inr (int n)"
proof -
  let ?t = "CHR ''0'' # nat_text n"
  have d: "\<forall>c\<in>set ?t. dec_value c \<noteq> None" using nat_text_digits by (auto simp: dec_value_def)
  have z: "dec_value CHR ''0'' = Some 0" by (simp add: dec_value_def)
  have "strip ?t = ?t" using d dec_value_plain(1) by (intro strip_plain) blast
  moreover have "dec_number ?t = dec_digits (?t @ []) 0"
    using d by (simp only: dec_number.simps append_Nil2 list.set ball_simps if_False simp_thms)
  then have "dec_number ?t = Some (int n)"
    using nat_text_value [of n] dec_digits_snoc [OF nat_text_digits, of n "[]" 0] z by simp
  ultimately show ?thesis by (simp add: int_of_text_def)
qed

lemma lstrip_q: "lstrip_char CHR ''q'' (CHR ''q'' # nat_text n) = nat_text n"
proof -
  have "CHR ''q'' \<notin> set (nat_text n)" using nat_text_digits [of n] by (auto simp: dec_value_def)
  moreover obtain c cs where "nat_text n = c # cs" using nat_text_ne by (cases "nat_text n") auto
  ultimately show ?thesis by (auto simp: lstrip_char_def)
qed

lemma pad_qubit_number:
  "int_of_text (pad_qubit (CHR ''q'' # nat_text n)) = Inr (int n)"
  "CHR ''.'' \<notin> set (pad_qubit (CHR ''q'' # nat_text n))"
proof -
  show "int_of_text (pad_qubit (CHR ''q'' # nat_text n)) = Inr (int n)"
    by (simp add: pad_qubit_def Let_def lstrip_q int_of_padded)
  have "CHR ''.'' \<notin> set (nat_text n)" using nat_text_digits [of n] by (auto simp: dec_value_def)
  then show "CHR ''.'' \<notin> set (pad_qubit (CHR ''q'' # nat_text n))" by (simp add: pad_qubit_def Let_def lstrip_q)
qed

lemma readout_channel: "acq_channel (fst (readout_entry (pad_qubit (CHR ''q'' # nat_text n)))) = Inr (int n)"
proof -
  let ?p = "pad_qubit (CHR ''q'' # nat_text n)"
  have "py_split ''.'' ((CHR ''q'' # ?p) @ ''.'' @ ''ro'') = [CHR ''q'' # ?p, ''ro'']"
    using pad_qubit_number(2) by (intro py_split_two) simp_all
  then show ?thesis by (simp add: acq_channel_def readout_entry_def pad_qubit_number(1))
qed

section \<open>The order of the qubits\<close>

lemma sorted_qubits_numbers:
  assumes "distinct ns"
  shows "sorted_qubits (map (\<lambda>n. CHR ''q'' # nat_text n) ns) = Inr (map (\<lambda>n. CHR ''q'' # nat_text n) (sort ns))"
proof -
  let ?q = "\<lambda>n. CHR ''q'' # nat_text n"
  let ?nqs = "map (\<lambda>n. (int n, ?q n)) ns"
  have "map_result (\<lambda>q. bind_result (int_of_text (lstrip_char CHR ''q'' q)) (\<lambda>n. Inr (n, q))) (map ?q ns) = Inr ?nqs"
    unfolding map_result_Inr by (simp add: list_all2_conv_all_nth lstrip_q)
  then have s: "sorted_qubits (map ?q ns) = Inr (map snd (sort_key fst ?nqs))" by (simp add: sorted_qubits_def)
  have mem: "x = (fst x, ?q (nat (fst x)))" if "x \<in> set (sort_key fst ?nqs)" for x using that by auto
  have "distinct (map fst (sort_key fst ?nqs))"
    using assms by (simp add: distinct_map inj_on_def)
  moreover have "sorted (map int (sort ns))" by (simp add: sorted_map sorted_wrt_mono_rel [OF _ sorted_sort])
  moreover have "distinct (map int (sort ns))" using assms by (simp add: distinct_map inj_on_def)
  ultimately have "map fst (sort_key fst ?nqs) = map int (sort ns)"
    using sorted_sort_key [of fst ?nqs] by (intro sorted_distinct_set_unique) (simp_all add: image_image)
  then have "map (\<lambda>x. ?q (nat (fst x))) (sort_key fst ?nqs) = map ?q (sort ns)"
    using map_map [of "\<lambda>x. ?q (nat x)" fst "sort_key fst ?nqs"] by (simp add: comp_def)
  moreover have "map snd (sort_key fst ?nqs) = map (\<lambda>x. ?q (nat (fst x))) (sort_key fst ?nqs)"
    using mem by (intro map_cong) (auto simp: prod_eq_iff)
  ultimately show ?thesis using s by simp
qed

lemma sdk_map_numbers:
  assumes "distinct ns" and "mset cal = mset ns" and "idx < length ns"
  shows "\<exists>sdk. quantify_to_sdk_map (map nat_text cal) = Inr sdk \<and> map_of sdk (int (sort ns ! idx)) = Some idx"
proof -
  have "map_result int_of_text (map nat_text cal) = Inr (map int cal)"
    unfolding map_result_Inr by (simp add: list_all2_conv_all_nth)
  moreover have "sort (map int cal) = map int (sort ns)"
    using assms(2) by (intro properties_for_sort) (simp_all add: sorted_map sorted_wrt_mono_rel [OF _ sorted_sort])
  ultimately have sdk: "quantify_to_sdk_map (map nat_text cal) =
      Inr (dict_of (map (\<lambda>(idx, q). (q, idx)) (List.enumerate 0 (map int (sort ns)))))"
    by (simp add: quantify_to_sdk_map_def)
  let ?kvs = "map (\<lambda>(idx, q). (q, idx)) (List.enumerate 0 (map int (sort ns)))"
  have "map fst ?kvs = map int (sort ns)" by (simp add: comp_def split_beta)
  then have "distinct (map fst ?kvs)" using assms(1) by (simp add: distinct_map inj_on_def)
  moreover have "(idx, int (sort ns ! idx)) \<in> set (List.enumerate 0 (map int (sort ns)))"
    using assms(3) by (simp add: in_set_enumerate_eq)
  then have "(\<lambda>(idx, q). (q, idx)) (idx, int (sort ns ! idx)) \<in> set ?kvs" unfolding set_map by (rule imageI)
  then have "(int (sort ns ! idx), idx) \<in> set ?kvs" by (simp only: prod.case)
  ultimately have "map_of (dict_of ?kvs) (int (sort ns ! idx)) = Some idx" by (rule map_of_dict_distinct)
  with sdk show ?thesis by blast
qed

section \<open>The map of channels\<close>

definition couplings_ok :: "(string \<times> string list) list \<Rightarrow> bool" where
  "couplings_ok cd \<longleftrightarrow> distinct (map fst cd) \<and> (\<forall>(key, qubits)\<in>set cd. take 1 key = ''u'' \<and> length qubits = 2)"

lemma qubit_entries_distinct: "distinct (map fst (concat (map qubit_entries (List.enumerate i qs))))"
proof (induction qs arbitrary: i)
  case (Cons q qs)
  have "c # nat_text k \<notin> set (map fst (concat (map qubit_entries (List.enumerate j qs))))" if "k < j" for c j k
    using that by (auto simp: qubit_entries_def Let_def in_set_enumerate_eq dest!: nat_text_inj)
  then show ?case using Cons [of "Suc i"] by (simp add: qubit_entries_def Let_def)
qed simp

lemma hardware_map_entries:
  assumes "distinct ns" and "couplings_ok cd"
  shows "\<exists>hw. generate_hardware_map (map (\<lambda>n. CHR ''q'' # nat_text n) ns) cd = Inr hw \<and>
    (\<forall>idx<length ns. let padded = pad_qubit (CHR ''q'' # nat_text (sort ns ! idx)) in
       map_of hw (CHR ''d'' # nat_text idx) = Some (drive_entry padded) \<and>
       map_of hw (CHR ''m'' # nat_text idx) = Some (readout_entry padded))"
proof -
  let ?q = "\<lambda>n. CHR ''q'' # nat_text n"
  let ?couple = "\<lambda>kq. (fst kq, coupling_entry (pad_qubit (snd kq ! 0)) (pad_qubit (snd kq ! 1)))"
  let ?es = "concat (map qubit_entries (List.enumerate 0 (map ?q (sort ns))))"
  have cps: "map_result (\<lambda>(key, qubits). case qubits of [q1, q2] \<Rightarrow> Inr (key, coupling_entry (pad_qubit q1) (pad_qubit q2))
      | _ \<Rightarrow> Inl ValueError) cd = Inr (map ?couple cd)"
  proof -
    have "(case kq of (key, qubits) \<Rightarrow> case qubits of [q1, q2] \<Rightarrow> Inr (key, coupling_entry (pad_qubit q1) (pad_qubit q2))
      | _ \<Rightarrow> Inl ValueError) = Inr (?couple kq)" if "kq \<in> set cd" for kq
    proof -
      obtain key qs where kq: "kq = (key, qs)" by (cases kq)
      with that assms(2) have "length qs = 2" by (auto simp: couplings_ok_def)
      then obtain q1 q2 where "qs = [q1, q2]" by (auto simp: numeral_2_eq_2 length_Suc_conv)
      then show ?thesis by (simp add: kq)
    qed
    then show ?thesis unfolding map_result_Inr by (simp add: list_all2_conv_all_nth)
  qed
  have hw: "generate_hardware_map (map ?q ns) cd = Inr (dict_of (?es @ map ?couple cd))"
    by (simp only: generate_hardware_map_def sorted_qubits_numbers [OF assms(1)] cps bind_result_simps)
  have keys: "distinct (map fst (?es @ map ?couple cd))"
  proof -
    have "map fst (map ?couple cd) = map fst cd" by simp
    moreover have "take 1 key = ''u''" if "key \<in> set (map fst cd)" for key
      using that assms(2) unfolding couplings_ok_def by auto
    moreover have "take 1 key \<noteq> ''u''" if "key \<in> set (map fst ?es)" for key
      using that by (auto simp: qubit_entries_def Let_def)
    ultimately have "set (map fst ?es) \<inter> set (map fst (map ?couple cd)) = {}" "map fst (map ?couple cd) = map fst cd"
      by (simp_all only: disjoint_iff) blast
    moreover have "distinct (map fst cd)" using assms(2) by (simp add: couplings_ok_def)
    moreover have "distinct (map fst ?es)" by (rule qubit_entries_distinct)
    ultimately show ?thesis by (simp only: map_append distinct_append simp_thms)
  qed
  have "map_of (dict_of (?es @ map ?couple cd)) (c # nat_text idx) = Some v"
    if "idx < length ns" "(c # nat_text idx, v) \<in> set (qubit_entries (idx, ?q (sort ns ! idx)))" for idx c v
  proof (rule map_of_dict_distinct [OF keys])
    have "(idx, ?q (sort ns ! idx)) \<in> set (List.enumerate 0 (map ?q (sort ns)))"
      using that(1) by (simp add: in_set_enumerate_eq)
    then show "(c # nat_text idx, v) \<in> set (?es @ map ?couple cd)" using that(2) by fastforce
  qed
  then show ?thesis unfolding hw by (simp add: qubit_entries_def Let_def)
qed

text \<open>
  C23. The measurement of a qubit comes back to it: the readout channel \<open>m<i>\<close> of a circuit runs on a
  clock whose acquisition channel is a qubit of the device, and that qubit's place among the
  calibrated qubits, in any order they come, is \<open>i\<close> again.
\<close>
theorem readout_returns:
  assumes "distinct ns" and "couplings_ok cd" and "mset cal = mset ns" and "i < length ns"
  shows "\<exists>hw clock port q sdk.
    generate_hardware_map (map (\<lambda>n. CHR ''q'' # nat_text n) ns) cd = Inr hw \<and>
    map_of hw (CHR ''m'' # nat_text i) = Some (clock, port) \<and> acq_channel clock = Inr q \<and>
    quantify_to_sdk_map (map nat_text cal) = Inr sdk \<and> map_of sdk q = Some i"
proof -
  let ?padded = "pad_qubit (CHR ''q'' # nat_text (sort ns ! i))"
  obtain hw where hw: "generate_hardware_map (map (\<lambda>n. CHR ''q'' # nat_text n) ns) cd = Inr hw"
    "map_of hw (CHR ''m'' # nat_text i) = Some (readout_entry ?padded)"
    using hardware_map_entries [OF assms(1,2)] assms(4) unfolding Let_def by blast
  obtain sdk where sdk: "quantify_to_sdk_map (map nat_text cal) = Inr sdk" "map_of sdk (int (sort ns ! i)) = Some i"
    using sdk_map_numbers [OF assms(1,3,4)] by blast
  have "readout_entry ?padded = (fst (readout_entry ?padded), snd (readout_entry ?padded))" by simp
  with hw sdk readout_channel show ?thesis by metis
qed

theorem readout_returns_witness:
  "\<exists>hw clock port q sdk. generate_hardware_map [''q12'', ''q7''] [(''u0'', [''q7'', ''q12''])] = Inr hw \<and>
    map_of hw ''m0'' = Some (clock, port) \<and> acq_channel clock = Inr q \<and>
    quantify_to_sdk_map [''7'', ''12''] = Inr sdk \<and> map_of sdk q = Some 0"
proof -
  have t: "nat_text 12 = ''12''" "nat_text 7 = ''7''" "nat_text 0 = ''0''" by code_simp+
  have "couplings_ok [(''u0'', [''q7'', ''q12''])]" by (simp add: couplings_ok_def)
  then show ?thesis
    using readout_returns [of "[12, 7]" "[(''u0'', [''q7'', ''q12''])]" "[7, 12]" 0] by (simp add: t add_mset_commute)
qed

section \<open>Bias currents\<close>

text \<open>What a list of instructions asks of the couplers.\<close>

definition asked :: "(string \<times> string) list \<Rightarrow> instruction list \<Rightarrow> string \<Rightarrow> rat set" where
  "asked ports js coupler = {x. \<exists>i\<in>set js. in_name i = ''wacqt_cz'' \<and> dc_bias i = Inr (Some (PNum x)) \<and>
     map_of ports (in_port i) = Some coupler}"

definition largest :: "rat set \<Rightarrow> rat option \<Rightarrow> bool" where
  "largest A b \<longleftrightarrow> (case b of None \<Rightarrow> A = {} | Some x \<Rightarrow> x \<in> A \<and> (\<forall>y\<in>A. \<bar>y\<bar> \<le> \<bar>x\<bar>))"

lemma largest_insert:
  "largest A b \<Longrightarrow> largest (A \<union> {x}) (case b of None \<Rightarrow> Some x | Some y \<Rightarrow> if \<bar>x\<bar> > \<bar>y\<bar> then Some x else Some y)"
  by (cases b) (fastforce simp: largest_def)+

lemma add_bias_largest:
  assumes "add_bias ports i bias = Inr bias'" and "largest A (map_of bias c)"
  shows "largest (A \<union> asked ports [i] c) (map_of bias' c)"
proof (cases "in_name i = ''wacqt_cz'' \<and> dc_bias i \<noteq> Inr None")
  case False
  then have "bias' = bias" "asked ports [i] c = {}"
    using assms(1) by (cases "in_name i = ''wacqt_cz''"; simp add: add_bias_def asked_def)+
  with assms(2) show ?thesis by simp
next
  case True
  then obtain v where v: "dc_bias i = Inr (Some v)"
    using assms(1) by (cases "dc_bias i") (auto simp: add_bias_def)
  then obtain cp x where cp: "map_of ports (in_port i) = Some cp" "v = PNum x"
    using assms(1) True by (cases v) (auto simp: add_bias_def dict_get_def bind_result_def split: option.splits sum.splits)
  have b: "bias' = (case map_of bias cp of None \<Rightarrow> AList.update cp x bias
      | Some old \<Rightarrow> if \<bar>x\<bar> > \<bar>old\<bar> then AList.update cp x bias else bias)"
    using assms(1) True by (auto simp: add_bias_def v cp dict_get_def split: option.splits if_splits)
  show ?thesis
  proof (cases "c = cp")
    case True
    then have "asked ports [i] c = {x}" using \<open>in_name i = ''wacqt_cz'' \<and> _\<close> by (auto simp: asked_def v cp)
    moreover have "map_of bias' c = (case map_of bias c of None \<Rightarrow> Some x | Some y \<Rightarrow> if \<bar>x\<bar> > \<bar>y\<bar> then Some x else Some y)"
      by (simp add: b True update_conv' split: option.split)
    ultimately show ?thesis using largest_insert [OF assms(2)] by simp
  next
    case False
    then have "asked ports [i] c = {}" by (auto simp: asked_def cp)
    moreover have "map_of bias' c = map_of bias c" using False by (simp add: b update_conv' split: option.split)
    ultimately show ?thesis using assms(2) by simp
  qed
qed

lemma asked_Cons: "asked ports (i # js) c = asked ports [i] c \<union> asked ports js c"
  by (auto simp: asked_def)

lemma extract_from_largest:
  "extract_from ports js bias = Inr bias' \<Longrightarrow> largest A (map_of bias c) \<Longrightarrow> largest (A \<union> asked ports js c) (map_of bias' c)"
proof (induction js arbitrary: bias A)
  case (Cons i js)
  then obtain b where b: "add_bias ports i bias = Inr b" "extract_from ports js b = Inr bias'"
    by (cases "add_bias ports i bias") auto
  have "largest (A \<union> asked ports [i] c \<union> asked ports js c) (map_of bias' c)"
    using Cons.IH [OF b(2) add_bias_largest [OF b(1) Cons.prems(2)]] .
  then show ?case by (simp only: asked_Cons [of ports i js] Un_assoc)
qed (simp add: asked_def)

text \<open>
  C24. The bias that is set on a coupler is one that an instruction of the experiment asks for, and none
  asks for a larger one; couplers that no instruction asks for are left out.
\<close>
theorem bias_is_largest:
  assumes "extract_bias ports reg = Inr bias"
  shows "largest (asked ports (concat (map (\<lambda>(_, ch). ch_instructions ch) (rg_channels reg))) coupler) (map_of bias coupler)"
  using extract_from_largest [OF assms [unfolded extract_bias_def], of "{}" coupler] by (simp add: largest_def)

definition sample_cz :: "rat \<Rightarrow> instruction" where
  "sample_cz x = \<lparr>in_name = ''wacqt_cz'', in_t0 = 0, in_clock = ''c'', in_port = ''p'', in_duration = 0,
     in_kind = WacqtCZ [(''theta'', PNum x)], in_label = ''l'', in_position = 0\<rparr>"

definition sample_cz_registry :: registry where
  "sample_cz_registry = \<lparr>rg_channels = [(''c'', (new_channel ''c'')\<lparr>ch_instructions := [sample_cz 1, sample_cz (- 2)]\<rparr>)],
     rg_drawn = 0\<rparr>"

theorem bias_is_largest_witness: "\<exists>bias. extract_bias [(''p'', ''u0'')] sample_cz_registry = Inr bias \<and> map_of bias ''u0'' = Some (- 2)"
proof -
  have e: "extract_bias [(''p'', ''u0'')] sample_cz_registry = Inr [(''u0'', - 2)]"
    by (simp add: extract_bias_def sample_cz_registry_def sample_cz_def add_bias_def dc_bias_def dict_get_def)
  then show ?thesis using bias_is_largest [OF e, of "''u0''"] by simp
qed

end
