(* ===== verification/Spi_Dac.thy ===== *)
theory Spi_Dac imports Hardware_Map "HOL-Library.List_Lexorder" "HOL-Library.Char_ord" begin

text \<open>
  The currents of the couplers: \<open>SpiDAC\<close> of \<^verbatim>\<open>app/libs/quantum_executor/quantify/spi_dac.py\<close> and
  \<open>_run_native\<close> of \<^verbatim>\<open>executor.py\<close>, which sets them for an experiment and may restore them. The
  converter modules of a rack are the argument \<open>D\<close>, with a state \<open>'h\<close> that changes as time passes. Loops
  that wait for a ramp may not end, so they are partial.
\<close>

section \<open>The interface\<close>

record 'h dac =
  dc_current :: "'h \<Rightarrow> string \<Rightarrow> rat result"
  dc_set :: "string \<Rightarrow> rat \<Rightarrow> 'h \<Rightarrow> unit result \<times> 'h"
  dc_is_ramping :: "'h \<Rightarrow> string \<Rightarrow> bool"
  dc_ramping_enabled :: "string \<Rightarrow> bool \<Rightarrow> 'h \<Rightarrow> 'h"
  dc_sleep :: "rat \<Rightarrow> 'h \<Rightarrow> 'h"

text \<open>The rack of an executor: its couplers in the order of its map, whether it is only a dummy.\<close>

record spi =
  sp_is_dummy :: bool
  sp_couplers :: "string list"
  sp_parking_current :: rat

section \<open>Ramping\<close>

text \<open>The loop that waits for one coupler; an unreadable current ends it.\<close>

partial_function (option) wait_ramp :: "'h dac \<Rightarrow> string \<Rightarrow> rat \<Rightarrow> 'h \<Rightarrow> (unit result \<times> 'h) option" where
  "wait_ramp D c target h =
     (if \<not> dc_is_ramping D h c then Some (Inr (), h)
      else case dc_current D h c of
        Inl e \<Rightarrow> Some (if e = ValueError then Inr () else Inl e, h)
      | Inr cur \<Rightarrow>
          if \<bar>cur * 1000 - target * 1000\<bar> < 5 / 1000 then Some (Inr (), h)
          else wait_ramp D c target (dc_sleep D (1 / 2) h))"

fun ramp_each :: "'h dac \<Rightarrow> string list \<Rightarrow> (string \<times> rat) list \<Rightarrow> 'h \<Rightarrow> (unit result \<times> 'h) option" where
  "ramp_each D couplers [] h = Some (Inr (), h)"
| "ramp_each D couplers ((c, target) # cts) h =
     (if c \<notin> set couplers then ramp_each D couplers cts h
      else case dc_current D h c of
        Inl e \<Rightarrow> Some (Inl e, h)
      | Inr initial \<Rightarrow>
          if \<bar>target * 1000 - initial * 1000\<bar> = 0 then ramp_each D couplers cts h
          else case dc_set D c target h of
            (Inl e, h') \<Rightarrow> Some (Inl e, h')
          | (Inr _, h') \<Rightarrow>
             (case wait_ramp D c target h' of
                None \<Rightarrow> None
              | Some (Inl e, h'') \<Rightarrow> Some (Inl e, h'')
              | Some (Inr _, h'') \<Rightarrow> ramp_each D couplers cts h''))"

definition ramp_to_target_currents ::
    "'h dac \<Rightarrow> spi \<Rightarrow> (string \<times> rat) list \<Rightarrow> 'h \<Rightarrow> (unit result \<times> 'h) option" where
  "ramp_to_target_currents D sp coupler_current_map h =
     (if sp_is_dummy sp then Some (Inr (), h) else ramp_each D (sp_couplers sp) coupler_current_map h)"

definition reset_to_parking_current :: "'h dac \<Rightarrow> spi \<Rightarrow> 'h \<Rightarrow> (unit result \<times> 'h) option" where
  "reset_to_parking_current D sp =
     ramp_to_target_currents D sp (map (\<lambda>c. (c, sp_parking_current sp)) (sort (sp_couplers sp)))"

definition get_current_biases :: "'h dac \<Rightarrow> spi \<Rightarrow> 'h \<Rightarrow> (string \<times> rat) list result" where
  "get_current_biases D sp h =
     (if sp_is_dummy sp then Inr []
      else map_result (\<lambda>c. bind_result (dc_current D h c) (\<lambda>x. Inr (c, x))) (sp_couplers sp))"

section \<open>Closing\<close>

partial_function (option) wait_idle :: "'h dac \<Rightarrow> string \<Rightarrow> 'h \<Rightarrow> 'h option" where
  "wait_idle D c h = (if dc_is_ramping D h c then wait_idle D c (dc_sleep D (1 / 20) h) else Some h)"

fun close_each :: "'h dac \<Rightarrow> string list \<Rightarrow> 'h \<Rightarrow> 'h option" where
  "close_each D [] h = Some h"
| "close_each D (c # cs) h =
     (case wait_idle D c h of None \<Rightarrow> None | Some h' \<Rightarrow> close_each D cs (dc_ramping_enabled D c False h'))"

text \<open>\<open>close\<close>, up to the release of the rack itself.\<close>

definition spi_close :: "'h dac \<Rightarrow> spi \<Rightarrow> 'h \<Rightarrow> 'h option" where
  "spi_close D sp h =
     map_option (dc_sleep D (1 / 20)) (if sp_is_dummy sp then Some h else close_each D (sp_couplers sp) h)"

section \<open>Running an experiment\<close>

text \<open>Sequencing of steps that may fail or not return.\<close>

definition then_run :: "(unit result \<times> 'h) option \<Rightarrow> ('h \<Rightarrow> ('r result \<times> 'h) option) \<Rightarrow> ('r result \<times> 'h) option" where
  "then_run m f = (case m of None \<Rightarrow> None | Some (Inl e, h) \<Rightarrow> Some (Inl e, h) | Some (Inr _, h) \<Rightarrow> f h)"

fun ramp_racks :: "'h dac \<Rightarrow> (spi \<times> (string \<times> rat) list) list \<Rightarrow> 'h \<Rightarrow> (unit result \<times> 'h) option" where
  "ramp_racks D [] h = Some (Inr (), h)"
| "ramp_racks D ((sp, targets) # sps) h = then_run (ramp_to_target_currents D sp targets h) (ramp_racks D sps)"

fun reset_racks :: "'h dac \<Rightarrow> bool \<Rightarrow> (spi \<times> (string \<times> rat) list) list \<Rightarrow> 'h \<Rightarrow> (unit result \<times> 'h) option" where
  "reset_racks D restore [] h = Some (Inr (), h)"
| "reset_racks D restore ((sp, initial) # sps) h =
     then_run (if restore then ramp_to_target_currents D sp initial h else Some (Inr (), h)) (\<lambda>h'.
       case spi_close D sp h' of None \<Rightarrow> None | Some h'' \<Rightarrow> reset_racks D restore sps h'')"

text \<open>
  \<open>stop\<close>, \<open>compile\<close> and \<open>acquire\<close> stand for stopping the coordinator, for the compiler and for the
  coordinator from \<open>prepare\<close> to the retrieved acquisitions. The experiment begins after the delay of the
  executor, during which the modules go on.
\<close>

definition after_delay :: "'h dac \<Rightarrow> rat \<Rightarrow> 'h \<Rightarrow> 'h" where
  "after_delay D delay h = (if 0 < delay then dc_sleep D delay h else h)"

definition run_native ::
    "'h dac \<Rightarrow> rat \<Rightarrow> unit result \<Rightarrow> spi list \<Rightarrow> (string \<times> string) list \<Rightarrow> bool \<Rightarrow> ('s \<Rightarrow> 'c result)
      \<Rightarrow> ('c \<Rightarrow> 'r result) \<Rightarrow> 's \<Rightarrow> registry \<Rightarrow> 'h \<Rightarrow> ('r result \<times> 'h) option" where
  "run_native D delay stop spis ports restore compile acquire schedule reg h0 =
     (let h = after_delay D delay h0 in
      case bind_result stop (\<lambda>_. compile schedule) of
        Inl e \<Rightarrow> Some (Inl e, h)
      | Inr compiled \<Rightarrow>
         (case (if restore then map_result (\<lambda>sp. get_current_biases D sp h) spis else Inr (map (\<lambda>_. []) spis)) of
            Inl e \<Rightarrow> Some (Inl e, h)
          | Inr initial \<Rightarrow>
             (case extract_bias ports reg of
                Inl e \<Rightarrow> Some (Inl e, h)
              | Inr bias \<Rightarrow>
                 then_run (if bias = [] then Some (Inr (), h) else ramp_racks D (map (\<lambda>sp. (sp, bias)) spis) h) (\<lambda>h'.
                   case acquire compiled of
                     Inl e \<Rightarrow> Some (Inl e, h')
                   | Inr results \<Rightarrow>
                       then_run (reset_racks D restore (zip spis initial) h') (\<lambda>h''. Some (Inr results, h''))))))"

section \<open>Laws\<close>

text \<open>
  What the modules promise: a module is ramping as long as its current is not at its goal, a pause
  of \<open>s\<close> seconds brings the current nearer by \<open>rate * s\<close> or to the goal, a current in range becomes the
  goal of its own module only, and enabling or disabling ramps moves nothing.
\<close>

definition dac_law :: "'h dac \<Rightarrow> ('h \<Rightarrow> string \<Rightarrow> rat) \<Rightarrow> ('h \<Rightarrow> string \<Rightarrow> rat) \<Rightarrow> rat \<Rightarrow> bool" where
  "dac_law D cur goal rate \<longleftrightarrow> 0 < rate \<and>
     (\<forall>h c. dc_current D h c = Inr (cur h c)) \<and>
     (\<forall>h c. dc_is_ramping D h c \<longleftrightarrow> cur h c \<noteq> goal h c) \<and>
     (\<forall>h c s. 0 < s \<longrightarrow> goal (dc_sleep D s h) c = goal h c \<and>
        \<bar>cur (dc_sleep D s h) c - goal h c\<bar> \<le> max 0 (\<bar>cur h c - goal h c\<bar> - rate * s)) \<and>
     (\<forall>h c t. \<bar>t\<bar> \<le> 31 / 10 ^ 4 \<longrightarrow> (\<exists>h'. dc_set D c t h = (Inr (), h') \<and> goal h' c = t \<and>
        (\<forall>d. d \<noteq> c \<longrightarrow> goal h' d = goal h d \<and> cur h' d = cur h d))) \<and>
     (\<forall>h c b d. goal (dc_ramping_enabled D c b h) d = goal h d \<and> cur (dc_ramping_enabled D c b h) d = cur h d)"

end
