(* ===== verification/Spi_Properties.thy ===== *)
theory Spi_Properties imports Spi_Dac begin

text \<open>
  Ramps end, at the currents asked for, and an executor that restores currents leaves every coupler
  as it found it.
\<close>

section \<open>Waiting\<close>

text \<open>The distance of a current to its goal, and currents that have nearly arrived.\<close>

definition near :: "('h \<Rightarrow> string \<Rightarrow> rat) \<Rightarrow> ('h \<Rightarrow> string \<Rightarrow> rat) \<Rightarrow> 'h \<Rightarrow> bool" where
  "near cur goal h \<longleftrightarrow> (\<forall>c. \<bar>cur h c - goal h c\<bar> < 5 / 10 ^ 6)"

text \<open>Time passes: a goal stays and the current does not move away from it; for one coupler, for all.\<close>

definition passed_at :: "('h \<Rightarrow> string \<Rightarrow> rat) \<Rightarrow> ('h \<Rightarrow> string \<Rightarrow> rat) \<Rightarrow> 'h \<Rightarrow> 'h \<Rightarrow> string \<Rightarrow> bool" where
  "passed_at cur goal h h' c \<longleftrightarrow> goal h' c = goal h c \<and> \<bar>cur h' c - goal h c\<bar> \<le> \<bar>cur h c - goal h c\<bar>"

abbreviation passed :: "('h \<Rightarrow> string \<Rightarrow> rat) \<Rightarrow> ('h \<Rightarrow> string \<Rightarrow> rat) \<Rightarrow> 'h \<Rightarrow> 'h \<Rightarrow> bool" where
  "passed cur goal h h' \<equiv> \<forall>c. passed_at cur goal h h' c"

lemma passed_refl [simp]: "passed_at cur goal h h c"
  by (simp add: passed_at_def)

lemma passed_at_trans: "passed_at cur goal h h' c \<Longrightarrow> passed_at cur goal h' h'' c \<Longrightarrow> passed_at cur goal h h'' c"
  by (auto simp: passed_at_def)

lemma passed_trans: "passed cur goal h h' \<Longrightarrow> passed cur goal h' h'' \<Longrightarrow> passed cur goal h h''"
  by (blast intro: passed_at_trans)

lemma dac_facts:
  assumes "dac_law D cur goal rate"
  shows "dc_current D h c = Inr (cur h c)" "dc_is_ramping D h c \<longleftrightarrow> cur h c \<noteq> goal h c" "0 < rate"
    "0 < s \<Longrightarrow> goal (dc_sleep D s h) c = goal h c"
    "0 < s \<Longrightarrow> \<bar>cur (dc_sleep D s h) c - goal h c\<bar> \<le> max 0 (\<bar>cur h c - goal h c\<bar> - rate * s)"
  using assms by (simp_all add: dac_law_def)

lemma passed_sleep:
  assumes "dac_law D cur goal rate" and "0 < s"
  shows "passed cur goal h (dc_sleep D s h)"
  unfolding passed_at_def
proof (intro allI conjI)
  fix c
  show "goal (dc_sleep D s h) c = goal h c" using dac_facts [OF assms(1)] assms(2) by simp
  have "0 < rate * s" using dac_facts(3) [OF assms(1)] assms(2) by simp
  then show "\<bar>cur (dc_sleep D s h) c - goal h c\<bar> \<le> \<bar>cur h c - goal h c\<bar>"
    using dac_facts(5) [OF assms, of h c] by (simp add: max_def split: if_splits)
qed

lemma one_pause: "x \<le> of_nat (Suc n) * r \<Longrightarrow> 0 < r \<Longrightarrow> max 0 (x - r) \<le> of_nat n * (r::rat)"
  by (simp add: distrib_right)

text \<open>Both loops, by the number of pauses that the distance still takes.\<close>

lemma wait_ramp_ends:
  assumes law: "dac_law D cur goal rate" and "goal h c = t" and "\<bar>cur h c - t\<bar> \<le> of_nat n * (rate / 2)"
  shows "\<exists>h'. wait_ramp D c t h = Some (Inr (), h') \<and> passed cur goal h h' \<and> \<bar>cur h' c - t\<bar> < 5 / 10 ^ 6"
  using assms(2,3)
proof (induction n arbitrary: h)
  case 0
  then have "cur h c = t" by simp
  then have "wait_ramp D c t h = Some (Inr (), h)"
    using 0 by (subst wait_ramp.simps) (simp add: dac_facts(2) [OF law])
  with \<open>cur h c = t\<close> show ?case by (intro exI [of _ h]) simp
next
  case (Suc n)
  show ?case
  proof (cases "cur h c = goal h c \<or> \<bar>cur h c * 1000 - t * 1000\<bar> < 5 / 1000")
    case True
    have "cur h c * 1000 - t * 1000 = (cur h c - t) * 1000" by (rule left_diff_distrib [symmetric])
    then have "\<bar>cur h c * 1000 - t * 1000\<bar> = \<bar>cur h c - t\<bar> * 1000" by (simp only: abs_mult abs_numeral)
    with True Suc.prems(1) have "\<bar>cur h c - t\<bar> < 5 / 10 ^ 6" by auto
    moreover have "wait_ramp D c t h = Some (Inr (), h)"
      using True by (subst wait_ramp.simps) (auto simp: dac_facts(1,2) [OF law])
    ultimately show ?thesis by (intro exI [of _ h]) simp
  next
    case False
    let ?h = "dc_sleep D (1 / 2) h"
    have step: "wait_ramp D c t h = wait_ramp D c t ?h"
      using False by (subst wait_ramp.simps) (simp add: dac_facts(1,2) [OF law])
    have p: "passed cur goal h ?h" by (rule passed_sleep [OF law]) simp
    have "\<bar>cur ?h c - t\<bar> \<le> max 0 (\<bar>cur h c - t\<bar> - rate * (1 / 2))"
      using dac_facts(5) [OF law, of "1 / 2" h c] Suc.prems(1) by simp
    also have "\<dots> \<le> of_nat n * (rate / 2)"
      using one_pause [OF Suc.prems(2)] dac_facts(3) [OF law] by simp
    finally have "\<bar>cur ?h c - t\<bar> \<le> of_nat n * (rate / 2)" .
    moreover have "goal ?h c = t" using p Suc.prems(1) by (simp add: passed_at_def)
    ultimately obtain h' where "wait_ramp D c t ?h = Some (Inr (), h')" "passed cur goal ?h h'" "\<bar>cur h' c - t\<bar> < 5 / 10 ^ 6"
      using Suc.IH by blast
    with step passed_trans [OF p] show ?thesis by auto
  qed
qed

lemma wait_idle_ends:
  assumes law: "dac_law D cur goal rate" and "\<bar>cur h c - goal h c\<bar> \<le> of_nat n * (rate / 20)"
  shows "\<exists>h'. wait_idle D c h = Some h' \<and> passed cur goal h h' \<and> cur h' c = goal h c"
  using assms(2)
proof (induction n arbitrary: h)
  case 0
  then have "wait_idle D c h = Some h" by (subst wait_idle.simps) (simp add: dac_facts(2) [OF law])
  with 0 show ?case by (intro exI [of _ h]) simp
next
  case (Suc n)
  show ?case
  proof (cases "cur h c = goal h c")
    case True
    then have "wait_idle D c h = Some h" by (subst wait_idle.simps) (simp add: dac_facts(2) [OF law])
    with True show ?thesis by (intro exI [of _ h]) simp
  next
    case False
    let ?h = "dc_sleep D (1 / 20) h"
    have step: "wait_idle D c h = wait_idle D c ?h"
      using False by (subst wait_idle.simps) (simp add: dac_facts(2) [OF law])
    have p: "passed cur goal h ?h" by (rule passed_sleep [OF law]) simp
    have "\<bar>cur ?h c - goal ?h c\<bar> \<le> max 0 (\<bar>cur h c - goal h c\<bar> - rate * (1 / 20))"
      using dac_facts(5) [OF law, of "1 / 20" h c] p by (simp add: passed_at_def)
    also have "\<dots> \<le> of_nat n * (rate / 20)"
      using one_pause [OF Suc.prems] dac_facts(3) [OF law] by simp
    finally obtain h' where "wait_idle D c ?h = Some h'" "passed cur goal ?h h'" "cur h' c = goal ?h c"
      using Suc.IH by blast
    moreover have "goal ?h c = goal h c" using p by (simp add: passed_at_def)
    ultimately show ?thesis using step passed_trans [OF p] by auto
  qed
qed

lemma enough_pauses: "0 < (r::rat) \<Longrightarrow> \<exists>n. x \<le> of_nat n * r"
  using ex_less_of_nat_mult [of r x] by (blast intro: less_imp_le)

section \<open>Ramping\<close>

lemma near_passed: "near cur goal h \<Longrightarrow> passed_at cur goal h h' c \<Longrightarrow> \<bar>cur h' c - goal h' c\<bar> < 5 / 10 ^ 6"
  unfolding near_def passed_at_def by (metis le_less_trans)

lemma dac_set_law:
  assumes "dac_law D cur goal rate" and "\<bar>t\<bar> \<le> 31 / 10 ^ 4"
  obtains h' where "dc_set D c t h = (Inr (), h')" "goal h' c = t" "\<And>d. d \<noteq> c \<Longrightarrow> passed_at cur goal h h' d"
proof -
  have "\<exists>h'. dc_set D c t h = (Inr (), h') \<and> goal h' c = t \<and>
      (\<forall>d. d \<noteq> c \<longrightarrow> goal h' d = goal h d \<and> cur h' d = cur h d)"
    using assms unfolding dac_law_def by blast
  then show thesis by (auto simp: passed_at_def intro: that)
qed

text \<open>Currents that the modules accept.\<close>

definition in_range :: "(string \<times> rat) list \<Rightarrow> bool" where
  "in_range cts \<longleftrightarrow> (\<forall>ct\<in>set cts. \<bar>snd ct\<bar> \<le> 31 / 10 ^ 4)"

lemma in_range_simps [simp]: "in_range []" "in_range (ct # cts) \<longleftrightarrow> \<bar>snd ct\<bar> \<le> 31 / 10 ^ 4 \<and> in_range cts"
  by (simp_all add: in_range_def)

text \<open>One coupler of a rack gets its target, the others only see time pass.\<close>

lemma ramp_one:
  assumes law: "dac_law D cur goal rate" and near: "near cur goal h" and t: "\<bar>t\<bar> \<le> 31 / 10 ^ 4"
  obtains h' where "ramp_each D cs ((c, t) # cts) h = ramp_each D cs cts h'" and "near cur goal h'"
    and "\<And>d. d \<noteq> c \<or> c \<notin> set cs \<Longrightarrow> passed_at cur goal h h' d" and "c \<in> set cs \<Longrightarrow> \<bar>goal h' c - t\<bar> < 5 / 10 ^ 6"
proof (cases "c \<in> set cs \<and> cur h c \<noteq> t")
  case False
  have "\<bar>cur h c - goal h c\<bar> < 5 / 10 ^ 6" using near by (simp only: near_def)
  then have "\<bar>goal h c - t\<bar> < 5 / 10 ^ 6" if "c \<in> set cs"
    using that False by (simp only: abs_minus_commute simp_thms)
  moreover have "ramp_each D cs ((c, t) # cts) h = ramp_each D cs cts h"
    using False by (auto simp: dac_facts(1) [OF law])
  ultimately show thesis using near that by simp
next
  case True
  obtain h1 where set: "dc_set D c t h = (Inr (), h1)" "goal h1 c = t" "\<And>d. d \<noteq> c \<Longrightarrow> passed_at cur goal h h1 d"
    by (rule dac_set_law [OF law t]) blast
  obtain n where "\<bar>cur h1 c - t\<bar> \<le> of_nat n * (rate / 2)"
    using enough_pauses [of "rate / 2"] dac_facts(3) [OF law] by auto
  then obtain h2 where w: "wait_ramp D c t h1 = Some (Inr (), h2)" "passed cur goal h1 h2" "\<bar>cur h2 c - t\<bar> < 5 / 10 ^ 6"
    using wait_ramp_ends [OF law set(2)] by blast
  have others: "passed_at cur goal h h2 d" if "d \<noteq> c" for d
    using set(3) [OF that] w(2) by (blast intro: passed_at_trans)
  have goal: "goal h2 c = t" using w(2) set(2) by (simp add: passed_at_def)
  have "near cur goal h2"
    unfolding near_def
  proof
    fix d
    show "\<bar>cur h2 d - goal h2 d\<bar> < 5 / 10 ^ 6"
      using w(3) goal near_passed [OF near others] by (cases "d = c") auto
  qed
  moreover have "ramp_each D cs ((c, t) # cts) h = ramp_each D cs cts h2"
    using True by (simp add: dac_facts(1) [OF law] set(1) w(1))
  ultimately show thesis using others goal True that by simp
qed

lemma ramp_each_ends:
  assumes law: "dac_law D cur goal rate" and "near cur goal h" and "in_range cts"
  shows "\<exists>h'. ramp_each D cs cts h = Some (Inr (), h') \<and> near cur goal h' \<and>
    (\<forall>d. d \<notin> set cs \<or> d \<notin> fst ` set cts \<longrightarrow> passed_at cur goal h h' d) \<and>
    (distinct (map fst cts) \<longrightarrow> (\<forall>c t. (c, t) \<in> set cts \<longrightarrow> c \<in> set cs \<longrightarrow> \<bar>goal h' c - t\<bar> < 5 / 10 ^ 6))"
  using assms(2,3)
proof (induction cts arbitrary: h)
  case Nil
  then show ?case by (intro exI [of _ h]) simp
next
  case (Cons ct cts)
  obtain c t where ct: "ct = (c, t)" by (cases ct)
  have "\<bar>t\<bar> \<le> 31 / 10 ^ 4" using Cons.prems(2) by (simp only: ct in_range_simps snd_conv)
  with Cons.prems(1) obtain h1 where 1: "ramp_each D cs ((c, t) # cts) h = ramp_each D cs cts h1" "near cur goal h1"
    "\<And>d. d \<noteq> c \<or> c \<notin> set cs \<Longrightarrow> passed_at cur goal h h1 d" "c \<in> set cs \<Longrightarrow> \<bar>goal h1 c - t\<bar> < 5 / 10 ^ 6"
    by (rule ramp_one [OF law]) blast
  have "in_range cts" using Cons.prems(2) by (simp only: in_range_simps)
  then obtain h2 where 2: "ramp_each D cs cts h1 = Some (Inr (), h2)" "near cur goal h2"
    "\<And>d. d \<notin> set cs \<or> d \<notin> fst ` set cts \<Longrightarrow> passed_at cur goal h1 h2 d"
    "distinct (map fst cts) \<Longrightarrow> \<forall>c t. (c, t) \<in> set cts \<longrightarrow> c \<in> set cs \<longrightarrow> \<bar>goal h2 c - t\<bar> < 5 / 10 ^ 6"
    using Cons.IH [OF 1(2)] by blast
  have "passed_at cur goal h h2 d" if "d \<notin> set cs \<or> d \<notin> fst ` set ((c, t) # cts)" for d
    using that 1(3) [of d] 2(3) [of d] by (auto intro: passed_at_trans)
  moreover have "\<bar>goal h2 d - u\<bar> < 5 / 10 ^ 6"
    if "distinct (c # map fst cts)" "(d, u) \<in> set ((c, t) # cts)" "d \<in> set cs" for d u
  proof (cases "(d, u) \<in> set cts")
    case True
    then show ?thesis using that(1,3) 2(4) by simp
  next
    case False
    with that(2) have "d = c" "u = t" by auto
    moreover have "passed_at cur goal h1 h2 c" using 2(3) [of c] that(1) by simp
    ultimately show ?thesis using 1(4) that(3) by (simp add: passed_at_def)
  qed
  ultimately show ?case using 1(1) 2(1,2) unfolding ct by (intro exI [of _ h2]) simp
qed

section \<open>Closing a rack\<close>

lemma passed_enabled:
  assumes "dac_law D cur goal rate"
  shows "passed cur goal h (dc_ramping_enabled D c b h)"
  using assms by (simp add: dac_law_def passed_at_def)

text \<open>A coupler whose current is at its goal stays there.\<close>

lemma stays_arrived:
  assumes "passed_at cur goal h h' c" and "passed_at cur goal h' h'' c" and "cur h' c = goal h c"
  shows "cur h'' c = goal h c" "goal h'' c = goal h c"
  using assms by (simp_all add: passed_at_def)

lemma close_each_ends:
  assumes law: "dac_law D cur goal rate"
  shows "\<exists>h'. close_each D cs h = Some h' \<and> passed cur goal h h' \<and> (\<forall>c\<in>set cs. cur h' c = goal h c)"
proof (induction cs arbitrary: h)
  case Nil
  show ?case by (intro exI [of _ h]) simp
next
  case (Cons c cs)
  obtain n where "\<bar>cur h c - goal h c\<bar> \<le> of_nat n * (rate / 20)"
    using enough_pauses [of "rate / 20"] dac_facts(3) [OF law] by auto
  then obtain h1 where 1: "wait_idle D c h = Some h1" "passed cur goal h h1" "cur h1 c = goal h c"
    using wait_idle_ends [OF law] by blast
  let ?h = "dc_ramping_enabled D c False h1"
  have p: "passed cur goal h ?h" by (rule passed_trans [OF 1(2) passed_enabled [OF law]])
  note p' = passed_enabled [OF law, of h1 c False]
  have c: "cur ?h c = goal h c" by (rule stays_arrived [OF spec [OF 1(2)] spec [OF p'] 1(3)])
  obtain h2 where 2: "close_each D cs ?h = Some h2" "passed cur goal ?h h2" "\<forall>c\<in>set cs. cur h2 c = goal ?h c"
    using Cons.IH by blast
  have "passed cur goal h h2" by (rule passed_trans [OF p 2(2)])
  moreover have "goal ?h d = goal h d" for d using p by (simp add: passed_at_def)
  moreover have "cur h2 c = goal h c" by (rule stays_arrived [OF spec [OF p] spec [OF 2(2)] c])
  ultimately show ?case using 1(1) 2(1,3) by (intro exI [of _ h2]) simp
qed

lemma spi_close_ends:
  assumes law: "dac_law D cur goal rate"
  obtains h' where "spi_close D sp h = Some h'" "passed cur goal h h'"
    "\<And>c. \<not> sp_is_dummy sp \<Longrightarrow> c \<in> set (sp_couplers sp) \<Longrightarrow> cur h' c = goal h c"
proof -
  let ?cs = "if sp_is_dummy sp then [] else sp_couplers sp"
  obtain h1 where 1: "close_each D ?cs h = Some h1" "passed cur goal h h1" "\<forall>c\<in>set ?cs. cur h1 c = goal h c"
    using close_each_ends [OF law] by blast
  let ?h = "dc_sleep D (1 / 20) h1"
  have p: "passed cur goal h1 ?h" by (rule passed_sleep [OF law]) simp
  have "cur ?h c = goal h c" if "\<not> sp_is_dummy sp" "c \<in> set (sp_couplers sp)" for c
    by (rule stays_arrived [OF spec [OF 1(2)] spec [OF p]]) (use 1(3) that in simp)
  moreover have "spi_close D sp h = Some ?h" using 1(1) by (simp add: spi_close_def split: if_splits)
  ultimately show thesis using passed_trans [OF 1(2) p] that by blast
qed

section \<open>Ramps reach their targets\<close>

text \<open>Modules that move their currents at 40 microamperes a second.\<close>

definition approach :: "rat \<Rightarrow> rat \<Rightarrow> rat \<Rightarrow> rat" where
  "approach d x g = (if \<bar>x - g\<bar> \<le> d then g else if x < g then x + d else x - d)"

definition bench :: "((string \<Rightarrow> rat) \<times> (string \<Rightarrow> rat)) dac" where
  "bench = \<lparr>dc_current = (\<lambda>h c. Inr (fst h c)),
     dc_set = (\<lambda>c t h. if \<bar>t\<bar> \<le> 31 / 10 ^ 4 then (Inr (), (fst h, (snd h)(c := t))) else (Inl ValueError, h)),
     dc_is_ramping = (\<lambda>h c. fst h c \<noteq> snd h c), dc_ramping_enabled = (\<lambda>c b h. h),
     dc_sleep = (\<lambda>s h. (\<lambda>c. approach (4 / 10 ^ 5 * s) (fst h c) (snd h c), snd h))\<rparr>"

lemma approach_law: "0 \<le> d \<Longrightarrow> \<bar>approach d x g - g\<bar> \<le> max 0 (\<bar>x - g\<bar> - d)"
  by (simp add: approach_def max_def abs_if split: if_splits)

lemma bench_law: "dac_law bench fst snd (4 / 10 ^ 5)"
  unfolding dac_law_def by (simp add: bench_def approach_law)

text \<open>
  C22. Whatever the modules of a rack do before, ramping to currents in range returns, with the current
  of every coupler of the rack that was asked for within 10 microamperes of what was asked, and the
  other couplers no further from their goals than before.
\<close>
theorem ramp_reaches:
  assumes "dac_law D cur goal rate" and "near cur goal h" and "\<not> sp_is_dummy sp"
    and "distinct (map fst targets)" and "in_range targets"
  shows "\<exists>h'. ramp_to_target_currents D sp targets h = Some (Inr (), h') \<and> near cur goal h' \<and>
    (\<forall>c t. (c, t) \<in> set targets \<and> c \<in> set (sp_couplers sp) \<longrightarrow> \<bar>cur h' c - t\<bar> < 1 / 10 ^ 5) \<and>
    (\<forall>d. d \<notin> set (sp_couplers sp) \<or> d \<notin> fst ` set targets \<longrightarrow> passed_at cur goal h h' d)"
proof -
  obtain h' where h': "ramp_each D (sp_couplers sp) targets h = Some (Inr (), h')" "near cur goal h'"
    "\<forall>d. d \<notin> set (sp_couplers sp) \<or> d \<notin> fst ` set targets \<longrightarrow> passed_at cur goal h h' d"
    "\<forall>c t. (c, t) \<in> set targets \<longrightarrow> c \<in> set (sp_couplers sp) \<longrightarrow> \<bar>goal h' c - t\<bar> < 5 / 10 ^ 6"
    using ramp_each_ends [where cs = "sp_couplers sp", OF assms(1,2,5)] assms(4) by blast
  have "\<bar>cur h' c - t\<bar> < 1 / 10 ^ 5" if "(c, t) \<in> set targets" "c \<in> set (sp_couplers sp)" for c t
  proof -
    have "\<bar>cur h' c - goal h' c\<bar> < 5 / 10 ^ 6" using h'(2) by (simp only: near_def)
    moreover have "\<bar>goal h' c - t\<bar> < 5 / 10 ^ 6" using h'(4) that by blast
    ultimately show ?thesis by (simp add: abs_if split: if_splits)
  qed
  with h' assms(3) show ?thesis by (auto simp: ramp_to_target_currents_def)
qed

definition sample_rack :: spi where
  "sample_rack = \<lparr>sp_is_dummy = False, sp_couplers = [''u0'', ''u1''], sp_parking_current = 0\<rparr>"

abbreviation at_zero :: "(string \<Rightarrow> rat) \<times> (string \<Rightarrow> rat)" where
  "at_zero \<equiv> (\<lambda>_. 0, \<lambda>_. 0)"

lemma near_at_zero: "near fst snd at_zero"
  by (simp add: near_def)

theorem ramp_reaches_witness:
  "\<exists>h'. ramp_to_target_currents bench sample_rack [(''u0'', 1 / 1000), (''u7'', - 1 / 1000)] at_zero = Some (Inr (), h') \<and>
     \<bar>fst h' ''u0'' - 1 / 1000\<bar> < 1 / 10 ^ 5"
proof -
  let ?m = "[(''u0'', 1 / 1000), (''u7'', - 1 / 1000)] :: (string \<times> rat) list"
  have "\<not> sp_is_dummy sample_rack" "distinct (map fst ?m)" "in_range ?m"
    by (simp_all add: sample_rack_def)
  from ramp_reaches [OF bench_law near_at_zero this] obtain h' where
    "ramp_to_target_currents bench sample_rack ?m at_zero = Some (Inr (), h')"
    "\<forall>c t. (c, t) \<in> set ?m \<and> c \<in> set (sp_couplers sample_rack) \<longrightarrow> \<bar>fst h' c - t\<bar> < 1 / 10 ^ 5" by blast
  moreover have "(''u0'', 1 / 1000) \<in> set ?m \<and> ''u0'' \<in> set (sp_couplers sample_rack)" by (simp add: sample_rack_def)
  ultimately show ?thesis by blast
qed

section \<open>An executor restores currents\<close>

lemma near_all_passed: "near cur goal h \<Longrightarrow> passed cur goal h h' \<Longrightarrow> near cur goal h'"
  unfolding near_def [of _ _ h'] by (blast intro: near_passed)

lemma ramp_racks_ends:
  assumes law: "dac_law D cur goal rate" and "near cur goal h" and t: "in_range bias"
  shows "\<exists>h'. ramp_racks D (map (\<lambda>sp. (sp, bias)) spis) h = Some (Inr (), h') \<and> near cur goal h'"
  using assms(2)
proof (induction spis arbitrary: h)
  case (Cons sp spis)
  obtain h1 where h1: "ramp_to_target_currents D sp bias h = Some (Inr (), h1)" "near cur goal h1"
  proof (cases "sp_is_dummy sp")
    case True
    with Cons.prems show thesis by (intro that [of h]) (simp_all add: ramp_to_target_currents_def)
  next
    case False
    with ramp_each_ends [where cs = "sp_couplers sp", OF law Cons.prems t] show thesis
      by (auto simp: ramp_to_target_currents_def intro: that)
  qed
  with Cons.IH [OF h1(2)] show ?case by (simp add: then_run_def)
qed simp

text \<open>What a rack is restored to: the currents that were read from it.\<close>

definition read_from :: "spi \<times> (string \<times> rat) list \<Rightarrow> bool" where
  "read_from si \<longleftrightarrow> map fst (snd si) = (if sp_is_dummy (fst si) then [] else sp_couplers (fst si)) \<and>
     distinct (map fst (snd si)) \<and> in_range (snd si)"

lemma restored_rack:
  assumes law: "dac_law D cur goal rate" and near: "near cur goal h" and r: "read_from (sp, initial)"
  obtains h1 h2 where "ramp_to_target_currents D sp initial h = Some (Inr (), h1)" "spi_close D sp h1 = Some h2"
    "near cur goal h2" "\<And>c. c \<notin> fst ` set initial \<Longrightarrow> passed_at cur goal h h2 c"
    "\<And>c t. (c, t) \<in> set initial \<Longrightarrow> cur h2 c = goal h2 c \<and> \<bar>goal h2 c - t\<bar> < 5 / 10 ^ 6"
proof -
  have fst: "map fst initial = (if sp_is_dummy sp then [] else sp_couplers sp)" "distinct (map fst initial)"
    and t: "in_range initial"
    using r by (auto simp: read_from_def)
  obtain h1 where h1: "ramp_to_target_currents D sp initial h = Some (Inr (), h1)" "near cur goal h1"
    "\<forall>c. c \<notin> fst ` set initial \<longrightarrow> passed_at cur goal h h1 c"
    "\<forall>c t. (c, t) \<in> set initial \<longrightarrow> \<bar>goal h1 c - t\<bar> < 5 / 10 ^ 6"
  proof (cases "sp_is_dummy sp")
    case True
    with near fst show thesis by (intro that [of h]) (simp_all add: ramp_to_target_currents_def)
  next
    case False
    then have "set (sp_couplers sp) = fst ` set initial" using fst(1) by (simp flip: set_map)
    moreover have "c \<in> fst ` set initial" if "(c, t) \<in> set initial" for c t using that by force
    ultimately show thesis
      using ramp_each_ends [where cs = "sp_couplers sp", OF law near t] fst(2) False
      by (auto simp: ramp_to_target_currents_def intro: that)
  qed
  obtain h2 where h2: "spi_close D sp h1 = Some h2" "passed cur goal h1 h2"
    "\<And>c. \<not> sp_is_dummy sp \<Longrightarrow> c \<in> set (sp_couplers sp) \<Longrightarrow> cur h2 c = goal h1 c"
    by (rule spi_close_ends [OF law]) blast
  have same: "goal h2 c = goal h1 c" for c using h2(2) by (simp add: passed_at_def)
  have "cur h2 c = goal h1 c" if "(c, t) \<in> set initial" for c t
  proof (rule h2(3))
    have "c \<in> set (map fst initial)" using that by force
    then show "\<not> sp_is_dummy sp" "c \<in> set (sp_couplers sp)" unfolding fst(1) by (simp_all split: if_splits)
  qed
  moreover have "passed_at cur goal h h2 c" if "c \<notin> fst ` set initial" for c
    using h1(3) h2(2) that by (blast intro: passed_at_trans)
  ultimately show thesis
    using that [OF h1(1) h2(1) near_all_passed [OF h1(2) h2(2)]] h1(4) by (simp add: same)
qed

lemma reset_racks_ends:
  assumes law: "dac_law D cur goal rate" and "near cur goal h" and "\<forall>si\<in>set sis. read_from si"
    and "distinct (map fst (concat (map snd sis)))"
  shows "\<exists>h'. reset_racks D True sis h = Some (Inr (), h') \<and>
    (\<forall>c. c \<notin> fst ` set (concat (map snd sis)) \<longrightarrow> passed_at cur goal h h' c) \<and>
    (\<forall>ct\<in>set (concat (map snd sis)). \<bar>cur h' (fst ct) - snd ct\<bar> < 5 / 10 ^ 6)"
  using assms(2-)
proof (induction sis arbitrary: h)
  case Nil
  show ?case by (intro exI [of _ h]) simp
next
  case (Cons si sis)
  obtain sp initial where si: "si = (sp, initial)" by (cases si)
  have "read_from (sp, initial)" using Cons.prems(2) by (simp add: si)
  with Cons.prems(1) obtain h1 h2 where 1: "ramp_to_target_currents D sp initial h = Some (Inr (), h1)"
    "spi_close D sp h1 = Some h2" "near cur goal h2" "\<And>c. c \<notin> fst ` set initial \<Longrightarrow> passed_at cur goal h h2 c"
    "\<And>c t. (c, t) \<in> set initial \<Longrightarrow> cur h2 c = goal h2 c \<and> \<bar>goal h2 c - t\<bar> < 5 / 10 ^ 6"
    by (rule restored_rack [OF law]) blast
  let ?rest = "concat (map snd sis)"
  have d: "distinct (map fst ?rest)" "fst ` set initial \<inter> fst ` set ?rest = {}"
    using Cons.prems(3) by (auto simp: si)
  then obtain h3 where 3: "reset_racks D True sis h2 = Some (Inr (), h3)"
    "\<forall>c. c \<notin> fst ` set ?rest \<longrightarrow> passed_at cur goal h2 h3 c"
    "\<forall>ct\<in>set ?rest. \<bar>cur h3 (fst ct) - snd ct\<bar> < 5 / 10 ^ 6"
    using Cons.IH [OF 1(3)] Cons.prems(2) by auto
  have "passed_at cur goal h h3 c" if "c \<notin> fst ` set (concat (map snd (si # sis)))" for c
    using that by (intro passed_at_trans [OF 1(4) 3(2) [rule_format]]) (simp_all add: si image_Un)
  moreover have "\<bar>cur h3 (fst ct) - snd ct\<bar> < 5 / 10 ^ 6" if "ct \<in> set initial" for ct
  proof -
    have "fst ct \<notin> fst ` set ?rest" using d(2) that by blast
    then have p: "passed_at cur goal h2 h3 (fst ct)" using 3(2) by blast
    have c: "cur h2 (fst ct) = goal h2 (fst ct)" "\<bar>goal h2 (fst ct) - snd ct\<bar> < 5 / 10 ^ 6"
      using 1(5) [of "fst ct" "snd ct"] that by simp_all
    then show ?thesis using stays_arrived(1) [OF passed_refl p] by simp
  qed
  ultimately show ?case
    using 1(1,2) 3(1,3) by (intro exI [of _ h3]) (auto simp: si then_run_def)
qed

text \<open>What \<open>get_current_biases\<close> reads.\<close>

lemma current_biases:
  assumes "dac_law D cur goal rate"
  shows "get_current_biases D sp h = Inr (if sp_is_dummy sp then [] else map (\<lambda>c. (c, cur h c)) (sp_couplers sp))"
proof -
  have "map_result (\<lambda>c. bind_result (dc_current D h c) (\<lambda>x. Inr (c, x))) cs = Inr (map (\<lambda>c. (c, cur h c)) cs)" for cs
    by (induction cs) (simp_all add: dac_facts(1) [OF assms])
  then show ?thesis by (simp add: get_current_biases_def)
qed

text \<open>The couplers whose currents an executor controls.\<close>

definition driven :: "spi list \<Rightarrow> string list" where
  "driven spis = concat (map (\<lambda>sp. if sp_is_dummy sp then [] else sp_couplers sp) spis)"

lemma driven_couplers:
  assumes "sp \<in> set spis" and "\<not> sp_is_dummy sp"
  shows "set (sp_couplers sp) \<subseteq> set (driven spis)" "distinct (driven spis) \<Longrightarrow> distinct (sp_couplers sp)"
proof -
  obtain xs ys where "spis = xs @ sp # ys" using split_list [OF assms(1)] by blast
  then have d: "driven spis = driven xs @ sp_couplers sp @ driven ys" using assms(2) by (simp add: driven_def)
  show "set (sp_couplers sp) \<subseteq> set (driven spis)" "distinct (driven spis) \<Longrightarrow> distinct (sp_couplers sp)"
    by (auto simp: d)
qed

lemma current_biases_all:
  assumes "dac_law D cur goal rate"
  obtains initial where "map_result (\<lambda>sp. get_current_biases D sp h) spis = Inr initial" "length initial = length spis"
    "concat (map snd (zip spis initial)) = map (\<lambda>c. (c, cur h c)) (driven spis)"
    "distinct (driven spis) \<Longrightarrow> \<forall>c\<in>set (driven spis). \<bar>cur h c\<bar> \<le> 31 / 10 ^ 4 \<Longrightarrow> \<forall>si\<in>set (zip spis initial). read_from si"
proof
  let ?i = "\<lambda>sp. if sp_is_dummy sp then [] else map (\<lambda>c. (c, cur h c)) (sp_couplers sp)"
  show "map_result (\<lambda>sp. get_current_biases D sp h) spis = Inr (map ?i spis)"
    by (induction spis) (simp_all add: current_biases [OF assms])
  show "length (map ?i spis) = length spis" by simp
  show "concat (map snd (zip spis (map ?i spis))) = map (\<lambda>c. (c, cur h c)) (driven spis)"
    by (induction spis) (simp_all add: driven_def)
  show "\<forall>si\<in>set (zip spis (map ?i spis)). read_from si"
    if "distinct (driven spis)" "\<forall>c\<in>set (driven spis). \<bar>cur h c\<bar> \<le> 31 / 10 ^ 4"
  proof -
    have "\<forall>sp\<in>set spis. read_from (sp, ?i sp)"
      using that driven_couplers [of _ spis] by (fastforce simp: read_from_def in_range_def comp_def)
    then show ?thesis unfolding zip_map2 zip_same_conv_map by simp
  qed
qed

lemma arrived_after_delay:
  assumes "dac_law D cur goal rate" and "cur h c = goal h c"
  shows "cur (after_delay D delay h) c = cur h c"
proof (cases "0 < delay")
  case True
  then have "\<bar>cur (dc_sleep D delay h) c - goal h c\<bar> \<le> 0"
    using dac_facts [OF assms(1)] assms(2) passed_sleep [OF assms(1) True, of h]
    by (metis abs_zero diff_self passed_at_def)
  with True assms(2) show ?thesis by (simp add: after_delay_def)
qed (simp add: after_delay_def)

text \<open>
  C19. An experiment of an executor that restores currents returns the acquisitions, and leaves the
  current of every coupler within 5 microamperes of what it was when the experiment began, after the
  delay of the executor, whatever bias the experiment asked for. For a coupler whose current was at its
  goal, and when there is no delay, that is the current from before the call.
\<close>
theorem currents_restored:
  assumes "dac_law D cur goal rate" and "near cur goal h" and "distinct (driven spis)"
    and "\<forall>c\<in>set (driven spis). \<bar>cur (after_delay D delay h) c\<bar> \<le> 31 / 10 ^ 4"
    and "extract_bias ports reg = Inr bias" and "in_range bias"
    and "stop = Inr ()" and "compile schedule = Inr compiled" and "acquire compiled = Inr results"
  shows "\<exists>h'. run_native D delay stop spis ports True compile acquire schedule reg h = Some (Inr results, h') \<and>
    (\<forall>c\<in>set (driven spis). \<bar>cur h' c - cur (after_delay D delay h) c\<bar> < 5 / 10 ^ 6 \<and>
      (delay \<le> 0 \<or> cur h c = goal h c \<longrightarrow> \<bar>cur h' c - cur h c\<bar> < 5 / 10 ^ 6))"
proof -
  let ?h = "after_delay D delay h"
  have near: "near cur goal ?h"
    using assms(2) near_all_passed [OF assms(2) passed_sleep [OF assms(1)]] by (simp add: after_delay_def)
  obtain initial where i: "map_result (\<lambda>sp. get_current_biases D sp ?h) spis = Inr initial"
    "concat (map snd (zip spis initial)) = map (\<lambda>c. (c, cur ?h c)) (driven spis)"
    "\<forall>si\<in>set (zip spis initial). read_from si"
    by (rule current_biases_all [OF assms(1), where h = ?h and spis = spis]) (use assms(3,4) in blast)
  obtain h1 where h1: "(if bias = [] then Some (Inr (), ?h) else ramp_racks D (map (\<lambda>sp. (sp, bias)) spis) ?h) = Some (Inr (), h1)"
    "near cur goal h1"
    using ramp_racks_ends [OF assms(1) near assms(6), of spis] near by (cases "bias = []") auto
  have "distinct (map fst (concat (map snd (zip spis initial))))" using assms(3) by (simp add: i(2) comp_def)
  then obtain h2 where h2: "reset_racks D True (zip spis initial) h1 = Some (Inr (), h2)"
    "\<forall>ct\<in>set (concat (map snd (zip spis initial))). \<bar>cur h2 (fst ct) - snd ct\<bar> < 5 / 10 ^ 6"
    using reset_racks_ends [OF assms(1) h1(2) i(3)] by blast
  have "run_native D delay stop spis ports True compile acquire schedule reg h = Some (Inr results, h2)"
    by (simp only: run_native_def Let_def bind_result_simps assms(5,7,8,9) i(1) h1(1) h2(1) then_run_def sum.case
        option.case prod.case if_True)
  moreover have "\<forall>c\<in>set (driven spis). \<bar>cur h2 c - cur ?h c\<bar> < 5 / 10 ^ 6"
    using h2(2) unfolding i(2) by simp
  moreover have "cur ?h c = cur h c" if "delay \<le> 0 \<or> cur h c = goal h c" for c
    using that arrived_after_delay [OF assms(1), of h c delay] by (auto simp: after_delay_def)
  ultimately show ?thesis by (intro exI [of _ h2]) auto
qed

definition bias_registry :: registry where
  "bias_registry = \<lparr>rg_channels = [(''c'', (new_channel ''c'')\<lparr>ch_instructions :=
     [\<lparr>in_name = ''wacqt_cz'', in_t0 = 0, in_clock = ''c'', in_port = ''p'', in_duration = 0,
       in_kind = WacqtCZ [(''theta'', PNum (1 / 1000))], in_label = ''l'', in_position = 0\<rparr>]\<rparr>)], rg_drawn = 0\<rparr>"

theorem currents_restored_witness:
  "\<exists>h'. run_native bench 2 (Inr ()) [sample_rack] [(''p'', ''u0'')] True Inr Inr (7::nat) bias_registry at_zero = Some (Inr 7, h') \<and>
     \<bar>fst h' ''u0''\<bar> < 5 / 10 ^ 6"
proof -
  have d: "driven [sample_rack] = [''u0'', ''u1'']" by (simp add: driven_def sample_rack_def)
  have b: "extract_bias [(''p'', ''u0'')] bias_registry = Inr [(''u0'', 1 / 1000)]"
    by (simp add: extract_bias_def bias_registry_def add_bias_def dc_bias_def dict_get_def)
  have z: "after_delay bench 2 at_zero = at_zero" by (simp add: after_delay_def bench_def approach_def)
  from currents_restored [OF bench_law near_at_zero _ _ b, of "[sample_rack]" 2 "Inr ()" Inr 7 7 Inr "7::nat"]
  show ?thesis by (simp add: d z) blast
qed

end
