(* ===== verification/Device_Config.thy ===== *)
theory Device_Config imports Hardware_Map begin

text \<open>
  The configuration of a device, from \<^verbatim>\<open>app/libs/device_parameters/dtos.py\<close>: how \<open>BackendConfig\<close> and
  its \<open>_BackendDeviceConfig\<close> are completed when they are read, and the \<open>Device\<close> that is published.
  A TOML file is the value it holds.
\<close>

section \<open>Calibration in the configuration\<close>

text \<open>A value of a TOML record: a number or a text.\<close>

datatype scalar = Num rat | Txt string

text \<open>\<open>_BackendCalibrationConfig\<close>; the discriminators by kind, qubit and name.\<close>

type_synonym discriminators = "(string \<times> (string \<times> (string \<times> scalar) list) list) list"

record calibration_config =
  cc_units :: "(string \<times> (string \<times> string) list) list"
  cc_qubit :: "(string \<times> scalar) list list"
  cc_readout_resonator :: "(string \<times> scalar) list list"
  cc_discriminators :: discriminators
  cc_coupler :: "(string \<times> scalar) list list"

section \<open>The backend\<close>

record general_config =
  gc_name :: string
  gc_num_qubits :: int
  gc_num_couplers :: int
  gc_num_resonators :: int
  gc_dt :: rat
  gc_dtm :: rat
  gc_description :: string
  gc_is_active :: bool
  gc_characterized :: bool
  gc_open_pulse :: bool
  gc_simulator :: bool
  gc_version :: string
  gc_online_date :: string

record device_config =
  dv_qubit_ids :: "string list"
  dv_coupling_dict :: "(string \<times> (string \<times> string)) list"
  dv_qubit_ids_coupler_map :: "((int \<times> int) \<times> int) list"
  dv_coordinates :: "(int \<times> int) list"
  dv_coupling_map :: "(nat \<times> nat) list option"
  dv_meas_map :: "int list list"
  dv_fixed_duration_couplers :: "string list"
  dv_reverse_phase_qubits :: "string list"

record backend_config =
  bc_name :: "string option"
  bc_general_config :: general_config
  bc_device_config :: device_config
  bc_gates :: "(string \<times> json) list"
  bc_calibration_config :: "calibration_config option"

text \<open>\<open>s.strip(c)\<close> for one character.\<close>

definition strip_char :: "char \<Rightarrow> string \<Rightarrow> string" where
  "strip_char c s = rev (lstrip_char c (rev (lstrip_char c s)))"

text \<open>\<open>get_id\<close>; in a validator a \<open>ValueError\<close> becomes a \<open>ValidationError\<close>.\<close>

definition get_id :: "string \<Rightarrow> int result" where
  "get_id s = (case int_of_text (strip_char CHR ''u'' (strip_char CHR ''q'' s)) of
     Inl e \<Rightarrow> Inl ValidationError | Inr n \<Rightarrow> Inr n)"

definition qubit_index :: "string list \<Rightarrow> (string \<times> nat) list" where
  "qubit_index qubit_ids = dict_of (map (\<lambda>(psn, q). (q, psn)) (List.enumerate 0 qubit_ids))"

definition both_ways :: "('a \<times> 'a) list \<Rightarrow> ('a \<times> 'a) list" where
  "both_ways ps = ps @ map (\<lambda>(a, b). (b, a)) ps"

definition index_couplings :: "string list \<Rightarrow> (string \<times> (string \<times> string)) list \<Rightarrow> (nat \<times> nat) list result" where
  "index_couplings qubit_ids coupling_dict =
     map_result (\<lambda>(c, (q1, q2)). bind_result (dict_get (qubit_index qubit_ids) q1) (\<lambda>i.
       bind_result (dict_get (qubit_index qubit_ids) q2) (\<lambda>j. Inr (i, j)))) coupling_dict"

definition id_couplings :: "(string \<times> (string \<times> string)) list \<Rightarrow> ((int \<times> int) \<times> int) list result" where
  "id_couplings coupling_dict =
     map_result (\<lambda>(c, (q1, q2)). bind_result (get_id q1) (\<lambda>i. bind_result (get_id q2) (\<lambda>j.
       bind_result (get_id c) (\<lambda>k. Inr ((i, j), k))))) coupling_dict"

definition set_coupling_map :: "device_config \<Rightarrow> device_config result" where
  "set_coupling_map c =
     (if dv_coupling_dict c = []
      then Inr (c\<lparr>dv_coupling_map := Some (map (\<lambda>(idx, _). (idx, idx)) (List.enumerate 0 (dv_qubit_ids c)))\<rparr>)
      else bind_result (index_couplings (dv_qubit_ids c) (dv_coupling_dict c)) (\<lambda>ixs.
           bind_result (id_couplings (dv_coupling_dict c)) (\<lambda>ids.
             Inr (c\<lparr>dv_coupling_map := Some (both_ways ixs),
                    dv_qubit_ids_coupler_map := ids @ map (\<lambda>((q1, q2), k). ((q2, q1), k)) ids\<rparr>))))"

definition check_simulator_config :: "backend_config \<Rightarrow> backend_config result" where
  "check_simulator_config b =
     (if gc_simulator (bc_general_config b) \<and> bc_calibration_config b = None then Inl ValidationError else Inr b)"

definition set_name :: "backend_config \<Rightarrow> backend_config" where
  "set_name b = b\<lparr>bc_name := Some (gc_name (bc_general_config b))\<rparr>"

text \<open>The seed is \<open>None\<close> when its file or its \<open>calibration_config\<close> is missing.\<close>

definition from_toml ::
    "general_config \<Rightarrow> device_config \<Rightarrow> (string \<times> json) list \<Rightarrow> calibration_config option \<Rightarrow> backend_config result" where
  "from_toml general device gates seed =
     bind_result (set_coupling_map device) (\<lambda>d.
     bind_result (check_simulator_config \<lparr>bc_name = None, bc_general_config = general, bc_device_config = d,
         bc_gates = gates, bc_calibration_config = seed\<rparr>)
       (\<lambda>b. Inr (set_name b)))"

section \<open>The device\<close>

record device =
  de_name :: string
  de_version :: string
  de_number_of_qubits :: int
  de_last_online :: "string option"
  de_is_online :: bool
  de_basis_gates :: "string list"
  de_coupling_map :: "(nat \<times> nat) list"
  de_coordinates :: "(int \<times> int) list"
  de_is_simulator :: bool
  de_coupling_dict :: "(string \<times> string list) list"
  de_characterized :: bool
  de_open_pulse :: bool
  de_meas_map :: "int list list"
  de_description :: string
  de_number_of_couplers :: int
  de_number_of_resonators :: int
  de_dt :: "rat option"
  de_dtm :: "rat option"
  de_qubit_ids :: "string list"
  de_gates :: "(string \<times> json) list option"
  de_is_active :: "bool option"
  de_qubit_ids_coupler_map :: "((int \<times> int) \<times> int) list"

definition device_from_config :: "backend_config \<Rightarrow> device result" where
  "device_from_config conf =
     (let g = bc_general_config conf; d = bc_device_config conf in
      case dv_coupling_map d of
        None \<Rightarrow> Inl ValidationError
      | Some cm \<Rightarrow> Inr \<lparr>de_name = gc_name g, de_version = gc_version g, de_number_of_qubits = gc_num_qubits g,
          de_last_online = Some (gc_online_date g), de_is_online = gc_is_active g, de_basis_gates = map fst (bc_gates conf),
          de_coupling_map = cm, de_coordinates = dv_coordinates d, de_is_simulator = gc_simulator g,
          de_coupling_dict = map (\<lambda>(c, (q1, q2)). (c, [q1, q2])) (dv_coupling_dict d),
          de_characterized = gc_characterized g, de_open_pulse = gc_open_pulse g, de_meas_map = dv_meas_map d,
          de_description = gc_description g, de_number_of_couplers = gc_num_couplers g,
          de_number_of_resonators = gc_num_resonators g, de_dt = Some (gc_dt g), de_dtm = Some (gc_dtm g),
          de_qubit_ids = dv_qubit_ids d, de_gates = Some (bc_gates conf), de_is_active = Some (gc_is_active g),
          de_qubit_ids_coupler_map = dv_qubit_ids_coupler_map d\<rparr>)"

end
