(* ===== verification/Device_Properties.thy ===== *)
theory Device_Properties imports Device_Config Hardware_Properties begin

text \<open>
  The couplings of a configured device: within its qubits, both ways round, and numbered like the
  channels of a circuit if its qubits are listed in the order of their numbers.
\<close>

section \<open>Positions of qubits\<close>

lemma qubit_index_Some:
  assumes "map_of (qubit_index qubit_ids) q = Some i"
  shows "i < length qubit_ids" "qubit_ids ! i = q"
proof -
  have "(q, i) \<in> set (map (\<lambda>(psn, q). (q, psn)) (List.enumerate 0 qubit_ids))"
    using assms map_of_SomeD [of "rev (map (\<lambda>(psn, q). (q, psn)) (List.enumerate 0 qubit_ids))"]
    by (simp add: qubit_index_def map_of_dict_of)
  then show "i < length qubit_ids" "qubit_ids ! i = q" by (auto simp: in_set_enumerate_eq)
qed

lemma dict_get_Inr: "dict_get d k = Inr v \<longleftrightarrow> map_of d k = Some v"
  by (simp add: dict_get_def split: option.split)

lemma index_coupling:
  assumes "bind_result (dict_get (qubit_index qubit_ids) q1) (\<lambda>i.
      bind_result (dict_get (qubit_index qubit_ids) q2) (\<lambda>j. Inr (i, j))) = Inr y"
  shows "fst y < length qubit_ids \<and> snd y < length qubit_ids \<and> qubit_ids ! fst y = q1 \<and> qubit_ids ! snd y = q2"
proof -
  obtain i where i: "dict_get (qubit_index qubit_ids) q1 = Inr i"
    using assms by (cases "dict_get (qubit_index qubit_ids) q1") simp_all
  obtain j where j: "dict_get (qubit_index qubit_ids) q2 = Inr j"
    using assms i by (cases "dict_get (qubit_index qubit_ids) q2") simp_all
  have "y = (i, j)" using assms i j by simp
  then show ?thesis using i j by (simp add: dict_get_Inr qubit_index_Some)
qed

lemma index_couplings_elems:
  assumes "index_couplings qubit_ids cd = Inr ixs"
  shows "list_all2 (\<lambda>cq y. fst y < length qubit_ids \<and> snd y < length qubit_ids \<and>
    qubit_ids ! fst y = fst (snd cq) \<and> qubit_ids ! snd y = snd (snd cq)) cd ixs"
  using assms unfolding index_couplings_def map_result_Inr split_beta
  by (rule list_all2_mono) (rule index_coupling)

lemma both_ways_sym: "(a, b) \<in> set (both_ways ps) \<longleftrightarrow> (b, a) \<in> set (both_ways ps)"
  by (auto simp: both_ways_def)

lemma set_coupling_map_cases:
  assumes "set_coupling_map c = Inr c'"
  obtains "dv_coupling_dict c = []" "dv_coupling_map c' = Some (map (\<lambda>i. (i, i)) [0..<length (dv_qubit_ids c)])" "dv_qubit_ids c' = dv_qubit_ids c"
  | ixs where "index_couplings (dv_qubit_ids c) (dv_coupling_dict c) = Inr ixs" "dv_coupling_map c' = Some (both_ways ixs)"
      "dv_qubit_ids c' = dv_qubit_ids c"
proof (cases "dv_coupling_dict c = []")
  case True
  have "map (\<lambda>(idx, _). (idx, idx)) (List.enumerate 0 xs) = map (\<lambda>i. (i, i)) [0..<length xs]" for xs :: "string list"
    by (rule nth_equalityI) (simp_all add: nth_enumerate_eq)
  with True assms have "c' = c\<lparr>dv_coupling_map := Some (map (\<lambda>i. (i, i)) [0..<length (dv_qubit_ids c)])\<rparr>"
    by (simp add: set_coupling_map_def)
  with True show thesis by (intro that(1)) simp_all
next
  case False
  with assms obtain ixs ids where "index_couplings (dv_qubit_ids c) (dv_coupling_dict c) = Inr ixs"
    "id_couplings (dv_coupling_dict c) = Inr ids"
    by (cases "index_couplings (dv_qubit_ids c) (dv_coupling_dict c)"; cases "id_couplings (dv_coupling_dict c)")
      (simp_all add: set_coupling_map_def)
  with False assms show thesis by (intro that(2)) (auto simp: set_coupling_map_def)
qed

lemma set_coupling_map_ids: "set_coupling_map c = Inr c' \<Longrightarrow> dv_qubit_ids c' = dv_qubit_ids c"
  by (erule set_coupling_map_cases) simp_all

text \<open>
  C25. A device configuration that is accepted has couplings between its own qubits only, each of them
  in both directions, and among them those of every coupler, at the places of its two qubits.
\<close>
theorem coupling_map_well_formed:
  assumes "set_coupling_map c = Inr c'"
  shows "\<exists>m. dv_coupling_map c' = Some m \<and>
    (\<forall>(i, j)\<in>set m. i < length (dv_qubit_ids c) \<and> j < length (dv_qubit_ids c) \<and> (j, i) \<in> set m) \<and>
    (\<forall>(u, (q1, q2))\<in>set (dv_coupling_dict c). \<exists>(i, j)\<in>set m. dv_qubit_ids c ! i = q1 \<and> dv_qubit_ids c ! j = q2)"
  using assms
proof (cases rule: set_coupling_map_cases)
  case 1
  then show ?thesis by auto
next
  case (2 ixs)
  note l = index_couplings_elems [OF 2(1)]
  have r: "i < length (dv_qubit_ids c) \<and> j < length (dv_qubit_ids c)" if ij: "(i, j) \<in> set ixs" for i j
  proof -
    obtain k where "k < length ixs" "ixs ! k = (i, j)" using ij unfolding in_set_conv_nth by blast
    with l show ?thesis unfolding list_all2_conv_all_nth by (metis fst_conv snd_conv)
  qed
  have "i < length (dv_qubit_ids c) \<and> j < length (dv_qubit_ids c) \<and> (j, i) \<in> set (both_ways ixs)"
    if "(i, j) \<in> set (both_ways ixs)" for i j
    using that r both_ways_sym [of i j ixs] by (auto simp: both_ways_def)
  moreover have "\<exists>(i, j)\<in>set (both_ways ixs). dv_qubit_ids c ! i = q1 \<and> dv_qubit_ids c ! j = q2"
    if mem: "(u, (q1, q2)) \<in> set (dv_coupling_dict c)" for u q1 q2
  proof -
    obtain k where k: "k < length (dv_coupling_dict c)" "dv_coupling_dict c ! k = (u, (q1, q2))"
      using mem by (auto simp: in_set_conv_nth)
    have "k < length ixs" using k(1) l by (simp add: list_all2_lengthD)
    then have "ixs ! k \<in> set (both_ways ixs)" by (simp add: both_ways_def)
    moreover have "dv_qubit_ids c ! fst (ixs ! k) = q1 \<and> dv_qubit_ids c ! snd (ixs ! k) = q2"
      using list_all2_nthD [OF l k(1)] by (simp add: k(2))
    ultimately show ?thesis by (auto simp: split_beta)
  qed
  ultimately show ?thesis using 2(2) by blast
qed

definition sample_device :: "string list \<Rightarrow> device_config" where
  "sample_device qubit_ids = \<lparr>dv_qubit_ids = qubit_ids, dv_coupling_dict = [(''u0'', (''q7'', ''q6''))],
     dv_qubit_ids_coupler_map = [], dv_coordinates = [], dv_coupling_map = None, dv_meas_map = [],
     dv_fixed_duration_couplers = [], dv_reverse_phase_qubits = []\<rparr>"

lemma sample_ids: "get_id ''q7'' = Inr 7" "get_id ''q6'' = Inr 6" "get_id ''u0'' = Inr 0"
  by code_simp+

lemma sample_coupling_map:
  "\<exists>c'. set_coupling_map (sample_device [''q6'', ''q7'']) = Inr c' \<and> dv_coupling_map c' = Some [(1, 0), (0, 1)]"
  by (simp add: set_coupling_map_def sample_device_def index_couplings_def id_couplings_def sample_ids qubit_index_def
      dict_of_def dict_get_def both_ways_def)

theorem coupling_map_well_formed_witness:
  "\<exists>c' m. set_coupling_map (sample_device [''q6'', ''q7'']) = Inr c' \<and> dv_coupling_map c' = Some m \<and>
     (\<forall>(i, j)\<in>set m. i < 2 \<and> j < 2 \<and> (j, i) \<in> set m)"
proof -
  obtain c' where c: "set_coupling_map (sample_device [''q6'', ''q7'']) = Inr c'" using sample_coupling_map by blast
  have "length (dv_qubit_ids (sample_device [''q6'', ''q7''])) = 2" by (simp add: sample_device_def)
  then show ?thesis using coupling_map_well_formed [OF c] c by (auto simp: split_beta)
qed

section \<open>Positions and channels\<close>

lemma drive_entry_inj:
  assumes "drive_entry (pad_qubit (CHR ''q'' # nat_text m)) = drive_entry (pad_qubit (CHR ''q'' # nat_text n))"
  shows "m = n"
proof -
  have "pad_qubit (CHR ''q'' # nat_text m) = pad_qubit (CHR ''q'' # nat_text n)" using assms by (simp add: drive_entry_def)
  then have "Inr (int m) = (Inr (int n) :: int result)" using pad_qubit_number(1) by metis
  then show ?thesis by simp
qed

text \<open>
  The positions that a configuration couples are the numbers of the drive channels of those qubits
  exactly when the qubits are listed in the order of their numbers: the coupling map follows the
  list, the channels follow the numbers.
\<close>
theorem couplings_match_channels:
  assumes "distinct ns" and "dv_qubit_ids c = map (\<lambda>n. CHR ''q'' # nat_text n) ns"
    and "couplings_ok (map (\<lambda>(u, (q1, q2)). (u, [q1, q2])) (dv_coupling_dict c))" and "set_coupling_map c = Inr c'"
  shows "\<exists>hw. generate_hardware_map (dv_qubit_ids c') (map (\<lambda>(u, (q1, q2)). (u, [q1, q2])) (dv_coupling_dict c)) = Inr hw \<and>
    ((\<forall>i<length ns. map_of hw (CHR ''d'' # nat_text i) = Some (drive_entry (pad_qubit (dv_qubit_ids c' ! i)))) \<longleftrightarrow> sorted ns)"
proof -
  have ids: "dv_qubit_ids c' = map (\<lambda>n. CHR ''q'' # nat_text n) ns"
    using set_coupling_map_ids [OF assms(4)] assms(2) by simp
  obtain hw where hw: "generate_hardware_map (dv_qubit_ids c') (map (\<lambda>(u, (q1, q2)). (u, [q1, q2])) (dv_coupling_dict c)) = Inr hw"
    "\<forall>i<length ns. map_of hw (CHR ''d'' # nat_text i) = Some (drive_entry (pad_qubit (CHR ''q'' # nat_text (sort ns ! i))))"
    using hardware_map_entries [OF assms(1,3)] unfolding ids Let_def by blast
  have "(\<forall>i<length ns. drive_entry (pad_qubit (CHR ''q'' # nat_text (sort ns ! i))) = drive_entry (pad_qubit (CHR ''q'' # nat_text (ns ! i))))
      \<longleftrightarrow> (\<forall>i<length ns. sort ns ! i = ns ! i)"
    using drive_entry_inj by (intro all_cong) auto
  also have "\<dots> \<longleftrightarrow> sort ns = ns" by (auto simp: list_eq_iff_nth_eq)
  also have "\<dots> \<longleftrightarrow> sorted ns" by (metis sorted_sort sort_key_id_if_sorted map_ident)
  finally show ?thesis using hw by (intro exI [of _ hw]) (simp add: ids)
qed

theorem couplings_match_channels_witness:
  "\<exists>hw. generate_hardware_map [''q6'', ''q7''] [(''u0'', [''q7'', ''q6''])] = Inr hw \<and>
    map_of hw ''d1'' = Some (drive_entry (pad_qubit ''q7''))"
proof -
  obtain c' where c: "set_coupling_map (sample_device [''q6'', ''q7'']) = Inr c'" using sample_coupling_map by blast
  have t: "nat_text 6 = ''6''" "nat_text 7 = ''7''" "nat_text 1 = ''1''" "nat_text (Suc 0) = ''1''" by code_simp+
  have ids: "dv_qubit_ids c' = [''q6'', ''q7'']"
    using set_coupling_map_ids [OF c] by (simp add: sample_device_def)
  have d: "distinct [6, 7::nat]" "dv_qubit_ids (sample_device [''q6'', ''q7'']) = map (\<lambda>n. CHR ''q'' # nat_text n) [6, 7]"
    "couplings_ok (map (\<lambda>(u, (q1, q2)). (u, [q1, q2])) (dv_coupling_dict (sample_device [''q6'', ''q7''])))"
    by (simp_all add: sample_device_def t couplings_ok_def)
  obtain hw where hw: "generate_hardware_map [''q6'', ''q7''] [(''u0'', [''q7'', ''q6''])] = Inr hw"
    "(\<forall>i<2. map_of hw (CHR ''d'' # nat_text i) = Some (drive_entry (pad_qubit ([''q6'', ''q7''] ! i)))) \<longleftrightarrow> sorted [6, 7::nat]"
    using couplings_match_channels [OF d c] unfolding ids by (auto simp: sample_device_def)
  have "sorted [6, 7::nat]" by simp
  with hw(2) have "map_of hw (CHR ''d'' # nat_text 1) = Some (drive_entry (pad_qubit ([''q6'', ''q7''] ! 1)))" by simp
  with hw(1) show ?thesis by (simp add: t)
qed

end
