(* ===== verification/Calibration.thy ===== *)
theory Calibration imports Device_Config begin

text \<open>
  The calibration of a device, from \<^verbatim>\<open>app/libs/device_parameters/dtos.py\<close> and its \<^verbatim>\<open>utils.py\<close>: sets of
  calibration values with their units, how they are read from a configuration or from the results of
  a calibration, and how they are written back. How pydantic reads a number from a text is the
  argument \<open>parse\<close>.
\<close>

section \<open>Values\<close>

record calib_value =
  cv_value :: scalar
  cv_unit :: string
  cv_date :: "string option"

definition from_scalar :: "scalar option \<Rightarrow> string \<Rightarrow> calib_value option" where
  "from_scalar v unit = map_option (\<lambda>x. \<lparr>cv_value = x, cv_unit = unit, cv_date = None\<rparr>) v"

text \<open>A field of a set: a calibration value, or a plain one (the id and the full name).\<close>

datatype field = Value "calib_value option" | Plain "scalar option"

datatype value_type = FloatValue | StrValue | IntValue | AnyValue | IdField | TextField

datatype set_class = QubitCalibration | ResonatorCalibration | CouplerCalibration

fun model_fields :: "set_class \<Rightarrow> (string \<times> value_type) list" where
  "model_fields QubitCalibration =
     map (\<lambda>k. (k, FloatValue)) [''t1_decoherence'', ''t2_decoherence'', ''frequency'', ''anharmonicity'',
       ''readout_assignment_error'', ''pi_pulse_amplitude'', ''pi_pulse_duration'', ''pi_pulse_motzoi''] @
     [(''pulse_type'', StrValue), (''pulse_sigma'', FloatValue), (''id'', IdField)] @
     map (\<lambda>k. (k, IntValue)) [''index'', ''x_position'', ''y_position'', ''xy_drive_line'', ''z_drive_line'']"
| "model_fields ResonatorCalibration =
     map (\<lambda>k. (k, FloatValue)) [''acq_delay'', ''acq_integration_time'', ''frequency'', ''pulse_amplitude'',
       ''pulse_delay'', ''pulse_duration''] @
     [(''pulse_type'', StrValue), (''id'', IdField)] @
     map (\<lambda>k. (k, IntValue)) [''index'', ''x_position'', ''y_position'', ''readout_line'']"
| "model_fields CouplerCalibration =
     map (\<lambda>k. (k, FloatValue)) [''frequency'', ''frequency_detuning'', ''anharmonicity'', ''coupling_strength_02'',
       ''coupling_strength_12'', ''cz_pulse_amplitude'', ''cz_pulse_dc_bias'', ''cz_pulse_phase_offset'',
       ''cz_pulse_duration_before'', ''cz_pulse_duration_rise'', ''cz_pulse_duration_constant''] @
     [(''control_rz_lambda'', AnyValue), (''target_rz_lambda'', AnyValue), (''pulse_type'', StrValue),
      (''id'', IdField), (''full_name'', TextField)]"

record value_set =
  vs_class :: set_class
  vs_fields :: "(string \<times> field) list"

definition default_field :: "set_class \<Rightarrow> string \<Rightarrow> value_type \<Rightarrow> field" where
  "default_field cls k ty =
     (if ty = IdField \<or> ty = TextField then Plain None
      else if cls = QubitCalibration \<and> k = ''pulse_sigma'' then Value (from_scalar (Some (Num 0)) [])
      else Value None)"

section \<open>Validation\<close>

text \<open>What a field is given: a plain value, a dictionary with a value and a unit, or a calibration value.\<close>

datatype raw = Scalar_Raw scalar | Dict_Raw scalar string | Value_Raw "calib_value option"

fun validate_value :: "(string \<Rightarrow> rat option) \<Rightarrow> value_type \<Rightarrow> scalar \<Rightarrow> scalar result" where
  "validate_value parse FloatValue (Num x) = Inr (Num x)"
| "validate_value parse FloatValue (Txt s) = (case parse s of None \<Rightarrow> Inl ValidationError | Some x \<Rightarrow> Inr (Num x))"
| "validate_value parse IntValue (Num x) = (if of_int \<lfloor>x\<rfloor> = x then Inr (Num x) else Inl ValidationError)"
| "validate_value parse IntValue (Txt s) =
     (case parse s of None \<Rightarrow> Inl ValidationError | Some x \<Rightarrow> if of_int \<lfloor>x\<rfloor> = x then Inr (Num x) else Inl ValidationError)"
| "validate_value parse StrValue (Txt s) = Inr (Txt s)"
| "validate_value parse StrValue (Num x) = Inl ValidationError"
| "validate_value parse _ v = Inr v"

text \<open>\<open>prep_id\<close>, and the check for an integer that follows it.\<close>

fun prep_id :: "set_class \<Rightarrow> scalar \<Rightarrow> scalar result" where
  "prep_id cls (Txt s) =
     (case int_of_text (lstrip_char (if cls = CouplerCalibration then CHR ''u'' else CHR ''q'') s) of
        Inl e \<Rightarrow> Inl ValidationError | Inr n \<Rightarrow> Inr (Num (of_int n)))"
| "prep_id cls (Num x) =
     (if cls = CouplerCalibration then (if of_int \<lfloor>x\<rfloor> = x then Inr (Num x) else Inl ValidationError)
      else Inr (Num (of_int (py_int x))))"

definition validate_field :: "(string \<Rightarrow> rat option) \<Rightarrow> set_class \<Rightarrow> value_type \<Rightarrow> raw \<Rightarrow> field result" where
  "validate_field parse cls ty r =
     (case r of
        Scalar_Raw v \<Rightarrow>
          if ty = IdField then bind_result (prep_id cls v) (\<lambda>n. Inr (Plain (Some n)))
          else if ty = TextField then (case v of Txt s \<Rightarrow> Inr (Plain (Some v)) | Num _ \<Rightarrow> Inl ValidationError)
          else Inl ValidationError
      | Dict_Raw v unit \<Rightarrow>
          if ty = IdField then (if cls = CouplerCalibration then Inl ValidationError else Inl TypeError)
          else if ty = TextField then Inl ValidationError
          else bind_result (validate_value parse ty v) (\<lambda>w.
            Inr (Value (Some \<lparr>cv_value = w, cv_unit = unit, cv_date = None\<rparr>)))
      | Value_Raw None \<Rightarrow>
          if ty = IdField then (if cls = CouplerCalibration then Inr (Plain None) else Inl TypeError)
          else if ty = TextField then Inr (Plain None) else Inr (Value None)
      | Value_Raw (Some c) \<Rightarrow>
          if ty = IdField then (if cls = CouplerCalibration then Inl ValidationError else Inl TypeError)
          else if ty = TextField then Inl ValidationError
          else bind_result (validate_value parse ty (cv_value c)) (\<lambda>w. Inr (Value (Some (c\<lparr>cv_value := w\<rparr>)))))"

text \<open>
  All the fields in their order. Keys that no field has are kept aside by pydantic and read by nothing.
  A \<open>TypeError\<close> of \<open>prep_id\<close> is raised whatever the other fields are.
\<close>

definition model_validate :: "(string \<Rightarrow> rat option) \<Rightarrow> set_class \<Rightarrow> (string \<times> raw) list \<Rightarrow> value_set result" where
  "model_validate parse cls d =
     (let read = (\<lambda>(k, ty). case map_of d k of
                    None \<Rightarrow> Inr (k, default_field cls k ty)
                  | Some r \<Rightarrow> bind_result (validate_field parse cls ty r) (\<lambda>f. Inr (k, f))) in
      if Inl TypeError \<in> read ` set (model_fields cls) then Inl TypeError
      else bind_result (map_result read (model_fields cls)) (\<lambda>fs. Inr \<lparr>vs_class = cls, vs_fields = fs\<rparr>))"

definition attach_units :: "(string \<times> scalar) list \<Rightarrow> (string \<times> string) list \<Rightarrow> (string \<times> raw) list" where
  "attach_units data units_map =
     map (\<lambda>(k, v). (k, Dict_Raw v (case map_of units_map k of None \<Rightarrow> [] | Some u \<Rightarrow> u))) data"

definition attach_units_many :: "(string \<times> scalar) list list \<Rightarrow> (string \<times> string) list \<Rightarrow> (string \<times> raw) list list" where
  "attach_units_many data units_map = map (\<lambda>item. attach_units item units_map) data"

text \<open>\<open>from_calib_config\<close> of the three classes: the id is taken out of its dictionary again.\<close>

definition plain_id :: "(string \<times> raw) list \<Rightarrow> (string \<times> raw) list result" where
  "plain_id conf = bind_result (dict_get conf ''id'') (\<lambda>r.
     case r of Dict_Raw v u \<Rightarrow> Inr (AList.update ''id'' (Scalar_Raw v) conf) | _ \<Rightarrow> Inl TypeError)"

fun units_key :: "set_class \<Rightarrow> string" where
  "units_key QubitCalibration = ''qubit''"
| "units_key ResonatorCalibration = ''readout_resonator''"
| "units_key CouplerCalibration = ''coupler''"

fun config_records :: "set_class \<Rightarrow> calibration_config \<Rightarrow> (string \<times> scalar) list list" where
  "config_records QubitCalibration conf = cc_qubit conf"
| "config_records ResonatorCalibration conf = cc_readout_resonator conf"
| "config_records CouplerCalibration conf = cc_coupler conf"

definition units_of :: "calibration_config \<Rightarrow> set_class \<Rightarrow> (string \<times> string) list" where
  "units_of conf cls = (case map_of (cc_units conf) (units_key cls) of None \<Rightarrow> [] | Some u \<Rightarrow> u)"

definition from_calib_config ::
    "(string \<Rightarrow> rat option) \<Rightarrow> set_class \<Rightarrow> calibration_config \<Rightarrow> value_set list result" where
  "from_calib_config parse cls conf =
     map_result (\<lambda>item. bind_result (plain_id item) (model_validate parse cls))
       (attach_units_many (config_records cls conf) (units_of conf cls))"

section \<open>Dumps\<close>

fun dump_unit :: "field \<Rightarrow> scalar option" where
  "dump_unit (Value v) = map_option (\<lambda>c. Txt (cv_unit c)) v"
| "dump_unit (Plain v) = v"

fun dump_scalar :: "field \<Rightarrow> scalar option" where
  "dump_scalar (Value v) = map_option cv_value v"
| "dump_scalar (Plain v) = v"

definition dump_fields :: "(field \<Rightarrow> scalar option) \<Rightarrow> bool \<Rightarrow> value_set \<Rightarrow> (string \<times> scalar option) list" where
  "dump_fields dump exclude_none s =
     map (\<lambda>(k, f). (k, dump f)) (filter (\<lambda>(k, f). \<not> (dump f = None \<and> exclude_none)) (vs_fields s))"

definition model_dump_unit :: "bool \<Rightarrow> value_set \<Rightarrow> (string \<times> scalar option) list" where
  "model_dump_unit = dump_fields dump_unit"

text \<open>The computed fields: names made of the id, and the qubits in the full name of a coupler.\<close>

definition plain :: "value_set \<Rightarrow> string \<Rightarrow> scalar option" where
  "plain s k = (case map_of (vs_fields s) k of Some (Plain v) \<Rightarrow> v | _ \<Rightarrow> None)"

definition id_name :: "char \<Rightarrow> value_set \<Rightarrow> scalar option" where
  "id_name c s = (case plain s ''id'' of Some (Num x) \<Rightarrow> Some (Txt (c # int_text (py_int x))) | _ \<Rightarrow> None)"

definition name_part :: "nat \<Rightarrow> value_set \<Rightarrow> scalar option result" where
  "name_part i s = (case plain s ''full_name'' of
     Some (Txt t) \<Rightarrow> bind_result (py_at (py_split ''_'' t) (int i)) (\<lambda>q. Inr (Some (Txt q)))
   | _ \<Rightarrow> Inr None)"

definition computed_fields :: "value_set \<Rightarrow> (string \<times> scalar option) list result" where
  "computed_fields s =
     (if vs_class s = CouplerCalibration
      then bind_result (name_part 0 s) (\<lambda>c. bind_result (name_part 1 s) (\<lambda>t.
        Inr [(''short_name'', id_name CHR ''u'' s), (''control_qubit'', c), (''target_qubit'', t)]))
      else Inr [(''name'', id_name CHR ''q'' s)])"

definition model_dump_scalar :: "bool \<Rightarrow> value_set \<Rightarrow> (string \<times> scalar option) list result" where
  "model_dump_scalar exclude_none s =
     bind_result (computed_fields s) (\<lambda>cs. Inr (dump_fields dump_scalar exclude_none s @ cs))"

section \<open>The calibration of a device\<close>

record device_calibration =
  dc_name :: string
  dc_version :: string
  dc_qubits :: "value_set list"
  dc_resonators :: "value_set list option"
  dc_couplers :: "value_set list option"
  dc_discriminators :: "discriminators option"
  dc_last_calibrated :: string

text \<open>The units of the first set, without the id; a set that is missing has none.\<close>

definition texts_only :: "(string \<times> scalar option) list \<Rightarrow> (string \<times> string) list result" where
  "texts_only = map_result (\<lambda>(k, v). case v of Some (Txt t) \<Rightarrow> Inr (k, t) | _ \<Rightarrow> Inl ValidationError)"

definition scalars_only :: "(string \<times> scalar option) list \<Rightarrow> (string \<times> scalar) list result" where
  "scalars_only = map_result (\<lambda>(k, v). case v of Some x \<Rightarrow> Inr (k, x) | None \<Rightarrow> Inl ValidationError)"

definition first_units :: "value_set list \<Rightarrow> (string \<times> scalar option) list" where
  "first_units sets = (case sets of [] \<Rightarrow> [] | s # _ \<Rightarrow> filter (\<lambda>(k, _). k \<noteq> ''id'') (model_dump_unit True s))"

definition sets_or_none :: "value_set list option \<Rightarrow> value_set list" where
  "sets_or_none o_sets = (case o_sets of None \<Rightarrow> [] | Some sets \<Rightarrow> sets)"

text \<open>
  \<open>to_toml\<close>, up to the file: scalars are dumped first, sets that are missing are a \<open>KeyError\<close>, then
  the configuration is validated.
\<close>

definition to_toml :: "device_calibration \<Rightarrow> calibration_config result" where
  "to_toml c =
     bind_result (map_result (model_dump_scalar True) (dc_qubits c)) (\<lambda>qs.
     bind_result (map_result (model_dump_scalar True) (sets_or_none (dc_resonators c))) (\<lambda>rs.
     bind_result (map_result (model_dump_scalar True) (sets_or_none (dc_couplers c))) (\<lambda>cs.
     if dc_couplers c = None \<or> dc_resonators c = None then Inl KeyError else
     bind_result (texts_only (first_units (dc_qubits c))) (\<lambda>uq.
     bind_result (texts_only (first_units (sets_or_none (dc_couplers c)))) (\<lambda>uc.
     bind_result (texts_only (first_units (sets_or_none (dc_resonators c)))) (\<lambda>ur.
     bind_result (map_result scalars_only qs) (\<lambda>qs'.
     bind_result (map_result scalars_only rs) (\<lambda>rs'.
     bind_result (map_result scalars_only cs) (\<lambda>cs'.
     case dc_discriminators c of
       None \<Rightarrow> Inl ValidationError
     | Some ds \<Rightarrow> Inr \<lparr>cc_units = [(''qubit'', uq), (''coupler'', uc), (''readout_resonator'', ur), (''discriminators'', [])],
                        cc_qubit = qs', cc_readout_resonator = rs', cc_discriminators = ds, cc_coupler = cs'\<rparr>)))))))))"

definition from_config :: "(string \<Rightarrow> rat option) \<Rightarrow> string \<Rightarrow> backend_config \<Rightarrow> device_calibration result" where
  "from_config parse now conf =
     (case bc_calibration_config conf of
        None \<Rightarrow> Inl ValueError
      | Some calib_config \<Rightarrow>
          bind_result (from_calib_config parse QubitCalibration calib_config) (\<lambda>qs.
          bind_result (from_calib_config parse ResonatorCalibration calib_config) (\<lambda>rs.
          bind_result (from_calib_config parse CouplerCalibration calib_config) (\<lambda>cs.
            Inr \<lparr>dc_name = gc_name (bc_general_config conf), dc_version = gc_version (bc_general_config conf),
                 dc_qubits = qs, dc_resonators = Some rs, dc_couplers = Some cs,
                 dc_discriminators = Some (cc_discriminators calib_config), dc_last_calibrated = now\<rparr>))))"

section \<open>The results of a calibration\<close>

text \<open>What the code reads of the calibration's results for a qubit and for a coupler.\<close>

record transmon =
  tm_f01 :: "rat option"
  tm_amp180 :: "rat option"
  tm_duration :: "rat option"
  tm_motzoi :: "rat option"
  tm_sigma :: "rat option"
  tm_t1_time :: "rat option"
  tm_t2_echo_time :: "rat option"
  tm_acq_delay :: "rat option"
  tm_integration_time :: "rat option"
  tm_readout_2state_opt :: "rat option"
  tm_ro_pulse_delay :: "rat option"
  tm_pulse_duration :: "rat option"
  tm_pulse_amp :: "rat option"
  tm_lda_coef_0 :: scalar
  tm_lda_coef_1 :: scalar
  tm_lda_intercept :: scalar

record coupler_data =
  cp_cz_pulse_frequency :: rat
  cp_cz_pulse_amplitude :: "rat option"
  cp_parking_current :: "rat option"
  cp_cz_pulse_duration :: "rat option"
  cp_cz_dynamic_control :: rat
  cp_cz_dynamic_target :: rat

record calibration_results =
  cr_transmons :: "(string \<times> transmon) list"
  cr_couplers :: "(string \<times> coupler_data) list"

definition num_raw :: "rat option \<Rightarrow> string \<Rightarrow> raw" where
  "num_raw x unit = Value_Raw (from_scalar (map_option Num x) unit)"

definition str_raw :: "string \<Rightarrow> raw" where
  "str_raw t = Value_Raw (from_scalar (Some (Txt t)) [])"

definition qubit_from_results :: "(string \<Rightarrow> rat option) \<Rightarrow> string \<times> transmon \<Rightarrow> value_set result" where
  "qubit_from_results parse kv = (let (qubit, t) = kv in
     model_validate parse QubitCalibration
       [(''id'', Scalar_Raw (Txt qubit)), (''frequency'', num_raw (tm_f01 t) ''Hz''),
        (''pi_pulse_amplitude'', num_raw (tm_amp180 t) []), (''pi_pulse_duration'', num_raw (tm_duration t) ''s''),
        (''pi_pulse_motzoi'', num_raw (tm_motzoi t) []), (''pulse_type'', str_raw ''Gaussian''),
        (''pulse_sigma'', num_raw (tm_sigma t) []), (''t1_decoherence'', num_raw (tm_t1_time t) ''us''),
        (''t2_decoherence'', num_raw (tm_t2_echo_time t) ''us'')])"

definition resonator_from_results :: "(string \<Rightarrow> rat option) \<Rightarrow> string \<times> transmon \<Rightarrow> value_set result" where
  "resonator_from_results parse kv = (let (qubit, t) = kv in
     model_validate parse ResonatorCalibration
       [(''id'', Scalar_Raw (Txt qubit)), (''acq_delay'', num_raw (tm_acq_delay t) ''s''),
        (''acq_integration_time'', num_raw (tm_integration_time t) ''s''), (''frequency'', num_raw (tm_readout_2state_opt t) ''Hz''),
        (''pulse_delay'', num_raw (tm_ro_pulse_delay t) ''s''), (''pulse_duration'', num_raw (tm_pulse_duration t) ''s''),
        (''pulse_amplitude'', num_raw (tm_pulse_amp t) []), (''pulse_type'', str_raw ''Square'')])"

definition DOWNCONVERT_FREQUENCY :: rat where
  "DOWNCONVERT_FREQUENCY = 4400000000"

definition deg2rad :: "rat \<Rightarrow> rat" where
  "deg2rad x = x * py_pi / 180"

text \<open>
  The phases of the qubits \<open>q1_q2\<close>. Each affected qubit flips the phase of its parity; two affected
  qubits of one parity flip it twice.
\<close>

definition flip_phase :: "string \<Rightarrow> rat \<times> rat \<Rightarrow> (rat \<times> rat) result" where
  "flip_phase q ph = bind_result (int_of_text (lstrip_char CHR ''q'' q)) (\<lambda>idx.
     Inr (if idx mod 2 = 0 then (- fst ph, snd ph) else (fst ph, - snd ph)))"

definition get_local_phases :: "string \<Rightarrow> coupler_data \<Rightarrow> string list \<Rightarrow> (rat \<times> rat) result" where
  "get_local_phases coupler d reverse_phase_qubits =
     (case py_split ''_'' coupler of
        [q1, q2] \<Rightarrow>
          bind_result (foldl (\<lambda>r q. bind_result r (flip_phase q)) (Inr (cp_cz_dynamic_control d, cp_cz_dynamic_target d))
              (filter (\<lambda>q. q \<in> set reverse_phase_qubits) (remdups [q1, q2])))
            (\<lambda>(c, t). Inr (deg2rad c, deg2rad t))
      | _ \<Rightarrow> Inl ValueError)"

definition coupler_from_results ::
    "(string \<Rightarrow> rat option) \<Rightarrow> string list \<Rightarrow> int \<Rightarrow> string \<times> coupler_data \<Rightarrow> value_set result" where
  "coupler_from_results parse reverse_phase_qubits idx kv = (let (coupler, d) = kv in
     bind_result (get_local_phases coupler d reverse_phase_qubits) (\<lambda>(control_phase, target_phase).
     model_validate parse CouplerCalibration
       [(''id'', Scalar_Raw (Num (of_int idx))), (''full_name'', Scalar_Raw (Txt coupler)),
        (''frequency'', num_raw (Some (DOWNCONVERT_FREQUENCY - cp_cz_pulse_frequency d)) ''Hz''),
        (''cz_pulse_amplitude'', num_raw (cp_cz_pulse_amplitude d) []),
        (''cz_pulse_dc_bias'', num_raw (cp_parking_current d) []),
        (''cz_pulse_duration_constant'', num_raw (cp_cz_pulse_duration d) ''s''),
        (''control_rz_lambda'', num_raw (Some control_phase) ''rad''),
        (''target_rz_lambda'', num_raw (Some target_phase) ''rad''),
        (''pulse_type'', str_raw ''wacqt_cz'')]))"

text \<open>Couplers that the map does not name are left out.\<close>

definition couplers_from_results ::
    "(string \<Rightarrow> rat option) \<Rightarrow> (string \<times> int) list \<Rightarrow> string list \<Rightarrow> calibration_results \<Rightarrow> value_set list result" where
  "couplers_from_results parse name_id_map reverse_phase_qubits data =
     map_result (\<lambda>(idx, kv). coupler_from_results parse reverse_phase_qubits idx kv)
       (List.map_filter (\<lambda>kv. map_option (\<lambda>idx. (idx, kv)) (map_of name_id_map (fst kv))) (cr_couplers data))"

definition lda_of :: "transmon \<Rightarrow> (string \<times> scalar) list" where
  "lda_of t = [(''coef_0'', tm_lda_coef_0 t), (''coef_1'', tm_lda_coef_1 t), (''intercept'', tm_lda_intercept t)]"

definition from_calib_results ::
    "(string \<Rightarrow> rat option) \<Rightarrow> (string \<times> int) list \<Rightarrow> string list \<Rightarrow> string \<Rightarrow> string \<Rightarrow> string
      \<Rightarrow> calibration_results \<Rightarrow> device_calibration result" where
  "from_calib_results parse name_id_map reverse_phase_qubits nam version last_calibrated data =
     bind_result (map_result (qubit_from_results parse) (cr_transmons data)) (\<lambda>qs.
     bind_result (map_result (resonator_from_results parse) (cr_transmons data)) (\<lambda>rs.
     bind_result (couplers_from_results parse name_id_map reverse_phase_qubits data) (\<lambda>cs.
       Inr \<lparr>dc_name = nam, dc_version = version, dc_qubits = qs, dc_resonators = Some rs, dc_couplers = Some cs,
            dc_discriminators = Some [(''lda'', map (\<lambda>(qubit, t). (qubit, lda_of t)) (cr_transmons data))],
            dc_last_calibrated = last_calibrated\<rparr>)))"

end
