(* ===== verification/Calibration_Properties.thy ===== *)
theory Calibration_Properties imports Calibration Hardware_Properties begin

text \<open>
  A calibration that is saved and read again: sets of qubits and resonators come back as they were,
  couplers with a name are refused. And the phases of couplers.
\<close>

section \<open>Fields\<close>

lemma py_int_of_int [simp]: "py_int (of_int n) = n"
  by (simp add: py_int_def)

lemma model_fields_facts:
  "distinct (map fst (model_fields cls))" "(''id'', IdField) \<in> set (model_fields cls)"
  "(k, ty) \<in> set (model_fields cls) \<Longrightarrow> ty = IdField \<longleftrightarrow> k = ''id''"
  "(k, ty) \<in> set (model_fields cls) \<Longrightarrow> ty = TextField \<longleftrightarrow> k = ''full_name''"
  "''name'' \<notin> fst ` set (model_fields cls)"
  by (cases cls; auto)+

lemma no_full_name: "cls \<noteq> CouplerCalibration \<Longrightarrow> (k, ty) \<in> set (model_fields cls) \<Longrightarrow> ty \<noteq> TextField"
  by (cases cls) auto

text \<open>A field that its validation leaves alone, and a set of such fields that is dumped in full.\<close>

definition field_ok :: "(string \<Rightarrow> rat option) \<Rightarrow> set_class \<Rightarrow> string \<Rightarrow> value_type \<Rightarrow> field \<Rightarrow> bool" where
  "field_ok parse cls k ty f \<longleftrightarrow>
     (case f of
        Value None \<Rightarrow> ty \<noteq> IdField \<and> ty \<noteq> TextField \<and> default_field cls k ty = Value None
      | Value (Some c) \<Rightarrow> ty \<noteq> IdField \<and> ty \<noteq> TextField \<and> validate_value parse ty (cv_value c) = Inr (cv_value c)
      | Plain v \<Rightarrow> ty = IdField \<and> (\<exists>n. v = Some (Num (of_int n))))"

definition set_ok :: "(string \<Rightarrow> rat option) \<Rightarrow> set_class \<Rightarrow> value_set \<Rightarrow> bool" where
  "set_ok parse cls s \<longleftrightarrow> vs_class s = cls \<and> map fst (vs_fields s) = map fst (model_fields cls) \<and>
     (\<forall>(k, ty)\<in>set (model_fields cls). \<exists>f. map_of (vs_fields s) k = Some f \<and> field_ok parse cls k ty f)"

lemma set_ok_distinct: "set_ok parse cls s \<Longrightarrow> distinct (map fst (vs_fields s))"
  using model_fields_facts(1) by (simp add: set_ok_def)

lemma set_ok_field:
  assumes "set_ok parse cls s" and "(k, ty) \<in> set (model_fields cls)"
  obtains f where "map_of (vs_fields s) k = Some f" "field_ok parse cls k ty f"
  using assms unfolding set_ok_def by blast

lemma set_ok_id:
  assumes "set_ok parse cls s"
  obtains n where "map_of (vs_fields s) ''id'' = Some (Plain (Some (Num (of_int n))))"
proof -
  obtain f where "map_of (vs_fields s) ''id'' = Some f" "field_ok parse cls ''id'' IdField f"
    using set_ok_field [OF assms model_fields_facts(2)] .
  then show thesis using that by (auto simp: field_ok_def split: field.splits option.splits)
qed

section \<open>What is dumped\<close>

definition picked :: "(string \<Rightarrow> field \<Rightarrow> 'a option) \<Rightarrow> (string \<times> field) list \<Rightarrow> (string \<times> 'a) list" where
  "picked g fs = List.map_filter (\<lambda>(k, f). map_option (Pair k) (g k f)) fs"

lemma picked_simps [simp]:
  "picked g [] = []" "picked g ((k, f) # fs) = (case g k f of None \<Rightarrow> picked g fs | Some v \<Rightarrow> (k, v) # picked g fs)"
  by (simp_all add: picked_def List.map_filter_def split: option.split)

lemma map_of_picked_None: "k \<notin> fst ` set fs \<Longrightarrow> map_of (picked g fs) k = None"
  by (induction fs) (auto split: option.splits)

lemma map_of_picked:
  "distinct (map fst fs) \<Longrightarrow> map_of fs k = Some f \<Longrightarrow> map_of (picked g fs) k = g k f"
proof (induction fs)
  case (Cons kf fs)
  then show ?case
    by (cases kf; cases "fst kf = k") (auto simp: map_of_picked_None split: option.splits)
qed simp

lemma scalars_dump:
  "scalars_only (dump_fields dump_scalar True s @ [(k, Some v)]) = Inr (picked (\<lambda>_. dump_scalar) (vs_fields s) @ [(k, v)])"
proof -
  have "scalars_only (map (\<lambda>(k, f). (k, dump_scalar f)) (filter (\<lambda>(k, f). \<not> (dump_scalar f = None \<and> True)) fs) @ [(k, Some v)])
      = Inr (picked (\<lambda>_. dump_scalar) fs @ [(k, v)])" for fs
  proof (induction fs)
    case Nil
    then show ?case by (simp add: scalars_only_def)
  next
    case (Cons kf fs)
    obtain k' f where "kf = (k', f)" by (cases kf)
    with Cons show ?case by (cases "dump_scalar f") (simp_all add: scalars_only_def)
  qed
  then show ?thesis by (simp add: dump_fields_def)
qed

definition unit_of :: "string \<Rightarrow> field \<Rightarrow> string option" where
  "unit_of k f = (case f of Value (Some c) \<Rightarrow> Some (cv_unit c) | _ \<Rightarrow> None)"

lemma unit_of_simps [simp]:
  "unit_of k (Value None) = None" "unit_of k (Value (Some c)) = Some (cv_unit c)" "unit_of k (Plain v) = None"
  by (simp_all add: unit_of_def)

lemma texts_dump:
  assumes "\<forall>(k, f)\<in>set (vs_fields s). k = ''id'' \<or> (\<exists>v. f = Value v)"
  shows "texts_only (filter (\<lambda>(k, _). k \<noteq> ''id'') (model_dump_unit True s)) =
    Inr (picked unit_of (filter (\<lambda>kf. fst kf \<noteq> ''id'') (vs_fields s)))"
proof -
  have "texts_only (filter (\<lambda>(k, _). k \<noteq> ''id'') (map (\<lambda>(k, f). (k, dump_unit f))
        (filter (\<lambda>(k, f). \<not> (dump_unit f = None \<and> True)) fs))) = Inr (picked unit_of (filter (\<lambda>kf. fst kf \<noteq> ''id'') fs))"
    if "\<forall>(k, f)\<in>set fs. k = ''id'' \<or> (\<exists>v. f = Value v)" for fs
    using that
  proof (induction fs)
    case Nil
    then show ?case by (simp add: texts_only_def)
  next
    case (Cons kf fs)
    obtain k f where kf: "kf = (k, f)" by (cases kf)
    have IH: "texts_only (filter (\<lambda>(k, _). k \<noteq> ''id'') (map (\<lambda>(k, f). (k, dump_unit f))
        (filter (\<lambda>(k, f). \<not> (dump_unit f = None \<and> True)) fs))) = Inr (picked unit_of (filter (\<lambda>kf. fst kf \<noteq> ''id'') fs))"
      by (rule Cons.IH) (use Cons.prems in simp)
    have "k = ''id'' \<or> (\<exists>v. f = Value v)" using Cons.prems by (simp add: kf)
    then consider "k = ''id''" | "k \<noteq> ''id''" "f = Value None" | c where "k \<noteq> ''id''" "f = Value (Some c)"
      by (metis option.exhaust)
    then show ?case using IH by cases (simp_all add: kf texts_only_def)
  qed
  from this [OF assms] show ?thesis by (simp add: model_dump_unit_def dump_fields_def)
qed

section \<open>Reading back\<close>

lemma map_of_attach:
  "map_of (attach_units L U) k = map_option (\<lambda>v. Dict_Raw v (case map_of U k of None \<Rightarrow> [] | Some u \<Rightarrow> u)) (map_of L k)"
  by (induction L) (auto simp: attach_units_def)

definition reunit :: "(string \<times> string) list \<Rightarrow> string \<Rightarrow> field \<Rightarrow> field" where
  "reunit U k f = (case f of
     Value (Some c) \<Rightarrow> Value (Some \<lparr>cv_value = cv_value c, cv_unit = (case map_of U k of None \<Rightarrow> [] | Some u \<Rightarrow> u), cv_date = None\<rparr>)
   | _ \<Rightarrow> f)"

lemma read_back:
  assumes ok: "set_ok parse cls s" and cls: "cls \<noteq> CouplerCalibration"
  shows "bind_result (plain_id (attach_units (picked (\<lambda>_. dump_scalar) (vs_fields s) @ [(''name'', n)]) U)) (model_validate parse cls)
    = Inr (s\<lparr>vs_fields := map (\<lambda>(k, f). (k, reunit U k f)) (vs_fields s)\<rparr>)"
proof -
  let ?L = "picked (\<lambda>_. dump_scalar) (vs_fields s) @ [(''name'', n)]"
  obtain i where i: "map_of (vs_fields s) ''id'' = Some (Plain (Some (Num (of_int i))))" by (rule set_ok_id [OF ok])
  have L: "map_of ?L k = dump_scalar f" if "map_of (vs_fields s) k = Some f" "k \<noteq> ''name''" for k f
    using map_of_picked [OF set_ok_distinct [OF ok] that(1), of "\<lambda>_. dump_scalar"] that(2)
    by (simp add: map_add_def split: option.splits)
  let ?d = "AList.update ''id'' (Scalar_Raw (Num (of_int i))) (attach_units ?L U)"
  have pid: "plain_id (attach_units ?L U) = Inr ?d"
    using L [OF i] by (simp add: plain_id_def dict_get_def map_of_attach)
  let ?read = "\<lambda>(k, ty). case map_of ?d k of None \<Rightarrow> Inr (k, default_field cls k ty)
      | Some r \<Rightarrow> bind_result (validate_field parse cls ty r) (\<lambda>f. Inr (k, f))"
  let ?new = "\<lambda>k. reunit U k (the (map_of (vs_fields s) k))"
  have read: "?read (k, ty) = Inr (k, ?new k)" if kty: "(k, ty) \<in> set (model_fields cls)" for k ty
  proof -
    obtain f where f: "map_of (vs_fields s) k = Some f" "field_ok parse cls k ty f" by (rule set_ok_field [OF ok kty])
    have "k \<noteq> ''name''" using model_fields_facts(5) [of cls] kty by force
    then have "map_of ?L k = dump_scalar f" by (rule L [OF f(1)])
    then have Lk: "map_of (attach_units ?L U) k =
        map_option (\<lambda>v. Dict_Raw v (case map_of U k of None \<Rightarrow> [] | Some u \<Rightarrow> u)) (dump_scalar f)"
      by (simp only: map_of_attach)
    show ?thesis
    proof (cases "k = ''id''")
      case True
      then have "ty = IdField" using model_fields_facts(3) [OF kty] by simp
      with True i cls show ?thesis by (simp add: update_conv' validate_field_def reunit_def)
    next
      case False
      then have "ty \<noteq> IdField" using model_fields_facts(3) [OF kty] by simp
      then consider "f = Value None" "default_field cls k ty = Value None"
        | c where "f = Value (Some c)" "ty \<noteq> TextField" "validate_value parse ty (cv_value c) = Inr (cv_value c)"
        using f(2) by (auto simp: field_ok_def split: field.splits option.splits)
      then show ?thesis
        using False f(1) \<open>ty \<noteq> IdField\<close>
        by cases (simp_all add: update_conv' Lk validate_field_def reunit_def)
    qed
  qed
  have fields: "map (\<lambda>(k, ty). (k, ?new k)) (model_fields cls) = map (\<lambda>(k, f). (k, reunit U k f)) (vs_fields s)"
  proof -
    have "map (\<lambda>(k, ty). (k, ?new k)) (model_fields cls) = map (\<lambda>k. (k, ?new k)) (map fst (model_fields cls))"
      by (simp add: comp_def split_beta)
    also have "\<dots> = map (\<lambda>k. (k, ?new k)) (map fst (vs_fields s))" using ok by (simp add: set_ok_def)
    also have "\<dots> = map (\<lambda>(k, f). (k, reunit U k f)) (vs_fields s)"
      using set_ok_distinct [OF ok] by (auto simp: comp_def intro!: map_cong)
    finally show ?thesis .
  qed
  have "map_result ?read (model_fields cls) = Inr (map (\<lambda>(k, ty). (k, ?new k)) (model_fields cls))"
    unfolding map_result_Inr list_all2_map2 by (rule list.rel_refl_strong) (use read in auto)
  moreover have "Inl TypeError \<notin> ?read ` set (model_fields cls)" using read by fastforce
  ultimately have "model_validate parse cls ?d = Inr \<lparr>vs_class = cls, vs_fields = map (\<lambda>(k, f). (k, reunit U k f)) (vs_fields s)\<rparr>"
    unfolding model_validate_def Let_def by (simp add: fields)
  moreover have "vs_class s = cls" using ok by (simp add: set_ok_def)
  ultimately show ?thesis by (simp add: pid)
qed

section \<open>Saving and reading a calibration\<close>

lemma units_of_first:
  assumes "set_ok parse cls s" and "cls \<noteq> CouplerCalibration"
  shows "texts_only (first_units (s # ss)) = Inr (picked unit_of (filter (\<lambda>kf. fst kf \<noteq> ''id'') (vs_fields s)))"
proof -
  have "k = ''id'' \<or> (\<exists>v. f = Value v)" if kf: "(k, f) \<in> set (vs_fields s)" for k f
  proof -
    have "k \<in> set (map fst (vs_fields s))" using kf by force
    moreover have "map fst (vs_fields s) = map fst (model_fields cls)" using assms(1) by (simp add: set_ok_def)
    ultimately obtain ty where kty: "(k, ty) \<in> set (model_fields cls)" by (simp only:) auto
    then obtain f' where "map_of (vs_fields s) k = Some f'" "field_ok parse cls k ty f'"
      by (rule set_ok_field [OF assms(1)])
    then have "field_ok parse cls k ty f" using kf set_ok_distinct [OF assms(1)] by simp
    then show ?thesis using model_fields_facts(3) [OF kty] by (cases f) (auto simp: field_ok_def)
  qed
  then have "\<forall>(k, f)\<in>set (vs_fields s). k = ''id'' \<or> (\<exists>v. f = Value v)" by blast
  from texts_dump [OF this] show ?thesis by (simp add: first_units_def)
qed

text \<open>Sets whose values have no date and the units of the first set.\<close>

definition uniform :: "value_set list \<Rightarrow> bool" where
  "uniform sets \<longleftrightarrow> (\<forall>s\<in>set sets. \<forall>k c. map_of (vs_fields s) k = Some (Value (Some c)) \<longrightarrow>
     cv_date c = None \<and> (\<exists>c0. map_of (vs_fields (hd sets)) k = Some (Value (Some c0)) \<and> cv_unit c0 = cv_unit c))"

lemma reunit_uniform:
  assumes "uniform (s0 # ss)" and "s \<in> set (s0 # ss)" and ok: "\<forall>s\<in>set (s0 # ss). set_ok parse cls s"
  shows "s\<lparr>vs_fields := map (\<lambda>(k, f). (k, reunit (picked unit_of (filter (\<lambda>kf. fst kf \<noteq> ''id'') (vs_fields s0))) k f)) (vs_fields s)\<rparr> = s"
proof -
  let ?U = "picked unit_of (filter (\<lambda>kf. fst kf \<noteq> ''id'') (vs_fields s0))"
  have oks: "set_ok parse cls s" "set_ok parse cls s0" using assms(2) ok by auto
  have "reunit ?U k f = f" if kf: "(k, f) \<in> set (vs_fields s)" for k f
  proof (cases "\<exists>c. f = Value (Some c)")
    case True
    then obtain c where c: "f = Value (Some c)" by blast
    have "map_of (vs_fields s) k = Some (Value (Some c))" using kf set_ok_distinct [OF oks(1)] by (simp add: c)
    then have "cv_date c = None \<and> (\<exists>c0. map_of (vs_fields (hd (s0 # ss))) k = Some (Value (Some c0)) \<and> cv_unit c0 = cv_unit c)"
      using assms(1) [unfolded uniform_def, THEN bspec, OF assms(2)] by blast
    then obtain c0 where c0: "cv_date c = None" "map_of (vs_fields s0) k = Some (Value (Some c0))" "cv_unit c0 = cv_unit c"
      by auto
    have "k \<noteq> ''id''" using set_ok_id [OF oks(2)] c0(2) by force
    then have "(k, Value (Some c0)) \<in> set (filter (\<lambda>kf. fst kf \<noteq> ''id'') (vs_fields s0))"
      using map_of_SomeD [OF c0(2)] by simp
    moreover have "distinct (map fst (filter (\<lambda>kf. fst kf \<noteq> ''id'') (vs_fields s0)))"
      using set_ok_distinct [OF oks(2)] by (rule distinct_map_filter)
    note d = this
    ultimately have "map_of (filter (\<lambda>kf. fst kf \<noteq> ''id'') (vs_fields s0)) k = Some (Value (Some c0))"
      by (intro map_of_is_SomeI)
    then have "map_of ?U k = Some (cv_unit c)" using map_of_picked [OF d, of k "Value (Some c0)" unit_of] c0(3) by simp
    then show ?thesis using c0(1) by (simp add: c reunit_def)
  next
    case False
    then show ?thesis by (auto simp: reunit_def split: field.splits option.splits)
  qed
  then have "map (\<lambda>(k, f). (k, reunit ?U k f)) (vs_fields s) = vs_fields s" by (intro map_idI) auto
  then show ?thesis by simp
qed

lemma dumped_set:
  assumes "set_ok parse cls s" and "cls \<noteq> CouplerCalibration"
  shows "\<exists>r n. model_dump_scalar True s = Inr r \<and> scalars_only r = Inr (picked (\<lambda>_. dump_scalar) (vs_fields s) @ [(''name'', n)])"
proof -
  obtain i where i: "map_of (vs_fields s) ''id'' = Some (Plain (Some (Num (of_int i))))" by (rule set_ok_id [OF assms(1)])
  have "vs_class s \<noteq> CouplerCalibration" using assms by (simp add: set_ok_def)
  then have "model_dump_scalar True s = Inr (dump_fields dump_scalar True s @ [(''name'', Some (Txt (CHR ''q'' # int_text i)))])"
    by (simp add: model_dump_scalar_def computed_fields_def id_name_def plain_def i)
  then show ?thesis using scalars_dump by blast
qed

text \<open>The records of a kind, dumped with the units of the first, are read as they were.\<close>

lemma kind_roundtrip:
  assumes ok: "\<forall>s\<in>set sets. set_ok parse cls s" and cls: "cls \<noteq> CouplerCalibration" and "uniform sets"
  obtains rs U records where "map_result (model_dump_scalar True) sets = Inr rs" "texts_only (first_units sets) = Inr U"
    "map_result scalars_only rs = Inr records"
    "\<forall>conf. config_records cls conf = records \<longrightarrow> units_of conf cls = U \<longrightarrow> from_calib_config parse cls conf = Inr sets"
proof (cases sets)
  case Nil
  then show thesis
    by (intro that [of "[]" "[]" "[]"]) (simp_all add: first_units_def texts_only_def from_calib_config_def attach_units_many_def)
next
  case (Cons s0 ss)
  let ?U = "picked unit_of (filter (\<lambda>kf. fst kf \<noteq> ''id'') (vs_fields s0))"
  have "\<forall>s\<in>set sets. \<exists>r n. model_dump_scalar True s = Inr r \<and> scalars_only r = Inr (picked (\<lambda>_. dump_scalar) (vs_fields s) @ [(''name'', n)])"
    using ok dumped_set [OF _ cls] by blast
  then obtain r n where rn: "\<forall>s\<in>set sets. model_dump_scalar True s = Inr (r s) \<and>
      scalars_only (r s) = Inr (picked (\<lambda>_. dump_scalar) (vs_fields s) @ [(''name'', n s)])" by metis
  let ?rec = "\<lambda>s. picked (\<lambda>_. dump_scalar) (vs_fields s) @ [(''name'', n s)]"
  have 1: "map_result (model_dump_scalar True) sets = Inr (map r sets)" "map_result scalars_only (map r sets) = Inr (map ?rec sets)"
    using rn by (simp_all add: map_result_Inr list_all2_conv_all_nth)
  have "texts_only (first_units sets) = Inr ?U" using units_of_first [of parse cls s0 ss, OF _ cls] ok by (simp add: Cons)
  moreover have "from_calib_config parse cls conf = Inr sets"
    if "config_records cls conf = map ?rec sets" "units_of conf cls = ?U" for conf
  proof -
    have "bind_result (plain_id (attach_units (?rec s) ?U)) (model_validate parse cls) = Inr s" if s: "s \<in> set sets" for s
    proof -
      have "set_ok parse cls s" using ok s by blast
      moreover have "s\<lparr>vs_fields := map (\<lambda>(k, f). (k, reunit ?U k f)) (vs_fields s)\<rparr> = s"
        by (rule reunit_uniform) (use assms(3) s ok in \<open>simp_all only: Cons\<close>)
      ultimately show ?thesis by (simp only: read_back [OF _ cls])
    qed
    then show ?thesis
      by (simp add: from_calib_config_def attach_units_many_def that map_result_Inr list_all2_conv_all_nth)
  qed
  ultimately show thesis using that 1 by blast
qed

lemma not_coupler: "QubitCalibration \<noteq> CouplerCalibration" "ResonatorCalibration \<noteq> CouplerCalibration"
  by simp_all

text \<open>
  C11. A calibration without couplers that is saved as the seed of the configuration is, at the next
  start, read back as it was, its qubits and resonators value by value and unit by unit, provided all
  values of a name have the unit that the first qubit gives it.
\<close>
theorem seed_roundtrip:
  assumes "\<forall>s\<in>set (dc_qubits c). set_ok parse QubitCalibration s" and "uniform (dc_qubits c)"
    and "dc_resonators c = Some rs" and "\<forall>s\<in>set rs. set_ok parse ResonatorCalibration s" and "uniform rs"
    and "dc_couplers c = Some []" and "dc_discriminators c = Some ds"
    and "gc_name (bc_general_config b) = dc_name c" and "gc_version (bc_general_config b) = dc_version c"
  shows "\<exists>conf. to_toml c = Inr conf \<and>
    from_config parse now (b\<lparr>bc_calibration_config := Some conf\<rparr>) = Inr (c\<lparr>dc_last_calibrated := now\<rparr>)"
proof -
  obtain rq Uq recq where q: "map_result (model_dump_scalar True) (dc_qubits c) = Inr rq" "texts_only (first_units (dc_qubits c)) = Inr Uq"
    "map_result scalars_only rq = Inr recq"
    "\<forall>conf. config_records QubitCalibration conf = recq \<longrightarrow> units_of conf QubitCalibration = Uq \<longrightarrow>
       from_calib_config parse QubitCalibration conf = Inr (dc_qubits c)"
    by (rule kind_roundtrip [OF assms(1) not_coupler(1) assms(2)])
  obtain rr Ur recr where r: "map_result (model_dump_scalar True) rs = Inr rr" "texts_only (first_units rs) = Inr Ur"
    "map_result scalars_only rr = Inr recr"
    "\<forall>conf. config_records ResonatorCalibration conf = recr \<longrightarrow> units_of conf ResonatorCalibration = Ur \<longrightarrow>
       from_calib_config parse ResonatorCalibration conf = Inr rs"
    by (rule kind_roundtrip [OF assms(4) not_coupler(2) assms(5)])
  let ?conf = "\<lparr>cc_units = [(''qubit'', Uq), (''coupler'', []), (''readout_resonator'', Ur), (''discriminators'', [])],
    cc_qubit = recq, cc_readout_resonator = recr, cc_discriminators = ds, cc_coupler = []\<rparr>"
  have "to_toml c = Inr ?conf"
    using q(1-3) r(1-3) assms(3,6,7) by (simp add: to_toml_def sets_or_none_def first_units_def texts_only_def)
  moreover have "from_calib_config parse QubitCalibration ?conf = Inr (dc_qubits c)" using q(4) by (simp add: units_of_def)
  moreover have "from_calib_config parse ResonatorCalibration ?conf = Inr rs" using r(4) by (simp add: units_of_def)
  moreover have "from_calib_config parse CouplerCalibration ?conf = Inr []"
    by (simp add: from_calib_config_def attach_units_many_def)
  ultimately show ?thesis
    using assms(3,6-9) by (intro exI [of _ ?conf]) (simp add: from_config_def)
qed

definition sample_set :: "set_class \<Rightarrow> value_set" where
  "sample_set cls = \<lparr>vs_class = cls, vs_fields = map (\<lambda>(k, ty). (k,
     if ty = IdField then Plain (Some (Num 6))
     else if k = ''frequency'' then Value (from_scalar (Some (Num 5)) ''GHz'')
     else default_field cls k ty)) (model_fields cls)\<rparr>"

lemma sample_set_ok: "cls \<noteq> CouplerCalibration \<Longrightarrow> set_ok parse cls (sample_set cls)"
  by (cases cls) (simp_all add: set_ok_def sample_set_def field_ok_def default_field_def from_scalar_def exI [of _ 6])

lemma sample_set_uniform: "cls \<noteq> CouplerCalibration \<Longrightarrow> uniform [sample_set cls]"
  by (cases cls) (simp_all add: uniform_def sample_set_def default_field_def from_scalar_def)

definition sample_calibration :: device_calibration where
  "sample_calibration = \<lparr>dc_name = ''dev'', dc_version = ''1'', dc_qubits = [sample_set QubitCalibration],
     dc_resonators = Some [sample_set ResonatorCalibration], dc_couplers = Some [], dc_discriminators = Some [],
     dc_last_calibrated = ''then''\<rparr>"

definition sample_backend :: backend_config where
  "sample_backend = \<lparr>bc_name = None, bc_general_config = \<lparr>gc_name = ''dev'', gc_num_qubits = 1, gc_num_couplers = 0,
     gc_num_resonators = 1, gc_dt = 1, gc_dtm = 1, gc_description = [], gc_is_active = True, gc_characterized = True,
     gc_open_pulse = True, gc_simulator = False, gc_version = ''1'', gc_online_date = []\<rparr>,
     bc_device_config = \<lparr>dv_qubit_ids = [''q6''], dv_coupling_dict = [], dv_qubit_ids_coupler_map = [], dv_coordinates = [],
       dv_coupling_map = None, dv_meas_map = [], dv_fixed_duration_couplers = [], dv_reverse_phase_qubits = []\<rparr>,
     bc_gates = [], bc_calibration_config = None\<rparr>"

theorem seed_roundtrip_witness:
  "\<exists>conf. to_toml sample_calibration = Inr conf \<and>
    from_config (\<lambda>_. None) ''now'' (sample_backend\<lparr>bc_calibration_config := Some conf\<rparr>) =
      Inr (sample_calibration\<lparr>dc_last_calibrated := ''now''\<rparr>)"
  by (rule seed_roundtrip [where rs = "[sample_set ResonatorCalibration]" and ds = "[]"])
    (simp_all add: sample_calibration_def sample_backend_def sample_set_ok sample_set_uniform)

section \<open>Calibrated couplers\<close>

lemma map_result_elem: "map_result f xs = Inr ys \<Longrightarrow> x \<in> set xs \<Longrightarrow> \<exists>y\<in>set ys. f x = Inr y"
  by (induction xs arbitrary: ys) (auto split: sum.splits)

lemma map_result_Inl: "x \<in> set xs \<Longrightarrow> f x = Inl e \<Longrightarrow> \<exists>e'. map_result f xs = Inl e'"
  using map_result_elem [of f xs] by (cases "map_result f xs") fastforce+

lemma validated_field:
  assumes "model_validate parse cls d = Inr s" and "(k, ty) \<in> set (model_fields cls)" and "map_of d k = Some r"
  obtains f where "validate_field parse cls ty r = Inr f" "(k, f) \<in> set (vs_fields s)" "vs_class s = cls"
proof -
  let ?read = "\<lambda>(k, ty). case map_of d k of None \<Rightarrow> Inr (k, default_field cls k ty)
      | Some r \<Rightarrow> bind_result (validate_field parse cls ty r) (\<lambda>f. Inr (k, f))"
  obtain fs where fs: "map_result ?read (model_fields cls) = Inr fs" "s = \<lparr>vs_class = cls, vs_fields = fs\<rparr>"
    using assms(1) unfolding model_validate_def Let_def
    by (cases "map_result ?read (model_fields cls)") (auto split: if_splits)
  obtain y where y: "y \<in> set fs" "?read (k, ty) = Inr y" using map_result_elem [OF fs(1) assms(2)] by blast
  then obtain f where "validate_field parse cls ty r = Inr f" "y = (k, f)"
    using assms(3) by (cases "validate_field parse cls ty r") simp_all
  with y(1) fs(2) show thesis by (intro that) simp_all
qed

lemma scalars_only_keys: "scalars_only xs = Inr ys \<Longrightarrow> map fst ys = map fst xs"
proof (induction xs arbitrary: ys)
  case Nil
  then show ?case by (simp add: scalars_only_def)
next
  case (Cons kv xs)
  obtain k v where kv: "kv = (k, v)" by (cases kv)
  with Cons.prems obtain x zs where "v = Some x" "scalars_only xs = Inr zs" "ys = (k, x) # zs"
    by (cases v; cases "scalars_only xs") (auto simp: scalars_only_def)
  with Cons.IH kv show ?case by simp
qed

text \<open>A record with a full name is refused.\<close>

lemma full_name_refused:
  assumes "''full_name'' \<in> fst ` set r"
  shows "\<exists>e. bind_result (plain_id (attach_units r U)) (model_validate parse CouplerCalibration) = Inl e"
proof (cases "plain_id (attach_units r U)")
  case (Inr d)
  obtain v where "map_of r ''full_name'' = Some v"
    using assms by (cases "map_of r ''full_name''") (auto simp: map_of_eq_None_iff)
  then obtain v u where "map_of (attach_units r U) ''full_name'' = Some (Dict_Raw v u)" by (simp add: map_of_attach)
  moreover from Inr obtain w where "d = AList.update ''id'' (Scalar_Raw w) (attach_units r U)"
    by (cases "dict_get (attach_units r U) ''id''") (auto simp: plain_id_def split: raw.splits)
  ultimately have d: "map_of d ''full_name'' = Some (Dict_Raw v u)" by (simp add: update_conv')
  have t: "(''full_name'', TextField) \<in> set (model_fields CouplerCalibration)" by simp
  show ?thesis
  proof (cases "model_validate parse CouplerCalibration d")
    case (Inr s)
    from validated_field [OF Inr t d] show ?thesis by (simp add: validate_field_def)
  qed (simp add: Inr)
qed simp

lemma coupler_full_name:
  assumes "coupler_from_results parse rev_qubits idx (coupler, d) = Inr s"
  shows "(''full_name'', Plain (Some (Txt coupler))) \<in> set (vs_fields s)"
proof -
  obtain ph where ph: "get_local_phases coupler d rev_qubits = Inr ph"
    using assms by (cases "get_local_phases coupler d rev_qubits") (simp_all add: coupler_from_results_def)
  obtain ps where v: "model_validate parse CouplerCalibration ((''id'', Scalar_Raw (Num (of_int idx))) #
      (''full_name'', Scalar_Raw (Txt coupler)) # ps) = Inr s"
    using assms by (simp add: coupler_from_results_def ph split_beta)
  have t: "(''full_name'', TextField) \<in> set (model_fields CouplerCalibration)" by simp
  have l: "map_of ((''id'', Scalar_Raw (Num (of_int idx))) # (''full_name'', Scalar_Raw (Txt coupler)) # ps) ''full_name'' =
      Some (Scalar_Raw (Txt coupler))" by simp
  from validated_field [OF v t l] show ?thesis by (auto simp: validate_field_def)
qed

lemma dumped_key:
  assumes "model_dump_scalar True s = Inr r" and "(k, Plain (Some v)) \<in> set (vs_fields s)"
  shows "k \<in> fst ` set r"
proof -
  obtain cs where "r = dump_fields dump_scalar True s @ cs"
    using assms(1) by (cases "computed_fields s") (auto simp: model_dump_scalar_def)
  moreover have "(k, Some v) \<in> set (dump_fields dump_scalar True s)" using assms(2) by (force simp: dump_fields_def)
  ultimately show ?thesis by force
qed

text \<open>
  When a calibration covers a coupler that the backend knows, the seed it leaves cannot be read:
  the name of the coupler gets a unit like every other entry and is refused at the next start.
\<close>
lemma calibrated_seed_refused:
  assumes "from_calib_results parse name_id_map rev_qubits nam version last_calibrated data = Inr c"
    and "(coupler, d) \<in> set (cr_couplers data)" and "map_of name_id_map coupler = Some idx" and "to_toml c = Inr conf"
  shows "\<exists>e. from_config parse now (b\<lparr>bc_calibration_config := Some conf\<rparr>) = Inl e"
proof -
  obtain cs where cs: "couplers_from_results parse name_id_map rev_qubits data = Inr cs" "dc_couplers c = Some cs"
    using assms(1) unfolding from_calib_results_def
    by (cases "map_result (qubit_from_results parse) (cr_transmons data)";
        cases "map_result (resonator_from_results parse) (cr_transmons data)";
        cases "couplers_from_results parse name_id_map rev_qubits data") auto
  have "(idx, (coupler, d)) \<in> set (List.map_filter (\<lambda>kv. map_option (\<lambda>idx. (idx, kv)) (map_of name_id_map (fst kv))) (cr_couplers data))"
    using assms(2,3) by (force simp: List.map_filter_def)
  from map_result_elem [OF cs(1) [unfolded couplers_from_results_def] this]
  obtain s where s: "s \<in> set cs" "coupler_from_results parse rev_qubits idx (coupler, d) = Inr s" by auto
  obtain qs rs ds where dumps: "map_result (model_dump_scalar True) cs = Inr ds" "map_result scalars_only ds = Inr (cc_coupler conf)"
    using assms(4) unfolding to_toml_def cs(2)
    by (auto simp: sets_or_none_def bind_result_def split: sum.splits if_splits option.splits)
  obtain r where r: "r \<in> set ds" "model_dump_scalar True s = Inr r" using map_result_elem [OF dumps(1) s(1)] by blast
  obtain r' where r': "r' \<in> set (cc_coupler conf)" "scalars_only r = Inr r'" using map_result_elem [OF dumps(2) r(1)] by blast
  have "''full_name'' \<in> fst ` set r" by (rule dumped_key [OF r(2) coupler_full_name [OF s(2)]])
  moreover have "set (map fst r') = set (map fst r)" using scalars_only_keys [OF r'(2)] by simp
  ultimately have "''full_name'' \<in> fst ` set r'" by simp
  from full_name_refused [OF this] obtain e where e:
    "bind_result (plain_id (attach_units r' (units_of conf CouplerCalibration))) (model_validate parse CouplerCalibration) = Inl e"
    by blast
  have "attach_units r' (units_of conf CouplerCalibration) \<in>
      set (attach_units_many (config_records CouplerCalibration conf) (units_of conf CouplerCalibration))"
    using r'(1) by (simp add: attach_units_many_def)
  then have "\<exists>e'. from_calib_config parse CouplerCalibration conf = Inl e'"
    unfolding from_calib_config_def using e by (rule map_result_Inl)
  then obtain e' where "from_calib_config parse CouplerCalibration conf = Inl e'" by blast
  then show ?thesis
    by (cases "from_calib_config parse QubitCalibration conf"; cases "from_calib_config parse ResonatorCalibration conf")
      (simp_all add: from_config_def)
qed

definition sample_transmon :: transmon where
  "sample_transmon = \<lparr>tm_f01 = Some 5, tm_amp180 = None, tm_duration = None, tm_motzoi = None, tm_sigma = Some 0,
     tm_t1_time = None, tm_t2_echo_time = None, tm_acq_delay = None, tm_integration_time = None,
     tm_readout_2state_opt = Some 7, tm_ro_pulse_delay = None, tm_pulse_duration = None, tm_pulse_amp = None,
     tm_lda_coef_0 = Num 1, tm_lda_coef_1 = Num 2, tm_lda_intercept = Num 3\<rparr>"

definition sample_coupler_data :: coupler_data where
  "sample_coupler_data = \<lparr>cp_cz_pulse_frequency = 1, cp_cz_pulse_amplitude = None, cp_parking_current = Some 0,
     cp_cz_pulse_duration = None, cp_cz_dynamic_control = 90, cp_cz_dynamic_target = 45\<rparr>"

definition sample_results :: calibration_results where
  "sample_results = \<lparr>cr_transmons = [(''q6'', sample_transmon)], cr_couplers = [(''q6_q7'', sample_coupler_data)]\<rparr>"

section \<open>Phases of couplers\<close>

text \<open>How many of two qubits are affected and of a parity.\<close>

definition flips :: "int \<Rightarrow> nat list \<Rightarrow> (nat \<Rightarrow> bool) \<Rightarrow> nat" where
  "flips parity qubits affected = length (filter (\<lambda>n. affected n \<and> int n mod 2 = parity) qubits)"

lemma flip_phase_number:
  "flip_phase (CHR ''q'' # nat_text n) (c, t) = Inr (if even n then (- c, t) else (c, - t))"
proof -
  have "int n mod 2 = 0 \<longleftrightarrow> even n" by presburger
  then show ?thesis by (simp add: flip_phase_def lstrip_q)
qed

text \<open>
  The phases of a coupler are those the calibration measured, the first with a sign for every
  even qubit of the coupler that is listed as reversed, the second for every odd one: two reversed
  qubits of one parity cancel.
\<close>
theorem local_phases_by_parity:
  assumes "a \<noteq> b"
  shows "get_local_phases ((CHR ''q'' # nat_text a) @ ''_'' @ CHR ''q'' # nat_text b) d rev_qubits =
    Inr (deg2rad ((- 1) ^ flips 0 [a, b] (\<lambda>n. CHR ''q'' # nat_text n \<in> set rev_qubits) * cp_cz_dynamic_control d),
         deg2rad ((- 1) ^ flips 1 [a, b] (\<lambda>n. CHR ''q'' # nat_text n \<in> set rev_qubits) * cp_cz_dynamic_target d))"
proof -
  let ?qa = "CHR ''q'' # nat_text a" and ?qb = "CHR ''q'' # nat_text b"
  have u: "CHR ''_'' \<notin> set (nat_text n)" for n using nat_text_digits [of n] by (auto simp: dec_value_def)
  have s: "py_split ''_'' (?qa @ ''_'' @ ?qb) = [?qa, ?qb]" using u by (intro py_split_two) simp_all
  have ne: "?qa \<noteq> ?qb" using assms nat_text_inj by auto
  have m: "int n mod 2 = 0 \<longleftrightarrow> even n" "int n mod 2 = 1 \<longleftrightarrow> odd n" for n by presburger+
  show ?thesis
    unfolding get_local_phases_def s
    by (cases "even a"; cases "even b"; cases "?qa \<in> set rev_qubits"; cases "?qb \<in> set rev_qubits")
      (use ne in \<open>simp_all add: flip_phase_number flips_def m\<close>)
qed

theorem local_phases_by_parity_witness:
  "get_local_phases ''q6_q8'' sample_coupler_data [''q6'', ''q8''] = get_local_phases ''q6_q8'' sample_coupler_data []"
proof -
  have t: "nat_text 6 = ''6''" "nat_text 8 = ''8''" by code_simp+
  show ?thesis
    using local_phases_by_parity [of 6 8 sample_coupler_data "[''q6'', ''q8'']"]
      local_phases_by_parity [of 6 8 sample_coupler_data "[]"]
    by (simp add: t flips_def)
qed

end
