(* ===== verification/Recalibration.thy ===== *)
theory Recalibration imports Calibration_Properties begin

text \<open>
  A recalibration of the device: \<^verbatim>\<open>app/libs/quantum_executor/quantify/utils/calibration.py\<close> and
  \<open>recalibrate\<close> of \<^verbatim>\<open>quantify/executor.py\<close>. The tuner's \<open>run_node\<close>, the session it keeps and the
  results it reads are parameters.
\<close>

section \<open>The nodes\<close>

datatype node =
    RESONATOR_SPECTROSCOPY | QUBIT_01_SPECTROSCOPY | RABI_OSCILLATIONS | RAMSEY_CORRECTION | MOTZOI_PARAMETER
  | N_RABI_OSCILLATIONS | RESONATOR_SPECTROSCOPY_1 | RO_FREQUENCY_TWO_STATE_OPTIMIZATION
  | RO_AMPLITUDE_TWO_STATE_OPTIMIZATION | QUBIT_12_SPECTROSCOPY | RABI_OSCILLATIONS_12 | RAMSEY_CORRECTION_12
  | MOTZOI_12_PARAMETER | RO_FREQUENCY_THREE_STATE_OPTIMIZATION | RO_AMPLITUDE_THREE_STATE_OPTIMIZATION
  | RANDOMIZED_BENCHMARKING | CZ_CHEVRON | CZ_CALIBRATION | CZ_LOCAL_PHASES | CZ_RB

datatype run_mode = ALL_QUBITS | ONE_QUBIT_AT_A_TIME

definition INITIAL_QUBITS_NODE_RUN_MAP :: "(node \<times> run_mode) list" where
  "INITIAL_QUBITS_NODE_RUN_MAP =
     map (\<lambda>n. (n, ALL_QUBITS)) [RESONATOR_SPECTROSCOPY, QUBIT_01_SPECTROSCOPY, RABI_OSCILLATIONS, RAMSEY_CORRECTION,
       MOTZOI_PARAMETER, N_RABI_OSCILLATIONS, RESONATOR_SPECTROSCOPY_1, RO_FREQUENCY_TWO_STATE_OPTIMIZATION,
       RO_AMPLITUDE_TWO_STATE_OPTIMIZATION, QUBIT_12_SPECTROSCOPY, RABI_OSCILLATIONS_12] @
     [(RAMSEY_CORRECTION_12, ONE_QUBIT_AT_A_TIME)] @
     map (\<lambda>n. (n, ALL_QUBITS)) [MOTZOI_12_PARAMETER, RO_FREQUENCY_THREE_STATE_OPTIMIZATION,
       RO_AMPLITUDE_THREE_STATE_OPTIMIZATION, RANDOMIZED_BENCHMARKING]"

definition FIXED_DURATION_COUPLER_NODES :: "node list" where
  "FIXED_DURATION_COUPLER_NODES = [CZ_CHEVRON, CZ_CALIBRATION, CZ_LOCAL_PHASES, CZ_RB]"

definition NON_FIXED_DURATION_COUPLER_NODES :: "node list" where
  "NON_FIXED_DURATION_COUPLER_NODES = [CZ_CALIBRATION, CZ_LOCAL_PHASES, CZ_RB]"

section \<open>Running them\<close>

text \<open>One call of \<open>run_node\<close>; without couplers of its own it gets those of the options.\<close>

record node_call =
  nc_qubits :: "string list"
  nc_couplers :: "string list option"
  nc_node :: node

fun run_calls :: "('s option \<Rightarrow> node_call \<Rightarrow> 's result) \<Rightarrow> 's option \<Rightarrow> node_call list \<Rightarrow> 's option result" where
  "run_calls run_node session [] = Inr session"
| "run_calls run_node session (c # cs) = bind_result (run_node session c) (\<lambda>s. run_calls run_node (Some s) cs)"

definition qubit_calls :: "string list \<Rightarrow> node \<times> run_mode \<Rightarrow> node_call list" where
  "qubit_calls qubits nm = (let (n, mode) = nm in
     case mode of
       ALL_QUBITS \<Rightarrow> [\<lparr>nc_qubits = qubits, nc_couplers = None, nc_node = n\<rparr>]
     | ONE_QUBIT_AT_A_TIME \<Rightarrow> map (\<lambda>q. \<lparr>nc_qubits = [q], nc_couplers = None, nc_node = n\<rparr>) qubits)"

definition recalibrate_all_qubits ::
    "('s option \<Rightarrow> node_call \<Rightarrow> 's result) \<Rightarrow> string list \<Rightarrow> 's option result" where
  "recalibrate_all_qubits run_node qubits =
     run_calls run_node None (concat (map (qubit_calls qubits) INITIAL_QUBITS_NODE_RUN_MAP))"

definition coupler_calls :: "string list \<Rightarrow> string \<Rightarrow> node_call list" where
  "coupler_calls fixed_duration_couplers coupler =
     map (\<lambda>n. \<lparr>nc_qubits = py_split ''_'' coupler, nc_couplers = Some [coupler], nc_node = n\<rparr>)
       (if coupler \<in> set fixed_duration_couplers then FIXED_DURATION_COUPLER_NODES else NON_FIXED_DURATION_COUPLER_NODES)"

text \<open>What is read of a session.\<close>

record 's session_fields =
  sf_couplers :: "'s \<Rightarrow> string list"
  sf_fixed_duration_couplers :: "'s \<Rightarrow> string list"
  sf_reverse_phase_qubits :: "'s \<Rightarrow> string list"
  sf_read_result :: "'s \<Rightarrow> calibration_results"

definition recalibrate_all_couplers ::
    "('s option \<Rightarrow> node_call \<Rightarrow> 's result) \<Rightarrow> 's session_fields \<Rightarrow> 's option \<Rightarrow> 's option result" where
  "recalibrate_all_couplers run_node F session =
     (case session of
        None \<Rightarrow> Inl AttributeError
      | Some s \<Rightarrow> run_calls run_node (Some s) (concat (map (coupler_calls (sf_fixed_duration_couplers F s)) (sf_couplers F s))))"

definition coupler_index_map :: "(string \<times> (string \<times> string)) list \<Rightarrow> (string \<times> int) list result" where
  "coupler_index_map coupling_dict =
     bind_result (map_result (\<lambda>(k, (q1, q2)). bind_result (int_of_text (lstrip_char CHR ''u'' k)) (\<lambda>n.
       Inr (q1 @ ''_'' @ q2, n))) coupling_dict) (\<lambda>kvs. Inr (dict_of kvs))"

definition tune ::
    "(string \<Rightarrow> rat option) \<Rightarrow> ('s option \<Rightarrow> node_call \<Rightarrow> 's result) \<Rightarrow> 's session_fields \<Rightarrow> string
      \<Rightarrow> backend_config \<Rightarrow> device_calibration result" where
  "tune parse run_node F now b =
     bind_result (recalibrate_all_qubits run_node (dv_qubit_ids (bc_device_config b))) (\<lambda>session1.
     bind_result (recalibrate_all_couplers run_node F session1) (\<lambda>session.
       case session of
         None \<Rightarrow> Inl AttributeError
       | Some s \<Rightarrow>
           bind_result (coupler_index_map (dv_coupling_dict (bc_device_config b))) (\<lambda>index_map.
             from_calib_results parse index_map (sf_reverse_phase_qubits F s) (gc_name (bc_general_config b))
               (gc_version (bc_general_config b)) now (sf_read_result F s))))"

text \<open>
  \<open>recalibrate\<close> of the executor: every cluster is tuned in turn, the last calibration is returned and
  becomes the seed; the clusters are given by their tuners.
\<close>

definition executor_recalibrate ::
    "(backend_config \<Rightarrow> device_calibration result) list \<Rightarrow> backend_config
      \<Rightarrow> (device_calibration \<times> calibration_config) option result" where
  "executor_recalibrate clusters b =
     bind_result (map_result (\<lambda>tune_cluster. tune_cluster b) clusters) (\<lambda>results.
       if results = [] then Inr None
       else bind_result (to_toml (last results)) (\<lambda>seed. Inr (Some (last results, seed))))"

section \<open>The next start\<close>

lemma coupler_index_known:
  assumes "coupler_index_map cd = Inr index_map" and "(u, (q1, q2)) \<in> set cd"
  obtains idx where "map_of index_map (q1 @ ''_'' @ q2) = Some idx"
proof -
  let ?f = "\<lambda>(k, (q1, q2)). bind_result (int_of_text (lstrip_char CHR ''u'' k)) (\<lambda>n. Inr (q1 @ ''_'' @ q2, n))"
  obtain kvs where kvs: "map_result ?f cd = Inr kvs" "index_map = dict_of kvs"
    using assms(1) unfolding coupler_index_map_def by (cases "map_result ?f cd") auto
  obtain kv where kv: "kv \<in> set kvs" "?f (u, (q1, q2)) = Inr kv" using map_result_elem [OF kvs(1) assms(2)] by blast
  then have "fst kv = q1 @ ''_'' @ q2" by (cases "int_of_text (lstrip_char CHR ''u'' u)") auto
  then have "q1 @ ''_'' @ q2 \<in> fst ` set kvs" using kv(1) by (metis image_eqI)
  then have "map_of (rev kvs) (q1 @ ''_'' @ q2) \<noteq> None" by (simp only: map_of_eq_None_iff set_rev) blast
  with that show thesis by (auto simp: kvs(2) map_of_dict_of)
qed

lemma tune_result:
  assumes "tune parse run_node F now b = Inr c"
  obtains s index_map where "coupler_index_map (dv_coupling_dict (bc_device_config b)) = Inr index_map"
    "from_calib_results parse index_map (sf_reverse_phase_qubits F s) (gc_name (bc_general_config b))
       (gc_version (bc_general_config b)) now (sf_read_result F s) = Inr c"
  using assms unfolding tune_def bind_result_def by (auto split: sum.splits option.splits)

text \<open>
  C10. A recalibration that succeeds on a device with couplers leaves a seed that the next start of the
  backend refuses, if the results cover any coupler of the device.
\<close>
theorem recalibration_breaks_next_start:
  assumes "executor_recalibrate [tune parse run_node F now] b = Inr (Some (c, seed))"
    and "(u, (q1, q2)) \<in> set (dv_coupling_dict (bc_device_config b))"
    and "\<And>s. q1 @ ''_'' @ q2 \<in> fst ` set (cr_couplers (sf_read_result F s))"
  shows "\<exists>e. from_config parse later (b\<lparr>bc_calibration_config := Some seed\<rparr>) = Inl e"
proof -
  have "tune parse run_node F now b = Inr c" "to_toml c = Inr seed"
    using assms(1) unfolding executor_recalibrate_def
    by (auto simp: bind_result_def split: sum.splits if_splits)
  from this(1) obtain s index_map where s: "coupler_index_map (dv_coupling_dict (bc_device_config b)) = Inr index_map"
    "from_calib_results parse index_map (sf_reverse_phase_qubits F s) (gc_name (bc_general_config b))
       (gc_version (bc_general_config b)) now (sf_read_result F s) = Inr c"
    by (rule tune_result)
  obtain idx where "map_of index_map (q1 @ ''_'' @ q2) = Some idx" by (rule coupler_index_known [OF s(1) assms(2)])
  moreover obtain d where "(q1 @ ''_'' @ q2, d) \<in> set (cr_couplers (sf_read_result F s))" using assms(3) [of s] by force
  ultimately show ?thesis using calibrated_seed_refused [OF s(2)] \<open>to_toml c = Inr seed\<close> by blast
qed

definition sample_session :: "nat session_fields" where
  "sample_session = \<lparr>sf_couplers = (\<lambda>_. [''q6_q7'']), sf_fixed_duration_couplers = (\<lambda>_. []),
     sf_reverse_phase_qubits = (\<lambda>_. []), sf_read_result = (\<lambda>_. sample_results)\<rparr>"

definition coupled_backend :: backend_config where
  "coupled_backend = sample_backend\<lparr>bc_device_config := (bc_device_config sample_backend)\<lparr>dv_qubit_ids := [''q6'', ''q7''],
     dv_coupling_dict := [(''u0'', (''q6'', ''q7''))]\<rparr>\<rparr>"

lemma sample_recalibration:
  "case executor_recalibrate [tune (\<lambda>_. None) (\<lambda>s c. Inr (case s of None \<Rightarrow> 1 | Some n \<Rightarrow> Suc n)) sample_session ''t''] coupled_backend of
     Inr (Some _) \<Rightarrow> True | _ \<Rightarrow> False"
  by code_simp

theorem recalibration_breaks_next_start_witness:
  "\<exists>c seed e. executor_recalibrate [tune (\<lambda>_. None) (\<lambda>s c. Inr (case s of None \<Rightarrow> 1 | Some n \<Rightarrow> Suc n)) sample_session ''t'']
       coupled_backend = Inr (Some (c, seed)) \<and>
     from_config (\<lambda>_. None) ''now'' (coupled_backend\<lparr>bc_calibration_config := Some seed\<rparr>) = Inl e"
proof -
  obtain c seed where r: "executor_recalibrate [tune (\<lambda>_. None) (\<lambda>s c. Inr (case s of None \<Rightarrow> 1 | Some n \<Rightarrow> Suc n)) sample_session ''t'']
      coupled_backend = Inr (Some (c, seed))"
    using sample_recalibration by (auto split: sum.splits option.splits)
  have u: "(''u0'', (''q6'', ''q7'')) \<in> set (dv_coupling_dict (bc_device_config coupled_backend))"
    by (simp add: coupled_backend_def)
  have d: "''q6'' @ ''_'' @ ''q7'' \<in> fst ` set (cr_couplers (sf_read_result sample_session s))" for s
    by (simp add: sample_session_def sample_results_def)
  from recalibration_breaks_next_start [OF r u d] r show ?thesis by blast
qed

end
