(* ===== verification/Serialization.thy ===== *)
theory Serialization imports Main begin

text \<open>
  The run-length code of pulse samples, \<^verbatim>\<open>app/libs/quantum_executor/utils/serialization.py\<close>, and
  \<open>decompress_qobj\<close> of \<^verbatim>\<open>app/services/scheduler/utils.py\<close>, which undoes it for a submitted job. A
  tuple without a count is a pair with \<open>None\<close>.
\<close>

fun groupby :: "'a list \<Rightarrow> ('a \<times> nat) list" where
  "groupby [] = []"
| "groupby (x # xs) = (case groupby xs of
     [] \<Rightarrow> [(x, 1)]
   | (y, n) # gs \<Rightarrow> if x = y then (y, Suc n) # gs else (x, 1) # (y, n) # gs)"

definition iqx_rle :: "'a list \<Rightarrow> ('a \<times> int option) list" where
  "iqx_rle seq = map (\<lambda>(c, rep). if rep > 1 then (c, Some (int rep)) else (c, None)) (groupby seq)"

definition iqx_rld :: "('a \<times> int option) list \<Rightarrow> 'a list" where
  "iqx_rld enc_seq = concat (map (\<lambda>(c, rep). case rep of None \<Rightarrow> [c] | Some n \<Rightarrow> replicate (nat n) c) enc_seq)"

text \<open>The pulse library of a qobj: names and samples.\<close>

definition decompress_qobj :: "(string \<times> ('a \<times> int option) list) list \<Rightarrow> (string \<times> 'a list) list" where
  "decompress_qobj pulse_library = map (\<lambda>(pulse, samples). (pulse, iqx_rld samples)) pulse_library"

section \<open>Decoding undoes encoding\<close>

lemma groupby_facts:
  "\<forall>(c, n)\<in>set (groupby xs). 0 < n" "groupby xs = [] \<longleftrightarrow> xs = []"
  "concat (map (\<lambda>(c, n). replicate n c) (groupby xs)) = xs" "distinct_adj (map fst (groupby xs))"
  by (induction xs) (auto split: list.split)

lemma iqx_rld_rle: "iqx_rld (iqx_rle xs) = xs"
proof -
  have "iqx_rld (iqx_rle xs) = concat (map (\<lambda>(c, n). replicate n c) (groupby xs))"
    unfolding iqx_rld_def iqx_rle_def map_map
  proof (intro arg_cong [where f = concat] map_cong refl)
    fix cn
    assume "cn \<in> set (groupby xs)"
    then have "0 < snd cn" using groupby_facts(1) [of xs] by auto
    then have "snd cn = 1 \<or> 1 < snd cn" by linarith
    then show "((\<lambda>(c, rep). case rep of None \<Rightarrow> [c] | Some n \<Rightarrow> replicate (nat n) c) \<circ>
        (\<lambda>(c, rep). if rep > 1 then (c, Some (int rep)) else (c, None))) cn = (\<lambda>(c, n). replicate n c) cn"
      by (cases cn) auto
  qed
  then show ?thesis by (simp only: groupby_facts(3))
qed

text \<open>
  The pulse library that a client compresses is the one the backend executes: every pulse has its
  samples back. The code of a pulse is as short as runs allow: neighbours differ, and counts are given
  from two on.
\<close>
theorem compressed_library_restored:
  "decompress_qobj (map (\<lambda>(pulse, samples). (pulse, iqx_rle samples)) pulses) = pulses \<and>
   (\<forall>(pulse, samples)\<in>set pulses. distinct_adj (map fst (iqx_rle samples)) \<and> (\<forall>n. Some n \<in> snd ` set (iqx_rle samples) \<longrightarrow> 2 \<le> n))"
proof -
  have "map fst (iqx_rle xs) = map fst (groupby xs)" for xs :: "'a list"
    by (simp add: iqx_rle_def comp_def split_beta if_distrib cong: if_cong)
  moreover have "2 \<le> n" if "Some n \<in> snd ` set (iqx_rle xs)" for n and xs :: "'a list"
    using that by (auto simp: iqx_rle_def split: if_splits)
  ultimately show ?thesis
    by (auto simp: decompress_qobj_def comp_def split_beta iqx_rld_rle groupby_facts(4))
qed

theorem compressed_library_restored_witness:
  "decompress_qobj [(''p'', iqx_rle [1, 1, 2::nat])] = [(''p'', [1, 1, 2])]"
  using compressed_library_restored [of "[(''p'', [1, 1, 2::nat])]"] by simp

end
