(* ===== verification/Mss_Client.thy ===== *)
theory Mss_Client imports Py_Json begin

text \<open>
  The client of the main service (MSS), \<^verbatim>\<open>app/services/external/mss/service.py\<close>. Jobs publish events
  in an outbox of Redis; a client in the background takes them one after the other, sends each over a
  websocket, and publishes the answer in an inbox that every waiting sender reads. The messages a
  sender finds in its inbox come with the moment they arrive; the whole system is a step relation.
\<close>

section \<open>Names, keys and errors\<close>

definition get_inbox_channel_name :: "string \<Rightarrow> string" where
  "get_inbox_channel_name device = device @ '':mss:inbox''"

definition get_outbox_channel_name :: "string \<Rightarrow> string" where
  "get_outbox_channel_name device = device @ '':mss:outbox''"

text \<open>An error of the websocket library, as far as it is told apart.\<close>

datatype ws_error = NetworkError | InvalidMessage bool | InvalidStatus nat | OtherWsError

fun process_websocket_exception :: "ws_error \<Rightarrow> ws_error option" where
  "process_websocket_exception NetworkError = None"
| "process_websocket_exception (InvalidMessage cause_is_eof) = (if cause_is_eof then None else Some (InvalidMessage cause_is_eof))"
| "process_websocket_exception (InvalidStatus code) =
     (if code \<in> {400, 404, 500, 502, 503, 504} then None else Some (InvalidStatus code))"
| "process_websocket_exception OtherWsError = Some OtherWsError"

text \<open>The key of a file is loaded once; \<open>load\<close> reads the file with its password.\<close>

definition get_private_key ::
    "(string \<Rightarrow> string option \<Rightarrow> 'key result) \<Rightarrow> string \<Rightarrow> string option \<Rightarrow> (string \<rightharpoonup> 'key) \<Rightarrow> 'key result \<times> (string \<rightharpoonup> 'key)" where
  "get_private_key load key_file password cache =
     (case cache key_file of
        Some key \<Rightarrow> (Inr key, cache)
      | None \<Rightarrow> (case load key_file password of Inl e \<Rightarrow> (Inl e, cache) | Inr key \<Rightarrow> (Inr key, cache(key_file \<mapsto> key))))"

text \<open>The headers of a connection; \<open>sign\<close> is the signature with a key, in base 64.\<close>

definition create_headers ::
    "(string \<Rightarrow> string option \<Rightarrow> 'key result) \<Rightarrow> ('key \<Rightarrow> string \<Rightarrow> string) \<Rightarrow> string \<Rightarrow> string \<Rightarrow> string option \<Rightarrow> string \<Rightarrow> string
      \<Rightarrow> (string \<rightharpoonup> 'key) \<Rightarrow> (string \<times> string) list result \<times> (string \<rightharpoonup> 'key)" where
  "create_headers load sign key_file device key_password request_id timestamp cache =
     (let message = device @ ''-'' @ request_id @ ''-'' @ timestamp;
          (r, cache') = get_private_key load key_file key_password cache in
      (bind_result r (\<lambda>key. Inr [(''x-request-id'', request_id), (''x-timestamp'', timestamp),
         (''x-signature'', sign key message), (''x-id'', device)]), cache'))"

section \<open>Waiting for the answer\<close>

text \<open>
  What reaches the inbox of a sender: when, and the JSON it is, if any. \<open>get_message\<close> waits for the
  next one at most \<open>timeout\<close> seconds.
\<close>

type_synonym inbox = "(rat \<times> json option) list"

definition response_of :: "json \<Rightarrow> json result" where
  "response_of response = bind_result (json_item response ''status'') (\<lambda>status.
     if status \<noteq> JStr ''success'' then bind_result (json_item response ''detail'') (\<lambda>_. Inl ValueError)
     else Inr response)"

text \<open>
  The loop of \<open>send_event\<close>: what it returns or raises, and when. \<open>pause\<close> is the pause before every
  round, none in the synchronous pipe and a hundredth of a second in the asynchronous one.
\<close>

partial_function (option) wait_response ::
    "rat \<Rightarrow> rat \<Rightarrow> rat \<Rightarrow> json \<Rightarrow> rat \<Rightarrow> inbox \<Rightarrow> (json result \<times> rat) option" where
  "wait_response pause timeout start_time event_id now ms =
     (let now = now + pause in
      if now - start_time > timeout then Some (Inl TimeoutError, now)
      else case ms of
        [] \<Rightarrow> wait_response pause timeout start_time event_id (now + timeout) []
      | m # ms' \<Rightarrow>
          if fst m > now + timeout then wait_response pause timeout start_time event_id (now + timeout) ms
          else case snd m of
            None \<Rightarrow> Some (Inl ValueError, max now (fst m))
          | Some response \<Rightarrow>
             (case json_item response ''id'' of
                Inl e \<Rightarrow> Some (Inl e, max now (fst m))
              | Inr i \<Rightarrow>
                  if i \<noteq> event_id then wait_response pause timeout start_time event_id (max now (fst m)) ms'
                  else Some (response_of response, max now (fst m))))"

definition send_event :: "rat \<Rightarrow> json \<Rightarrow> rat \<Rightarrow> inbox \<Rightarrow> (json result \<times> rat) option" where
  "send_event timeout event_id start_time = wait_response 0 timeout start_time event_id start_time"

definition async_send_event :: "rat \<Rightarrow> json \<Rightarrow> rat \<Rightarrow> inbox \<Rightarrow> (json result \<times> rat) option" where
  "async_send_event timeout event_id start_time = wait_response (1 / 100) timeout start_time event_id start_time"

section \<open>Senders, client and server\<close>

text \<open>
  A sender has not sent yet, waits with the answers it has still to look at, or is done. The client
  is disconnected, ready for the next event, waits for the server, or has lost its outbox while it
  stays connected (\<open>_pubsub_exception_handler\<close> has unsubscribed it).
\<close>

datatype 'r sender = Idle | Waiting "'r list" | Finished "exn + 'r"

datatype client = Disconnected | Ready | Awaiting | Deaf

record ('e, 'r) mss =
  ms_senders :: "'e \<Rightarrow> 'r sender"
  ms_client :: client
  ms_outbox :: "'e list"
  ms_requests :: "'e list"
  ms_responses :: "'r list"
  ms_served :: "'e list"

text \<open>An answer is put in the inbox of every sender that waits.\<close>

fun put :: "'r \<Rightarrow> 'r sender \<Rightarrow> 'r sender" where
  "put r (Waiting rs) = Waiting (rs @ [r])"
| "put r Idle = Idle"
| "put r (Finished x) = Finished x"

text \<open>A sender looks at one answer: not its own, its own, or its own refusal.\<close>

definition look :: "('r \<Rightarrow> 'e) \<Rightarrow> ('r \<Rightarrow> bool) \<Rightarrow> 'e \<Rightarrow> 'r \<Rightarrow> 'r list \<Rightarrow> 'r sender" where
  "look id_of success e r rs =
     (if id_of r \<noteq> e then Waiting rs else if success r then Finished (Inr r) else Finished (Inl ValueError))"

definition initial :: "('e, 'r) mss" where
  "initial = \<lparr>ms_senders = (\<lambda>_. Idle), ms_client = Disconnected, ms_outbox = [], ms_requests = [], ms_responses = [],
     ms_served = []\<rparr>"

inductive step :: "('e \<Rightarrow> 'r) \<Rightarrow> ('r \<Rightarrow> 'e) \<Rightarrow> ('r \<Rightarrow> bool) \<Rightarrow> ('e, 'r) mss \<Rightarrow> ('e, 'r) mss \<Rightarrow> bool"
  for answer id_of success where
  publish: "ms_senders s e = Idle \<Longrightarrow> step answer id_of success s
     (s\<lparr>ms_senders := (ms_senders s)(e := Waiting []),
        ms_outbox := (if ms_client s \<in> {Ready, Awaiting} then ms_outbox s @ [e] else ms_outbox s)\<rparr>)"
| handle: "ms_client s = Ready \<Longrightarrow> ms_outbox s = e # es \<Longrightarrow> step answer id_of success s
     (s\<lparr>ms_client := Awaiting, ms_outbox := es, ms_requests := ms_requests s @ [e]\<rparr>)"
| serve: "ms_requests s = e # es \<Longrightarrow> step answer id_of success s
     (s\<lparr>ms_requests := es, ms_responses := ms_responses s @ [answer e], ms_served := ms_served s @ [e]\<rparr>)"
| deliver: "ms_client s = Awaiting \<Longrightarrow> ms_responses s = r # rs \<Longrightarrow> step answer id_of success s
     (s\<lparr>ms_client := Ready, ms_responses := rs, ms_senders := (\<lambda>e. put r (ms_senders s e))\<rparr>)"
| receive: "ms_senders s e = Waiting (r # rs) \<Longrightarrow> step answer id_of success s
     (s\<lparr>ms_senders := (ms_senders s)(e := look id_of success e r rs)\<rparr>)"
| give_up: "ms_senders s e = Waiting rs \<Longrightarrow> step answer id_of success s
     (s\<lparr>ms_senders := (ms_senders s)(e := Finished (Inl TimeoutError))\<rparr>)"
| handler_fails: "ms_client s \<in> {Ready, Awaiting} \<Longrightarrow> step answer id_of success s (s\<lparr>ms_client := Deaf, ms_outbox := []\<rparr>)"
| disconnect: "step answer id_of success s (s\<lparr>ms_client := Disconnected, ms_outbox := [], ms_requests := [], ms_responses := []\<rparr>)"
| connect: "ms_client s = Disconnected \<Longrightarrow> step answer id_of success s (s\<lparr>ms_client := Ready\<rparr>)"

inductive reachable :: "('e \<Rightarrow> 'r) \<Rightarrow> ('r \<Rightarrow> 'e) \<Rightarrow> ('r \<Rightarrow> bool) \<Rightarrow> ('e, 'r) mss \<Rightarrow> bool"
  for answer id_of success where
  start: "reachable answer id_of success initial"
| next_step: "reachable answer id_of success s \<Longrightarrow> step answer id_of success s s' \<Longrightarrow> reachable answer id_of success s'"

end
