(* ===== verification/Mss_Properties.thy ===== *)
theory Mss_Properties imports Mss_Client begin

text \<open>
  What a sender of an event can rely on: it gets an answer in bounded time, its own answer if one
  comes in time, and no event is served twice, however connections come and go.
\<close>

section \<open>The loop of a sender\<close>

lemma wait_response_ends:
  assumes "0 < timeout" and "0 \<le> pause" and "length ms + n \<le> k"
    and "start + (2 - of_nat n) * timeout \<le> now" and "start \<le> now" and "now \<le> start + 2 * timeout"
  shows "\<exists>r t. wait_response pause timeout start event_id now ms = Some (r, t) \<and> t \<le> start + 2 * timeout + pause"
  using assms(3-)
proof (induction k arbitrary: ms n now)
  case 0
  then have "now + pause - start > timeout" using assms(1,2) by simp
  then have "wait_response pause timeout start event_id now ms = Some (Inl TimeoutError, now + pause)"
    by (subst wait_response.simps) (simp add: Let_def)
  with 0 show ?case by simp
next
  case (Suc k)
  let ?now = "now + pause"
  show ?case
  proof (cases "?now - start > timeout")
    case True
    then have "wait_response pause timeout start event_id now ms = Some (Inl TimeoutError, ?now)"
      by (subst wait_response.simps) (simp add: Let_def)
    with Suc.prems show ?thesis by simp
  next
    case False
    then have late: "?now + timeout \<le> start + 2 * timeout" by simp
    have n: "n \<noteq> 0"
      using False Suc.prems(2) assms(1,2) by (intro notI) simp
    have wait: "\<exists>r t. wait_response pause timeout start event_id (?now + timeout) ms = Some (r, t) \<and> t \<le> start + 2 * timeout + pause"
    proof (rule Suc.IH)
      show "length ms + (n - 1) \<le> k" using Suc.prems(1) n by simp
      have "(of_nat (n - 1) :: rat) = of_nat n - 1" using n by (simp add: of_nat_diff)
      then have "start + (2 - of_nat (n - 1)) * timeout = (start + (2 - of_nat n) * timeout) + timeout"
        by (simp add: left_diff_distrib)
      then show "start + (2 - of_nat (n - 1)) * timeout \<le> ?now + timeout" using Suc.prems(2) assms(2) by linarith
      show "start \<le> ?now + timeout" using Suc.prems(3) assms(1,2) by simp
      show "?now + timeout \<le> start + 2 * timeout" by (rule late)
    qed
    show ?thesis
    proof (cases ms)
      case Nil
      then have "wait_response pause timeout start event_id now ms = wait_response pause timeout start event_id (?now + timeout) ms"
        using False by (subst wait_response.simps) (simp add: Let_def)
      with wait show ?thesis by simp
    next
      case (Cons m ms')
      show ?thesis
      proof (cases "fst m > ?now + timeout")
        case True
        then have "wait_response pause timeout start event_id now ms = wait_response pause timeout start event_id (?now + timeout) ms"
          using False Cons by (subst wait_response.simps) (simp add: Let_def)
        with wait show ?thesis by simp
      next
        case early: False
        define T where "T = max ?now (fst m)"
        have t: "T \<le> start + 2 * timeout" using early late assms(1) by (simp add: T_def)
        have rest: "\<exists>r t. wait_response pause timeout start event_id T ms' = Some (r, t) \<and> t \<le> start + 2 * timeout + pause"
        proof (rule Suc.IH)
          show "length ms' + n \<le> k" using Suc.prems(1) Cons by simp
          show "start + (2 - of_nat n) * timeout \<le> T" "start \<le> T"
            using Suc.prems(2,3) assms(2) by (simp_all add: T_def max_def)
        qed (rule t)
        have "T \<le> start + 2 * timeout + pause" using t assms(2) by simp
        moreover have "wait_response pause timeout start event_id now ms =
            (case snd m of None \<Rightarrow> Some (Inl ValueError, T)
             | Some response \<Rightarrow> (case json_item response ''id'' of Inl e \<Rightarrow> Some (Inl e, T)
                 | Inr i \<Rightarrow> if i \<noteq> event_id then wait_response pause timeout start event_id T ms' else Some (response_of response, T)))"
          unfolding T_def using False early Cons by (subst wait_response.simps) (simp add: Let_def)
        ultimately show ?thesis using rest by (cases "snd m") (auto split: sum.split)
      qed
    qed
  qed
qed

text \<open>
  C26. Sending an event always returns or raises, at most twice the timeout (and one pause) after it
  began, whatever messages come in and when.
\<close>
theorem sending_ends:
  assumes "0 < timeout"
  shows "(\<exists>r t. send_event timeout event_id start ms = Some (r, t) \<and> t \<le> start + 2 * timeout) \<and>
    (\<exists>r t. async_send_event timeout event_id start ms = Some (r, t) \<and> t \<le> start + 2 * timeout + 1 / 100)"
  using wait_response_ends [OF assms, of 0 ms 2 "length ms + 2" start start event_id]
    wait_response_ends [OF assms, of "1 / 100" ms 2 "length ms + 2" start start event_id] assms
  by (simp_all add: send_event_def async_send_event_def)

theorem sending_ends_witness: "\<exists>r t. send_event 120 (JStr ''e'') 0 [(100, None)] = Some (r, t) \<and> t \<le> 240"
  using sending_ends [of 120 "JStr ''e''" 0 "[(100, None)]"] by simp

text \<open>Messages for other events, in the order they arrive.\<close>

definition for_others :: "json \<Rightarrow> inbox \<Rightarrow> bool" where
  "for_others event_id ms \<longleftrightarrow> (\<forall>m\<in>set ms. \<exists>j i. snd m = Some j \<and> json_item j ''id'' = Inr i \<and> i \<noteq> event_id)"

lemma own_answer:
  assumes "for_others event_id others" and "sorted (map fst others)" and "\<forall>m\<in>set others. fst m \<le> t"
    and "json_item j ''id'' = Inr event_id" and "t \<le> start + timeout" and "start \<le> now" and "now \<le> start + timeout"
  shows "wait_response 0 timeout start event_id now (others @ (t, Some j) # rest) = Some (response_of j, max now t)"
  using assms(1-3,6,7)
proof (induction others arbitrary: now)
  case Nil
  then show ?case using assms(4,5) by (subst wait_response.simps) simp
next
  case (Cons m others)
  obtain j' i where m: "snd m = Some j'" "json_item j' ''id'' = Inr i" "i \<noteq> event_id"
    using Cons.prems(1) by (auto simp: for_others_def)
  have le: "fst m \<le> t" using Cons.prems(3) by simp
  have "wait_response 0 timeout start event_id now ((m # others) @ (t, Some j) # rest) =
      wait_response 0 timeout start event_id (max now (fst m)) (others @ (t, Some j) # rest)"
    using m le assms(5) Cons.prems(4,5) by (subst wait_response.simps) simp
  also have "\<dots> = Some (response_of j, max (max now (fst m)) t)"
    by (rule Cons.IH) (use Cons.prems le assms(5) in \<open>simp_all add: for_others_def\<close>)
  also have "max (max now (fst m)) t = max now t" using le by simp
  finally show ?case .
qed

text \<open>
  An answer that arrives within the timeout is the one the sender returns, or the refusal it
  raises, as soon as it is there, however many answers to other events arrive before it.
\<close>
theorem own_answer_returned:
  assumes "for_others event_id others" and "sorted (map fst others)" and "\<forall>m\<in>set others. fst m \<le> t"
    and "json_item response ''id'' = Inr event_id" and "t \<le> start + timeout" and "0 < timeout"
  shows "send_event timeout event_id start (others @ (t, Some response) # rest) = Some (response_of response, max start t)"
  using own_answer [OF assms(1-5), of start rest] assms(6) by (simp add: send_event_def)

theorem own_answer_returned_witness:
  "send_event 120 (JStr ''e'') 0 [(1, Some (JDict [(''id'', JStr ''d'')])),
      (2, Some (JDict [(''id'', JStr ''e''), (''status'', JStr ''success'')]))] =
    Some (Inr (JDict [(''id'', JStr ''e''), (''status'', JStr ''success'')]), 2)"
proof -
  let ?r = "JDict [(''id'', JStr ''e''), (''status'', JStr ''success'')]"
  have r: "json_item ?r ''id'' = Inr (JStr ''e'')" "response_of ?r = Inr ?r"
    by (simp_all add: response_of_def dict_get_def)
  have o: "for_others (JStr ''e'') [(1, Some (JDict [(''id'', JStr ''d'')]))]" by (simp add: for_others_def dict_get_def)
  show ?thesis using own_answer_returned [OF o, of 2 ?r 0 120 "[]"] r by simp
qed

section \<open>Answers and events\<close>

text \<open>What holds in every reachable state.\<close>

definition answers_ok :: "('e \<Rightarrow> 'r) \<Rightarrow> ('e, 'r) mss \<Rightarrow> 'r list \<Rightarrow> bool" where
  "answers_ok answer s rs \<longleftrightarrow> set rs \<subseteq> answer ` set (ms_served s)"

definition sender_ok :: "('e \<Rightarrow> 'r) \<Rightarrow> ('r \<Rightarrow> bool) \<Rightarrow> ('e, 'r) mss \<Rightarrow> 'e \<Rightarrow> bool" where
  "sender_ok answer success s e \<longleftrightarrow>
     (case ms_senders s e of
        Idle \<Rightarrow> e \<notin> set (ms_outbox s @ ms_requests s @ ms_served s)
      | Waiting rs \<Rightarrow> answers_ok answer s rs
      | Finished (Inr r) \<Rightarrow> r = answer e \<and> success r \<and> e \<in> set (ms_served s)
      | Finished (Inl x) \<Rightarrow> x = ValueError \<longrightarrow> \<not> success (answer e) \<and> e \<in> set (ms_served s))"

definition consistent :: "('e \<Rightarrow> 'r) \<Rightarrow> ('r \<Rightarrow> bool) \<Rightarrow> ('e, 'r) mss \<Rightarrow> bool" where
  "consistent answer success s \<longleftrightarrow> distinct (ms_outbox s @ ms_requests s @ ms_served s) \<and>
     answers_ok answer s (ms_responses s) \<and> (\<forall>e. sender_ok answer success s e)"

lemma consistentD:
  assumes "consistent answer success s"
  shows "distinct (ms_outbox s @ ms_requests s @ ms_served s)" "answers_ok answer s (ms_responses s)" "sender_ok answer success s e"
  using assms by (simp_all add: consistent_def)

text \<open>A change that serves no event and puts none back.\<close>

lemma sender_ok_mono:
  assumes "sender_ok answer success s e" and "ms_senders s' e = ms_senders s e"
    and "set (ms_served s) \<subseteq> set (ms_served s')"
    and "ms_senders s e = Idle \<Longrightarrow> e \<notin> set (ms_outbox s' @ ms_requests s' @ ms_served s')"
  shows "sender_ok answer success s' e"
proof -
  have "answer ` set (ms_served s) \<subseteq> answer ` set (ms_served s')" using assms(3) by (rule image_mono)
  then show ?thesis
    using assms unfolding sender_ok_def answers_ok_def by (auto split: sender.splits sum.splits simp del: set_append)
qed

lemma same_sender:
  assumes "consistent answer success s" and "ms_senders s' e = ms_senders s e" and "set (ms_served s) \<subseteq> set (ms_served s')"
    and "set (ms_outbox s' @ ms_requests s' @ ms_served s') \<subseteq> set (ms_outbox s @ ms_requests s @ ms_served s)"
  shows "sender_ok answer success s' e"
proof (rule sender_ok_mono [OF consistentD(3) [OF assms(1)] assms(2,3)])
  assume "ms_senders s e = Idle"
  then have "e \<notin> set (ms_outbox s @ ms_requests s @ ms_served s)"
    using consistentD(3) [OF assms(1), of e] by (simp add: sender_ok_def)
  then show "e \<notin> set (ms_outbox s' @ ms_requests s' @ ms_served s')" using assms(4) by blast
qed

lemma put_ok:
  assumes "sender_ok answer success s e" and "r \<in> answer ` set (ms_served s)" and "ms_senders s' e = put r (ms_senders s e)"
    and "ms_served s' = ms_served s" "ms_outbox s' = ms_outbox s" "ms_requests s' = ms_requests s"
  shows "sender_ok answer success s' e"
  using assms by (cases "ms_senders s e") (simp_all add: sender_ok_def answers_ok_def split: sum.splits)

lemma step_consistent:
  assumes "step answer id_of success s s'" and "\<forall>e. id_of (answer e) = e" and c: "consistent answer success s"
  shows "consistent answer success s'"
  using assms(1)
proof cases
  case (publish e)
  have new: "e \<notin> set (ms_outbox s @ ms_requests s @ ms_served s)"
    using consistentD(3) [OF c, of e] publish(2) by (simp add: sender_ok_def)
  have "sender_ok answer success s' e'" for e'
  proof (cases "e' = e")
    case True
    then show ?thesis by (simp add: publish(1) sender_ok_def answers_ok_def)
  next
    case False
    have idle: "e' \<notin> set (ms_outbox s @ ms_requests s @ ms_served s)" if "ms_senders s e' = Idle"
      using consistentD(3) [OF c, of e'] that by (simp add: sender_ok_def)
    show ?thesis
    proof (rule sender_ok_mono [OF consistentD(3) [OF c]])
      show "ms_senders s' e' = ms_senders s e'" "set (ms_served s) \<subseteq> set (ms_served s')"
        using False by (simp_all add: publish(1))
      show "e' \<notin> set (ms_outbox s' @ ms_requests s' @ ms_served s')" if "ms_senders s e' = Idle"
        using idle [OF that] False by (simp add: publish(1))
    qed
  qed
  moreover have "distinct (ms_outbox s' @ ms_requests s' @ ms_served s')"
    using consistentD(1) [OF c] new by (simp add: publish(1))
  ultimately show ?thesis
    using consistentD(2) [OF c] by (simp add: consistent_def publish(1) answers_ok_def)
next
  case (handle e es)
  have "sender_ok answer success s' e'" for e'
    by (rule same_sender [OF c]) (use handle in auto)
  then show ?thesis using consistentD(1,2) [OF c] by (auto simp: consistent_def handle answers_ok_def)
next
  case (serve e es)
  have "sender_ok answer success s' e'" for e'
    by (rule same_sender [OF c]) (use serve in auto)
  then show ?thesis using consistentD(1,2) [OF c] by (auto simp: consistent_def serve answers_ok_def)
next
  case (deliver r rs)
  have "r \<in> answer ` set (ms_served s)" using consistentD(2) [OF c] by (simp add: deliver(3) answers_ok_def)
  then have "sender_ok answer success s' e" for e
    by (rule put_ok [OF consistentD(3) [OF c]]) (simp_all add: deliver(1))
  then show ?thesis using consistentD(1,2) [OF c] by (simp add: consistent_def deliver answers_ok_def)
next
  case (receive e r rs)
  have rs: "answers_ok answer s (r # rs)" using consistentD(3) [OF c, of e] by (simp add: receive(2) sender_ok_def)
  then obtain e1 where e1: "r = answer e1" "e1 \<in> set (ms_served s)" by (auto simp: answers_ok_def)
  have "sender_ok answer success s' e'" for e'
  proof (cases "e' = e")
    case True
    then show ?thesis using rs e1 assms(2) by (auto simp: receive(1) sender_ok_def answers_ok_def look_def)
  next
    case False
    then show ?thesis by (intro same_sender [OF c]) (simp_all add: receive(1))
  qed
  then show ?thesis using consistentD(1,2) [OF c] by (simp add: consistent_def receive(1) answers_ok_def)
next
  case (give_up e rs)
  have "sender_ok answer success s' e'" for e'
  proof (cases "e' = e")
    case True
    then show ?thesis by (simp add: give_up(1) sender_ok_def)
  next
    case False
    then show ?thesis by (intro same_sender [OF c]) (simp_all add: give_up(1))
  qed
  then show ?thesis using consistentD(1,2) [OF c] by (simp add: consistent_def give_up(1) answers_ok_def)
next
  case handler_fails
  have "sender_ok answer success s' e'" for e'
    by (rule same_sender [OF c]) (use handler_fails in auto)
  then show ?thesis using consistentD(1,2) [OF c] by (simp add: consistent_def handler_fails(1) answers_ok_def)
next
  case disconnect
  have "sender_ok answer success s' e'" for e'
    by (rule same_sender [OF c]) (use disconnect in auto)
  then show ?thesis using consistentD(1,2) [OF c] by (simp add: consistent_def disconnect answers_ok_def)
next
  case connect
  have "sender_ok answer success s' e'" for e'
    by (rule same_sender [OF c]) (use connect in auto)
  then show ?thesis using consistentD(1,2) [OF c] by (simp add: consistent_def connect(1) answers_ok_def)
qed

lemma reachable_consistent:
  assumes "reachable answer id_of success s" and "\<forall>e. id_of (answer e) = e"
  shows "consistent answer success s"
  using assms(1)
proof induction
  case start
  show ?case by (simp add: consistent_def initial_def answers_ok_def sender_ok_def)
next
  case (next_step s s')
  then show ?case using step_consistent assms(2) by blast
qed

text \<open>
  C9. However senders, connections and failures interleave: the service serves no event twice, a
  sender that succeeds has the answer to its own event, which was served, and one that is refused was
  served and refused. (One that gives up may have been served.)
\<close>
theorem answers_are_own:
  assumes "reachable answer id_of success s" and "\<forall>e. id_of (answer e) = e"
  shows "distinct (ms_served s) \<and>
    (\<forall>e r. ms_senders s e = Finished (Inr r) \<longrightarrow> r = answer e \<and> success r \<and> e \<in> set (ms_served s)) \<and>
    (\<forall>e. ms_senders s e = Finished (Inl ValueError) \<longrightarrow> \<not> success (answer e) \<and> e \<in> set (ms_served s))"
proof -
  note c = reachable_consistent [OF assms]
  have "r = answer e \<and> success r \<and> e \<in> set (ms_served s)" if "ms_senders s e = Finished (Inr r)" for e r
    using consistentD(3) [OF c, of e] that unfolding sender_ok_def by auto
  moreover have "\<not> success (answer e) \<and> e \<in> set (ms_served s)" if "ms_senders s e = Finished (Inl ValueError)" for e
    using consistentD(3) [OF c, of e] that by (simp add: sender_ok_def)
  ultimately show ?thesis using consistentD(1) [OF c] by simp
qed

text \<open>Two senders, whose answers cross a third look.\<close>

lemma sample_run:
  "\<exists>s. reachable (\<lambda>e. (e, True)) fst snd s \<and> ms_senders s (1::nat) = Finished (Inr (1, True)) \<and> ms_served s = [1]"
proof -
  let ?step = "step (\<lambda>e. (e, True)) fst snd :: (nat, nat \<times> bool) mss \<Rightarrow> _"
  let ?s1 = "initial\<lparr>ms_client := Ready\<rparr> :: (nat, nat \<times> bool) mss"
  let ?s2 = "?s1\<lparr>ms_senders := (ms_senders ?s1)(1 := Waiting []), ms_outbox := (if ms_client ?s1 \<in> {Ready, Awaiting} then ms_outbox ?s1 @ [1] else ms_outbox ?s1)\<rparr>"
  let ?s3 = "?s2\<lparr>ms_client := Awaiting, ms_outbox := [], ms_requests := ms_requests ?s2 @ [1]\<rparr>"
  let ?s4 = "?s3\<lparr>ms_requests := [], ms_responses := ms_responses ?s3 @ [(1, True)], ms_served := ms_served ?s3 @ [1]\<rparr>"
  let ?s5 = "?s4\<lparr>ms_client := Ready, ms_responses := [], ms_senders := (\<lambda>e. put (1, True) (ms_senders ?s4 e))\<rparr>"
  let ?s6 = "?s5\<lparr>ms_senders := (ms_senders ?s5)(1 := look fst snd 1 (1, True) [])\<rparr>"
  have "reachable (\<lambda>e. (e, True)) fst snd ?s1"
    by (rule next_step [OF start step.connect]) (simp add: initial_def)
  then have "reachable (\<lambda>e. (e, True)) fst snd ?s2"
    by (rule next_step [OF _ step.publish]) (simp add: initial_def)
  then have "reachable (\<lambda>e. (e, True)) fst snd ?s3"
    by (rule next_step [OF _ step.handle]) (simp_all add: initial_def)
  then have "reachable (\<lambda>e. (e, True)) fst snd ?s4"
    by (rule next_step [OF _ step.serve [where e = 1]]) (simp add: initial_def)
  then have "reachable (\<lambda>e. (e, True)) fst snd ?s5"
    by (rule next_step [OF _ step.deliver]) (simp_all add: initial_def)
  then have "reachable (\<lambda>e. (e, True)) fst snd ?s6"
    by (rule next_step [OF _ step.receive]) (simp add: initial_def)
  moreover have "ms_senders ?s6 1 = Finished (Inr (1, True))" "ms_served ?s6 = [1]"
    by (simp_all add: look_def initial_def)
  ultimately show ?thesis by blast
qed

theorem answers_are_own_witness:
  "\<exists>s. reachable (\<lambda>e. (e, True)) fst snd s \<and> ms_senders s (1::nat) = Finished (Inr (1, True)) \<and> distinct (ms_served s) \<and> 1 \<in> set (ms_served s)"
proof -
  obtain s where s: "reachable (\<lambda>e. (e, True)) fst snd s" "ms_senders s (1::nat) = Finished (Inr (1, True))"
    using sample_run by blast
  have "\<forall>e::nat. fst (e, True) = e" by simp
  from answers_are_own [OF s(1) this] s show ?thesis by blast
qed

end
