(* ===== verification/Py_Objects.thy ===== *)
theory Py_Objects imports Py_Json begin

text \<open>
  Python values as the qobj classes hold them: those of JSON, complex numbers and one-dimensional
  complex arrays of numpy. With them the operations of Python that those classes use, with the
  exceptions they raise on a value of another type, and JSON texts written and read. A dictionary is
  the list of its items.
\<close>

datatype py =
    PyNone
  | PyBool bool
  | PyInt int
  | PyFloat rat
  | PyComplex rat rat
  | PyStr string
  | PyList "py list"
  | PyArray "(rat \<times> rat) list"
  | PyDict "(string \<times> py) list"

section \<open>Reading and writing values\<close>

text \<open>\<open>for x in v\<close>.\<close>

fun py_iter :: "py \<Rightarrow> py list result" where
  "py_iter (PyList xs) = Inr xs"
| "py_iter (PyStr s) = Inr (map (\<lambda>c. PyStr [c]) s)"
| "py_iter (PyDict d) = Inr (map (\<lambda>(k, _). PyStr k) d)"
| "py_iter (PyArray zs) = Inr (map (\<lambda>(a, b). PyComplex a b) zs)"
| "py_iter _ = Inl TypeError"

text \<open>\<open>len(v)\<close>.\<close>

fun py_len :: "py \<Rightarrow> nat result" where
  "py_len (PyList xs) = Inr (length xs)"
| "py_len (PyStr s) = Inr (length s)"
| "py_len (PyDict d) = Inr (length d)"
| "py_len (PyArray zs) = Inr (length zs)"
| "py_len _ = Inl TypeError"

text \<open>\<open>v[i]\<close> with a natural number.\<close>

fun py_nth :: "py \<Rightarrow> nat \<Rightarrow> py result" where
  "py_nth (PyList xs) i = py_at xs (int i)"
| "py_nth (PyStr s) i = bind_result (py_at s (int i)) (\<lambda>c. Inr (PyStr [c]))"
| "py_nth (PyArray zs) i = bind_result (py_at zs (int i)) (\<lambda>(a, b). Inr (PyComplex a b))"
| "py_nth (PyDict _) i = Inl KeyError"
| "py_nth _ i = Inl TypeError"

text \<open>\<open>v[key]\<close>, \<open>v[key] = x\<close>, \<open>key in v\<close>, \<open>v.pop(key)\<close> and \<open>v.copy()\<close> with a text.\<close>

fun py_item :: "py \<Rightarrow> string \<Rightarrow> py result" where
  "py_item (PyDict d) k = dict_get d k"
| "py_item (PyArray _) k = Inl IndexError"
| "py_item _ k = Inl TypeError"

fun py_set_item :: "py \<Rightarrow> string \<Rightarrow> py \<Rightarrow> py result" where
  "py_set_item (PyDict d) k x = Inr (PyDict (AList.update k x d))"
| "py_set_item (PyArray _) k x = Inl IndexError"
| "py_set_item _ k x = Inl TypeError"

fun py_contains :: "string \<Rightarrow> py \<Rightarrow> bool result" where
  "py_contains k (PyDict d) = Inr (map_of d k \<noteq> None)"
| "py_contains k (PyList xs) = Inr (PyStr k \<in> set xs)"
| "py_contains k (PyStr s) = Inr (cut k s \<noteq> None)"
| "py_contains k (PyArray _) = Inr False"
| "py_contains k _ = Inl TypeError"

fun py_pop :: "py \<Rightarrow> string \<Rightarrow> py result" where
  "py_pop (PyDict d) k = dict_get d k"
| "py_pop (PyList _) k = Inl TypeError"
| "py_pop _ k = Inl AttributeError"

fun py_copy :: "py \<Rightarrow> py result" where
  "py_copy (PyDict d) = Inr (PyDict d)"
| "py_copy (PyList xs) = Inr (PyList xs)"
| "py_copy (PyArray zs) = Inr (PyArray zs)"
| "py_copy _ = Inl AttributeError"

text \<open>\<open>**v\<close> in a call, and \<open>v.items()\<close>.\<close>

fun py_kwargs :: "py \<Rightarrow> (string \<times> py) list result" where
  "py_kwargs (PyDict d) = Inr d"
| "py_kwargs _ = Inl TypeError"

fun py_items :: "py \<Rightarrow> (string \<times> py) list result" where
  "py_items (PyDict d) = Inr d"
| "py_items _ = Inl AttributeError"

text \<open>\<open>int(v)\<close>.\<close>

fun py_to_int :: "py \<Rightarrow> int result" where
  "py_to_int (PyInt n) = Inr n"
| "py_to_int (PyBool b) = Inr (of_bool b)"
| "py_to_int (PyFloat x) = Inr (py_int x)"
| "py_to_int (PyStr s) = int_of_text s"
| "py_to_int _ = Inl TypeError"

section \<open>Complex numbers\<close>

fun py_number :: "py \<Rightarrow> (rat \<times> rat) option" where
  "py_number (PyBool b) = Some (of_bool b, 0)"
| "py_number (PyInt n) = Some (of_int n, 0)"
| "py_number (PyFloat x) = Some (x, 0)"
| "py_number (PyComplex a b) = Some (a, b)"
| "py_number _ = None"

text \<open>\<open>complex(a, b)\<close>.\<close>

definition py_complex :: "py \<Rightarrow> py \<Rightarrow> (rat \<times> rat) result" where
  "py_complex a b =
     (case (py_number a, py_number b) of
        (Some (ar, ai), Some (br, bi)) \<Rightarrow> Inr (ar - bi, ai + br)
      | _ \<Rightarrow> Inl TypeError)"

text \<open>\<open>_to_complex\<close>, the same in \<^verbatim>\<open>pulse_qobj.py\<close> and \<^verbatim>\<open>json_decoder.py\<close>.\<close>

fun to_complex :: "py \<Rightarrow> py result" where
  "to_complex (PyList [a, b]) = bind_result (py_complex a b) (\<lambda>(x, y). Inr (PyComplex x y))"
| "to_complex (PyComplex x y) = Inr (PyComplex x y)"
| "to_complex _ = Inl TypeError"

section \<open>JSON texts\<close>

text \<open>Of a key that comes twice the last value counts.\<close>

fun json_loads :: "json \<Rightarrow> py" where
  "json_loads JNull = PyNone"
| "json_loads (JBool b) = PyBool b"
| "json_loads (JInt n) = PyInt n"
| "json_loads (JNum x) = PyFloat x"
| "json_loads (JStr s) = PyStr s"
| "json_loads (JList xs) = PyList (map json_loads xs)"
| "json_loads (JDict d) = PyDict (dict_of (map (\<lambda>(k, v). (k, json_loads v)) d))"

text \<open>
  \<open>json.dumps(v, cls=IQXJsonEncoder)\<close>: a complex number is the pair of its parts, an array is the list
  of its elements.
\<close>

fun json_dumps :: "py \<Rightarrow> json" where
  "json_dumps PyNone = JNull"
| "json_dumps (PyBool b) = JBool b"
| "json_dumps (PyInt n) = JInt n"
| "json_dumps (PyFloat x) = JNum x"
| "json_dumps (PyComplex a b) = JList [JNum a, JNum b]"
| "json_dumps (PyStr s) = JStr s"
| "json_dumps (PyList xs) = JList (map json_dumps xs)"
| "json_dumps (PyArray zs) = JList (map (\<lambda>(a, b). JList [JNum a, JNum b]) zs)"
| "json_dumps (PyDict d) = JDict (map (\<lambda>(k, v). (k, json_dumps v)) d)"

text \<open>Values that JSON has.\<close>

fun json_like :: "py \<Rightarrow> bool" where
  "json_like (PyComplex _ _) = False"
| "json_like (PyArray _) = False"
| "json_like (PyList xs) = (\<forall>x\<in>set xs. json_like x)"
| "json_like (PyDict d) = (distinct (map fst d) \<and> (\<forall>(k, v)\<in>set d. json_like v))"
| "json_like _ = True"

lemma update_new: "k \<notin> fst ` set d \<Longrightarrow> AList.update k v d = d @ [(k, v)]"
  by (induction d) auto

lemma update_values: "snd ` set (AList.update k v d) \<subseteq> insert v (snd ` set d)"
  by (induction d) auto

lemma dict_of_facts: "distinct (map fst (dict_of xs))" "snd ` set (dict_of xs) \<subseteq> snd ` set xs"
proof (induction xs rule: rev_induct)
  case (snoc kv xs)
  obtain k v where kv: "kv = (k, v)" by (cases kv)
  { case 1 then show ?case unfolding kv dict_of_snoc by (intro distinct_update snoc) }
  { case 2 then show ?case unfolding kv dict_of_snoc using snoc(2) update_values [of k v "dict_of xs"] by force }
qed (simp_all add: dict_of_def)

lemma json_like_loads [simp]: "json_like (json_loads j)"
proof (induction j)
  case (JDict d)
  have "json_like v" if "(k, v) \<in> set (dict_of (map (\<lambda>(k, v). (k, json_loads v)) d))" for k v
  proof -
    have "v \<in> snd ` set (map (\<lambda>(k, v). (k, json_loads v)) d)"
      using that dict_of_facts(2) by force
    then show ?thesis using JDict by force
  qed
  then show ?case using dict_of_facts(1) by auto
qed auto

lemma dict_of_distinct: "distinct (map fst xs) \<Longrightarrow> dict_of xs = xs"
proof (induction xs rule: rev_induct)
  case (snoc kv xs)
  obtain k v where kv: "kv = (k, v)" by (cases kv)
  have "k \<notin> fst ` set xs" using snoc.prems kv by auto
  then show ?case using snoc unfolding kv dict_of_snoc by (simp add: update_new)
qed (simp add: dict_of_def)

text \<open>What a value becomes on its way through a text.\<close>

abbreviation wire :: "py \<Rightarrow> py" where
  "wire v \<equiv> json_loads (json_dumps v)"

lemma wire_dict: "distinct (map fst d) \<Longrightarrow> wire (PyDict d) = PyDict (map (\<lambda>(k, v). (k, wire v)) d)"
  by (simp add: dict_of_distinct comp_def split_beta)

lemma wire_json_like: "json_like v \<Longrightarrow> wire v = v"
proof (induction v)
  case (PyDict d)
  have "distinct (map fst d)" and "\<And>k v. (k, v) \<in> set d \<Longrightarrow> wire v = v" using PyDict by force+
  then show ?case unfolding wire_dict [OF \<open>distinct _\<close>] by (auto intro: map_idI)
qed (auto intro!: map_idI)

section \<open>Facts\<close>

lemma to_complex_value: "to_complex v = Inr w \<Longrightarrow> \<exists>a b. w = PyComplex a b"
  by (cases v rule: to_complex.cases) (auto simp: bind_result_def split: sum.splits prod.splits)

lemma to_complex_pair: "to_complex (PyList [PyFloat a, PyFloat b]) = Inr (PyComplex a b)"
  by (simp add: py_complex_def)

lemma bind_result_Inr: "bind_result r f = Inr y \<longleftrightarrow> (\<exists>x. r = Inr x \<and> f x = Inr y)"
  by (cases r) simp_all

lemma map_result_map: "(\<And>x. x \<in> set xs \<Longrightarrow> f x = Inr (g x)) \<Longrightarrow> map_result f xs = Inr (map g xs)"
  by (induction xs) simp_all

lemma map_result_first: "xs \<noteq> [] \<Longrightarrow> f (hd xs) = Inl e \<Longrightarrow> map_result f xs = Inl e"
  by (cases xs) simp_all

lemma map_result_source: "map_result f xs = Inr ys \<Longrightarrow> y \<in> set ys \<Longrightarrow> \<exists>x\<in>set xs. f x = Inr y"
  by (induction xs arbitrary: ys) (auto split: sum.splits)

end
