(* ===== verification/Pulse_Qobj.thy ===== *)
theory Pulse_Qobj imports Py_Objects begin

text \<open>
  The classes of \<^verbatim>\<open>app/libs/qiskit/qobj\<close>, through which a submitted job reaches the executors and the
  file of its results: how an object is built from a dictionary (\<open>from_dict\<close>) and written as one
  (\<open>to_dict\<close>). An object is the list of its attributes, \<open>hasattr\<close> asks whether it is there. A
  dictionary is taken apart by \<open>from_dict\<close> (\<open>pop\<close>); nothing reads it afterwards.
\<close>

section \<open>Measurement options\<close>

record meas_option =
  mo_name :: py
  mo_params :: "py option"

text \<open>Keyword arguments that the constructor has, and none else.\<close>

definition only_keys :: "string list \<Rightarrow> (string \<times> 'a) list \<Rightarrow> bool" where
  "only_keys ks kvs \<longleftrightarrow> (\<forall>(k, _)\<in>set kvs. k \<in> set ks)"

text \<open>An argument whose default is \<open>None\<close>.\<close>

definition given :: "(string \<times> py) list \<Rightarrow> string \<Rightarrow> py option" where
  "given kvs k = (case map_of kvs k of Some v \<Rightarrow> if v = PyNone then None else Some v | None \<Rightarrow> None)"

definition option_from_dict :: "py \<Rightarrow> meas_option result" where
  "option_from_dict data =
     bind_result (py_pop data ''name'') (\<lambda>name.
     bind_result (py_kwargs data) (\<lambda>kvs.
       let rest = filter (\<lambda>(k, _). k \<noteq> ''name'') kvs in
       if only_keys [''params''] rest then Inr \<lparr>mo_name = name, mo_params = given rest ''params''\<rparr>
       else Inl TypeError))"

definition option_to_dict :: "meas_option \<Rightarrow> py" where
  "option_to_dict opt = PyDict ((''name'', mo_name opt) #
     (case mo_params opt of None \<Rightarrow> [] | Some p \<Rightarrow> [(''params'', p)]))"

text \<open>What \<open>from_dict\<close> makes of \<open>kernels\<close> and \<open>discriminators\<close>: a list, or a single option.\<close>

datatype options = Many "meas_option list" | One meas_option

definition options_from_dict :: "py \<Rightarrow> options result" where
  "options_from_dict value =
     (case value of
        PyList xs \<Rightarrow> bind_result (map_result option_from_dict xs) (\<lambda>os. Inr (Many os))
      | _ \<Rightarrow> bind_result (option_from_dict value) (\<lambda>opt. Inr (One opt)))"

text \<open>\<open>[x.to_dict() for x in options]\<close>: a single option cannot be iterated over.\<close>

fun options_to_dict :: "options \<Rightarrow> py result" where
  "options_to_dict (Many os) = Inr (PyList (map option_to_dict os))"
| "options_to_dict (One _) = Inl TypeError"

section \<open>Instructions\<close>

definition COMMON_ATTRS :: "string list" where
  "COMMON_ATTRS = [''ch'', ''conditional'', ''val'', ''phase'', ''frequency'', ''duration'', ''qubits'',
     ''memory_slot'', ''register_slot'', ''label'', ''type'', ''pulse_shape'', ''parameters'']"

record pulse_instruction =
  pi_name :: py
  pi_t0 :: py
  pi_attrs :: "(string \<times> py) list"
  pi_kernels :: "options option"
  pi_discriminators :: "options option"

definition instruction_to_dict :: "pulse_instruction \<Rightarrow> py result" where
  "instruction_to_dict inst =
     (let out = [(''name'', pi_name inst), (''t0'', pi_t0 inst)] @
        concat (map (\<lambda>a. case map_of (pi_attrs inst) a of Some v \<Rightarrow> [(a, v)] | None \<Rightarrow> []) COMMON_ATTRS) in
      bind_result (case pi_kernels inst of None \<Rightarrow> Inr []
                   | Some os \<Rightarrow> bind_result (options_to_dict os) (\<lambda>v. Inr [(''kernels'', v)])) (\<lambda>kernels.
      bind_result (case pi_discriminators inst of None \<Rightarrow> Inr []
                   | Some os \<Rightarrow> bind_result (options_to_dict os) (\<lambda>v. Inr [(''discriminators'', v)])) (\<lambda>discriminators.
        Inr (PyDict (out @ kernels @ discriminators)))))"

text \<open>One item of the dictionary, as the loop of \<open>from_dict\<close> formats it.\<close>

datatype argument = Val py | Opts options

definition parameters_from_dict :: "py \<Rightarrow> py result" where
  "parameters_from_dict value =
     bind_result (py_copy value) (\<lambda>formatted_value.
     bind_result (py_contains ''amp'' formatted_value) (\<lambda>has_amp.
       if has_amp then
         bind_result (py_item formatted_value ''amp'') (\<lambda>amp.
         bind_result (to_complex amp) (\<lambda>c. py_set_item formatted_value ''amp'' c))
       else Inr formatted_value))"

definition argument_from_dict :: "string \<times> py \<Rightarrow> (string \<times> argument) result" where
  "argument_from_dict item =
     (let (key, value) = item in
      if key = ''parameters'' then bind_result (parameters_from_dict value) (\<lambda>v. Inr (key, Val v))
      else if key \<in> {''discriminators'', ''kernels''} then
        bind_result (options_from_dict value) (\<lambda>os. Inr (key, Opts os))
      else Inr (key, Val value))"

text \<open>The constructor: arguments that are \<open>None\<close> leave no attribute.\<close>

definition new_instruction :: "py \<Rightarrow> py \<Rightarrow> (string \<times> argument) list \<Rightarrow> pulse_instruction result" where
  "new_instruction name t0 args =
     (if \<not> only_keys (COMMON_ATTRS @ [''kernels'', ''discriminators'']) args then Inl TypeError
      else Inr \<lparr>pi_name = name, pi_t0 = t0,
        pi_attrs = List.map_filter (\<lambda>a. case map_of args a of
            Some (Val v) \<Rightarrow> if v = PyNone then None else Some (a, v) | _ \<Rightarrow> None) COMMON_ATTRS,
        pi_kernels = (case map_of args ''kernels'' of Some (Opts os) \<Rightarrow> Some os | _ \<Rightarrow> None),
        pi_discriminators = (case map_of args ''discriminators'' of Some (Opts os) \<Rightarrow> Some os | _ \<Rightarrow> None)\<rparr>)"

definition instruction_from_dict :: "py \<Rightarrow> pulse_instruction result" where
  "instruction_from_dict data =
     bind_result (py_items data) (\<lambda>kvs.
     bind_result (map_result argument_from_dict (filter (\<lambda>(k, _). k \<notin> {''t0'', ''name''}) kvs)) (\<lambda>args.
     bind_result (py_item data ''name'') (\<lambda>name.
     bind_result (py_item data ''t0'') (\<lambda>t0. new_instruction name t0 args))))"

section \<open>The pulse library\<close>

record library_item =
  li_name :: py
  li_samples :: py

text \<open>\<open>PulseLibraryItem(name, samples)\<close>: samples that are pairs become an array of complex numbers.\<close>

definition new_library_item :: "py \<Rightarrow> py \<Rightarrow> library_item result" where
  "new_library_item name samples =
     bind_result (py_nth samples 0) (\<lambda>first.
       case first of
         PyList _ \<Rightarrow>
           bind_result (py_iter samples) (\<lambda>xs.
           bind_result (map_result (\<lambda>sample.
               bind_result (py_nth sample 0) (\<lambda>re. bind_result (py_nth sample 1) (\<lambda>im. py_complex re im))) xs) (\<lambda>zs.
             Inr \<lparr>li_name = name, li_samples = PyArray zs\<rparr>))
       | _ \<Rightarrow> Inr \<lparr>li_name = name, li_samples = samples\<rparr>)"

definition library_item_from_dict :: "py \<Rightarrow> library_item result" where
  "library_item_from_dict data =
     bind_result (py_kwargs data) (\<lambda>kvs.
       if \<not> only_keys [''name'', ''samples''] kvs then Inl TypeError
       else case (map_of kvs ''name'', map_of kvs ''samples'') of
              (Some name, Some samples) \<Rightarrow> new_library_item name samples
            | _ \<Rightarrow> Inl TypeError)"

definition library_item_to_dict :: "library_item \<Rightarrow> py" where
  "library_item_to_dict item = PyDict [(''name'', li_name item), (''samples'', li_samples item)]"

text \<open>
  The library of a qobj: a list of items or, once an executor has unwrapped it, a dictionary from names
  to arrays.
\<close>

datatype library = Items "library_item list" | Unwrapped "(py \<times> (rat \<times> rat) list) list"

text \<open>\<open>[x.to_dict() for x in self.pulse_library]\<close>: a dictionary yields its keys, which are names.\<close>

fun library_to_dict :: "library \<Rightarrow> py result" where
  "library_to_dict (Items items) = Inr (PyList (map library_item_to_dict items))"
| "library_to_dict (Unwrapped d) = (if d = [] then Inr (PyList []) else Inl AttributeError)"

section \<open>The configuration\<close>

text \<open>The attributes of a configuration but its library.\<close>

record pulse_config =
  pc_attrs :: "(string \<times> py) list"
  pc_library :: library

definition config_to_dict :: "pulse_config \<Rightarrow> py result" where
  "config_to_dict config =
     bind_result (library_to_dict (pc_library config)) (\<lambda>lib.
       Inr (PyDict (pc_attrs config @ [(''pulse_library'', lib)])))"

definition REQUIRED_SETTINGS :: "string list" where
  "REQUIRED_SETTINGS = [''meas_level'', ''meas_return'', ''qubit_lo_freq'', ''meas_lo_freq'']"

definition PLAIN_SETTINGS :: "string list" where
  "PLAIN_SETTINGS = [''memory_slot_size'', ''rep_time'', ''rep_delay'']"

definition INT_SETTINGS :: "string list" where
  "INT_SETTINGS = [''shots'', ''seed_simulator'', ''memory_slots'']"

text \<open>\<open>PulseQobjConfig(...)\<close>: what is required, what may be \<open>None\<close>, counts, and whatever else is given.\<close>

definition new_config :: "(string \<times> py) list \<Rightarrow> library \<Rightarrow> pulse_config result" where
  "new_config kvs lib =
     (if (\<exists>k\<in>set REQUIRED_SETTINGS. map_of kvs k = None) \<or> map_of kvs ''self'' \<noteq> None then Inl TypeError
      else bind_result (map_result (\<lambda>k. case given kvs k of
               None \<Rightarrow> Inr [] | Some v \<Rightarrow> bind_result (py_to_int v) (\<lambda>n. Inr [(k, PyInt n)])) INT_SETTINGS) (\<lambda>ints.
        Inr \<lparr>pc_attrs = map (\<lambda>k. (k, the (map_of kvs k))) REQUIRED_SETTINGS @
               concat (map (\<lambda>k. case given kvs k of None \<Rightarrow> [] | Some v \<Rightarrow> [(k, v)]) PLAIN_SETTINGS) @
               concat ints @
               filter (\<lambda>(k, _). k \<notin> set (REQUIRED_SETTINGS @ PLAIN_SETTINGS @ INT_SETTINGS)) kvs,
             pc_library = lib\<rparr>))"

definition config_from_dict :: "py \<Rightarrow> pulse_config result" where
  "config_from_dict data =
     bind_result (py_kwargs data) (\<lambda>kvs.
       case map_of kvs ''pulse_library'' of
         None \<Rightarrow> Inl TypeError
       | Some pulse_lib \<Rightarrow>
           bind_result (py_iter pulse_lib) (\<lambda>xs.
           bind_result (map_result library_item_from_dict xs) (\<lambda>items.
             new_config (filter (\<lambda>(k, _). k \<noteq> ''pulse_library'') kvs) (Items items))))"

section \<open>Headers, experiments and the qobj\<close>

text \<open>\<open>QobjDictField(**data)\<close>: a header keeps whatever it is given.\<close>

definition fields_from_dict :: "py \<Rightarrow> (string \<times> py) list result" where
  "fields_from_dict data =
     bind_result (py_kwargs data) (\<lambda>kvs. if map_of kvs ''self'' \<noteq> None then Inl TypeError else Inr kvs)"

text \<open>The configuration of an experiment drops two fields when they are \<open>None\<close>.\<close>

definition expt_config_from_dict :: "py \<Rightarrow> (string \<times> py) list result" where
  "expt_config_from_dict data =
     bind_result (fields_from_dict data) (\<lambda>kvs.
       Inr (filter (\<lambda>(k, v). \<not> (k \<in> {''qubit_lo_freq'', ''meas_lo_freq''} \<and> v = PyNone)) kvs))"

record pulse_experiment =
  px_instructions :: "pulse_instruction list option"
  px_config :: "(string \<times> py) list option"
  px_header :: "(string \<times> py) list option"

definition experiment_to_dict :: "pulse_experiment \<Rightarrow> py result" where
  "experiment_to_dict expt =
     (case px_instructions expt of
        None \<Rightarrow> Inl TypeError
      | Some insts \<Rightarrow>
          bind_result (map_result instruction_to_dict insts) (\<lambda>ds.
            Inr (PyDict ([(''instructions'', PyList ds)] @
              (case px_config expt of None \<Rightarrow> [] | Some c \<Rightarrow> [(''config'', PyDict c)]) @
              (case px_header expt of None \<Rightarrow> [] | Some h \<Rightarrow> [(''header'', PyDict h)])))))"

text \<open>\<open>if key in data: f(data.pop(key))\<close>.\<close>

definition when_in :: "string \<Rightarrow> py \<Rightarrow> (py \<Rightarrow> 'a result) \<Rightarrow> 'a option result" where
  "when_in key data f =
     bind_result (py_contains key data) (\<lambda>b.
       if b then bind_result (py_pop data key) (\<lambda>v. bind_result (f v) (\<lambda>x. Inr (Some x))) else Inr None)"

definition experiment_from_dict :: "py \<Rightarrow> pulse_experiment result" where
  "experiment_from_dict data =
     bind_result (when_in ''config'' data expt_config_from_dict) (\<lambda>config.
     bind_result (when_in ''header'' data fields_from_dict) (\<lambda>header.
     bind_result (when_in ''instructions'' data (\<lambda>v. bind_result (py_iter v) (map_result instruction_from_dict)))
       (\<lambda>instructions.
         Inr \<lparr>px_instructions = instructions, px_config = config, px_header = header\<rparr>)))"

record pulse_qobj =
  pq_id :: py
  pq_config :: "pulse_config option"
  pq_header :: "(string \<times> py) list"
  pq_experiments :: "pulse_experiment list option"

definition qobj_to_dict :: "pulse_qobj \<Rightarrow> py result" where
  "qobj_to_dict qobj =
     bind_result (case pq_config qobj of None \<Rightarrow> Inl AttributeError | Some c \<Rightarrow> config_to_dict c) (\<lambda>config.
     bind_result (case pq_experiments qobj of None \<Rightarrow> Inl TypeError | Some es \<Rightarrow> map_result experiment_to_dict es)
       (\<lambda>experiments.
       Inr (PyDict [(''qobj_id'', pq_id qobj), (''header'', PyDict (pq_header qobj)), (''config'', config),
              (''schema_version'', PyStr ''1.2.0''), (''type'', PyStr ''PULSE''),
              (''experiments'', PyList experiments)])))"

text \<open>\<open>if key in data: f(data[key])\<close>, and \<open>data.get(key)\<close>.\<close>

definition if_in :: "string \<Rightarrow> py \<Rightarrow> (py \<Rightarrow> 'a result) \<Rightarrow> 'a option result" where
  "if_in key data f =
     bind_result (py_contains key data) (\<lambda>b.
       if b then bind_result (py_item data key) (\<lambda>v. bind_result (f v) (\<lambda>x. Inr (Some x))) else Inr None)"

fun py_get :: "py \<Rightarrow> string \<Rightarrow> py result" where
  "py_get (PyDict d) k = Inr (case map_of d k of None \<Rightarrow> PyNone | Some v \<Rightarrow> v)"
| "py_get _ k = Inl AttributeError"

definition qobj_from_dict :: "py \<Rightarrow> pulse_qobj result" where
  "qobj_from_dict data =
     bind_result (if_in ''config'' data config_from_dict) (\<lambda>config.
     bind_result (if_in ''experiments'' data (\<lambda>v. bind_result (py_iter v) (map_result experiment_from_dict)))
       (\<lambda>experiments.
     bind_result (if_in ''header'' data fields_from_dict) (\<lambda>header.
     bind_result (py_get data ''qobj_id'') (\<lambda>i.
       Inr \<lparr>pq_id = i, pq_config = config,
            pq_header = (case header of None \<Rightarrow> [] | Some h \<Rightarrow> h), pq_experiments = experiments\<rparr>))))"

end
