(* ===== verification/Job_File.thy ===== *)
theory Job_File imports Pulse_Qobj Serialization Hdf5_Results begin

text \<open>
  The way of a qobj from an uploaded job file to the executor, and into the file of results and back:
  \<open>JobFile\<close> of \<^verbatim>\<open>app/libs/queues/dtos.py\<close>, \<open>decompress_qobj\<close> and the decoder of
  \<^verbatim>\<open>app/libs/qiskit_providers/utils/json_decoder.py\<close> as \<open>preprocess\<close> of the tasks calls them, \<open>QobjData\<close>,
  \<open>QuantumJob\<close> and the two routines on HDF5 files of \<^verbatim>\<open>base/quantum_job\<close>. Which values h5py can keep
  as an attribute, and how pydantic reads an integer, are arguments.
\<close>

section \<open>Values changed in place\<close>

text \<open>\<open>v[key] = f(v[key])\<close>, and a loop that changes the elements of a list.\<close>

definition update_in :: "string \<Rightarrow> (py \<Rightarrow> py result) \<Rightarrow> py \<Rightarrow> py result" where
  "update_in key f v = bind_result (py_item v key) (\<lambda>x. bind_result (f x) (\<lambda>y. py_set_item v key y))"

definition update_each :: "(py \<Rightarrow> py result) \<Rightarrow> py \<Rightarrow> py result" where
  "update_each f v =
     bind_result (py_iter v) (\<lambda>xs. bind_result (map_result f xs) (\<lambda>ys.
       Inr (case v of PyList _ \<Rightarrow> PyList ys | _ \<Rightarrow> v)))"

section \<open>Decompression and decoding\<close>

fun py_range :: "py \<Rightarrow> nat result" where
  "py_range (PyInt n) = Inr (nat n)"
| "py_range (PyBool b) = Inr (of_bool b)"
| "py_range _ = Inl TypeError"

text \<open>\<open>iqx_rld\<close> on whatever it is given.\<close>

definition rld_samples :: "py \<Rightarrow> py result" where
  "rld_samples enc_seq =
     bind_result (py_iter enc_seq) (\<lambda>ts.
     bind_result (map_result (\<lambda>t.
         bind_result (py_len t) (\<lambda>n.
           if n = 2 then
             bind_result (py_nth t 1) (\<lambda>c. bind_result (py_range c) (\<lambda>k.
               if k = 0 then Inr [] else bind_result (py_nth t 0) (\<lambda>x. Inr (replicate k x))))
           else bind_result (py_nth t 0) (\<lambda>x. Inr [x]))) ts) (\<lambda>dec. Inr (PyList (concat dec))))"

definition decompress_qobj_dict :: "py \<Rightarrow> py result" where
  "decompress_qobj_dict =
     update_in ''config'' (update_in ''pulse_library'' (update_each (update_in ''samples'' rld_samples)))"

definition decode_library_item :: "py \<Rightarrow> py result" where
  "decode_library_item = update_in ''samples'' (\<lambda>samples.
     bind_result (py_iter samples) (\<lambda>xs. bind_result (map_result to_complex xs) (\<lambda>ys. Inr (PyList ys))))"

definition decode_instruction :: "py \<Rightarrow> py result" where
  "decode_instruction instr =
     bind_result (py_contains ''val'' instr) (\<lambda>has_val.
     bind_result (if has_val then update_in ''val'' to_complex instr else Inr instr) (\<lambda>instr.
     bind_result (py_contains ''parameters'' instr) (\<lambda>has_params.
     bind_result (if has_params then bind_result (py_item instr ''parameters'') (py_contains ''amp'') else Inr False)
       (\<lambda>has_amp.
         if has_amp then update_in ''parameters'' (update_in ''amp'' to_complex) instr else Inr instr))))"

definition decode_pulse_qobj :: "py \<Rightarrow> py result" where
  "decode_pulse_qobj pulse_qobj =
     bind_result (update_in ''config'' (update_in ''pulse_library'' (update_each decode_library_item)) pulse_qobj)
       (update_in ''experiments'' (update_each (update_in ''instructions'' (update_each decode_instruction))))"

section \<open>Job files\<close>

record job_file =
  jf_job_id :: string
  jf_qobj :: pulse_qobj

text \<open>\<open>loads\<close> parses the text of a qobj that is given as one.\<close>

definition parse_qobj :: "(string \<Rightarrow> json result) \<Rightarrow> json \<Rightarrow> pulse_qobj result" where
  "parse_qobj loads v =
     (case v of
        JDict _ \<Rightarrow> qobj_from_dict (json_loads v)
      | JStr s \<Rightarrow> bind_result (loads s) (\<lambda>t. qobj_from_dict (json_loads t))
      | _ \<Rightarrow> Inl TypeError)"

text \<open>In a validator, \<open>ValueError\<close> becomes a validation error and any other exception goes through.\<close>

definition in_validator :: "'a result \<Rightarrow> 'a result" where
  "in_validator r = (case r of Inl e \<Rightarrow> Inl (if e = ValueError then ValidationError else e) | Inr x \<Rightarrow> Inr x)"

definition params_of :: "(string \<Rightarrow> json result) \<Rightarrow> json \<Rightarrow> pulse_qobj result" where
  "params_of loads v =
     (case v of
        JDict d \<Rightarrow>
          (case map_of d ''qobj'' of
             None \<Rightarrow> Inl ValidationError
           | Some q \<Rightarrow>
               bind_result (in_validator (parse_qobj loads q)) (\<lambda>qobj.
                 if only_keys [''qobj''] d then Inr qobj else Inl ValidationError))
      | _ \<Rightarrow> Inl ValidationError)"

definition job_file_of :: "(string \<Rightarrow> json result) \<Rightarrow> json \<Rightarrow> job_file result" where
  "job_file_of loads content =
     (case content of
        JDict d \<Rightarrow>
          (case map_of d ''params'' of
             None \<Rightarrow> Inl ValidationError
           | Some params \<Rightarrow>
               bind_result (params_of loads params) (\<lambda>qobj.
                 case map_of d ''job_id'' of
                   Some (JStr job_id) \<Rightarrow>
                     if only_keys [''job_id'', ''params''] d then Inr \<lparr>jf_job_id = job_id, jf_qobj = qobj\<rparr>
                     else Inl ValidationError
                 | _ \<Rightarrow> Inl ValidationError))
      | _ \<Rightarrow> Inl ValidationError)"

text \<open>\<open>model_dump\<close>: an exception of the serializer is wrapped in a \<open>ValueError\<close>.\<close>

definition dumped_qobj :: "job_file \<Rightarrow> py result" where
  "dumped_qobj f = (case qobj_to_dict (jf_qobj f) of Inl _ \<Rightarrow> Inl ValueError | Inr d \<Rightarrow> Inr d)"

text \<open>What \<open>preprocess\<close> of the tasks hands to the executor.\<close>

definition submitted_qobj :: "(string \<Rightarrow> json result) \<Rightarrow> json \<Rightarrow> pulse_qobj result" where
  "submitted_qobj loads content =
     bind_result (job_file_of loads content) (\<lambda>job_file_obj.
     bind_result (dumped_qobj job_file_obj) (\<lambda>job_dict.
     bind_result (decompress_qobj_dict job_dict) (\<lambda>qobj.
     bind_result (decode_pulse_qobj qobj) qobj_from_dict)))"

section \<open>The qobj in the file of results\<close>

definition qobj_data_from_qobj :: "pulse_qobj \<Rightarrow> json result" where
  "qobj_data_from_qobj qobj = bind_result (qobj_to_dict qobj) (\<lambda>d. Inr (json_dumps d))"

definition to_qobj :: "json \<Rightarrow> pulse_qobj result" where
  "to_qobj experiment_data = bind_result (decode_pulse_qobj (json_loads experiment_data)) qobj_from_dict"

record qobj_metadata =
  qm_shots :: py
  qm_qobj_id :: py
  qm_num_experiments :: nat

text \<open>\<open>config.name\<close>.\<close>

definition setting :: "pulse_qobj \<Rightarrow> string \<Rightarrow> py result" where
  "setting qobj name =
     (case pq_config qobj of None \<Rightarrow> Inl AttributeError | Some c \<Rightarrow> attr (map_of (pc_attrs c) name))"

definition metadata_from_qobj :: "pulse_qobj \<Rightarrow> qobj_metadata result" where
  "metadata_from_qobj qobj =
     bind_result (setting qobj ''shots'') (\<lambda>shots.
       case pq_experiments qobj of
         None \<Rightarrow> Inl TypeError
       | Some es \<Rightarrow> Inr \<lparr>qm_shots = shots, qm_qobj_id = pq_id qobj, qm_num_experiments = length es\<rparr>)"

definition metadata_to_dict :: "qobj_metadata \<Rightarrow> (string \<times> py) list" where
  "metadata_to_dict md =
     [(''shots'', qm_shots md), (''qobj_id'', qm_qobj_id md), (''num_experiments'', PyInt (int (qm_num_experiments md)))]"

section \<open>Jobs\<close>

record job_data =
  jd_tuid :: string
  jd_meas_return :: meas_ret
  jd_meas_level :: meas_level
  jd_meas_return_cols :: int
  jd_n_qubits :: int
  jd_job_id :: "string option"
  jd_memory_slot_size :: py
  jd_local :: bool
  jd_qobj :: "pulse_qobj option"
  jd_qobj_data :: "json option"
  jd_metadata :: "qobj_metadata option"
  jd_raw_results :: "(string \<times> dataset) list option"

definition post_init :: "job_data \<Rightarrow> job_data result" where
  "post_init job =
     (let job = job\<lparr>jd_local := (jd_job_id job = None)\<rparr> in
      case jd_qobj job of
        Some qobj \<Rightarrow>
          bind_result (metadata_from_qobj qobj) (\<lambda>md.
          bind_result (case jd_qobj_data job of None \<Rightarrow> qobj_data_from_qobj qobj | Some t \<Rightarrow> Inr t) (\<lambda>t.
            Inr (job\<lparr>jd_metadata := Some md, jd_qobj_data := Some t\<rparr>)))
      | None \<Rightarrow>
          (case jd_qobj_data job of
             None \<Rightarrow> Inr job
           | Some t \<Rightarrow> bind_result (to_qobj t) (\<lambda>qobj. Inr (job\<lparr>jd_qobj := Some qobj\<rparr>))))"

end
