(* ===== verification/Job_Hdf5.thy ===== *)
theory Job_Hdf5 imports Job_File begin

text \<open>
  \<open>save_job_in_hdf5\<close> and \<open>read_job_from_hdf5\<close> of \<^verbatim>\<open>app/libs/quantum_executor/base/quantum_job\<close>: the
  attributes of a file and of its groups, the sweep in the header of a qobj, the qobj itself, and the
  results as \<open>Hdf5_Results\<close> lays them out.
\<close>

section \<open>Attributes\<close>

text \<open>The value of an attribute; a JSON text is the value it encodes.\<close>

datatype attribute = Value py | Text json

record h5_file =
  h5_attrs :: "(string \<times> attribute) list"
  h5_groups :: "(string \<times> (string \<times> attribute) list) list"
  h5_data :: h5

text \<open>
  What the routines need of h5py and pydantic: which values an attribute can have, the order in which the
  names of a file are visited, and which values are integers.
\<close>

record h5_env =
  he_storable :: "py \<Rightarrow> bool"
  he_visit :: "h5 \<Rightarrow> string list"
  he_int :: "py \<Rightarrow> int option"

text \<open>\<open>group.attrs[key] = value\<close>, from one item to the next.\<close>

definition set_attribute ::
    "h5_env \<Rightarrow> string \<times> attribute \<Rightarrow> (string \<times> attribute) list \<Rightarrow> (string \<times> attribute) list result" where
  "set_attribute E kv attrs =
     (let (key, value) = kv in
      case value of
        Value v \<Rightarrow> if he_storable E v then Inr (AList.update key value attrs) else Inl TypeError
      | Text _ \<Rightarrow> Inr (AList.update key value attrs))"

definition save_hdf5_attributes ::
    "h5_env \<Rightarrow> string \<Rightarrow> (string \<times> attribute) list \<Rightarrow> h5_file \<Rightarrow> h5_file result" where
  "save_hdf5_attributes E path source f =
     (if source = [] then Inr f
      else
        let old = (case map_of (h5_groups f) path of None \<Rightarrow> [] | Some attrs \<Rightarrow> attrs) in
        bind_result (fold_result (set_attribute E) source old) (\<lambda>attrs.
          Inr (f\<lparr>h5_groups := AList.update path attrs (h5_groups f)\<rparr>)))"

text \<open>\<open>_read_hdf5_attributes\<close>, before its result is cast.\<close>

definition read_hdf5_attributes :: "h5_file \<Rightarrow> string \<Rightarrow> (string \<times> attribute) list result" where
  "read_hdf5_attributes f path = dict_get (h5_groups f) path"

definition as_values :: "(string \<times> py) list \<Rightarrow> (string \<times> attribute) list" where
  "as_values kvs = map (\<lambda>(k, v). (k, Value v)) kvs"

text \<open>A field of a pydantic model that is a text or \<open>None\<close>, which is its default.\<close>

definition optional_text :: "(string \<times> py) list \<Rightarrow> string \<Rightarrow> py result" where
  "optional_text kvs k =
     (case map_of kvs k of
        None \<Rightarrow> Inr PyNone
      | Some PyNone \<Rightarrow> Inr PyNone
      | Some (PyStr s) \<Rightarrow> Inr (PyStr s)
      | Some _ \<Rightarrow> Inl ValidationError)"

section \<open>The header of the qobj\<close>

definition save_qobj_header :: "h5_env \<Rightarrow> (string \<times> py) list \<Rightarrow> h5_file \<Rightarrow> h5_file result" where
  "save_qobj_header E header_dict f =
     bind_result (optional_text header_dict ''backend_name'') (\<lambda>backend_name.
       save_hdf5_attributes E ''header/qobj/backend'' (as_values [(''backend_name'', backend_name)]) f)"

record sweep_data =
  sw_dataset_name :: py
  sw_serial_order :: py
  sw_batch_size :: int

text \<open>\<open>QobjSweepData.from_qobj_header\<close>; it keeps its own three fields and ignores all others.\<close>

definition sweep_from_qobj_header :: "h5_env \<Rightarrow> (string \<times> py) list \<Rightarrow> sweep_data result" where
  "sweep_from_qobj_header E header_dict =
     (case map_of header_dict ''sweep'' of
        None \<Rightarrow> Inl ValueError
      | Some sweep \<Rightarrow>
          bind_result (py_kwargs sweep) (\<lambda>kvs.
          bind_result (optional_text kvs ''dataset_name'') (\<lambda>dataset_name.
          bind_result (case map_of kvs ''batch_size'' of
               None \<Rightarrow> Inr 1
             | Some v \<Rightarrow> (case he_int E v of None \<Rightarrow> Inl ValidationError | Some n \<Rightarrow> Inr n)) (\<lambda>batch_size.
            Inr \<lparr>sw_dataset_name = dataset_name,
                 sw_serial_order = (case map_of kvs ''serial_order'' of None \<Rightarrow> PyNone | Some v \<Rightarrow> v),
                 sw_batch_size = batch_size\<rparr>))))"

definition sweep_metadata :: "sweep_data \<Rightarrow> (string \<times> py) list" where
  "sweep_metadata sw =
     [(''dataset_name'', sw_dataset_name sw), (''serial_order'', sw_serial_order sw),
      (''batch_size'', PyInt (sw_batch_size sw))]"

text \<open>
  \<open>sweep_data.model_dump()\<close> has the three fields. For a path to \<open>slots\<close> in it the group is made, and then
  the parameter is looked up under \<open>parameters\<close>.
\<close>

definition save_sweep_data :: "h5_env \<Rightarrow> (string \<times> py) list \<Rightarrow> h5_file \<Rightarrow> h5_file result" where
  "save_sweep_data E header_dict f =
     (case sweep_from_qobj_header E header_dict of
        Inl e \<Rightarrow> if e \<in> {ValueError, ValidationError} then Inr f else Inl e
      | Inr sw \<Rightarrow>
          bind_result (save_hdf5_attributes E ''header/qobj/sweep'' (as_values (sweep_metadata sw)) f) (\<lambda>f.
            let dump = sweep_metadata sw in
            case search_nested (json_dumps (PyDict dump)) ''slots'' of
              [] \<Rightarrow> Inr f
            | path_segments # _ \<Rightarrow>
                bind_result (py_at path_segments (- 2)) (\<lambda>param.
                bind_result (dict_get dump ''parameters'') (\<lambda>parameters. Inr f))))"

section \<open>The file\<close>

definition meas_ret_value :: "meas_ret \<Rightarrow> int" where
  "meas_ret_value r = (case r of AVERAGED \<Rightarrow> 1 | APPENDED \<Rightarrow> 0)"

definition meas_ret_of :: "int \<Rightarrow> meas_ret result" where
  "meas_ret_of n = (if n = 0 then Inr APPENDED else if n = 1 then Inr AVERAGED else Inl ValueError)"

definition meas_level_value :: "meas_level \<Rightarrow> int" where
  "meas_level_value l = (case l of DISCRIMINATED \<Rightarrow> 2 | INTEGRATED \<Rightarrow> 1 | RAW \<Rightarrow> 0)"

definition job_attributes :: "job_data \<Rightarrow> (string \<times> py) list" where
  "job_attributes job =
     [(''tuid'', PyStr (jd_tuid job)), (''meas_return'', PyInt (meas_ret_value (jd_meas_return job))),
      (''meas_level'', PyInt (meas_level_value (jd_meas_level job))),
      (''meas_return_cols'', PyInt (jd_meas_return_cols job)), (''n_qubits'', PyInt (jd_n_qubits job)),
      (''memory_slot_size'', jd_memory_slot_size job),
      (''job_id'', case jd_job_id job of None \<Rightarrow> PyNone | Some i \<Rightarrow> PyStr i),
      (''local'', PyBool (jd_local job))]"

definition save_qobj_to_hdf5 :: "h5_env \<Rightarrow> job_data \<Rightarrow> h5_file \<Rightarrow> h5_file result" where
  "save_qobj_to_hdf5 E job f =
     bind_result (case jd_metadata job of
         None \<Rightarrow> Inr f
       | Some md \<Rightarrow> save_hdf5_attributes E ''header/qobj_metadata'' (as_values (metadata_to_dict md)) f) (\<lambda>f.
     case jd_qobj_data job of
       None \<Rightarrow> Inr f
     | Some t \<Rightarrow> save_hdf5_attributes E ''header/qobj_data'' [(''experiment_data'', Text t)] f)"

definition save_job_in_hdf5 :: "h5_env \<Rightarrow> job_data \<Rightarrow> h5_file result" where
  "save_job_in_hdf5 E job =
     bind_result (fold_result (set_attribute E) (as_values (job_attributes job)) []) (\<lambda>attrs.
     bind_result (attr (jd_qobj job)) (\<lambda>qobj.
     bind_result (save_qobj_header E (pq_header qobj) \<lparr>h5_attrs = attrs, h5_groups = [], h5_data = []\<rparr>) (\<lambda>f.
     bind_result (save_sweep_data E (pq_header qobj) f) (\<lambda>f.
     bind_result (save_qobj_to_hdf5 E job f) (\<lambda>f.
     bind_result (attr (jd_raw_results job)) (\<lambda>raw_results.
     bind_result (save_results_to_hdf5 raw_results (h5_data f)) (\<lambda>h.
       Inr (f\<lparr>h5_data := h\<rparr>))))))))"

text \<open>Attributes of a known type.\<close>

definition attr_value :: "(string \<times> attribute) list \<Rightarrow> string \<Rightarrow> py result" where
  "attr_value attrs k = bind_result (dict_get attrs k) (\<lambda>a. case a of Value v \<Rightarrow> Inr v | Text t \<Rightarrow> Inl TypeError)"

definition attr_int :: "(string \<times> attribute) list \<Rightarrow> string \<Rightarrow> int result" where
  "attr_int attrs k = bind_result (attr_value attrs k) (\<lambda>v. case v of PyInt n \<Rightarrow> Inr n | _ \<Rightarrow> Inl ValueError)"

definition attr_text :: "(string \<times> attribute) list \<Rightarrow> string \<Rightarrow> string result" where
  "attr_text attrs k = bind_result (attr_value attrs k) (\<lambda>v. case v of PyStr s \<Rightarrow> Inr s | _ \<Rightarrow> Inl ValueError)"

definition qobj_data_at :: "h5_file \<Rightarrow> json result" where
  "qobj_data_at f =
     bind_result (read_hdf5_attributes f ''header/qobj_data'') (\<lambda>attrs.
       case attrs of
         [(k, Text t)] \<Rightarrow> if k = ''experiment_data'' then Inr t else Inl TypeError
       | _ \<Rightarrow> Inl TypeError)"

definition qobj_metadata_at :: "h5_file \<Rightarrow> qobj_metadata result" where
  "qobj_metadata_at f =
     bind_result (read_hdf5_attributes f ''header/qobj_metadata'') (\<lambda>attrs.
       if \<not> only_keys [''shots'', ''qobj_id'', ''num_experiments''] attrs then Inl TypeError
       else
         bind_result (attr_value attrs ''shots'') (\<lambda>shots.
         bind_result (attr_value attrs ''qobj_id'') (\<lambda>qobj_id.
         bind_result (attr_int attrs ''num_experiments'') (\<lambda>n.
           Inr \<lparr>qm_shots = shots, qm_qobj_id = qobj_id, qm_num_experiments = nat n\<rparr>))))"

text \<open>\<open>memory_slot_size\<close> is not read; it has its default.\<close>

definition read_job_from_hdf5 :: "h5_env \<Rightarrow> h5_file \<Rightarrow> job_data result" where
  "read_job_from_hdf5 E f =
     bind_result (attr_text (h5_attrs f) ''tuid'') (\<lambda>tuid.
     bind_result (bind_result (attr_int (h5_attrs f) ''meas_return'') meas_ret_of) (\<lambda>meas_return.
     bind_result (bind_result (attr_int (h5_attrs f) ''meas_level'') meas_level_of) (\<lambda>meas_level.
     bind_result (attr_int (h5_attrs f) ''meas_return_cols'') (\<lambda>cols.
     bind_result (attr_int (h5_attrs f) ''n_qubits'') (\<lambda>n_qubits.
       let job_id = (case attr_text (h5_attrs f) ''job_id'' of Inl _ \<Rightarrow> None | Inr i \<Rightarrow> Some i);
           loc = (attr_value (h5_attrs f) ''local'' = Inr (PyBool True)) in
     bind_result (extract_results_from_hdf5 (he_visit E) (h5_data f)) (\<lambda>raw_results.
     bind_result (qobj_data_at f) (\<lambda>qobj_data.
     bind_result (qobj_metadata_at f) (\<lambda>metadata.
     bind_result (to_qobj qobj_data) (\<lambda>qobj.
       post_init \<lparr>jd_tuid = tuid, jd_meas_return = meas_return, jd_meas_level = meas_level,
         jd_meas_return_cols = cols, jd_n_qubits = n_qubits, jd_job_id = job_id,
         jd_memory_slot_size = PyInt 100, jd_local = loc, jd_qobj = Some qobj,
         jd_qobj_data = Some qobj_data, jd_metadata = Some metadata, jd_raw_results = Some raw_results\<rparr>)))))))))"

end
