(* ===== verification/Executor_Base.thy ===== *)
theory Executor_Base imports Job_Hdf5 begin

text \<open>
  \<^verbatim>\<open>app/libs/quantum_executor/base/executor.py\<close>: preparing a qobj for execution and, in another
  process, running it. What the two share is a file. Compiling a qobj and running an experiment are the
  abstract methods of the class; they are fields of the record \<open>executor\<close>, as is \<open>numpy.asarray\<close>.
\<close>

section \<open>Settings\<close>

text \<open>A value looked up among numbers: equal numbers of other types are the same key.\<close>

fun number_key :: "py \<Rightarrow> int result" where
  "number_key (PyInt n) = Inr n"
| "number_key (PyBool b) = Inr (of_bool b)"
| "number_key (PyFloat x) = (if of_int \<lfloor>x\<rfloor> = x then Inr \<lfloor>x\<rfloor> else Inl KeyError)"
| "number_key (PyComplex x y) = (if y = 0 \<and> of_int \<lfloor>x\<rfloor> = x then Inr \<lfloor>x\<rfloor> else Inl KeyError)"
| "number_key PyNone = Inl KeyError"
| "number_key (PyStr _) = Inl KeyError"
| "number_key _ = Inl TypeError"

fun return_setting_of :: "py \<Rightarrow> return_setting result" where
  "return_setting_of (PyInt n) = Inr (RetInt n)"
| "return_setting_of (PyBool b) = Inr (RetInt (of_bool b))"
| "return_setting_of (PyStr s) = Inr (RetStr s)"
| "return_setting_of _ = Inl TypeError"

text \<open>\<open>n_qubits\<close> and \<open>shots\<close> are integers here; \<open>TypeError\<close> stands for what other types lead to.\<close>

definition int_setting :: "pulse_config \<Rightarrow> string \<Rightarrow> int option result" where
  "int_setting config name =
     (case map_of (pc_attrs config) name of
        None \<Rightarrow> Inr None | Some (PyInt n) \<Rightarrow> Inr (Some n) | Some _ \<Rightarrow> Inl TypeError)"

text \<open>\<open>to_native_qobj_config(qobj.config)\<close> on the object.\<close>

definition native_settings :: "pulse_config \<Rightarrow> native_config result" where
  "native_settings config =
     bind_result (bind_result (attr (map_of (pc_attrs config) ''meas_return'')) return_setting_of) (\<lambda>meas_return.
     bind_result (get_bin_mode meas_return) (\<lambda>_.
     bind_result (bind_result (attr (map_of (pc_attrs config) ''meas_level'')) number_key) (\<lambda>meas_level.
     bind_result (int_setting config ''n_qubits'') (\<lambda>n_qubits.
     bind_result (int_setting config ''shots'') (\<lambda>shots.
       to_native_qobj_config \<lparr>qc_meas_level = meas_level, qc_meas_return = meas_return,
         qc_n_qubits = n_qubits, qc_shots = shots, qc_pulse_library = []\<rparr>)))))"

section \<open>What preprocessing leaves for execution\<close>

record native_expt_metadata =
  nm_native_config :: native_config
  nm_tuid :: string
  nm_qobj :: pulse_qobj
  nm_qobj_tag :: py

text \<open>The dictionary that is pickled. A pickle is the value it holds.\<close>

record pickled =
  pk_native_config :: native_config
  pk_tuid :: string
  pk_qobj :: py
  pk_qobj_tag :: py

definition expt_metadata_to_dict :: "native_expt_metadata \<Rightarrow> pickled result" where
  "expt_metadata_to_dict md =
     bind_result (qobj_to_dict (nm_qobj md)) (\<lambda>d.
       Inr \<lparr>pk_native_config = nm_native_config md, pk_tuid = nm_tuid md, pk_qobj = d, pk_qobj_tag = nm_qobj_tag md\<rparr>)"

definition expt_metadata_from_dict :: "pickled \<Rightarrow> native_expt_metadata result" where
  "expt_metadata_from_dict value =
     bind_result (qobj_from_dict (pk_qobj value)) (\<lambda>qobj.
       Inr \<lparr>nm_native_config = pk_native_config value, nm_tuid = pk_tuid value, nm_qobj = qobj,
            nm_qobj_tag = pk_qobj_tag value\<rparr>)"

definition get_preprocessed_expt_file :: "string \<Rightarrow> string \<Rightarrow> string" where
  "get_preprocessed_expt_file job_id folder = folder @ ''/'' @ job_id @ ''-expt-metadata.json''"

section \<open>Executors\<close>

text \<open>\<open>'x\<close> is a compiled experiment, \<open>'w\<close> the instruments.\<close>

record ('x, 'w) executor =
  xe_to_native_experiments :: "pulse_qobj \<Rightarrow> native_config \<Rightarrow> 'x list result"
  xe_duration :: "'x \<Rightarrow> rat"
  xe_name :: "'x \<Rightarrow> string"
  xe_run_native :: "'x \<Rightarrow> native_config \<Rightarrow> (dataset, 'w) prog"
  xe_asarray :: "py \<Rightarrow> (rat \<times> rat) list result"
  xe_folder :: "string \<Rightarrow> py \<Rightarrow> string"
  xe_h5 :: h5_env

record 'w files =
  fs_preprocessed :: "string \<rightharpoonup> pickled"
  fs_results :: "string \<rightharpoonup> h5_file"
  fs_world :: 'w

definition on_instruments :: "('a, 'w) prog \<Rightarrow> ('a, 'w files) prog" where
  "on_instruments = zoomE fs_world (\<lambda>w s. s\<lparr>fs_world := w\<rparr>)"

text \<open>The library as a dictionary from names to arrays; a name has to be hashable.\<close>

definition hashable :: "py \<Rightarrow> bool" where
  "hashable v = (case v of PyList _ \<Rightarrow> False | PyArray _ \<Rightarrow> False | PyDict _ \<Rightarrow> False | _ \<Rightarrow> True)"

definition unwrap_library :: "(py \<Rightarrow> (rat \<times> rat) list result) \<Rightarrow> library \<Rightarrow> library result" where
  "unwrap_library asarray lib =
     (case lib of
        Items items \<Rightarrow>
          bind_result (map_result (\<lambda>i.
              bind_result (asarray (li_samples i)) (\<lambda>a.
                if hashable (li_name i) then Inr (li_name i, a) else Inl TypeError)) items) (\<lambda>kvs.
            Inr (Unwrapped (dict_of kvs)))
      | Unwrapped d \<Rightarrow> if d = [] then Inr (Unwrapped []) else Inl AttributeError)"

definition unwrap_qobj :: "(py \<Rightarrow> (rat \<times> rat) list result) \<Rightarrow> pulse_qobj \<Rightarrow> pulse_qobj result" where
  "unwrap_qobj asarray qobj =
     bind_result (attr (pq_config qobj)) (\<lambda>config.
     bind_result (unwrap_library asarray (pc_library config)) (\<lambda>lib.
       Inr (qobj\<lparr>pq_config := Some (config\<lparr>pc_library := lib\<rparr>)\<rparr>)))"

text \<open>\<open>preprocess\<close>: the duration of the experiments, and the file for \<open>run\<close>.\<close>

definition executor_preprocess ::
    "('x, 'w) executor \<Rightarrow> string \<Rightarrow> pulse_qobj \<Rightarrow> string \<Rightarrow> string \<Rightarrow> (rat \<times> string, 'w files) prog" where
  "executor_preprocess X tuid qobj job_id results_folder =
     (let qobj_tag = (case map_of (pq_header qobj) ''tag'' of None \<Rightarrow> PyStr [] | Some t \<Rightarrow> t) in
      bindE (liftE (unwrap_qobj (xe_asarray X) qobj)) (\<lambda>qobj.
      bindE (liftE (bind_result (attr (pq_config qobj)) native_settings)) (\<lambda>native_config.
      bindE (liftE (xe_to_native_experiments X qobj native_config)) (\<lambda>native_expts.
      let total_duration = sum_list (map (xe_duration X) native_expts);
          path = get_preprocessed_expt_file job_id results_folder in
      bindE (liftE (expt_metadata_to_dict \<lparr>nm_native_config = native_config, nm_tuid = tuid, nm_qobj = qobj,
                      nm_qobj_tag = qobj_tag\<rparr>)) (\<lambda>data.
      thenE (modE (\<lambda>s. s\<lparr>fs_preprocessed := (fs_preprocessed s)(path \<mapsto> data)\<rparr>))
        (retE (total_duration, path)))))))"

text \<open>\<open>{expt.header.name: self._run_native(expt, ...) for expt in native_expts}\<close>.\<close>

definition run_experiments ::
    "('x, 'w) executor \<Rightarrow> native_config \<Rightarrow> 'x list \<Rightarrow> ((string \<times> dataset) list, 'w) prog" where
  "run_experiments X native_config expts =
     bindE (mapE (\<lambda>x. bindE (xe_run_native X x native_config) (\<lambda>ds. retE (xe_name X x, ds))) expts)
       (\<lambda>kvs. retE (dict_of kvs))"

text \<open>The job whose data are saved.\<close>

definition job_of_run ::
    "string \<Rightarrow> native_expt_metadata \<Rightarrow> (string \<times> dataset) list \<Rightarrow> job_data result" where
  "job_of_run job_id md experiment_results =
     bind_result (setting (nm_qobj md) ''memory_slot_size'') (\<lambda>size.
       post_init \<lparr>jd_tuid = nm_tuid md, jd_meas_return = nc_meas_return (nm_native_config md),
         jd_meas_level = nc_meas_level (nm_native_config md),
         jd_meas_return_cols = nc_meas_return_cols (nm_native_config md),
         jd_n_qubits = nc_n_qubits (nm_native_config md), jd_job_id = Some job_id,
         jd_memory_slot_size = size, jd_local = True, jd_qobj = Some (nm_qobj md),
         jd_qobj_data = None, jd_metadata = None, jd_raw_results = Some experiment_results\<rparr>)"

definition executor_run :: "('x, 'w) executor \<Rightarrow> string \<Rightarrow> string \<Rightarrow> (string, 'w files) prog" where
  "executor_run X job_id inputs_folder =
     (let preprocessed_file = get_preprocessed_expt_file job_id inputs_folder in
      bindE (getE (\<lambda>s. fs_preprocessed s preprocessed_file)) (\<lambda>found.
      bindE (case found of None \<Rightarrow> raiseE OtherError | Some d \<Rightarrow> liftE (expt_metadata_from_dict d)) (\<lambda>md.
      bindE (liftE (xe_to_native_experiments X (nm_qobj md) (nm_native_config md))) (\<lambda>native_expts.
      bindE (on_instruments (run_experiments X (nm_native_config md) native_expts)) (\<lambda>experiment_results.
      bindE (liftE (job_of_run job_id md experiment_results)) (\<lambda>job.
      let results_file_path = xe_folder X (nm_tuid md) (nm_qobj_tag md) @ ''/'' @ job_id @ ''.hdf5'' in
      bindE (liftE (save_job_in_hdf5 (xe_h5 X) job)) (\<lambda>h.
      thenE (modE (\<lambda>s. s\<lparr>fs_results := (fs_results s)(results_file_path \<mapsto> h)\<rparr>))
      (thenE (modE (\<lambda>s. s\<lparr>fs_preprocessed := (fs_preprocessed s)(preprocessed_file := None)\<rparr>))
        (retE results_file_path)))))))))"

end
