(* ===== verification/Qiskit_Pulse.thy ===== *)
theory Qiskit_Pulse imports Executor_Base begin

text \<open>
  \<^verbatim>\<open>app/libs/quantum_executor/qiskit/functions.py\<close> and \<^verbatim>\<open>instruction.py\<close>: the pulse of the CZ gate as a
  function of time, and the instructions of a qobj as instructions of Qiskit. Qiskit itself is the record
  \<open>qiskit\<close>: what its constructors refuse and how it puts an instruction into a schedule. Floats of the
  pulse are real numbers; \<open>OtherError\<close> stands for \<open>ZeroDivisionError\<close>.
\<close>

section \<open>The CZ pulse\<close>

record cz_parameters =
  cz_omega_c0 :: real
  cz_theta :: real
  cz_omega_phi :: real
  cz_phi :: real
  cz_t_w :: real
  cz_t_rf :: real
  cz_t_p :: real
  cz_delta_0 :: real

text \<open>\<open>np.select\<close>: the first condition that holds.\<close>

fun np_select :: "(bool \<times> 'a :: zero) list \<Rightarrow> 'a" where
  "np_select [] = 0"
| "np_select ((c, x) # rest) = (if c then x else np_select rest)"

definition delta_t_function :: "real \<Rightarrow> cz_parameters \<Rightarrow> real" where
  "delta_t_function t p =
     (let t_w = cz_t_w p; t_rf = cz_t_rf p; t_p = cz_t_p p; delta_0 = cz_delta_0 p in
      np_select
       [(t \<le> t_w, 0),
        (t > t_w \<and> t \<le> t_w + t_rf / 2, delta_0 / 2 * (1 - cos (2 * pi * (t - t_w) / t_rf))),
        (t > t_w + t_rf / 2 \<and> t < t_w + t_rf / 2 + t_p, delta_0),
        (t \<ge> t_w + t_rf / 2 + t_p \<and> t < t_w + t_rf + t_p, delta_0 / 2 * (1 - cos (2 * pi * (t - t_w - t_p) / t_rf))),
        (t \<ge> t_w + t_rf + t_p, 0)])"

definition flux :: "real \<Rightarrow> cz_parameters \<Rightarrow> real" where
  "flux t p = cz_theta p + delta_t_function t p * cos (cz_omega_phi p * t + cz_phi p)"

definition omega_c :: "real \<Rightarrow> cz_parameters \<Rightarrow> real" where
  "omega_c t p = cz_omega_c0 p * sqrt \<bar>cos (pi * flux t p)\<bar>"

text \<open>At a moment that is a number, not an array, a rise time of zero is divided by.\<close>

definition omega_c_at :: "real \<Rightarrow> cz_parameters \<Rightarrow> real result" where
  "omega_c_at t p = (if cz_t_rf p = 0 then Inl OtherError else Inr (omega_c t p))"

text \<open>\<open>np.linspace(0, stop, num)\<close>.\<close>

definition real_linspace :: "real \<Rightarrow> nat \<Rightarrow> real list" where
  "real_linspace stop num = (if num = 1 then [0] else map (\<lambda>i. of_nat i * (stop / of_nat (num - 1))) [0..<num])"

definition wacqt_samples :: "cz_parameters \<Rightarrow> nat \<Rightarrow> real list result" where
  "wacqt_samples p duration =
     (let t_gate = cz_t_p p + cz_t_rf p + 2 * cz_t_w p;
          time_array = real_linspace t_gate duration in
      bind_result (omega_c_at 0 p) (\<lambda>omega_c_for_time_0.
        Inr (map (\<lambda>t. omega_c t p - omega_c_for_time_0) time_array)))"

section \<open>Channels and numbers\<close>

text \<open>\<open>s.strip(cs)\<close>: every character of \<open>cs\<close>, at both ends.\<close>

definition strip_chars :: "string \<Rightarrow> string \<Rightarrow> string" where
  "strip_chars cs s = rev (dropWhile (\<lambda>c. c \<in> set cs) (rev (dropWhile (\<lambda>c. c \<in> set cs) s)))"

definition inst_attr :: "pulse_instruction \<Rightarrow> string \<Rightarrow> py result" where
  "inst_attr inst name = attr (map_of (pi_attrs inst) name)"

definition get_channel :: "pulse_instruction \<Rightarrow> int result" where
  "get_channel inst =
     bind_result (inst_attr inst ''ch'') (\<lambda>ch.
       case ch of
         PyStr s \<Rightarrow> int_of_text (strip_chars ''u'' (strip_chars ''m'' (strip_chars ''readout'' (strip_chars ''d'' s))))
       | _ \<Rightarrow> Inl AttributeError)"

definition is_measurement :: "pulse_instruction \<Rightarrow> bool result" where
  "is_measurement inst =
     (if pi_name inst = PyStr ''acquire'' then Inr True
      else bind_result (inst_attr inst ''ch'') (\<lambda>ch.
        case ch of PyStr s \<Rightarrow> Inr (startswith s ''readout'' \<or> startswith s ''m'') | _ \<Rightarrow> Inl AttributeError))"

text \<open>\<open>v * 1e9\<close>, \<open>v.real\<close>, and \<open>v\<close> where a real number is needed.\<close>

fun times_giga :: "py \<Rightarrow> py result" where
  "times_giga (PyInt n) = Inr (PyFloat (of_int n * 10 ^ 9))"
| "times_giga (PyBool b) = Inr (PyFloat (of_bool b * 10 ^ 9))"
| "times_giga (PyFloat x) = Inr (PyFloat (x * 10 ^ 9))"
| "times_giga (PyComplex x y) = Inr (PyComplex (x * 10 ^ 9) (y * 10 ^ 9))"
| "times_giga _ = Inl TypeError"

fun py_real_part :: "py \<Rightarrow> py result" where
  "py_real_part (PyInt n) = Inr (PyInt n)"
| "py_real_part (PyBool b) = Inr (PyInt (of_bool b))"
| "py_real_part (PyFloat x) = Inr (PyFloat x)"
| "py_real_part (PyComplex x y) = Inr (PyFloat x)"
| "py_real_part _ = Inl AttributeError"

fun py_real :: "py \<Rightarrow> real result" where
  "py_real (PyInt n) = Inr (of_int n)"
| "py_real (PyBool b) = Inr (of_bool b)"
| "py_real (PyFloat x) = Inr (of_rat x)"
| "py_real _ = Inl TypeError"

text \<open>A number of samples.\<close>

fun py_count :: "py \<Rightarrow> nat result" where
  "py_count (PyInt n) = (if n < 0 then Inl ValueError else Inr (nat n))"
| "py_count (PyBool b) = Inr (of_bool b)"
| "py_count _ = Inl TypeError"

section \<open>Instructions of Qiskit\<close>

datatype channel_of_qiskit = DriveChannel int | ControlChannel int | AcquireChannel int

datatype dynamics_instruction =
    GaussianPlay channel_of_qiskit (gp_duration: py) (gp_amp: py) (gp_sigma: py) (gp_angle: py) (gp_name: py) (gp_limit: py)
  | WacqtCZPlay channel_of_qiskit "real list"
  | SetFrequency channel_of_qiskit py
  | ShiftFrequency channel_of_qiskit py
  | SetPhase channel_of_qiskit py
  | ShiftPhase channel_of_qiskit py
  | Delay channel_of_qiskit py
  | Acquire channel_of_qiskit

record 's qiskit =
  qk_channel :: "channel_of_qiskit \<Rightarrow> unit result"
  qk_check :: "dynamics_instruction \<Rightarrow> unit result"
  qk_empty :: 's
  qk_insert :: "py \<Rightarrow> dynamics_instruction \<Rightarrow> 's \<Rightarrow> 's result"
  qk_duration :: "'s \<Rightarrow> rat"

definition new_qiskit_channel :: "'s qiskit \<Rightarrow> channel_of_qiskit \<Rightarrow> channel_of_qiskit result" where
  "new_qiskit_channel Q c = bind_result (qk_channel Q c) (\<lambda>_. Inr c)"

definition new_dynamics :: "'s qiskit \<Rightarrow> dynamics_instruction \<Rightarrow> dynamics_instruction result" where
  "new_dynamics Q i = bind_result (qk_check Q i) (\<lambda>_. Inr i)"

text \<open>An argument of a call, or its default.\<close>

definition argument_or :: "(string \<times> py) list \<Rightarrow> string \<Rightarrow> py \<Rightarrow> py" where
  "argument_or kvs k d = (case map_of kvs k of None \<Rightarrow> d | Some v \<Rightarrow> v)"

text \<open>\<open>GaussianPlay(channel=..., **parameters)\<close>; \<open>beta\<close> is taken and not used.\<close>

definition gaussian_from_qobj :: "'s qiskit \<Rightarrow> pulse_instruction \<Rightarrow> dynamics_instruction result" where
  "gaussian_from_qobj Q inst =
     bind_result (get_channel inst) (\<lambda>channel.
     bind_result (new_qiskit_channel Q (DriveChannel channel)) (\<lambda>channel.
     bind_result (inst_attr inst ''parameters'') (\<lambda>parameters.
     bind_result (py_kwargs parameters) (\<lambda>kvs.
       if \<not> only_keys [''duration'', ''amp'', ''sigma'', ''beta'', ''angle'', ''name'', ''limit_amplitude''] kvs then Inl TypeError
       else case (map_of kvs ''duration'', map_of kvs ''amp'', map_of kvs ''sigma'') of
              (Some duration, Some amp, Some sigma) \<Rightarrow>
                bind_result (py_real_part amp) (\<lambda>amp.
                  let angle = argument_or kvs ''angle'' PyNone in
                  new_dynamics Q (GaussianPlay channel duration amp sigma (if angle = PyNone then PyFloat 0 else angle)
                    (argument_or kvs ''name'' PyNone) (argument_or kvs ''limit_amplitude'' PyNone)))
            | _ \<Rightarrow> Inl TypeError))))"

definition CZ_ARGUMENTS :: "string list" where
  "CZ_ARGUMENTS = [''omega_c0'', ''theta'', ''omega_phi'', ''phi'', ''t_w'', ''t_rf'', ''t_p'', ''delta_0'']"

text \<open>The keys are lowered first; whatever else is given is ignored.\<close>

definition wacqt_from_qobj :: "'s qiskit \<Rightarrow> pulse_instruction \<Rightarrow> dynamics_instruction result" where
  "wacqt_from_qobj Q inst =
     bind_result (get_channel inst) (\<lambda>channel.
     bind_result (bind_result (inst_attr inst ''parameters'') py_items) (\<lambda>items.
       let normalized_params = dict_of (map (\<lambda>(k, v). (lower k, v)) items) in
     bind_result (new_qiskit_channel Q (ControlChannel channel)) (\<lambda>channel.
       if map_of normalized_params ''channel'' \<noteq> None \<or> map_of normalized_params ''self'' \<noteq> None \<or>
          (\<exists>k\<in>set (''duration'' # CZ_ARGUMENTS). map_of normalized_params k = None) then Inl TypeError
       else
         let number = \<lambda>k. py_real (the (map_of normalized_params k)) in
         bind_result (map_result number [''t_p'', ''t_rf'', ''t_w'']) (\<lambda>_.
         bind_result (py_count (the (map_of normalized_params ''duration''))) (\<lambda>duration.
         bind_result (map_result number CZ_ARGUMENTS) (\<lambda>xs.
         bind_result (wacqt_samples
             \<lparr>cz_omega_c0 = xs ! 0, cz_theta = xs ! 1, cz_omega_phi = xs ! 2, cz_phi = xs ! 3,
              cz_t_w = xs ! 4, cz_t_rf = xs ! 5, cz_t_p = xs ! 6, cz_delta_0 = xs ! 7\<rparr> duration) (\<lambda>samples.
           new_dynamics Q (WacqtCZPlay channel samples))))))))"

text \<open>Frequencies and phases of a drive channel: not for a measurement.\<close>

definition on_drive ::
    "'s qiskit \<Rightarrow> pulse_instruction \<Rightarrow> (channel_of_qiskit \<Rightarrow> dynamics_instruction result) \<Rightarrow> dynamics_instruction result" where
  "on_drive Q inst f =
     bind_result (is_measurement inst) (\<lambda>m.
       if m then Inl NotImplementedError
       else bind_result (get_channel inst) (\<lambda>channel. f (DriveChannel channel)))"

definition frequency_from_qobj ::
    "(channel_of_qiskit \<Rightarrow> py \<Rightarrow> dynamics_instruction) \<Rightarrow> 's qiskit \<Rightarrow> pulse_instruction \<Rightarrow> dynamics_instruction result" where
  "frequency_from_qobj inst_cls Q inst =
     on_drive Q inst (\<lambda>channel.
       bind_result (bind_result (inst_attr inst ''frequency'') times_giga) (\<lambda>frequency.
       bind_result (new_qiskit_channel Q channel) (\<lambda>channel. new_dynamics Q (inst_cls channel frequency))))"

definition phase_from_qobj ::
    "(channel_of_qiskit \<Rightarrow> py \<Rightarrow> dynamics_instruction) \<Rightarrow> 's qiskit \<Rightarrow> pulse_instruction \<Rightarrow> dynamics_instruction result" where
  "phase_from_qobj inst_cls Q inst =
     on_drive Q inst (\<lambda>channel.
       bind_result (inst_attr inst ''phase'') (\<lambda>phase.
       bind_result (new_qiskit_channel Q channel) (\<lambda>channel. new_dynamics Q (inst_cls channel phase))))"

definition delay_from_qobj :: "'s qiskit \<Rightarrow> pulse_instruction \<Rightarrow> dynamics_instruction result" where
  "delay_from_qobj Q inst =
     (let duration = (case map_of (pi_attrs inst) ''duration'' of None \<Rightarrow> PyInt 0 | Some v \<Rightarrow> v) in
      bind_result (case map_of (pi_attrs inst) ''parameters'' of
          None \<Rightarrow> Inr duration
        | Some (PyDict params) \<Rightarrow> Inr (argument_or params ''duration'' duration)
        | Some _ \<Rightarrow> Inl AttributeError) (\<lambda>duration.
      bind_result (get_channel inst) (\<lambda>channel.
      bind_result (new_qiskit_channel Q (DriveChannel channel)) (\<lambda>channel. new_dynamics Q (Delay channel duration)))))"

definition acquire_from_qobj :: "'s qiskit \<Rightarrow> pulse_instruction \<Rightarrow> dynamics_instruction result" where
  "acquire_from_qobj Q inst =
     bind_result (get_channel inst) (\<lambda>channel.
     bind_result (new_qiskit_channel Q (AcquireChannel channel)) (\<lambda>channel. new_dynamics Q (Acquire channel)))"

end
