(* ===== verification/Qiskit_Executor.thy ===== *)
theory Qiskit_Executor imports Qiskit_Pulse Device_Config begin

text \<open>
  \<^verbatim>\<open>app/libs/quantum_executor/qiskit/experiment.py\<close> and \<^verbatim>\<open>executor.py\<close>: the experiments of a qobj as
  schedules of Qiskit, and what the simulator returns as a dataset. The simulator is an argument.
\<close>

section \<open>Native instructions\<close>

datatype instruction_class =
    SetFrequencyClass | ShiftFrequencyClass | SetPhaseClass | ShiftPhaseClass | DelayClass | AcquireClass
  | GaussianPlayClass | WacqtCZPlayClass

definition INSTRUCTION_PULSE_MAP :: "((string \<times> string option) \<times> instruction_class) list" where
  "INSTRUCTION_PULSE_MAP =
     [((''setf'', None), SetFrequencyClass), ((''shiftf'', None), ShiftFrequencyClass),
      ((''setp'', None), SetPhaseClass), ((''fc'', None), ShiftPhaseClass), ((''delay'', None), DelayClass),
      ((''parametric_pulse'', Some ''constant''), AcquireClass),
      ((''parametric_pulse'', Some ''gaussian''), GaussianPlayClass),
      ((''parametric_pulse'', Some ''drag''), GaussianPlayClass),
      ((''parametric_pulse'', Some ''wacqt_cz_gate_pulse''), WacqtCZPlayClass)]"

fun class_from_qobj :: "instruction_class \<Rightarrow> 's qiskit \<Rightarrow> pulse_instruction \<Rightarrow> dynamics_instruction result" where
  "class_from_qobj SetFrequencyClass = frequency_from_qobj SetFrequency"
| "class_from_qobj ShiftFrequencyClass = frequency_from_qobj ShiftFrequency"
| "class_from_qobj SetPhaseClass = phase_from_qobj SetPhase"
| "class_from_qobj ShiftPhaseClass = phase_from_qobj ShiftPhase"
| "class_from_qobj DelayClass = delay_from_qobj"
| "class_from_qobj AcquireClass = acquire_from_qobj"
| "class_from_qobj GaussianPlayClass = gaussian_from_qobj"
| "class_from_qobj WacqtCZPlayClass = wacqt_from_qobj"

text \<open>\<open>_INSTRUCTION_PULSE_MAP[(name, pulse_shape)]\<close>; a missing shape is \<open>None\<close>.\<close>

definition lookup_class :: "py \<Rightarrow> py \<Rightarrow> instruction_class result" where
  "lookup_class name pulse_shape =
     (if \<not> hashable name \<or> \<not> hashable pulse_shape then Inl TypeError
      else case (name, pulse_shape) of
             (PyStr n, PyStr s) \<Rightarrow> dict_get INSTRUCTION_PULSE_MAP (n, Some s)
           | (PyStr n, PyNone) \<Rightarrow> dict_get INSTRUCTION_PULSE_MAP (n, None)
           | _ \<Rightarrow> Inl KeyError)"

definition to_native_instruction :: "'s qiskit \<Rightarrow> pulse_instruction \<Rightarrow> dynamics_instruction result" where
  "to_native_instruction Q inst =
     (case bind_result (lookup_class (pi_name inst) (argument_or (pi_attrs inst) ''pulse_shape'' PyNone))
             (\<lambda>cls. class_from_qobj cls Q inst) of
        Inl KeyError \<Rightarrow> Inl NotImplementedError
      | r \<Rightarrow> r)"

section \<open>Experiments\<close>

record 's dynamics_experiment =
  de_header :: "(string \<times> py) list"
  de_config :: "pulse_config option"
  de_schedule :: 's
  de_duration :: rat

definition copy_expt_header_with :: "(string \<times> py) list \<Rightarrow> (string \<times> py) list \<Rightarrow> (string \<times> py) list" where
  "copy_expt_header_with header kwargs = fold (\<lambda>(k, v). AList.update k v) kwargs header"

text \<open>An instruction that is not implemented is logged and left out.\<close>

definition insert_instruction :: "'s qiskit \<Rightarrow> pulse_instruction \<Rightarrow> 's \<Rightarrow> 's result" where
  "insert_instruction Q inst schedule =
     (case bind_result (to_native_instruction Q inst) (\<lambda>native_inst. qk_insert Q (pi_t0 inst) native_inst schedule) of
        Inl NotImplementedError \<Rightarrow> Inr schedule
      | r \<Rightarrow> r)"

definition dynamics_from_qobj_expt ::
    "'s qiskit \<Rightarrow> backend_config \<Rightarrow> pulse_experiment \<Rightarrow> string \<Rightarrow> pulse_config option \<Rightarrow> 's dynamics_experiment result" where
  "dynamics_from_qobj_expt Q backend_config expt name qobj_config =
     bind_result (attr (px_header expt)) (\<lambda>expt_header.
     let header = copy_expt_header_with expt_header [(''name'', PyStr name)] in
     case px_instructions expt of
       None \<Rightarrow> Inl TypeError
     | Some insts \<Rightarrow>
         bind_result (fold_result (insert_instruction Q) insts (qk_empty Q)) (\<lambda>schedule.
           Inr \<lparr>de_header = header, de_config = qobj_config, de_schedule = schedule,
                de_duration = qk_duration Q schedule * gc_dt (bc_general_config backend_config)\<rparr>))"

text \<open>\<open>get_experiment_name(expt.header.name, idx + 1)\<close>: a name that is no text has no letters to keep.\<close>

definition experiment_name_of :: "pulse_experiment \<Rightarrow> nat \<Rightarrow> string result" where
  "experiment_name_of expt idx =
     bind_result (attr (px_header expt)) (\<lambda>header.
     bind_result (attr (map_of header ''name'')) (\<lambda>name.
       case name of PyStr s \<Rightarrow> Inr (get_experiment_name s (int idx + 1)) | _ \<Rightarrow> Inl TypeError))"

definition to_dynamics_experiments ::
    "'s qiskit \<Rightarrow> backend_config \<Rightarrow> pulse_qobj \<Rightarrow> 's dynamics_experiment list result" where
  "to_dynamics_experiments Q backend_config qobj =
     (case pq_experiments qobj of
        None \<Rightarrow> Inl TypeError
      | Some expts \<Rightarrow>
          map_result (\<lambda>(idx, expt). bind_result (experiment_name_of expt idx) (\<lambda>name.
              dynamics_from_qobj_expt Q backend_config expt name (pq_config qobj))) (List.enumerate 0 expts))"

section \<open>Results\<close>

datatype dyn_meas_return = SINGLE | AVG

definition dyn_meas_return_of :: "native_config \<Rightarrow> dyn_meas_return" where
  "dyn_meas_return_of native_config = (case nc_meas_return native_config of AVERAGED \<Rightarrow> AVG | APPENDED \<Rightarrow> SINGLE)"

text \<open>
  \<open>result.data()["memory"]\<close>: a pair of numbers for each channel, or for each shot and channel, of which
  there are as many as the first component says.
\<close>

datatype sim_memory = Averaged "(rat \<times> rat) list" | Shots nat "(rat \<times> rat) list list"

text \<open>\<open>(1j * imaginary) + real\<close>.\<close>

definition iq_of :: "rat \<times> rat \<Rightarrow> iq" where
  "iq_of z = (Fin (fst z), Fin (snd z))"

text \<open>The dataset of a matrix of points, one row for each repetition and one column for each channel.\<close>

definition dataset_of_matrix :: "nat \<Rightarrow> (rat \<times> rat) list list \<Rightarrow> dataset" where
  "dataset_of_matrix no_of_acq_channels acquisitions =
     \<lparr>ds_repetition = (if no_of_acq_channels = 0 then None else Some (length acquisitions)),
      ds_vars = map (\<lambda>i. (nat_text i, Arr2 1 (map (\<lambda>row. [iq_of (row ! i)]) acquisitions))) [0..<no_of_acq_channels]\<rparr>"

definition to_xarray :: "sim_memory \<Rightarrow> dyn_meas_return \<Rightarrow> dataset result" where
  "to_xarray data meas_return =
     (case (meas_return, data) of
        (AVG, Averaged row) \<Rightarrow> Inr (dataset_of_matrix (length row) [row])
      | (SINGLE, Shots n rows) \<Rightarrow> Inr (dataset_of_matrix n rows)
      | (AVG, Shots n rows) \<Rightarrow> if rows = [] then Inr (dataset_of_matrix 0 []) else Inl ValueError
      | (SINGLE, Averaged row) \<Rightarrow> Inl IndexError)"

type_synonym ('s, 'w) simulator = "'s \<Rightarrow> int \<Rightarrow> dyn_meas_return \<Rightarrow> (sim_memory, 'w) prog"

definition run_dynamics ::
    "('s, 'w) simulator \<Rightarrow> 's dynamics_experiment \<Rightarrow> native_config \<Rightarrow> (dataset, 'w) prog" where
  "run_dynamics simulate experiment native_config =
     (let meas_return = dyn_meas_return_of native_config in
      bindE (simulate (de_schedule experiment) (nc_shots native_config) meas_return) (\<lambda>data.
        liftE (to_xarray data meas_return)))"

text \<open>\<open>expt.header.name\<close> of a compiled experiment.\<close>

definition dynamics_name :: "'s dynamics_experiment \<Rightarrow> string" where
  "dynamics_name experiment = (case map_of (de_header experiment) ''name'' of Some (PyStr s) \<Rightarrow> s | _ \<Rightarrow> [])"

definition dynamics_executor ::
    "'s qiskit \<Rightarrow> ('s, 'w) simulator \<Rightarrow> backend_config \<Rightarrow> (py \<Rightarrow> (rat \<times> rat) list result) \<Rightarrow>
     (string \<Rightarrow> py \<Rightarrow> string) \<Rightarrow> h5_env \<Rightarrow> ('s dynamics_experiment, 'w) executor" where
  "dynamics_executor Q simulate backend_config asarray folder h5 =
     \<lparr>xe_to_native_experiments = \<lambda>qobj native_config. to_dynamics_experiments Q backend_config qobj,
      xe_duration = de_duration, xe_name = dynamics_name, xe_run_native = run_dynamics simulate,
      xe_asarray = asarray, xe_folder = folder, xe_h5 = h5\<rparr>"

end
