(* ===== verification/Qobj_Properties.thy ===== *)
theory Qobj_Properties imports Executor_Base begin

text \<open>
  The dictionaries of the qobj classes: an object that was read from one is written as one that is read
  as the same object.
\<close>

section \<open>Attributes in a given order\<close>

definition pick :: "(string \<Rightarrow> 'a option) \<Rightarrow> string list \<Rightarrow> (string \<times> 'a) list" where
  "pick f ks = List.map_filter (\<lambda>a. map_option (Pair a) (f a)) ks"

lemma pick_simps [simp]:
  "pick f [] = []" "pick f (k # ks) = (case f k of None \<Rightarrow> pick f ks | Some v \<Rightarrow> (k, v) # pick f ks)"
  by (simp_all add: pick_def split: option.split)

lemma map_filter_pick:
  "(\<And>a. a \<in> set ks \<Longrightarrow> h a = map_option (Pair a) (f a)) \<Longrightarrow> List.map_filter h ks = pick f ks"
  by (induction ks) (auto simp: map_filter_simps split: option.split)

lemma map_of_pick: "map_of (pick f ks) a = (if a \<in> set ks then f a else None)"
  by (induction ks) (auto split: option.split)

lemma pick_in: "(a, v) \<in> set (pick f ks) \<longleftrightarrow> a \<in> set ks \<and> f a = Some v"
  by (induction ks) (auto split: option.split)

lemma pick_cong: "(\<And>a. a \<in> set ks \<Longrightarrow> f a = g a) \<Longrightarrow> pick f ks = pick g ks"
  by (induction ks) (auto split: option.split)

lemma pick_distinct: "distinct ks \<Longrightarrow> distinct (map fst (pick f ks))"
  by (induction ks) (auto simp: pick_in image_iff split: option.split)

lemma pick_attributes:
  "concat (map (\<lambda>a. case map_of xs a of Some v \<Rightarrow> [(a, v)] | None \<Rightarrow> []) ks) = pick (map_of xs) ks"
  by (induction ks) (auto split: option.split)

lemma map_pick: "map (\<lambda>(a, v). (a, g a v)) (pick f ks) = pick (\<lambda>a. map_option (g a) (f a)) ks"
  by (induction ks) (auto split: option.split)

section \<open>Measurement options\<close>

lemma given_not_none: "given kvs k \<noteq> Some PyNone"
  by (simp add: given_def split: option.split)

definition option_ok :: "meas_option \<Rightarrow> bool" where
  "option_ok opt \<longleftrightarrow> mo_params opt \<noteq> Some PyNone"

lemma option_again: "option_ok opt \<Longrightarrow> option_from_dict (option_to_dict opt) = Inr opt"
  by (cases "mo_params opt")
     (auto simp: option_ok_def option_from_dict_def option_to_dict_def dict_get_def only_keys_def given_def)

lemma option_read_ok: "option_from_dict d = Inr opt \<Longrightarrow> option_ok opt"
  by (auto simp: option_from_dict_def option_ok_def bind_result_Inr Let_def given_not_none split: if_splits)

fun options_ok :: "options \<Rightarrow> bool" where
  "options_ok (Many os) = (\<forall>opt\<in>set os. option_ok opt)"
| "options_ok (One opt) = option_ok opt"

lemma options_read_ok: "options_from_dict d = Inr os \<Longrightarrow> options_ok os"
proof (cases d)
  case (PyList xs)
  assume "options_from_dict d = Inr os"
  then obtain opts where "map_result option_from_dict xs = Inr opts" "os = Many opts"
    by (auto simp: options_from_dict_def PyList bind_result_Inr)
  then show ?thesis using map_result_source [of option_from_dict xs opts] option_read_ok by auto
qed (auto simp: options_from_dict_def bind_result_Inr option_read_ok)

lemma options_again: "options_ok os \<Longrightarrow> options_to_dict os = Inr v \<Longrightarrow> options_from_dict v = Inr os"
proof (cases os)
  case (Many opts)
  assume ok: "options_ok os" and v: "options_to_dict os = Inr v"
  have "map_result option_from_dict (map option_to_dict opts) = Inr opts"
    using ok unfolding Many by (induction opts) (simp_all add: option_again)
  with v show ?thesis by (auto simp: options_from_dict_def Many)
qed simp

section \<open>Instructions\<close>

lemma parameters_again: "parameters_from_dict v = Inr w \<Longrightarrow> parameters_from_dict w = Inr w"
proof -
  assume r: "parameters_from_dict v = Inr w"
  show ?thesis
  proof (cases v)
    case (PyDict d)
    show ?thesis
    proof (cases "map_of d ''amp''")
      case None
      with r show ?thesis by (auto simp: parameters_from_dict_def PyDict)
    next
      case (Some a)
      with r obtain c where c: "to_complex a = Inr c" "w = PyDict (AList.update ''amp'' c d)"
        by (auto simp: parameters_from_dict_def PyDict dict_get_def bind_result_Inr)
      obtain x y where "c = PyComplex x y" using to_complex_value [OF c(1)] by blast
      then show ?thesis by (simp add: c(2) parameters_from_dict_def dict_get_def update_conv')
    qed
  qed (use r in \<open>auto simp: parameters_from_dict_def split: if_splits\<close>)
qed

text \<open>An instruction as a constructor leaves it: its attributes in order, none of them \<open>None\<close>.\<close>

definition instruction_ok :: "pulse_instruction \<Rightarrow> bool" where
  "instruction_ok i \<longleftrightarrow> (\<exists>f. pi_attrs i = pick f COMMON_ATTRS \<and> (\<forall>a. f a \<noteq> Some PyNone) \<and>
     (\<forall>v. f ''parameters'' = Some v \<longrightarrow> parameters_from_dict v = Inr v)) \<and>
   (\<forall>os. pi_kernels i = Some os \<longrightarrow> options_ok os) \<and> (\<forall>os. pi_discriminators i = Some os \<longrightarrow> options_ok os)"

lemma common_attrs: "distinct COMMON_ATTRS" "''name'' \<notin> set COMMON_ATTRS" "''t0'' \<notin> set COMMON_ATTRS"
  "''kernels'' \<notin> set COMMON_ATTRS" "''discriminators'' \<notin> set COMMON_ATTRS"
  "''val'' \<in> set COMMON_ATTRS" "''parameters'' \<in> set COMMON_ATTRS"
  by (simp_all add: COMMON_ATTRS_def)

lemma new_instruction_ok:
  assumes "new_instruction n t args = Inr i"
    and "\<And>v. map_of args ''parameters'' = Some (Val v) \<Longrightarrow> parameters_from_dict v = Inr v"
    and "\<And>k os. map_of args k = Some (Opts os) \<Longrightarrow> options_ok os"
  shows "instruction_ok i"
proof -
  let ?f = "\<lambda>a. case map_of args a of Some (Val v) \<Rightarrow> if v = PyNone then None else Some v | _ \<Rightarrow> None"
  have "(case map_of args a of Some (Val v) \<Rightarrow> if v = PyNone then None else Some (a, v) | _ \<Rightarrow> None) =
      map_option (Pair a) (?f a)" for a by (simp split: option.split argument.split)
  then have i: "i = \<lparr>pi_name = n, pi_t0 = t, pi_attrs = pick ?f COMMON_ATTRS,
        pi_kernels = (case map_of args ''kernels'' of Some (Opts os) \<Rightarrow> Some os | _ \<Rightarrow> None),
        pi_discriminators = (case map_of args ''discriminators'' of Some (Opts os) \<Rightarrow> Some os | _ \<Rightarrow> None)\<rparr>"
    using assms(1) by (simp add: new_instruction_def pick_def split: if_splits)
  have "\<forall>a. ?f a \<noteq> Some PyNone" by (simp split: option.split argument.split)
  moreover have "\<forall>v. ?f ''parameters'' = Some v \<longrightarrow> parameters_from_dict v = Inr v"
    using assms(2) by (simp split: option.split argument.split)
  ultimately show ?thesis
    using assms(3) unfolding instruction_ok_def i by (auto split: option.splits argument.splits)
qed

lemma argument_read:
  assumes "argument_from_dict (k, v) = Inr (k', x)"
  shows "k' = k \<and> (x = Val w \<longrightarrow> k = ''parameters'' \<longrightarrow> parameters_from_dict w = Inr w) \<and> (x = Opts os \<longrightarrow> options_ok os)"
  using assms parameters_again options_read_ok
  by (auto simp: argument_from_dict_def bind_result_Inr split: if_splits)

lemma instruction_read_ok: "instruction_from_dict d = Inr i \<Longrightarrow> instruction_ok i"
proof -
  assume "instruction_from_dict d = Inr i"
  then obtain kvs args n t where a: "map_result argument_from_dict (filter (\<lambda>(k, _). k \<notin> {''t0'', ''name''}) kvs) = Inr args"
      and n: "new_instruction n t args = Inr i"
    unfolding instruction_from_dict_def bind_result_Inr by blast
  have src: "\<exists>k' v. argument_from_dict (k', v) = Inr (k, x)" if "map_of args k = Some x" for k x
    using map_result_source [OF a map_of_SomeD [OF that]] by auto
  show ?thesis
  proof (rule new_instruction_ok [OF n])
    fix v assume "map_of args ''parameters'' = Some (Val v)"
    then show "parameters_from_dict v = Inr v" using src argument_read by blast
  next
    fix k os assume "map_of args k = Some (Opts os)"
    then show "options_ok os" using src argument_read by blast
  qed
qed


text \<open>The items of a dictionary for optional measurement options.\<close>

definition option_items :: "string \<Rightarrow> py option \<Rightarrow> (string \<times> py) list" where
  "option_items k kv = (case kv of None \<Rightarrow> [] | Some v \<Rightarrow> [(k, v)])"

definition read_as :: "py option \<Rightarrow> options option \<Rightarrow> bool" where
  "read_as kv ko \<longleftrightarrow> (kv = None \<and> ko = None) \<or> (\<exists>v os. kv = Some v \<and> ko = Some os \<and> options_from_dict v = Inr os \<and> options_to_dict os = Inr v)"

lemma read_items:
  "read_as kv ko \<Longrightarrow> k \<in> {''discriminators'', ''kernels''} \<Longrightarrow>
   list_all2 (\<lambda>x y. argument_from_dict x = Inr y) (option_items k kv) (case ko of None \<Rightarrow> [] | Some os \<Rightarrow> [(k, Opts os)])"
  by (auto simp: read_as_def option_items_def argument_from_dict_def)

lemma instruction_canonical:
  assumes f: "\<And>a. f a \<noteq> Some PyNone" "\<And>v. f ''parameters'' = Some v \<Longrightarrow> parameters_from_dict v = Inr v"
    and k: "read_as kv ko" and d: "read_as dv do'"
  shows "instruction_from_dict (PyDict ([(''name'', n), (''t0'', t)] @ pick f COMMON_ATTRS @
      option_items ''kernels'' kv @ option_items ''discriminators'' dv)) =
    Inr \<lparr>pi_name = n, pi_t0 = t, pi_attrs = pick f COMMON_ATTRS, pi_kernels = ko, pi_discriminators = do'\<rparr>"
proof -
  let ?A = "pick f COMMON_ATTRS"
  let ?B = "option_items ''kernels'' kv @ option_items ''discriminators'' dv"
  let ?K = "(case ko of None \<Rightarrow> [] | Some os \<Rightarrow> [(''kernels'', Opts os)])"
  let ?D = "(case do' of None \<Rightarrow> [] | Some os \<Rightarrow> [(''discriminators'', Opts os)])"
  let ?args = "map (\<lambda>(a, v). (a, Val v)) ?A @ ?K @ ?D"
  have keys: "k \<notin> {''t0'', ''name''}" if "(k, v) \<in> set (?A @ ?B)" for k v
    using that common_attrs by (auto simp: pick_in option_items_def split: option.splits)
  have "filter (\<lambda>(k, _). k \<notin> {''t0'', ''name''}) (?A @ ?B) = ?A @ ?B"
    using keys by (intro filter_True) fastforce
  then have flt: "filter (\<lambda>(k, _). k \<notin> {''t0'', ''name''}) ([(''name'', n), (''t0'', t)] @ ?A @ ?B) = ?A @ ?B" by simp
  have one: "argument_from_dict (a, v) = Inr (a, Val v)" if "(a, v) \<in> set ?A" for a v
  proof -
    have a: "a \<in> set COMMON_ATTRS" "f a = Some v" using that unfolding pick_in by blast+
    then have ne: "a \<notin> {''discriminators'', ''kernels''}" using common_attrs(4,5) by blast
    show ?thesis
    proof (cases "a = ''parameters''")
      case True
      with a(2) f(2) have "parameters_from_dict v = Inr v" by blast
      with True show ?thesis by (simp add: argument_from_dict_def)
    next
      case False
      with ne show ?thesis by (simp only: argument_from_dict_def Let_def prod.case if_False)
    qed
  qed
  have "list_all2 (\<lambda>x y. argument_from_dict x = Inr y) ?A (map (\<lambda>(a, v). (a, Val v)) ?A)"
    unfolding list_all2_map2 using one by (intro list.rel_refl_strong) auto
  then have "list_all2 (\<lambda>x y. argument_from_dict x = Inr y) (?A @ ?B) ?args"
    by (intro list_all2_appendI read_items k d) simp_all
  then have args: "map_result argument_from_dict (?A @ ?B) = Inr ?args" by (simp add: map_result_Inr)
  have ad: "map (\<lambda>(a, v). (a, Val v)) ?A = pick (\<lambda>a. map_option Val (f a)) COMMON_ATTRS" by (rule map_pick)
  have kd: "map_of (?K @ ?D) a = None" if "a \<in> set COMMON_ATTRS" for a
    using that common_attrs(4,5) by (auto split: option.splits)
  have at: "map_of ?args a = map_option Val (f a)" if "a \<in> set COMMON_ATTRS" for a
    using kd [OF that] that unfolding ad map_of_append by (auto simp: map_add_def map_of_pick split: option.split)
  have opts: "map_of ?args ''kernels'' = map_option Opts ko" "map_of ?args ''discriminators'' = map_option Opts do'"
    using common_attrs(4,5) unfolding ad by (auto simp: map_add_def map_of_pick split: option.split)
  have only: "only_keys (COMMON_ATTRS @ [''kernels'', ''discriminators'']) ?args"
    unfolding ad only_keys_def by (auto simp: pick_in split: option.splits)
  have "List.map_filter (\<lambda>a. case map_of ?args a of Some (Val v) \<Rightarrow> if v = PyNone then None else Some (a, v) | _ \<Rightarrow> None)
      COMMON_ATTRS = ?A"
    using f(1) at by (intro map_filter_pick) (auto split: option.split)
  then have new: "new_instruction n t ?args =
      Inr \<lparr>pi_name = n, pi_t0 = t, pi_attrs = ?A, pi_kernels = ko, pi_discriminators = do'\<rparr>"
    unfolding new_instruction_def opts using only by (simp split: option.split)
  have items: "py_item (PyDict ([(''name'', n), (''t0'', t)] @ ?A @ ?B)) ''name'' = Inr n"
    "py_item (PyDict ([(''name'', n), (''t0'', t)] @ ?A @ ?B)) ''t0'' = Inr t" by (simp_all add: dict_get_def)
  then show ?thesis
    by (simp only: instruction_from_dict_def py_items.simps bind_result_simps flt args items new)
qed

lemma instruction_dict:
  assumes "instruction_ok i" and "instruction_to_dict i = Inr d"
  obtains f kv dv where "d = PyDict ([(''name'', pi_name i), (''t0'', pi_t0 i)] @ pick f COMMON_ATTRS @
      option_items ''kernels'' kv @ option_items ''discriminators'' dv)"
    and "pi_attrs i = pick f COMMON_ATTRS" and "\<And>a. f a \<noteq> Some PyNone"
    and "\<And>v. f ''parameters'' = Some v \<Longrightarrow> parameters_from_dict v = Inr v"
    and "read_as kv (pi_kernels i)" and "read_as dv (pi_discriminators i)"
proof -
  obtain f where f: "pi_attrs i = pick f COMMON_ATTRS" "\<And>a. f a \<noteq> Some PyNone"
      "\<And>v. f ''parameters'' = Some v \<Longrightarrow> parameters_from_dict v = Inr v"
    and os: "\<And>os. pi_kernels i = Some os \<Longrightarrow> options_ok os" "\<And>os. pi_discriminators i = Some os \<Longrightarrow> options_ok os"
    using assms(1) unfolding instruction_ok_def by blast
  have A: "concat (map (\<lambda>a. case map_of (pi_attrs i) a of Some v \<Rightarrow> [(a, v)] | None \<Rightarrow> []) COMMON_ATTRS) =
      pick f COMMON_ATTRS"
    unfolding pick_attributes f(1) by (intro pick_cong) (simp add: map_of_pick)
  have one: "\<exists>kv. xs = option_items k kv \<and> read_as kv ko"
    if xs: "(case ko of None \<Rightarrow> Inr [] | Some os \<Rightarrow> bind_result (options_to_dict os) (\<lambda>v. Inr [(k, v)])) = Inr xs"
      and ok: "\<And>os. ko = Some os \<Longrightarrow> options_ok os" for k ko xs
  proof (cases ko)
    case None
    then have "xs = option_items k None \<and> read_as None ko" using xs by (simp add: option_items_def read_as_def)
    then show ?thesis by blast
  next
    case (Some os)
    then obtain v where v: "options_to_dict os = Inr v" "xs = [(k, v)]"
      using xs by (cases "options_to_dict os") auto
    then have "xs = option_items k (Some v) \<and> read_as (Some v) ko"
      using options_again [OF ok [OF Some] v(1)] Some v(1) by (simp add: option_items_def read_as_def)
    then show ?thesis by blast
  qed
  from assms(2) obtain ks ds where
    k: "(case pi_kernels i of None \<Rightarrow> Inr [] | Some os \<Rightarrow> bind_result (options_to_dict os) (\<lambda>v. Inr [(''kernels'', v)])) = Inr ks"
    and d: "(case pi_discriminators i of None \<Rightarrow> Inr [] | Some os \<Rightarrow> bind_result (options_to_dict os) (\<lambda>v. Inr [(''discriminators'', v)])) = Inr ds"
    and eq: "d = PyDict (([(''name'', pi_name i), (''t0'', pi_t0 i)] @ pick f COMMON_ATTRS) @ ks @ ds)"
    unfolding instruction_to_dict_def Let_def A bind_result_Inr by blast
  obtain kv where kv: "ks = option_items ''kernels'' kv" "read_as kv (pi_kernels i)" using one [OF k os(1)] by blast
  obtain dv where dv: "ds = option_items ''discriminators'' dv" "read_as dv (pi_discriminators i)" using one [OF d os(2)] by blast
  show thesis by (rule that [OF _ f kv(2) dv(2)]) (simp add: eq kv(1) dv(1))
qed

lemma canonical_to_dict:
  assumes "read_as kv ko" and "read_as dv do'"
  shows "instruction_to_dict \<lparr>pi_name = n, pi_t0 = t, pi_attrs = pick f COMMON_ATTRS, pi_kernels = ko, pi_discriminators = do'\<rparr> =
    Inr (PyDict ([(''name'', n), (''t0'', t)] @ pick f COMMON_ATTRS @
      option_items ''kernels'' kv @ option_items ''discriminators'' dv))"
proof -
  have A: "concat (map (\<lambda>a. case map_of (pick f COMMON_ATTRS) a of Some v \<Rightarrow> [(a, v)] | None \<Rightarrow> []) COMMON_ATTRS) =
      pick f COMMON_ATTRS"
    unfolding pick_attributes by (intro pick_cong) (simp add: map_of_pick)
  have "(case ko of None \<Rightarrow> Inr [] | Some os \<Rightarrow> bind_result (options_to_dict os) (\<lambda>v. Inr [(k, v)])) = Inr (option_items k kv)"
    if "read_as kv ko" for k kv ko using that by (auto simp: read_as_def option_items_def)
  note opts = this [OF assms(1)] this [OF assms(2)]
  show ?thesis
    unfolding instruction_to_dict_def Let_def pulse_instruction.select_convs A opts bind_result_simps by simp
qed

lemma instruction_again:
  "instruction_ok i \<Longrightarrow> instruction_to_dict i = Inr d \<Longrightarrow> instruction_from_dict d = Inr i"
proof (erule (1) instruction_dict, goal_cases)
  case (1 f kv dv)
  show ?case unfolding 1(2) by (subst instruction_canonical [OF 1(4-7)]) (simp_all flip: 1(3))
qed


section \<open>Library, configuration, experiments\<close>

definition item_ok :: "library_item \<Rightarrow> bool" where
  "item_ok i \<longleftrightarrow> library_item_from_dict (library_item_to_dict i) = Inr i"

lemma item_dict: "library_item_from_dict (library_item_to_dict i) = new_library_item (li_name i) (li_samples i)"
  by (simp add: library_item_from_dict_def library_item_to_dict_def only_keys_def)

lemma new_item_ok: "new_library_item n s = Inr i \<Longrightarrow> item_ok i"
proof -
  assume r: "new_library_item n s = Inr i"
  then obtain x where x: "py_nth s 0 = Inr x" unfolding new_library_item_def bind_result_Inr by blast
  show ?thesis
  proof (cases "\<exists>xs. x = PyList xs")
    case False
    then have "i = \<lparr>li_name = n, li_samples = s\<rparr>" using r x by (cases x) (simp_all add: new_library_item_def)
    then show ?thesis using r by (simp add: item_ok_def item_dict)
  next
    case True
    then obtain xs where "x = PyList xs" by blast
    with r x obtain ys zs where ys: "py_iter s = Inr ys" and i: "i = \<lparr>li_name = n, li_samples = PyArray zs\<rparr>"
        and zs: "map_result (\<lambda>sample. bind_result (py_nth sample 0) (\<lambda>re.
          bind_result (py_nth sample 1) (\<lambda>im. py_complex re im))) ys = Inr zs"
      by (simp add: new_library_item_def) (auto simp: bind_result_Inr)
    have "length ys = length zs" using zs unfolding map_result_Inr by (rule list_all2_lengthD)
    moreover have "ys \<noteq> []" using x ys by (cases s) (auto simp: py_at_def bind_result_Inr split: if_splits)
    ultimately obtain re im zs' where "zs = (re, im) # zs'" by (cases zs) auto
    then show ?thesis by (simp add: item_ok_def item_dict i new_library_item_def py_at_def)
  qed
qed

lemma item_read_ok: "library_item_from_dict d = Inr i \<Longrightarrow> item_ok i"
  by (auto simp: library_item_from_dict_def bind_result_Inr new_item_ok split: if_splits option.splits)

lemma pick_append: "pick f (ks @ ls) = pick f ks @ pick f ls"
  by (induction ks) (auto split: option.split)

text \<open>A configuration as the constructor leaves it.\<close>

definition SETTINGS :: "string list" where
  "SETTINGS = REQUIRED_SETTINGS @ PLAIN_SETTINGS @ INT_SETTINGS"

lemma settings_facts: "distinct SETTINGS" "''pulse_library'' \<notin> set SETTINGS" "''self'' \<notin> set SETTINGS"
  by (simp_all add: SETTINGS_def REQUIRED_SETTINGS_def PLAIN_SETTINGS_def INT_SETTINGS_def)

definition config_ok :: "pulse_config \<Rightarrow> bool" where
  "config_ok c \<longleftrightarrow> (\<exists>f rest. pc_attrs c = pick f SETTINGS @ rest \<and> (\<forall>k\<in>set REQUIRED_SETTINGS. f k \<noteq> None) \<and>
     (\<forall>k\<in>set PLAIN_SETTINGS. f k \<noteq> Some PyNone) \<and> (\<forall>k\<in>set INT_SETTINGS. \<forall>v. f k = Some v \<longrightarrow> (\<exists>n. v = PyInt n)) \<and>
     (\<forall>k\<in>fst ` set rest. k \<notin> set SETTINGS \<union> {''pulse_library'', ''self''})) \<and>
   (\<exists>items. pc_library c = Items items \<and> (\<forall>i\<in>set items. item_ok i))"

lemma new_config_attrs:
  assumes "new_config kvs lib = Inr c"
  obtains f where "pc_attrs c = pick f SETTINGS @ filter (\<lambda>(k, _). k \<notin> set SETTINGS) kvs"
    and "\<forall>k\<in>set REQUIRED_SETTINGS. f k \<noteq> None" and "\<forall>k\<in>set PLAIN_SETTINGS. f k \<noteq> Some PyNone"
    and "\<forall>k\<in>set INT_SETTINGS. \<forall>v. f k = Some v \<longrightarrow> (\<exists>n. v = PyInt n)"
    and "\<And>k v. f k = Some v \<Longrightarrow> (k, v) \<in> set kvs \<or> (\<exists>n. v = PyInt n)"
    and "pc_library c = lib" and "map_of kvs ''self'' = None"
proof -
  have self: "map_of kvs ''self'' = None" and req: "\<forall>k\<in>set REQUIRED_SETTINGS. map_of kvs k \<noteq> None"
    using assms(1) by (auto simp: new_config_def split: if_splits)
  from assms(1) obtain ints where
    ints: "map_result (\<lambda>k. case given kvs k of None \<Rightarrow> Inr [] | Some v \<Rightarrow> bind_result (py_to_int v) (\<lambda>n. Inr [(k, PyInt n)])) INT_SETTINGS = Inr ints"
    and c: "c = \<lparr>pc_attrs = map (\<lambda>k. (k, the (map_of kvs k))) REQUIRED_SETTINGS @
               concat (map (\<lambda>k. case given kvs k of None \<Rightarrow> [] | Some v \<Rightarrow> [(k, v)]) PLAIN_SETTINGS) @
               concat ints @ filter (\<lambda>(k, _). k \<notin> set (REQUIRED_SETTINGS @ PLAIN_SETTINGS @ INT_SETTINGS)) kvs,
             pc_library = lib\<rparr>"
    by (auto simp: new_config_def bind_result_Inr split: if_splits)
  have r: "map (\<lambda>k. (k, the (map_of kvs k))) ks = pick (map_of kvs) ks" if "\<forall>k\<in>set ks. map_of kvs k \<noteq> None" for ks
    using that by (induction ks) auto
  have p: "concat (map (\<lambda>k. case given kvs k of None \<Rightarrow> [] | Some v \<Rightarrow> [(k, v)]) ks) = pick (given kvs) ks" for ks
    by (induction ks) (auto split: option.split)
  define g where "g k = (case given kvs k of None \<Rightarrow> None | Some v \<Rightarrow>
      (case py_to_int v of Inl _ \<Rightarrow> None | Inr n \<Rightarrow> Some (PyInt n)))" for k
  have i: "concat xs = pick g ks"
    if "map_result (\<lambda>k. case given kvs k of None \<Rightarrow> Inr [] | Some v \<Rightarrow> bind_result (py_to_int v) (\<lambda>n. Inr [(k, PyInt n)])) ks = Inr xs"
    for ks xs using that
  proof (induction ks arbitrary: xs)
    case (Cons k ks)
    show ?case
    proof (cases "given kvs k")
      case None
      with Cons show ?thesis by (auto simp: g_def split: sum.splits)
    next
      case (Some v)
      with Cons.prems obtain n where "py_to_int v = Inr n" by (cases "py_to_int v") auto
      with Some Cons show ?thesis by (auto simp: g_def split: sum.splits)
    qed
  qed simp
  let ?f = "\<lambda>k. if k \<in> set REQUIRED_SETTINGS then map_of kvs k else if k \<in> set PLAIN_SETTINGS then given kvs k else g k"
  have disj: "set PLAIN_SETTINGS \<inter> set REQUIRED_SETTINGS = {}"
    "set INT_SETTINGS \<inter> (set REQUIRED_SETTINGS \<union> set PLAIN_SETTINGS) = {}"
    using settings_facts(1) unfolding SETTINGS_def distinct_append set_append by blast+
  have "pick ?f SETTINGS = pick (map_of kvs) REQUIRED_SETTINGS @ pick (given kvs) PLAIN_SETTINGS @ pick g INT_SETTINGS"
    unfolding SETTINGS_def pick_append using disj by (intro arg_cong2 [of _ _ _ _ "(@)"] pick_cong) auto
  then have attrs: "pc_attrs c = pick ?f SETTINGS @ filter (\<lambda>(k, _). k \<notin> set SETTINGS) kvs"
    unfolding c SETTINGS_def using r [OF req] p i [OF ints] by (simp add: Un_assoc)
  have "\<forall>k\<in>set INT_SETTINGS. \<forall>v. ?f k = Some v \<longrightarrow> (\<exists>n. v = PyInt n)"
    using disj by (auto simp: g_def split: option.splits sum.splits)
  moreover have "\<forall>k\<in>set PLAIN_SETTINGS. ?f k \<noteq> Some PyNone" using disj given_not_none by auto
  moreover have "\<forall>k\<in>set REQUIRED_SETTINGS. ?f k \<noteq> None" using req by simp
  moreover have "(k, v) \<in> set kvs \<or> (\<exists>n. v = PyInt n)" if "?f k = Some v" for k v
    using that by (auto simp: g_def given_def map_of_SomeD split: if_splits option.splits sum.splits)
  moreover have "pc_library c = lib" by (simp add: c)
  ultimately show thesis using that attrs self by blast
qed

lemma new_config_ok:
  assumes "new_config kvs (Items items) = Inr c" and "''pulse_library'' \<notin> fst ` set kvs" and "\<forall>i\<in>set items. item_ok i"
  shows "config_ok c"
proof (rule new_config_attrs [OF assms(1)], goal_cases)
  case (1 f)
  have "\<forall>k\<in>fst ` set (filter (\<lambda>(k, _). k \<notin> set SETTINGS) kvs). k \<notin> set SETTINGS \<union> {''pulse_library'', ''self''}"
    using assms(2) 1(7) by (force simp: map_of_eq_None_iff)
  then show ?case unfolding config_ok_def using 1(1-4,6) assms(3) by blast
qed

lemma config_read_ok: "config_from_dict d = Inr c \<Longrightarrow> config_ok c"
proof -
  assume "config_from_dict d = Inr c"
  then obtain kvs xs items where items: "map_result library_item_from_dict xs = Inr items"
      and c: "new_config (filter (\<lambda>(k, _). k \<noteq> ''pulse_library'') kvs) (Items items) = Inr c"
    by (auto simp: config_from_dict_def bind_result_Inr split: option.splits)
  have "\<forall>i\<in>set items. item_ok i" using map_result_source [OF items] item_read_ok by blast
  then show ?thesis using c by (intro new_config_ok [OF c]) auto
qed


lemma config_again:
  assumes "config_ok c" and "config_to_dict c = Inr d"
  shows "config_from_dict d = Inr c"
proof -
  obtain f rest items where a: "pc_attrs c = pick f SETTINGS @ rest" and req: "\<forall>k\<in>set REQUIRED_SETTINGS. f k \<noteq> None"
    and pln: "\<forall>k\<in>set PLAIN_SETTINGS. f k \<noteq> Some PyNone"
    and int: "\<forall>k\<in>set INT_SETTINGS. \<forall>v. f k = Some v \<longrightarrow> (\<exists>n. v = PyInt n)"
    and rest: "\<forall>k\<in>fst ` set rest. k \<notin> set SETTINGS \<union> {''pulse_library'', ''self''}"
    and lib: "pc_library c = Items items" and items: "\<forall>i\<in>set items. item_ok i"
    using assms(1) unfolding config_ok_def by (elim conjE exE) (rule that; assumption)
  have sub: "set REQUIRED_SETTINGS \<subseteq> set SETTINGS" "set PLAIN_SETTINGS \<subseteq> set SETTINGS" "set INT_SETTINGS \<subseteq> set SETTINGS"
    by (auto simp: SETTINGS_def)
  have d: "d = PyDict (pc_attrs c @ [(''pulse_library'', PyList (map library_item_to_dict items))])"
    using assms(2) by (simp add: config_to_dict_def lib)
  have keys: "fst ` set (pc_attrs c) \<subseteq> set SETTINGS \<union> fst ` set rest" by (auto simp: a pick_in)
  then have no: "''pulse_library'' \<notin> fst ` set (pc_attrs c)" "''self'' \<notin> fst ` set (pc_attrs c)"
    using rest settings_facts(2,3) by blast+
  then have flt: "filter (\<lambda>(k, _). k \<noteq> ''pulse_library'') (pc_attrs c @ [(''pulse_library'', x)]) = pc_attrs c" for x
    by (force intro: filter_True)
  have look: "map_of (pc_attrs c @ [(''pulse_library'', x)]) ''pulse_library'' = Some x" for x
    using no(1) by (simp add: map_add_def map_of_eq_None_iff[THEN iffD2])
  have at: "map_of (pc_attrs c) k = f k" if "k \<in> set SETTINGS" for k
  proof -
    have "map_of rest k = None" using rest that by (force simp: map_of_eq_None_iff)
    then show ?thesis using that by (simp add: a map_add_def map_of_pick split: option.split)
  qed
  have "map_of (pc_attrs c) ''self'' = None" using no(2) by (simp add: map_of_eq_None_iff)
  moreover have "\<not> (\<exists>k\<in>set REQUIRED_SETTINGS. map_of (pc_attrs c) k = None)" using req at sub(1) by auto
  moreover have r: "map (\<lambda>k. (k, the (map_of (pc_attrs c) k))) REQUIRED_SETTINGS = pick f REQUIRED_SETTINGS"
  proof -
    have "map (\<lambda>k. (k, the (map_of (pc_attrs c) k))) ks = pick f ks"
      if "\<forall>k\<in>set ks. f k \<noteq> None \<and> map_of (pc_attrs c) k = f k" for ks
      using that by (induction ks) auto
    then show ?thesis using req at sub(1) by blast
  qed
  have giv: "given (pc_attrs c) k = f k" if "k \<in> set SETTINGS" "f k \<noteq> Some PyNone" for k
    using at [OF that(1)] that(2) by (auto simp: given_def split: option.split)
  have p: "concat (map (\<lambda>k. case given (pc_attrs c) k of None \<Rightarrow> [] | Some v \<Rightarrow> [(k, v)]) PLAIN_SETTINGS) = pick f PLAIN_SETTINGS"
  proof -
    have "concat (map (\<lambda>k. case given (pc_attrs c) k of None \<Rightarrow> [] | Some v \<Rightarrow> [(k, v)]) ks) = pick f ks"
      if "\<forall>k\<in>set ks. given (pc_attrs c) k = f k" for ks
      using that by (induction ks) (auto split: option.split)
    then show ?thesis using giv pln sub(2) by blast
  qed
  have "\<exists>xs. map_result (\<lambda>k. case given (pc_attrs c) k of None \<Rightarrow> Inr []
      | Some v \<Rightarrow> bind_result (py_to_int v) (\<lambda>n. Inr [(k, PyInt n)])) ks = Inr xs \<and> concat xs = pick f ks"
    if "\<forall>k\<in>set ks. given (pc_attrs c) k = f k \<and> (\<forall>v. f k = Some v \<longrightarrow> (\<exists>n. v = PyInt n))" for ks
    using that by (induction ks) (auto split: option.split)
  moreover have "\<forall>k\<in>set INT_SETTINGS. given (pc_attrs c) k = f k \<and> (\<forall>v. f k = Some v \<longrightarrow> (\<exists>n. v = PyInt n))"
    using giv int sub(3) by fastforce
  ultimately obtain xs where "map_result (\<lambda>k. case given (pc_attrs c) k of None \<Rightarrow> Inr []
      | Some v \<Rightarrow> bind_result (py_to_int v) (\<lambda>n. Inr [(k, PyInt n)])) INT_SETTINGS = Inr xs" "concat xs = pick f INT_SETTINGS"
    by blast
  note i = this
  have o: "filter (\<lambda>(k, _). k \<notin> set (REQUIRED_SETTINGS @ PLAIN_SETTINGS @ INT_SETTINGS)) (pc_attrs c) = rest"
  proof -
    have "filter (\<lambda>(k, _). k \<notin> set SETTINGS) (pick f SETTINGS) = []" by (auto simp: filter_empty_conv pick_in)
    moreover have "filter (\<lambda>(k, _). k \<notin> set SETTINGS) rest = rest" using rest by (intro filter_True) force
    ultimately show ?thesis by (simp add: a SETTINGS_def)
  qed
  have "new_config (pc_attrs c) (Items items) = Inr \<lparr>pc_attrs = pick f REQUIRED_SETTINGS @ pick f PLAIN_SETTINGS @
      pick f INT_SETTINGS @ rest, pc_library = Items items\<rparr>"
    unfolding new_config_def o r p i(1) bind_result_simps i(2)
    using \<open>map_of (pc_attrs c) ''self'' = None\<close> \<open>\<not> (\<exists>k\<in>set REQUIRED_SETTINGS. _ k)\<close> by simp
  then have new: "new_config (pc_attrs c) (Items items) = Inr c"
    using a lib by (simp add: SETTINGS_def pick_append)
  have "map_result library_item_from_dict (map library_item_to_dict items) = Inr items"
    using items by (induction items) (simp_all add: item_ok_def)
  then show ?thesis
    by (simp only: config_from_dict_def d py_kwargs.simps bind_result_simps look option.case py_iter.simps flt new)
qed

section \<open>Experiments and the qobj\<close>

definition fields_ok :: "(string \<times> py) list \<Rightarrow> bool" where
  "fields_ok kvs \<longleftrightarrow> map_of kvs ''self'' = None"

lemma fields_again: "fields_ok kvs \<Longrightarrow> fields_from_dict (PyDict kvs) = Inr kvs"
  by (simp add: fields_from_dict_def fields_ok_def)

lemma fields_read_ok: "fields_from_dict d = Inr kvs \<Longrightarrow> fields_ok kvs"
  by (auto simp: fields_from_dict_def fields_ok_def bind_result_Inr split: if_splits)

definition expt_config_ok :: "(string \<times> py) list \<Rightarrow> bool" where
  "expt_config_ok kvs \<longleftrightarrow> expt_config_from_dict (PyDict kvs) = Inr kvs"

lemma expt_config_read_ok: "expt_config_from_dict d = Inr kvs \<Longrightarrow> expt_config_ok kvs"
proof -
  assume "expt_config_from_dict d = Inr kvs"
  then obtain xs where xs: "map_of xs ''self'' = None"
      "kvs = filter (\<lambda>(k, v). \<not> (k \<in> {''qubit_lo_freq'', ''meas_lo_freq''} \<and> v = PyNone)) xs"
    by (auto simp: expt_config_from_dict_def fields_from_dict_def bind_result_Inr split: if_splits)
  have "''self'' \<notin> fst ` set kvs" using xs by (force simp: map_of_eq_None_iff)
  then have "map_of kvs ''self'' = None" by (simp add: map_of_eq_None_iff)
  then show ?thesis by (simp add: expt_config_ok_def expt_config_from_dict_def fields_from_dict_def) (simp add: xs(2))
qed

definition experiment_ok :: "pulse_experiment \<Rightarrow> bool" where
  "experiment_ok e \<longleftrightarrow> (\<forall>xs. px_instructions e = Some xs \<longrightarrow> (\<forall>i\<in>set xs. instruction_ok i)) \<and>
     (\<forall>c. px_config e = Some c \<longrightarrow> expt_config_ok c) \<and> (\<forall>h. px_header e = Some h \<longrightarrow> fields_ok h)"

lemma when_in_Some: "when_in k d f = Inr (Some x) \<Longrightarrow> (\<And>v. f v = Inr x \<Longrightarrow> P x) \<Longrightarrow> P x"
  by (auto simp: when_in_def bind_result_Inr split: if_splits)

lemma experiment_read_ok: "experiment_from_dict d = Inr e \<Longrightarrow> experiment_ok e"
proof -
  assume "experiment_from_dict d = Inr e"
  then obtain c h insts where c: "when_in ''config'' d expt_config_from_dict = Inr c"
    and h: "when_in ''header'' d fields_from_dict = Inr h"
    and insts: "when_in ''instructions'' d (\<lambda>v. bind_result (py_iter v) (map_result instruction_from_dict)) = Inr insts"
    and e: "e = \<lparr>px_instructions = insts, px_config = c, px_header = h\<rparr>"
    unfolding experiment_from_dict_def bind_result_Inr by blast
  have "instruction_ok i" if "insts = Some xs" "i \<in> set xs" for xs i
  proof -
    have "\<exists>v. bind_result (py_iter v) (map_result instruction_from_dict) = Inr xs"
      by (rule when_in_Some [OF insts [unfolded that(1)]]) (rule exI)
    then obtain ys where "map_result instruction_from_dict ys = Inr xs" unfolding bind_result_Inr by blast
    from map_result_source [OF this that(2)] show ?thesis using instruction_read_ok by blast
  qed
  moreover have "expt_config_ok x" if "c = Some x" for x
    by (rule when_in_Some [OF c [unfolded that]]) (rule expt_config_read_ok)
  moreover have "fields_ok x" if "h = Some x" for x
    by (rule when_in_Some [OF h [unfolded that]]) (rule fields_read_ok)
  ultimately show ?thesis by (simp add: experiment_ok_def e)
qed

lemma map_result_again:
  assumes "map_result f xs = Inr ds" and "\<And>x d. x \<in> set xs \<Longrightarrow> f x = Inr d \<Longrightarrow> g d = Inr x"
  shows "map_result g ds = Inr xs"
  using assms
proof (induction xs arbitrary: ds)
  case (Cons x xs)
  obtain d ds' where d: "f x = Inr d" "map_result f xs = Inr ds'" "ds = d # ds'"
    using Cons.prems(1) by (auto split: sum.splits)
  have "g d = Inr x" using Cons.prems(2) d(1) by simp
  moreover have "map_result g ds' = Inr xs" by (rule Cons.IH [OF d(2)]) (simp add: Cons.prems(2))
  ultimately show ?case by (simp add: d(3))
qed simp

lemma experiment_again:
  assumes "experiment_ok e" and "experiment_to_dict e = Inr d"
  shows "experiment_from_dict d = Inr e"
proof -
  obtain xs ds where xs: "px_instructions e = Some xs" and ds: "map_result instruction_to_dict xs = Inr ds"
    and d: "d = PyDict ([(''instructions'', PyList ds)] @
              (case px_config e of None \<Rightarrow> [] | Some c \<Rightarrow> [(''config'', PyDict c)]) @
              (case px_header e of None \<Rightarrow> [] | Some h \<Rightarrow> [(''header'', PyDict h)]))"
    using assms(2) by (auto simp: experiment_to_dict_def bind_result_Inr split: option.splits)
  have "map_result instruction_from_dict ds = Inr xs"
    using assms(1) xs by (intro map_result_again [OF ds] instruction_again) (auto simp: experiment_ok_def)
  then have "when_in ''instructions'' d (\<lambda>v. bind_result (py_iter v) (map_result instruction_from_dict)) = Inr (Some xs)"
    by (simp add: when_in_def d dict_get_def)
  moreover have "when_in ''config'' d expt_config_from_dict = Inr (px_config e)"
    using assms(1) by (auto simp: when_in_def d dict_get_def experiment_ok_def expt_config_ok_def split: option.split)
  moreover have "when_in ''header'' d fields_from_dict = Inr (px_header e)"
    using assms(1) by (auto simp: when_in_def d dict_get_def experiment_ok_def fields_again split: option.split)
  ultimately show ?thesis by (simp add: experiment_from_dict_def xs [symmetric])
qed

definition qobj_ok :: "pulse_qobj \<Rightarrow> bool" where
  "qobj_ok q \<longleftrightarrow> (\<forall>c. pq_config q = Some c \<longrightarrow> config_ok c) \<and> fields_ok (pq_header q) \<and>
     (\<forall>es. pq_experiments q = Some es \<longrightarrow> (\<forall>e\<in>set es. experiment_ok e))"

lemma if_in_Some: "if_in k d f = Inr (Some x) \<Longrightarrow> (\<And>v. f v = Inr x \<Longrightarrow> P x) \<Longrightarrow> P x"
  by (auto simp: if_in_def bind_result_Inr split: if_splits)

lemma qobj_read_ok: "qobj_from_dict d = Inr q \<Longrightarrow> qobj_ok q"
proof -
  assume "qobj_from_dict d = Inr q"
  then obtain c es h i where c: "if_in ''config'' d config_from_dict = Inr c"
    and es: "if_in ''experiments'' d (\<lambda>v. bind_result (py_iter v) (map_result experiment_from_dict)) = Inr es"
    and h: "if_in ''header'' d fields_from_dict = Inr h"
    and q: "q = \<lparr>pq_id = i, pq_config = c, pq_header = (case h of None \<Rightarrow> [] | Some h \<Rightarrow> h), pq_experiments = es\<rparr>"
    unfolding qobj_from_dict_def bind_result_Inr by blast
  have "experiment_ok e" if "es = Some xs" "e \<in> set xs" for xs e
  proof -
    have "\<exists>v. bind_result (py_iter v) (map_result experiment_from_dict) = Inr xs"
      by (rule if_in_Some [OF es [unfolded that(1)]]) (rule exI)
    then obtain ys where "map_result experiment_from_dict ys = Inr xs" unfolding bind_result_Inr by blast
    from map_result_source [OF this that(2)] show ?thesis using experiment_read_ok by blast
  qed
  moreover have "config_ok x" if "c = Some x" for x
    by (rule if_in_Some [OF c [unfolded that]]) (rule config_read_ok)
  moreover have "fields_ok (case h of None \<Rightarrow> [] | Some h \<Rightarrow> h)"
  proof (cases h)
    case (Some x)
    have "fields_ok x" by (rule if_in_Some [OF h [unfolded Some]]) (rule fields_read_ok)
    with Some show ?thesis by simp
  qed (simp add: fields_ok_def)
  ultimately show ?thesis by (simp add: qobj_ok_def q)
qed

lemma qobj_again:
  assumes "qobj_ok q" and "qobj_to_dict q = Inr d"
  shows "qobj_from_dict d = Inr q"
proof -
  obtain c cd es ds where c: "pq_config q = Some c" "config_to_dict c = Inr cd"
    and es: "pq_experiments q = Some es" "map_result experiment_to_dict es = Inr ds"
    and d: "d = PyDict [(''qobj_id'', pq_id q), (''header'', PyDict (pq_header q)), (''config'', cd),
              (''schema_version'', PyStr ''1.2.0''), (''type'', PyStr ''PULSE''), (''experiments'', PyList ds)]"
    using assms(2) by (auto simp: qobj_to_dict_def bind_result_Inr split: option.splits)
  have cfg: "config_from_dict cd = Inr c" using assms(1) c by (intro config_again) (simp_all add: qobj_ok_def)
  have "map_result experiment_from_dict ds = Inr es"
    using assms(1) es by (intro map_result_again [OF es(2)] experiment_again) (auto simp: qobj_ok_def)
  moreover have "fields_from_dict (PyDict (pq_header q)) = Inr (pq_header q)"
    using assms(1) by (intro fields_again) (simp add: qobj_ok_def)
  ultimately show ?thesis
    by (simp add: qobj_from_dict_def if_in_def d dict_get_def cfg c(1) [symmetric] es(1) [symmetric])
qed


text \<open>
  C27. An object that was read from a dictionary, and can be written as one, is read back from it as itself:
  the attributes that were \<open>None\<close>, counts given as texts and samples given as pairs are settled by the
  first reading.
\<close>
theorem qobj_dict_roundtrip:
  assumes "qobj_from_dict d = Inr q" and "qobj_to_dict q = Inr d'"
  shows "qobj_from_dict d' = Inr q"
  using qobj_again [OF qobj_read_ok] assms by blast

end
