(* ===== verification/Job_File_Properties.thy ===== *)
theory Job_File_Properties imports Qobj_Properties begin

text \<open>
  Facts about what preprocessing does to a job file: instructions and experiments of a qobj that was
  decoded are read, written, put into a text and decoded again as they are, and an item of a pulse
  library is refused by the second of the two steps that change it.
\<close>

section \<open>Dictionaries changed in place\<close>

lemma update_in_dict:
  "update_in k f (PyDict d) = (case map_of d k of None \<Rightarrow> Inl KeyError
     | Some x \<Rightarrow> bind_result (f x) (\<lambda>y. Inr (PyDict (AList.update k y d))))"
  by (auto simp: update_in_def dict_get_def split: option.split)

lemma update_map:
  "distinct (map fst kvs) \<Longrightarrow> (k, v) \<in> set kvs \<Longrightarrow>
   AList.update k c (map (\<lambda>(j, w). (j, g j w)) kvs) = map (\<lambda>(j, w). (j, if j = k then c else g j w)) kvs"
proof (induction kvs)
  case (Cons x kvs)
  show ?case
  proof (cases "fst x = k")
    case True
    then have "k \<notin> fst ` set kvs" using Cons.prems(1) by auto
    then have "map (\<lambda>(j, w). (j, if j = k then c else g j w)) kvs = map (\<lambda>(j, w). (j, g j w)) kvs"
      by (intro map_cong refl) (auto simp: rev_image_eqI)
    then show ?thesis using True by (simp add: split_beta)
  next
    case False
    with Cons show ?thesis by (auto simp: split_beta)
  qed
qed simp

lemma map_of_mapped: "map_of (map (\<lambda>(j, w). (j, g j w)) kvs) k = map_option (g k) (map_of kvs k)"
  by (induction kvs) auto

lemma map_fst_entries: "map fst (map (\<lambda>(j, w). (j, g j w)) kvs) = map fst kvs"
  by (induction kvs) auto

lemma map_entries_idI: "(\<And>j w. (j, w) \<in> set kvs \<Longrightarrow> g j w = w) \<Longrightarrow> map (\<lambda>(j, w). (j, g j w)) kvs = kvs"
  by (intro map_idI) auto

section \<open>Instructions through a text\<close>

text \<open>Parameters whose amplitude, if there is one, is a complex number.\<close>

definition amp_ok :: "py \<Rightarrow> bool" where
  "amp_ok p \<longleftrightarrow> (\<exists>d. p = PyDict d \<and> distinct (map fst d) \<and>
       (\<forall>(k, w)\<in>set d. if k = ''amp'' then \<exists>a b. w = PyComplex a b else json_like w)) \<or>
     (\<exists>xs. p = PyList xs \<and> json_like p \<and> PyStr ''amp'' \<notin> set xs)"

definition decoded_entry :: "string \<Rightarrow> py \<Rightarrow> bool" where
  "decoded_entry k w \<longleftrightarrow> (if k = ''val'' then \<exists>a b. w = PyComplex a b
     else if k = ''parameters'' then amp_ok w else json_like w)"

lemma amp_wire:
  assumes "amp_ok p"
  shows "py_contains ''amp'' (wire p) = Inr True \<and> update_in ''amp'' to_complex (wire p) = Inr p \<or>
    py_contains ''amp'' (wire p) = Inr False \<and> wire p = p"
  using assms unfolding amp_ok_def
proof (elim disjE exE conjE)
  fix d
  assume p: "p = PyDict d" and dist: "distinct (map fst d)"
    and vals: "\<forall>(k, w)\<in>set d. if k = ''amp'' then \<exists>a b. w = PyComplex a b else json_like w"
  have w: "wire p = PyDict (map (\<lambda>(j, w). (j, wire w)) d)" unfolding p by (rule wire_dict [OF dist])
  show ?thesis
  proof (cases "map_of d ''amp''")
    case None
    then have "''amp'' \<notin> fst ` set d" by (simp add: map_of_eq_None_iff)
    then have "wire x = x" if "(j, x) \<in> set d" for j x
    proof -
      have "(if j = ''amp'' then \<exists>a b. x = PyComplex a b else json_like x)" using bspec [OF vals that] by simp
      moreover have "j \<noteq> ''amp''" using that \<open>''amp'' \<notin> _\<close> by (auto simp: rev_image_eqI)
      ultimately show ?thesis by (simp add: wire_json_like)
    qed
    then have "map (\<lambda>(j, w). (j, wire w)) d = d" by (rule map_entries_idI)
    then have "wire p = p" unfolding w by (simp only: p)
    moreover have "py_contains ''amp'' (wire p) = Inr False" using None by (simp add: w map_of_mapped)
    ultimately show ?thesis by blast
  next
    case (Some c)
    then have c: "(''amp'', c) \<in> set d" by (rule map_of_SomeD)
    then obtain a b where ab: "c = PyComplex a b" using vals by fastforce
    have "update_in ''amp'' to_complex (wire p) = Inr (PyDict (map (\<lambda>(j, x). (j, if j = ''amp'' then c else wire x)) d))"
      unfolding w update_in_dict ab
      using Some [unfolded ab] by (simp add: map_of_mapped py_complex_def update_map [OF dist c])
    moreover have "map (\<lambda>(j, x). (j, if j = ''amp'' then c else wire x)) d = d"
    proof (rule map_entries_idI)
      fix j x
      assume jx: "(j, x) \<in> set d"
      show "(if j = ''amp'' then c else wire x) = x"
      proof (cases "j = ''amp''")
        case True
        with jx c dist show ?thesis by (simp add: eq_key_imp_eq_value)
      next
        case False
        then have "json_like x" using bspec [OF vals jx] by simp
        with False show ?thesis by (simp add: wire_json_like)
      qed
    qed
    moreover have "py_contains ''amp'' (wire p) = Inr True" using Some by (simp add: w map_of_mapped)
    ultimately show ?thesis by (simp add: p)
  qed
next
  fix xs
  assume p: "p = PyList xs" and "json_like p" and no: "PyStr ''amp'' \<notin> set xs"
  then have "wire p = p" by (intro wire_json_like)
  with no p show ?thesis by simp
qed

lemma decode_wire_instruction:
  assumes dist: "distinct (map fst kvs)" and dec: "\<And>k w. (k, w) \<in> set kvs \<Longrightarrow> decoded_entry k w"
  shows "decode_instruction (wire (PyDict kvs)) = Inr (PyDict kvs)"
proof -
  let ?D0 = "PyDict (map (\<lambda>(j, w). (j, wire w)) kvs)"
  let ?D1 = "PyDict (map (\<lambda>(j, w). (j, if j = ''val'' then w else wire w)) kvs)"
  have w: "wire (PyDict kvs) = ?D0" by (rule wire_dict [OF dist])
  have key: "w = v" if "(k, w) \<in> set kvs" "(k, v) \<in> set kvs" for k v w
    using that dist by (rule eq_key_imp_eq_value [rotated])
  have upd: "map (\<lambda>(j, w). (j, if j = k then v else g j w)) kvs = map (\<lambda>(j, w). (j, if j = k then w else g j w)) kvs"
    if "(k, v) \<in> set kvs" for k v g
    using key [OF that] by (intro map_cong refl) auto
  have one: "(if map_of kvs ''val'' \<noteq> None then update_in ''val'' to_complex ?D0 else Inr ?D0) = Inr ?D1"
  proof (cases "map_of kvs ''val''")
    case None
    then have "''val'' \<notin> fst ` set kvs" by (simp add: map_of_eq_None_iff)
    then have "map (\<lambda>(j, w). (j, wire w)) kvs = map (\<lambda>(j, w). (j, if j = ''val'' then w else wire w)) kvs"
      by (intro map_cong refl) force
    with None show ?thesis by simp
  next
    case (Some c)
    then have c: "(''val'', c) \<in> set kvs" by (rule map_of_SomeD)
    then obtain a b where ab: "c = PyComplex a b" using dec unfolding decoded_entry_def by fastforce
    show ?thesis
      unfolding update_in_dict upd [OF c, symmetric] unfolding ab using Some [unfolded ab]
      by (simp add: map_of_mapped py_complex_def update_map [OF dist c])
  qed
  have same: "map (\<lambda>(j, w). (j, if j = ''parameters'' then w else if j = ''val'' then w else wire w)) kvs = kvs"
  proof (rule map_entries_idI)
    fix j x
    assume "(j, x) \<in> set kvs"
    from dec [OF this] show "(if j = ''parameters'' then x else if j = ''val'' then x else wire x) = x"
      by (auto simp: decoded_entry_def split: if_splits intro: wire_json_like)
  qed
  have ct: "py_contains k (PyDict (map (\<lambda>(j, w). (j, g j w)) kvs)) = Inr (map_of kvs k \<noteq> None)" for k g
    by (simp add: map_of_mapped)
  show ?thesis
  proof (cases "map_of kvs ''parameters''")
    case None
    then have "''parameters'' \<notin> fst ` set kvs" by (simp add: map_of_eq_None_iff)
    then have "map (\<lambda>(j, w). (j, if j = ''val'' then w else wire w)) kvs =
        map (\<lambda>(j, w). (j, if j = ''parameters'' then w else if j = ''val'' then w else wire w)) kvs"
      by (intro map_cong refl) force
    then show ?thesis
      unfolding w decode_instruction_def ct bind_result_simps one using None by (simp add: same)
  next
    case (Some p)
    then have p: "(''parameters'', p) \<in> set kvs" by (rule map_of_SomeD)
    then have ok: "amp_ok p" using dec unfolding decoded_entry_def by fastforce
    have it: "py_item ?D1 ''parameters'' = Inr (wire p)" using Some by (simp add: dict_get_def map_of_mapped)
    have u: "update_in ''parameters'' (update_in ''amp'' to_complex) ?D1 = Inr (PyDict kvs)"
      if "update_in ''amp'' to_complex (wire p) = Inr p"
      using Some that by (simp add: update_in_dict map_of_mapped update_map [OF dist p] upd [OF p] same)
    have "?D1 = PyDict kvs" if "wire p = p"
    proof -
      have "map (\<lambda>(j, w). (j, if j = ''val'' then w else wire w)) kvs =
        map (\<lambda>(j, w). (j, if j = ''parameters'' then w else if j = ''val'' then w else wire w)) kvs"
        using key [OF p] that by (intro map_cong refl) auto
      then show ?thesis by (simp add: same)
    qed
    then show ?thesis
      unfolding w decode_instruction_def ct bind_result_simps one it using Some amp_wire [OF ok] u by auto
  qed
qed


section \<open>Instructions of a job file\<close>

lemma json_like_iter: "json_like v \<Longrightarrow> py_iter v = Inr xs \<Longrightarrow> x \<in> set xs \<Longrightarrow> json_like x"
  by (cases v) auto

lemma json_like_entry: "json_like (PyDict d) \<Longrightarrow> (k, v) \<in> set d \<Longrightarrow> json_like v"
  by auto

lemma json_like_get: "json_like (PyDict d) \<Longrightarrow> map_of d k = Some v \<Longrightarrow> json_like v"
  using json_like_entry map_of_SomeD by metis

lemma option_json_like: "json_like d \<Longrightarrow> option_from_dict d = Inr opt \<Longrightarrow> json_like (option_to_dict opt)"
proof -
  assume j: "json_like d" and r: "option_from_dict d = Inr opt"
  from r obtain kvs where d: "d = PyDict kvs" by (cases d) (auto simp: option_from_dict_def)
  from r obtain name where n: "map_of kvs ''name'' = Some name"
    and opt: "opt = \<lparr>mo_name = name, mo_params = given (filter (\<lambda>(k, _). k \<noteq> ''name'') kvs) ''params''\<rparr>"
    by (auto simp: option_from_dict_def d dict_get_def bind_result_Inr Let_def split: option.splits if_splits)
  have "json_like name" using json_like_get n j unfolding d by blast
  moreover have "json_like v" if "mo_params opt = Some v" for v
  proof -
    have "map_of (filter (\<lambda>(k, _). k \<noteq> ''name'') kvs) ''params'' = Some v"
      using that by (auto simp: opt given_def split: option.splits if_splits)
    then have "(''params'', v) \<in> set kvs" using map_of_SomeD by fastforce
    then show ?thesis using j unfolding d by (rule json_like_entry [rotated])
  qed
  ultimately show ?thesis by (auto simp: option_to_dict_def opt split: option.split)
qed

lemma options_json_like:
  assumes "json_like d" and "options_from_dict d = Inr os" and "options_to_dict os = Inr v"
  shows "json_like v"
proof (cases os)
  case (Many opts)
  obtain xs where xs: "d = PyList xs" "map_result option_from_dict xs = Inr opts"
    using assms(2) Many by (cases d) (auto simp: options_from_dict_def bind_result_Inr)
  have "json_like (option_to_dict opt)" if o: "opt \<in> set opts" for opt
  proof -
    obtain x where "x \<in> set xs" "option_from_dict x = Inr opt" using map_result_source [OF xs(2) o] by blast
    then show ?thesis using assms(1) xs(1) by (intro option_json_like [of x]) auto
  qed
  then show ?thesis using assms(3) by (auto simp: Many)
qed (use assms(3) in simp)

lemma parameters_amp_ok:
  assumes "json_like v" and "parameters_from_dict v = Inr w"
  shows "amp_ok w"
proof (cases v)
  case (PyDict d)
  show ?thesis
  proof (cases "map_of d ''amp''")
    case None
    then have "w = PyDict d" "''amp'' \<notin> fst ` set d"
      using assms(2) by (auto simp: parameters_from_dict_def PyDict map_of_eq_None_iff)
    then show ?thesis using assms(1) unfolding amp_ok_def PyDict by (fastforce simp: rev_image_eqI)
  next
    case (Some a)
    with assms(2) obtain c where c: "to_complex a = Inr c" "w = PyDict (AList.update ''amp'' c d)"
      by (auto simp: parameters_from_dict_def PyDict dict_get_def bind_result_Inr)
    have dist: "distinct (map fst d)" using assms(1) by (simp add: PyDict)
    have "AList.update ''amp'' c d = map (\<lambda>(j, x). (j, if j = ''amp'' then c else x)) d"
      using update_map [OF dist map_of_SomeD [OF Some], of c "\<lambda>_ x. x"] by simp
    then have w: "w = PyDict (map (\<lambda>(j, x). (j, if j = ''amp'' then c else x)) d)" (is "_ = PyDict ?d") by (simp add: c(2))
    have "distinct (map fst ?d)" using dist by (simp only: map_fst_entries)
    moreover have "\<forall>(k, x)\<in>set ?d. if k = ''amp'' then \<exists>a b. x = PyComplex a b else json_like x"
      using to_complex_value [OF c(1)] assms(1) by (auto simp: PyDict)
    ultimately show ?thesis unfolding amp_ok_def w by blast
  qed
next
  case (PyList xs)
  then show ?thesis using assms by (auto simp: parameters_from_dict_def amp_ok_def split: if_splits)
qed (use assms in \<open>auto simp: parameters_from_dict_def\<close>)

text \<open>An entry as a job file leaves it, before \<open>val\<close> is decoded.\<close>

definition read_entry :: "string \<Rightarrow> py \<Rightarrow> bool" where
  "read_entry k w \<longleftrightarrow> (if k = ''parameters'' then amp_ok w else json_like w)"

lemma new_instruction_entries:
  assumes "new_instruction n t args = Inr i" and "\<And>k v. map_of args k = Some (Val v) \<Longrightarrow> P k v"
    and "\<And>k os. map_of args k = Some (Opts os) \<Longrightarrow> Q os"
  shows "pi_name i = n" "pi_t0 i = t" "\<And>a v. (a, v) \<in> set (pi_attrs i) \<Longrightarrow> P a v"
    "\<And>os. pi_kernels i = Some os \<Longrightarrow> Q os" "\<And>os. pi_discriminators i = Some os \<Longrightarrow> Q os"
proof -
  note i = assms(1) [unfolded new_instruction_def]
  show "pi_name i = n" "pi_t0 i = t" using i by (auto split: if_splits)
  show "P a v" if "(a, v) \<in> set (pi_attrs i)" for a v
  proof -
    have "pi_attrs i = List.map_filter (\<lambda>a. case map_of args a of
            Some (Val v) \<Rightarrow> if v = PyNone then None else Some (a, v) | _ \<Rightarrow> None) COMMON_ATTRS"
      using i by (auto split: if_splits)
    then have "map_of args a = Some (Val v)"
      using that by (auto simp: map_filter_def split: option.splits argument.splits if_splits)
    then show ?thesis by (rule assms(2))
  qed
  show "Q os" if "pi_kernels i = Some os" for os
    using i that assms(3) by (auto split: if_splits option.splits argument.splits)
  show "Q os" if "pi_discriminators i = Some os" for os
    using i that assms(3) by (auto split: if_splits option.splits argument.splits)
qed

lemma instruction_entries:
  assumes j: "json_like d" and r: "instruction_from_dict d = Inr i" and w: "instruction_to_dict i = Inr (PyDict kvs)"
    and kv: "(k, v) \<in> set kvs"
  shows "read_entry k v"
proof -
  from r obtain kv0 where d: "d = PyDict kv0" by (cases d) (auto simp: instruction_from_dict_def)
  with r obtain args n t where args: "map_result argument_from_dict (filter (\<lambda>(k, _). k \<notin> {''t0'', ''name''}) kv0) = Inr args"
      and n: "py_item d ''name'' = Inr n" "py_item d ''t0'' = Inr t" and new: "new_instruction n t args = Inr i"
    unfolding instruction_from_dict_def bind_result_Inr by auto
  have src: "\<exists>v. json_like v \<and> argument_from_dict (k, v) = Inr (k, x)" if m: "map_of args k = Some x" for k x
  proof -
    obtain k' v where "(k', v) \<in> set kv0" "argument_from_dict (k', v) = Inr (k, x)"
      using map_result_source [OF args map_of_SomeD [OF m]] by auto
    moreover then have "k' = k" using argument_read by blast
    ultimately show ?thesis using j json_like_entry unfolding d by blast
  qed
  have P: "read_entry k v" if m: "map_of args k = Some (Val v)" for k v
  proof -
    obtain u where u: "json_like u" "argument_from_dict (k, u) = Inr (k, Val v)" using src [OF m] by blast
    show ?thesis
      using u parameters_amp_ok [OF u(1)]
      by (auto simp: argument_from_dict_def read_entry_def bind_result_Inr split: if_splits)
  qed
  have Q: "\<forall>v. options_to_dict os = Inr v \<longrightarrow> json_like v" if m: "map_of args k = Some (Opts os)" for k os
  proof -
    obtain u where u: "json_like u" "argument_from_dict (k, u) = Inr (k, Opts os)" using src [OF m] by blast
    then have "options_from_dict u = Inr os" by (auto simp: argument_from_dict_def bind_result_Inr split: if_splits)
    then show ?thesis using options_json_like [OF u(1)] by blast
  qed
  let ?Q = "\<lambda>os. \<forall>v. options_to_dict os = Inr v \<longrightarrow> json_like v"
  have nt: "pi_name i = n" "pi_t0 i = t"
    by (rule new_instruction_entries [where P = read_entry and Q = ?Q, OF new P Q]; assumption)+
  have at: "read_entry a v" if "(a, v) \<in> set (pi_attrs i)" for a v
    using that by (rule new_instruction_entries(3) [where Q = ?Q, OF new P Q, rotated -1])
  have ks: "?Q os" if "pi_kernels i = Some os" for os
    by (rule new_instruction_entries(4) [where P = read_entry and Q = ?Q, OF new P Q _]; (assumption | rule that))
  have ds: "?Q os" if "pi_discriminators i = Some os" for os
    by (rule new_instruction_entries(5) [where P = read_entry and Q = ?Q, OF new P Q _]; (assumption | rule that))
  obtain f kv' dv where kvs: "kvs = [(''name'', pi_name i), (''t0'', pi_t0 i)] @ pick f COMMON_ATTRS @
      option_items ''kernels'' kv' @ option_items ''discriminators'' dv" and a: "pi_attrs i = pick f COMMON_ATTRS"
    and ko: "read_as kv' (pi_kernels i)" "read_as dv (pi_discriminators i)"
    using instruction_dict [OF instruction_read_ok [OF r] w] by (metis py.inject(8))
  have "json_like n" "json_like t"
    using n j json_like_get unfolding d by (auto simp: dict_get_def split: option.splits)
  moreover have "k = ''kernels'' \<and> json_like x" if "(k, x) \<in> set (option_items ''kernels'' kv')" for k x
    using that ko(1) ks by (auto simp: option_items_def read_as_def)
  moreover have "k = ''discriminators'' \<and> json_like x" if "(k, x) \<in> set (option_items ''discriminators'' dv)" for k x
    using that ko(2) ds by (auto simp: option_items_def read_as_def)
  moreover have "read_entry k v" if "(k, v) \<in> set (pi_attrs i)" using that by (rule at)
  ultimately show ?thesis
    using kv unfolding kvs a nt by (fastforce simp: read_entry_def)
qed

section \<open>Decoding an instruction\<close>

definition as_complex :: "py \<Rightarrow> py" where
  "as_complex v = (case to_complex v of Inl _ \<Rightarrow> v | Inr c \<Rightarrow> c)"

definition val_entry :: "string \<Rightarrow> py \<Rightarrow> py" where
  "val_entry k v = (if k = ''val'' then as_complex v else v)"

text \<open>An instruction with its \<open>val\<close> decoded.\<close>

definition val_decoded :: "pulse_instruction \<Rightarrow> pulse_instruction" where
  "val_decoded i = i\<lparr>pi_attrs := map (\<lambda>(k, v). (k, val_entry k v)) (pi_attrs i)\<rparr>"

lemma amp_same:
  assumes "amp_ok p"
  shows "py_contains ''amp'' p = Inr True \<and> update_in ''amp'' to_complex p = Inr p \<or> py_contains ''amp'' p = Inr False"
  using assms unfolding amp_ok_def
proof (elim disjE exE conjE)
  fix d
  assume p: "p = PyDict d" and vals: "\<forall>(k, w)\<in>set d. if k = ''amp'' then \<exists>a b. w = PyComplex a b else json_like w"
  show ?thesis
  proof (cases "map_of d ''amp''")
    case (Some c)
    then obtain a b where "c = PyComplex a b" using bspec [OF vals map_of_SomeD [OF Some]] by auto
    with Some show ?thesis by (simp add: p update_in_dict update_triv)
  qed (simp add: p)
qed simp

lemma decode_instruction_entries:
  assumes dist: "distinct (map fst kvs)" and entry: "\<And>k v. (k, v) \<in> set kvs \<Longrightarrow> read_entry k v"
    and dec: "decode_instruction (PyDict kvs) = Inr y"
  shows "y = PyDict (map (\<lambda>(k, v). (k, val_entry k v)) kvs)"
    and "(''val'', v) \<in> set kvs \<Longrightarrow> \<exists>c. to_complex v = Inr c"
proof -
  let ?kvs = "map (\<lambda>(k, v). (k, val_entry k v)) kvs"
  obtain x1 where one: "(if map_of kvs ''val'' \<noteq> None then update_in ''val'' to_complex (PyDict kvs) else Inr (PyDict kvs)) = Inr x1"
    using dec unfolding decode_instruction_def py_contains.simps bind_result_simps bind_result_Inr by blast
  have x1: "x1 = PyDict ?kvs \<and> (\<forall>v. map_of kvs ''val'' = Some v \<longrightarrow> (\<exists>c. to_complex v = Inr c))"
  proof (cases "map_of kvs ''val''")
    case None
    then have "''val'' \<notin> fst ` set kvs" by (simp add: map_of_eq_None_iff)
    then have "?kvs = kvs" by (intro map_entries_idI) (auto simp: val_entry_def rev_image_eqI)
    then show ?thesis using one None by simp
  next
    case (Some v)
    then obtain c where c: "to_complex v = Inr c" "x1 = PyDict (AList.update ''val'' c kvs)"
      using one by (auto simp: update_in_dict bind_result_Inr)
    have "AList.update ''val'' c kvs = map (\<lambda>(j, w). (j, if j = ''val'' then c else w)) kvs"
      using update_map [OF dist map_of_SomeD [OF Some], of c "\<lambda>_ w. w"] by simp
    also have "\<dots> = ?kvs"
    proof (intro map_cong refl)
      fix e
      assume e: "e \<in> set kvs"
      have "snd e = v" if "fst e = ''val''"
      proof (rule eq_key_imp_eq_value [OF dist])
        show "(''val'', snd e) \<in> set kvs" using e that by (metis prod.collapse)
        show "(''val'', v) \<in> set kvs" using Some by (rule map_of_SomeD)
      qed
      then show "(case e of (j, w) \<Rightarrow> (j, if j = ''val'' then c else w)) = (case e of (k, v) \<Rightarrow> (k, val_entry k v))"
        using c(1) by (auto simp: val_entry_def as_complex_def split_beta)
    qed
    finally show ?thesis using c Some by simp
  qed
  show "\<exists>c. to_complex v = Inr c" if "(''val'', v) \<in> set kvs"
    using x1 map_of_is_SomeI [OF dist that] by blast
  have ct: "py_contains ''parameters'' (PyDict ?kvs) = Inr (map_of kvs ''parameters'' \<noteq> None)"
    by (simp add: map_of_mapped)
  have rest: "bind_result (if map_of kvs ''parameters'' \<noteq> None
        then bind_result (py_item (PyDict ?kvs) ''parameters'') (py_contains ''amp'') else Inr False) (\<lambda>has_amp.
      if has_amp then update_in ''parameters'' (update_in ''amp'' to_complex) (PyDict ?kvs) else Inr (PyDict ?kvs)) = Inr y"
    using dec unfolding decode_instruction_def py_contains.simps(1) bind_result_simps one using x1
    by (simp only: bind_result_simps ct)
  show "y = PyDict ?kvs"
  proof (cases "map_of kvs ''parameters''")
    case None
    then show ?thesis using rest by simp
  next
    case (Some p)
    then have "amp_ok p" using entry [OF map_of_SomeD [OF Some]] by (simp add: read_entry_def)
    have m: "map_of ?kvs ''parameters'' = Some p" using Some by (simp add: map_of_mapped val_entry_def)
    then have it: "py_item (PyDict ?kvs) ''parameters'' = Inr p" by (simp add: dict_get_def)
    have "update_in ''parameters'' (update_in ''amp'' to_complex) (PyDict ?kvs) = Inr (PyDict ?kvs)"
      if "update_in ''amp'' to_complex p = Inr p"
      unfolding update_in_dict m using that m by (simp add: update_triv)
    then show ?thesis using amp_same [OF \<open>amp_ok p\<close>] rest Some it by auto
  qed
qed

lemma instruction_keys:
  "distinct (map fst ([(''name'', n), (''t0'', t)] @ pick f COMMON_ATTRS @
     option_items ''kernels'' kv @ option_items ''discriminators'' dv))"
proof -
  have "set (map fst (pick f COMMON_ATTRS)) \<subseteq> set COMMON_ATTRS" by (auto simp: pick_in)
  moreover have "map fst (option_items k v) \<in> {[], [k]}" for k v by (simp add: option_items_def split: option.split)
  ultimately show ?thesis
    using pick_distinct [OF common_attrs(1), of f] common_attrs(2-5)
    by (cases kv; cases dv) (auto simp: option_items_def)
qed

lemma instruction_decoded:
  assumes j: "json_like d" and r: "instruction_from_dict d = Inr i" and w: "instruction_to_dict i = Inr x"
    and dec: "decode_instruction x = Inr y"
  shows "instruction_from_dict y = Inr (val_decoded i)" "instruction_to_dict (val_decoded i) = Inr y"
    "decode_instruction (wire y) = Inr y"
proof -
  obtain f kv dv where x: "x = PyDict ([(''name'', pi_name i), (''t0'', pi_t0 i)] @ pick f COMMON_ATTRS @
      option_items ''kernels'' kv @ option_items ''discriminators'' dv)" (is "x = PyDict ?kvs")
    and a: "pi_attrs i = pick f COMMON_ATTRS" and none: "\<And>a. f a \<noteq> Some PyNone"
    and par: "\<And>v. f ''parameters'' = Some v \<Longrightarrow> parameters_from_dict v = Inr v"
    and ko: "read_as kv (pi_kernels i)" "read_as dv (pi_discriminators i)"
    by (rule instruction_dict [OF instruction_read_ok [OF r] w]) (rule that; assumption)
  have entry: "read_entry k v" if "(k, v) \<in> set ?kvs" for k v
    using instruction_entries [OF j r w [unfolded x] that] .
  note dist = instruction_keys [of "pi_name i" "pi_t0 i" f kv dv]
  have ys: "y = PyDict (map (\<lambda>(k, v). (k, val_entry k v)) ?kvs)"
    using entry by (rule decode_instruction_entries(1) [OF dist _ dec [unfolded x]])
  have yv: "\<exists>c. to_complex v = Inr c" if "(''val'', v) \<in> set ?kvs" for v
    using decode_instruction_entries(2) [OF dist _ dec [unfolded x] that] entry by blast
  let ?f = "\<lambda>a. map_option (val_entry a) (f a)"
  have opt: "map (\<lambda>(k, v). (k, val_entry k v)) (option_items k v) = option_items k v" if "k \<noteq> ''val''" for k v
    using that by (simp add: option_items_def val_entry_def split: option.split)
  have y: "y = PyDict ([(''name'', pi_name i), (''t0'', pi_t0 i)] @ pick ?f COMMON_ATTRS @
      option_items ''kernels'' kv @ option_items ''discriminators'' dv)"
    using ys by (simp add: map_pick opt val_entry_def [of "''name''"] val_entry_def [of "''t0''"])
  have "as_complex v \<noteq> PyNone" if "f ''val'' = Some v" for v
  proof -
    have "(''val'', v) \<in> set ?kvs" using that common_attrs(6) by (simp add: pick_in)
    then obtain c where c: "to_complex v = Inr c" using yv by blast
    then show ?thesis using to_complex_value [OF c] by (auto simp: as_complex_def)
  qed
  then have none': "?f a \<noteq> Some PyNone" for a using none [of a] by (auto simp: val_entry_def)
  have par': "parameters_from_dict v = Inr v" if "?f ''parameters'' = Some v" for v
    using that par by (auto simp: val_entry_def)
  have i: "val_decoded i = \<lparr>pi_name = pi_name i, pi_t0 = pi_t0 i, pi_attrs = pick ?f COMMON_ATTRS,
      pi_kernels = pi_kernels i, pi_discriminators = pi_discriminators i\<rparr>"
    by (simp add: val_decoded_def a map_pick)
  show "instruction_from_dict y = Inr (val_decoded i)" unfolding y i by (rule instruction_canonical [OF none' par' ko])
  show "instruction_to_dict (val_decoded i) = Inr y" unfolding y i by (rule canonical_to_dict [OF ko])
  show "decode_instruction (wire y) = Inr y"
    unfolding ys
  proof (rule decode_wire_instruction)
    show "distinct (map fst (map (\<lambda>(k, v). (k, val_entry k v)) ?kvs))" using dist by (simp only: map_fst_entries)
    fix k v
    assume "(k, v) \<in> set (map (\<lambda>(k, v). (k, val_entry k v)) ?kvs)"
    then obtain u where u: "(k, u) \<in> set ?kvs" "v = val_entry k u" by auto
    show "decoded_entry k v"
    proof (cases "k = ''val''")
      case True
      then obtain c where c: "to_complex u = Inr c" using yv u(1) by blast
      then show ?thesis using to_complex_value [OF c] u(2) True by (auto simp: decoded_entry_def val_entry_def as_complex_def)
    next
      case False
      then show ?thesis using entry [OF u(1)] u(2) by (simp add: decoded_entry_def read_entry_def val_entry_def)
    qed
  qed
qed


section \<open>Lists, experiments and the qobj\<close>

lemma list_decoded:
  assumes step: "\<And>v x d y. P v \<Longrightarrow> from v = Inr x \<Longrightarrow> to x = Inr d \<Longrightarrow> dec d = Inr y \<Longrightarrow>
      from y = Inr (G x) \<and> to (G x) = Inr y \<and> dec (wire y) = Inr y"
    and "\<And>v. v \<in> set vs \<Longrightarrow> P v" and "map_result from vs = Inr xs" and "map_result to xs = Inr ds"
    and "map_result dec ds = Inr ys"
  shows "map_result from ys = Inr (map G xs) \<and> map_result to (map G xs) = Inr ys \<and> map_result dec (map wire ys) = Inr ys"
  using assms(2-5)
proof (induction vs arbitrary: xs ds ys)
  case (Cons v vs)
  obtain x xs' where x: "from v = Inr x" "map_result from vs = Inr xs'" "xs = x # xs'"
    using Cons.prems(2) by (auto split: sum.splits)
  obtain d ds' where d: "to x = Inr d" "map_result to xs' = Inr ds'" "ds = d # ds'"
    using Cons.prems(3) x(3) by (auto split: sum.splits)
  obtain y ys' where y: "dec d = Inr y" "map_result dec ds' = Inr ys'" "ys = y # ys'"
    using Cons.prems(4) d(3) by (auto split: sum.splits)
  have "P v" using Cons.prems(1) by simp
  note one = step [OF this x(1) d(1) y(1)]
  have "map_result from ys' = Inr (map G xs') \<and> map_result to (map G xs') = Inr ys' \<and> map_result dec (map wire ys') = Inr ys'"
    by (rule Cons.IH [OF _ x(2) d(2) y(2)]) (simp add: Cons.prems(1))
  with one show ?case by (simp add: x(3) y(3))
qed simp

lemma update_each_list: "update_each f (PyList xs) = bind_result (map_result f xs) (\<lambda>ys. Inr (PyList ys))"
  by (simp add: update_each_def)

definition expt_decoded :: "pulse_experiment \<Rightarrow> pulse_experiment" where
  "expt_decoded e = e\<lparr>px_instructions := map_option (map val_decoded) (px_instructions e)\<rparr>"

abbreviation decode_experiment :: "py \<Rightarrow> py result" where
  "decode_experiment \<equiv> update_in ''instructions'' (update_each decode_instruction)"

lemma fields_json_like: "json_like v \<Longrightarrow> fields_from_dict v = Inr h \<Longrightarrow> json_like (PyDict h)"
  by (cases v) (auto simp: fields_from_dict_def split: if_splits)

lemma filter_json_like: "json_like (PyDict h) \<Longrightarrow> json_like (PyDict (filter p h))"
  by (auto simp: distinct_map_filter)

lemma expt_config_json_like: "json_like v \<Longrightarrow> expt_config_from_dict v = Inr h \<Longrightarrow> json_like (PyDict h)"
proof -
  assume j: "json_like v" and "expt_config_from_dict v = Inr h"
  then obtain x where x: "fields_from_dict v = Inr x"
      "h = filter (\<lambda>(k, v). \<not> (k \<in> {''qubit_lo_freq'', ''meas_lo_freq''} \<and> v = PyNone)) x"
    by (auto simp: expt_config_from_dict_def bind_result_Inr)
  show ?thesis unfolding x(2) by (rule filter_json_like [OF fields_json_like [OF j x(1)]])
qed

lemma py_pop_json_like: "json_like d \<Longrightarrow> py_pop d k = Inr v \<Longrightarrow> json_like v"
  by (cases d) (auto simp: dict_get_def split: option.splits dest: map_of_SomeD)

lemma py_item_json_like: "json_like d \<Longrightarrow> py_item d k = Inr v \<Longrightarrow> json_like v"
  by (cases d) (auto simp: dict_get_def split: option.splits dest: map_of_SomeD)

lemma when_in_json_like:
  "json_like d \<Longrightarrow> when_in k d f = Inr (Some x) \<Longrightarrow> \<exists>v. json_like v \<and> f v = Inr x"
  by (auto simp: when_in_def bind_result_Inr split: if_splits intro: py_pop_json_like)

lemma if_in_json_like:
  "json_like d \<Longrightarrow> if_in k d f = Inr (Some x) \<Longrightarrow> \<exists>v. json_like v \<and> f v = Inr x"
  by (auto simp: if_in_def bind_result_Inr split: if_splits intro: py_item_json_like)

lemma experiment_decoded:
  assumes j: "json_like d" and r: "experiment_from_dict d = Inr e" and w: "experiment_to_dict e = Inr x"
    and dec: "decode_experiment x = Inr y"
  shows "experiment_from_dict y = Inr (expt_decoded e) \<and> experiment_to_dict (expt_decoded e) = Inr y \<and>
    decode_experiment (wire y) = Inr y"
proof -
  from r obtain c h insts where c: "when_in ''config'' d expt_config_from_dict = Inr c"
    and h: "when_in ''header'' d fields_from_dict = Inr h"
    and i: "when_in ''instructions'' d (\<lambda>v. bind_result (py_iter v) (map_result instruction_from_dict)) = Inr insts"
    and e: "e = \<lparr>px_instructions = insts, px_config = c, px_header = h\<rparr>"
    unfolding experiment_from_dict_def bind_result_Inr by blast
  let ?C = "(case c of None \<Rightarrow> [] | Some c \<Rightarrow> [(''config'', PyDict c)]) @ (case h of None \<Rightarrow> [] | Some h \<Rightarrow> [(''header'', PyDict h)])"
  obtain xs ds where xs: "insts = Some xs" and ds: "map_result instruction_to_dict xs = Inr ds"
    and x: "x = PyDict ((''instructions'', PyList ds) # ?C)"
    using w by (auto simp: experiment_to_dict_def e bind_result_Inr split: option.splits)
  from dec x obtain ys where ys: "map_result decode_instruction ds = Inr ys" and y: "y = PyDict ((''instructions'', PyList ys) # ?C)"
    by (auto simp: update_in_dict update_each_list bind_result_Inr)
  obtain v vs where v: "json_like v" "py_iter v = Inr vs" "map_result instruction_from_dict vs = Inr xs"
    using when_in_json_like [OF j i [unfolded xs]] unfolding bind_result_Inr by blast
  have "map_result instruction_from_dict ys = Inr (map val_decoded xs) \<and>
      map_result instruction_to_dict (map val_decoded xs) = Inr ys \<and> map_result decode_instruction (map wire ys) = Inr ys"
    by (rule list_decoded [where P = json_like, OF _ _ v(3) ds ys])
       (use instruction_decoded json_like_iter [OF v(1,2)] in blast)+
  note all = this
  have C: "json_like (PyDict h')" if "h = Some h'" for h'
    using when_in_json_like [OF j h [unfolded that]] fields_json_like by blast
  have C': "json_like (PyDict c')" if "c = Some c'" for c'
    using when_in_json_like [OF j c [unfolded that]] expt_config_json_like by blast
  have to_dict: "experiment_to_dict (expt_decoded e) = Inr y"
    using all by (simp add: experiment_to_dict_def expt_decoded_def e xs y split: option.split)
  moreover have "experiment_ok (expt_decoded e)"
  proof -
    have "experiment_ok e" using r by (rule experiment_read_ok)
    moreover have "instruction_ok i" if "i \<in> set (map val_decoded xs)" for i
      using map_result_source [OF conjunct1 [OF all] that] instruction_read_ok by blast
    ultimately show ?thesis by (simp add: experiment_ok_def expt_decoded_def e xs)
  qed
  ultimately have "experiment_from_dict y = Inr (expt_decoded e)" by (intro experiment_again)
  moreover have "decode_experiment (wire y) = Inr y"
  proof -
    have "distinct (map fst ((''instructions'', PyList ys) # ?C))" by (simp split: option.split)
    moreover have "map (\<lambda>(k, v). (k, wire v)) ?C = ?C"
      using C C' by (auto simp del: json_dumps.simps json_loads.simps intro!: wire_json_like split: option.split)
    ultimately have "wire y = PyDict ((''instructions'', PyList (map wire ys)) # ?C)" unfolding y
      by (subst wire_dict) (simp_all add: comp_def)
    then show ?thesis using all by (simp add: update_in_dict update_each_list y)
  qed
  ultimately show ?thesis using to_dict by simp
qed


section \<open>A pulse library\<close>

text \<open>Samples as the constructor of an item leaves them.\<close>

definition samples_read :: "py \<Rightarrow> bool" where
  "samples_read s \<longleftrightarrow> (\<exists>z zs. s = PyArray (z # zs)) \<or>
     json_like s \<and> (\<exists>x. py_nth s 0 = Inr x \<and> (\<forall>xs. x \<noteq> PyList xs))"

lemma item_samples:
  assumes "json_like d" and "library_item_from_dict d = Inr i"
  shows "samples_read (li_samples i)"
proof -
  obtain kvs where d: "d = PyDict kvs" using assms(2) by (cases d) (auto simp: library_item_from_dict_def)
  with assms(2) obtain n s where s: "map_of kvs ''samples'' = Some s" and new: "new_library_item n s = Inr i"
    by (auto simp: library_item_from_dict_def split: if_splits option.splits)
  have j: "json_like s" using json_like_get [OF assms(1) [unfolded d] s] .
  obtain x where x: "py_nth s 0 = Inr x" using new unfolding new_library_item_def bind_result_Inr by blast
  show ?thesis
  proof (cases "\<exists>xs. x = PyList xs")
    case False
    then have "li_samples i = s" using new x by (cases x) (auto simp: new_library_item_def)
    then show ?thesis using j x False by (auto simp: samples_read_def)
  next
    case True
    then obtain xs where "x = PyList xs" by blast
    with new x obtain ys zs where ys: "py_iter s = Inr ys" and i: "li_samples i = PyArray zs"
        and zs: "map_result (\<lambda>sample. bind_result (py_nth sample 0) (\<lambda>re.
          bind_result (py_nth sample 1) (\<lambda>im. py_complex re im))) ys = Inr zs"
      by (simp add: new_library_item_def) (auto simp: bind_result_Inr)
    have "length ys = length zs" using zs unfolding map_result_Inr by (rule list_all2_lengthD)
    moreover have "ys \<noteq> []" using x ys by (cases s) (auto simp: py_at_def bind_result_Inr split: if_splits)
    ultimately show ?thesis by (cases zs) (auto simp: samples_read_def i)
  qed
qed

lemma rld_first:
  assumes "samples_read s" and "rld_samples s = Inr r"
  shows "\<exists>c rest. r = PyList (PyStr c # rest)"
proof -
  let ?one = "\<lambda>t. bind_result (py_len t) (\<lambda>n.
           if n = 2 then
             bind_result (py_nth t 1) (\<lambda>c. bind_result (py_range c) (\<lambda>k.
               if k = 0 then Inr [] else bind_result (py_nth t 0) (\<lambda>x. Inr (replicate k x))))
           else bind_result (py_nth t 0) (\<lambda>x. Inr [x]))"
  from assms(2) obtain ts dec where ts: "py_iter s = Inr ts" "map_result ?one ts = Inr dec" "r = PyList (concat dec)"
    unfolding rld_samples_def bind_result_Inr by blast
  have first: "\<exists>c. y = [PyStr c]" if "?one x = Inr y" "json_like x" "\<And>xs. x \<noteq> PyList xs" for x y
    using that by (cases x) (auto simp: bind_result_Inr py_at_def split: if_splits)
  have str: "\<exists>d. y = [PyStr d]" if "?one (PyStr [c]) = Inr y" for c y using that by (auto simp: py_at_def)
  have goal: "\<exists>c rest. r = PyList (PyStr c # rest)" if "dec = [PyStr c] # ys" for c ys using ts(3) that by simp
  show ?thesis using assms(1) unfolding samples_read_def
  proof (elim disjE exE conjE)
    fix z zs
    assume "s = PyArray (z # zs)"
    then have "ts = PyComplex (fst z) (snd z) # map (\<lambda>(a, b). PyComplex a b) zs" using ts(1) by (simp add: split_beta)
    then show ?thesis using ts(2) by simp
  next
    fix x
    assume j: "json_like s" and x: "py_nth s 0 = Inr x" and nl: "\<forall>xs. x \<noteq> PyList xs"
    show ?thesis
    proof (cases s)
      case (PyList xs)
      then obtain xs' where xs: "ts = x # xs'" using ts(1) x by (cases xs) (auto simp: py_at_def)
      then obtain y ys where y: "dec = y # ys" "?one x = Inr y" using ts(2) by (auto split: sum.splits)
      have "json_like x" using j PyList ts(1) xs by simp
      then obtain c where "y = [PyStr c]" using first [OF y(2)] nl by blast
      then show ?thesis using goal y(1) by simp
    next
      case (PyStr st)
      then obtain c cs where st: "ts = PyStr [c] # cs" using ts(1) x by (cases st) (auto simp: py_at_def)
      then obtain y ys where y: "dec = y # ys" "?one (PyStr [c]) = Inr y" using ts(2) by (auto split: sum.splits)
      then show ?thesis using str goal by blast
    qed (use x j in auto)
  qed
qed

lemma decode_item_text: "decode_library_item (PyDict [(''name'', n), (''samples'', PyList (PyStr c # rest))]) = Inl TypeError"
  by (simp add: decode_library_item_def update_in_dict)

section \<open>The dictionary of a qobj\<close>

definition qobj_items :: "py \<Rightarrow> (string \<times> py) list \<Rightarrow> py \<Rightarrow> py list \<Rightarrow> (string \<times> py) list" where
  "qobj_items i h config experiments =
     [(''qobj_id'', i), (''header'', PyDict h), (''config'', config), (''schema_version'', PyStr ''1.2.0''),
      (''type'', PyStr ''PULSE''), (''experiments'', PyList experiments)]"

lemma qobj_items_update:
  "update_in ''config'' f (PyDict (qobj_items i h c es)) = bind_result (f c) (\<lambda>c'. Inr (PyDict (qobj_items i h c' es)))"
  "update_in ''experiments'' (update_each f) (PyDict (qobj_items i h c es)) =
     bind_result (map_result f es) (\<lambda>es'. Inr (PyDict (qobj_items i h c es')))"
  by (simp_all add: qobj_items_def update_in_dict update_each_list bind_result_def split: sum.split)

lemma update_last_item: "k \<notin> fst ` set xs \<Longrightarrow> AList.update k y (xs @ [(k, v)]) = xs @ [(k, y)]"
  by (induction xs) auto

lemma library_update:
  assumes "''pulse_library'' \<notin> fst ` set attrs"
  shows "update_in ''pulse_library'' f (PyDict (attrs @ [(''pulse_library'', v)])) =
    bind_result (f v) (\<lambda>y. Inr (PyDict (attrs @ [(''pulse_library'', y)])))"
proof -
  have "map_of attrs ''pulse_library'' = None" using assms by (simp add: map_of_eq_None_iff)
  then have "map_of (attrs @ [(''pulse_library'', v)]) ''pulse_library'' = Some v" by (simp add: map_add_def)
  then show ?thesis by (simp add: update_in_dict update_last_item [OF assms])
qed

lemma config_json_like:
  assumes "json_like d" and "config_from_dict d = Inr c"
  shows "json_like (PyDict (pc_attrs c))" and "''pulse_library'' \<notin> fst ` set (pc_attrs c)"
    and "\<exists>items vs. pc_library c = Items items \<and> map_result library_item_from_dict vs = Inr items \<and> (\<forall>v\<in>set vs. json_like v)"
proof -
  obtain kvs where d: "d = PyDict kvs" using assms(2) by (cases d) (auto simp: config_from_dict_def)
  let ?rest = "filter (\<lambda>(k, _). k \<noteq> ''pulse_library'') kvs"
  obtain lib vs items where lib: "map_of kvs ''pulse_library'' = Some lib" "py_iter lib = Inr vs"
      "map_result library_item_from_dict vs = Inr items" and new: "new_config ?rest (Items items) = Inr c"
    using assms(2) by (auto simp: config_from_dict_def d bind_result_Inr split: option.splits)
  obtain f where a: "pc_attrs c = pick f SETTINGS @ filter (\<lambda>(k, _). k \<notin> set SETTINGS) ?rest"
    and f: "\<And>k v. f k = Some v \<Longrightarrow> (k, v) \<in> set ?rest \<or> (\<exists>n. v = PyInt n)" and l: "pc_library c = Items items"
    by (rule new_config_attrs [OF new]) (rule that; assumption)
  have "json_like v" if "(k, v) \<in> set (pc_attrs c)" for k v
    using that f [of k v] assms(1) by (auto simp: a pick_in d)
  moreover have "distinct (map fst (pc_attrs c))"
  proof -
    have "distinct (map fst (filter (\<lambda>(k, _). k \<notin> set SETTINGS) ?rest))"
      using assms(1) by (simp only: d json_like.simps) (intro distinct_map_filter, simp)
    then show ?thesis using pick_distinct [OF settings_facts(1), of f] by (auto simp: a pick_in)
  qed
  ultimately show "json_like (PyDict (pc_attrs c))" by auto
  show "''pulse_library'' \<notin> fst ` set (pc_attrs c)" using settings_facts(2) by (auto simp: a pick_in)
  have "json_like v" if "v \<in> set vs" for v
    using json_like_iter [OF json_like_get [OF assms(1) [unfolded d] lib(1)] lib(2) that] .
  then show "\<exists>items vs. pc_library c = Items items \<and> map_result library_item_from_dict vs = Inr items \<and> (\<forall>v\<in>set vs. json_like v)"
    using l lib(3) by blast
qed

section \<open>Submitted jobs\<close>

lemma qobj_written:
  assumes "qobj_to_dict q = Inr x"
  obtains c lib es ds where "pq_config q = Some c" "library_to_dict (pc_library c) = Inr lib"
    "pq_experiments q = Some es" "map_result experiment_to_dict es = Inr ds"
    "x = PyDict (qobj_items (pq_id q) (pq_header q) (PyDict (pc_attrs c @ [(''pulse_library'', lib)])) ds)"
  using assms by (auto simp: qobj_to_dict_def config_to_dict_def qobj_items_def bind_result_Inr split: option.splits)

lemma qobj_write:
  assumes "pq_config q = Some c" and "library_to_dict (pc_library c) = Inr lib"
    and "pq_experiments q = Some es" and "map_result experiment_to_dict es = Inr ds"
  shows "qobj_to_dict q = Inr (PyDict (qobj_items (pq_id q) (pq_header q) (PyDict (pc_attrs c @ [(''pulse_library'', lib)])) ds))"
  using assms by (simp add: qobj_to_dict_def config_to_dict_def qobj_items_def)

text \<open>The qobj of a job file is read from a value that JSON has.\<close>

lemma job_file_source:
  assumes "job_file_of loads content = Inr f"
  obtains d where "json_like d" "qobj_from_dict d = Inr (jf_qobj f)"
proof -
  obtain params where "params_of loads params = Inr (jf_qobj f)"
  proof (cases content)
    case (JDict d)
    show thesis
    proof (cases "map_of d ''params''")
      case (Some params)
      then obtain qobj where q: "params_of loads params = Inr qobj" and f: "(case map_of d ''job_id'' of
            Some (JStr job_id) \<Rightarrow> if only_keys [''job_id'', ''params''] d then Inr \<lparr>jf_job_id = job_id, jf_qobj = qobj\<rparr>
              else Inl ValidationError
          | _ \<Rightarrow> Inl ValidationError) = Inr f"
        using assms unfolding job_file_of_def JDict json.case bind_result_Inr Some option.case by blast
      then obtain j where j: "map_of d ''job_id'' = Some j" by (cases "map_of d ''job_id''") simp_all
      with f have "jf_qobj f = qobj" by (cases j) (auto split: if_splits)
      with q show thesis by (intro that) simp
    qed (use assms in \<open>simp add: job_file_of_def JDict\<close>)
  qed (use assms in \<open>simp_all add: job_file_of_def\<close>)
  then obtain q where "in_validator (parse_qobj loads q) = Inr (jf_qobj f)"
  proof (cases params)
    case (JDict d)
    assume "params_of loads params = Inr (jf_qobj f)"
    then show thesis
      by (cases "map_of d ''qobj''") (auto simp: params_of_def JDict bind_result_Inr intro: that split: if_splits)
  qed (simp_all add: params_of_def)
  then have p: "parse_qobj loads q = Inr (jf_qobj f)" by (simp add: in_validator_def split: sum.splits)
  obtain t where "qobj_from_dict (json_loads t) = Inr (jf_qobj f)"
  proof (cases q)
    case (JDict d)
    with p show thesis by (intro that [of q]) (simp add: parse_qobj_def)
  qed (use p that in \<open>auto simp add: parse_qobj_def bind_result_Inr\<close>)
  then show thesis by (rule that [OF json_like_loads])
qed

text \<open>An item of the library gets past the first step, or past the second, but not past both.\<close>

lemma item_refused:
  assumes "json_like d" and "library_item_from_dict d = Inr i"
    and "update_in ''samples'' rld_samples (library_item_to_dict i) = Inr y"
  shows "decode_library_item y = Inl TypeError"
proof -
  obtain r where r: "rld_samples (li_samples i) = Inr r" "y = PyDict [(''name'', li_name i), (''samples'', r)]"
    using assms(3) by (auto simp: library_item_to_dict_def update_in_dict bind_result_Inr)
  obtain c rest where "r = PyList (PyStr c # rest)"
    using rld_first [OF item_samples [OF assms(1,2)] r(1)] by blast
  then show ?thesis unfolding r(2) by (simp only: decode_item_text)
qed

lemma library_refused:
  assumes vs: "map_result library_item_from_dict vs = Inr items" "\<And>v. v \<in> set vs \<Longrightarrow> json_like v"
    and rld: "map_result (update_in ''samples'' rld_samples) (map library_item_to_dict items) = Inr ys"
    and dec: "map_result decode_library_item ys = Inr zs"
  shows "items = []"
proof (cases items)
  case (Cons i is')
  then obtain v where "v \<in> set vs" "library_item_from_dict v = Inr i"
    using map_result_source [OF vs(1), of i] by auto
  moreover obtain y ys' where "update_in ''samples'' rld_samples (library_item_to_dict i) = Inr y" "ys = y # ys'"
    using rld Cons by (auto split: sum.splits)
  ultimately show ?thesis using item_refused vs(2) dec by force
qed

definition qobj_decoded :: "pulse_qobj \<Rightarrow> pulse_qobj" where
  "qobj_decoded q = q\<lparr>pq_experiments := map_option (map expt_decoded) (pq_experiments q)\<rparr>"

lemma qobj_source_json_like:
  assumes j: "json_like d" and r: "qobj_from_dict d = Inr q"
  shows "json_like (pq_id q)" and "json_like (PyDict (pq_header q))"
    and "\<And>c. pq_config q = Some c \<Longrightarrow> \<exists>v. json_like v \<and> config_from_dict v = Inr c"
    and "\<And>es. pq_experiments q = Some es \<Longrightarrow> \<exists>vs. (\<forall>v\<in>set vs. json_like v) \<and> map_result experiment_from_dict vs = Inr es"
proof -
  obtain c es h i where c: "if_in ''config'' d config_from_dict = Inr c"
    and es: "if_in ''experiments'' d (\<lambda>v. bind_result (py_iter v) (map_result experiment_from_dict)) = Inr es"
    and h: "if_in ''header'' d fields_from_dict = Inr h" and i: "py_get d ''qobj_id'' = Inr i"
    and q: "q = \<lparr>pq_id = i, pq_config = c, pq_header = (case h of None \<Rightarrow> [] | Some h \<Rightarrow> h), pq_experiments = es\<rparr>"
    using r unfolding qobj_from_dict_def bind_result_Inr by blast
  have "json_like i" using i j by (cases d) (auto split: option.splits dest: map_of_SomeD)
  then show "json_like (pq_id q)" by (simp add: q)
  have "json_like (PyDict x)" if "h = Some x" for x
    using if_in_json_like [OF j h [unfolded that]] fields_json_like by blast
  then show "json_like (PyDict (pq_header q))" by (auto simp add: q split: option.split)
  show "\<exists>v. json_like v \<and> config_from_dict v = Inr x" if "pq_config q = Some x" for x
    using if_in_json_like [OF j] c that by (simp add: q)
  show "\<exists>vs. (\<forall>v\<in>set vs. json_like v) \<and> map_result experiment_from_dict vs = Inr xs" if e: "pq_experiments q = Some xs" for xs
  proof -
    have "es = Some xs" using e by (simp add: q)
    with es have "if_in ''experiments'' d (\<lambda>v. bind_result (py_iter v) (map_result experiment_from_dict)) = Inr (Some xs)" by simp
    from if_in_json_like [OF j this] obtain v vs where v: "json_like v" "py_iter v = Inr vs" "map_result experiment_from_dict vs = Inr xs"
      unfolding bind_result_Inr by blast
    then show ?thesis using json_like_iter [OF v(1,2)] by blast
  qed
qed

end
