(* ===== verification/Submission_Properties.thy ===== *)
theory Submission_Properties imports Job_File_Properties begin

text \<open>
  The way of a qobj through the workers: the qobj that an executor gets is the one of the job file with
  its numbers decoded, it is the same in the pickled file and in the file of results, and a job file
  with a pulse library does not get past preprocessing, nor does any qobj with one.
\<close>

section \<open>What preprocessing hands to the executor\<close>

lemma submitted_decoded:
  assumes "submitted_qobj loads content = Inr q"
  obtains f c d where "job_file_of loads content = Inr f" "q = qobj_decoded (jf_qobj f)"
    "pq_config q = Some c" "pc_library c = Items []" "qobj_to_dict q = Inr d" "qobj_from_dict d = Inr q"
    "decode_pulse_qobj (json_loads (json_dumps d)) = Inr d"
proof -
  obtain f x x1 x2 where f: "job_file_of loads content = Inr f" and x: "dumped_qobj f = Inr x"
    and x1: "decompress_qobj_dict x = Inr x1" and x2: "decode_pulse_qobj x1 = Inr x2" and q: "qobj_from_dict x2 = Inr q"
    using assms unfolding submitted_qobj_def bind_result_Inr by blast
  let ?q = "jf_qobj f"
  obtain d where d: "json_like d" "qobj_from_dict d = Inr ?q" by (rule job_file_source [OF f])
  note source = qobj_source_json_like [OF d]
  have "qobj_to_dict ?q = Inr x" using x by (simp add: dumped_qobj_def split: sum.splits)
  then obtain c lib es ds where c: "pq_config ?q = Some c" "library_to_dict (pc_library c) = Inr lib"
    and es: "pq_experiments ?q = Some es" "map_result experiment_to_dict es = Inr ds"
    and xs: "x = PyDict (qobj_items (pq_id ?q) (pq_header ?q) (PyDict (pc_attrs c @ [(''pulse_library'', lib)])) ds)"
    by (rule qobj_written)
  obtain v where v: "json_like v" "config_from_dict v = Inr c" using source(3) [OF c(1)] by blast
  note cfg = config_json_like [OF v]
  obtain items vs where items: "pc_library c = Items items" "map_result library_item_from_dict vs = Inr items"
    and vs: "\<forall>v\<in>set vs. json_like v" using cfg(3) by blast
  have lib: "lib = PyList (map library_item_to_dict items)" using c(2) items(1) by simp
  obtain ls where ls: "map_result (update_in ''samples'' rld_samples) (map library_item_to_dict items) = Inr ls"
    and x1s: "x1 = PyDict (qobj_items (pq_id ?q) (pq_header ?q) (PyDict (pc_attrs c @ [(''pulse_library'', PyList ls)])) ds)"
    using x1 unfolding decompress_qobj_dict_def xs qobj_items_update library_update [OF cfg(2)] lib update_each_list
    by (auto simp: bind_result_Inr)
  obtain zs ys where zs: "map_result decode_library_item ls = Inr zs" and ys: "map_result decode_experiment ds = Inr ys"
    and x2s: "x2 = PyDict (qobj_items (pq_id ?q) (pq_header ?q) (PyDict (pc_attrs c @ [(''pulse_library'', PyList zs)])) ys)"
    using x2 unfolding decode_pulse_qobj_def x1s qobj_items_update library_update [OF cfg(2)] update_each_list
    by (auto simp: bind_result_Inr qobj_items_update)
  have no: "items = []" by (rule library_refused [OF items(2) bspec [OF vs] ls zs])
  then have zs0: "zs = []" using ls zs by simp
  obtain us where us: "\<forall>v\<in>set us. json_like v" "map_result experiment_from_dict us = Inr es"
    using source(4) [OF es(1)] by blast
  have all: "map_result experiment_from_dict ys = Inr (map expt_decoded es) \<and>
      map_result experiment_to_dict (map expt_decoded es) = Inr ys \<and> map_result decode_experiment (map json_loads (map json_dumps ys)) = Inr ys"
  proof -
    have "map_result experiment_from_dict ys = Inr (map expt_decoded es) \<and>
        map_result experiment_to_dict (map expt_decoded es) = Inr ys \<and> map_result decode_experiment (map wire ys) = Inr ys"
      by (rule list_decoded [of json_like, OF _ _ us(2) es(2) ys]) (rule experiment_decoded, assumption+, rule bspec [OF us(1)])
    then show ?thesis by (simp add: comp_def)
  qed
  let ?qd = "qobj_decoded ?q"
  have w: "qobj_to_dict ?qd = Inr x2"
    using qobj_write [of ?qd c "PyList []" "map expt_decoded es" ys] all c(1) items(1) no es(1) zs0
    by (simp add: qobj_decoded_def x2s)
  have ok: "qobj_ok ?qd"
  proof -
    have "qobj_ok ?q" by (rule qobj_read_ok [OF d(2)])
    moreover have "experiment_ok e" if "e \<in> set (map expt_decoded es)" for e
      using map_result_source [OF conjunct1 [OF all] that] experiment_read_ok by blast
    ultimately show ?thesis using es(1) by (simp add: qobj_ok_def qobj_decoded_def)
  qed
  have qd: "q = ?qd" using qobj_again [OF ok w] q by simp
  have wire: "wire x2 = PyDict (qobj_items (pq_id ?q) (pq_header ?q) (PyDict (pc_attrs c @ [(''pulse_library'', PyList [])]))
      (map json_loads (map json_dumps ys)))"
  proof -
    have "json_like (PyDict (pc_attrs c @ [(''pulse_library'', PyList [])]))" using cfg(1,2) by auto
    then have cw: "wire (PyDict (pc_attrs c @ [(''pulse_library'', PyList [])])) = PyDict (pc_attrs c @ [(''pulse_library'', PyList [])])"
      by (rule wire_json_like)
    have "distinct (map fst (qobj_items i h k es))" for i h k es by (simp add: qobj_items_def)
    note wd = wire_dict [OF this]
    show ?thesis unfolding x2s zs0 wd
      by (simp add: qobj_items_def wire_json_like [OF source(1)] wire_json_like [OF source(2)] cw
          del: json_dumps.simps(9) json_loads.simps(7))
  qed
  have "decode_pulse_qobj (wire x2) = Inr x2"
    unfolding decode_pulse_qobj_def wire qobj_items_update library_update [OF cfg(2)] update_each_list
    using all by (simp add: qobj_items_update x2s zs0)
  moreover have "pq_config q = Some c" using c(1) by (simp add: qd qobj_decoded_def)
  ultimately show thesis using that [OF f qd] items(1) no w q by (simp add: qd)
qed

text \<open>
  C12. The qobj that preprocessing hands to the executor is the one of the job file, with the values of its
  instructions decoded. It can be written as a dictionary and as the text in the file of results, and
  from both it is read as itself.
\<close>
theorem submitted_qobj_kept:
  assumes "submitted_qobj loads content = Inr q"
  shows "\<exists>f d. job_file_of loads content = Inr f \<and> q = qobj_decoded (jf_qobj f) \<and>
    qobj_to_dict q = Inr d \<and> qobj_from_dict d = Inr q \<and>
    qobj_data_from_qobj q = Inr (json_dumps d) \<and> to_qobj (json_dumps d) = Inr q"
proof -
  obtain f c d where "job_file_of loads content = Inr f" "q = qobj_decoded (jf_qobj f)" "qobj_to_dict q = Inr d"
    "qobj_from_dict d = Inr q" "decode_pulse_qobj (json_loads (json_dumps d)) = Inr d"
    by (rule submitted_decoded [OF assms])
  then show ?thesis by (auto simp: qobj_data_from_qobj_def to_qobj_def simp del: json_dumps.simps json_loads.simps)
qed

section \<open>Pulse libraries\<close>





section \<open>Preprocessing\<close>

text \<open>What preprocessing pickles for a qobj that it accepts.\<close>

lemma preprocess_stores:
  assumes pre: "executor_preprocess X tuid q job_id folder s = (Inr (duration, path), s')"
    and c: "pq_config q = Some c" "pc_library c = Items []"
    and d: "qobj_to_dict q = Inr d" "qobj_from_dict d = Inr q"
  shows "\<exists>pk md. s' = s\<lparr>fs_preprocessed := (fs_preprocessed s)(path \<mapsto> pk)\<rparr> \<and>
    path = get_preprocessed_expt_file job_id folder \<and> expt_metadata_from_dict pk = Inr md \<and> nm_qobj md = q \<and>
    nm_tuid md = tuid \<and> native_settings c = Inr (nm_native_config md)"
proof -
  let ?q = "q\<lparr>pq_config := Some (c\<lparr>pc_library := Unwrapped []\<rparr>)\<rparr>"
  have u: "unwrap_qobj (xe_asarray X) q = Inr ?q"
    using c by (simp add: unwrap_qobj_def unwrap_library_def attr_def dict_of_def)
  have w: "qobj_to_dict ?q = Inr d" using c d(1) by (simp add: qobj_to_dict_def config_to_dict_def)
  have n: "native_settings (c\<lparr>pc_library := Unwrapped []\<rparr>) = native_settings c"
    by (simp add: native_settings_def int_setting_def)
  from pre obtain nc expts where nc: "native_settings c = Inr nc"
    and expts: "xe_to_native_experiments X ?q nc = Inr expts"
    by (auto simp: executor_preprocess_def Let_def bindE_result liftE_def u n attr_def)
  let ?tag = "case map_of (pq_header q) ''tag'' of None \<Rightarrow> PyStr [] | Some t \<Rightarrow> t"
  let ?pk = "\<lparr>pk_native_config = nc, pk_tuid = tuid, pk_qobj = d, pk_qobj_tag = ?tag\<rparr>"
  have "path = get_preprocessed_expt_file job_id folder \<and>
      s' = s\<lparr>fs_preprocessed := (fs_preprocessed s)(path \<mapsto> ?pk)\<rparr>"
    using pre by (auto simp: executor_preprocess_def Let_def bindE_def thenE_def liftE_def modE_def retE_def u n attr_def nc expts
        expt_metadata_to_dict_def w)
  moreover have "expt_metadata_from_dict ?pk = Inr \<lparr>nm_native_config = nc, nm_tuid = tuid, nm_qobj = q, nm_qobj_tag = ?tag\<rparr>"
    by (simp add: expt_metadata_from_dict_def d(2))
  ultimately show ?thesis using nc by force
qed

end
