(* ===== verification/Executor_Properties.thy ===== *)
theory Executor_Properties imports Submission_Properties Hdf5_Properties begin

text \<open>
  Running what preprocessing left: the file for the run goes when the run is over and stays when it
  fails, and the file of results is read back as the job that was run.
\<close>

section \<open>Attributes in a file\<close>

lemma set_attribute_Inr: "set_attribute E (k, a) old = Inr new \<Longrightarrow> new = AList.update k a old"
  by (auto simp: set_attribute_def split: attribute.splits if_splits)

lemma set_attributes:
  "distinct (map fst (old @ xs)) \<Longrightarrow> fold_result (set_attribute E) xs old = Inr attrs \<Longrightarrow> attrs = old @ xs"
proof (induction xs arbitrary: old)
  case (Cons x xs)
  obtain k a where x: "x = (k, a)" by (cases x)
  have "k \<notin> fst ` set old" using Cons.prems(1) by (auto simp: x)
  then have "AList.update k a old = old @ [(k, a)]" by (rule update_new)
  moreover obtain new where "set_attribute E (k, a) old = Inr new" "fold_result (set_attribute E) xs new = Inr attrs"
    using Cons.prems(2) unfolding x fold_result.simps bind_result_Inr by blast
  ultimately have "fold_result (set_attribute E) xs (old @ [(k, a)]) = Inr attrs" using set_attribute_Inr by metis
  from Cons.IH [OF _ this] Cons.prems(1) show ?case by (simp add: x)
qed simp

lemma new_group:
  assumes "save_hdf5_attributes E path source f = Inr f'" and "map_of (h5_groups f) path = None"
    and "distinct (map fst source)" and "source \<noteq> []"
  shows "f' = f\<lparr>h5_groups := h5_groups f @ [(path, source)]\<rparr>"
proof -
  obtain attrs where attrs: "fold_result (set_attribute E) source [] = Inr attrs"
    and f': "f' = f\<lparr>h5_groups := AList.update path attrs (h5_groups f)\<rparr>"
    using assms by (auto simp: save_hdf5_attributes_def bind_result_Inr)
  have "attrs = source" using set_attributes [OF _ attrs] assms(3) by simp
  moreover have "path \<notin> fst ` set (h5_groups f)" using assms(2) by (simp add: map_of_eq_None_iff)
  ultimately show ?thesis using f' by (simp add: update_new)
qed

lemma as_values_keys: "map fst (as_values kvs) = map fst kvs"
  by (induction kvs) (auto simp: as_values_def)

text \<open>A sweep leaves its three fields: its parameters are never written.\<close>

lemma sweep_saved:
  assumes "save_sweep_data E header f = Inr f'" and "map_of (h5_groups f) ''header/qobj/sweep'' = None"
  shows "\<exists>g. f' = f\<lparr>h5_groups := h5_groups f @ g\<rparr> \<and> fst ` set g \<subseteq> {''header/qobj/sweep''}"
proof (cases "sweep_from_qobj_header E header")
  case (Inl e)
  then have "f' = f\<lparr>h5_groups := h5_groups f @ []\<rparr>" using assms(1) by (auto simp: save_sweep_data_def split: if_splits)
  then show ?thesis by (intro exI [of _ "[]"]) simp
next
  case (Inr sw)
  have no: "dict_get (sweep_metadata sw) ''parameters'' = Inl KeyError" by (simp add: sweep_metadata_def dict_get_def)
  obtain f1 where f1: "save_hdf5_attributes E ''header/qobj/sweep'' (as_values (sweep_metadata sw)) f = Inr f1"
    and rest: "(case search_nested (json_dumps (PyDict (sweep_metadata sw))) ''slots'' of
              [] \<Rightarrow> Inr f1
            | path_segments # _ \<Rightarrow>
                bind_result (py_at path_segments (- 2)) (\<lambda>param.
                bind_result (dict_get (sweep_metadata sw) ''parameters'') (\<lambda>parameters. Inr f1))) = Inr f'"
    using assms(1) unfolding save_sweep_data_def Inr sum.case Let_def bind_result_Inr by blast
  have "f' = f1" using rest unfolding no by (auto simp: bind_result_def split: list.splits sum.splits)
  moreover have "f1 = f\<lparr>h5_groups := h5_groups f @ [(''header/qobj/sweep'', as_values (sweep_metadata sw))]\<rparr>"
    by (rule new_group [OF f1 assms(2)]) (simp_all add: as_values_keys sweep_metadata_def as_values_def)
  ultimately show ?thesis by (intro exI [of _ "[(''header/qobj/sweep'', as_values (sweep_metadata sw))]"]) simp
qed

section \<open>The job in the file\<close>

text \<open>What is known of a job that was made for a run.\<close>

lemma job_for_run:
  assumes "job_of_run job_id md results = Inr job"
  obtains slots qmd t where "job = \<lparr>jd_tuid = nm_tuid md, jd_meas_return = nc_meas_return (nm_native_config md),
         jd_meas_level = nc_meas_level (nm_native_config md),
         jd_meas_return_cols = nc_meas_return_cols (nm_native_config md),
         jd_n_qubits = nc_n_qubits (nm_native_config md), jd_job_id = Some job_id,
         jd_memory_slot_size = slots, jd_local = False, jd_qobj = Some (nm_qobj md),
         jd_qobj_data = Some t, jd_metadata = Some qmd, jd_raw_results = Some results\<rparr>"
    "metadata_from_qobj (nm_qobj md) = Inr qmd" "qobj_data_from_qobj (nm_qobj md) = Inr t"
  using assms by (auto simp: job_of_run_def post_init_def bind_result_Inr)

lemma level_read: "meas_level_of (meas_level_value l) = Inr l"
  by (cases l) (simp_all add: meas_level_of_def meas_level_value_def)

lemma return_read: "meas_ret_of (meas_ret_value r) = Inr r"
  by (cases r) (simp_all add: meas_ret_of_def meas_ret_value_def)

lemma saved_job_layout:
  assumes job: "job = \<lparr>jd_tuid = tuid, jd_meas_return = mr, jd_meas_level = ml, jd_meas_return_cols = cols,
         jd_n_qubits = n, jd_job_id = i, jd_memory_slot_size = slots, jd_local = loc, jd_qobj = Some q,
         jd_qobj_data = Some t, jd_metadata = Some qmd, jd_raw_results = Some results\<rparr>"
    and save: "save_job_in_hdf5 E job = Inr h"
  shows "h5_attrs h = as_values (job_attributes job) \<and> save_results_to_hdf5 results [] = Inr (h5_data h) \<and>
    map_of (h5_groups h) ''header/qobj_metadata'' = Some (as_values (metadata_to_dict qmd)) \<and>
    map_of (h5_groups h) ''header/qobj_data'' = Some [(''experiment_data'', Text t)]"
proof -
  obtain attrs f1 f2 f3 f4 raw where attrs: "fold_result (set_attribute E) (as_values (job_attributes job)) [] = Inr attrs"
    and f1: "save_qobj_header E (pq_header q) \<lparr>h5_attrs = attrs, h5_groups = [], h5_data = []\<rparr> = Inr f1"
    and f2: "save_sweep_data E (pq_header q) f1 = Inr f2"
    and f3: "save_hdf5_attributes E ''header/qobj_metadata'' (as_values (metadata_to_dict qmd)) f2 = Inr f3"
    and f4: "save_hdf5_attributes E ''header/qobj_data'' [(''experiment_data'', Text t)] f3 = Inr f4"
    and raw: "save_results_to_hdf5 results (h5_data f4) = Inr raw" "h = f4\<lparr>h5_data := raw\<rparr>"
    using save unfolding save_job_in_hdf5_def save_qobj_to_hdf5_def bind_result_Inr by (auto simp: job attr_def)
  have as: "attrs = as_values (job_attributes job)"
    using set_attributes [OF _ attrs] by (simp add: as_values_keys job_attributes_def)
  obtain bn where bn: "save_hdf5_attributes E ''header/qobj/backend'' (as_values [(''backend_name'', bn)])
      \<lparr>h5_attrs = attrs, h5_groups = [], h5_data = []\<rparr> = Inr f1"
    using f1 unfolding save_qobj_header_def bind_result_Inr by blast
  have f1': "f1 = \<lparr>h5_attrs = attrs, h5_groups = [(''header/qobj/backend'', as_values [(''backend_name'', bn)])], h5_data = []\<rparr>"
    using new_group [OF bn] by (simp add: as_values_def)
  obtain g where g: "f2 = f1\<lparr>h5_groups := h5_groups f1 @ g\<rparr>" "fst ` set g \<subseteq> {''header/qobj/sweep''}"
    using sweep_saved [OF f2] by (auto simp: f1')
  have gn: "map_of g p = None" if "p \<noteq> ''header/qobj/sweep''" for p using g(2) that by (auto simp: map_of_eq_None_iff)
  have f3': "f3 = f2\<lparr>h5_groups := h5_groups f2 @ [(''header/qobj_metadata'', as_values (metadata_to_dict qmd))]\<rparr>"
    by (rule new_group [OF f3]) (simp_all add: g(1) f1' map_add_def gn as_values_keys metadata_to_dict_def as_values_def)
  have f4': "f4 = f3\<lparr>h5_groups := h5_groups f3 @ [(''header/qobj_data'', [(''experiment_data'', Text t)])]\<rparr>"
    by (rule new_group [OF f4]) (simp_all add: f3' g(1) f1' map_add_def gn)
  show ?thesis using raw by (simp add: f4' f3' g(1) f1' as map_add_def gn split: option.split)
qed

lemma read_metadata:
  "map_of (h5_groups h) ''header/qobj_metadata'' = Some (as_values (metadata_to_dict qmd)) \<Longrightarrow> qobj_metadata_at h = Inr qmd"
  by (simp add: qobj_metadata_at_def read_hdf5_attributes_def dict_get_def as_values_def metadata_to_dict_def only_keys_def
      attr_value_def attr_int_def)

lemma read_data:
  "map_of (h5_groups h) ''header/qobj_data'' = Some [(''experiment_data'', Text t)] \<Longrightarrow> qobj_data_at h = Inr t"
  by (simp add: qobj_data_at_def read_hdf5_attributes_def dict_get_def)

text \<open>A job that was run is read back from its file, but for the size of a memory slot.\<close>

lemma saved_job_read:
  assumes run: "job_of_run job_id md results = Inr job" and ok: "results_ok results" and visit: "visits_all (he_visit E)"
    and again: "\<And>t. qobj_data_from_qobj (nm_qobj md) = Inr t \<Longrightarrow> to_qobj t = Inr (nm_qobj md)"
    and save: "save_job_in_hdf5 E job = Inr h"
  shows "\<exists>results'. read_job_from_hdf5 E h = Inr (job\<lparr>jd_memory_slot_size := PyInt 100, jd_raw_results := Some results'\<rparr>) \<and>
    map fst results' = map fst results \<and> (\<forall>i<length results. same_dataset (snd (results ! i)) (snd (results' ! i)))"
proof -
  obtain slots qmd t where job: "job = \<lparr>jd_tuid = nm_tuid md, jd_meas_return = nc_meas_return (nm_native_config md),
         jd_meas_level = nc_meas_level (nm_native_config md),
         jd_meas_return_cols = nc_meas_return_cols (nm_native_config md),
         jd_n_qubits = nc_n_qubits (nm_native_config md), jd_job_id = Some job_id,
         jd_memory_slot_size = slots, jd_local = False, jd_qobj = Some (nm_qobj md),
         jd_qobj_data = Some t, jd_metadata = Some qmd, jd_raw_results = Some results\<rparr>"
    and qmd: "metadata_from_qobj (nm_qobj md) = Inr qmd" and t: "qobj_data_from_qobj (nm_qobj md) = Inr t"
    by (rule job_for_run [OF run])
  note h = saved_job_layout [OF job save]
  obtain results' where r: "extract_results_from_hdf5 (he_visit E) (h5_data h) = Inr results'"
      "map fst results' = map fst results" "\<forall>i<length results. same_dataset (snd (results ! i)) (snd (results' ! i))"
    using results_read [OF ok visit] h by auto
  have a: "h5_attrs h = as_values (job_attributes job)" using h by blast
  have at: "attr_value (h5_attrs h) k = Inr v" if "map_of (job_attributes job) k = Some v" for k v
  proof -
    have "map_of (as_values kvs) k = map_option Value (map_of kvs k)" for kvs by (induction kvs) (auto simp: as_values_def)
    then show ?thesis using that by (simp add: attr_value_def dict_get_def a)
  qed
  have texts: "attr_text (h5_attrs h) ''tuid'' = Inr (jd_tuid job)" "attr_text (h5_attrs h) ''job_id'' = Inr job_id"
    and ints: "attr_int (h5_attrs h) ''meas_return'' = Inr (meas_ret_value (jd_meas_return job))"
      "attr_int (h5_attrs h) ''meas_level'' = Inr (meas_level_value (jd_meas_level job))"
      "attr_int (h5_attrs h) ''meas_return_cols'' = Inr (jd_meas_return_cols job)"
      "attr_int (h5_attrs h) ''n_qubits'' = Inr (jd_n_qubits job)"
    and loc: "attr_value (h5_attrs h) ''local'' = Inr (PyBool False)"
    using at [unfolded job_attributes_def] by (simp_all add: attr_text_def attr_int_def job)
  have "read_job_from_hdf5 E h = Inr (job\<lparr>jd_memory_slot_size := PyInt 100, jd_raw_results := Some results'\<rparr>)"
    unfolding read_job_from_hdf5_def texts ints loc bind_result_simps return_read level_read r(1)
      read_data [OF conjunct2 [OF conjunct2 [OF conjunct2 [OF h]]]] read_metadata [OF conjunct1 [OF conjunct2 [OF conjunct2 [OF h]]]]
      again [OF t] Let_def post_init_def
    by (simp add: qmd job)
  then show ?thesis using r by blast
qed

section \<open>A run\<close>

lemma instruments_only: "on_instruments m s = (r, s') \<Longrightarrow> \<exists>w. s' = s\<lparr>fs_world := w\<rparr> \<and> m (fs_world s) = (r, w)"
  by (auto simp: on_instruments_def zoomE_def Let_def split: prod.splits)

text \<open>A run that ends has gone through every step.\<close>

lemma run_steps:
  assumes "executor_run X job_id folder s = (Inr out, s')"
  obtains pk md expts results w job h where
    "fs_preprocessed s (get_preprocessed_expt_file job_id folder) = Some pk" "expt_metadata_from_dict pk = Inr md"
    "xe_to_native_experiments X (nm_qobj md) (nm_native_config md) = Inr expts"
    "run_experiments X (nm_native_config md) expts (fs_world s) = (Inr results, w)"
    "job_of_run job_id md results = Inr job" "save_job_in_hdf5 (xe_h5 X) job = Inr h"
    "s' = s\<lparr>fs_preprocessed := (fs_preprocessed s)(get_preprocessed_expt_file job_id folder := None),
            fs_results := (fs_results s)(out \<mapsto> h), fs_world := w\<rparr>"
proof -
  let ?file = "get_preprocessed_expt_file job_id folder"
  obtain md s1 expts s2 results s3 job s4 h s5 where
    md: "(case fs_preprocessed s ?file of None \<Rightarrow> raiseE OtherError | Some d \<Rightarrow> liftE (expt_metadata_from_dict d)) s = (Inr md, s1)"
    and expts: "liftE (xe_to_native_experiments X (nm_qobj md) (nm_native_config md)) s1 = (Inr expts, s2)"
    and results: "on_instruments (run_experiments X (nm_native_config md) expts) s2 = (Inr results, s3)"
    and job: "liftE (job_of_run job_id md results) s3 = (Inr job, s4)"
    and h: "liftE (save_job_in_hdf5 (xe_h5 X) job) s4 = (Inr h, s5)"
    and last: "thenE (modE (\<lambda>s. s\<lparr>fs_results := (fs_results s)(xe_folder X (nm_tuid md) (nm_qobj_tag md) @ ''/'' @ job_id @ ''.hdf5'' \<mapsto> h)\<rparr>))
      (thenE (modE (\<lambda>s. s\<lparr>fs_preprocessed := (fs_preprocessed s)(?file := None)\<rparr>))
        (retE (xe_folder X (nm_tuid md) (nm_qobj_tag md) @ ''/'' @ job_id @ ''.hdf5''))) s5 = (Inr out, s')"
    using assms unfolding executor_run_def Let_def getE_def bindE_result by auto
  obtain pk where pk: "fs_preprocessed s ?file = Some pk" "expt_metadata_from_dict pk = Inr md" "s1 = s"
    using md by (auto simp: raiseE_def liftE_def split: option.splits)
  obtain w where w: "s3 = s\<lparr>fs_world := w\<rparr>" "run_experiments X (nm_native_config md) expts (fs_world s) = (Inr results, w)"
    using instruments_only [OF results] expts by (auto simp: liftE_def pk(3))
  have "s5 = s\<lparr>fs_world := w\<rparr>" using job h w(1) by (auto simp: liftE_def)
  then have "s' = s\<lparr>fs_preprocessed := (fs_preprocessed s)(?file := None), fs_results := (fs_results s)(out \<mapsto> h), fs_world := w\<rparr>"
    using last by (auto simp: thenE_def bindE_def modE_def retE_def)
  then show thesis using that [OF pk(1,2) _ w(2)] expts job h by (auto simp: liftE_def)
qed

text \<open>A step that fails comes before the files are changed.\<close>

definition keeps_input :: "('a, 'w files) prog \<Rightarrow> bool" where
  "keeps_input m \<longleftrightarrow> (\<forall>s e s'. m s = (Inl e, s') \<longrightarrow> fs_preprocessed s' = fs_preprocessed s \<and> fs_results s' = fs_results s)"

lemma keeps_input_bind:
  assumes "keeps_input m" and "\<And>s x s'. m s = (Inr x, s') \<Longrightarrow> fs_preprocessed s' = fs_preprocessed s \<and> fs_results s' = fs_results s"
    and "\<And>x. keeps_input (f x)"
  shows "keeps_input (bindE m f)"
  unfolding keeps_input_def
proof (intro allI impI)
  fix s e s'
  assume r: "bindE m f s = (Inl e, s')"
  show "fs_preprocessed s' = fs_preprocessed s \<and> fs_results s' = fs_results s"
  proof (cases "m s")
    case (Pair y t)
    then show ?thesis
      using r assms unfolding keeps_input_def bindE_def by (cases y) (fastforce)+
  qed
qed

lemma run_failure_keeps_input: "keeps_input (executor_run X job_id folder)"
  unfolding executor_run_def Let_def
  by (intro keeps_input_bind)
     (auto simp: keeps_input_def getE_def liftE_def raiseE_def thenE_def bindE_def modE_def retE_def
        split: option.splits dest: instruments_only)

text \<open>
  A run that ends has written its results and removed the file that preprocessing left; a run that fails,
  at whatever step, keeps that file.
\<close>
theorem run_consumes_input:
  "case executor_run X job_id folder s of
     (Inl e, s') \<Rightarrow> fs_preprocessed s' = fs_preprocessed s
   | (Inr out, s') \<Rightarrow> fs_preprocessed s' = (fs_preprocessed s)(get_preprocessed_expt_file job_id folder := None) \<and>
       (\<exists>h. fs_results s' = (fs_results s)(out \<mapsto> h))"
proof (cases "executor_run X job_id folder s")
  case (Pair r s')
  show ?thesis
  proof (cases r)
    case (Inl e)
    then show ?thesis using run_failure_keeps_input Pair unfolding keeps_input_def by fastforce
  next
    case (Inr out)
    show ?thesis using run_steps [OF Pair [unfolded Inr]] unfolding Pair Inr prod.case sum.case
      by (metis files.select_convs(1,2) files.surjective files.update_convs(1,2,3))
  qed
qed

section \<open>From the job file to the file of results\<close>

text \<open>Whatever experiments an executor compiles, their results have names with their indices.\<close>

definition names_by_index :: "('x, 'w) executor \<Rightarrow> bool" where
  "names_by_index X \<longleftrightarrow> (\<forall>q c expts w results w'. xe_to_native_experiments X q c = Inr expts \<longrightarrow>
     run_experiments X c expts w = (Inr results, w') \<longrightarrow> results_ok results)"

lemma run_recorded:
  assumes sub: "submitted_qobj loads content = Inr q"
    and pre: "executor_preprocess X tuid q job_id folder s = (Inr (duration, path), s')"
    and run: "executor_run X job_id folder s' = (Inr out, s'')"
    and names: "names_by_index X" and visit: "visits_all (he_visit (xe_h5 X))"
  shows "\<exists>f h job. job_file_of loads content = Inr f \<and> fs_results s'' out = Some h \<and>
    read_job_from_hdf5 (xe_h5 X) h = Inr job \<and> jd_qobj job = Some (qobj_decoded (jf_qobj f)) \<and>
    jd_job_id job = Some job_id \<and> jd_tuid job = tuid \<and> \<not> jd_local job \<and> fs_preprocessed s'' path = None"
proof -
  obtain f c d where f: "job_file_of loads content = Inr f" "q = qobj_decoded (jf_qobj f)"
    and c: "pq_config q = Some c" "pc_library c = Items []" and d: "qobj_to_dict q = Inr d" "qobj_from_dict d = Inr q"
    and w: "decode_pulse_qobj (json_loads (json_dumps d)) = Inr d"
    by (rule submitted_decoded [OF sub])
  obtain pk md where s': "s' = s\<lparr>fs_preprocessed := (fs_preprocessed s)(path \<mapsto> pk)\<rparr>" "path = get_preprocessed_expt_file job_id folder"
    and md: "expt_metadata_from_dict pk = Inr md" "nm_qobj md = q" "nm_tuid md = tuid"
    using preprocess_stores [OF pre c d] by blast
  obtain pk' md' expts results w' job h where r: "fs_preprocessed s' path = Some pk'" "expt_metadata_from_dict pk' = Inr md'"
      "xe_to_native_experiments X (nm_qobj md') (nm_native_config md') = Inr expts"
      "run_experiments X (nm_native_config md') expts (fs_world s') = (Inr results, w')"
      "job_of_run job_id md' results = Inr job" "save_job_in_hdf5 (xe_h5 X) job = Inr h"
    and s'': "s'' = s'\<lparr>fs_preprocessed := (fs_preprocessed s')(path := None), fs_results := (fs_results s')(out \<mapsto> h), fs_world := w'\<rparr>"
    using run_steps [OF run] unfolding s'(2) by metis
  have "md' = md" using r(1,2) md(1) by (simp add: s')
  note md = md [folded this]
  have again: "to_qobj t = Inr (nm_qobj md')" if "qobj_data_from_qobj (nm_qobj md') = Inr t" for t
    using that w d by (auto simp: md(2) qobj_data_from_qobj_def to_qobj_def simp del: json_dumps.simps json_loads.simps)
  have "results_ok results" using names r(3,4) unfolding names_by_index_def by blast
  from saved_job_read [OF r(5) this visit again r(6)] obtain results' where
    read: "read_job_from_hdf5 (xe_h5 X) h = Inr (job\<lparr>jd_memory_slot_size := PyInt 100, jd_raw_results := Some results'\<rparr>)"
    by blast
  have "jd_qobj job = Some q \<and> jd_job_id job = Some job_id \<and> jd_tuid job = tuid \<and> \<not> jd_local job"
    by (rule job_for_run [OF r(5)]) (simp add: md(2,3))
  then show ?thesis using read f by (simp add: s'')
qed

text \<open>
  C4. A job that was submitted, preprocessed and run: from the file of its results the same job is read, with
  its id and with the qobj of the job file, its numbers decoded, whatever the instruments did in between.
  What preprocessing left is gone.
\<close>
theorem job_recorded:
  assumes sub: "submitted_qobj loads content = Inr q"
    and pre: "executor_preprocess X tuid q job_id folder s = (Inr (duration, path), s')"
    and run: "executor_run X job_id folder s' = (Inr out, s'')"
    and names: "names_by_index X" and visit: "visits_all (he_visit (xe_h5 X))"
  shows "\<exists>f h job. job_file_of loads content = Inr f \<and> fs_results s'' out = Some h \<and>
    read_job_from_hdf5 (xe_h5 X) h = Inr job \<and> jd_qobj job = Some (qobj_decoded (jf_qobj f)) \<and>
    jd_job_id job = Some job_id \<and> jd_tuid job = tuid \<and> \<not> jd_local job \<and> fs_preprocessed s'' path = None"
  by (rule run_recorded [OF assms])

end
