(* ===== verification/Qiskit_Properties.thy ===== *)
theory Qiskit_Properties imports Qiskit_Executor Executor_Properties Readout_Properties begin

text \<open>
  The executors that simulate: the shape of the CZ pulse, which channel an instruction plays on, what a
  simulated job is recorded as, and how its points are listed.
\<close>

section \<open>The CZ pulse\<close>

lemma delta_outside:
  "t \<le> cz_t_w p \<Longrightarrow> delta_t_function t p = 0"
  "0 < cz_t_rf p \<Longrightarrow> 0 \<le> cz_t_p p \<Longrightarrow> cz_t_w p + cz_t_rf p + cz_t_p p \<le> t \<Longrightarrow> delta_t_function t p = 0"
  by (simp_all add: delta_t_function_def Let_def)

lemma delta_bounds:
  assumes "0 \<le> cz_delta_0 p"
  shows "0 \<le> delta_t_function t p \<and> delta_t_function t p \<le> cz_delta_0 p"
proof -
  have one: "0 \<le> d / 2 * (1 - cos x) \<and> d / 2 * (1 - cos x) \<le> d" if "0 \<le> d" for d x :: real
  proof -
    have "0 \<le> 1 - cos x" "1 - cos x \<le> 2" using cos_le_one [of x] cos_ge_minus_one [of x] by linarith+
    with mult_left_mono [of "1 - cos x" 2 "d / 2"] that show ?thesis by simp
  qed
  show ?thesis using assms one [OF assms] by (simp add: delta_t_function_def Let_def)
qed

lemma omega_c_bounds: "\<bar>omega_c t p - omega_c s p\<bar> \<le> \<bar>cz_omega_c0 p\<bar>"
proof -
  let ?r = "\<lambda>t. sqrt \<bar>cos (pi * flux t p)\<bar>"
  have r: "0 \<le> ?r t" "?r t \<le> 1" for t by (simp_all add: abs_cos_le_one)
  have "\<bar>omega_c t p - omega_c s p\<bar> = \<bar>cz_omega_c0 p\<bar> * \<bar>?r t - ?r s\<bar>"
    by (simp add: omega_c_def right_diff_distrib [symmetric] abs_mult)
  also have "\<dots> \<le> \<bar>cz_omega_c0 p\<bar> * 1"
    using r(1) [of t] r(2) [of t] r(1) [of s] r(2) [of s] by (intro mult_left_mono) (simp_all only: abs_le_iff abs_ge_zero, linarith)
  finally show ?thesis by simp
qed

lemma linspace_ends: "1 < n \<Longrightarrow> length (real_linspace stop n) = n \<and> real_linspace stop n ! 0 = 0 \<and> real_linspace stop n ! (n - 1) = stop"
  by (auto simp: real_linspace_def)

text \<open>
  C18. The pulse of the CZ gate starts and ends at zero and is never larger than the frequency of the coupler.
\<close>
theorem cz_pulse_closed:
  assumes "0 \<le> cz_t_w p" and "0 < cz_t_rf p" and "0 \<le> cz_t_p p" and "1 < n"
  shows "\<exists>samples. wacqt_samples p n = Inr samples \<and> length samples = n \<and> hd samples = 0 \<and> last samples = 0 \<and>
    (\<forall>x\<in>set samples. \<bar>x\<bar> \<le> \<bar>cz_omega_c0 p\<bar>)"
proof -
  let ?stop = "cz_t_p p + cz_t_rf p + 2 * cz_t_w p"
  let ?xs = "map (\<lambda>t. omega_c t p - omega_c 0 p) (real_linspace ?stop n)"
  note ends = linspace_ends [OF assms(4), of ?stop]
  have "omega_c ?stop p = omega_c 0 p"
    using assms delta_outside(1) [of 0 p] delta_outside(2) [of p ?stop] by (simp add: omega_c_def flux_def)
  then have "?xs ! 0 = 0" "?xs ! (n - 1) = 0" using ends assms(4) by simp_all
  moreover have "length ?xs = n" "?xs \<noteq> []" using ends assms(4) by auto
  ultimately have "hd ?xs = 0" "last ?xs = 0" by (simp_all add: hd_conv_nth last_conv_nth)
  moreover have "wacqt_samples p n = Inr ?xs" using assms(2) by (simp add: wacqt_samples_def omega_c_at_def Let_def)
  ultimately show ?thesis using omega_c_bounds ends by auto
qed

theorem cz_pulse_closed_witness:
  "\<exists>samples. wacqt_samples \<lparr>cz_omega_c0 = 5, cz_theta = 0, cz_omega_phi = 1, cz_phi = 0, cz_t_w = 1, cz_t_rf = 2,
      cz_t_p = 3, cz_delta_0 = 1\<rparr> 8 = Inr samples \<and> length samples = 8 \<and> hd samples = 0 \<and> last samples = 0"
  using cz_pulse_closed [of "\<lparr>cz_omega_c0 = 5, cz_theta = 0, cz_omega_phi = 1, cz_phi = 0, cz_t_w = 1, cz_t_rf = 2,
      cz_t_p = 3, cz_delta_0 = 1\<rparr>" 8] by auto

section \<open>Channels\<close>

lemma strip_plain_chars: "\<forall>c\<in>set s. c \<notin> set cs \<Longrightarrow> strip_chars cs s = s"
proof -
  assume s: "\<forall>c\<in>set s. c \<notin> set cs"
  have kept: "dropWhile (\<lambda>c. c \<in> set cs) t = t" if "\<forall>c\<in>set t. c \<notin> set cs" for t using that by (cases t) simp_all
  show ?thesis using kept [of s] kept [of "rev s"] s by (simp add: strip_chars_def)
qed

lemma strip_leading: "set p \<subseteq> set cs \<Longrightarrow> \<forall>c\<in>set s. c \<notin> set cs \<Longrightarrow> strip_chars cs (p @ s) = s"
proof -
  assume p: "set p \<subseteq> set cs" and s: "\<forall>c\<in>set s. c \<notin> set cs"
  have "dropWhile (\<lambda>c. c \<in> set cs) (p @ s) = dropWhile (\<lambda>c. c \<in> set cs) s" using p by (simp add: dropWhile_append2 subset_iff)
  with s show ?thesis using strip_plain_chars [of s cs] unfolding strip_chars_def by simp
qed

lemma digits_not: "\<forall>c\<in>set (nat_text n). c \<notin> set ''d'' \<and> c \<notin> set ''readout'' \<and> c \<notin> set ''m'' \<and> c \<notin> set ''u''"
proof
  fix c
  assume "c \<in> set (nat_text n)"
  then have "dec_value c \<noteq> None" using nat_text_digits by blast
  then show "c \<notin> set ''d'' \<and> c \<notin> set ''readout'' \<and> c \<notin> set ''m'' \<and> c \<notin> set ''u''" by (auto simp: dec_value_def)
qed

lemma first_kept:
  assumes ne: "s \<noteq> []" and c: "c \<notin> set cs" and s: "\<forall>x\<in>set s. x \<notin> set cs"
  shows "strip_chars cs ((c # p) @ s) = (c # p) @ s"
proof -
  obtain y ys where "rev s = y # ys" using ne by (cases "rev s") simp_all
  moreover have "y \<in> set s" using calculation by (metis list.set_intros(1) set_rev)
  ultimately show ?thesis using c s by (simp add: strip_chars_def)
qed

text \<open>The number of a channel is read whatever it starts with.\<close>

lemma channel_number:
  assumes "map_of (pi_attrs inst) ''ch'' = Some (PyStr (p @ nat_text n))" and "p \<in> {''d'', ''m'', ''u'', ''readout''}"
  shows "get_channel inst = Inr (int n)"
proof -
  have p: "\<forall>c\<in>set (nat_text n). c \<notin> set ''d''" "\<forall>c\<in>set (nat_text n). c \<notin> set ''readout''"
      "\<forall>c\<in>set (nat_text n). c \<notin> set ''m''" "\<forall>c\<in>set (nat_text n). c \<notin> set ''u''"
    using digits_not by blast+
  note plain = strip_plain_chars [OF p(1)] strip_plain_chars [OF p(2)] strip_plain_chars [OF p(3)] strip_plain_chars [OF p(4)]
  note first = first_kept [OF nat_text_ne _ p(1)] first_kept [OF nat_text_ne _ p(2)] first_kept [OF nat_text_ne _ p(3)]
  have "strip_chars ''u'' (strip_chars ''m'' (strip_chars ''readout'' (strip_chars ''d'' (p @ nat_text n)))) = nat_text n"
    using assms(2)
  proof (elim insertE emptyE)
    assume "p = ''d''"
    then show ?thesis using strip_leading [of "''d''" "''d''", OF _ p(1)] plain by simp
  next
    assume "p = ''m''"
    then show ?thesis
      using first(1) [of "CHR ''m''" "[]"] first(2) [of "CHR ''m''" "[]"] strip_leading [of "''m''" "''m''", OF _ p(3)] plain by simp
  next
    assume "p = ''u''"
    then show ?thesis using first(1) [of "CHR ''u''" "[]"] strip_leading [of "''u''" "''readout''", OF _ p(2)] plain by simp
  next
    assume "p = ''readout''"
    then show ?thesis using first(1) [of "CHR ''r''" "''eadout''"] strip_leading [of "''readout''" "''readout''", OF _ p(2)] plain by simp
  qed
  then show ?thesis using assms(1) by (simp add: get_channel_def inst_attr_def)
qed

section \<open>Datasets\<close>

lemma matrix_dataset_ok: "0 < n \<Longrightarrow> dataset_ok (dataset_of_matrix n rows)"
proof -
  assume "0 < n"
  moreover have "distinct (map nat_text [0..<n])" by (intro distinct_map [THEN iffD2] conjI inj_onI) (auto dest: nat_text_inj)
  ultimately show ?thesis
    using nat_text_digits nat_text_ne by (auto simp: dataset_ok_def dataset_of_matrix_def comp_def)
qed

text \<open>What a simulator returns has the shape that was asked for, with at least one channel.\<close>

fun memory_ok :: "dyn_meas_return \<Rightarrow> sim_memory \<Rightarrow> bool" where
  "memory_ok AVG (Averaged row) = (row \<noteq> [])"
| "memory_ok SINGLE (Shots n rows) = (0 < n \<and> (\<forall>row\<in>set rows. length row = n))"
| "memory_ok _ _ = False"

lemma xarray_ok: "memory_ok r m \<Longrightarrow> \<exists>ds. to_xarray m r = Inr ds \<and> dataset_ok ds"
  by (cases r; cases m) (auto simp: to_xarray_def matrix_dataset_ok)

text \<open>
  C15. The points of a simulated experiment are listed shot by shot as the simulator returned them, in the
  order of the channels or of their memory slots.
\<close>
theorem simulated_shots_listed:
  assumes "memory_ok SINGLE (Shots n rows)" and "to_xarray (Shots n rows) SINGLE = Inr ds"
  shows "list_experiment experiments (e, ds) =
    Inr (map (\<lambda>row. map (\<lambda>q. row ! nat q) (ordered_channel_ids experiments e (map int [0..<n]))) rows)"
proof -
  let ?order = "ordered_channel_ids experiments e (map int [0..<n])"
  have n: "0 < n" using assms(1) by simp
  have ds: "ds = dataset_of_matrix n rows" using assms(2) by (simp add: to_xarray_def)
  have reps: "repetitions ds = length rows" using n by (simp add: ds repetitions_def dataset_of_matrix_def)
  have vars: "ds_vars ds = map (\<lambda>q. (int_text q, Arr2 1 (map (\<lambda>row. [iq_of (row ! nat q)]) rows))) (map int [0..<n])"
    by (simp add: ds dataset_of_matrix_def int_text_def)
  have "sorted (map int [0..<n])" by (simp add: sorted_iff_nth_mono)
  then have "sort (map int [0..<n]) = map int [0..<n]" by (rule sorted_sort_id)
  then have "list_experiment experiments (e, ds) = Inr (map (\<lambda>r. map finite_point
      (concat (map (\<lambda>q. map (\<lambda>row. [iq_of (row ! nat q)]) rows ! r) ?order))) [0..<length rows])"
    using listed_rows [OF vars, of experiments e] reps by simp
  also have "\<dots> = Inr (map (\<lambda>r. map (\<lambda>q. (rows ! r) ! nat q) ?order) [0..<length rows])"
    by (simp add: map_concat comp_def iq_of_def finite_point_def cong: map_cong)
  also have "map (\<lambda>r. map (\<lambda>q. (rows ! r) ! nat q) ?order) [0..<length rows] = map (\<lambda>row. map (\<lambda>q. row ! nat q) ?order) rows"
    by (rule nth_equalityI) simp_all
  finally show ?thesis .
qed

section \<open>Simulated jobs\<close>

text \<open>A simulator keeps to the shape that it is asked for.\<close>

definition simulates :: "('s, 'w) simulator \<Rightarrow> bool" where
  "simulates simulate \<longleftrightarrow> (\<forall>schedule shots r w m w'. simulate schedule shots r w = (Inr m, w') \<longrightarrow> memory_ok r m)"

lemma compiled_name:
  assumes "dynamics_from_qobj_expt Q backend_config expt name config = Inr x"
  shows "dynamics_name x = name"
proof -
  obtain h insts schedule where "x = \<lparr>de_header = copy_expt_header_with h [(''name'', PyStr name)], de_config = config,
      de_schedule = schedule, de_duration = qk_duration Q schedule * gc_dt (bc_general_config backend_config)\<rparr>"
    using assms unfolding dynamics_from_qobj_expt_def bind_result_Inr
    by (auto simp: Let_def bind_result_Inr split: option.splits)
  then show ?thesis by (simp add: dynamics_name_def copy_expt_header_with_def update_conv')
qed

lemma compiled_names:
  assumes "to_dynamics_experiments Q backend_config qobj = Inr expts"
  shows "\<exists>raw. map dynamics_name expts = map (\<lambda>i. get_experiment_name (raw i) (int i + 1)) [0..<length expts]"
proof -
  obtain es where es: "map_result (\<lambda>(idx, expt). bind_result (experiment_name_of expt idx) (\<lambda>name.
              dynamics_from_qobj_expt Q backend_config expt name (pq_config qobj))) (List.enumerate 0 es) = Inr expts"
    using assms by (auto simp: to_dynamics_experiments_def split: option.splits)
  note all = es [unfolded map_result_Inr]
  have len: "length expts = length es" using list_all2_lengthD [OF all] by simp
  have "\<exists>raw. dynamics_name (expts ! i) = get_experiment_name raw (int i + 1)" if i: "i < length expts" for i
  proof -
    have "(case List.enumerate 0 es ! i of (idx, expt) \<Rightarrow> bind_result (experiment_name_of expt idx) (\<lambda>name.
              dynamics_from_qobj_expt Q backend_config expt name (pq_config qobj))) = Inr (expts ! i)"
      using list_all2_nthD2 [OF all i] .
    then obtain name where n: "experiment_name_of (es ! i) i = Inr name"
        "dynamics_from_qobj_expt Q backend_config (es ! i) name (pq_config qobj) = Inr (expts ! i)"
      using i len by (auto simp: nth_enumerate_eq bind_result_Inr)
    then obtain raw where "name = get_experiment_name raw (int i + 1)"
      by (auto simp: experiment_name_of_def bind_result_Inr attr_def split: option.splits py.splits)
    with compiled_name [OF n(2)] show ?thesis by blast
  qed
  then obtain raw where "\<forall>i<length expts. dynamics_name (expts ! i) = get_experiment_name (raw i) (int i + 1)" by metis
  then show ?thesis by (intro exI [of _ raw] nth_equalityI) simp_all
qed

lemma mapE_results:
  "mapE f xs w = (Inr ys, w') \<Longrightarrow> list_all2 (\<lambda>x y. \<exists>w w'. f x w = (Inr y, w')) xs ys"
proof (induction xs arbitrary: w ys w')
  case (Cons x xs)
  from Cons.prems obtain y w1 zs w2 where y: "f x w = (Inr y, w1)" "mapE f xs w1 = (Inr zs, w2)" "ys = y # zs"
    by (auto simp: bindE_result retE_def)
  then show ?case using Cons.IH by auto
qed (simp add: retE_def)

lemma simulated_results:
  assumes law: "simulates simulate" and c: "to_dynamics_experiments Q backend_config qobj = Inr expts"
    and run: "run_experiments (dynamics_executor Q simulate backend_config asarray folder h5) native_config expts w = (Inr results, w')"
  shows "results_ok results"
proof -
  let ?X = "dynamics_executor Q simulate backend_config asarray folder h5"
  obtain kvs where kvs: "mapE (\<lambda>x. bindE (xe_run_native ?X x native_config) (\<lambda>ds. retE (xe_name ?X x, ds))) expts w = (Inr kvs, w')"
    and r: "results = dict_of kvs" using run by (auto simp: run_experiments_def bindE_result retE_def)
  note all = mapE_results [OF kvs]
  have one: "fst y = dynamics_name x \<and> dataset_ok (snd y)"
    if "\<exists>w w'. bindE (xe_run_native ?X x native_config) (\<lambda>ds. retE (xe_name ?X x, ds)) w = (Inr y, w')" for x y
  proof -
    from that obtain w ds w1 where ds: "run_dynamics simulate x native_config w = (Inr ds, w1)" "y = (dynamics_name x, ds)"
      by (auto simp: dynamics_executor_def bindE_result retE_def)
    then obtain m w2 where m: "simulate (de_schedule x) (nc_shots native_config) (dyn_meas_return_of native_config) w = (Inr m, w2)"
      "to_xarray m (dyn_meas_return_of native_config) = Inr ds" by (auto simp: run_dynamics_def Let_def bindE_result liftE_def)
    then have "memory_ok (dyn_meas_return_of native_config) m" using law unfolding simulates_def by blast
    from xarray_ok [OF this] m(2) have "dataset_ok ds" by auto
    with ds(2) show ?thesis by simp
  qed
  have facts: "list_all2 (\<lambda>x y. fst y = dynamics_name x \<and> dataset_ok (snd y)) expts kvs"
    using list_all2_mono [OF all one] .
  then have names: "map fst kvs = map dynamics_name expts"
    by (simp add: list_eq_iff_nth_eq list_all2_conv_all_nth)
  obtain raw where raw: "map dynamics_name expts = map (\<lambda>i. get_experiment_name (raw i) (int i + 1)) [0..<length expts]"
    using compiled_names [OF c] by blast
  have len: "length kvs = length expts" using facts by (auto dest: list_all2_lengthD)
  have ok: "\<forall>(name, ds)\<in>set kvs. dataset_ok ds"
    using facts by (auto simp: list_all2_conv_all_nth in_set_conv_nth) (metis snd_conv)
  have k: "results_ok kvs" using raw ok unfolding results_ok_def names len by blast
  then have "distinct (map fst kvs)" by (rule results_distinct)
  then show ?thesis using k by (simp add: r dict_of_distinct)
qed

lemma simulators_name_by_index:
  assumes "simulates simulate"
  shows "names_by_index (dynamics_executor Q simulate backend_config asarray folder h5)"
  unfolding names_by_index_def
proof (intro allI impI)
  let ?X = "dynamics_executor Q simulate backend_config asarray folder h5"
  fix q c expts w results w'
  assume c: "xe_to_native_experiments ?X q c = Inr expts" and run: "run_experiments ?X c expts w = (Inr results, w')"
  have "to_dynamics_experiments Q backend_config q = Inr expts" using c by (simp add: dynamics_executor_def)
  from simulated_results [OF assms this run] show "results_ok results" .
qed

text \<open>
  C6. A job that a simulating executor has preprocessed and run is recorded: from its file the job of the
  job file is read, whatever was simulated.
\<close>
theorem simulated_job_recorded:
  assumes "simulates simulate" and "visits_all (he_visit h5)" and "submitted_qobj loads content = Inr q"
    and "executor_preprocess (dynamics_executor Q simulate backend_config asarray folder h5) tuid q job_id inputs s = (Inr (duration, path), s')"
    and "executor_run (dynamics_executor Q simulate backend_config asarray folder h5) job_id inputs s' = (Inr out, s'')"
  shows "\<exists>f h job. job_file_of loads content = Inr f \<and> fs_results s'' out = Some h \<and>
    read_job_from_hdf5 h5 h = Inr job \<and> jd_qobj job = Some (qobj_decoded (jf_qobj f)) \<and>
    jd_job_id job = Some job_id \<and> jd_tuid job = tuid \<and> fs_preprocessed s'' path = None"
proof -
  have h5: "xe_h5 (dynamics_executor Q simulate backend_config asarray folder h5) = h5" by (simp add: dynamics_executor_def)
  show ?thesis
    using run_recorded [OF assms(3,4,5) simulators_name_by_index [OF assms(1)]] assms(2) unfolding h5 by blast
qed

end
