(* ===== verification/Submission_Samples.thy ===== *)
theory Submission_Samples imports Qiskit_Properties Calibration_Properties begin

text \<open>
  A job file with one experiment, an executor that simulates a single point, and a job file with a pulse
  library: the theorems on submitted jobs at these inputs.
\<close>

lemmas reading = qobj_from_dict_def if_in_def dict_get_def config_from_dict_def new_config_def given_def
  REQUIRED_SETTINGS_def PLAIN_SETTINGS_def INT_SETTINGS_def experiment_from_dict_def when_in_def fields_from_dict_def
  expt_config_from_dict_def instruction_from_dict_def argument_from_dict_def new_instruction_def only_keys_def COMMON_ATTRS_def
  map_filter_simps

text \<open>A job file with one experiment, an executor that simulates a single point, and what they lead to.\<close>

definition sample_job_file :: json where
  "sample_job_file = JDict [(''job_id'', JStr ''j''), (''params'', JDict [(''qobj'', JDict [
     (''qobj_id'', JStr ''q''), (''header'', JDict [(''backend_name'', JStr ''b'')]),
     (''config'', JDict [(''meas_level'', JInt 1), (''meas_return'', JInt 1), (''qubit_lo_freq'', JList []),
        (''meas_lo_freq'', JList []), (''memory_slot_size'', JInt 100), (''shots'', JInt 1), (''n_qubits'', JInt 1),
        (''pulse_library'', JList [])]),
     (''experiments'', JList [JDict [(''instructions'', JList [JDict [(''name'', JStr ''fc''), (''t0'', JInt 0),
        (''ch'', JStr ''d0''), (''val'', JList [JInt 1, JInt 2]), (''phase'', JInt 3)]]),
        (''header'', JDict [(''name'', JStr ''a'')])]])])])]"

definition sample_qiskit :: "dynamics_instruction list qiskit" where
  "sample_qiskit = \<lparr>qk_channel = \<lambda>_. Inr (), qk_check = \<lambda>_. Inr (), qk_empty = [],
     qk_insert = \<lambda>_ i schedule. Inr (schedule @ [i]), qk_duration = \<lambda>schedule. of_nat (length schedule)\<rparr>"

definition sample_simulator :: "(dynamics_instruction list, unit) simulator" where
  "sample_simulator _ _ r = retE (case r of AVG \<Rightarrow> Averaged [(1, 0)] | SINGLE \<Rightarrow> Shots 1 [[(1, 0)]])"

definition sample_h5 :: h5_env where
  "sample_h5 = \<lparr>he_storable = \<lambda>_. True, he_visit = \<lambda>h. sorted_list_of_set (members h), he_int = \<lambda>_. None\<rparr>"

definition sample_executor :: "(dynamics_instruction list dynamics_experiment, unit) executor" where
  "sample_executor = dynamics_executor sample_qiskit sample_simulator sample_backend (\<lambda>_. Inr []) (\<lambda>_ _. ''r'') sample_h5"

definition sample_files :: "unit files" where
  "sample_files = \<lparr>fs_preprocessed = Map.empty, fs_results = Map.empty, fs_world = ()\<rparr>"

definition sample_qobj :: pulse_qobj where
  "sample_qobj = \<lparr>pq_id = PyStr ''q'',
     pq_config = Some \<lparr>pc_attrs = [(''meas_level'', PyInt 1), (''meas_return'', PyInt 1), (''qubit_lo_freq'', PyList []),
        (''meas_lo_freq'', PyList []), (''memory_slot_size'', PyInt 100), (''shots'', PyInt 1), (''n_qubits'', PyInt 1)],
        pc_library = Items []\<rparr>,
     pq_header = [(''backend_name'', PyStr ''b'')],
     pq_experiments = Some [\<lparr>px_instructions = Some [\<lparr>pi_name = PyStr ''fc'', pi_t0 = PyInt 0,
        pi_attrs = [(''ch'', PyStr ''d0''), (''val'', PyComplex 1 2), (''phase'', PyInt 3)], pi_kernels = None, pi_discriminators = None\<rparr>],
        px_config = None, px_header = Some [(''name'', PyStr ''a'')]\<rparr>]\<rparr>"

lemma sample_read: "job_file_of (\<lambda>_. Inl ValueError) sample_job_file = Inr \<lparr>jf_job_id = ''j'', jf_qobj =
  sample_qobj\<lparr>pq_experiments := Some [\<lparr>px_instructions = Some [\<lparr>pi_name = PyStr ''fc'', pi_t0 = PyInt 0,
        pi_attrs = [(''ch'', PyStr ''d0''), (''val'', PyList [PyInt 1, PyInt 2]), (''phase'', PyInt 3)], pi_kernels = None, pi_discriminators = None\<rparr>],
        px_config = None, px_header = Some [(''name'', PyStr ''a'')]\<rparr>]\<rparr>\<rparr>"
  by (simp add: sample_job_file_def sample_qobj_def job_file_of_def params_of_def parse_qobj_def in_validator_def dict_of_def reading)


lemma sample_submitted: "submitted_qobj (\<lambda>_. Inl ValueError) sample_job_file = Inr sample_qobj"
  unfolding submitted_qobj_def sample_read bind_result_simps
  by (simp add: dumped_qobj_def sample_qobj_def qobj_to_dict_def config_to_dict_def experiment_to_dict_def instruction_to_dict_def
      COMMON_ATTRS_def decompress_qobj_dict_def decode_pulse_qobj_def update_in_dict update_each_list decode_instruction_def
      py_complex_def)
     (simp add: reading)


definition sample_settings :: native_config where
  "sample_settings = \<lparr>nc_acq_return_type = COMPLEX, nc_protocol = SSB_INTEGRATION_COMPLEX, nc_bin_mode = AVERAGE,
     nc_meas_level = INTEGRATED, nc_meas_return = AVERAGED, nc_meas_return_cols = 1, nc_n_qubits = 1, nc_shots = 1\<rparr>"

lemma sample_written: "\<exists>d. qobj_to_dict sample_qobj = Inr d \<and> qobj_from_dict d = Inr sample_qobj"
  by (rule submitted_decoded [OF sample_submitted]) blast

lemma sample_native:
  "to_native_instruction sample_qiskit \<lparr>pi_name = PyStr ''fc'', pi_t0 = PyInt 0,
     pi_attrs = [(''ch'', PyStr ''d0''), (''val'', PyComplex 1 2), (''phase'', PyInt 3)], pi_kernels = None,
     pi_discriminators = None\<rparr> = Inr (ShiftPhase (DriveChannel 0) (PyInt 3))"
proof -
  have zero: "int_of_text ''0'' = Inr 0" by code_simp
  show ?thesis
    by (simp add: to_native_instruction_def lookup_class_def argument_or_def hashable_def INSTRUCTION_PULSE_MAP_def dict_get_def
        phase_from_qobj_def on_drive_def is_measurement_def inst_attr_def attr_def startswith_def get_channel_def strip_chars_def
        zero new_qiskit_channel_def new_dynamics_def sample_qiskit_def)
qed

lemma sample_compiled:
  assumes "pq_experiments q = pq_experiments sample_qobj"
  shows "\<exists>e. xe_to_native_experiments sample_executor q c = Inr [e] \<and> xe_name sample_executor e = get_experiment_name ''a'' 1 \<and>
    xe_duration sample_executor e = 1"
  using assms
  by (simp add: sample_executor_def dynamics_executor_def to_dynamics_experiments_def sample_qobj_def experiment_name_of_def attr_def
      dynamics_from_qobj_expt_def insert_instruction_def sample_native Let_def dynamics_name_def copy_expt_header_with_def)
     (simp add: sample_qiskit_def sample_backend_def)

definition sample_state :: "unit files" where
  "sample_state = snd (executor_preprocess sample_executor ''t'' sample_qobj ''j'' ''p'' sample_files)"

lemma sample_preprocessed:
  "executor_preprocess sample_executor ''t'' sample_qobj ''j'' ''p'' sample_files = (Inr (1, ''p/j-expt-metadata.json''), sample_state)"
  "\<exists>d. fs_preprocessed sample_state ''p/j-expt-metadata.json'' =
       Some \<lparr>pk_native_config = sample_settings, pk_tuid = ''t'', pk_qobj = d, pk_qobj_tag = PyStr []\<rparr> \<and>
     qobj_from_dict d = Inr sample_qobj"
proof -
  obtain d where d: "qobj_to_dict sample_qobj = Inr d" "qobj_from_dict d = Inr sample_qobj" using sample_written by blast
  obtain c where c: "pq_config sample_qobj = Some c" "pc_library c = Items []"
    and n: "native_settings (c\<lparr>pc_library := Unwrapped []\<rparr>) = Inr sample_settings"
    by (simp add: sample_qobj_def sample_settings_def native_settings_def int_setting_def attr_def to_native_qobj_config_def
        get_meas_protocol_def meas_level_of_def dict_get_def)
  let ?q = "sample_qobj\<lparr>pq_config := Some (c\<lparr>pc_library := Unwrapped []\<rparr>)\<rparr>"
  have u: "unwrap_qobj asarray sample_qobj = Inr ?q" for asarray
    by (simp add: unwrap_qobj_def c attr_def unwrap_library_def dict_of_def)
  have w: "qobj_to_dict ?q = Inr d" using d(1) c by (simp add: qobj_to_dict_def config_to_dict_def)
  have h: "map_of (pq_header sample_qobj) ''tag'' = None" by (simp add: sample_qobj_def)
  obtain e where e: "xe_to_native_experiments sample_executor ?q sample_settings = Inr [e]" "xe_duration sample_executor e = 1"
    using sample_compiled [of ?q] by auto
  have "executor_preprocess sample_executor ''t'' sample_qobj ''j'' ''p'' sample_files =
     (Inr (1, ''p/j-expt-metadata.json''), sample_files\<lparr>fs_preprocessed := [''p/j-expt-metadata.json'' \<mapsto>
       \<lparr>pk_native_config = sample_settings, pk_tuid = ''t'', pk_qobj = d, pk_qobj_tag = PyStr []\<rparr>]\<rparr>)"
    by (simp add: executor_preprocess_def Let_def bindE_def liftE_def thenE_def modE_def retE_def u attr_def n h e
        expt_metadata_to_dict_def w get_preprocessed_expt_file_def sample_files_def)
  then show "executor_preprocess sample_executor ''t'' sample_qobj ''j'' ''p'' sample_files = (Inr (1, ''p/j-expt-metadata.json''), sample_state)"
    and "\<exists>d. fs_preprocessed sample_state ''p/j-expt-metadata.json'' =
       Some \<lparr>pk_native_config = sample_settings, pk_tuid = ''t'', pk_qobj = d, pk_qobj_tag = PyStr []\<rparr> \<and>
     qobj_from_dict d = Inr sample_qobj"
    using d(2) by (simp_all add: sample_state_def)
qed

lemma sample_ran: "\<exists>s. executor_run sample_executor ''j'' ''p'' sample_state = (Inr ''r/j.hdf5'', s)"
proof -
  obtain d where d: "fs_preprocessed sample_state ''p/j-expt-metadata.json'' =
       Some \<lparr>pk_native_config = sample_settings, pk_tuid = ''t'', pk_qobj = d, pk_qobj_tag = PyStr []\<rparr>"
     "qobj_from_dict d = Inr sample_qobj" using sample_preprocessed(2) by blast
  obtain t where t: "qobj_data_from_qobj sample_qobj = Inr t" using sample_written by (auto simp: qobj_data_from_qobj_def)
  have m: "metadata_from_qobj sample_qobj = Inr \<lparr>qm_shots = PyInt 1, qm_qobj_id = PyStr ''q'', qm_num_experiments = 1\<rparr>"
    "setting sample_qobj ''memory_slot_size'' = Inr (PyInt 100)" "pq_header sample_qobj = [(''backend_name'', PyStr ''b'')]"
    by (simp_all add: metadata_from_qobj_def setting_def sample_qobj_def attr_def)
  have set_one: "set_attribute (xe_h5 sample_executor) (k, a) old = Inr (AList.update k a old)" for k a old
    by (simp add: set_attribute_def sample_executor_def dynamics_executor_def sample_h5_def split: attribute.split)
  let ?ds = "\<lparr>ds_repetition = Some 1, ds_vars = [(''0'', Arr2 1 [[(Fin 1, Fin 0)]])]\<rparr>"
  obtain ds where ds: "ds = ?ds" by blast
  let ?job = "\<lparr>jd_tuid = ''t'', jd_meas_return = AVERAGED, jd_meas_level = INTEGRATED, jd_meas_return_cols = 1,
         jd_n_qubits = 1, jd_job_id = Some ''j'', jd_memory_slot_size = PyInt 100, jd_local = False, jd_qobj = Some sample_qobj,
         jd_qobj_data = Some t, jd_metadata = Some \<lparr>qm_shots = PyInt 1, qm_qobj_id = PyStr ''q'', qm_num_experiments = 1\<rparr>,
         jd_raw_results = Some [(get_experiment_name ''a'' 1, ds)]\<rparr>"
  have job: "job_of_run ''j'' \<lparr>nm_native_config = sample_settings, nm_tuid = ''t'', nm_qobj = sample_qobj, nm_qobj_tag = PyStr []\<rparr>
      [(get_experiment_name ''a'' 1, ds)] = Inr ?job"
    by (simp add: job_of_run_def m t post_init_def sample_settings_def Let_def)
  have attrs: "fold_result (set_attribute (xe_h5 sample_executor)) xs old = Inr (fold (\<lambda>(k, a). AList.update k a) xs old)" for xs old
    by (induction xs arbitrary: old) (auto simp: set_one)
  have group: "\<exists>f'. save_hdf5_attributes (xe_h5 sample_executor) path kvs f = Inr f' \<and> h5_data f' = h5_data f" for path kvs f
    by (simp add: save_hdf5_attributes_def attrs)
  have header: "\<exists>f'. save_qobj_header (xe_h5 sample_executor) (pq_header sample_qobj) f = Inr f' \<and> h5_data f' = h5_data f" for f
    using group by (simp add: save_qobj_header_def m(3) optional_text_def)
  have sweep: "save_sweep_data (xe_h5 sample_executor) (pq_header sample_qobj) f = Inr f" for f
    by (simp add: save_sweep_data_def sweep_from_qobj_header_def m(3))
  have data: "\<exists>f'. save_qobj_to_hdf5 (xe_h5 sample_executor) ?job f = Inr f' \<and> h5_data f' = h5_data f" for f
  proof -
    obtain f1 where f1: "save_hdf5_attributes (xe_h5 sample_executor) ''header/qobj_metadata''
        (as_values (metadata_to_dict \<lparr>qm_shots = PyInt 1, qm_qobj_id = PyStr ''q'', qm_num_experiments = 1\<rparr>)) f = Inr f1"
        "h5_data f1 = h5_data f" using group by blast
    show ?thesis using group [of "''header/qobj_data''" "[(''experiment_data'', Text t)]" f1] f1
      by (simp add: save_qobj_to_hdf5_def)
  qed
  have saved: "\<exists>h. save_job_in_hdf5 (xe_h5 sample_executor) ?job = Inr h"
  proof -
    let ?f0 = "\<lparr>h5_attrs = fold (\<lambda>(k, a). AList.update k a) (as_values (job_attributes ?job)) [], h5_groups = [], h5_data = []\<rparr>"
    obtain f1 where f1: "save_qobj_header (xe_h5 sample_executor) (pq_header sample_qobj) ?f0 = Inr f1" "h5_data f1 = []"
      using header [of ?f0] by auto
    obtain f2 where f2: "save_qobj_to_hdf5 (xe_h5 sample_executor) ?job f1 = Inr f2" "h5_data f2 = []"
      using data [of f1] f1(2) by auto
    have "save_results_to_hdf5 [(get_experiment_name ''a'' 1, ds)] [] =
        Inr [(measurement_path (get_experiment_name ''a'' 1) ''0'', Arr2 1 [[(Fin 1, Fin 0)]])]"
      by (simp add: save_results_to_hdf5_def write_dataset_def ds)
    then show ?thesis using f1 f2 by (simp add: save_job_in_hdf5_def attrs attr_def sweep)
  qed
  then obtain h where h: "save_job_in_hdf5 (xe_h5 sample_executor) ?job = Inr h" by blast
  obtain e where e: "xe_to_native_experiments sample_executor sample_qobj sample_settings = Inr [e]"
      "xe_name sample_executor e = get_experiment_name ''a'' 1" using sample_compiled [of sample_qobj] by auto
  have "nat_text 0 = ''0''" by code_simp
  then have x: "xe_run_native sample_executor e sample_settings = retE ds" "xe_folder sample_executor u v = ''r''" for u v
    by (simp_all add: sample_executor_def dynamics_executor_def run_dynamics_def sample_settings_def dyn_meas_return_of_def
        sample_simulator_def bindE_def retE_def liftE_def to_xarray_def dataset_of_matrix_def iq_of_def ds fun_eq_iff Let_def)
  show ?thesis
    by (simp add: d Let_def executor_run_def bindE_def getE_def liftE_def get_preprocessed_expt_file_def expt_metadata_from_dict_def
        on_instruments_def zoomE_def run_experiments_def e x retE_def dict_of_def job h thenE_def modE_def del: One_nat_def)
qed


lemma sample_simulates: "simulates sample_simulator"
  by (auto simp: simulates_def sample_simulator_def retE_def split: dyn_meas_return.splits)

lemma sample_visit: "visits_all (he_visit sample_h5)"
  using sorted_visit by (simp add: sample_h5_def)

theorem job_recorded_witness:
  "\<exists>(s :: unit files) f h job. job_file_of (\<lambda>_. Inl ValueError) sample_job_file = Inr f \<and> fs_results s ''r/j.hdf5'' = Some h \<and>
    read_job_from_hdf5 (xe_h5 sample_executor) h = Inr job \<and> jd_qobj job = Some (qobj_decoded (jf_qobj f)) \<and>
    jd_job_id job = Some ''j'' \<and> fs_preprocessed s ''p/j-expt-metadata.json'' = None"
proof -
  have visit: "visits_all (he_visit (xe_h5 sample_executor))"
    using sample_visit by (simp add: sample_executor_def dynamics_executor_def)
  have named: "names_by_index sample_executor"
    unfolding sample_executor_def by (rule simulators_name_by_index [OF sample_simulates])
  obtain s where s: "executor_run sample_executor ''j'' ''p'' sample_state = (Inr ''r/j.hdf5'', s)" using sample_ran by blast
  from job_recorded [OF sample_submitted sample_preprocessed(1) s named visit] show ?thesis by blast
qed

theorem simulated_job_recorded_witness:
  "\<exists>(s :: unit files) f h job. job_file_of (\<lambda>_. Inl ValueError) sample_job_file = Inr f \<and> fs_results s ''r/j.hdf5'' = Some h \<and>
    read_job_from_hdf5 sample_h5 h = Inr job \<and> jd_qobj job = Some (qobj_decoded (jf_qobj f)) \<and> jd_tuid job = ''t''"
proof -
  obtain s where s: "executor_run sample_executor ''j'' ''p'' sample_state = (Inr ''r/j.hdf5'', s)" using sample_ran by blast
  from simulated_job_recorded [OF sample_simulates sample_visit sample_submitted
      sample_preprocessed(1) [unfolded sample_executor_def] s [unfolded sample_executor_def]] show ?thesis by blast
qed

theorem simulated_shots_listed_witness:
  "\<exists>ds. to_xarray (Shots 2 [[(1, 0), (0, 1)], [(2, 0), (0, 2)]]) SINGLE = Inr ds \<and>
    list_experiment [] (0, ds) = Inr [[(1, 0), (0, 1)], [(2, 0), (0, 2)]]"
proof -
  let ?m = "Shots 2 [[(1, 0), (0, 1)], [(2, 0), (0, 2)]]"
  have ok: "memory_ok SINGLE ?m" by simp
  obtain ds where ds: "to_xarray ?m SINGLE = Inr ds" by (simp add: to_xarray_def)
  have o: "ordered_channel_ids [] 0 (map int [0..<2]) = [0, 1]"
    by (simp add: ordered_channel_ids_def get_acquisition_parameters_from_experiment_def py_at_def numeral_2_eq_2)
  from simulated_shots_listed [OF ok ds, of "[]" 0] ds show ?thesis by (simp add: o)
qed

theorem submitted_qobj_kept_witness:
  "\<exists>d. qobj_data_from_qobj sample_qobj = Inr (json_dumps d) \<and> to_qobj (json_dumps d) = Inr sample_qobj"
  using submitted_qobj_kept [OF sample_submitted] by blast




text \<open>A qobj whose number of shots is a text and whose instruction has a label that is \<open>None\<close>.\<close>

theorem qobj_dict_roundtrip_witness:
  "\<exists>q d. qobj_from_dict (PyDict [(''config'', PyDict [(''meas_level'', PyInt 1), (''meas_return'', PyInt 1), (''qubit_lo_freq'', PyList []),
        (''meas_lo_freq'', PyList []), (''shots'', PyStr ''7''), (''pulse_library'', PyList [])]),
      (''experiments'', PyList [PyDict [(''instructions'', PyList [PyDict [(''name'', PyStr ''fc''), (''t0'', PyInt 0),
        (''label'', PyNone)]])]])]) = Inr q \<and> qobj_to_dict q = Inr d \<and> qobj_from_dict d = Inr q"
proof -
  have seven: "int_of_text ''7'' = Inr 7" by code_simp
  have "\<exists>q d. qobj_from_dict (PyDict [(''config'', PyDict [(''meas_level'', PyInt 1), (''meas_return'', PyInt 1), (''qubit_lo_freq'', PyList []),
        (''meas_lo_freq'', PyList []), (''shots'', PyStr ''7''), (''pulse_library'', PyList [])]),
      (''experiments'', PyList [PyDict [(''instructions'', PyList [PyDict [(''name'', PyStr ''fc''), (''t0'', PyInt 0),
        (''label'', PyNone)]])]])]) = Inr q \<and> qobj_to_dict q = Inr d"
    by (simp add: reading qobj_to_dict_def config_to_dict_def experiment_to_dict_def instruction_to_dict_def seven)
  then show ?thesis using qobj_dict_roundtrip by blast
qed

end
