(* ===== verification/Qiskit_Backends.thy ===== *)
theory Qiskit_Backends imports Qiskit_Executor begin

text \<open>
  \<^verbatim>\<open>app/libs/quantum_executor/qiskit/backends\<close>: the two simulated devices, as what they hand to Qiskit
  Dynamics. A matrix is the function of its entries, with its dimension where it matters; a number that
  numpy makes no number (\<open>nan\<close>) is \<open>None\<close>. Gates are described by Qiskit, with a function that is an
  argument; the simulation and the fit of a discriminator are arguments as well.
\<close>

section \<open>Matrices\<close>

type_synonym matrix = "nat \<Rightarrow> nat \<Rightarrow> real"

text \<open>\<open>np.diag(np.sqrt(np.arange(1, dim)), 1)\<close>, the same at \<open>-1\<close>, \<open>np.diag(np.arange(dim))\<close> and \<open>np.eye\<close>.\<close>

definition annihilation :: matrix where
  "annihilation i j = (if j = i + 1 then sqrt (of_nat j) else 0)"

definition creation :: matrix where
  "creation i j = (if i = j + 1 then sqrt (of_nat i) else 0)"

definition number_operator :: matrix where
  "number_operator i j = (if i = j then of_nat i else 0)"

definition eye :: matrix where
  "eye i j = (if i = j then 1 else 0)"

definition mat_add :: "matrix \<Rightarrow> matrix \<Rightarrow> matrix" where "mat_add A B i j = A i j + B i j"
definition mat_sub :: "matrix \<Rightarrow> matrix \<Rightarrow> matrix" where "mat_sub A B i j = A i j - B i j"
definition scale :: "real \<Rightarrow> matrix \<Rightarrow> matrix" where "scale c A i j = c * A i j"

text \<open>\<open>A * B\<close> is entry by entry, \<open>A @ B\<close> the product.\<close>

definition entrywise :: "matrix \<Rightarrow> matrix \<Rightarrow> matrix" where "entrywise A B i j = A i j * B i j"

definition mat_mult :: "nat \<Rightarrow> matrix \<Rightarrow> matrix \<Rightarrow> matrix" where
  "mat_mult n A B i j = (\<Sum>k<n. A i k * B k j)"

text \<open>\<open>np.kron(A, B)\<close> for a \<open>B\<close> of dimension \<open>n\<close>.\<close>

definition kron :: "nat \<Rightarrow> matrix \<Rightarrow> matrix \<Rightarrow> matrix" where
  "kron n A B i j = A (i div n) (j div n) * B (i mod n) (j mod n)"

text \<open>An operator on one of three modes: qubit 0 varies fastest, then qubit 1, then the coupler.\<close>

definition on_qubit0 :: "nat \<Rightarrow> matrix \<Rightarrow> matrix" where "on_qubit0 d A = kron (d * d) eye (kron d eye A)"
definition on_qubit1 :: "nat \<Rightarrow> matrix \<Rightarrow> matrix" where "on_qubit1 d A = kron (d * d) eye (kron d A eye)"
definition on_coupler :: "nat \<Rightarrow> matrix \<Rightarrow> matrix" where "on_coupler d A = kron (d * d) A (kron d eye eye)"

section \<open>Configurations\<close>

definition num_of :: "scalar \<Rightarrow> rat result" where
  "num_of v = (case v of Num x \<Rightarrow> Inr x | Txt _ \<Rightarrow> Inl TypeError)"

definition num_at :: "(string \<times> scalar) list \<Rightarrow> string \<Rightarrow> rat result" where
  "num_at conf k = bind_result (dict_get conf k) num_of"

definition num_or :: "(string \<times> scalar) list \<Rightarrow> string \<Rightarrow> rat \<Rightarrow> rat result" where
  "num_or conf k d = (case map_of conf k of None \<Rightarrow> Inr d | Some v \<Rightarrow> num_of v)"

text \<open>\<open>backend_config.calibration_config.qubit[i]\<close>, and the same for couplers.\<close>

definition qubit_conf :: "backend_config \<Rightarrow> nat \<Rightarrow> (string \<times> scalar) list result" where
  "qubit_conf backend_config i =
     bind_result (attr (bc_calibration_config backend_config)) (\<lambda>c. py_at (cc_qubit c) (int i))"

definition coupler_conf :: "backend_config \<Rightarrow> nat \<Rightarrow> (string \<times> scalar) list result" where
  "coupler_conf backend_config i =
     bind_result (attr (bc_calibration_config backend_config)) (\<lambda>c. py_at (cc_coupler c) (int i))"

text \<open>\<open>PulseBackendConfiguration\<close>; \<open>'g\<close> describes the gates.\<close>

record 'g backend_configuration =
  pb_backend_name :: string
  pb_backend_version :: string
  pb_n_qubits :: int
  pb_basis_gates :: "string list"
  pb_gates :: 'g
  pb_simulator :: bool
  pb_open_pulse :: bool
  pb_max_shots :: int
  pb_coupling_map :: "(nat \<times> nat) list option"
  pb_meas_map :: "int list list"
  pb_n_uchannels :: nat
  pb_u_channel_lo :: "(rat \<times> rat) list"
  pb_qubit_lo_range :: "(rat \<times> rat) list"
  pb_dt :: rat
  pb_dtm :: rat
  pb_discriminators :: "string list"
  pb_description :: string
  pb_h_str :: "string list"
  pb_vars :: "(string \<times> rat) list"
  pb_qub :: "(string \<times> nat) list"

text \<open>Around a frequency, in GHz.\<close>

definition lo_range :: "rat \<Rightarrow> rat \<times> rat" where
  "lo_range f = (f / 10 ^ 9 - 1 / 10, f / 10 ^ 9 + 1 / 10)"

definition configuration_1q ::
    "(string \<Rightarrow> json \<Rightarrow> 'g result) \<Rightarrow> backend_config \<Rightarrow> rat \<Rightarrow> nat \<Rightarrow> 'g backend_configuration result" where
  "configuration_1q gate_config backend_config alpha d =
     (let general = bc_general_config backend_config; device = bc_device_config backend_config in
      bind_result (map_result (\<lambda>(k, v). gate_config k v) (bc_gates backend_config)) (\<lambda>gates_configs.
      bind_result (qubit_conf backend_config 0) (\<lambda>first_qubit_conf.
      bind_result (num_at first_qubit_conf ''frequency'') (\<lambda>freq.
      bind_result (py_at gates_configs 0) (\<lambda>gates.
        Inr \<lparr>pb_backend_name = gc_name general, pb_backend_version = gc_version general,
             pb_n_qubits = gc_num_qubits general, pb_basis_gates = map fst (bc_gates backend_config), pb_gates = gates,
             pb_simulator = gc_simulator general, pb_open_pulse = gc_open_pulse general, pb_max_shots = 4000,
             pb_coupling_map = dv_coupling_map device, pb_meas_map = dv_meas_map device, pb_n_uchannels = 0,
             pb_u_channel_lo = [], pb_qubit_lo_range = [lo_range freq], pb_dt = gc_dt general * 10 ^ 9,
             pb_dtm = gc_dt general * 10 ^ 9, pb_discriminators = [''max_1Q_fidelity''],
             pb_description = gc_description general,
             pb_h_str = [''2*np.pi*f*N0'', ''np.pi*alpha*N0*N0'', ''-np.pi*alpha*N0'', ''X0||D0''],
             pb_vars = [(''f'', freq), (''alpha'', alpha)], pb_qub = [(''0'', d)]\<rparr>)))))"

definition configuration_2q ::
    "(string \<Rightarrow> json \<Rightarrow> 'g result) \<Rightarrow> backend_config \<Rightarrow> nat \<Rightarrow> 'g list backend_configuration result" where
  "configuration_2q gate_config backend_config d =
     (let general = bc_general_config backend_config; device = bc_device_config backend_config in
      if gc_num_qubits general < 2 then Inl ValueError
      else
        bind_result (qubit_conf backend_config 0) (\<lambda>qubit0_conf.
        bind_result (num_at qubit0_conf ''frequency'') (\<lambda>f0.
        bind_result (qubit_conf backend_config 1) (\<lambda>qubit1_conf.
        bind_result (num_at qubit1_conf ''frequency'') (\<lambda>f1.
        bind_result (num_or qubit1_conf ''anharmonicity'' (- 17 * 10 ^ 7)) (\<lambda>alpha1.
        bind_result (coupler_conf backend_config 0) (\<lambda>coupler0_conf.
        bind_result (num_at coupler0_conf ''frequency'') (\<lambda>f2.
        bind_result (num_at coupler0_conf ''anharmonicity'') (\<lambda>alpha2.
        bind_result (num_at coupler0_conf ''coupling_strength_02'') (\<lambda>g02.
        bind_result (map_result (\<lambda>(k, v). gate_config k v) (bc_gates backend_config)) (\<lambda>gates_configs.
          Inr \<lparr>pb_backend_name = gc_name general, pb_backend_version = gc_version general,
               pb_n_qubits = gc_num_qubits general, pb_basis_gates = map fst (bc_gates backend_config),
               pb_gates = gates_configs, pb_simulator = gc_simulator general, pb_open_pulse = gc_open_pulse general,
               pb_max_shots = 4000, pb_coupling_map = dv_coupling_map device, pb_meas_map = dv_meas_map device,
               pb_n_uchannels = 1, pb_u_channel_lo = [lo_range f2],
               pb_qubit_lo_range = [lo_range f0, lo_range f1, lo_range f2], pb_dt = gc_dt general * 10 ^ 9,
               pb_dtm = gc_dt general * 10 ^ 9, pb_discriminators = [''lda''], pb_description = gc_description general,
               pb_h_str = [''2*np.pi*f1*N0'', ''np.pi*alpha1*N0*N0'', ''-np.pi*alpha1*N0'', ''2*np.pi*f2*N1'',
                 ''np.pi*alpha2*N1*N1'', ''-np.pi*alpha2*N1'', ''2*np.pi*J*(a0+a0.dag())*(a1+a1.dag())'',
                 ''X0||D0'', ''X1||D1''],
               pb_vars = [(''f1'', f1), (''alpha1'', alpha1), (''f2'', f2), (''alpha2'', alpha2), (''J'', g02)],
               pb_qub = [(''0'', d), (''1'', d)]\<rparr>)))))))))))"

text \<open>\<open>Target\<close>, \<open>PulseDefaults\<close> and the options of the solvers; the two-qubit device has the last only.\<close>

record target =
  tg_frequency :: scalar
  tg_t1 :: scalar
  tg_t2 :: scalar
  tg_dt :: rat

definition target_1q :: "backend_config \<Rightarrow> target result" where
  "target_1q backend_config =
     bind_result (qubit_conf backend_config 0) (\<lambda>first_qubit_conf.
     bind_result (dict_get first_qubit_conf ''frequency'') (\<lambda>freq.
     bind_result (dict_get first_qubit_conf ''t1_decoherence'') (\<lambda>t1.
     bind_result (dict_get first_qubit_conf ''t2_decoherence'') (\<lambda>t2.
       Inr \<lparr>tg_frequency = freq, tg_t1 = t1, tg_t2 = t2, tg_dt = gc_dt (bc_general_config backend_config)\<rparr>))))"

text \<open>\<open>qubit_freq_est\<close>; everything else is empty.\<close>

definition pulse_defaults_1q :: "backend_config \<Rightarrow> rat list result" where
  "pulse_defaults_1q backend_config =
     bind_result (qubit_conf backend_config 0) (\<lambda>first_qubit_conf.
     bind_result (num_at first_qubit_conf ''frequency'') (\<lambda>freq. Inr [freq / 10 ^ 9]))"

datatype solver_options = JaxOdeint rat rat rat | ScipyExpm rat

definition solver_options_1q :: "backend_config \<Rightarrow> rat \<Rightarrow> rat \<Rightarrow> solver_options" where
  "solver_options_1q backend_config atol rtol = JaxOdeint atol rtol (gc_dt (bc_general_config backend_config))"

definition solver_options_2q :: "backend_config \<Rightarrow> solver_options" where
  "solver_options_2q backend_config = ScipyExpm (gc_dt (bc_general_config backend_config))"

section \<open>Solvers\<close>

record solver =
  sl_static_hamiltonian :: matrix
  sl_hamiltonian_operators :: "matrix list"
  sl_hamiltonian_channels :: "string list"
  sl_channel_carrier_freqs :: "(string \<times> rat) list"
  sl_static_dissipators :: "matrix option list option"
  sl_dt :: rat

definition static_ham_1q :: "rat \<Rightarrow> rat \<Rightarrow> matrix" where
  "static_ham_1q freq alpha =
     mat_add (scale (2 * pi * of_rat freq) number_operator)
       (entrywise (scale (pi * of_rat alpha) number_operator) (mat_sub number_operator eye))"

text \<open>\<open>1 / np.sqrt(t1) * a\<close> and \<open>1 / np.sqrt(2 * t2_eff) * 2 * N\<close>; the root of a negative number is none.\<close>

definition dissipators :: "rat \<Rightarrow> rat \<Rightarrow> matrix option list result" where
  "dissipators t1 t2 =
     (if t1 = 0 \<or> t2 = 0 \<or> 1 / t2 - 1 / 2 / t1 = 0 then Inl OtherError
      else
        let t2_eff = 1 / (1 / t2 - 1 / 2 / t1) in
        Inr [if t1 < 0 then None else Some (scale (1 / sqrt (of_rat t1)) annihilation),
             if t2_eff < 0 then None else Some (scale (1 / sqrt (2 * of_rat t2_eff) * 2) number_operator)])"

definition solver_1q :: "backend_config \<Rightarrow> rat \<Rightarrow> rat \<Rightarrow> bool \<Rightarrow> solver result" where
  "solver_1q backend_config alpha r noise =
     bind_result (qubit_conf backend_config 0) (\<lambda>first_qubit_conf.
     bind_result (num_at first_qubit_conf ''frequency'') (\<lambda>freq.
     bind_result (dict_get first_qubit_conf ''t1_decoherence'') (\<lambda>t1.
     bind_result (dict_get first_qubit_conf ''t2_decoherence'') (\<lambda>t2.
     bind_result (if noise
          then bind_result (num_of t2) (\<lambda>t2. bind_result (num_of t1) (\<lambda>t1. bind_result (dissipators t1 t2) (\<lambda>ds. Inr (Some ds))))
          else Inr None) (\<lambda>static_dissipators.
       Inr \<lparr>sl_static_hamiltonian = static_ham_1q freq alpha,
            sl_hamiltonian_operators = [scale (2 * pi * of_rat r) (mat_add annihilation creation)],
            sl_hamiltonian_channels = [''d0''], sl_channel_carrier_freqs = [(''d0'', freq)],
            sl_static_dissipators = static_dissipators, sl_dt = gc_dt (bc_general_config backend_config)\<rparr>)))))"

record two_qubit_parameters =
  tq_f0 :: rat
  tq_alpha0 :: rat
  tq_f1 :: rat
  tq_alpha1 :: rat
  tq_alpha2 :: rat
  tq_g02 :: rat
  tq_g12 :: rat

text \<open>\<open>coupler\<close> is the frequency of the coupler at the start.\<close>

definition static_ham_2q :: "nat \<Rightarrow> two_qubit_parameters \<Rightarrow> real \<Rightarrow> matrix" where
  "static_ham_2q d p coupler =
     (let n = d ^ 3;
          N0 = on_qubit0 d number_operator; N1 = on_qubit1 d number_operator; N2 = on_coupler d number_operator;
          x0 = mat_add (on_qubit0 d annihilation) (on_qubit0 d creation);
          x1 = mat_add (on_qubit1 d annihilation) (on_qubit1 d creation);
          x2 = mat_add (on_coupler d annihilation) (on_coupler d creation) in
      foldl mat_add (scale (2 * pi * of_rat (tq_f0 p)) N0)
        [mat_mult n (scale (pi * of_rat (tq_alpha0 p)) N0) (mat_sub N0 eye),
         scale (2 * pi * of_rat (tq_f1 p)) N1,
         mat_mult n (scale (pi * of_rat (tq_alpha1 p)) N1) (mat_sub N1 eye),
         scale coupler N2,
         mat_mult n (scale (pi * of_rat (tq_alpha2 p)) N2) (mat_sub N2 eye),
         scale (2 * pi * of_rat (tq_g02 p)) (mat_mult n x0 x2),
         scale (2 * pi * of_rat (tq_g12 p)) (mat_mult n x1 x2)])"

definition solver_2q :: "backend_config \<Rightarrow> rat \<Rightarrow> nat \<Rightarrow> solver result" where
  "solver_2q backend_config r d =
     bind_result (qubit_conf backend_config 0) (\<lambda>qubit0_conf.
     bind_result (num_at qubit0_conf ''frequency'') (\<lambda>f0.
     bind_result (num_or qubit0_conf ''anharmonicity'' (- 17 * 10 ^ 7)) (\<lambda>alpha0.
     bind_result (qubit_conf backend_config 1) (\<lambda>qubit1_conf.
     bind_result (num_at qubit1_conf ''frequency'') (\<lambda>f1.
     bind_result (num_or qubit1_conf ''anharmonicity'' (- 17 * 10 ^ 7)) (\<lambda>alpha1.
     bind_result (coupler_conf backend_config 0) (\<lambda>coupler0_conf.
     bind_result (map_result (num_at coupler0_conf)
         [''frequency'', ''anharmonicity'', ''coupling_strength_02'', ''coupling_strength_12'', ''cz_pulse_amplitude'',
          ''cz_pulse_dc_bias'', ''frequency_detuning'', ''cz_pulse_phase_offset'', ''cz_pulse_duration_before'',
          ''cz_pulse_duration_rise'', ''cz_pulse_duration_constant'']) (\<lambda>c.
     bind_result (omega_c_at 0
         \<lparr>cz_omega_c0 = 2 * pi * of_rat (c ! 0), cz_theta = of_rat (c ! 5),
          cz_omega_phi = of_rat (c ! 6) + 2 * pi * of_rat (f1 - f0 - alpha0), cz_phi = of_rat (c ! 7),
          cz_t_w = of_rat (c ! 8), cz_t_rf = of_rat (c ! 9), cz_t_p = of_rat (c ! 10), cz_delta_0 = of_rat (c ! 4)\<rparr>)
       (\<lambda>coupler_f_vs_t.
       Inr \<lparr>sl_static_hamiltonian = static_ham_2q d
              \<lparr>tq_f0 = f0, tq_alpha0 = alpha0, tq_f1 = f1, tq_alpha1 = alpha1, tq_alpha2 = c ! 1, tq_g02 = c ! 2, tq_g12 = c ! 3\<rparr>
              coupler_f_vs_t,
            sl_hamiltonian_operators =
              [scale (2 * pi * of_rat r) (mat_add (on_qubit0 d annihilation) (on_qubit0 d creation)),
               scale (2 * pi * of_rat r) (mat_add (on_qubit1 d annihilation) (on_qubit1 d creation)),
               on_coupler d number_operator],
            sl_hamiltonian_channels = [''d0'', ''d1'', ''u0''],
            sl_channel_carrier_freqs = [(''d0'', f0), (''d1'', f1), (''u0'', 0)],
            sl_static_dissipators = None, sl_dt = gc_dt (bc_general_config backend_config)\<rparr>)))))))))"

section \<open>Devices\<close>

text \<open>What the device hands to its parent class; what is \<open>None\<close> is left out.\<close>

record 'g backend_kwargs =
  bk_solver :: solver
  bk_target :: "target option"
  bk_solver_options :: solver_options
  bk_configuration :: "'g backend_configuration"
  bk_defaults :: "rat list option"
  bk_subsystem_dims :: "nat list"

definition pulse_1q ::
    "(string \<Rightarrow> json \<Rightarrow> 'g result) \<Rightarrow> backend_config \<Rightarrow> rat \<Rightarrow> rat \<Rightarrow> rat \<Rightarrow> rat \<Rightarrow> nat \<Rightarrow> bool \<Rightarrow> 'g backend_kwargs result" where
  "pulse_1q gate_config backend_config alpha r atol rtol d noise =
     bind_result (solver_1q backend_config alpha r noise) (\<lambda>solver.
     bind_result (target_1q backend_config) (\<lambda>target.
     bind_result (configuration_1q gate_config backend_config alpha d) (\<lambda>configuration.
     bind_result (pulse_defaults_1q backend_config) (\<lambda>defaults.
       Inr \<lparr>bk_solver = solver, bk_target = Some target, bk_solver_options = solver_options_1q backend_config atol rtol,
            bk_configuration = configuration, bk_defaults = Some defaults, bk_subsystem_dims = [d]\<rparr>))))"

definition pulse_2q ::
    "(string \<Rightarrow> json \<Rightarrow> 'g result) \<Rightarrow> backend_config \<Rightarrow> rat \<Rightarrow> nat \<Rightarrow> 'g list backend_kwargs result" where
  "pulse_2q gate_config backend_config r d =
     bind_result (solver_2q backend_config r d) (\<lambda>solver.
     bind_result (configuration_2q gate_config backend_config d) (\<lambda>configuration.
       Inr \<lparr>bk_solver = solver, bk_target = None, bk_solver_options = solver_options_2q backend_config,
            bk_configuration = configuration, bk_defaults = None, bk_subsystem_dims = [d, d, d]\<rparr>))"

section \<open>Discriminators\<close>

text \<open>
  What training needs: a measurement of a channel from the state with all weight on one basis vector, or
  from the state that is the default, and the fit, one intercept and one pair of coefficients for each
  boundary between labels.
\<close>

record 'w trainer =
  tr_measure :: "int \<Rightarrow> nat option \<Rightarrow> nat \<Rightarrow> ((rat \<times> rat) list, 'w) prog"
  tr_fit :: "(rat \<times> rat) list \<Rightarrow> nat list \<Rightarrow> (rat \<times> (rat \<times> rat)) list result"

text \<open>Every boundary writes the same three entries: the last one stays.\<close>

definition lda_result :: "(rat \<times> (rat \<times> rat)) list \<Rightarrow> (string \<times> scalar) list" where
  "lda_result fits =
     (case rev fits of
        [] \<Rightarrow> []
      | (intercept, c0, c1) # _ \<Rightarrow> [(''intercept'', Num intercept), (''coef_0'', Num c0), (''coef_1'', Num c1)])"

definition train_pair ::
    "'w trainer \<Rightarrow> nat \<Rightarrow> int \<Rightarrow> nat option \<Rightarrow> nat option \<Rightarrow> ((string \<times> scalar) list, 'w) prog" where
  "train_pair T shots channel state_0 state_1 =
     bindE (tr_measure T channel state_0 shots) (\<lambda>i_q_values_0.
     bindE (tr_measure T channel state_1 shots) (\<lambda>i_q_values_1.
     bindE (liftE (tr_fit T (i_q_values_0 @ i_q_values_1) (replicate shots 0 @ replicate shots 1))) (\<lambda>fits.
       retE (lda_result fits))))"

definition train_discriminator_1q ::
    "'w trainer \<Rightarrow> backend_config \<Rightarrow> nat \<Rightarrow> (discriminators, 'w) prog" where
  "train_discriminator_1q T backend_config shots =
     bindE (train_pair T shots 0 None (Some 1)) (\<lambda>lda.
       retE [(''lda'', dict_of (map (\<lambda>qubit_id. (qubit_id, lda)) (dv_qubit_ids (bc_device_config backend_config))))])"

text \<open>\<open>basis_state_index\<close>, and \<open>get_index\<close>: a list with as many entries as a mode has levels must have three.\<close>

definition basis_state_index :: "nat \<times> nat \<times> nat \<Rightarrow> nat \<Rightarrow> nat" where
  "basis_state_index n_tuple d = (let (n0, n1, n2) = n_tuple in n2 * d ^ 2 + n1 * d + n0)"

definition get_index :: "int \<Rightarrow> nat \<Rightarrow> nat \<Rightarrow> nat result" where
  "get_index qubit_id mode d =
     (if qubit_id < - int d \<or> int d \<le> qubit_id then Inl IndexError
      else case (replicate d 0)[nat (qubit_id mod int d) := mode] of
             [n0, n1, n2] \<Rightarrow> Inr (basis_state_index (n0, n1, n2) d)
           | _ \<Rightarrow> Inl ValueError)"

text \<open>\<open>sv[get_index(...)] = 1\<close> in a vector of \<open>dim**3\<close> entries.\<close>

definition get_statevector :: "int \<Rightarrow> nat \<Rightarrow> nat \<Rightarrow> nat result" where
  "get_statevector qubit_idx mode d =
     bind_result (get_index qubit_idx mode d) (\<lambda>i. if i < d ^ 3 then Inr i else Inl IndexError)"

definition train_discriminator_2q ::
    "'w trainer \<Rightarrow> int list list \<Rightarrow> nat \<Rightarrow> nat \<Rightarrow> (discriminators, 'w) prog" where
  "train_discriminator_2q T meas_map shots d =
     bindE (liftE (map_result (\<lambda>x. py_at x 0) meas_map)) (\<lambda>qubit_indexes.
     bindE (mapE (\<lambda>qubit_idx.
         bindE (liftE (get_statevector qubit_idx 0 d)) (\<lambda>y0.
         bindE (liftE (get_statevector qubit_idx 1 d)) (\<lambda>y1.
         bindE (train_pair T shots qubit_idx (Some y0) (Some y1)) (\<lambda>lda.
           retE (CHR ''q'' # int_text qubit_idx, lda))))) qubit_indexes) (\<lambda>lda_results.
       retE [(''lda'', dict_of lda_results)]))"

text \<open>\<open>new_one_qubit\<close> and \<open>new_two_qubit\<close> with \<open>reset\<close>: the trained discriminators go into the configuration.\<close>

definition with_discriminators :: "backend_config \<Rightarrow> discriminators \<Rightarrow> backend_config result" where
  "with_discriminators backend_config ds =
     bind_result (attr (bc_calibration_config backend_config)) (\<lambda>c.
       Inr (backend_config\<lparr>bc_calibration_config := Some (c\<lparr>cc_discriminators := ds\<rparr>)\<rparr>))"

definition new_one_qubit ::
    "'w trainer \<Rightarrow> (string \<Rightarrow> json \<Rightarrow> 'g result) \<Rightarrow> backend_config \<Rightarrow> bool \<Rightarrow> (backend_config \<times> 'g backend_kwargs, 'w) prog" where
  "new_one_qubit T gate_config backend_config reset =
     bindE (liftE (pulse_1q gate_config backend_config (- 17 * 10 ^ 7) (10 ^ 9) (1 / 10 ^ 6) (1 / 10 ^ 6) 4 True)) (\<lambda>kwargs.
       if reset then
         bindE (train_discriminator_1q T backend_config 1024) (\<lambda>ds.
         bindE (liftE (with_discriminators backend_config ds)) (\<lambda>backend_config. retE (backend_config, kwargs)))
       else retE (backend_config, kwargs))"

definition new_two_qubit ::
    "'w trainer \<Rightarrow> (string \<Rightarrow> json \<Rightarrow> 'g result) \<Rightarrow> backend_config \<Rightarrow> bool \<Rightarrow> (backend_config \<times> 'g list backend_kwargs, 'w) prog" where
  "new_two_qubit T gate_config backend_config reset =
     bindE (liftE (pulse_2q gate_config backend_config (10 ^ 9) 3)) (\<lambda>kwargs.
       if reset then
         bindE (train_discriminator_2q T (pb_meas_map (bk_configuration kwargs)) 1024 3) (\<lambda>ds.
         bindE (liftE (with_discriminators backend_config ds)) (\<lambda>backend_config. retE (backend_config, kwargs)))
       else retE (backend_config, kwargs))"

end
