(* ===== verification/Qiskit_Backend_Properties.thy ===== *)
theory Qiskit_Backend_Properties imports Qiskit_Backends begin

text \<open>
  The simulated devices: the Hamiltonian of two qubits and a coupler is symmetric, its diagonal is the
  energy of the occupation numbers, the states that train the discriminators are the ones whose qubit is
  occupied in that Hamiltonian, and when the noise of one qubit is defined.
\<close>

section \<open>Products of Kronecker products\<close>

lemma sum_pairs: "(\<Sum>k<m * n. f (k div n) (k mod n)) = (\<Sum>a<m. \<Sum>b<n. f a b)" for m n :: nat
proof (cases "n = 0")
  case False
  have "(\<Sum>k<m * n. f (k div n) (k mod n)) = (\<Sum>a<m. sum (\<lambda>k. f (k div n) (k mod n)) {a * n..<a * n + n})"
    by (rule sum.nat_group [symmetric])
  also have "\<dots> = (\<Sum>a<m. \<Sum>b<n. f a b)"
  proof (rule sum.cong [OF refl])
    fix a
    have "sum (\<lambda>k. f (k div n) (k mod n)) {a * n..<a * n + n} = (\<Sum>b<n. f ((a * n + b) div n) ((a * n + b) mod n))"
      by (rule sum.reindex_bij_witness [of _ "\<lambda>b. a * n + b" "\<lambda>k. k - a * n"]) auto
    also have "\<dots> = (\<Sum>b<n. f a b)" using False by (intro sum.cong) simp_all
    finally show "sum (\<lambda>k. f (k div n) (k mod n)) {a * n..<a * n + n} = (\<Sum>b<n. f a b)" .
  qed
  finally show ?thesis .
qed simp

lemma kron_mult: "mat_mult (m * n) (kron n A B) (kron n C D) = kron n (mat_mult m A C) (mat_mult n B D)"
proof (intro ext)
  fix i j
  have "mat_mult (m * n) (kron n A B) (kron n C D) i j =
      (\<Sum>k<m * n. (A (i div n) (k div n) * C (k div n) (j div n)) * (B (i mod n) (k mod n) * D (k mod n) (j mod n)))"
    unfolding mat_mult_def kron_def by (intro sum.cong refl) (simp only: mult_ac)
  also have "\<dots> = (\<Sum>a<m. \<Sum>b<n. (A (i div n) a * C a (j div n)) * (B (i mod n) b * D b (j mod n)))"
    by (rule sum_pairs [of "\<lambda>a b. (A (i div n) a * C a (j div n)) * (B (i mod n) b * D b (j mod n))"])
  also have "\<dots> = kron n (mat_mult m A C) (mat_mult n B D) i j"
    unfolding mat_mult_def kron_def sum_product by simp
  finally show "mat_mult (m * n) (kron n A B) (kron n C D) i j = kron n (mat_mult m A C) (mat_mult n B D) i j" .
qed

lemma eye_mult: "i < d \<Longrightarrow> mat_mult d eye A i j = A i j" "j < d \<Longrightarrow> mat_mult d A eye i j = A i j"
proof -
  have "mat_mult d eye A i j = (\<Sum>k<d. if k = i then A k j else 0)"
    unfolding mat_mult_def eye_def by (intro sum.cong) auto
  then show "i < d \<Longrightarrow> mat_mult d eye A i j = A i j" by simp
  have "mat_mult d A eye i j = (\<Sum>k<d. if k = j then A i k else 0)"
    unfolding mat_mult_def eye_def by (intro sum.cong) auto
  then show "j < d \<Longrightarrow> mat_mult d A eye i j = A i j" by simp
qed

text \<open>Three modes: the entry of a product is the product of the entries of each mode.\<close>

definition modes :: "nat \<Rightarrow> matrix \<Rightarrow> matrix \<Rightarrow> matrix \<Rightarrow> matrix" where
  "modes d A B C = kron (d * d) A (kron d B C)"

lemma modes_entry:
  "modes d A B C i j = A (i div (d * d)) (j div (d * d)) * (B (i mod (d * d) div d) (j mod (d * d) div d) * C (i mod d) (j mod d))"
  by (simp add: modes_def kron_def mod_mult_left_eq mod_mod_cancel)

lemma modes_mult: "mat_mult (d ^ 3) (modes d A B C) (modes d A' B' C') = modes d (mat_mult d A A') (mat_mult d B B') (mat_mult d C C')"
  unfolding modes_def power3_eq_cube mult.assoc [of d d d] kron_mult ..

lemma operators_as_modes:
  "on_qubit0 d A = modes d eye eye A" "on_qubit1 d A = modes d eye A eye" "on_coupler d A = modes d A eye eye"
  by (simp_all add: on_qubit0_def on_qubit1_def on_coupler_def modes_def)

section \<open>The Hamiltonian\<close>

text \<open>The occupation of qubit 0, qubit 1 and the coupler in a basis vector.\<close>

definition occupation :: "nat \<Rightarrow> nat \<Rightarrow> nat \<times> nat \<times> nat" where
  "occupation d i = (i mod d, i mod (d * d) div d, i div (d * d))"

lemma occupation_of_index:
  assumes "n0 < d" and "n1 < d" and "n2 < d"
  shows "occupation d (basis_state_index (n0, n1, n2) d) = (n0, n1, n2)" and "basis_state_index (n0, n1, n2) d < d ^ 3"
proof -
  have i: "basis_state_index (n0, n1, n2) d = n2 * (d * d) + (n1 * d + n0)"
    by (simp add: basis_state_index_def power2_eq_square)
  have b: "n1 * d + n0 < d * d"
  proof -
    have "n1 * d + n0 < (n1 + 1) * d" using assms(1) by simp
    also have "\<dots> \<le> d * d" using assms(2) by (intro mult_right_mono) simp_all
    finally show ?thesis .
  qed
  have "(n2 * (d * d) + (n1 * d + n0)) mod d = n0" using assms(1) by (simp add: mod_add_left_eq flip: mult.assoc)
  moreover have "(n2 * (d * d) + (n1 * d + n0)) mod (d * d) = n1 * d + n0" using b by simp
  moreover have "(n2 * (d * d) + (n1 * d + n0)) div (d * d) = n2" by (rule div_nat_eqI) (use b in \<open>simp_all add: algebra_simps\<close>)
  moreover have "(n1 * d + n0) div d = n1" using assms(1) by simp
  ultimately show "occupation d (basis_state_index (n0, n1, n2) d) = (n0, n1, n2)" by (simp only: occupation_def i)
  have "n2 * (d * d) + (n1 * d + n0) < (n2 + 1) * (d * d)" using b by simp
  also have "\<dots> \<le> d * (d * d)" using assms(3) by (intro mult_right_mono) simp_all
  finally show "basis_state_index (n0, n1, n2) d < d ^ 3" by (simp add: i power3_eq_cube mult_ac)
qed

lemma occupation_inj: "occupation d i = occupation d j \<Longrightarrow> i = j"
proof -
  assume "occupation d i = occupation d j"
  then have "i mod d = j mod d" "i mod (d * d) div d = j mod (d * d) div d" "i div (d * d) = j div (d * d)"
    by (simp_all add: occupation_def)
  moreover have "i mod (d * d) mod d = i mod d" "j mod (d * d) mod d = j mod d" by (simp_all add: mod_mod_cancel)
  ultimately have "i mod (d * d) = j mod (d * d)" by (metis div_mult_mod_eq)
  with \<open>i div (d * d) = j div (d * d)\<close> show ?thesis by (metis div_mult_mod_eq)
qed

lemma occupation_bounds:
  assumes "i < d ^ 3" and "occupation d i = (n0, n1, n2)"
  shows "n0 < d" "n1 < d" "n2 < d"
proof -
  have d: "0 < d" using assms(1) by (cases d) simp_all
  then have "0 < d * d" by simp
  then have "i mod (d * d) < d * d" by simp
  then show "n0 < d" "n1 < d" using assms(2) d by (auto simp: occupation_def less_mult_imp_div_less)
  have "i < d * (d * d)" using assms(1) by (simp add: power3_eq_cube mult_ac)
  then show "n2 < d" using assms(2) by (auto simp: occupation_def less_mult_imp_div_less)
qed

lemma diagonal_entries:
  assumes "occupation d i = (n0, n1, n2)"
  shows "on_qubit0 d number_operator i j = (if i = j then of_nat n0 else 0)"
    and "on_qubit1 d number_operator i j = (if i = j then of_nat n1 else 0)"
    and "on_coupler d number_operator i j = (if i = j then of_nat n2 else 0)"
  using assms occupation_inj [of d i j]
  by (auto simp: operators_as_modes modes_entry eye_def number_operator_def occupation_def)

lemma diagonal_product:
  assumes "i < n" and "\<And>k. A i k = (if i = k then a else 0)"
  shows "mat_mult n A B i j = a * B i j"
proof -
  have "mat_mult n A B i j = (\<Sum>k<n. if k = i then a * B k j else 0)"
    unfolding mat_mult_def assms(2) by (intro sum.cong) auto
  with assms(1) show ?thesis by simp
qed

definition exchange :: matrix where
  "exchange = mat_add annihilation creation"

lemma exchange_symmetric: "exchange i j = exchange j i"
  by (simp add: exchange_def mat_add_def annihilation_def creation_def)

lemma exchange_diagonal: "exchange i i = 0"
  by (simp add: exchange_def mat_add_def annihilation_def creation_def)

lemma exchange_modes:
  "mat_add (on_qubit0 d annihilation) (on_qubit0 d creation) = modes d eye eye exchange"
  "mat_add (on_qubit1 d annihilation) (on_qubit1 d creation) = modes d eye exchange eye"
  "mat_add (on_coupler d annihilation) (on_coupler d creation) = modes d exchange eye eye"
  by (intro ext; simp add: operators_as_modes modes_entry mat_add_def exchange_def algebra_simps)+

lemma coupling_entries:
  assumes "i < d ^ 3" and "j < d ^ 3" and "occupation d i = (n0, n1, n2)" and "occupation d j = (m0, m1, m2)"
  shows "mat_mult (d ^ 3) (modes d eye eye exchange) (modes d exchange eye eye) i j = exchange n2 m2 * (eye n1 m1 * exchange n0 m0)"
    and "mat_mult (d ^ 3) (modes d eye exchange eye) (modes d exchange eye eye) i j = exchange n2 m2 * (exchange n1 m1 * eye n0 m0)"
proof -
  note i = occupation_bounds [OF assms(1,3)] and j = occupation_bounds [OF assms(2,4)]
  have e: "i div (d * d) = n2" "i mod (d * d) div d = n1" "i mod d = n0" "j div (d * d) = m2" "j mod (d * d) div d = m1" "j mod d = m0"
    using assms(3,4) by (simp_all add: occupation_def)
  show "mat_mult (d ^ 3) (modes d eye eye exchange) (modes d exchange eye eye) i j = exchange n2 m2 * (eye n1 m1 * exchange n0 m0)"
    "mat_mult (d ^ 3) (modes d eye exchange eye) (modes d exchange eye eye) i j = exchange n2 m2 * (exchange n1 m1 * eye n0 m0)"
    unfolding modes_mult modes_entry e using i j by (simp_all add: eye_mult)
qed

text \<open>The energy of occupation numbers.\<close>

definition energy :: "two_qubit_parameters \<Rightarrow> real \<Rightarrow> nat \<times> nat \<times> nat \<Rightarrow> real" where
  "energy p coupler n = (let (n0, n1, n2) = n; level = \<lambda>f alpha k. f * of_nat k + pi * of_rat alpha * of_nat k * (of_nat k - 1) in
     level (2 * pi * of_rat (tq_f0 p)) (tq_alpha0 p) n0 + level (2 * pi * of_rat (tq_f1 p)) (tq_alpha1 p) n1 +
     level coupler (tq_alpha2 p) n2)"

lemma hamiltonian_entries:
  assumes "i < d ^ 3" and "j < d ^ 3" and "occupation d i = (n0, n1, n2)" and "occupation d j = (m0, m1, m2)"
  shows "static_ham_2q d p coupler i j = (if i = j then energy p coupler (n0, n1, n2) else 0) +
    2 * pi * of_rat (tq_g02 p) * (exchange n2 m2 * (eye n1 m1 * exchange n0 m0)) +
    2 * pi * of_rat (tq_g12 p) * (exchange n2 m2 * (exchange n1 m1 * eye n0 m0))"
proof -
  have anharmonic: "mat_mult (d ^ 3) (scale c N) (mat_sub N eye) i j = (if i = j then c * k * (k - 1) else 0)"
    if "\<forall>j. N i j = (if i = j then k else 0)" for c N and k :: real
    using diagonal_product [OF assms(1), of "scale c N" "c * k"] that by (simp add: scale_def mat_sub_def eye_def)
  note diag = diagonal_entries [OF assms(3)]
  have d: "\<forall>j. on_qubit0 d number_operator i j = (if i = j then of_nat n0 else 0)"
    "\<forall>j. on_qubit1 d number_operator i j = (if i = j then of_nat n1 else 0)"
    "\<forall>j. on_coupler d number_operator i j = (if i = j then of_nat n2 else 0)" using diag by blast+
  show ?thesis
    unfolding static_ham_2q_def Let_def exchange_modes foldl.simps mat_add_def
    by (simp add: anharmonic [of "on_qubit0 d number_operator", OF d(1)]
        anharmonic [of "on_qubit1 d number_operator", OF d(2)] anharmonic [of "on_coupler d number_operator", OF d(3)] scale_def diag coupling_entries [OF assms]
        energy_def Let_def algebra_simps)
qed

text \<open>
  C16. The Hamiltonian of the simulated pair is symmetric, and on the basis vector of given occupation numbers
  its diagonal is their energy, with nothing of the couplings.
\<close>
theorem two_qubit_hamiltonian:
  assumes "i < d ^ 3" and "j < d ^ 3" and "n0 < d" and "n1 < d" and "n2 < d"
  shows "static_ham_2q d p coupler i j = static_ham_2q d p coupler j i \<and>
    static_ham_2q d p coupler (basis_state_index (n0, n1, n2) d) (basis_state_index (n0, n1, n2) d) = energy p coupler (n0, n1, n2)"
proof -
  obtain a0 a1 a2 b0 b1 b2 where o: "occupation d i = (a0, a1, a2)" "occupation d j = (b0, b1, b2)" by (metis prod_cases3)
  have "eye k l = eye l k" for k l by (simp add: eye_def)
  moreover have "(if i = j then energy p coupler (a0, a1, a2) else 0) = (if j = i then energy p coupler (b0, b1, b2) else 0)"
    using o by auto
  ultimately have "static_ham_2q d p coupler i j = static_ham_2q d p coupler j i"
    unfolding hamiltonian_entries [OF assms(1,2) o] hamiltonian_entries [OF assms(2,1) o(2,1)]
    by (simp only: exchange_symmetric [of a0] exchange_symmetric [of a1] exchange_symmetric [of a2])
  then show ?thesis
    using occupation_of_index [OF assms(3-5)] by (simp add: hamiltonian_entries exchange_diagonal)
qed

theorem two_qubit_hamiltonian_witness:
  "static_ham_2q 3 \<lparr>tq_f0 = 1, tq_alpha0 = 2, tq_f1 = 3, tq_alpha1 = 4, tq_alpha2 = 5, tq_g02 = 6, tq_g12 = 7\<rparr> 8 21 21 =
     8 * 2 + pi * 5 * 2 * 1 + 2 * pi * 3"
proof -
  have "basis_state_index (0, 1, 2) 3 = 21" by (simp add: basis_state_index_def)
  then show ?thesis
    using two_qubit_hamiltonian [of 0 3 0 0 1 2 "\<lparr>tq_f0 = 1, tq_alpha0 = 2, tq_f1 = 3, tq_alpha1 = 4, tq_alpha2 = 5, tq_g02 = 6, tq_g12 = 7\<rparr>" 8]
    by (simp add: energy_def)
qed

text \<open>
  C17. The states that train the discriminator of a qubit are basis vectors in which that qubit has the given
  occupation and nothing else is occupied.
\<close>
theorem prepared_occupation:
  assumes "q \<in> {0, 1}" and "mode < 3"
  shows "\<exists>i. get_statevector (int q) mode 3 = Inr i \<and>
    on_qubit0 3 number_operator i i = (if q = 0 then of_nat mode else 0) \<and>
    on_qubit1 3 number_operator i i = (if q = 1 then of_nat mode else 0) \<and> on_coupler 3 number_operator i i = 0"
proof -
  let ?n = "if q = 0 then (mode, 0, 0) else (0, mode, 0)"
  have len: "[0, 0, 0 :: nat] = replicate 3 0" by (simp add: numeral_3_eq_3)
  have "get_index (int q) mode 3 = Inr (basis_state_index ?n 3)"
    using assms(1) by (auto simp: get_index_def len [symmetric])
  moreover have o: "occupation 3 (basis_state_index ?n 3) = ?n" "basis_state_index ?n 3 < 3 ^ 3"
    using occupation_of_index [of mode 3 0 0] occupation_of_index [of 0 3 mode 0] assms(2) by auto
  ultimately have "get_statevector (int q) mode 3 = Inr (basis_state_index ?n 3)" by (simp add: get_statevector_def)
  then show ?thesis
  proof (cases "q = 0")
    case True
    then have "occupation 3 (basis_state_index ?n 3) = (mode, 0, 0)" using o(1) by simp
    from diagonal_entries [OF this] \<open>get_statevector (int q) mode 3 = _\<close> True show ?thesis by simp
  next
    case False
    then have "occupation 3 (basis_state_index ?n 3) = (0, mode, 0)" using o(1) by simp
    from diagonal_entries [OF this] \<open>get_statevector (int q) mode 3 = _\<close> False assms(1) show ?thesis by simp
  qed
qed

theorem prepared_occupation_witness:
  "\<exists>i. get_statevector 1 1 3 = Inr i \<and> on_qubit1 3 number_operator i i = 1 \<and> on_qubit0 3 number_operator i i = 0"
  using prepared_occupation [of 1 1] by auto

section \<open>Noise\<close>

text \<open>
  With positive times the noise of the qubit is defined exactly when the dephasing time is below twice the
  relaxation time: at twice it, where there is no pure dephasing, an exception is raised, and above it the
  dephasing operator is no number.
\<close>
theorem noise_defined:
  assumes "0 < t1" and "0 < t2"
  shows "((\<exists>a b. dissipators t1 t2 = Inr [Some a, Some b]) \<longleftrightarrow> t2 < 2 * t1) \<and>
    (dissipators t1 t2 = Inl OtherError \<longleftrightarrow> t2 = 2 * t1)"
proof -
  have rate: "1 / t2 - 1 / 2 / t1 = (2 * t1 - t2) / (2 * t1 * t2)" using assms by (simp add: field_simps)
  have "1 / t2 - 1 / 2 / t1 = 0 \<longleftrightarrow> t2 = 2 * t1" unfolding rate using assms by auto
  moreover have "1 / (1 / t2 - 1 / 2 / t1) < 0 \<longleftrightarrow> 2 * t1 < t2"
    unfolding rate using assms by (simp add: divide_less_0_iff mult_less_0_iff)
  ultimately show ?thesis using assms by (auto simp: dissipators_def Let_def)
qed

theorem noise_defined_witness:
  "(\<exists>a b. dissipators 2 3 = Inr [Some a, Some b]) \<and> dissipators 2 4 = Inl OtherError"
  using noise_defined [of 2 3] noise_defined [of 2 4] by auto

end
