(* ===== verification/Quantify_Metadata.thy ===== *)
theory Quantify_Metadata imports Spi_Dac Pulse_Qobj begin

text \<open>
  \<^verbatim>\<open>app/libs/quantum_executor/quantify/utils/config.py\<close>, the metadata of the instruments, and how
  \<^verbatim>\<open>spi_dac.py\<close> sets up the racks that they name. YAML is the value it holds, with texts as keys. How
  pydantic reads a truth value, an integer or a float is the record \<open>lax\<close>; the racks that exist, the
  outputs of a new module and the serial ports of the machine are the record \<open>rack_env\<close>.
\<close>

section \<open>Instruments\<close>

definition ALLOWED_TOP_LEVEL_INSTRUMENTS :: "string set" where
  "ALLOWED_TOP_LEVEL_INSTRUMENTS = {''Cluster'', ''LocalOscillator'', ''IQMixer'', ''OpticalModulator'', ''SPI-Rack''}"

definition ALLOWED_MODULE_TYPES :: "string set" where
  "ALLOWED_MODULE_TYPES = {''QCM'', ''QRM'', ''QCM_RF'', ''QRM_RF'', ''QTM''}"

datatype cluster_type = CLUSTER_QCM | CLUSTER_QRM | CLUSTER_QCM_RF | CLUSTER_QRM_RF

definition QBLOX_CLUSTER_TYPE_MAP :: "(string \<times> cluster_type) list" where
  "QBLOX_CLUSTER_TYPE_MAP =
     [(''QCM'', CLUSTER_QCM), (''QRM'', CLUSTER_QRM), (''QCM_RF'', CLUSTER_QCM_RF), (''QRM_RF'', CLUSTER_QRM_RF)]"

record lax =
  lx_bool :: "json \<Rightarrow> bool option"
  lx_int :: "json \<Rightarrow> int option"
  lx_float :: "json \<Rightarrow> rat option"

definition checked :: "'a option \<Rightarrow> 'a result" where
  "checked x = (case x of None \<Rightarrow> Inl ValidationError | Some v \<Rightarrow> Inr v)"

definition text_field :: "json \<Rightarrow> string result" where
  "text_field v = (case v of JStr s \<Rightarrow> Inr s | _ \<Rightarrow> Inl ValidationError)"

text \<open>A field with a default that may also be given as \<open>None\<close>.\<close>

definition optional_field :: "(json \<Rightarrow> 'a result) \<Rightarrow> (string \<times> json) list \<Rightarrow> string \<Rightarrow> 'a option result" where
  "optional_field f d k =
     (case map_of d k of
        None \<Rightarrow> Inr None
      | Some v \<Rightarrow> if v = JNull then Inr None else bind_result (f v) (\<lambda>x. Inr (Some x)))"

text \<open>A field with a default, which is not \<open>None\<close>.\<close>

definition field_or :: "(json \<Rightarrow> 'a result) \<Rightarrow> (string \<times> json) list \<Rightarrow> string \<Rightarrow> 'a \<Rightarrow> 'a result" where
  "field_or f d k x = (case map_of d k of None \<Rightarrow> Inr x | Some v \<Rightarrow> f v)"

definition required_field :: "(json \<Rightarrow> 'a result) \<Rightarrow> (string \<times> json) list \<Rightarrow> string \<Rightarrow> 'a result" where
  "required_field f d k = (case map_of d k of None \<Rightarrow> Inl ValidationError | Some v \<Rightarrow> f v)"

definition fields_of :: "json \<Rightarrow> (string \<times> json) list result" where
  "fields_of v = (case v of JDict d \<Rightarrow> Inr d | _ \<Rightarrow> Inl ValidationError)"

definition allowed_text :: "string set \<Rightarrow> json \<Rightarrow> string result" where
  "allowed_text allowed v =
     bind_result (text_field v) (\<lambda>s. if s \<in> allowed then Inr s else Inl ValidationError)"

text \<open>\<open>Dict[str, T]\<close>.\<close>

definition dict_field :: "(json \<Rightarrow> 'a result) \<Rightarrow> json \<Rightarrow> (string \<times> 'a) list result" where
  "dict_field f v =
     bind_result (fields_of v) (map_result (\<lambda>(k, x). bind_result (f x) (\<lambda>y. Inr (k, y))))"

record module_config =
  mc_instrument_type :: string
  mc_extra :: "(string \<times> json) list"

definition module_config_of :: "json \<Rightarrow> module_config result" where
  "module_config_of v =
     bind_result (fields_of v) (\<lambda>d.
     bind_result (required_field (allowed_text ALLOWED_MODULE_TYPES) d ''instrument_type'') (\<lambda>t.
       Inr \<lparr>mc_instrument_type = t, mc_extra = filter (\<lambda>(k, _). k \<noteq> ''instrument_type'') d\<rparr>))"

definition INSTRUMENT_FIELDS :: "string list" where
  "INSTRUMENT_FIELDS = [''instrument_type'', ''ref'', ''modules'', ''ip_address'', ''is_dummy'', ''port'', ''experiment_delay'']"

record instrument_config =
  ic_instrument_type :: string
  ic_ref :: "string option"
  ic_modules :: "(string \<times> module_config) list option"
  ic_ip_address :: "string option"
  ic_is_dummy :: "bool option"
  ic_port :: "string option"
  ic_experiment_delay :: rat
  ic_extra :: "(string \<times> json) list"

definition instrument_config_of :: "lax \<Rightarrow> json \<Rightarrow> instrument_config result" where
  "instrument_config_of L v =
     bind_result (fields_of v) (\<lambda>d.
     bind_result (required_field (allowed_text ALLOWED_TOP_LEVEL_INSTRUMENTS) d ''instrument_type'') (\<lambda>t.
     bind_result (optional_field text_field d ''ref'') (\<lambda>r.
     bind_result (optional_field (dict_field module_config_of) d ''modules'') (\<lambda>modules.
     bind_result (optional_field text_field d ''ip_address'') (\<lambda>ip_address.
     bind_result (optional_field (\<lambda>v. checked (lx_bool L v)) d ''is_dummy'') (\<lambda>is_dummy.
     bind_result (optional_field text_field d ''port'') (\<lambda>port.
     bind_result (field_or (\<lambda>v. checked (lx_float L v)) d ''experiment_delay'' 0) (\<lambda>delay.
       Inr \<lparr>ic_instrument_type = t, ic_ref = r, ic_modules = modules, ic_ip_address = ip_address,
            ic_is_dummy = is_dummy, ic_port = port, ic_experiment_delay = delay,
            ic_extra = filter (\<lambda>(k, _). k \<notin> set INSTRUMENT_FIELDS) d\<rparr>))))))))"

section \<open>The metadata\<close>

type_synonym quantify_metadata = "(string \<times> instrument_config) list"

definition ascii_alnum :: "char \<Rightarrow> bool" where
  "ascii_alnum c =
     (let n = of_char c :: nat in 48 \<le> n \<and> n \<le> 57 \<or> 65 \<le> n \<and> n \<le> 90 \<or> 97 \<le> n \<and> n \<le> 122)"

text \<open>\<open>^cluster[A-Za-z0-9]+$\<close> in either case; the end may have a line break before it.\<close>

definition cluster_name_matches :: "string \<Rightarrow> bool" where
  "cluster_name_matches name =
     (let rest = drop 7 name;
          body = (if rest \<noteq> [] \<and> last rest = CHR 0x0A then butlast rest else rest) in
      lower (take 7 name) = ''cluster'' \<and> body \<noteq> [] \<and> (\<forall>c\<in>set body. ascii_alnum c))"

text \<open>\<open>not x\<close> for a text that may be \<open>None\<close>.\<close>

definition no_text :: "string option \<Rightarrow> bool" where
  "no_text x \<longleftrightarrow> x = None \<or> x = Some []"

definition check_instrument :: "string \<times> instrument_config \<Rightarrow> unit result" where
  "check_instrument i =
     (let (name, instr) = i in
      if ic_instrument_type instr = ''Cluster'' then
        if \<not> cluster_name_matches name then Inl ValidationError
        else if no_text (ic_ip_address instr) then Inl ValidationError
        else Inr ()
      else if ic_instrument_type instr = ''SPI-Rack'' then
        if no_text (ic_port instr) then Inl ValidationError else Inr ()
      else Inr ())"

definition quantify_metadata_of :: "lax \<Rightarrow> json \<Rightarrow> quantify_metadata result" where
  "quantify_metadata_of L data =
     bind_result (dict_field (instrument_config_of L) data) (\<lambda>v.
     bind_result (map_result check_instrument v) (\<lambda>_. Inr v))"

definition experiment_delay :: "quantify_metadata \<Rightarrow> rat" where
  "experiment_delay md =
     (case find (\<lambda>(_, conf). ic_instrument_type conf = ''Cluster'') md of
        None \<Rightarrow> 0 | Some (_, conf) \<Rightarrow> ic_experiment_delay conf)"

section \<open>Clusters\<close>

text \<open>\<open>qblox_instruments.Cluster\<close> with its arguments.\<close>

record cluster =
  cl_name :: string
  cl_identifier :: "string option"
  cl_dummy_cfg :: "(int \<times> cluster_type) list option"

definition create_cluster :: "string \<Rightarrow> instrument_config \<Rightarrow> cluster result" where
  "create_cluster name conf =
     bind_result
       (if ic_is_dummy conf = Some True then
          bind_result (attr (ic_modules conf)) (\<lambda>modules.
          bind_result (map_result (\<lambda>(idx, m).
              bind_result (int_of_text idx) (\<lambda>n.
              bind_result (dict_get QBLOX_CLUSTER_TYPE_MAP (mc_instrument_type m)) (\<lambda>t. Inr (n, t)))) modules) (\<lambda>kvs.
            Inr (Some (dict_of kvs))))
        else Inr None) (\<lambda>dummy_cfg.
       Inr \<lparr>cl_name = name, cl_identifier = ic_ip_address conf, cl_dummy_cfg = dummy_cfg\<rparr>)"

definition get_clusters :: "quantify_metadata \<Rightarrow> cluster list result" where
  "get_clusters md =
     map_result (\<lambda>(name, conf). create_cluster name conf)
       (filter (\<lambda>(_, conf). ic_instrument_type conf = ''Cluster'') md)"

section \<open>Racks\<close>

record coupler_map_entry =
  ce_spi_module_number :: int
  ce_dac_name :: string

definition coupler_map_entry_of :: "lax \<Rightarrow> json \<Rightarrow> coupler_map_entry result" where
  "coupler_map_entry_of L v =
     bind_result (fields_of v) (\<lambda>d.
     bind_result (required_field (\<lambda>v. checked (lx_int L v)) d ''spi_module_number'') (\<lambda>n.
     bind_result (required_field text_field d ''dac_name'') (\<lambda>dac.
       Inr \<lparr>ce_spi_module_number = n, ce_dac_name = dac\<rparr>)))"

record spi_rack_config =
  sc_port :: "string option"
  sc_is_dummy :: bool
  sc_coupler_spi_mapping :: "(string \<times> coupler_map_entry) list"
  sc_parking_current :: rat

text \<open>\<open>model_dump\<close> of what a rack has; the fields of an instrument come with their values, \<open>None\<close> included.\<close>

definition or_null :: "('a \<Rightarrow> json) \<Rightarrow> 'a option \<Rightarrow> json" where
  "or_null f x = (case x of None \<Rightarrow> JNull | Some v \<Rightarrow> f v)"

definition module_dump :: "module_config \<Rightarrow> json" where
  "module_dump m = JDict ((''instrument_type'', JStr (mc_instrument_type m)) # mc_extra m)"

definition instrument_dump :: "instrument_config \<Rightarrow> (string \<times> json) list" where
  "instrument_dump c =
     [(''instrument_type'', JStr (ic_instrument_type c)), (''ref'', or_null JStr (ic_ref c)),
      (''modules'', or_null (\<lambda>ms. JDict (map (\<lambda>(k, m). (k, module_dump m)) ms)) (ic_modules c)),
      (''ip_address'', or_null JStr (ic_ip_address c)), (''is_dummy'', or_null JBool (ic_is_dummy c)),
      (''port'', or_null JStr (ic_port c)), (''experiment_delay'', JNum (ic_experiment_delay c))] @ ic_extra c"

record rack_env =
  re_posix :: bool
  re_port_exists :: "string \<Rightarrow> bool"
  re_racks :: "string \<rightharpoonup> (string \<times> string list) list"
  re_new_rack :: "string \<Rightarrow> string option \<Rightarrow> bool \<Rightarrow> (string \<times> string list) list result"
  re_new_module :: "int \<Rightarrow> string list result"

definition check_port :: "rack_env \<Rightarrow> spi_rack_config \<Rightarrow> spi_rack_config result" where
  "check_port E c =
     (if sc_is_dummy c then Inr c
      else case sc_port c of
             None \<Rightarrow> Inl ValidationError
           | Some p \<Rightarrow> if re_posix E \<and> \<not> re_port_exists E p then Inl ValidationError else Inr c)"

definition spi_rack_config_of :: "lax \<Rightarrow> rack_env \<Rightarrow> (string \<times> json) list \<Rightarrow> spi_rack_config result" where
  "spi_rack_config_of L E d =
     bind_result (instrument_config_of L (JDict (filter (\<lambda>(k, _). k \<noteq> ''is_dummy'') d))) (\<lambda>_.
     bind_result (optional_field text_field d ''port'') (\<lambda>port.
     bind_result (field_or (\<lambda>v. checked (lx_bool L v)) d ''is_dummy'' False) (\<lambda>is_dummy.
     bind_result (field_or (dict_field (coupler_map_entry_of L)) d ''coupler_spi_mapping'' []) (\<lambda>mapping.
     bind_result (field_or (\<lambda>v. checked (lx_float L v)) d ''parking_current'' (1 / 10 ^ 4)) (\<lambda>current.
       check_port E \<lparr>sc_port = port, sc_is_dummy = is_dummy, sc_coupler_spi_mapping = mapping, sc_parking_current = current\<rparr>)))))"

text \<open>What is sent to an output when its coupler is set up.\<close>

datatype dac_command =
    Span string | CurrentLimits rat rat | RampingEnabled bool | RampRate rat | RampMaxStep rat

definition setup_commands :: "dac_command list" where
  "setup_commands =
     [Span ''range_min_bi'', CurrentLimits (- 31 / 10 ^ 4) (31 / 10 ^ 4), RampingEnabled True,
      RampRate (40 / 10 ^ 6), RampMaxStep (1 / 10 ^ 6)]"

text \<open>The output of a coupler by module and name, or the text that stands for a dummy.\<close>

datatype dac_ref = Dac string string | DummyDac string

definition spi_module_name :: "coupler_map_entry \<Rightarrow> string" where
  "spi_module_name e = ''module'' @ int_text (ce_spi_module_number e)"

definition dummy_dac :: "coupler_map_entry \<Rightarrow> dac_ref" where
  "dummy_dac e = DummyDac (''Dummy_DAC_for_'' @ spi_module_name e @ ''_'' @ ce_dac_name e)"

definition find_dac :: "(string \<times> string list) list \<Rightarrow> coupler_map_entry \<Rightarrow> dac_ref result" where
  "find_dac rack e =
     bind_result (dict_get rack (spi_module_name e)) (\<lambda>dacs.
       if ce_dac_name e \<in> set dacs then Inr (Dac (spi_module_name e) (ce_dac_name e)) else Inl KeyError)"

definition get_spi_module :: "(string \<times> string list) list \<Rightarrow> coupler_map_entry \<Rightarrow> bool \<Rightarrow> dac_ref result" where
  "get_spi_module rack e is_dummy = (if is_dummy then Inr (dummy_dac e) else find_dac rack e)"

text \<open>The outputs set up so far come with their commands, in order.\<close>

definition init_coupler_spi_module ::
    "rack_env \<Rightarrow> (string \<times> string list) list \<Rightarrow> coupler_map_entry \<Rightarrow> bool \<Rightarrow>
     (dac_ref \<times> (dac_ref \<times> dac_command list) list \<times> (string \<times> string list) list) result" where
  "init_coupler_spi_module E rack e is_dummy =
     (if is_dummy then Inr (dummy_dac e, [], rack)
      else
        bind_result (if map_of rack (spi_module_name e) \<noteq> None then Inr rack
                     else bind_result (re_new_module E (ce_spi_module_number e)) (\<lambda>dacs. Inr (rack @ [(spi_module_name e, dacs)]))) (\<lambda>rack.
        bind_result (find_dac rack e) (\<lambda>dac. Inr (dac, [(dac, setup_commands)], rack))))"

primrec init_couplers ::
    "rack_env \<Rightarrow> bool \<Rightarrow> (string \<times> coupler_map_entry) list \<Rightarrow> (string \<times> string list) list \<Rightarrow>
     ((string \<times> dac_ref) list \<times> (dac_ref \<times> dac_command list) list) result" where
  "init_couplers E is_dummy [] rack = Inr ([], [])"
| "init_couplers E is_dummy (ke # kes) rack =
     bind_result (init_coupler_spi_module E rack (snd ke) is_dummy) (\<lambda>(dac, sent, rack).
     bind_result (init_couplers E is_dummy kes rack) (\<lambda>(dacs, more). Inr ((fst ke, dac) # dacs, sent @ more)))"

text \<open>\<open>SpiDAC\<close>: the rack that exists is used as it is; a new one has its outputs set up.\<close>

record spi_dac =
  sd_spi :: spi
  sd_dacs :: "(string \<times> dac_ref) list"
  sd_sent :: "(dac_ref \<times> dac_command list) list"

definition new_spi_dac :: "rack_env \<Rightarrow> string \<Rightarrow> spi_rack_config \<Rightarrow> spi_dac result" where
  "new_spi_dac E name conf =
     (let mapping = sc_coupler_spi_mapping conf;
          sp = \<lparr>sp_is_dummy = sc_is_dummy conf, sp_couplers = sort (map fst mapping), sp_parking_current = sc_parking_current conf\<rparr>;
          create = bind_result (re_new_rack E name (sc_port conf) (sc_is_dummy conf)) (\<lambda>rack.
            bind_result (init_couplers E (sc_is_dummy conf) mapping rack) (\<lambda>(dacs, sent).
              Inr \<lparr>sd_spi = sp, sd_dacs = dacs, sd_sent = sent\<rparr>)) in
      case re_racks E name of
        None \<Rightarrow> create
      | Some rack \<Rightarrow>
          (case map_result (\<lambda>(k, e). bind_result (get_spi_module rack e (sc_is_dummy conf)) (\<lambda>dac. Inr (k, dac))) mapping of
             Inr dacs \<Rightarrow> Inr \<lparr>sd_spi = sp, sd_dacs = dacs, sd_sent = []\<rparr>
           | Inl KeyError \<Rightarrow> create
           | Inl e \<Rightarrow> Inl e))"

definition init_spi_dacs :: "lax \<Rightarrow> rack_env \<Rightarrow> quantify_metadata \<Rightarrow> (string \<times> spi_dac) list result" where
  "init_spi_dacs L E md =
     map_result (\<lambda>(name, obj).
         bind_result (spi_rack_config_of L E (instrument_dump obj)) (\<lambda>conf.
         bind_result (new_spi_dac E name conf) (\<lambda>d. Inr (name, d))))
       (filter (\<lambda>(_, obj). ic_instrument_type obj = ''SPI-Rack'') md)"

end
