(* ===== verification/Metadata_Properties.thy ===== *)
theory Metadata_Properties imports Quantify_Metadata begin

text \<open>
  What the metadata of the instruments promise once they are accepted: which clusters and racks are
  named, when the clusters of a simulated set-up can be built, and what is sent to the outputs of the
  racks before their first use.
\<close>

section \<open>Loops that may fail\<close>

lemma map_result_ok_iff: "(\<exists>ys. map_result f xs = Inr ys) \<longleftrightarrow> (\<forall>x\<in>set xs. \<exists>y. f x = Inr y)"
  by (induction xs) (auto split: sum.splits)

lemma map_result_in: "map_result f xs = Inr ys \<Longrightarrow> y \<in> set ys \<Longrightarrow> \<exists>x\<in>set xs. f x = Inr y"
  unfolding map_result_Inr by (induction xs ys rule: list_all2_induct) auto

lemma optional_field_Some:
  "optional_field f d k = Inr (Some y) \<Longrightarrow> \<exists>v. map_of d k = Some v \<and> f v = Inr y"
  by (auto simp: optional_field_def bind_result_Inr split: option.splits if_splits)

lemma required_field_Inr: "required_field f d k = Inr y \<longleftrightarrow> (\<exists>v. map_of d k = Some v \<and> f v = Inr y)"
  by (simp add: required_field_def split: option.split)

lemma dict_field_in:
  assumes "dict_field f v = Inr kys" "(k, y) \<in> set kys"
  shows "\<exists>x. f x = Inr y"
proof -
  obtain d where "map_result (\<lambda>(k, x). bind_result (f x) (\<lambda>y. Inr (k, y))) d = Inr kys"
    using assms(1) by (auto simp: dict_field_def bind_result_Inr)
  then show ?thesis using map_result_in [OF _ assms(2)] by (fastforce simp: bind_result_Inr)
qed

lemma allowed_text_Inr: "allowed_text A v = Inr s \<Longrightarrow> s \<in> A"
  by (auto simp: allowed_text_def bind_result_Inr split: if_splits)

section \<open>Accepted metadata\<close>

lemma module_type_allowed: "module_config_of v = Inr m \<Longrightarrow> mc_instrument_type m \<in> ALLOWED_MODULE_TYPES"
  by (auto simp: module_config_of_def bind_result_Inr required_field_Inr dest: allowed_text_Inr)

lemma instrument_type_allowed:
  "instrument_config_of L v = Inr c \<Longrightarrow> ic_instrument_type c \<in> ALLOWED_TOP_LEVEL_INSTRUMENTS"
  by (auto simp: instrument_config_of_def bind_result_Inr required_field_Inr dest: allowed_text_Inr)

lemma instrument_modules_allowed:
  assumes "instrument_config_of L v = Inr c" "ic_modules c = Some ms" "(k, m) \<in> set ms"
  shows "mc_instrument_type m \<in> ALLOWED_MODULE_TYPES"
proof -
  obtain d where "optional_field (dict_field module_config_of) d ''modules'' = Inr (Some ms)"
    using assms(1,2) by (auto simp: instrument_config_of_def bind_result_Inr)
  then obtain x where "dict_field module_config_of x = Inr ms"
    by (auto dest: optional_field_Some)
  then show ?thesis using dict_field_in [OF _ assms(3)] module_type_allowed by blast
qed

lemma accepted_instrument:
  assumes "quantify_metadata_of L v = Inr md" "(name, c) \<in> set md"
  shows "(\<exists>x. instrument_config_of L x = Inr c) \<and> check_instrument (name, c) = Inr ()"
proof -
  from assms(1) have "dict_field (instrument_config_of L) v = Inr md" "\<exists>us. map_result check_instrument md = Inr us"
    by (auto simp: quantify_metadata_of_def bind_result_Inr)
  with assms(2) show ?thesis
    unfolding map_result_ok_iff using dict_field_in by fastforce
qed

lemma cluster_name_facts:
  "cluster_name_matches name \<Longrightarrow> lower (take 7 name) = ''cluster'' \<and> 7 < length name"
  by (rule ccontr) (auto simp: cluster_name_matches_def Let_def)

lemma checked_cluster:
  "check_instrument (name, c) = Inr () \<Longrightarrow> ic_instrument_type c = ''Cluster'' \<Longrightarrow>
   cluster_name_matches name \<and> (\<exists>a. ic_ip_address c = Some a \<and> a \<noteq> [])"
  by (auto simp: check_instrument_def no_text_def split: if_splits)

lemma checked_rack:
  "check_instrument (name, c) = Inr () \<Longrightarrow> ic_instrument_type c = ''SPI-Rack'' \<Longrightarrow> \<exists>p. ic_port c = Some p \<and> p \<noteq> []"
  by (auto simp: check_instrument_def no_text_def split: if_splits)

text \<open>Metadata that are accepted have only instruments of the five types and modules of the five types; every cluster is named \<open>cluster...\<close> and has an address, every rack has a port.\<close>

theorem accepted_metadata:
  assumes "quantify_metadata_of L v = Inr md" "(name, c) \<in> set md"
  shows "ic_instrument_type c \<in> ALLOWED_TOP_LEVEL_INSTRUMENTS
         \<and> (\<forall>ms k m. ic_modules c = Some ms \<and> (k, m) \<in> set ms \<longrightarrow> mc_instrument_type m \<in> ALLOWED_MODULE_TYPES)
         \<and> (ic_instrument_type c = ''Cluster'' \<longrightarrow>
              lower (take 7 name) = ''cluster'' \<and> 7 < length name \<and> (\<exists>a. ic_ip_address c = Some a \<and> a \<noteq> []))
         \<and> (ic_instrument_type c = ''SPI-Rack'' \<longrightarrow> (\<exists>p. ic_port c = Some p \<and> p \<noteq> []))"
proof -
  obtain x where x: "instrument_config_of L x = Inr c" and ok: "check_instrument (name, c) = Inr ()"
    using accepted_instrument [OF assms] by blast
  show ?thesis
    using instrument_type_allowed [OF x] instrument_modules_allowed [OF x] checked_cluster [OF ok] checked_rack [OF ok]
      cluster_name_facts by blast
qed

section \<open>Clusters\<close>

lemma cluster_type_of:
  "t \<in> ALLOWED_MODULE_TYPES \<Longrightarrow> (\<exists>ct. dict_get QBLOX_CLUSTER_TYPE_MAP t = Inr ct) \<longleftrightarrow> t \<noteq> ''QTM''"
  by (auto simp: ALLOWED_MODULE_TYPES_def QBLOX_CLUSTER_TYPE_MAP_def dict_get_def)

definition dummy_modules_ok :: "instrument_config \<Rightarrow> bool" where
  "dummy_modules_ok c =
     (case ic_modules c of
        None \<Rightarrow> False
      | Some ms \<Rightarrow> \<forall>km\<in>set ms. \<not> isl (int_of_text (fst km)) \<and> mc_instrument_type (snd km) \<noteq> ''QTM'')"

lemma isr_Inr: "\<not> isl r \<longleftrightarrow> (\<exists>x. r = Inr x)"
  by (cases r) simp_all

lemma create_cluster_iff:
  assumes "instrument_config_of L x = Inr c"
  shows "(\<exists>cl. create_cluster name c = Inr cl) \<longleftrightarrow> (ic_is_dummy c = Some True \<longrightarrow> dummy_modules_ok c)"
proof (cases "ic_modules c")
  case None
  then show ?thesis by (simp add: create_cluster_def dummy_modules_ok_def)
next
  case (Some ms)
  let ?f = "\<lambda>(idx, m). bind_result (int_of_text idx) (\<lambda>n.
              bind_result (dict_get QBLOX_CLUSTER_TYPE_MAP (mc_instrument_type m)) (\<lambda>t. Inr (n, t)))"
  have f: "(\<exists>y. ?f km = Inr y) \<longleftrightarrow> \<not> isl (int_of_text (fst km)) \<and> mc_instrument_type (snd km) \<noteq> ''QTM''"
    if "km \<in> set ms" for km
  proof -
    have "mc_instrument_type (snd km) \<in> ALLOWED_MODULE_TYPES"
      using instrument_modules_allowed [OF assms Some, of "fst km" "snd km"] that by simp
    from cluster_type_of [OF this] show ?thesis
      by (auto simp: bind_result_Inr isr_Inr split: prod.split)
  qed
  have "(\<exists>cl. create_cluster name c = Inr cl) \<longleftrightarrow> (ic_is_dummy c = Some True \<longrightarrow> (\<exists>kvs. map_result ?f ms = Inr kvs))"
    using Some by (auto simp: create_cluster_def bind_result_Inr)
  also have "\<dots> \<longleftrightarrow> (ic_is_dummy c = Some True \<longrightarrow> dummy_modules_ok c)"
    unfolding map_result_ok_iff dummy_modules_ok_def using f Some by simp
  finally show ?thesis .
qed

text \<open>C21. The clusters of accepted metadata can be built exactly when every dummy cluster lists its modules, with integers as keys and none of type \<open>QTM\<close>.\<close>

theorem clusters_built_iff:
  assumes "quantify_metadata_of L v = Inr md"
  shows "(\<exists>cls. get_clusters md = Inr cls) \<longleftrightarrow>
         (\<forall>(name, c)\<in>set md. ic_instrument_type c = ''Cluster'' \<and> ic_is_dummy c = Some True \<longrightarrow> dummy_modules_ok c)"
proof -
  have *: "(\<exists>cl. create_cluster (fst nc) (snd nc) = Inr cl) \<longleftrightarrow> (ic_is_dummy (snd nc) = Some True \<longrightarrow> dummy_modules_ok (snd nc))"
    if "nc \<in> set md" for nc
    using accepted_instrument [OF assms, of "fst nc" "snd nc"] that create_cluster_iff by (metis prod.collapse)
  have "(\<exists>cls. get_clusters md = Inr cls) \<longleftrightarrow>
      (\<forall>nc\<in>set md. ic_instrument_type (snd nc) = ''Cluster'' \<longrightarrow> (\<exists>cl. create_cluster (fst nc) (snd nc) = Inr cl))"
    unfolding get_clusters_def map_result_ok_iff by (simp add: split_def Ball_def imp_conjL)
  then show ?thesis using * by (auto simp: split_def)
qed

section \<open>Racks\<close>

text \<open>What has been set up when the outputs of a rack are given out.\<close>

definition rack_ready :: "bool \<Rightarrow> (string \<times> dac_ref) list \<Rightarrow> (dac_ref \<times> dac_command list) list \<Rightarrow> bool" where
  "rack_ready is_dummy dacs sent \<longleftrightarrow>
     (if is_dummy then sent = [] \<and> (\<forall>d\<in>snd ` set dacs. \<exists>s. d = DummyDac s)
      else sent = map (\<lambda>(_, d). (d, setup_commands)) dacs \<and> (\<forall>d\<in>snd ` set dacs. \<exists>m o'. d = Dac m o'))"

lemma find_dac_real: "find_dac rack e = Inr d \<Longrightarrow> d = Dac (spi_module_name e) (ce_dac_name e)"
  by (auto simp: find_dac_def bind_result_Inr split: if_splits)

lemma init_coupler_ready:
  assumes "init_coupler_spi_module E rack e is_dummy = Inr (d, sent, rack')"
  shows "(if is_dummy then sent = [] \<and> d = dummy_dac e
          else sent = [(d, setup_commands)] \<and> d = Dac (spi_module_name e) (ce_dac_name e))"
  using assms by (auto simp: init_coupler_spi_module_def bind_result_Inr dest: find_dac_real split: if_splits)

lemma init_couplers_ready:
  assumes "init_couplers E is_dummy kes rack = Inr (dacs, sent)"
  shows "rack_ready is_dummy dacs sent \<and> map fst dacs = map fst kes"
  using assms
proof (induction kes arbitrary: rack dacs sent)
  case Nil
  then show ?case by (auto simp: rack_ready_def)
next
  case (Cons ke kes)
  from Cons.prems obtain d s rack' dacs' sent' where
    d: "init_coupler_spi_module E rack (snd ke) is_dummy = Inr (d, s, rack')"
    and r: "init_couplers E is_dummy kes rack' = Inr (dacs', sent')"
    and eq: "dacs = (fst ke, d) # dacs'" "sent = s @ sent'"
    by (auto simp: bind_result_Inr)
  from Cons.IH [OF r] init_coupler_ready [OF d] eq show ?case
    by (auto simp: rack_ready_def dummy_dac_def split: if_splits)
qed

lemma existing_rack_ready:
  assumes "map_result (\<lambda>(k, e). bind_result (get_spi_module rack e b) (\<lambda>dac. Inr (k, dac))) mapping = Inr dacs"
  shows "map fst dacs = map fst mapping \<and> (b \<longrightarrow> rack_ready b dacs [])"
proof -
  have "list_all2 (\<lambda>(k, e) y. \<exists>d. get_spi_module rack e b = Inr d \<and> y = (k, d)) mapping dacs"
    using assms unfolding map_result_Inr
    by (rule list_all2_mono) (auto simp: bind_result_Inr)
  then show ?thesis
    by (induction mapping dacs rule: list_all2_induct)
       (auto simp: rack_ready_def get_spi_module_def dummy_dac_def)
qed

lemma new_spi_dac_ready:
  assumes "new_spi_dac E name conf = Inr sd"
  shows "set (sp_couplers (sd_spi sd)) = fst ` set (sd_dacs sd)
         \<and> sp_is_dummy (sd_spi sd) = sc_is_dummy conf
         \<and> (rack_ready (sc_is_dummy conf) (sd_dacs sd) (sd_sent sd)
            \<or> \<not> sc_is_dummy conf \<and> re_racks E name \<noteq> None \<and> sd_sent sd = [])"
proof -
  let ?b = "sc_is_dummy conf" and ?m = "sc_coupler_spi_mapping conf"
  let ?sp = "\<lparr>sp_is_dummy = ?b, sp_couplers = sort (map fst ?m), sp_parking_current = sc_parking_current conf\<rparr>"
  have "(\<exists>rack dacs sent. init_couplers E ?b ?m rack = Inr (dacs, sent) \<and> sd = \<lparr>sd_spi = ?sp, sd_dacs = dacs, sd_sent = sent\<rparr>)
      \<or> (\<exists>rack dacs. re_racks E name = Some rack
            \<and> map_result (\<lambda>(k, e). bind_result (get_spi_module rack e ?b) (\<lambda>dac. Inr (k, dac))) ?m = Inr dacs
            \<and> sd = \<lparr>sd_spi = ?sp, sd_dacs = dacs, sd_sent = []\<rparr>)"
    using assms
    by (auto simp: new_spi_dac_def Let_def bind_result_Inr split: option.splits sum.splits exn.splits)
  then show ?thesis
  proof (elim disjE exE conjE)
    fix rack dacs sent
    assume i: "init_couplers E ?b ?m rack = Inr (dacs, sent)" "sd = \<lparr>sd_spi = ?sp, sd_dacs = dacs, sd_sent = sent\<rparr>"
    have "fst ` set dacs = fst ` set ?m" using init_couplers_ready [OF i(1)] by (metis list.set_map)
    with init_couplers_ready [OF i(1)] i(2) show ?thesis by simp
  next
    fix rack dacs
    assume r: "map_result (\<lambda>(k, e). bind_result (get_spi_module rack e ?b) (\<lambda>dac. Inr (k, dac))) ?m = Inr dacs"
      "sd = \<lparr>sd_spi = ?sp, sd_dacs = dacs, sd_sent = []\<rparr>" "re_racks E name = Some rack"
    have "fst ` set dacs = fst ` set ?m" using existing_rack_ready [OF r(1)] by (metis list.set_map)
    with existing_rack_ready [OF r(1)] r(2,3) show ?thesis by auto
  qed
qed

text \<open>C20. When the racks are set up, each gives out one output per configured coupler. A dummy rack is sent nothing and gives out no real output; every output of a rack that did not exist was sent, once and in this order, the smallest bipolar range, the limits of its current at 3.1 mA either way, and the ramp of 40 uA a second in steps of at most 1 uA.\<close>

theorem racks_set_up:
  assumes "init_spi_dacs L E md = Inr ds" "(name, sd) \<in> set ds"
  shows "set (sp_couplers (sd_spi sd)) = fst ` set (sd_dacs sd)
         \<and> (sp_is_dummy (sd_spi sd) \<longrightarrow> sd_sent sd = [] \<and> (\<forall>(k, d)\<in>set (sd_dacs sd). \<exists>s. d = DummyDac s))
         \<and> (\<not> sp_is_dummy (sd_spi sd) \<and> re_racks E name = None \<longrightarrow>
              sd_sent sd = map (\<lambda>(_, d). (d, [Span ''range_min_bi'', CurrentLimits (-31 / 10 ^ 4) (31 / 10 ^ 4), 
                RampingEnabled True, RampRate (40 / 10 ^ 6), RampMaxStep (1 / 10 ^ 6)])) (sd_dacs sd))"
proof -
  obtain conf where "new_spi_dac E name conf = Inr sd"
    using map_result_in [OF assms(1) [unfolded init_spi_dacs_def] assms(2)] by (auto simp: bind_result_Inr)
  from new_spi_dac_ready [OF this] show ?thesis
    by (auto simp: rack_ready_def setup_commands_def split: if_splits)
qed

lemma dump_without_is_dummy:
  "ic_is_dummy c = None \<Longrightarrow> map_of (instrument_dump c) ''is_dummy'' = Some JNull"
  by (simp add: instrument_dump_def or_null_def)

text \<open>A rack whose entry does not say \<open>is_dummy\<close> makes the set-up of the racks fail, as long as a missing value is no truth value: its dump has \<open>None\<close> there, which is not the default of \<open>False\<close>.\<close>

theorem rack_needs_is_dummy:
  assumes "(name, c) \<in> set md" "ic_instrument_type c = ''SPI-Rack''" "ic_is_dummy c = None" "lx_bool L JNull = None"
  shows "\<exists>e. init_spi_dacs L E md = Inl e"
proof -
  have "\<nexists>conf. spi_rack_config_of L E (instrument_dump c) = Inr conf"
    using dump_without_is_dummy [OF assms(3)] assms(4)
    by (auto simp: spi_rack_config_of_def bind_result_Inr field_or_def checked_def)
  then have "\<nexists>ds. init_spi_dacs L E md = Inr ds"
    unfolding init_spi_dacs_def map_result_ok_iff using assms(1,2)
    by (fastforce simp: bind_result_Inr)
  then show ?thesis by (cases "init_spi_dacs L E md") auto
qed

section \<open>A set-up\<close>

definition sample_lax :: lax where
  "sample_lax = \<lparr>lx_bool = (\<lambda>v. case v of JBool b \<Rightarrow> Some b | _ \<Rightarrow> None), lx_int = (\<lambda>v. case v of JNum q \<Rightarrow> Some \<lfloor>q\<rfloor> | _ \<Rightarrow> None),
                 lx_float = (\<lambda>v. case v of JNum q \<Rightarrow> Some q | _ \<Rightarrow> None)\<rparr>"

definition sample_racks :: rack_env where
  "sample_racks = \<lparr>re_posix = True, re_port_exists = (\<lambda>_. True), re_racks = (\<lambda>_. None),
                   re_new_rack = (\<lambda>_ _ _. Inr []), re_new_module = (\<lambda>_. Inr [''dac0''])\<rparr>"

definition sample_instruments :: "json \<Rightarrow> json" where
  "sample_instruments is_dummy = JDict
     [(''clusterA'', JDict [(''instrument_type'', JStr ''Cluster''), (''ip_address'', JStr ''1''), (''is_dummy'', JBool True),
        (''modules'', JDict [(''2'', JDict [(''instrument_type'', JStr ''QCM'')])])]),
      (''spi1'', JDict [(''instrument_type'', JStr ''SPI-Rack''), (''port'', JStr ''p''), (''is_dummy'', is_dummy),
        (''coupler_spi_mapping'', JDict [(''u1'', JDict [(''spi_module_number'', JNum 2), (''dac_name'', JStr ''dac0'')])])])]"

definition sample_parsed :: "json \<Rightarrow> quantify_metadata" where
  "sample_parsed is_dummy = (case quantify_metadata_of sample_lax (sample_instruments is_dummy) of Inr md \<Rightarrow> md | Inl _ \<Rightarrow> [])"

lemma sample_accepted:
  "quantify_metadata_of sample_lax (sample_instruments (JBool True)) = Inr (sample_parsed (JBool True))"
  "quantify_metadata_of sample_lax (sample_instruments JNull) = Inr (sample_parsed JNull)"
  "quantify_metadata_of sample_lax (sample_instruments (JBool False)) = Inr (sample_parsed (JBool False))"
  by code_simp+

lemma accepted_metadata_witness:
  "ic_instrument_type (snd (sample_parsed JNull ! 1)) \<in> ALLOWED_TOP_LEVEL_INSTRUMENTS"
proof -
  have "(fst (sample_parsed JNull ! 1), snd (sample_parsed JNull ! 1)) \<in> set (sample_parsed JNull)"
    by code_simp
  from accepted_metadata [OF sample_accepted(2) this] show ?thesis by blast
qed

lemma clusters_built_iff_witness: "\<exists>cls. get_clusters (sample_parsed (JBool True)) = Inr cls"
proof -
  have "\<forall>(name, c)\<in>set (sample_parsed (JBool True)).
          ic_instrument_type c = ''Cluster'' \<and> ic_is_dummy c = Some True \<longrightarrow> dummy_modules_ok c"
    by code_simp
  with clusters_built_iff [OF sample_accepted(1)] show ?thesis by blast
qed

definition sample_racks_ready :: "(string \<times> spi_dac) list" where
  "sample_racks_ready =
     (case init_spi_dacs sample_lax sample_racks (sample_parsed (JBool False)) of Inr ds \<Rightarrow> ds | Inl _ \<Rightarrow> [])"

lemma racks_set_up_witness:
  "sd_sent (snd (hd sample_racks_ready)) =
     [(Dac ''module2'' ''dac0'', [Span ''range_min_bi'', CurrentLimits (-31 / 10 ^ 4) (31 / 10 ^ 4), 
        RampingEnabled True, RampRate (40 / 10 ^ 6), RampMaxStep (1 / 10 ^ 6)])]"
proof -
  let ?sd = "snd (hd sample_racks_ready)"
  have ok: "init_spi_dacs sample_lax sample_racks (sample_parsed (JBool False)) = Inr sample_racks_ready"
    by code_simp
  have mem: "(''spi1'', ?sd) \<in> set sample_racks_ready" by code_simp
  have "\<not> sp_is_dummy (sd_spi ?sd)" "sd_dacs ?sd = [(''u1'', Dac ''module2'' ''dac0'')]" by code_simp+
  with racks_set_up [OF ok mem] show ?thesis by (simp add: sample_racks_def)
qed

lemma rack_needs_is_dummy_witness:
  "\<exists>e. init_spi_dacs sample_lax sample_racks (sample_parsed JNull) = Inl e"
proof (rule rack_needs_is_dummy)
  show "(''spi1'', snd (sample_parsed JNull ! 1)) \<in> set (sample_parsed JNull)" by code_simp
  show "ic_instrument_type (snd (sample_parsed JNull ! 1)) = ''SPI-Rack''" by code_simp
  show "ic_is_dummy (snd (sample_parsed JNull ! 1)) = None" by code_simp
  show "lx_bool sample_lax JNull = None" by (simp add: sample_lax_def)
qed

end
