(* ===== verification/Spec2Isabelle.thy ===== *)
theory Spec2Isabelle imports Queue_Properties Job_Expiry Job_Properties Booking_Properties Request_Properties Storage_Id Quantify_Properties Readout_Properties Hdf5_Properties Hardware_Properties Spi_Properties Device_Properties Recalibration Serialization Mss_Properties Submission_Samples Qiskit_Backend_Properties Metadata_Properties begin

text \<open>
  A model of the Tergite backend, a service that runs quantum jobs on one device.

  Parts and how they interact. The API (\<^verbatim>\<open>app/api\<close>) calls the scheduling service
  (\<^verbatim>\<open>app/services/scheduler\<close>) and the booking service (\<^verbatim>\<open>app/services/booking\<close>). The scheduling
  service puts jobs on queues (\<^verbatim>\<open>app/libs/queues\<close>, \<^verbatim>\<open>app/services/scheduler/queues.py\<close>); rq workers
  take them off and run the tasks of \<^verbatim>\<open>app/services/scheduler/tasks.py\<close>: preprocessing decides between
  the normal queue, the booked queue and the waitlist, execution runs the job, post-processing
  reads the measurement and finishes it. Jobs are kept in a collection in Redis
  (\<^verbatim>\<open>app/utils/redis_store.py\<close>), bookings and users in SQL. The executor
  (\<^verbatim>\<open>app/libs/quantum_executor\<close>) compiles the experiments of a job for the instruments, sets the currents
  of the couplers, runs the experiments and keeps their points in an HDF5 file, from which
  post-processing discriminates them.

  Theories, from the bottom.
  \<^item> \<open>Prelude\<close>: exceptions, routines (state to result and state, an exception keeps the state reached),
    Python rounding, seconds with an infinity, shared lemmas. \<open>Clock\<close>: \<^verbatim>\<open>app/utils/datetime.py\<close>.
    \<open>Py_String\<close> and \<open>Storage_Id\<close>: Python string functions and the text of a storage id.
  \<^item> \<open>Redis\<close>: the Redis commands the code uses as a parameter, their laws as a locale, what time does to
    fields with a time to live as another, and an in-memory server that satisfies both.
  \<^item> \<open>Job_Model\<close>: \<^verbatim>\<open>app/libs/queues/dtos.py\<close>. \<open>Static_Queue\<close>: \<open>StaticQueue\<close> of
    \<^verbatim>\<open>app/libs/queues/types.py\<close>. \<open>Rq\<close>: \<open>RunnerQueue\<close> and \<^verbatim>\<open>app/utils/rq.py\<close> over rq as a parameter.
  \<^item> \<open>Collection\<close>: \<^verbatim>\<open>app/utils/redis_store.py\<close> over a schema. \<open>Job_Store\<close>: its instance for jobs.
    \<open>Job_Lifecycle\<close>: \<^verbatim>\<open>app/services/scheduler/utils.py\<close> and the life of a job as a step relation.
    \<open>Job_Expiry\<close>: the store of jobs over time, in which jobs expire.
  \<^item> \<open>Bookings\<close>: models and service of \<^verbatim>\<open>app/services/booking\<close>, SQL as a parameter.
  \<^item> \<open>Scheduler_Tasks\<close>, \<open>Workers\<close>, \<open>Scheduler_Service\<close>: the tasks, the workers and the service on one
    world state (Redis, rq, SQL, message server). \<open>Scheduler_Facts\<close>: what they do to it.
    \<open>Scheduler_Effects\<close>, \<open>Booking_Effects\<close>, \<open>Worker_Effects\<close>: the same for cancellations, bookings and
    the workers.
  \<^item> \<open>Payload\<close>: what the code stores in Redis. \<open>Request_Log\<close>: the collection of request logs of
    \<^verbatim>\<open>app/utils/api.py\<close>. \<open>Py_Uuid\<close>: \<open>uuid.UUID\<close> and \<^verbatim>\<open>app/utils/strings.py\<close>.
  \<^item> \<open>Auth\<close>: \<^verbatim>\<open>app/api/dependencies.py\<close> and the tokens of \<^verbatim>\<open>app/services/booking/service.py\<close>; the
    signature check, the JWT library and the encryption are fields of the record \<open>auth\<close>. \<open>Api\<close>: the
    exception handlers, the two middlewares and the routes of \<^verbatim>\<open>app/api/__init__.py\<close>.
  \<^item> \<open>Instances\<close>: concrete services for the witnesses.
  \<^item> \<open>Py_Values\<close> and \<open>Py_Json\<close>: lists, dictionaries, decimal texts and JSON values as Python has them,
    with \<^verbatim>\<open>app/libs/quantum_executor/utils/general.py\<close>.
  \<^item> \<open>Native_Config\<close>: the settings of native experiments (\<^verbatim>\<open>base/quantum_job\<close>). \<open>Quantify_Channel\<close>:
    \<^verbatim>\<open>quantify/channel.py\<close> and \<^verbatim>\<open>quantify/instruction.py\<close>, channels and their playbacks, operations as terms.
    \<open>Quantify_Schedule\<close>: \<^verbatim>\<open>quantify/experiment.py\<close>, the schedule with its barriers; \<open>Quantify_Timing\<close>: when
    its operations start.
  \<^item> \<open>Readout\<close> and \<open>Hdf5_Results\<close>: \<^verbatim>\<open>base/quantum_job/__init__.py\<close>, from points to registers and their
    hexadecimal texts, and the results in a file. \<open>Hardware_Map\<close>: \<^verbatim>\<open>quantify/utils/portclock.py\<close> and what
    \<^verbatim>\<open>quantify/executor.py\<close> reads from its configuration. \<open>Spi_Dac\<close>: \<^verbatim>\<open>quantify/spi_dac.py\<close> and
    \<open>_run_native\<close>, over modules whose currents change as time passes.
  \<^item> \<open>Device_Config\<close>, \<open>Calibration\<close>, \<open>Recalibration\<close>: \<^verbatim>\<open>app/libs/device_parameters/dtos.py\<close> and the
    recalibration of \<^verbatim>\<open>quantify/executor.py\<close>. \<open>Mss_Client\<close>: \<^verbatim>\<open>app/services/external/mss/service.py\<close>.
    \<open>Serialization\<close>: \<^verbatim>\<open>app/libs/quantum_executor/utils/serialization.py\<close>.
  \<^item> \<open>Py_Objects\<close>: Python values and the operations that fail on the wrong type. \<open>Pulse_Qobj\<close>: the classes
    of \<^verbatim>\<open>app/libs/qiskit/qobj\<close>. \<open>Job_File\<close>: \<open>JobFile\<close> and the steps of \<open>preprocess\<close> in
    \<^verbatim>\<open>app/services/scheduler/tasks.py\<close> up to the executor, \<open>QobjData\<close> and \<open>QuantumJob\<close>. \<open>Job_Hdf5\<close>: the file
    of results with its attributes. \<open>Executor_Base\<close>: \<^verbatim>\<open>base/executor.py\<close>, over compiling and running as
    fields of the record \<open>executor\<close>.
  \<^item> \<open>Qiskit_Pulse\<close>: \<^verbatim>\<open>qiskit/functions.py\<close> and \<^verbatim>\<open>qiskit/instruction.py\<close>, the pulse of the CZ gate and the
    instructions of Qiskit. \<open>Qiskit_Executor\<close>: \<^verbatim>\<open>qiskit/experiment.py\<close> and \<^verbatim>\<open>qiskit/executor.py\<close>, from a qobj
    to schedules and from simulated points to datasets. \<open>Qiskit_Backends\<close>: \<^verbatim>\<open>qiskit/backends\<close>, the
    Hamiltonians, configurations and discriminators of the two simulated devices.
  \<^item> \<open>Quantify_Metadata\<close>: \<^verbatim>\<open>quantify/utils/config.py\<close> and the set-up of the racks in
    \<^verbatim>\<open>quantify/spi_dac.py\<close>, over the instruments that exist and how pydantic reads a number.
  \<^item> \<open>Queue_Properties\<close>, \<open>Job_Properties\<close>, \<open>Booking_Properties\<close>, \<open>Scheduler_Properties\<close>,
    \<open>Api_Properties\<close>, \<open>Request_Properties\<close>, \<open>Quantify_Properties\<close>, \<open>Readout_Properties\<close>, \<open>Hdf5_Properties\<close>,
    \<open>Hardware_Properties\<close>, \<open>Spi_Properties\<close>, \<open>Device_Properties\<close>, \<open>Calibration_Properties\<close>,
    \<open>Mss_Properties\<close>, \<open>Qobj_Properties\<close>, \<open>Job_File_Properties\<close>, \<open>Submission_Properties\<close>,
    \<open>Executor_Properties\<close>, \<open>Qiskit_Properties\<close>, \<open>Qiskit_Backend_Properties\<close>, \<open>Metadata_Properties\<close>: the
    properties. \<open>Submission_Samples\<close>: a concrete job from its file to its results.

  Conventions. A handler or task reads the clock once, as the argument \<open>now\<close> in microseconds. Floats
  are exact rationals, \<open>float("inf")\<close> is \<open>Infty\<close>. A JSON or pickled text is the value it encodes. A
  timestamp text is the instant it denotes. The queues and the jobs are in one Redis. Since
  \<open>get_jobs_store\<close> builds a new collection for every use, its last cleanup is the moment of that use.
  \<open>pop_many\<close> is a generator; it is modelled with its consumer's loop body as an argument. The \<open>SCAN\<close>
  loop takes the server's number of pages as fuel, and \<open>scan_loop_total\<close> shows that this is enough.
  The loop that waits for an answer of MSS is a partial function as well, and \<open>sending_ends\<close> shows that it
  returns. \<open>from_dict\<close> takes its dictionary apart, and nothing reads it afterwards. A save of results that
  fails leaves a file of results that nothing reads; it is not in the model.
  Time to live. A command, a handler and a task happen at one moment: no field of Redis expires while
  they run, and the laws of \<open>redis_laws\<close> say nothing of time. Between them time passes, which is \<open>pass\<close> of
  the locale \<open>redis_time\<close>. \<open>Job_Expiry\<close> has commands on the store of jobs at arbitrary instants: a job is
  there for 14 days from its insertion or last update (\<open>JOBS_STORE_TTL\<close>), then it is gone. The
  theorems on handlers, tasks and routes ask of the store what \<open>jobs_ok\<close> says, and \<open>timed_jobs_wf\<close> shows
  that the store has it at every instant, also when index entries of expired jobs have stayed behind.
  The logs of requests expire too, and a nonce is refused as long as its log is there. The clock of Redis
  and the one of the program are taken to be the same.
  The loops that wait for a current may not end and are partial functions; \<open>wait_ramp_ends\<close> and
  \<open>wait_idle_ends\<close> show that they do under the law of the modules. Arrays of \<open>int8\<close> and \<open>int64\<close> wrap
  around, ticks of the schedule are integers.

  What the lemmas show. The queue is a list and the collection of jobs a map with deadlines, for every
  sequence of operations, the second without touching the first; searches by index return the jobs that match
  by value; the stages stamp and finish a job in order and never revive a finished one; bookings
  stay disjoint in every reachable database, also when users come and go; the outcome of each branch of the booking operations.
  Which requests are authenticated, what a nonce and a token are worth, and what a client sees of a
  job; the UUID check accepts exactly the canonical texts. Channels of a slot start together, one
  tick apart, and playbacks hold phase, frequency and acquisitions after each instruction; a
  measurement is read back as the qubit it was asked for; the states of a shot are the bits of its
  register up to 63 bits; saved results are read back in the order of the experiments; ramps of the
  coupler currents end where they should and an executor can undo them. A device configuration that is
  accepted couples each pair both ways; a saved calibration is read back; senders to MSS get their own
  answers and end. A qobj is the same after its dictionary, its text and the file of results, so the job
  in a file of results is the one that was uploaded, also after a simulation, and no job with a pulse
  library runs. The CZ pulse of the simulators is closed and bounded, the Hamiltonian of the pair is
  symmetric with the energies of the occupations on its diagonal, and the states that train a
  discriminator occupy their qubit only. Outputs of the racks are limited before they are used.

  Where the code is not what it means to be, the theorem says what the code does and its text says so:
  the booked queue takes jobs that are longer than the time left of the slot, a timestamp that reads as
  NaN never goes stale, cancellations miss the jobs of rq, a cancelled job can become successful, and
  a recalibration makes the next start fail.

  Not modelled. What Qiskit, Qiskit Dynamics, the fit of a discriminator and the instruments of Qblox
  compute: they are parameters. The compiler of quantify-scheduler (operations are terms that record
  their arguments) and its own configuration, which \<open>load_quantify_config\<close> only passes on; the loading
  of calibrations into their stores (\<^verbatim>\<open>app/libs/device_parameters/__init__.py\<close>), the settings of the
  process, logs, file and process I/O, and the conversions of time zones in
  \<^verbatim>\<open>app/libs/qiskit_providers\<close>, which nothing calls. Matrices have real entries, since all entries that
  the code writes are real.
\<close>

end
